(* ===== verification/Prelude.thy ===== *)
theory Prelude
  imports Main "HOL-Library.Sublist"
begin

text \<open>
  Shared groundwork of the development: the named theorem collections the component proofs
  use, generic lemmas on lists and association lists kept as database tables, and the
  state-and-error actions in which every repository and service function is written.

  An action takes a state and returns either an error or a value, together with the state it
  leaves. Go code that runs statements one after another and returns at the first error is
  \<open>and_then\<close>; an early return with an error is \<open>guard\<close> or \<open>fail\<close>.
\<close>

named_theorems act_simps \<open>equations that run actions\<close>
named_theorems act_elims \<open>inversion of a successful action\<close>
named_theorems keeps_intros \<open>closure rules for invariants of actions\<close>
named_theorems table_simps \<open>facts on tables kept as lists of rows\<close>

section \<open>Lists used as tables\<close>

definition select :: "('r \<Rightarrow> bool) \<Rightarrow> 'r list \<Rightarrow> 'r list" where
  "select p t = filter p t"

definition select_one :: "('r \<Rightarrow> bool) \<Rightarrow> 'r list \<Rightarrow> 'r option" where
  "select_one p t = find p t"

definition update_where :: "('r \<Rightarrow> bool) \<Rightarrow> ('r \<Rightarrow> 'r) \<Rightarrow> 'r list \<Rightarrow> 'r list" where
  "update_where p f t = map (\<lambda>r. if p r then f r else r) t"

definition delete_where :: "('r \<Rightarrow> bool) \<Rightarrow> 'r list \<Rightarrow> 'r list" where
  "delete_where p t = filter (\<lambda>r. \<not> p r) t"

text \<open>A unique index: no two rows that the index covers have the same key.\<close>

fun unique_on :: "('r \<Rightarrow> 'k option) \<Rightarrow> 'r list \<Rightarrow> bool" where
  "unique_on key [] = True"
| "unique_on key (r # t) =
     ((key r = None \<or> list_all (\<lambda>s. key s \<noteq> key r) t) \<and> unique_on key t)"

lemma select_one_SomeD:
  "select_one p t = Some r \<Longrightarrow> r \<in> set t \<and> p r"
  by (auto simp: select_one_def find_Some_iff)

lemma select_one_None_iff:
  "select_one p t = None \<longleftrightarrow> (\<forall>r \<in> set t. \<not> p r)"
  by (auto simp: select_one_def find_None_iff)

lemma set_update_where:
  "set (update_where p f t) = {r \<in> set t. \<not> p r} \<union> f ` {r \<in> set t. p r}"
  by (auto simp: update_where_def)

lemma set_delete_where [table_simps]: "set (delete_where p t) = {r \<in> set t. \<not> p r}"
  by (auto simp: delete_where_def)

lemma set_select [table_simps]: "set (select p t) = {r \<in> set t. p r}"
  by (auto simp: select_def)

lemma update_where_length [table_simps]: "length (update_where p f t) = length t"
  by (simp add: update_where_def)

lemma unique_on_append_one:
  "unique_on key (t @ [r]) \<longleftrightarrow>
     unique_on key t \<and> (key r = None \<or> list_all (\<lambda>s. key s \<noteq> key r) t)"
  by (induction t) auto

lemma unique_on_delete: "unique_on key t \<Longrightarrow> unique_on key (delete_where p t)"
  by (induction t) (auto simp: delete_where_def list_all_iff)

lemma unique_on_update_same_key:
  assumes "unique_on key t" and "\<And>r. r \<in> set t \<Longrightarrow> p r \<Longrightarrow> key (f r) = key r"
  shows "unique_on key (update_where p f t)"
  using assms by (induction t) (auto simp: update_where_def list_all_iff)

text \<open>
  Updating the rows that match \<open>p\<close>, when at most one does, keeps a unique index as long as
  no other row already has the new key: the check the database makes on an update.
\<close>

lemma unique_on_update_fresh_key:
  assumes "unique_on key t" and "unique_on pk t"
    and "\<And>r. p r \<Longrightarrow> pk r = Some k"
    and "\<And>r s. r \<in> set t \<Longrightarrow> p r \<Longrightarrow> s \<in> set t \<Longrightarrow> \<not> p s \<Longrightarrow> key (f r) \<noteq> None \<Longrightarrow>
           key s \<noteq> key (f r)"
  shows "unique_on key (update_where p f t)"
  using assms
proof (induction t)
  case (Cons a t)
  then have IH: "unique_on key (update_where p f t)" by simp
  show ?case
  proof (cases "p a")
    case True
    have "\<not> p s" if "s \<in> set t" for s
      using Cons.prems(2) Cons.prems(3)[OF True] Cons.prems(3)[of s] that
      by (auto simp: list_all_iff)
    with True Cons.prems(4)[of a] IH show ?thesis
      by (auto simp: update_where_def list_all_iff)
  next
    case False
    have "key (f s) \<noteq> key a" if "s \<in> set t" "p s" "key a \<noteq> None" for s
      using Cons.prems(4)[of s a] False that by (cases "key (f s)") auto
    with False IH Cons.prems(1) show ?thesis
      by (auto simp: update_where_def list_all_iff)
  qed
qed (simp add: update_where_def)

lemma unique_on_update_clear:
  assumes "unique_on key t" and "\<And>r. r \<in> set t \<Longrightarrow> p r \<Longrightarrow> key (f r) = None \<or> key (f r) = key r"
  shows "unique_on key (update_where p f t)"
  using assms
proof (induction t)
  case (Cons a t)
  then have IH: "unique_on key (update_where p f t)" by simp
  show ?case
  proof (cases "key (if p a then f a else a) = None")
    case True
    with IH show ?thesis by (simp add: update_where_def)
  next
    case False
    then have a: "key (if p a then f a else a) = key a" "key a \<noteq> None"
      using Cons.prems(2) [of a] by (auto split: if_splits)
    have ne: "key s \<noteq> key a" if "s \<in> set t" for s
      using Cons.prems(1) that a(2) by (auto simp: list_all_iff)
    have ne': "key (f s) \<noteq> key a" if "s \<in> set t" "p s" for s
      using Cons.prems(2) [of s] ne [of s] that a(2) by auto
    have "list_all (\<lambda>s. key s \<noteq> key (if p a then f a else a)) (update_where p f t)"
      unfolding update_where_def list_all_iff a(1) using ne ne' by auto
    with IH show ?thesis by (simp only: update_where_def list.map unique_on.simps) simp
  qed
qed (simp add: update_where_def)

lemma unique_on_sel:
  assumes "unique_on key t" "r \<in> set t" "s \<in> set t" "key r = Some k" "key s = Some k"
  shows "r = s"
  using assms by (induction t) (auto simp: list_all_iff)

section \<open>Actions: state and error\<close>

type_synonym ('s, 'e, 'a) act = "'s \<Rightarrow> ('e + 'a) \<times> 's"

definition ret :: "'a \<Rightarrow> ('s, 'e, 'a) act" where
  "ret a s = (Inr a, s)"

definition fail :: "'e \<Rightarrow> ('s, 'e, 'a) act" where
  "fail e s = (Inl e, s)"

definition and_then :: "('s, 'e, 'a) act \<Rightarrow> ('a \<Rightarrow> ('s, 'e, 'b) act) \<Rightarrow> ('s, 'e, 'b) act" where
  "and_then m f s = (case m s of (Inl e, s') \<Rightarrow> (Inl e, s') | (Inr a, s') \<Rightarrow> f a s')"

definition guard :: "bool \<Rightarrow> 'e \<Rightarrow> ('s, 'e, 'a) act \<Rightarrow> ('s, 'e, 'a) act" where
  "guard b e m = (if b then m else fail e)"

definition on_error :: "'e option \<Rightarrow> ('s, 'e, 'a) act \<Rightarrow> ('s, 'e, 'a) act" where
  "on_error eo m = (case eo of None \<Rightarrow> m | Some e \<Rightarrow> fail e)"

definition of_option :: "'e \<Rightarrow> 'a option \<Rightarrow> ('s, 'e, 'a) act" where
  "of_option e x = (case x of None \<Rightarrow> fail e | Some a \<Rightarrow> ret a)"

definition reads :: "('s \<Rightarrow> 'a) \<Rightarrow> ('s, 'e, 'a) act" where
  "reads f s = (Inr (f s), s)"

definition writes :: "('s \<Rightarrow> 's) \<Rightarrow> ('s, 'e, unit) act" where
  "writes f s = (Inr (), f s)"

text \<open>A loop over a list whose body may fail: \<open>for _, x := range xs\<close> with an early return.\<close>

fun for_each :: "'x list \<Rightarrow> ('x \<Rightarrow> ('s, 'e, unit) act) \<Rightarrow> ('s, 'e, unit) act" where
  "for_each [] f = ret ()"
| "for_each (x # xs) f = and_then (f x) (\<lambda>_. for_each xs f)"

lemma ret_apply [act_simps]: "ret a s = (Inr a, s)"
  by (simp add: ret_def)

lemma fail_apply [act_simps]: "fail e s = (Inl e, s)"
  by (simp add: fail_def)

lemma reads_apply [act_simps]: "reads f s = (Inr (f s), s)"
  by (simp add: reads_def)

lemma writes_apply [act_simps]: "writes f s = (Inr (), f s)"
  by (simp add: writes_def)

lemma and_then_ret [act_simps]: "and_then (ret a) f = f a"
  by (simp add: and_then_def ret_def fun_eq_iff)

lemma and_then_fail [act_simps]: "and_then (fail e) f = fail e"
  by (simp add: and_then_def fail_def fun_eq_iff)

lemma and_then_assoc: "and_then (and_then m f) g = and_then m (\<lambda>a. and_then (f a) g)"
  by (auto simp: and_then_def fun_eq_iff split: prod.splits sum.splits)

lemma and_then_reads [act_simps]: "and_then (reads g) f s = f (g s) s"
  by (simp add: and_then_def reads_def)

lemma and_then_writes [act_simps]: "and_then (writes g) f s = f () (g s)"
  by (simp add: and_then_def writes_def)

lemma guard_True [act_simps]: "guard True e m = m"
  by (simp add: guard_def)

lemma guard_False [act_simps]: "guard False e m = fail e"
  by (simp add: guard_def)

lemma on_error_None [act_simps]: "on_error None m = m"
  by (simp add: on_error_def)

lemma on_error_Some [act_simps]: "on_error (Some e) m = fail e"
  by (simp add: on_error_def)

lemma of_option_Some [act_simps]: "of_option e (Some a) = ret a"
  by (simp add: of_option_def)

lemma of_option_None [act_simps]: "of_option e None = fail e"
  by (simp add: of_option_def)

lemma and_then_InrE [act_elims]:
  assumes "and_then m f s = (Inr b, s'')"
  obtains a s' where "m s = (Inr a, s')" "f a s' = (Inr b, s'')"
  using assms by (auto simp: and_then_def split: prod.splits sum.splits)

lemma guard_InrE [act_elims]:
  assumes "guard b e m s = (Inr a, s')"
  obtains "b" "m s = (Inr a, s')"
  using assms by (auto simp: guard_def fail_def split: if_splits)

lemma on_error_InrE [act_elims]:
  assumes "on_error eo m s = (Inr a, s')"
  obtains "eo = None" "m s = (Inr a, s')"
  using assms by (auto simp: on_error_def fail_def split: option.splits)

lemma of_option_InrE [act_elims]:
  assumes "of_option e x s = (Inr a, s')"
  obtains "x = Some a" "s' = s"
  using assms by (cases x) (simp_all add: of_option_def fail_def ret_def)

lemma reads_InrE [act_elims]:
  assumes "reads f s = (Inr a, s')"
  obtains "a = f s" "s' = s"
  by (rule that; rule sym) (use assms in \<open>unfold reads_def prod.inject sum.inject, blast\<close>)+

lemma writes_InrE [act_elims]:
  assumes "writes f s = (Inr a, s')"
  obtains "s' = f s"
  by (rule that, rule sym) (use assms in \<open>unfold writes_def prod.inject sum.inject, blast\<close>)+

lemma ret_InrE [act_elims]:
  assumes "ret x s = (Inr a, s')"
  obtains "a = x" "s' = s"
  by (rule that; rule sym) (use assms in \<open>unfold ret_def prod.inject sum.inject, blast\<close>)+

lemma fail_InrE [act_elims]: "fail e s = (Inr a, s') \<Longrightarrow> P"
  by (simp add: fail_def)

section \<open>Invariants of actions\<close>

text \<open>
  \<open>keeps I m\<close>: the action takes every state that satisfies \<open>I\<close> to one that does,
  whether it succeeds or fails. The closure rules are collected in \<open>keeps_intros\<close>, so that
  an invariant of a service call follows from that of the statements it is composed of.
\<close>

definition keeps :: "('s \<Rightarrow> bool) \<Rightarrow> ('s, 'e, 'a) act \<Rightarrow> bool" where
  "keeps I m \<longleftrightarrow> (\<forall>s. I s \<longrightarrow> I (snd (m s)))"

lemma keepsI: "(\<And>s r s'. I s \<Longrightarrow> m s = (r, s') \<Longrightarrow> I s') \<Longrightarrow> keeps I m"
  unfolding keeps_def by (metis surjective_pairing)

lemma keepsD: "keeps I m \<Longrightarrow> I s \<Longrightarrow> m s = (r, s') \<Longrightarrow> I s'"
  unfolding keeps_def by (drule spec [of _ s]) simp

lemma keeps_ret [keeps_intros]: "keeps I (ret a)"
  by (simp add: keeps_def ret_def)

lemma keeps_fail [keeps_intros]: "keeps I (fail e)"
  by (simp add: keeps_def fail_def)

lemma keeps_reads [keeps_intros]: "keeps I (reads f)"
  by (simp add: keeps_def reads_def)

lemma keeps_of_option [keeps_intros]: "keeps I (of_option e x)"
  by (cases x) (simp_all add: of_option_def keeps_def ret_def fail_def)

lemma keeps_writes: "(\<And>s. I s \<Longrightarrow> I (f s)) \<Longrightarrow> keeps I (writes f)"
  by (simp add: keeps_def writes_def)

lemma keeps_and_then [keeps_intros]:
  assumes "keeps I m" and "\<And>a. keeps I (f a)"
  shows "keeps I (and_then m f)"
proof (rule keepsI)
  fix s r s'
  assume s: "I s" and run: "and_then m f s = (r, s')"
  obtain x t where m: "m s = (x, t)" by fastforce
  with assms(1) s have t: "I t" by (blast dest: keepsD)
  show "I s'"
  proof (cases x)
    case (Inl e)
    with run m t show ?thesis by (simp add: and_then_def)
  next
    case (Inr a)
    with run m have "f a t = (r, s')" by (simp add: and_then_def)
    with assms(2) t show ?thesis by (rule keepsD)
  qed
qed

lemma keeps_guard [keeps_intros]: "(b \<Longrightarrow> keeps I m) \<Longrightarrow> keeps I (guard b e m)"
  by (auto simp: guard_def keeps_fail)

lemma keeps_on_error [keeps_intros]: "(eo = None \<Longrightarrow> keeps I m) \<Longrightarrow> keeps I (on_error eo m)"
  by (cases eo) (auto simp: on_error_def keeps_fail)

lemma keeps_if [keeps_intros]:
  "(b \<Longrightarrow> keeps I m) \<Longrightarrow> (\<not> b \<Longrightarrow> keeps I n) \<Longrightarrow> keeps I (if b then m else n)"
  by simp

lemma keeps_for_each [keeps_intros]:
  "(\<And>x. x \<in> set xs \<Longrightarrow> keeps I (f x)) \<Longrightarrow> keeps I (for_each xs f)"
  by (induction xs) (auto intro: keeps_intros)

lemma keeps_conj: "keeps I m \<Longrightarrow> keeps J m \<Longrightarrow> keeps (\<lambda>s. I s \<and> J s) m"
  by (simp add: keeps_def)

lemma keeps_let [keeps_intros]: "keeps I (f x) \<Longrightarrow> keeps I (Let x f)"
  by simp

lemma keeps_case_prod [keeps_intros]:
  "(\<And>a b. x = (a, b) \<Longrightarrow> keeps I (f a b)) \<Longrightarrow> keeps I (case x of (a, b) \<Rightarrow> f a b)"
  by (cases x) simp

lemma keeps_case_option [keeps_intros]:
  "(x = None \<Longrightarrow> keeps I m) \<Longrightarrow> (\<And>a. x = Some a \<Longrightarrow> keeps I (f a)) \<Longrightarrow>
     keeps I (case x of None \<Rightarrow> m | Some a \<Rightarrow> f a)"
  by (cases x) simp_all

lemma keeps_case_sum [keeps_intros]:
  "(\<And>a. x = Inl a \<Longrightarrow> keeps I (f a)) \<Longrightarrow> (\<And>b. x = Inr b \<Longrightarrow> keeps I (g b)) \<Longrightarrow>
     keeps I (case x of Inl a \<Rightarrow> f a | Inr b \<Rightarrow> g b)"
  by (cases x) simp_all


text \<open>A run that was evaluated to a success.\<close>

lemma run_succeeded: "\<not> isl (fst r) \<Longrightarrow> r = (Inr (projr (fst r)), snd r)"
  by (cases r; cases "fst r") simp_all

end
