(* ===== verification/Domain.thy ===== *)
theory Domain
  imports Go_Strings
begin

text \<open>
  The vocabulary the bounded contexts share: the sentinel errors of \<open>internal/domain/errors.go\<close>
  and how \<open>fmt.Errorf("%w")\<close> wraps them, their mapping onto HTTP replies
  (\<open>internal/httpapi/respond/respond.go\<close>), and the role hierarchy of
  \<open>internal/platform/rbac/rbac.go\<close>.
\<close>

section \<open>Errors\<close>

datatype sentinel =
    ErrNotFound | ErrAlreadyExists | ErrInvalidState | ErrTokenExpired | ErrTokenConsumed
  | ErrInvalidCredentials | ErrAccountSuspended | ErrForbidden | ErrInvalidScope | ErrInvalidOTP
  | ErrRateLimited | ErrTermsNotAccepted

text \<open>\<open>participant.Error\<close>: a request-level failure tied to one field.\<close>

record field_error =
  fe_status :: nat
  fe_code :: string
  fe_field :: string
  fe_message :: string

text \<open>
  An error value: a sentinel itself, a sentinel wrapped with a message (\<open>errors.Is\<close> still
  finds it, \<open>==\<close> does not), a field error, or an error of the infrastructure.
\<close>

datatype go_error =
    Sentinel sentinel
  | Wrapped sentinel string
  | FieldError field_error
  | Other string

fun errors_is :: "go_error \<Rightarrow> sentinel \<Rightarrow> bool" where
  "errors_is (Sentinel s) t = (s = t)"
| "errors_is (Wrapped s m) t = (s = t)"
| "errors_is (FieldError e) t = False"
| "errors_is (Other m) t = False"

fun sentinel_text :: "sentinel \<Rightarrow> string" where
  "sentinel_text ErrNotFound = ''domain: resource not found''"
| "sentinel_text ErrAlreadyExists = ''domain: resource already exists''"
| "sentinel_text ErrInvalidState = ''domain: invalid state transition''"
| "sentinel_text ErrTokenExpired = ''domain: token expired''"
| "sentinel_text ErrTokenConsumed = ''domain: token already used''"
| "sentinel_text ErrInvalidCredentials = ''domain: invalid credentials''"
| "sentinel_text ErrAccountSuspended = ''domain: account suspended''"
| "sentinel_text ErrForbidden = ''domain: forbidden''"
| "sentinel_text ErrInvalidScope = ''domain: invalid or unauthorized scope''"
| "sentinel_text ErrInvalidOTP = ''domain: invalid or expired verification code''"
| "sentinel_text ErrRateLimited = ''domain: too many requests''"
| "sentinel_text ErrTermsNotAccepted =
     ''domain: terms of service and privacy policy must be accepted''"

text \<open>\<open>fmt.Errorf("service: %w: msg", s)\<close>\<close>

definition service_error :: "sentinel \<Rightarrow> string \<Rightarrow> go_error" where
  "service_error s msg = Wrapped s (''service: '' @ sentinel_text s @ '': '' @ msg)"

fun error_text :: "go_error \<Rightarrow> string" where
  "error_text (Sentinel s) = sentinel_text s"
| "error_text (Wrapped s m) = m"
| "error_text (FieldError e) = fe_message e"
| "error_text (Other m) = m"

text \<open>\<open>participant.invalid\<close> and \<open>participant.conflict\<close>\<close>

definition invalid :: "string \<Rightarrow> string \<Rightarrow> field_error" where
  "invalid field message =
     \<lparr>fe_status = 400, fe_code = ''invalid_request'', fe_field = field, fe_message = message\<rparr>"

definition conflict :: "string \<Rightarrow> string \<Rightarrow> string \<Rightarrow> field_error" where
  "conflict code field message =
     \<lparr>fe_status = 409, fe_code = code, fe_field = field, fe_message = message\<rparr>"

lemma fe_field_invalid [simp]: "fe_field (invalid f m) = f"
  by (simp add: invalid_def)

lemma fe_field_conflict [simp]: "fe_field (conflict c f m) = f"
  by (simp add: conflict_def)

section \<open>HTTP replies\<close>

record http_error =
  he_status :: nat
  he_code :: string
  he_message :: string

definition reply :: "nat \<Rightarrow> string \<Rightarrow> string \<Rightarrow> http_error" where
  "reply st code msg = \<lparr>he_status = st, he_code = code, he_message = msg\<rparr>"

text \<open>\<open>respond.FromServiceError\<close>: the cases of the switch, in its order.\<close>

definition from_service_error :: "go_error \<Rightarrow> http_error" where
  "from_service_error err =
     (if errors_is err ErrNotFound then reply 404 ''not_found'' ''The requested resource was not found.''
      else if errors_is err ErrAlreadyExists then reply 409 ''already_exists'' ''The resource already exists.''
      else if errors_is err ErrInvalidCredentials then reply 401 ''invalid_credentials'' ''Invalid credentials.''
      else if errors_is err ErrAccountSuspended then reply 403 ''account_suspended'' ''This account has been suspended.''
      else if errors_is err ErrForbidden then reply 403 ''forbidden'' ''You do not have permission to perform this action.''
      else if errors_is err ErrInvalidScope then reply 400 ''invalid_scope'' (error_text err)
      else if errors_is err ErrTokenExpired then reply 400 ''token_expired'' ''This token has expired.''
      else if errors_is err ErrTokenConsumed then reply 400 ''token_consumed'' ''This token has already been used.''
      else if errors_is err ErrInvalidOTP then reply 400 ''invalid_otp'' ''The verification code is invalid or has expired.''
      else if errors_is err ErrRateLimited then reply 429 ''rate_limited'' ''Too many requests. Please wait a moment and try again.''
      else if errors_is err ErrTermsNotAccepted then reply 400 ''terms_not_accepted'' ''You must accept the Terms of Service and Privacy Policy.''
      else if errors_is err ErrInvalidState then reply 400 ''invalid_request'' (error_text err)
      else reply 500 ''internal_error'' ''Something went wrong. Please try again.'')"

section \<open>Roles\<close>

text \<open>\<open>rbac.MemberRole\<close> is a Go string type: any string is a value of it.\<close>

type_synonym member_role = string

abbreviation RoleOwner :: member_role where "RoleOwner \<equiv> ''owner''"
abbreviation RoleAdmin :: member_role where "RoleAdmin \<equiv> ''admin''"
abbreviation RoleStaff :: member_role where "RoleStaff \<equiv> ''staff''"

text \<open>A Go map read of a missing key is the zero value.\<close>

definition role_rank :: "member_role \<Rightarrow> nat" where
  "role_rank r = (if r = RoleStaff then 1 else if r = RoleAdmin then 2
                  else if r = RoleOwner then 3 else 0)"

definition is_at_least :: "member_role \<Rightarrow> member_role \<Rightarrow> bool" where
  "is_at_least r m = (role_rank r \<ge> role_rank m)"

lemma is_at_least_staff [simp]:
  "is_at_least r RoleStaff \<longleftrightarrow> r = RoleStaff \<or> r = RoleAdmin \<or> r = RoleOwner"
  by (auto simp: is_at_least_def role_rank_def)

lemma is_at_least_admin [simp]:
  "is_at_least r RoleAdmin \<longleftrightarrow> r = RoleAdmin \<or> r = RoleOwner"
  by (auto simp: is_at_least_def role_rank_def)

lemma is_at_least_owner [simp]: "is_at_least r RoleOwner \<longleftrightarrow> r = RoleOwner"
  by (auto simp: is_at_least_def role_rank_def)

text \<open>\<open>requireRole\<close> of the services: the error of a role below the minimum.\<close>

definition require_role :: "member_role \<Rightarrow> member_role \<Rightarrow> go_error option" where
  "require_role actor m = (if \<not> is_at_least actor m then Some (Sentinel ErrForbidden) else None)"

end
