(* ===== verification/Participant_Model.thy ===== *)
theory Participant_Model
  imports Domain
begin

text \<open>
  The types and the database-free rules of \<open>internal/participant\<close>: \<open>participant.go\<close> (the
  structs, the blood-type spellings) and \<open>rules.go\<close> (normalisation, the field rules, the
  team composition rule).
\<close>

section \<open>Types\<close>

type_synonym gender = string
type_synonym part_status = string
type_synonym gender_category = string

abbreviation GenderMale :: gender where "GenderMale \<equiv> ''male''"
abbreviation GenderFemale :: gender where "GenderFemale \<equiv> ''female''"

definition gender_valid :: "gender \<Rightarrow> bool" where
  "gender_valid g = (g = GenderMale \<or> g = GenderFemale)"

abbreviation StatusRegistered :: part_status where "StatusRegistered \<equiv> ''registered''"
abbreviation StatusFinisher :: part_status where "StatusFinisher \<equiv> ''finisher''"
abbreviation StatusDNF :: part_status where "StatusDNF \<equiv> ''dnf''"
abbreviation StatusDNS :: part_status where "StatusDNS \<equiv> ''dns''"

definition status_valid :: "part_status \<Rightarrow> bool" where
  "status_valid s =
     (s = StatusRegistered \<or> s = StatusFinisher \<or> s = StatusDNF \<or> s = StatusDNS)"

abbreviation CategoryMale :: gender_category where "CategoryMale \<equiv> ''male''"
abbreviation CategoryFemale :: gender_category where "CategoryFemale \<equiv> ''female''"
abbreviation CategoryMixed :: gender_category where "CategoryMixed \<equiv> ''mixed''"

definition category_valid :: "gender_category \<Rightarrow> bool" where
  "category_valid c = (c = CategoryMale \<or> c = CategoryFemale \<or> c = CategoryMixed)"

record participant =
  p_id :: string
  p_tenant_id :: string
  p_event_id :: string
  p_race_id :: string
  p_team_id :: "string option"
  p_leg_order :: "int option"
  p_team_name :: "string option"
  p_first_name :: string
  p_last_name :: "string option"
  p_bib_name :: "string option"
  p_bib_number :: int
  p_gender :: gender
  p_ref_id :: "string option"
  p_email :: "string option"
  p_club :: "string option"
  p_ec_name :: "string option"
  p_ec_phone :: "string option"
  p_blood_type :: "string option"
  p_status :: part_status
  p_gun_time_ms :: "int option"
  p_net_time_ms :: "int option"
  p_total_laps :: "int option"
  p_overall_rank :: "int option"
  p_category_rank :: "int option"
  p_created_at :: int
  p_updated_at :: int

record team =
  t_id :: string
  t_tenant_id :: string
  t_event_id :: string
  t_race_id :: string
  t_name :: string
  t_gender_category :: gender_category
  t_status :: part_status
  t_gun_time_ms :: "int option"
  t_net_time_ms :: "int option"
  t_total_laps :: "int option"
  t_overall_rank :: "int option"
  t_category_rank :: "int option"
  t_created_at :: int
  t_updated_at :: int

record race_format =
  rf_id :: string
  rf_event_id :: string
  rf_name :: string
  rf_entry_type :: string
  rf_course_type :: string
  rf_team_size :: "int option"

definition is_team :: "race_format \<Rightarrow> bool" where
  "is_team r = (rf_entry_type r = ''team'')"

definition is_relay :: "race_format \<Rightarrow> bool" where
  "is_relay r = (rf_course_type r = ''relay'')"

text \<open>\<open>size := 0; if race.TeamSize != nil { size = *race.TeamSize }\<close>\<close>

definition team_size_or_0 :: "race_format \<Rightarrow> int" where
  "team_size_or_0 r = (case rf_team_size r of None \<Rightarrow> 0 | Some n \<Rightarrow> n)"

definition fmt_name :: "string \<Rightarrow> string option \<Rightarrow> string" where
  "fmt_name fname lname =
     (case lname of None \<Rightarrow> fname
      | Some l \<Rightarrow> if l = [] then fname else fname @ '' '' @ l)"

section \<open>Blood types\<close>

definition blood_types :: "string list" where
  "blood_types = [''A+'', ''A-'', ''B+'', ''B-'', ''AB+'', ''AB-'', ''O+'', ''O-'',
                  ''A'', ''B'', ''AB'', ''O'']"

definition blood_groups :: "string list" where
  "blood_groups = [''AB'', ''A'', ''B'', ''O'']"

definition normalize_blood_type :: "string \<Rightarrow> string \<times> bool" where
  "normalize_blood_type raw =
     (let s = to_upper (concat (str_fields raw)) in
      case find (\<lambda>g. has_prefix s g) blood_groups of
        None \<Rightarrow> ('''', False)
      | Some grp \<Rightarrow>
          (let s1 = trim_prefix (trim_prefix s grp) ''RH'' in
           if s1 = '''' then (grp, grp \<in> set blood_types)
           else if s1 \<in> {''+'', ''POS'', ''POSITIF'', ''POSITIVE''}
             then (grp @ ''+'', (grp @ ''+'') \<in> set blood_types)
           else if s1 \<in> {''-'', ''NEG'', ''NEGATIF'', ''NEGATIVE''}
             then (grp @ ''-'', (grp @ ''-'') \<in> set blood_types)
           else ('''', False)))"

section \<open>The writable fields, their normalisation and validation\<close>

record input =
  i_first_name :: string
  i_last_name :: "string option"
  i_bib_name :: "string option"
  i_bib_number :: int
  i_gender :: gender
  i_ref_id :: "string option"
  i_email :: "string option"
  i_club :: "string option"
  i_ec_name :: "string option"
  i_ec_phone :: "string option"
  i_blood_type :: "string option"
  i_status :: part_status
  i_team_id :: "string option"
  i_leg_order :: "int option"

definition trim_ptr :: "string option \<Rightarrow> string option" where
  "trim_ptr p = (case p of None \<Rightarrow> None
     | Some x \<Rightarrow> (let s = trim_space x in if s = '''' then None else Some s))"

text \<open>\<open>Input.Normalize\<close>: the normalised input and the unrecognised blood type, if any.\<close>

definition normalize :: "input \<Rightarrow> input \<times> string" where
  "normalize i =
     (let i1 = i\<lparr>i_first_name := trim_space (i_first_name i),
                 i_last_name := trim_ptr (i_last_name i),
                 i_bib_name := trim_ptr (i_bib_name i),
                 i_ref_id := trim_ptr (i_ref_id i),
                 i_email := trim_ptr (i_email i),
                 i_club := trim_ptr (i_club i),
                 i_ec_name := trim_ptr (i_ec_name i),
                 i_ec_phone := trim_ptr (i_ec_phone i),
                 i_team_id := trim_ptr (i_team_id i),
                 i_status := (if i_status i = '''' then StatusRegistered else i_status i)\<rparr>
      in case trim_ptr (i_blood_type i) of
           None \<Rightarrow> (i1\<lparr>i_blood_type := None\<rparr>, '''')
         | Some bt \<Rightarrow>
             (case normalize_blood_type bt of (norm, ok) \<Rightarrow>
                if ok then (i1\<lparr>i_blood_type := Some norm\<rparr>, '''')
                else (i1\<lparr>i_blood_type := None\<rparr>, bt)))"

definition valid_email :: "string \<Rightarrow> bool" where
  "valid_email s =
     (let at = index_byte CHR ''@'' s in
      at > 0 \<and> at < int (length s) - 1 \<and> CHR ''.'' \<in> set (drop (nat at) s) \<and>
      \<not> contains_any s [CHR '' '', CHR 0x09, CHR 0x0D, CHR 0x0A] \<and> length s \<le> 254)"

text \<open>\<open>Input.Validate\<close>: the first rule that fails, \<open>None\<close> when all hold.\<close>

definition validate_team_id :: "input \<Rightarrow> race_format \<Rightarrow> field_error option" where
  "validate_team_id i race =
     (if is_team race
      then (if i_team_id i = None
            then Some (invalid ''team_id'' ''team_id is required for a team race.'') else None)
      else (if i_team_id i \<noteq> None
            then Some (invalid ''team_id'' ''team_id must be empty for an individual race.'')
            else None))"

definition validate_leg_order :: "input \<Rightarrow> race_format \<Rightarrow> field_error option" where
  "validate_leg_order i race =
     (if is_relay race
      then (case i_leg_order i of
              None \<Rightarrow> Some (invalid ''leg_order'' ''leg_order is required for a relay race.'')
            | Some l \<Rightarrow>
                if l < 1 \<or> l > team_size_or_0 race
                then Some (invalid ''leg_order''
                       (''leg_order must be between 1 and '' @ itoa (team_size_or_0 race) @ ''.''))
                else None)
      else (if i_leg_order i \<noteq> None
            then Some (invalid ''leg_order'' ''leg_order is only used in relay races.'')
            else None))"

definition validate :: "input \<Rightarrow> race_format \<Rightarrow> field_error option" where
  "validate i race =
     (if i_first_name i = '''' then Some (invalid ''first_name'' ''first_name is required.'')
      else if i_bib_number i \<le> 0
        then Some (invalid ''bib_number'' ''bib_number must be a positive number.'')
      else if \<not> gender_valid (i_gender i)
        then Some (invalid ''gender'' ''gender must be male or female.'')
      else if \<not> status_valid (i_status i) then Some (invalid ''status'' ''status is not valid.'')
      else if (case i_email i of None \<Rightarrow> False | Some e \<Rightarrow> \<not> valid_email e)
        then Some (invalid ''email'' ''email is not a valid address.'')
      else case validate_team_id i race of
             Some e \<Rightarrow> Some e
           | None \<Rightarrow> validate_leg_order i race)"

section \<open>Team rules\<close>

text \<open>\<open>CheckTeamComposition\<close>: an error or none, and a warning text ("" for none).\<close>

definition mixed_message :: string where
  "mixed_message = ''a mixed team needs at least one male and one female member.''"

definition check_team_composition ::
  "gender_category \<Rightarrow> int \<Rightarrow> gender list \<Rightarrow> field_error option \<times> string" where
  "check_team_composition category team_size genders =
     (if category = CategoryMale \<or> category = CategoryFemale
      then (if list_ex (\<lambda>g. g \<noteq> category) genders
            then (Some (invalid ''gender''
                    (''a '' @ category @ '' team can only have '' @ category @ '' members.'')), '''')
            else (None, ''''))
      else if category = CategoryMixed
      then (if \<not> (list_ex (\<lambda>g. g = GenderMale) genders \<and> list_ex (\<lambda>g. g = GenderFemale) genders)
            then (if team_size > 0 \<and> int (length genders) \<ge> team_size
                  then (Some (invalid ''gender'' mixed_message), '''')
                  else (None, mixed_message))
            else (None, ''''))
      else (None, ''''))"

definition validate_team :: "string \<Rightarrow> gender_category \<Rightarrow> race_format \<Rightarrow> field_error option" where
  "validate_team name category race =
     (if trim_space name = '''' then Some (invalid ''name'' ''name is required.'')
      else if \<not> category_valid category
        then Some (invalid ''gender_category'' ''gender_category must be male, female or mixed.'')
      else if \<not> is_team race then Some (invalid ''race_id'' ''teams only exist in team races.'')
      else None)"

section \<open>Properties of the rules\<close>

lemma trim_ptr_idem [simp]: "trim_ptr (trim_ptr p) = trim_ptr p"
  by (auto simp: trim_ptr_def Let_def split: option.splits)

lemma trim_ptr_None [simp]: "trim_ptr None = None"
  by (simp add: trim_ptr_def)

lemma blood_types_stable:
  "list_all (\<lambda>b. normalize_blood_type b = (b, True) \<and> trim_space b = b \<and> b \<noteq> '''') blood_types"
  by code_simp

lemma normalize_blood_type_sound:
  "normalize_blood_type raw = (out, True) \<Longrightarrow> out \<in> set blood_types"
  by (auto simp: normalize_blood_type_def Let_def split: option.splits if_splits)

lemma normalize_blood_type_fixed:
  "b \<in> set blood_types \<Longrightarrow> normalize_blood_type b = (b, True) \<and> trim_ptr (Some b) = Some b"
  using blood_types_stable by (auto simp: list_all_iff trim_ptr_def)

text \<open>Normalising an input a second time changes nothing and never reports a bad blood
type: what \<open>Input.Normalize\<close> leaves is in normal form, whatever the request contained.\<close>

theorem normalize_idempotent: "normalize (fst (normalize i)) = (fst (normalize i), '''')"
proof -
  consider "trim_ptr (i_blood_type i) = None"
    | bt nb where "trim_ptr (i_blood_type i) = Some bt" "normalize_blood_type bt = (nb, True)"
    | bt nb where "trim_ptr (i_blood_type i) = Some bt" "normalize_blood_type bt = (nb, False)"
    by (metis (full_types) option.exhaust surj_pair)
  then show ?thesis
  proof cases
    case (2 bt nb)
    from normalize_blood_type_fixed [OF normalize_blood_type_sound [OF 2(2)]] 2
    show ?thesis by (simp add: normalize_def Let_def)
  qed (simp_all add: normalize_def Let_def)
qed

lemma normalize_team_blank:
  "i_team_id (fst (normalize i)) = trim_ptr (i_team_id i)"
  by (simp add: normalize_def Let_def split: option.splits prod.splits)

lemma normalize_leg_bib [simp]:
  "i_leg_order (fst (normalize i)) = i_leg_order i"
  "i_bib_number (fst (normalize i)) = i_bib_number i"
  "i_gender (fst (normalize i)) = i_gender i"
  by (simp_all add: normalize_def Let_def split: option.splits prod.splits)

text \<open>\<open>Input.Validate\<close> accepts exactly the inputs with a name, a positive BIB, a known
gender and status, a well-formed e-mail if any, a team exactly in team races, and a leg between
1 and the team size exactly in relay races. The first-failing-rule cascade loses no rule.\<close>

theorem validate_accepts_iff:
  "validate i race = None \<longleftrightarrow>
     i_first_name i \<noteq> '''' \<and> 0 < i_bib_number i \<and>
     i_gender i \<in> {GenderMale, GenderFemale} \<and>
     i_status i \<in> {StatusRegistered, StatusFinisher, StatusDNF, StatusDNS} \<and>
     (case i_email i of None \<Rightarrow> True | Some e \<Rightarrow> valid_email e) \<and>
     (i_team_id i \<noteq> None \<longleftrightarrow> is_team race) \<and>
     (case i_leg_order i of None \<Rightarrow> \<not> is_relay race
      | Some l \<Rightarrow> is_relay race \<and> 1 \<le> l \<and> l \<le> team_size_or_0 race)"
  by (auto simp: validate_def validate_team_id_def validate_leg_order_def gender_valid_def
      status_valid_def split: option.splits if_splits)

text \<open>The team's genders as a finished team must have them.\<close>

definition composition_ok :: "gender_category \<Rightarrow> gender list \<Rightarrow> bool" where
  "composition_ok c gs =
     (if c = CategoryMixed then GenderMale \<in> set gs \<and> GenderFemale \<in> set gs
      else list_all (\<lambda>g. g = c) gs)"

lemma category_validE:
  assumes "category_valid c"
  obtains "c = CategoryMale" | "c = CategoryFemale" | "c = CategoryMixed"
  using assms by (auto simp: category_valid_def)

lemma not_list_all_iff: "list_ex (\<lambda>g. g \<noteq> c) gs \<longleftrightarrow> \<not> list_all (\<lambda>g. g = c) gs"
  by (simp add: list_ex_iff list_all_iff)

lemma list_ex_eq_iff: "list_ex (\<lambda>g. g = c) gs \<longleftrightarrow> c \<in> set gs"
  by (auto simp: list_ex_iff)

lemma check_team_composition_gendered:
  "c = CategoryMale \<or> c = CategoryFemale \<Longrightarrow>
     fst (check_team_composition c sz gs) = None \<longleftrightarrow> composition_ok c gs"
  by (elim disjE) (simp_all add: check_team_composition_def composition_ok_def not_list_all_iff)

lemma check_team_composition_mixed:
  "fst (check_team_composition CategoryMixed sz gs) = None \<longleftrightarrow>
     composition_ok CategoryMixed gs \<or> sz \<le> 0 \<or> int (length gs) < sz"
  by (simp add: check_team_composition_def composition_ok_def list_ex_eq_iff not_less not_le)

lemma check_team_composition_ok:
  "category_valid c \<Longrightarrow> composition_ok c gs \<Longrightarrow> check_team_composition c sz gs = (None, '''')"
  by (elim category_validE)
    (simp_all add: check_team_composition_def composition_ok_def not_list_all_iff list_ex_eq_iff)

lemma check_team_composition_full:
  assumes "category_valid c" "0 < sz" "sz \<le> int (length gs)"
  shows "fst (check_team_composition c sz gs) = None \<longleftrightarrow> composition_ok c gs"
  using assms(1)
proof (cases rule: category_validE)
  case 3
  with assms(2,3) show ?thesis by (simp add: check_team_composition_mixed)
qed (rule check_team_composition_gendered, simp)+

lemma mixed_completion:
  assumes "\<forall>g \<in> set gs. gender_valid g" and "0 < n" and "2 \<le> length gs + n"
  shows "\<exists>ext. (\<forall>g \<in> set ext. gender_valid g) \<and> length ext = n \<and>
           composition_ok CategoryMixed (gs @ ext)"
proof (cases "n = 1")
  case True
  with assms(3) obtain g gs' where gs: "gs = g # gs'" by (cases gs) auto
  with assms(1) have "g = GenderMale \<or> g = GenderFemale" by (simp add: gender_valid_def)
  with gs True show ?thesis
    by (intro exI [of _ "[if g = GenderMale then GenderFemale else GenderMale]"])
      (auto simp: composition_ok_def gender_valid_def)
next
  case False
  with assms(2) show ?thesis
    by (intro exI [of _ "GenderMale # GenderFemale # replicate (n - 2) GenderMale"])
      (auto simp: composition_ok_def gender_valid_def)
qed

text \<open>C3: the composition rule never leads into a dead end: a team of at least two that is
still filling up and passes \<open>CheckTeamComposition\<close> can always be completed to a full team
that passes it without a warning.\<close>

theorem team_composition_completable:
  fixes sz :: int
  assumes "category_valid c" and "2 \<le> sz" and "\<forall>g \<in> set gs. gender_valid g"
    and "int (length gs) < sz" and "fst (check_team_composition c sz gs) = None"
  shows "\<exists>ext. (\<forall>g \<in> set ext. gender_valid g) \<and> int (length (gs @ ext)) = sz \<and>
           check_team_composition c sz (gs @ ext) = (None, '''')"
proof -
  define n where "n = nat sz - length gs"
  have n: "0 < n" "2 \<le> length gs + n" "int (length gs + n) = sz"
    using assms(2,4) by (auto simp: n_def)
  have "\<exists>ext. (\<forall>g \<in> set ext. gender_valid g) \<and> length ext = n \<and> composition_ok c (gs @ ext)"
  proof (cases "c = CategoryMixed")
    case True
    with mixed_completion [OF assms(3) n(1,2)] show ?thesis by simp
  next
    case False
    with assms(1) have c: "c = GenderMale \<or> c = GenderFemale" by (simp add: category_valid_def)
    with assms(5) have "composition_ok c gs" by (simp add: check_team_composition_gendered)
    with c have "composition_ok c (gs @ replicate n c)"
      by (simp add: composition_ok_def list_all_iff ball_Un set_replicate_conv_if split: if_splits)
    with c show ?thesis
      by (intro exI [of _ "replicate n c"]) (simp add: gender_valid_def)
  qed
  then obtain ext where "\<forall>g \<in> set ext. gender_valid g" "length ext = n" "composition_ok c (gs @ ext)"
    by blast
  with n assms(1) show ?thesis
    by (intro exI [of _ ext]) (simp add: check_team_composition_ok)
qed

theorem team_composition_completable_witness:
  "\<exists>ext. (\<forall>g \<in> set ext. gender_valid g) \<and> int (length ([GenderMale] @ ext)) = 3 \<and>
     check_team_composition CategoryMixed 3 ([GenderMale] @ ext) = (None, '''')"
  by (rule team_composition_completable)
    (simp_all add: category_valid_def gender_valid_def check_team_composition_def)

end
