(* ===== verification/Import_Plan.thy ===== *)
theory Import_Plan
  imports Participant_Model
begin

text \<open>
  The planner of the bulk registration import, \<open>internal/participant/import.go\<close>:
  \<open>PlanImport\<close> decides, from the rows and the event's current data, what every row would do.
  The Go code fills \<open>plan.Rows\<close> in place; here each pass takes the list of row plans and
  returns the new one.
\<close>

section \<open>Types\<close>

datatype issue_level = IssueError | IssueWarning

record issue =
  is_level :: issue_level
  is_field :: string
  is_message :: string

text \<open>\<open>RowAction\<close>; \<open>ActionNone\<close> is Go's zero value, a row not decided yet.\<close>

datatype row_action = ActionNone | ActionCreate | ActionUpdate | ActionSkip | ActionError

record import_row =
  ir_line :: int
  ir_input :: input
  ir_race_id :: string
  ir_team_name :: string
  ir_team_category :: gender_category
  ir_bad_blood_type :: string

record existing_participant =
  ep_id :: string
  ep_race_id :: string
  ep_bib_number :: int
  ep_ref_id :: "string option"
  ep_team_id :: "string option"
  ep_leg_order :: "int option"
  ep_gender :: gender

record existing_team =
  et_id :: string
  et_race_id :: string
  et_name :: string
  et_category :: gender_category
  et_members :: "existing_participant list"

record plan_input =
  pi_rows :: "import_row list"
  pi_update_existing :: bool
  pi_races :: "string \<Rightarrow> race_format option"
  pi_existing :: "existing_participant list"
  pi_teams :: "existing_team list"

record team_ref =
  tr_existing_id :: string
  tr_new_key :: string

record planned_team =
  pt_key :: string
  pt_race_id :: string
  pt_name :: string
  pt_category :: gender_category

record row_plan =
  rp_line :: int
  rp_bib_number :: int
  rp_name :: string
  rp_action :: row_action
  rp_issues :: "issue list"
  rp_existing_id :: string
  rp_team :: "team_ref option"

record plan =
  pl_rows :: "row_plan list"
  pl_new_teams :: "planned_team list"

section \<open>Row plans\<close>

definition count_action :: "row_action \<Rightarrow> row_plan list \<Rightarrow> nat" where
  "count_action a rows = length (filter (\<lambda>r. rp_action r = a) rows)"

text \<open>\<open>Plan.Counts\<close>: create, update, skip, error.\<close>

definition plan_counts :: "plan \<Rightarrow> nat \<times> nat \<times> nat \<times> nat" where
  "plan_counts p = (count_action ActionCreate (pl_rows p), count_action ActionUpdate (pl_rows p),
     count_action ActionSkip (pl_rows p), count_action ActionError (pl_rows p))"

definition has_error :: "row_plan \<Rightarrow> bool" where
  "has_error r = list_ex (\<lambda>i. is_level i = IssueError) (rp_issues r)"

definition add_error :: "string \<Rightarrow> string \<Rightarrow> row_plan \<Rightarrow> row_plan" where
  "add_error field msg r =
     r\<lparr>rp_issues := rp_issues r @ [\<lparr>is_level = IssueError, is_field = field, is_message = msg\<rparr>]\<rparr>"

definition add_warning :: "string \<Rightarrow> string \<Rightarrow> row_plan \<Rightarrow> row_plan" where
  "add_warning field msg r =
     r\<lparr>rp_issues := rp_issues r @ [\<lparr>is_level = IssueWarning, is_field = field, is_message = msg\<rparr>]\<rparr>"

definition team_key :: "string \<Rightarrow> string \<Rightarrow> string" where
  "team_key race_id name = race_id @ ''|'' @ to_lower (trim_space name)"

abbreviation pending_team :: string where "pending_team \<equiv> ''pending''"

section \<open>Pass 1: each row on its own\<close>

text \<open>The lookup maps; a later entry with the same key wins, as in the Go loops.\<close>

definition by_bib :: "existing_participant list \<Rightarrow> int \<Rightarrow> existing_participant option" where
  "by_bib es = fold (\<lambda>e m. m(ep_bib_number e \<mapsto> e)) es Map.empty"

definition by_ref :: "existing_participant list \<Rightarrow> string \<Rightarrow> existing_participant option" where
  "by_ref es = fold (\<lambda>e m. case ep_ref_id e of None \<Rightarrow> m | Some r \<Rightarrow> m(r \<mapsto> e)) es Map.empty"

definition file_bibs :: "import_row list \<Rightarrow> int \<Rightarrow> nat" where
  "file_bibs rows b = length (filter (\<lambda>r. i_bib_number (ir_input r) = b) rows)"

definition file_refs :: "import_row list \<Rightarrow> string \<Rightarrow> nat" where
  "file_refs rows ref = length (filter (\<lambda>r. i_ref_id (ir_input r) = Some ref) rows)"

definition start_row :: "import_row \<Rightarrow> row_plan" where
  "start_row row =
     (let rp = \<lparr>rp_line = ir_line row, rp_bib_number = i_bib_number (ir_input row),
                rp_name = fmt_name (i_first_name (ir_input row)) (i_last_name (ir_input row)),
                rp_action = ActionNone, rp_issues = [], rp_existing_id = '''', rp_team = None\<rparr>
      in if ir_bad_blood_type row \<noteq> ''''
         then add_warning ''blood_type''
                (''blood type '' @ go_quote (ir_bad_blood_type row) @ '' not recognised, ignored'') rp
         else rp)"

text \<open>The field rules of a row and the duplicates within the file.\<close>

definition row_rules :: "plan_input \<Rightarrow> import_row \<Rightarrow> race_format \<Rightarrow> row_plan \<Rightarrow> row_plan" where
  "row_rules pin row race rp =
     (let inp = (if is_team race then (ir_input row)\<lparr>i_team_id := Some pending_team\<rparr>
                 else ir_input row);
          rp1 = (if is_team race \<and> ir_team_name row = ''''
                 then add_error ''team_name'' ''team name is required for a team race'' rp else rp);
          rp2 = (case validate inp race of
                   None \<Rightarrow> rp1
                 | Some err \<Rightarrow>
                     if is_team race \<and> ir_team_name row = '''' \<and> fe_field err = ''team_id'' then rp1
                     else add_error (fe_field err) (fe_message err) rp1);
          bib = i_bib_number (ir_input row);
          rp3 = (if bib > 0 \<and> file_bibs (pi_rows pin) bib > 1
                 then add_error ''bib_number''
                        (''BIB '' @ itoa bib @ '' appears '' @
                         itoa (int (file_bibs (pi_rows pin) bib)) @ '' times in this file'') rp2
                 else rp2)
      in case i_ref_id (ir_input row) of
           None \<Rightarrow> rp3
         | Some ref \<Rightarrow>
             if file_refs (pi_rows pin) ref > 1
             then add_error ''ref_id''
                    (''ref_id '' @ go_quote ref @ '' appears '' @
                     itoa (int (file_refs (pi_rows pin) ref)) @ '' times in this file'') rp3
             else rp3)"

text \<open>Match an existing participant: \<open>ref_id\<close> first, BIB otherwise.\<close>

definition match_row ::
  "plan_input \<Rightarrow> import_row \<Rightarrow> row_plan \<Rightarrow> row_plan \<times> existing_participant option" where
  "match_row pin row rp =
     (let bib = i_bib_number (ir_input row); other = by_bib (pi_existing pin) bib in
      case i_ref_id (ir_input row) of
        Some ref \<Rightarrow>
          (case by_ref (pi_existing pin) ref of
             Some e \<Rightarrow>
               (if ep_bib_number e \<noteq> bib
                then (case other of
                        Some x \<Rightarrow>
                          if ep_id x \<noteq> ep_id e
                          then (add_error ''bib_number''
                                  (''BIB '' @ itoa bib @ '' already belongs to another participant'') rp,
                                Some e)
                          else (add_warning ''bib_number''
                                  (''BIB changes from '' @ itoa (ep_bib_number e) @ '' to '' @ itoa bib) rp,
                                Some e)
                      | None \<Rightarrow>
                          (add_warning ''bib_number''
                             (''BIB changes from '' @ itoa (ep_bib_number e) @ '' to '' @ itoa bib) rp,
                           Some e))
                else (rp, Some e))
           | None \<Rightarrow>
               (case other of
                  Some x \<Rightarrow>
                    if ep_ref_id x \<noteq> None
                    then (add_error ''bib_number''
                            (''BIB '' @ itoa bib @ '' belongs to another registration'') rp, None)
                    else (rp, Some x)
                | None \<Rightarrow> (rp, None)))
      | None \<Rightarrow> (rp, other))"

definition decide_row :: "plan_input \<Rightarrow> existing_participant option \<Rightarrow> row_plan \<Rightarrow> row_plan" where
  "decide_row pin mt rp =
     (case mt of
        None \<Rightarrow> rp\<lparr>rp_action := ActionCreate\<rparr>
      | Some e \<Rightarrow>
          if pi_update_existing pin
          then add_warning ''bib_number''
                 (''BIB '' @ itoa (ep_bib_number e) @ '' already exists; it will be updated'')
                 (rp\<lparr>rp_action := ActionUpdate, rp_existing_id := ep_id e\<rparr>)
          else add_warning ''bib_number''
                 (''BIB '' @ itoa (ep_bib_number e) @ '' already exists; skipped'')
                 (rp\<lparr>rp_action := ActionSkip, rp_existing_id := ep_id e\<rparr>))"

definition plan_row :: "plan_input \<Rightarrow> import_row \<Rightarrow> row_plan" where
  "plan_row pin row =
     (let rp = start_row row in
      case pi_races pin (ir_race_id row) of
        None \<Rightarrow> (add_error ''race_id'' ''race not found in this event'' rp)\<lparr>rp_action := ActionError\<rparr>
      | Some race \<Rightarrow>
          (let rp1 = row_rules pin row race rp in
           if has_error rp1 then rp1\<lparr>rp_action := ActionError\<rparr>
           else case match_row pin row rp1 of (rp2, mt) \<Rightarrow>
             if has_error rp2 then rp2\<lparr>rp_action := ActionError\<rparr>
             else decide_row pin mt rp2))"

section \<open>Pass 2: the teams\<close>

definition teams_by_key :: "existing_team list \<Rightarrow> string \<Rightarrow> existing_team option" where
  "teams_by_key ts = fold (\<lambda>t m. m(team_key (et_race_id t) (et_name t) \<mapsto> t)) ts Map.empty"

text \<open>\<open>in.Races[id]\<close> read without the second result: a missing race is not a team race.\<close>

definition race_is_team :: "plan_input \<Rightarrow> string \<Rightarrow> bool" where
  "race_is_team pin rid = (case pi_races pin rid of None \<Rightarrow> False | Some r \<Rightarrow> is_team r)"

definition race_size :: "plan_input \<Rightarrow> string \<Rightarrow> int" where
  "race_size pin rid = (case pi_races pin rid of None \<Rightarrow> 0 | Some r \<Rightarrow> team_size_or_0 r)"

definition applies :: "row_plan \<Rightarrow> bool" where
  "applies rp \<longleftrightarrow> rp_action rp = ActionCreate \<or> rp_action rp = ActionUpdate"

definition joins_team :: "plan_input \<Rightarrow> row_plan list \<Rightarrow> nat \<Rightarrow> bool" where
  "joins_team pin rows i \<longleftrightarrow>
     applies (rows ! i) \<and> race_is_team pin (ir_race_id (pi_rows pin ! i)) \<and>
     ir_team_name (pi_rows pin ! i) \<noteq> ''''"

definition row_key :: "plan_input \<Rightarrow> nat \<Rightarrow> string" where
  "row_key pin i = team_key (ir_race_id (pi_rows pin ! i)) (ir_team_name (pi_rows pin ! i))"

text \<open>\<open>groups\<close> and \<open>order\<close> together: the keys in the order they are first seen, each with
its rows in file order.\<close>

fun add_to_group :: "string \<Rightarrow> nat \<Rightarrow> (string \<times> nat list) list \<Rightarrow> (string \<times> nat list) list" where
  "add_to_group k i [] = [(k, [i])]"
| "add_to_group k i ((k', idx) # gs) =
     (if k' = k then (k', idx @ [i]) # gs else (k', idx) # add_to_group k i gs)"

definition team_groups :: "plan_input \<Rightarrow> row_plan list \<Rightarrow> (string \<times> nat list) list" where
  "team_groups pin rows =
     fold (\<lambda>i gs. if joins_team pin rows i then add_to_group (row_key pin i) i gs else gs)
       [0..<length (pi_rows pin)] []"

definition at_row :: "nat \<Rightarrow> (row_plan \<Rightarrow> row_plan) \<Rightarrow> row_plan list \<Rightarrow> row_plan list" where
  "at_row i f rows = rows[i := f (rows ! i)]"

definition at_rows :: "nat list \<Rightarrow> (row_plan \<Rightarrow> row_plan) \<Rightarrow> row_plan list \<Rightarrow> row_plan list" where
  "at_rows idx f rows = fold (\<lambda>i rs. at_row i f rs) idx rows"

text \<open>The category of a new team: the first one its rows state ("" when none does).\<close>

definition stated_category :: "plan_input \<Rightarrow> nat list \<Rightarrow> gender_category" where
  "stated_category pin idx =
     (case find (\<lambda>i. ir_team_category (pi_rows pin ! i) \<noteq> '''') idx of
        None \<Rightarrow> '''' | Some i \<Rightarrow> ir_team_category (pi_rows pin ! i))"

text \<open>Members that stay: existing ones this file does not re-register.\<close>

definition staying_members ::
  "row_plan list \<Rightarrow> nat list \<Rightarrow> existing_participant list \<Rightarrow> existing_participant list" where
  "staying_members rows idx members =
     filter (\<lambda>m. \<not> list_ex (\<lambda>i. rp_existing_id (rows ! i) \<noteq> '''' \<and> rp_existing_id (rows ! i) = ep_id m) idx)
       members"

definition used_legs :: "existing_participant list \<Rightarrow> int list" where
  "used_legs ms = concat (map (\<lambda>m. case ep_leg_order m of None \<Rightarrow> [] | Some l \<Rightarrow> [l]) ms)"

record join_state =
  js_rows :: "row_plan list"
  js_legs :: "int list"
  js_capacity :: int
  js_accepted :: "nat list"
  js_genders :: "gender list"

text \<open>One turn of the loop that admits the rows of a group one by one.\<close>

definition join_row :: "plan_input \<Rightarrow> string \<Rightarrow> int \<Rightarrow> nat \<Rightarrow> join_state \<Rightarrow> join_state" where
  "join_row pin tname sz i s =
     (let leg = i_leg_order (ir_input (pi_rows pin ! i));
          rows1 = (case leg of
                     None \<Rightarrow> js_rows s
                   | Some l \<Rightarrow>
                       if l \<in> set (js_legs s)
                       then at_row i (add_error ''leg_order''
                              (''team '' @ go_quote tname @ '': leg '' @ itoa l @ '' is used twice''))
                              (js_rows s)
                       else js_rows s);
          legs1 = (case leg of None \<Rightarrow> js_legs s | Some l \<Rightarrow> l # js_legs s);
          rows2 = (if js_capacity s \<le> 0
                   then at_row i (add_error ''team_name''
                          (''team '' @ go_quote tname @ '' would exceed '' @ itoa sz @ '' members''))
                          rows1
                   else rows1);
          ok = \<not> has_error (rows2 ! i)
      in \<lparr>js_rows = rows2, js_legs = legs1, js_capacity = js_capacity s - 1,
          js_accepted = (if ok then js_accepted s @ [i] else js_accepted s),
          js_genders = (if ok then js_genders s @ [i_gender (ir_input (pi_rows pin ! i))]
                        else js_genders s)\<rparr>)"

text \<open>The part of the loop body after a team's category is known.\<close>

definition admit_group ::
  "plan_input \<Rightarrow> existing_team option \<Rightarrow> gender_category \<Rightarrow> string \<Rightarrow> nat list \<Rightarrow>
     row_plan list \<times> planned_team list \<Rightarrow> row_plan list \<times> planned_team list" where
  "admit_group pin found category key idx st =
     (case st of (rows, new_teams) \<Rightarrow>
       let frow = pi_rows pin ! hd idx;
           tname = ir_team_name frow;
           sz = race_size pin (ir_race_id frow);
           members = (case found of None \<Rightarrow> [] | Some t \<Rightarrow> et_members t);
           staying = staying_members rows idx members;
           js = fold (join_row pin tname sz) idx
                  \<lparr>js_rows = rows, js_legs = used_legs staying,
                   js_capacity = sz - int (length staying), js_accepted = [],
                   js_genders = map ep_gender staying\<rparr>;
           acc = js_accepted js; rows1 = js_rows js
       in if acc = [] then (rows1, new_teams)
          else case check_team_composition category sz (js_genders js) of
            (Some cerr, w) \<Rightarrow>
              (at_rows acc (add_error (fe_field cerr)
                 (''team '' @ go_quote tname @ '': '' @ fe_message cerr)) rows1, new_teams)
          | (None, warn) \<Rightarrow>
              (let rows2 = (if warn \<noteq> ''''
                            then at_row (hd acc) (add_warning ''gender''
                                   (''team '' @ go_quote tname @ '': '' @ warn)) rows1
                            else rows1);
                   total = length staying + length acc;
                   rows3 = (if int total < sz
                            then at_row (hd acc) (add_warning ''team_name''
                                   (''team '' @ go_quote tname @ '' has '' @ itoa (int total) @
                                    '' of '' @ itoa sz @ '' members'')) rows2
                            else rows2);
                   tref = (case found of
                             Some t \<Rightarrow> \<lparr>tr_existing_id = et_id t, tr_new_key = ''''\<rparr>
                           | None \<Rightarrow> \<lparr>tr_existing_id = '''', tr_new_key = key\<rparr>);
                   new_teams1 = (case found of
                             Some t \<Rightarrow> new_teams
                           | None \<Rightarrow> new_teams @
                               [\<lparr>pt_key = key, pt_race_id = ir_race_id frow,
                                 pt_name = trim_space tname, pt_category = category\<rparr>])
               in (at_rows acc (\<lambda>r. r\<lparr>rp_team := Some tref\<rparr>) rows3, new_teams1)))"

text \<open>One turn of the loop over the teams of the file.\<close>

definition plan_group ::
  "plan_input \<Rightarrow> string \<times> nat list \<Rightarrow> row_plan list \<times> planned_team list \<Rightarrow>
     row_plan list \<times> planned_team list" where
  "plan_group pin g st =
     (case g of (key, idx) \<Rightarrow> case st of (rows, new_teams) \<Rightarrow>
       case teams_by_key (pi_teams pin) key of
         Some t \<Rightarrow> admit_group pin (Some t) (et_category t) key idx (rows, new_teams)
       | None \<Rightarrow>
           (let category = stated_category pin idx;
                tname = ir_team_name (pi_rows pin ! hd idx)
            in if category = ''''
               then (at_rows idx (add_error ''team_category''
                       (''new team '' @ go_quote tname @ '' needs a category'')) rows, new_teams)
               else if \<not> category_valid category
               then (at_rows idx (add_error ''team_category''
                       ''team category must be male, female or mixed'') rows, new_teams)
               else admit_group pin None category key idx (rows, new_teams)))"

text \<open>A row that picked up an error no longer applies, and a team nobody could join is not
created.\<close>

definition settle_row :: "row_plan \<Rightarrow> row_plan" where
  "settle_row rp =
     (if has_error rp then rp\<lparr>rp_action := ActionError, rp_team := None\<rparr> else rp)"

definition used_key :: "row_plan list \<Rightarrow> string \<Rightarrow> bool" where
  "used_key rows k =
     list_ex (\<lambda>rp. case rp_team rp of None \<Rightarrow> False
                 | Some tr \<Rightarrow> tr_new_key tr \<noteq> '''' \<and> tr_new_key tr = k) rows"

definition plan_teams :: "plan_input \<Rightarrow> row_plan list \<Rightarrow> plan" where
  "plan_teams pin rows0 =
     (case fold (plan_group pin) (team_groups pin rows0) (rows0, []) of
        (rows, new_teams) \<Rightarrow>
          (let settled = map settle_row rows
           in \<lparr>pl_rows = settled,
               pl_new_teams = filter (\<lambda>t. used_key settled (pt_key t)) new_teams\<rparr>))"

definition plan_import :: "plan_input \<Rightarrow> plan" where
  "plan_import pin = plan_teams pin (map (plan_row pin) (pi_rows pin))"

end
