(* ===== verification/Import_Plan_Props.thy ===== *)
theory Import_Plan_Props
  imports Import_Plan
begin

text \<open>
  Correctness of the import planner: no pass loses, reorders or relabels a row; an issue once
  recorded is never dropped; the rows that will be applied have distinct BIBs and references,
  never collide with a stored participant they do not update, and the team they are put in has
  room for them, free legs and a legal composition.
\<close>

section \<open>Frame: what the passes may change\<close>

definition extends_row :: "row_plan \<Rightarrow> row_plan \<Rightarrow> bool" where
  "extends_row r s \<longleftrightarrow>
     rp_line s = rp_line r \<and> rp_bib_number s = rp_bib_number r \<and> rp_name s = rp_name r \<and>
     rp_action s = rp_action r \<and> rp_existing_id s = rp_existing_id r \<and>
     prefix (rp_issues r) (rp_issues s)"

abbreviation extends_rows :: "row_plan list \<Rightarrow> row_plan list \<Rightarrow> bool" where
  "extends_rows \<equiv> list_all2 extends_row"

lemma extends_row_refl [simp]: "extends_row r r"
  by (simp add: extends_row_def)

lemma extends_row_trans: "extends_row r s \<Longrightarrow> extends_row s t \<Longrightarrow> extends_row r t"
  unfolding extends_row_def using prefix_order.trans by auto

lemma extends_row_error: "extends_row r s \<Longrightarrow> has_error r \<Longrightarrow> has_error s"
  by (auto simp: extends_row_def has_error_def prefix_def)

lemma extends_add_error [simp]: "extends_row r (add_error f m r)"
  by (simp add: extends_row_def add_error_def)

lemma extends_add_warning [simp]: "extends_row r (add_warning f m r)"
  by (simp add: extends_row_def add_warning_def)

lemma extends_set_team [simp]: "extends_row r (r\<lparr>rp_team := t\<rparr>)"
  by (simp add: extends_row_def)

lemma has_error_add_error [simp]: "has_error (add_error f m r)"
  by (simp add: has_error_def add_error_def)

lemma has_error_add_warning [simp]: "has_error (add_warning f m r) = has_error r"
  by (simp add: has_error_def add_warning_def)

lemma has_error_set_team [simp]: "has_error (r\<lparr>rp_team := t\<rparr>) = has_error r"
  by (simp add: has_error_def)

lemma has_error_set_action [simp]:
  "has_error (r\<lparr>rp_action := a\<rparr>) = has_error r"
  "has_error (r\<lparr>rp_existing_id := x\<rparr>) = has_error r"
  by (simp_all add: has_error_def)

lemma team_add_issue [simp]:
  "rp_team (add_error f m r) = rp_team r" "rp_team (add_warning f m r) = rp_team r"
  by (simp_all add: add_error_def add_warning_def)

lemma extends_rows_refl [simp]: "extends_rows rows rows"
  by (simp add: list_all2_refl)

lemma extends_rows_trans: "extends_rows a b \<Longrightarrow> extends_rows b c \<Longrightarrow> extends_rows a c"
  by (rule list_all2_trans [OF extends_row_trans])

lemma at_row_length [simp]: "length (at_row i f rows) = length rows"
  by (simp add: at_row_def)

lemma at_row_same [simp]: "i < length rows \<Longrightarrow> at_row i f rows ! i = f (rows ! i)"
  by (simp add: at_row_def)

lemma at_row_other [simp]: "j \<noteq> i \<Longrightarrow> at_row i f rows ! j = rows ! j"
  by (simp add: at_row_def)

lemma extends_at_row: "(\<And>r. extends_row r (f r)) \<Longrightarrow> extends_rows rows (at_row i f rows)"
  by (cases "i < length rows")
    (auto simp: list_all2_conv_all_nth nth_list_update at_row_def list_update_beyond)

lemma at_rows_length [simp]: "length (at_rows idx f rows) = length rows"
  unfolding at_rows_def by (induction idx arbitrary: rows) auto

lemma at_rows_other [simp]: "j \<notin> set idx \<Longrightarrow> at_rows idx f rows ! j = rows ! j"
  unfolding at_rows_def by (induction idx arbitrary: rows) auto

lemma at_rows_in:
  "distinct idx \<Longrightarrow> j \<in> set idx \<Longrightarrow> \<forall>i \<in> set idx. i < length rows \<Longrightarrow>
     at_rows idx f rows ! j = f (rows ! j)"
  unfolding at_rows_def
proof (induction idx arbitrary: rows)
  case (Cons a idx)
  show ?case
  proof (cases "j = a")
    case True
    with Cons.prems have "j \<notin> set idx" by simp
    then have "fold (\<lambda>i. at_row i f) idx (at_row a f rows) ! j = at_row a f rows ! j"
      using at_rows_other [of j idx f "at_row a f rows"] by (simp add: at_rows_def)
    with True Cons.prems show ?thesis by simp
  next
    case False
    with Cons show ?thesis by simp
  qed
qed simp

lemma extends_at_rows: "(\<And>r. extends_row r (f r)) \<Longrightarrow> extends_rows rows (at_rows idx f rows)"
  unfolding at_rows_def
proof (induction idx arbitrary: rows)
  case (Cons a idx)
  have "extends_rows rows (at_row a f rows)" by (rule extends_at_row [OF Cons.prems])
  also have "extends_rows (at_row a f rows) (fold (\<lambda>i. at_row i f) idx (at_row a f rows))"
    by (rule Cons.IH [OF Cons.prems])
  finally (extends_rows_trans) show ?case by simp
qed simp

section \<open>The joining loop\<close>

definition row_legs :: "plan_input \<Rightarrow> nat \<Rightarrow> int list" where
  "row_legs pin i = (case i_leg_order (ir_input (pi_rows pin ! i)) of None \<Rightarrow> [] | Some l \<Rightarrow> [l])"

definition row_gender :: "plan_input \<Rightarrow> nat \<Rightarrow> gender" where
  "row_gender pin i = i_gender (ir_input (pi_rows pin ! i))"

text \<open>What the loop has established after the rows \<open>done\<close>, from the state \<open>s0\<close>.\<close>

definition join_inv :: "plan_input \<Rightarrow> nat list \<Rightarrow> join_state \<Rightarrow> join_state \<Rightarrow> bool" where
  "join_inv pin idx s0 s \<longleftrightarrow>
     extends_rows (js_rows s0) (js_rows s) \<and>
     (\<forall>j. j \<notin> set idx \<longrightarrow> js_rows s ! j = js_rows s0 ! j) \<and>
     (\<forall>j. rp_team (js_rows s ! j) = rp_team (js_rows s0 ! j)) \<and>
     js_accepted s = filter (\<lambda>j. \<not> has_error (js_rows s ! j)) idx \<and>
     js_capacity s = js_capacity s0 - int (length idx) \<and>
     (js_accepted s = [] \<or> int (length (js_accepted s)) \<le> js_capacity s0) \<and>
     distinct (concat (map (row_legs pin) (js_accepted s))) \<and>
     set (concat (map (row_legs pin) (js_accepted s))) \<inter> set (js_legs s0) = {} \<and>
     set (js_legs s0) \<union> set (concat (map (row_legs pin) (js_accepted s))) \<subseteq> set (js_legs s) \<and>
     js_genders s = js_genders s0 @ map (row_gender pin) (js_accepted s)"

lemma join_row_rows:
  obtains f where "js_rows (join_row pin tn sz i s) = at_row i f (js_rows s)"
    "\<And>r. extends_row r (f r)" "\<And>r. rp_team (f r) = rp_team r"
proof -
  let ?e = "\<lambda>(b::bool) g r. if b then add_error (fst g) (snd g) r else r"
  have "\<exists>b1 g1 b2 g2. js_rows (join_row pin tn sz i s)
      = at_row i (\<lambda>r. ?e b2 g2 (?e b1 g1 r)) (js_rows s)"
  proof (cases "i < length (js_rows s)")
    case True
    then show ?thesis
      by (auto simp: join_row_def Let_def at_row_def split: option.splits
          intro: exI [of _ True] exI [of _ False])
  next
    case False
    then show ?thesis
      by (auto simp: join_row_def Let_def at_row_def list_update_beyond split: option.splits)
  qed
  then obtain b1 g1 b2 g2 where
    "js_rows (join_row pin tn sz i s) = at_row i (\<lambda>r. ?e b2 g2 (?e b1 g1 r)) (js_rows s)" by blast
  then show thesis
    by (rule that) (simp_all add: extends_row_def add_error_def)
qed


lemma join_row_fields:
  "js_legs (join_row pin tn sz i s) = row_legs pin i @ js_legs s"
  "js_capacity (join_row pin tn sz i s) = js_capacity s - 1"
  "js_accepted (join_row pin tn sz i s) =
     (if has_error (js_rows (join_row pin tn sz i s) ! i) then js_accepted s
      else js_accepted s @ [i])"
  "js_genders (join_row pin tn sz i s) =
     (if has_error (js_rows (join_row pin tn sz i s) ! i) then js_genders s
      else js_genders s @ [row_gender pin i])"
  by (simp_all add: join_row_def Let_def row_legs_def row_gender_def split: option.splits)

lemma join_row_rejects:
  assumes "i < length (js_rows s)" "\<not> has_error (js_rows (join_row pin tn sz i s) ! i)"
  shows "0 < js_capacity s" "set (row_legs pin i) \<inter> set (js_legs s) = {}"
proof -
  show "0 < js_capacity s"
    using assms by (rule_tac ccontr)
      (simp add: join_row_def Let_def split: option.splits if_splits)
  show "set (row_legs pin i) \<inter> set (js_legs s) = {}"
    using assms by (rule_tac ccontr)
      (simp add: join_row_def Let_def row_legs_def extends_row_error split: option.splits if_splits)
qed

lemma row_legs_distinct [simp]: "distinct (row_legs pin i)"
  by (simp add: row_legs_def split: option.splits)

text \<open>The loop keeps its invariant: one more row, not seen before.\<close>

lemma join_row_inv:
  assumes inv: "join_inv pin idx s0 s" and i: "i \<notin> set idx" "i < length (js_rows s0)"
  shows "join_inv pin (idx @ [i]) s0 (join_row pin tn sz i s)"
proof -
  let ?s = "join_row pin tn sz i s"
  have ext: "extends_rows (js_rows s0) (js_rows s)" using inv by (simp add: join_inv_def)
  then have len: "length (js_rows s) = length (js_rows s0)" by (simp add: list_all2_lengthD)
  obtain f where f: "js_rows ?s = at_row i f (js_rows s)" "\<And>r. extends_row r (f r)"
      "\<And>r. rp_team (f r) = rp_team r"
    by (rule join_row_rows [of pin tn sz i s]) blast
  have other: "js_rows ?s ! j = js_rows s ! j" if "j \<noteq> i" for j using f(1) that by simp
  have "extends_rows (js_rows s) (js_rows ?s)" using f(1,2) by (simp add: extends_at_row)
  with ext have ext': "extends_rows (js_rows s0) (js_rows ?s)" by (rule extends_rows_trans)
  have teams: "rp_team (js_rows ?s ! j) = rp_team (js_rows s0 ! j)" for j
    using inv f len i by (cases "j = i") (simp_all add: join_inv_def)
  have old: "filter (\<lambda>j. \<not> has_error (js_rows ?s ! j)) idx = js_accepted s"
  proof -
    have "filter (\<lambda>j. \<not> has_error (js_rows ?s ! j)) idx =
        filter (\<lambda>j. \<not> has_error (js_rows s ! j)) idx"
      using i(1) by (intro filter_cong refl) (metis other)
    then show ?thesis using inv by (simp add: join_inv_def)
  qed
  have le: "length (js_accepted s) \<le> length idx" using inv by (simp add: join_inv_def)
  note parts = inv [unfolded join_inv_def]
  have dist: "distinct (concat (map (row_legs pin) (js_accepted s)))"
    and disj: "set (concat (map (row_legs pin) (js_accepted s))) \<inter> set (js_legs s0) = {}"
    and sub: "set (js_legs s0) \<union> set (concat (map (row_legs pin) (js_accepted s))) \<subseteq> set (js_legs s)"
    and bound: "js_accepted s = [] \<or> int (length (js_accepted s)) \<le> js_capacity s0"
    and cap: "js_capacity s = js_capacity s0 - int (length idx)"
    and gen: "js_genders s = js_genders s0 @ map (row_gender pin) (js_accepted s)"
    using parts by blast+
  have outside: "\<forall>j. j \<notin> set (idx @ [i]) \<longrightarrow> js_rows ?s ! j = js_rows s0 ! j"
    using parts other by simp
  show ?thesis
  proof (cases "has_error (js_rows ?s ! i)")
    case True
    then have acc: "js_accepted ?s = js_accepted s" "js_genders ?s = js_genders s"
      by (simp_all add: join_row_fields)
    have "js_accepted ?s = filter (\<lambda>j. \<not> has_error (js_rows ?s ! j)) (idx @ [i])"
      using True old acc by simp
    moreover have "set (js_legs s0) \<union> set (concat (map (row_legs pin) (js_accepted s)))
        \<subseteq> set (js_legs ?s)"
      using sub by (auto simp: join_row_fields(1))
    ultimately show ?thesis
      unfolding join_inv_def using ext' outside teams bound dist disj cap gen acc
      by (simp add: join_row_fields(2))
  next
    case False
    from join_row_rejects [OF _ False] i len
    have room: "0 < js_capacity s" and legs: "set (row_legs pin i) \<inter> set (js_legs s) = {}" by auto
    from False have acc: "js_accepted ?s = js_accepted s @ [i]"
        "js_genders ?s = js_genders s @ [row_gender pin i]"
      by (simp_all add: join_row_fields)
    have 1: "int (length (js_accepted s @ [i])) \<le> js_capacity s0"
      using room le cap by simp
    have "set (row_legs pin i) \<inter> set (concat (map (row_legs pin) (js_accepted s))) = {}"
      and "set (row_legs pin i) \<inter> set (js_legs s0) = {}"
      using legs sub by blast+
    then have 2: "distinct (concat (map (row_legs pin) (js_accepted s @ [i])))"
      and 3: "set (concat (map (row_legs pin) (js_accepted s @ [i]))) \<inter> set (js_legs s0) = {}"
      using dist disj by auto
    have 4: "js_accepted s @ [i] = filter (\<lambda>j. \<not> has_error (js_rows ?s ! j)) (idx @ [i])"
      using False old by simp
    have 5: "set (js_legs s0) \<union> set (concat (map (row_legs pin) (js_accepted s @ [i])))
        \<subseteq> set (js_legs ?s)"
      using sub by (auto simp: join_row_fields(1))
    show ?thesis
      unfolding join_inv_def acc
    proof (intro conjI)
      show "js_capacity ?s = js_capacity s0 - int (length (idx @ [i]))"
        using cap by (simp add: join_row_fields(2))
      show "js_genders s @ [row_gender pin i] =
          js_genders s0 @ map (row_gender pin) (js_accepted s @ [i])"
        using gen by simp
      show "js_accepted s @ [i] = [] \<or> int (length (js_accepted s @ [i])) \<le> js_capacity s0"
        using 1 by (rule disjI2)
    qed (fact ext' outside teams 2 3 4 5 | rule allI, fact teams)+
  qed
qed

lemma join_fold_inv:
  assumes "join_inv pin done s0 s" "distinct (done @ idx)"
    and "\<forall>i \<in> set idx. i < length (js_rows s0)"
  shows "join_inv pin (done @ idx) s0 (fold (join_row pin tn sz) idx s)"
  using assms
proof (induction idx arbitrary: "done" s)
  case (Cons i idx)
  then have "join_inv pin (done @ [i]) s0 (join_row pin tn sz i s)"
    by (intro join_row_inv) auto
  with Cons.IH [of "done @ [i]"] Cons.prems show ?case by simp
qed simp

lemma join_inv_bound:
  "join_inv pin idx s0 s \<Longrightarrow>
     js_accepted s = [] \<or> int (length (js_accepted s)) \<le> js_capacity s0"
  unfolding join_inv_def by blast

lemma join_inv_legs:
  "join_inv pin idx s0 s \<Longrightarrow> distinct (concat (map (row_legs pin) (js_accepted s)))"
  "join_inv pin idx s0 s \<Longrightarrow>
     set (concat (map (row_legs pin) (js_accepted s))) \<inter> set (js_legs s0) = {}"
  unfolding join_inv_def by blast+

lemma join_inv_start:
  "js_accepted s = [] \<Longrightarrow> join_inv pin [] s s"
  by (simp add: join_inv_def)

lemma join_group_inv:
  assumes "js_accepted s = []" "distinct idx" "\<forall>i \<in> set idx. i < length (js_rows s)"
  shows "join_inv pin idx s (fold (join_row pin tn sz) idx s)"
  using join_fold_inv [of pin "[]" s s idx tn sz] assms by (simp add: join_inv_start)


section \<open>What the loop body does to one group\<close>

text \<open>The rows of a group that end up without an error, and what the group's team is.\<close>

definition admitted :: "row_plan list \<Rightarrow> nat list \<Rightarrow> nat list" where
  "admitted rows idx = filter (\<lambda>j. \<not> has_error (rows ! j)) idx"

definition group_size :: "plan_input \<Rightarrow> nat list \<Rightarrow> int" where
  "group_size pin idx = race_size pin (ir_race_id (pi_rows pin ! hd idx))"

definition group_members :: "plan_input \<Rightarrow> string \<Rightarrow> existing_participant list" where
  "group_members pin key = (case teams_by_key (pi_teams pin) key of None \<Rightarrow> [] | Some t \<Rightarrow> et_members t)"

definition group_category :: "plan_input \<Rightarrow> string \<Rightarrow> nat list \<Rightarrow> gender_category" where
  "group_category pin key idx =
     (case teams_by_key (pi_teams pin) key of
        None \<Rightarrow> stated_category pin idx | Some t \<Rightarrow> et_category t)"

definition group_ref :: "plan_input \<Rightarrow> string \<Rightarrow> team_ref" where
  "group_ref pin key =
     (case teams_by_key (pi_teams pin) key of
        None \<Rightarrow> \<lparr>tr_existing_id = '''', tr_new_key = key\<rparr>
      | Some t \<Rightarrow> \<lparr>tr_existing_id = et_id t, tr_new_key = ''''\<rparr>)"

definition planned_for :: "plan_input \<Rightarrow> row_plan list \<Rightarrow> string \<times> nat list \<Rightarrow> planned_team list" where
  "planned_for pin rows g = (case g of (key, idx) \<Rightarrow>
     if teams_by_key (pi_teams pin) key = None \<and> admitted rows idx \<noteq> []
     then [\<lparr>pt_key = key, pt_race_id = ir_race_id (pi_rows pin ! hd idx),
            pt_name = trim_space (ir_team_name (pi_rows pin ! hd idx)),
            pt_category = stated_category pin idx\<rparr>]
     else [])"

text \<open>The team after the group: room, free legs and a legal composition.\<close>

definition team_fits ::
  "plan_input \<Rightarrow> string \<Rightarrow> nat list \<Rightarrow> existing_participant list \<Rightarrow> nat list \<Rightarrow> bool" where
  "team_fits pin key idx staying acc \<longleftrightarrow>
     int (length staying + length acc) \<le> group_size pin idx \<and>
     distinct (concat (map (row_legs pin) acc)) \<and>
     set (concat (map (row_legs pin) acc)) \<inter> set (used_legs staying) = {} \<and>
     (teams_by_key (pi_teams pin) key = None \<longrightarrow> category_valid (group_category pin key idx)) \<and>
     fst (check_team_composition (group_category pin key idx) (group_size pin idx)
            (map ep_gender staying @ map (row_gender pin) acc)) = None"

definition group_result ::
  "plan_input \<Rightarrow> string \<times> nat list \<Rightarrow> row_plan list \<Rightarrow> row_plan list \<Rightarrow> bool" where
  "group_result pin g rows rows' \<longleftrightarrow> (case g of (key, idx) \<Rightarrow>
     (\<forall>j \<in> set idx. rp_team (rows' ! j) =
        (if j \<in> set (admitted rows' idx) then Some (group_ref pin key) else rp_team (rows ! j))) \<and>
     (admitted rows' idx \<noteq> [] \<longrightarrow>
        team_fits pin key idx (staying_members rows idx (group_members pin key))
          (admitted rows' idx)))"

lemma admitted_subset: "set (admitted rows idx) \<subseteq> set idx"
  by (auto simp: admitted_def)

lemma has_error_at_row_warning [simp]:
  "has_error (at_row i (add_warning f m) rows ! j) = has_error (rows ! j)"
  by (cases "j = i"; cases "i < length rows") (simp_all add: at_row_def list_update_beyond)

lemma rp_team_at_row_warning [simp]:
  "rp_team (at_row i (add_warning f m) rows ! j) = rp_team (rows ! j)"
  by (cases "j = i"; cases "i < length rows") (simp_all add: at_row_def list_update_beyond)

lemma all_fail_result:
  assumes "distinct idx" "\<forall>i \<in> set idx. i < length rows"
  shows "extends_rows rows (at_rows idx (add_error f m) rows)"
    "admitted (at_rows idx (add_error f m) rows) idx = []"
    "group_result pin (key, idx) rows (at_rows idx (add_error f m) rows)"
proof -
  show "extends_rows rows (at_rows idx (add_error f m) rows)" by (simp add: extends_at_rows)
  show *: "admitted (at_rows idx (add_error f m) rows) idx = []"
    using assms by (auto simp: admitted_def filter_empty_conv at_rows_in)
  show "group_result pin (key, idx) rows (at_rows idx (add_error f m) rows)"
    using assms * by (simp add: group_result_def at_rows_in)
qed


text \<open>The warnings and team references an admitted group gets, as one function of its rows.\<close>

lemma warn_row:
  "extends_rows rows (if b then at_row i (add_warning f m) rows else rows)"
  "has_error ((if b then at_row i (add_warning f m) rows else rows) ! j) = has_error (rows ! j)"
  "rp_team ((if b then at_row i (add_warning f m) rows else rows) ! j) = rp_team (rows ! j)"
  "j \<noteq> i \<Longrightarrow> (if b then at_row i (add_warning f m) rows else rows) ! j = rows ! j"
  "length (if b then at_row i (add_warning f m) rows else rows) = length rows"
  by (simp_all add: extends_at_row)

lemma set_team_rows:
  assumes "distinct acc" "\<forall>i \<in> set acc. i < length rows"
  shows "extends_rows rows (at_rows acc (\<lambda>r. r\<lparr>rp_team := t\<rparr>) rows)"
    "has_error (at_rows acc (\<lambda>r. r\<lparr>rp_team := t\<rparr>) rows ! j) = has_error (rows ! j)"
    "rp_team (at_rows acc (\<lambda>r. r\<lparr>rp_team := t\<rparr>) rows ! j) =
       (if j \<in> set acc then t else rp_team (rows ! j))"
  using assms by (cases "j \<in> set acc"; simp add: extends_at_rows at_rows_in)+

lemma admit_group_result:
  assumes idx: "distinct idx" "\<forall>i \<in> set idx. i < length rows"
    and cat: "category = group_category pin key idx"
    and found: "found = teams_by_key (pi_teams pin) key"
    and valid: "found = None \<Longrightarrow> category_valid category"
    and run: "admit_group pin found category key idx (rows, nt) = (rows', nt')"
  shows "extends_rows rows rows'" "\<forall>j. j \<notin> set idx \<longrightarrow> rows' ! j = rows ! j"
    "group_result pin (key, idx) rows rows'" "nt' = nt @ planned_for pin rows' (key, idx)"
proof -
  define tname where "tname = ir_team_name (pi_rows pin ! hd idx)"
  define sz where "sz = group_size pin idx"
  define staying where "staying = staying_members rows idx (group_members pin key)"
  define s0 where "s0 = \<lparr>js_rows = rows, js_legs = used_legs staying,
     js_capacity = sz - int (length staying), js_accepted = [], js_genders = map ep_gender staying\<rparr>"
  define js where "js = fold (join_row pin tname sz) idx s0"
  define acc where "acc = js_accepted js"
  define mid where "mid = js_rows js"
  have inv: "join_inv pin idx s0 js"
    unfolding js_def by (rule join_group_inv) (use idx in \<open>simp_all add: s0_def\<close>)
  have ext: "extends_rows rows mid" and acc: "acc = filter (\<lambda>j. \<not> has_error (mid ! j)) idx"
    and out: "\<forall>j. j \<notin> set idx \<longrightarrow> mid ! j = rows ! j"
    and teams: "\<forall>j. rp_team (mid ! j) = rp_team (rows ! j)"
    using inv by (simp_all add: join_inv_def s0_def mid_def acc_def)
  have gen: "js_genders js = map ep_gender staying @ map (row_gender pin) acc"
    using inv by (simp add: join_inv_def s0_def acc_def)
  have "acc = [] \<or> int (length acc) \<le> js_capacity s0"
    unfolding acc_def by (rule join_inv_bound [OF inv])
  then have bound: "acc = [] \<or> int (length staying + length acc) \<le> group_size pin idx"
    by (auto simp: s0_def sz_def)
  have len: "length mid = length rows" using ext by (simp add: list_all2_lengthD)
  have accp: "distinct acc" "set acc \<subseteq> set idx" "\<forall>i \<in> set acc. i < length mid"
    using acc idx len by auto
  have mem: "(case found of None \<Rightarrow> [] | Some t \<Rightarrow> et_members t) = group_members pin key"
    by (simp add: found group_members_def)
  have ref: "group_ref pin key = (case found of Some t \<Rightarrow> \<lparr>tr_existing_id = et_id t, tr_new_key = ''''\<rparr>
      | None \<Rightarrow> \<lparr>tr_existing_id = '''', tr_new_key = key\<rparr>)"
    by (simp add: group_ref_def found split: option.splits)
  note folds = tname_def [symmetric] sz_def [unfolded group_size_def, symmetric]
    staying_def [symmetric] s0_def [symmetric] js_def [symmetric] acc_def [symmetric]
    mid_def [symmetric]
  have def: "admit_group pin found
 category key idx (rows, nt) =
     (if acc = [] then (mid, nt)
      else case check_team_composition category sz (js_genders js) of
        (Some cerr, w) \<Rightarrow> (at_rows acc (add_error (fe_field cerr)
             (''team '' @ go_quote tname @ '': '' @ fe_message cerr)) mid, nt)
      | (None, warn) \<Rightarrow>
          (let rows2 = (if warn \<noteq> '''' then at_row (hd acc) (add_warning ''gender''
                  (''team '' @ go_quote tname @ '': '' @ warn)) mid else mid);
               total = length staying + length acc;
               rows3 = (if int total < sz then at_row (hd acc) (add_warning ''team_name''
                  (''team '' @ go_quote tname @ '' has '' @ itoa (int total) @
                     '' of '' @ itoa sz @ '' members'')) rows2 else rows2)
           in (at_rows acc (\<lambda>r. r\<lparr>rp_team := Some (group_ref pin key)\<rparr>) rows3,
               nt @ (if found = None then [\<lparr>pt_key = key, pt_race_id = ir_race_id (pi_rows pin ! hd idx),
                 pt_name = trim_space tname, pt_category = category\<rparr>] else []))))"
    unfolding admit_group_def Let_def prod.case mem
    by (simp only: folds Let_def ref)
      (cases found; simp split: option.splits prod.splits)
  have "extends_rows rows rows' \<and> (\<forall>j. j \<notin> set idx \<longrightarrow> rows' ! j = rows ! j) \<and>
    group_result pin (key, idx) rows rows' \<and> nt' = nt @ planned_for pin rows' (key, idx)"
  proof (cases "acc = []")
    case True
    with def run have r: "rows' = mid" "nt' = nt" by simp_all
    have "admitted mid idx = []" using True acc by (simp add: admitted_def)
    with r ext out teams show ?thesis by (simp add: group_result_def planned_for_def)
  next
    case ne: False
    obtain co warn where comp: "check_team_composition category sz (js_genders js) = (co, warn)"
      by fastforce
    show ?thesis
    proof (cases co)
      case (Some cerr)
      with def run ne comp have r: "nt' = nt"
        "rows' = at_rows acc (add_error (fe_field cerr) (''team '' @ go_quote tname @ '': '' @ fe_message cerr)) mid"
        by simp_all
      have he: "has_error (rows' ! j)" if "j \<in> set idx" for j
        using that accp r acc by (cases "j \<in> set acc") (simp_all add: at_rows_in)
      then have "admitted rows' idx = []" by (simp add: admitted_def filter_empty_conv)
      moreover have "rp_team (rows' ! j) = rp_team (rows ! j)" for j
        using accp r teams by (cases "j \<in> set acc") (simp_all add: at_rows_in)
      moreover have "extends_rows rows rows'"
        unfolding r by (rule extends_rows_trans [OF ext]) (simp add: extends_at_rows)
      moreover have "rows' ! j = rows ! j" if "j \<notin> set idx" for j
      proof -
        have "j \<notin> set acc" using that accp(2) by auto
        with that out show ?thesis by (simp add: r)
      qed
      ultimately show ?thesis using r by (simp add: group_result_def planned_for_def)
    next
      case None
      define rows2 where "rows2 = (if warn \<noteq> '''' then at_row (hd acc) (add_warning ''gender''
                  (''team '' @ go_quote tname @ '': '' @ warn)) mid else mid)"
      define total where "total = length staying + length acc"
      define rows3 where "rows3 = (if int total < sz then at_row (hd acc) (add_warning ''team_name''
                  (''team '' @ go_quote tname @ '' has '' @ itoa (int total) @
                     '' of '' @ itoa sz @ '' members'')) rows2 else rows2)"
      have r: "rows' = at_rows acc (\<lambda>r. r\<lparr>rp_team := Some (group_ref pin key)\<rparr>) rows3"
        "nt' = nt @ (if found = None then [\<lparr>pt_key = key, pt_race_id = ir_race_id (pi_rows pin ! hd idx),
                 pt_name = trim_space tname, pt_category = category\<rparr>] else [])"
        using def run ne comp None by (simp_all add: rows2_def rows3_def total_def Let_def)
      have hd: "hd acc \<in> set idx" using ne accp(2) by (meson hd_in_set subsetD)
      have len3: "length rows3 = length mid" by (simp add: rows3_def rows2_def)
      with accp(1,3) have acc3: "distinct acc" "\<forall>i \<in> set acc. i < length rows3" by simp_all
      note st = set_team_rows [OF acc3, of "Some (group_ref pin key)", folded r(1)]
      have he: "has_error (rows' ! j) = has_error (mid ! j)" for j
        by (simp add: st(2) rows3_def rows2_def warn_row)
      then have adm: "admitted rows' idx = acc" by (simp add: admitted_def acc)
      have "extends_rows mid rows2" "extends_rows rows2 rows3"
        unfolding rows2_def rows3_def by (rule warn_row)+
      with ext st(1) have "extends_rows rows rows'" by (blast intro: extends_rows_trans)
      moreover have "rows' ! j = rows ! j" if "j \<notin> set idx" for j
      proof -
        have "j \<noteq> hd acc" "j \<notin> set acc" using that hd accp(2) by auto
        with that out show ?thesis by (simp add: r(1) rows3_def rows2_def)
      qed
      moreover have "rp_team (rows' ! j) =
          (if j \<in> set acc then Some (group_ref pin key) else rp_team (rows ! j))" for j
        using teams by (simp add: st(3) rows3_def rows2_def)
      moreover have "team_fits pin key idx staying acc"
        unfolding team_fits_def
      proof (intro conjI impI)
        show "int (length staying + length acc) \<le> group_size pin idx"
          using ne bound by simp
        show "distinct (concat (map (row_legs pin) acc))"
          "set (concat (map (row_legs pin) acc)) \<inter> set (used_legs staying) = {}"
          unfolding acc_def using join_inv_legs [OF inv] by (simp_all add: s0_def)
        show "category_valid (group_category pin key idx)" if "teams_by_key (pi_teams pin) key = None"
          using valid that by (simp add: cat found)
        show "fst (check_team_composition (group_category pin key idx) (group_size pin idx)
            (map ep_gender staying @ map (row_gender pin) acc)) = None"
          using comp None by (simp add: gen cat sz_def)
      qed
      moreover have "nt' = nt @ planned_for pin rows' (key, idx)"
        unfolding r(2) planned_for_def using ne
        by (simp add: adm found cat tname_def group_category_def)
      ultimately show ?thesis
        by (simp add: group_result_def adm staying_def)
    qed
  qed
  then show "extends_rows rows rows'" "\<forall>j. j \<notin> set idx \<longrightarrow> rows' ! j = rows ! j"
    "group_result pin (key, idx) rows rows'" "nt' = nt @ planned_for pin rows' (key, idx)"
    by simp_all
qed


lemma plan_group_result:
  assumes idx: "distinct idx" "\<forall>i \<in> set idx. i < length rows"
    and run: "plan_group pin (key, idx) (rows, nt) = (rows', nt')"
  shows "extends_rows rows rows'" "\<forall>j. j \<notin> set idx \<longrightarrow> rows' ! j = rows ! j"
    "group_result pin (key, idx) rows rows'" "nt' = nt @ planned_for pin rows' (key, idx)"
proof -
  have "extends_rows rows rows' \<and> (\<forall>j. j \<notin> set idx \<longrightarrow> rows' ! j = rows ! j) \<and>
    group_result pin (key, idx) rows rows' \<and> nt' = nt @ planned_for pin rows' (key, idx)"
  proof (cases "teams_by_key (pi_teams pin) key")
    case (Some t)
    with run have "admit_group pin (Some t) (et_category t) key idx (rows, nt) = (rows', nt')"
      by (simp add: plan_group_def)
    note res = admit_group_result [OF idx _ _ _ this]
    have cat: "et_category t = group_category pin key idx" using Some by (simp add: group_category_def)
    have "Some t = None \<Longrightarrow> category_valid (et_category t)" by simp
    then show ?thesis using res [OF cat Some [symmetric]] by blast
  next
    case None
    let ?c = "stated_category pin idx"
    consider (bad) "?c = '''' \<or> \<not> category_valid ?c" | (ok) "?c \<noteq> ''''" "category_valid ?c" by blast
    then show ?thesis
    proof cases
      case bad
      with run None have "\<exists>f m. rows' = at_rows idx (add_error f m) rows \<and> nt' = nt"
        unfolding plan_group_def by (cases "?c = ''''") (simp_all add: Let_def, (metis (full_types))+)
      then obtain f m where r: "rows' = at_rows idx (add_error f m) rows" "nt' = nt" by blast
      from all_fail_result(1,2) [OF idx, of f m] all_fail_result(3) [OF idx, of pin key f m]
      show ?thesis unfolding r by (simp add: planned_for_def)
    next
      case ok
      have "admit_group pin None ?c key idx (rows, nt) = (rows', nt')"
        using run None ok by (simp add: plan_group_def Let_def)
      note res = admit_group_result [OF idx _ _ _ this]
      have cat: "stated_category pin idx = group_category pin key idx"
        using None by (simp add: group_category_def)
      from res [OF cat None [symmetric] ok(2)] show ?thesis by simp
    qed
  qed
  then show "extends_rows rows rows'" "\<forall>j. j \<notin> set idx \<longrightarrow> rows' ! j = rows ! j"
    "group_result pin (key, idx) rows rows'" "nt' = nt @ planned_for pin rows' (key, idx)"
    by simp_all
qed

section \<open>All groups\<close>

definition group_rows :: "(string \<times> nat list) list \<Rightarrow> nat list" where
  "group_rows gs = concat (map snd gs)"

lemma staying_cong:
  "(\<And>j. j \<in> set idx \<Longrightarrow> rp_existing_id (rows ! j) = rp_existing_id (rows2 ! j)) \<Longrightarrow>
     staying_members rows idx ms = staying_members rows2 idx ms"
  unfolding staying_members_def list_ex_iff by (intro filter_cong refl) auto

lemma admitted_cong:
  "(\<And>j. j \<in> set idx \<Longrightarrow> rows ! j = rows2 ! j) \<Longrightarrow> admitted rows idx = admitted rows2 idx"
  unfolding admitted_def by (intro filter_cong refl) simp

lemma group_result_cong:
  assumes "\<And>j. j \<in> set idx \<Longrightarrow> rows ! j = rows2 ! j" "\<And>j. j \<in> set idx \<Longrightarrow> rows' ! j = rows2' ! j"
  shows "group_result pin (key, idx) rows rows' \<longleftrightarrow> group_result pin (key, idx) rows2 rows2'"
  using staying_cong [of idx rows rows2] admitted_cong [of idx rows' rows2'] assms
  by (simp add: group_result_def)

lemma planned_for_cong:
  "(\<And>j. j \<in> set idx \<Longrightarrow> rows ! j = rows2 ! j) \<Longrightarrow>
     planned_for pin rows (key, idx) = planned_for pin rows2 (key, idx)"
  using admitted_cong [of idx rows rows2] by (simp add: planned_for_def)

lemma plan_groups_result:
  assumes "distinct (group_rows gs)" "\<forall>i \<in> set (group_rows gs). i < length rows"
    and "fold (plan_group pin) gs (rows, nt) = (rows', nt')"
  shows "extends_rows rows rows' \<and> (\<forall>j. j \<notin> set (group_rows gs) \<longrightarrow> rows' ! j = rows ! j) \<and>
    (\<forall>g \<in> set gs. group_result pin g rows rows') \<and>
    nt' = nt @ concat (map (planned_for pin rows') gs)"
  using assms
proof (induction gs arbitrary: rows nt)
  case (Cons g gs)
  obtain key idx where g: "g = (key, idx)" by fastforce
  obtain rows1 nt1 where step: "plan_group pin (key, idx) (rows, nt) = (rows1, nt1)" by fastforce
  have idx: "distinct idx" "\<forall>i \<in> set idx. i < length rows" "set idx \<inter> set (group_rows gs) = {}"
    and rest: "distinct (group_rows gs)" "\<forall>i \<in> set (group_rows gs). i < length rows"
    using Cons.prems(1,2) by (auto simp: group_rows_def g)
  note one = plan_group_result [OF idx(1,2) step]
  have len: "length rows1 = length rows" using one(1) by (simp add: list_all2_lengthD)
  have run: "fold (plan_group pin) gs (rows1, nt1) = (rows', nt')"
    using Cons.prems(3) step by (simp add: g)
  have IH: "extends_rows rows1 rows'" "\<forall>j. j \<notin> set (group_rows gs) \<longrightarrow> rows' ! j = rows1 ! j"
    "\<forall>g \<in> set gs. group_result pin g rows1 rows'"
    "nt' = nt1 @ concat (map (planned_for pin rows') gs)"
    using Cons.IH [OF rest(1) _ run] rest(2) len by simp_all
  have same: "rows' ! j = rows1 ! j" if "j \<in> set idx" for j using IH(2) idx(3) that by blast
  have "extends_rows rows rows'" using one(1) IH(1) by (rule extends_rows_trans)
  moreover have "rows' ! j = rows ! j" if "j \<notin> set (group_rows (g # gs))" for j
    using that IH(2) one(2) by (simp add: group_rows_def g)
  moreover have "group_result pin h rows rows'" if "h \<in> set (g # gs)" for h
  proof (cases "h = g")
    case True
    with one(3) group_result_cong [of idx rows rows rows1 rows'] same show ?thesis by (simp add: g)
  next
    case False
    with that have h: "h \<in> set gs" by simp
    obtain k jdx where hk: "h = (k, jdx)" by fastforce
    with h have "set jdx \<subseteq> set (group_rows gs)" by (auto simp: group_rows_def)
    then have "rows1 ! j = rows ! j" if "j \<in> set jdx" for j using that idx(3) one(2) by blast
    with group_result_cong [of jdx rows1 rows rows' rows'] IH(3) h show ?thesis by (auto simp: hk)
  qed
  moreover have "nt' = nt @ concat (map (planned_for pin rows') (g # gs))"
    using one(4) IH(4) planned_for_cong [of idx rows1 rows'] same by (simp add: g)
  ultimately show ?case by blast
qed (simp add: group_rows_def)


section \<open>The groups of a file\<close>

lemma map_of_add_to_group:
  "map_of (add_to_group k i gs) =
     (map_of gs)(k \<mapsto> (case map_of gs k of None \<Rightarrow> [] | Some idx \<Rightarrow> idx) @ [i])"
  by (induction k i gs rule: add_to_group.induct) (auto simp: fun_eq_iff)

lemma keys_add_to_group:
  "map fst (add_to_group k i gs) =
     (if k \<in> fst ` set gs then map fst gs else map fst gs @ [k])"
  by (induction k i gs rule: add_to_group.induct) auto

definition groups_upto :: "plan_input \<Rightarrow> row_plan list \<Rightarrow> nat \<Rightarrow> (string \<times> nat list) list" where
  "groups_upto pin rows n =
     fold (\<lambda>i gs. if joins_team pin rows i then add_to_group (row_key pin i) i gs else gs) [0..<n] []"

definition key_rows :: "plan_input \<Rightarrow> row_plan list \<Rightarrow> nat \<Rightarrow> string \<Rightarrow> nat list" where
  "key_rows pin rows n k = filter (\<lambda>i. joins_team pin rows i \<and> row_key pin i = k) [0..<n]"

lemma groups_upto_Suc:
  "groups_upto pin rows (Suc n) =
     (if joins_team pin rows n then add_to_group (row_key pin n) n (groups_upto pin rows n)
      else groups_upto pin rows n)"
  by (simp add: groups_upto_def)

lemma groups_upto_inv:
  "distinct (map fst (groups_upto pin rows n)) \<and>
   map_of (groups_upto pin rows n) k =
     (if key_rows pin rows n k = [] then None else Some (key_rows pin rows n k))"
proof (induction n arbitrary: k)
  case 0
  show ?case by (simp add: groups_upto_def key_rows_def)
next
  case (Suc n)
  have keys: "distinct (map fst (groups_upto pin rows n))" using Suc by blast
  have map_eq: "map_of (groups_upto pin rows n) k =
      (if key_rows pin rows n k = [] then None else Some (key_rows pin rows n k))" for k
    using Suc by blast
  have "distinct (map fst (groups_upto pin rows (Suc n)))"
    using keys by (simp add: groups_upto_Suc keys_add_to_group)
  moreover have "map_of (groups_upto pin rows (Suc n)) k =
      (if key_rows pin rows (Suc n) k = [] then None else Some (key_rows pin rows (Suc n) k))"
    by (auto simp: groups_upto_Suc map_of_add_to_group map_eq) (auto simp: key_rows_def)
  ultimately show ?case by blast
qed

lemma team_groups_iff:
  "(k, idx) \<in> set (team_groups pin rows) \<longleftrightarrow>
     idx = key_rows pin rows (length (pi_rows pin)) k \<and> idx \<noteq> []"
proof -
  have g: "team_groups pin rows = groups_upto pin rows (length (pi_rows pin))"
    by (simp add: team_groups_def groups_upto_def)
  have "(k, idx) \<in> set (team_groups pin rows) \<longleftrightarrow> map_of (team_groups pin rows) k = Some idx"
    unfolding g by (metis groups_upto_inv map_of_eq_Some_iff)
  then show ?thesis
    using groups_upto_inv [of pin rows "length (pi_rows pin)" k] by (auto simp: g)
qed

lemma team_groups_keys: "distinct (map fst (team_groups pin rows))"
  using groups_upto_inv by (simp add: team_groups_def groups_upto_def)

lemma distinct_group_rows:
  assumes "distinct (map fst gs)" "\<And>k idx. (k, idx) \<in> set gs \<Longrightarrow> distinct idx"
    and "\<And>k idx i. (k, idx) \<in> set gs \<Longrightarrow> i \<in> set idx \<Longrightarrow> f i = k"
  shows "distinct (group_rows gs)"
  using assms
proof (induction gs)
  case (Cons g gs)
  obtain k idx where g: "g = (k, idx)" by fastforce
  have "i \<notin> set (group_rows gs)" if "i \<in> set idx" for i
  proof
    assume "i \<in> set (group_rows gs)"
    then obtain k' idx' where h: "(k', idx') \<in> set gs" "i \<in> set idx'"
      by (auto simp: group_rows_def)
    with Cons.prems(3) that g have "f i = k'" "f i = k" by (auto simp: g)
    with h(1) Cons.prems(1) show False by (force simp: g)
  qed
  moreover have "distinct (group_rows gs)"
  proof (rule Cons.IH)
    show "distinct (map fst gs)" using Cons.prems(1) by simp
  next
    fix k idx assume "(k, idx) \<in> set gs"
    then show "distinct idx" using Cons.prems(2) by auto
  next
    fix k idx i assume "(k, idx) \<in> set gs" "i \<in> set idx"
    then show "f i = k" using Cons.prems(3) [of k idx i] by simp
  qed
  moreover have "distinct idx" using Cons.prems(2) by (auto simp: g)
  ultimately show ?case by (auto simp: group_rows_def g)
qed (simp add: group_rows_def)

lemma team_groups_rows:
  "distinct (group_rows (team_groups pin rows))"
  "set (group_rows (team_groups pin rows)) =
     {i. i < length (pi_rows pin) \<and> joins_team pin rows i}"
proof -
  show "distinct (group_rows (team_groups pin rows))"
    by (rule distinct_group_rows [where f = "row_key pin"])
      (auto simp: team_groups_keys team_groups_iff key_rows_def)
  have "i \<in> set (group_rows (team_groups pin rows)) \<longleftrightarrow>
      (\<exists>k. i \<in> set (key_rows pin rows (length (pi_rows pin)) k))" for i
  proof
    assume "i \<in> set (group_rows (team_groups pin rows))"
    then obtain k idx where "(k, idx) \<in> set (team_groups pin rows)" "i \<in> set idx"
      by (auto simp: group_rows_def)
    then show "\<exists>k. i \<in> set (key_rows pin rows (length (pi_rows pin)) k)"
      by (auto simp: team_groups_iff)
  next
    assume "\<exists>k. i \<in> set (key_rows pin rows (length (pi_rows pin)) k)"
    then obtain k where i: "i \<in> set (key_rows pin rows (length (pi_rows pin)) k)" ..
    then have "(k, key_rows pin rows (length (pi_rows pin)) k) \<in> set (team_groups pin rows)"
      by (auto simp: team_groups_iff)
    with i show "i \<in> set (group_rows (team_groups pin rows))"
      by (force simp: group_rows_def)
  qed
  then show "set (group_rows (team_groups pin rows)) =
     {i. i < length (pi_rows pin) \<and> joins_team pin rows i}"
    by (auto simp: key_rows_def)
qed


section \<open>Pass 1\<close>

lemma list_all2_map_right: "(\<And>x. P x (f x)) \<Longrightarrow> list_all2 P xs (map f xs)"
  by (simp add: list_all2_conv_all_nth)

definition checked_input :: "import_row \<Rightarrow> race_format \<Rightarrow> input" where
  "checked_input row race = (if is_team race then (ir_input row)\<lparr>i_team_id := Some pending_team\<rparr>
     else ir_input row)"

lemma start_row_simps [simp]:
  "rp_line (start_row row) = ir_line row" "rp_bib_number (start_row row) = i_bib_number (ir_input row)"
  "rp_name (start_row row) = fmt_name (i_first_name (ir_input row)) (i_last_name (ir_input row))"
  "rp_action (start_row row) = ActionNone" "rp_existing_id (start_row row) = ''''"
  "rp_team (start_row row) = None" "\<not> has_error (start_row row)"
  by (simp_all add: start_row_def Let_def add_warning_def has_error_def)

lemma rp_team_add_if: "rp_team (if b then add_error f m r else r) = rp_team r"
  by simp

lemma row_rules_extends:
  "extends_row rp (row_rules pin row race rp)" "rp_team (row_rules pin row race rp) = rp_team rp"
  unfolding row_rules_def Let_def
  by (simp_all add: extends_row_def add_error_def split: option.splits)

lemma row_rules_ok:
  assumes "\<not> has_error (row_rules pin row race rp)"
  shows "validate (checked_input row race) race = None" "is_team race \<Longrightarrow> ir_team_name row \<noteq> ''''"
    "0 < i_bib_number (ir_input row) \<Longrightarrow> file_bibs (pi_rows pin) (i_bib_number (ir_input row)) \<le> 1"
    "i_ref_id (ir_input row) = Some ref \<Longrightarrow> file_refs (pi_rows pin) ref \<le> 1"
proof -
  have team: "ir_team_name row \<noteq> ''''" if "is_team race"
  proof
    assume "ir_team_name row = ''''"
    with that have "has_error (row_rules pin row race rp)"
      unfolding row_rules_def Let_def
      by (simp add: has_error_def add_error_def split: option.splits)
    with assms show False by simp
  qed
  show "validate (checked_input row race) race = None"
  proof (rule ccontr)
    assume "validate (checked_input row race) race \<noteq> None"
    then obtain e where "validate (checked_input row race) race = Some e" by blast
    with team have "has_error (row_rules pin row race rp)"
      unfolding row_rules_def Let_def checked_input_def
      by (cases "is_team race") (simp_all add: has_error_def add_error_def split: option.splits)
    with assms show False by simp
  qed
  show "file_bibs (pi_rows pin) (i_bib_number (ir_input row)) \<le> 1" if "0 < i_bib_number (ir_input row)"
  proof (rule ccontr)
    assume "\<not> file_bibs (pi_rows pin) (i_bib_number (ir_input row)) \<le> 1"
    with that have "has_error (row_rules pin row race rp)"
      unfolding row_rules_def Let_def
      by (simp add: has_error_def add_error_def split: option.splits)
    with assms show False by simp
  qed
  show "file_refs (pi_rows pin) ref \<le> 1" if "i_ref_id (ir_input row) = Some ref"
    using assms that unfolding row_rules_def Let_def by (simp split: if_splits)
  show "ir_team_name row \<noteq> ''''" if "is_team race" using team that .
qed

lemma by_bib_find: "by_bib es b = find (\<lambda>e. ep_bib_number e = b) (rev es)"
  unfolding by_bib_def by (induction es rule: rev_induct) simp_all

lemma by_ref_find: "by_ref es r = find (\<lambda>e. ep_ref_id e = Some r) (rev es)"
  unfolding by_ref_def by (induction es rule: rev_induct) (simp_all split: option.splits)

lemma by_bib_None: "by_bib es b = None \<longleftrightarrow> (\<forall>e \<in> set es. ep_bib_number e \<noteq> b)"
  by (simp add: by_bib_find find_None_iff Ball_def)

lemma by_bib_Some: "by_bib es b = Some e \<Longrightarrow> e \<in> set es \<and> ep_bib_number e = b"
  unfolding by_bib_find find_Some_iff by (metis nth_mem set_rev)

lemma by_ref_None: "by_ref es r = None \<longleftrightarrow> (\<forall>e \<in> set es. ep_ref_id e \<noteq> Some r)"
  by (simp add: by_ref_find find_None_iff Ball_def)

lemma by_ref_Some: "by_ref es r = Some e \<Longrightarrow> e \<in> set es \<and> ep_ref_id e = Some r"
  unfolding by_ref_find find_Some_iff by (metis nth_mem set_rev)

text \<open>What a match that raised no error guarantees about the stored participants.\<close>

definition match_sound :: "plan_input \<Rightarrow> import_row \<Rightarrow> existing_participant option \<Rightarrow> bool" where
  "match_sound pin row mt \<longleftrightarrow>
     (case mt of
        None \<Rightarrow> by_bib (pi_existing pin) (i_bib_number (ir_input row)) = None \<and>
          (case i_ref_id (ir_input row) of None \<Rightarrow> True | Some r \<Rightarrow> by_ref (pi_existing pin) r = None)
      | Some e \<Rightarrow> e \<in> set (pi_existing pin) \<and>
          (ep_bib_number e = i_bib_number (ir_input row) \<or>
           (case by_bib (pi_existing pin) (i_bib_number (ir_input row)) of
              None \<Rightarrow> True | Some x \<Rightarrow> ep_id x = ep_id e)) \<and>
          (case i_ref_id (ir_input row) of
             None \<Rightarrow> True | Some r \<Rightarrow> ep_ref_id e = Some r \<or> ep_ref_id e = None))"


lemma match_row_cases:
  assumes "match_row pin row rp = (rp', mt)"
  obtains (err) f m where "rp' = add_error f m rp"
    | (same) "rp' = rp" "match_sound pin row mt"
    | (warned) f m where "rp' = add_warning f m rp" "match_sound pin row mt"
proof (cases "i_ref_id (ir_input row)")
  case None
  with assms same show thesis
    using by_bib_Some [of "pi_existing pin" "i_bib_number (ir_input row)"]
    by (cases mt) (simp_all add: match_row_def Let_def match_sound_def)+
next
  case (Some ref)
  let ?other = "by_bib (pi_existing pin) (i_bib_number (ir_input row))"
  note ref = Some
  show thesis
  proof (cases "by_ref (pi_existing pin) ref")
    case None
    show thesis
    proof (cases ?other)
      case None
      with assms same ref \<open>by_ref _ _ = None\<close> show thesis
        by (simp add: match_row_def Let_def match_sound_def)
    next
      case (Some x)
      note x = this by_bib_Some [OF this]
      show thesis
      proof (cases "ep_ref_id x")
        case None
        with assms ref \<open>by_ref _ _ = None\<close> x have "rp' = rp" "mt = Some x"
          by (simp_all add: match_row_def Let_def)
        then show thesis using ref x None by (intro same) (simp_all add: match_sound_def)
      next
        case (Some r)
        with assms ref \<open>by_ref _ _ = None\<close> x show thesis
          by (intro err) (simp add: match_row_def Let_def, erule conjE, erule sym)
      qed
    qed
  next
    case (Some e)
    note e = this by_ref_Some [OF this]
    show thesis
    proof (cases "ep_bib_number e = i_bib_number (ir_input row)")
      case True
      have "rp' = rp" "mt = Some e"
        using assms ref e True by (simp_all add: match_row_def Let_def)
      then show thesis using ref e True by (intro same) (simp_all add: match_sound_def)
    next
      case False
      show thesis
      proof (cases "\<exists>x. ?other = Some x \<and> ep_id x \<noteq> ep_id e")
        case True
        with assms ref e False show thesis
          by (elim exE conjE) (intro err, simp add: match_row_def Let_def, erule conjE, erule sym)
      next
        case other: False
        have same_id: "?other = None \<or> (\<exists>x. ?other = Some x \<and> (ep_id x = ep_id e) = True)"
          using other by (cases ?other) auto
        have sound: "match_sound pin row (Some e)"
          using e ref same_id by (auto simp: match_sound_def)
        have "mt = Some e"
          using assms ref e False same_id by (elim disjE exE) (simp_all add: match_row_def)
        with sound have sound: "match_sound pin row mt" by simp
        from assms ref e False same_id show thesis
          by (elim disjE exE)
            (rule warned [OF _ sound], simp add: match_row_def Let_def, erule conjE, erule sym)+
      qed
    qed
  qed
qed


text \<open>The outcome of pass 1 for one row.\<close>

definition row_outcome :: "plan_input \<Rightarrow> import_row \<Rightarrow> row_plan \<Rightarrow> bool" where
  "row_outcome pin row r \<longleftrightarrow>
     rp_line r = ir_line row \<and> rp_bib_number r = i_bib_number (ir_input row) \<and>
     rp_name r = fmt_name (i_first_name (ir_input row)) (i_last_name (ir_input row)) \<and>
     rp_team r = None \<and>
     (case rp_action r of
        ActionNone \<Rightarrow> False
      | ActionError \<Rightarrow> has_error r \<and> rp_existing_id r = ''''
      | a \<Rightarrow> \<not> has_error r \<and>
          (\<exists>race mt. pi_races pin (ir_race_id row) = Some race \<and>
             validate (checked_input row race) race = None \<and>
             (is_team race \<longrightarrow> ir_team_name row \<noteq> '''') \<and>
             file_bibs (pi_rows pin) (i_bib_number (ir_input row)) \<le> 1 \<and>
             (case i_ref_id (ir_input row) of None \<Rightarrow> True
              | Some ref \<Rightarrow> file_refs (pi_rows pin) ref \<le> 1) \<and>
             match_sound pin row mt \<and>
             rp_existing_id r = (case mt of None \<Rightarrow> '''' | Some e \<Rightarrow> ep_id e) \<and>
             (a = ActionCreate \<longleftrightarrow> mt = None)))"

lemma extends_start:
  "extends_row (start_row row) r \<Longrightarrow>
     rp_line r = ir_line row \<and> rp_bib_number r = i_bib_number (ir_input row) \<and>
     rp_name r = fmt_name (i_first_name (ir_input row)) (i_last_name (ir_input row)) \<and>
     rp_existing_id r = ''''"
  by (simp add: extends_row_def)

lemma row_outcome_error:
  assumes "extends_row (start_row row) r" "rp_team r = None" "has_error r"
  shows "row_outcome pin row (r\<lparr>rp_action := ActionError\<rparr>)"
  using assms extends_start [OF assms(1)] by (simp add: row_outcome_def)

lemma validate_bib_pos: "validate i race = None \<Longrightarrow> 0 < i_bib_number i"
  by (simp add: validate_def split: if_splits)

lemma checked_input_bib [simp]: "i_bib_number (checked_input row race) = i_bib_number (ir_input row)"
  by (simp add: checked_input_def)

lemma plan_row_outcome: "row_outcome pin row (plan_row pin row)"
proof (cases "pi_races pin (ir_race_id row)")
  case None
  have "row_outcome pin row ((add_error ''race_id'' ''race not found in this event'' (start_row row))
      \<lparr>rp_action := ActionError\<rparr>)"
    by (rule row_outcome_error) simp_all
  then show ?thesis using None by (simp add: plan_row_def Let_def)
next
  case (Some race)
  define rp1 where "rp1 = row_rules pin row race (start_row row)"
  have ext1: "extends_row (start_row row) rp1" "rp_team rp1 = None"
    using row_rules_extends by (simp_all add: rp1_def)
  show ?thesis
  proof (cases "has_error rp1")
    case True
    then have "plan_row pin row = rp1\<lparr>rp_action := ActionError\<rparr>"
      using Some by (simp add: plan_row_def Let_def rp1_def)
    with row_outcome_error [OF ext1 True] show ?thesis by simp
  next
    case ok1: False
    note rules = row_rules_ok [OF ok1 [unfolded rp1_def]]
    obtain rp2 mt where m: "match_row pin row rp1 = (rp2, mt)" by fastforce
    have ext2: "extends_row rp1 rp2" "rp_team rp2 = None" and sound: "\<not> has_error rp2 \<Longrightarrow> match_sound pin row mt"
      using ext1(2) by (cases rule: match_row_cases [OF m]; simp)+
    have ext: "extends_row (start_row row) rp2" using ext1(1) ext2(1) by (rule extends_row_trans)
    show ?thesis
    proof (cases "has_error rp2")
      case True
      then have "plan_row pin row = rp2\<lparr>rp_action := ActionError\<rparr>"
        using Some ok1 m by (simp add: plan_row_def Let_def rp1_def)
      with row_outcome_error [OF ext ext2(2) True] show ?thesis by simp
    next
      case False
      then have plan: "plan_row pin row = decide_row pin mt rp2"
        using Some ok1 m by (simp add: plan_row_def Let_def rp1_def)
      have "file_bibs (pi_rows pin) (i_bib_number (ir_input row)) \<le> 1"
        using rules(3) validate_bib_pos [OF rules(1)] by simp
      then have facts: "\<exists>race. pi_races pin (ir_race_id row) = Some race \<and>
             validate (checked_input row race) race = None \<and>
             (is_team race \<longrightarrow> ir_team_name row \<noteq> '''') \<and>
             file_bibs (pi_rows pin) (i_bib_number (ir_input row)) \<le> 1 \<and>
             (case i_ref_id (ir_input row) of None \<Rightarrow> True
              | Some ref \<Rightarrow> file_refs (pi_rows pin) ref \<le> 1) \<and> match_sound pin row mt"
        using Some rules(1,2,4) sound [OF False] by (auto split: option.splits)
      show ?thesis
      proof (cases mt)
        case None
        with plan have d: "plan_row pin row = rp2\<lparr>rp_action := ActionCreate\<rparr>"
          by (simp add: decide_row_def)
        show ?thesis
          using facts extends_start [OF ext] ext2(2) False unfolding d None
          by (simp add: row_outcome_def)
      next
        case (Some e)
        obtain a f g where d: "plan_row pin row =
            add_warning f g (rp2\<lparr>rp_action := a, rp_existing_id := ep_id e\<rparr>)"
          "a = ActionUpdate \<or> a = ActionSkip"
          unfolding plan Some decide_row_def option.case
          by (cases "pi_update_existing pin") (simp_all only: if_True if_False, blast+)
        have sel: "rp_action (add_warning f g r) = rp_action r" "rp_line (add_warning f g r) = rp_line r"
          "rp_bib_number (add_warning f g r) = rp_bib_number r" "rp_name (add_warning f g r) = rp_name r"
          "rp_existing_id (add_warning f g r) = rp_existing_id r" for r
          by (simp_all add: add_warning_def)
        from facts [unfolded Some] obtain race' where race': "pi_races pin (ir_race_id row) = Some race'"
          "validate (checked_input row race') race' = None" "is_team race' \<longrightarrow> ir_team_name row \<noteq> ''''"
          "file_bibs (pi_rows pin) (i_bib_number (ir_input row)) \<le> 1"
          "case i_ref_id (ir_input row) of None \<Rightarrow> True | Some ref \<Rightarrow> file_refs (pi_rows pin) ref \<le> 1"
          "match_sound pin row (Some e)" by blast
        from d(2) show ?thesis
          unfolding d(1) row_outcome_def
          using race' extends_start [OF ext] ext2(2) False
          by (elim disjE) (simp add: sel, rule exI [of _ "Some e"], simp)+
      qed
    qed
  qed
qed


section \<open>The whole plan\<close>

lemma plan_import_shape:
  obtains rows where
    "pl_rows (plan_import pin) = map settle_row rows"
    "extends_rows (map (plan_row pin) (pi_rows pin)) rows"
    "\<And>k idx. idx = key_rows pin (map (plan_row pin) (pi_rows pin)) (length (pi_rows pin)) k \<Longrightarrow> idx \<noteq> [] \<Longrightarrow>
       group_result pin (k, idx) (map (plan_row pin) (pi_rows pin)) rows"
    "\<And>j. j < length (pi_rows pin) \<Longrightarrow> \<not> joins_team pin (map (plan_row pin) (pi_rows pin)) j \<Longrightarrow>
       rows ! j = plan_row pin (pi_rows pin ! j)"
    "pl_new_teams (plan_import pin) = filter (\<lambda>t. used_key (map settle_row rows) (pt_key t))
       (concat (map (planned_for pin rows) (team_groups pin (map (plan_row pin) (pi_rows pin)))))"
proof -
  let ?rows0 = "map (plan_row pin) (pi_rows pin)" and ?gs = "team_groups pin (map (plan_row pin) (pi_rows pin))"
  obtain rows nt where run: "fold (plan_group pin) ?gs (?rows0, []) = (rows, nt)" by fastforce
  have "\<forall>i \<in> set (group_rows ?gs). i < length ?rows0" by (simp add: team_groups_rows)
  note res = plan_groups_result [OF team_groups_rows(1) this run]
  show thesis
  proof (rule that)
    show "pl_rows (plan_import pin) = map settle_row rows"
      "pl_new_teams (plan_import pin) = filter (\<lambda>t. used_key (map settle_row rows) (pt_key t))
         (concat (map (planned_for pin rows) ?gs))"
      using run res by (simp_all add: plan_import_def plan_teams_def Let_def)
    show "extends_rows ?rows0 rows" using res by blast
    show "group_result pin (k, idx) ?rows0 rows"
      if "idx = key_rows pin ?rows0 (length (pi_rows pin)) k" "idx \<noteq> []" for k idx
      using res that team_groups_iff [of k idx pin ?rows0] by blast
    show "rows ! j = plan_row pin (pi_rows pin ! j)"
      if "j < length (pi_rows pin)" "\<not> joins_team pin ?rows0 j" for j
    proof -
      have "j \<notin> set (group_rows ?gs)" using that by (simp add: team_groups_rows)
      with res that show ?thesis by simp
    qed
  qed
qed

lemma settle_row_simps [simp]:
  "rp_line (settle_row r) = rp_line r" "rp_bib_number (settle_row r) = rp_bib_number r"
  "rp_name (settle_row r) = rp_name r" "rp_existing_id (settle_row r) = rp_existing_id r"
  "has_error (settle_row r) = has_error r"
  "rp_action (settle_row r) = (if has_error r then ActionError else rp_action r)"
  "rp_team (settle_row r) = (if has_error r then None else rp_team r)"
  by (simp_all add: settle_row_def)

text \<open>Every planned row against the file row it was made from.\<close>

lemma plan_row_link:
  assumes "i < length (pi_rows pin)"
  obtains r0 where "row_outcome pin (pi_rows pin ! i) r0" "r0 = plan_row pin (pi_rows pin ! i)"
    "rp_line (pl_rows (plan_import pin) ! i) = rp_line r0"
    "rp_bib_number (pl_rows (plan_import pin) ! i) = rp_bib_number r0"
    "rp_name (pl_rows (plan_import pin) ! i) = rp_name r0"
    "rp_existing_id (pl_rows (plan_import pin) ! i) = rp_existing_id r0"
    "rp_action (pl_rows (plan_import pin) ! i) =
       (if has_error (pl_rows (plan_import pin) ! i) then ActionError else rp_action r0)"
    "has_error r0 \<Longrightarrow> has_error (pl_rows (plan_import pin) ! i)"
proof -
  obtain rows where r: "pl_rows (plan_import pin) = map settle_row rows"
    "extends_rows (map (plan_row pin) (pi_rows pin)) rows"
    by (rule plan_import_shape)
  then have ext: "extends_row (plan_row pin (pi_rows pin ! i)) (rows ! i)" "i < length rows"
    using assms by (simp_all add: list_all2_conv_all_nth)
  show thesis
    using ext r(1) extends_row_error [OF ext(1)]
    by (intro that [OF plan_row_outcome]) (simp_all add: extends_row_def)
qed

lemma plan_import_length: "length (pl_rows (plan_import pin)) = length (pi_rows pin)"
  by (rule plan_import_shape [of pin]) (drule list_all2_lengthD, simp)

lemma row_outcome_error_iff: "row_outcome pin row r \<Longrightarrow> rp_action r = ActionError \<longleftrightarrow> has_error r"
  by (cases "rp_action r") (simp_all add: row_outcome_def)

lemma row_outcome_not_none: "row_outcome pin row r \<Longrightarrow> rp_action r \<noteq> ActionNone"
  by (cases "rp_action r") (simp_all add: row_outcome_def)

text \<open>The plan has one decision per row of the file, in the file's order, with the row's line,
BIB and name; every row is decided, and it is reported as failed exactly when it carries an
error, so no error is ever planned as a change and none is lost.\<close>

theorem import_rows_decided:
  "list_all2 (\<lambda>row r. rp_line r = ir_line row \<and> rp_bib_number r = i_bib_number (ir_input row) \<and>
       rp_name r = fmt_name (i_first_name (ir_input row)) (i_last_name (ir_input row)) \<and>
       rp_action r \<in> {ActionCreate, ActionUpdate, ActionSkip, ActionError} \<and>
       (rp_action r = ActionError \<longleftrightarrow> has_error r))
     (pi_rows pin) (pl_rows (plan_import pin))"
proof (rule list_all2_all_nthI)
  show "length (pi_rows pin) = length (pl_rows (plan_import pin))" by (simp add: plan_import_length)
next
  fix i assume i: "i < length (pi_rows pin)"
  let ?row = "pi_rows pin ! i" and ?r = "pl_rows (plan_import pin) ! i"
  obtain r0 where r0: "row_outcome pin ?row r0" and link: "rp_line ?r = rp_line r0"
    "rp_bib_number ?r = rp_bib_number r0" "rp_name ?r = rp_name r0"
    "rp_action ?r = (if has_error ?r then ActionError else rp_action r0)"
    "has_error r0 \<Longrightarrow> has_error ?r"
    by (rule plan_row_link [OF i]) blast
  have "rp_action r0 \<in> {ActionCreate, ActionUpdate, ActionSkip, ActionError}"
    using row_outcome_not_none [OF r0] by (cases "rp_action r0") simp_all
  then show "rp_line ?r = ir_line ?row \<and> rp_bib_number ?r = i_bib_number (ir_input ?row) \<and>
       rp_name ?r = fmt_name (i_first_name (ir_input ?row)) (i_last_name (ir_input ?row)) \<and>
       rp_action ?r \<in> {ActionCreate, ActionUpdate, ActionSkip, ActionError} \<and>
       (rp_action ?r = ActionError \<longleftrightarrow> has_error ?r)"
    using r0 link row_outcome_error_iff [OF r0] by (auto simp: row_outcome_def split: if_splits)
qed


lemma plan_action_cases:
  "list_all (\<lambda>r. rp_action r \<noteq> ActionNone) (pl_rows (plan_import pin))"
proof -
  have "rp_action (pl_rows (plan_import pin) ! i) \<noteq> ActionNone"
    if i: "i < length (pi_rows pin)" for i
  proof -
    obtain r0 where "row_outcome pin (pi_rows pin ! i) r0" "rp_action (pl_rows (plan_import pin) ! i) =
      (if has_error (pl_rows (plan_import pin) ! i) then ActionError else rp_action r0)"
      by (rule plan_row_link [OF i]) blast
    with row_outcome_not_none show ?thesis by auto
  qed
  then show ?thesis by (simp add: list_all_length plan_import_length)
qed

lemma count_actions:
  "list_all (\<lambda>r. rp_action r \<noteq> ActionNone) rows \<Longrightarrow>
     count_action ActionCreate rows + count_action ActionUpdate rows +
     count_action ActionSkip rows + count_action ActionError rows = length rows"
proof (induction rows)
  case (Cons r rows)
  then show ?case by (cases "rp_action r") (simp_all add: count_action_def)
qed (simp add: count_action_def)

text \<open>The four numbers an import reports (\<open>Plan.Counts\<close>) add up to the rows of the file:
no row is counted twice and none is left out.\<close>

theorem import_counts_total:
  "(case plan_counts (plan_import pin) of (c, u, s, e) \<Rightarrow> c + u + s + e) = length (pi_rows pin)"
  using count_actions [OF plan_action_cases] by (simp add: plan_counts_def plan_import_length)

text \<open>The rows the import applies, as the service will: their inputs in file order.\<close>

definition applied_rows :: "plan_input \<Rightarrow> import_row list" where
  "applied_rows pin = map fst (filter (\<lambda>z. applies (snd z)) (zip (pi_rows pin) (pl_rows (plan_import pin))))"

lemma applies_link:
  assumes i: "i < length (pi_rows pin)" and a: "applies (pl_rows (plan_import pin) ! i)"
  obtains race mt where "pi_races pin (ir_race_id (pi_rows pin ! i)) = Some race"
    "validate (checked_input (pi_rows pin ! i) race) race = None"
    "is_team race \<longrightarrow> ir_team_name (pi_rows pin ! i) \<noteq> ''''"
    "file_bibs (pi_rows pin) (i_bib_number (ir_input (pi_rows pin ! i))) \<le> 1"
    "case i_ref_id (ir_input (pi_rows pin ! i)) of None \<Rightarrow> True
      | Some ref \<Rightarrow> file_refs (pi_rows pin) ref \<le> 1"
    "match_sound pin (pi_rows pin ! i) mt"
    "rp_existing_id (pl_rows (plan_import pin) ! i) = (case mt of None \<Rightarrow> '''' | Some e \<Rightarrow> ep_id e)"
    "rp_action (pl_rows (plan_import pin) ! i) = ActionCreate \<longleftrightarrow> mt = None"
    "applies (plan_row pin (pi_rows pin ! i))"
    "\<not> has_error (pl_rows (plan_import pin) ! i)"
proof -
  let ?r = "pl_rows (plan_import pin) ! i"
  obtain r0 where r0: "row_outcome pin (pi_rows pin ! i) r0" and eq: "r0 = plan_row pin (pi_rows pin ! i)"
    and link: "rp_existing_id ?r = rp_existing_id r0"
    "rp_action ?r = (if has_error ?r then ActionError else rp_action r0)"
    by (rule plan_row_link [OF i]) blast
  have ne: "\<not> has_error ?r" and act: "rp_action ?r = rp_action r0"
    using a link(2) by (auto simp: applies_def split: if_splits)
  with a have a0: "applies r0" by (simp add: applies_def)
  then have "rp_action r0 = ActionCreate \<or> rp_action r0 = ActionUpdate" by (simp add: applies_def)
  then have "\<exists>race mt. pi_races pin (ir_race_id (pi_rows pin ! i)) = Some race \<and>
    validate (checked_input (pi_rows pin ! i) race) race = None \<and>
    (is_team race \<longrightarrow> ir_team_name (pi_rows pin ! i) \<noteq> '''') \<and>
    file_bibs (pi_rows pin) (i_bib_number (ir_input (pi_rows pin ! i))) \<le> 1 \<and>
    (case i_ref_id (ir_input (pi_rows pin ! i)) of None \<Rightarrow> True
      | Some ref \<Rightarrow> file_refs (pi_rows pin) ref \<le> 1) \<and>
    match_sound pin (pi_rows pin ! i) mt \<and>
    rp_existing_id ?r = (case mt of None \<Rightarrow> '''' | Some e \<Rightarrow> ep_id e) \<and>
    (rp_action r0 = ActionCreate \<longleftrightarrow> mt = None)"
    using r0 link(1) by (elim disjE) (simp_all add: row_outcome_def)
  with that a0 ne act eq show thesis by (elim exE conjE) simp
qed

lemma distinct_from_counts:
  assumes "\<And>i. i < length xs \<Longrightarrow> P i \<Longrightarrow> length (filter (\<lambda>x. f x = f (xs ! i)) xs) \<le> 1"
    and "i < length xs" "j < length xs" "P i" "f (xs ! i) = f (xs ! j)"
  shows "i = j"
proof (rule ccontr)
  assume "i \<noteq> j"
  have "{i, j} \<subseteq> {k. k < length xs \<and> f (xs ! k) = f (xs ! i)}" using assms by auto
  then have "card {i, j} \<le> card {k. k < length xs \<and> f (xs ! k) = f (xs ! i)}"
    by (rule card_mono [rotated]) simp
  also have "\<dots> \<le> 1" using assms(1) [OF assms(2,4)] by (simp add: length_filter_conv_card)
  finally show False using \<open>i \<noteq> j\<close> by simp
qed

lemma applied_rows_nth:
  "row \<in> set (applied_rows pin) \<Longrightarrow>
     \<exists>i < length (pi_rows pin). row = pi_rows pin ! i \<and> applies (pl_rows (plan_import pin) ! i)"
  by (auto simp: applied_rows_def set_zip plan_import_length)

lemma unique_on_filter_zip:
  assumes "length ys = length xs"
    and "\<And>i j. i < length xs \<Longrightarrow> j < length xs \<Longrightarrow> Q (ys ! i) \<Longrightarrow> Q (ys ! j) \<Longrightarrow>
           f (xs ! i) \<noteq> None \<Longrightarrow> f (xs ! i) = f (xs ! j) \<Longrightarrow> i = j"
  shows "unique_on f (map fst (filter (\<lambda>z. Q (snd z)) (zip xs ys)))"
  using assms
proof (induction ys xs rule: list_induct2)
  case (Cons y ys x xs)
  have "unique_on f (map fst (filter (\<lambda>z. Q (snd z)) (zip xs ys)))"
  proof (rule Cons.IH)
    fix i j assume "i < length xs" "j < length xs" "Q (ys ! i)" "Q (ys ! j)"
      "f (xs ! i) \<noteq> None" "f (xs ! i) = f (xs ! j)"
    then show "i = j" using Cons.prems [of "Suc i" "Suc j"] by simp
  qed
  moreover have "f x' \<noteq> f x" if "Q y" "(x', y') \<in> set (zip xs ys)" "Q y'" "f x \<noteq> None" for x' y'
  proof -
    from that obtain k where "k < length xs" "x' = xs ! k" "y' = ys ! k"
      using Cons.hyps by (auto simp: set_zip)
    with that Cons.prems [of 0 "Suc k"] show ?thesis by auto
  qed
  ultimately show ?case by (cases "Q y") (force simp: list_all_iff)+
qed simp

text \<open>C2: the rows an import applies have pairwise different BIBs and pairwise different
reference ids, and each passes the field rules of its race: the file alone can never make the
database refuse the import for a duplicate.\<close>

theorem import_applied_unique:
  "unique_on (\<lambda>row. Some (i_bib_number (ir_input row))) (applied_rows pin) \<and>
   unique_on (\<lambda>row. i_ref_id (ir_input row)) (applied_rows pin) \<and>
   list_all (\<lambda>row. case pi_races pin (ir_race_id row) of None \<Rightarrow> False
     | Some race \<Rightarrow> validate (checked_input row race) race = None) (applied_rows pin)"
proof (intro conjI)
  let ?xs = "pi_rows pin" and ?ys = "pl_rows (plan_import pin)"
  show "unique_on (\<lambda>row. Some (i_bib_number (ir_input row))) (applied_rows pin)"
    unfolding applied_rows_def
  proof (rule unique_on_filter_zip [OF plan_import_length])
    fix i j assume *: "i < length ?xs" "j < length ?xs" "applies (?ys ! i)"
      "Some (i_bib_number (ir_input (?xs ! i))) = Some (i_bib_number (ir_input (?xs ! j)))"
    show "i = j"
    proof (rule distinct_from_counts [where P = "\<lambda>i. applies (?ys ! i)"])
      fix k assume k: "k < length ?xs" "applies (?ys ! k)"
      show "length (filter (\<lambda>x. i_bib_number (ir_input x) = i_bib_number (ir_input (?xs ! k))) ?xs) \<le> 1"
        by (rule applies_link [OF k]) (simp add: file_bibs_def)
    qed (use * in simp_all)
  qed
  show "unique_on (\<lambda>row. i_ref_id (ir_input row)) (applied_rows pin)"
    unfolding applied_rows_def
  proof (rule unique_on_filter_zip [OF plan_import_length])
    fix i j assume *: "i < length ?xs" "j < length ?xs" "applies (?ys ! i)"
      "i_ref_id (ir_input (?xs ! i)) \<noteq> None"
      "i_ref_id (ir_input (?xs ! i)) = i_ref_id (ir_input (?xs ! j))"
    show "i = j"
    proof (rule distinct_from_counts
        [where P = "\<lambda>i. applies (?ys ! i) \<and> i_ref_id (ir_input (?xs ! i)) \<noteq> None"])
      fix k assume k: "k < length ?xs" "applies (?ys ! k) \<and> i_ref_id (ir_input (?xs ! k)) \<noteq> None"
      then obtain ref where ref: "i_ref_id (ir_input (?xs ! k)) = Some ref" by blast
      have "applies (?ys ! k)" using k by simp
      then show "length (filter (\<lambda>x. i_ref_id (ir_input x) = i_ref_id (ir_input (?xs ! k))) ?xs) \<le> 1"
        by (rule applies_link [OF k(1)]) (simp add: ref file_refs_def)
    qed (use * in simp_all)
  qed
  show "list_all (\<lambda>row. case pi_races pin (ir_race_id row) of None \<Rightarrow> False
     | Some race \<Rightarrow> validate (checked_input row race) race = None) (applied_rows pin)"
    unfolding list_all_iff
  proof
    fix row assume "row \<in> set (applied_rows pin)"
    then obtain i where i: "i < length ?xs" "row = ?xs ! i" "applies (?ys ! i)"
      using applied_rows_nth by blast
    then show "case pi_races pin (ir_race_id row) of None \<Rightarrow> False
     | Some race \<Rightarrow> validate (checked_input row race) race = None"
      by (simp only: i(2), rule_tac applies_link [OF i(1,3)]) simp
  qed
qed

text \<open>With BIBs unique among the stored participants, as the database keeps them, a row planned as a creation takes a
BIB and a reference no stored participant has, and a row planned as an update names a stored
participant, takes a BIB that is free or its own, and never moves it to another reference id.\<close>

theorem import_no_collision:
  assumes "unique_on (\<lambda>e. Some (ep_bib_number e)) (pi_existing pin)"
  shows "list_all2 (\<lambda>row r. case rp_action r of
       ActionCreate \<Rightarrow> list_all (\<lambda>e. ep_bib_number e \<noteq> i_bib_number (ir_input row) \<and>
         (i_ref_id (ir_input row) = None \<or> ep_ref_id e \<noteq> i_ref_id (ir_input row))) (pi_existing pin)
     | ActionUpdate \<Rightarrow> list_ex (\<lambda>e. ep_id e = rp_existing_id r \<and>
         (ep_ref_id e = None \<or> i_ref_id (ir_input row) = None \<or> ep_ref_id e = i_ref_id (ir_input row)))
         (pi_existing pin) \<and>
         list_all (\<lambda>e. ep_bib_number e \<noteq> i_bib_number (ir_input row) \<or> ep_id e = rp_existing_id r)
           (pi_existing pin)
     | _ \<Rightarrow> True) (pi_rows pin) (pl_rows (plan_import pin))"
proof (rule list_all2_all_nthI)
  show "length (pi_rows pin) = length (pl_rows (plan_import pin))" by (simp add: plan_import_length)
next
  fix i assume i: "i < length (pi_rows pin)"
  let ?row = "pi_rows pin ! i" and ?r = "pl_rows (plan_import pin) ! i"
  have own: "ep_id x = ep_id e" if x: "x \<in> set (pi_existing pin)"
      and bib: "ep_bib_number x = i_bib_number (ir_input ?row)"
      and sound: "match_sound pin ?row (Some e)" for x e
  proof (cases "ep_bib_number e = i_bib_number (ir_input ?row)")
    case True
    with unique_on_sel [OF assms x, of e] bib sound show ?thesis by (simp add: match_sound_def)
  next
    case False
    obtain y where y: "by_bib (pi_existing pin) (i_bib_number (ir_input ?row)) = Some y"
      using x bib by (metis by_bib_None not_None_eq)
    with by_bib_Some [OF y] unique_on_sel [OF assms x, of y] bib have "x = y" by simp
    with False y sound show ?thesis by (simp add: match_sound_def)
  qed
  show "case rp_action ?r of
       ActionCreate \<Rightarrow> list_all (\<lambda>e. ep_bib_number e \<noteq> i_bib_number (ir_input ?row) \<and>
         (i_ref_id (ir_input ?row) = None \<or> ep_ref_id e \<noteq> i_ref_id (ir_input ?row))) (pi_existing pin)
     | ActionUpdate \<Rightarrow> list_ex (\<lambda>e. ep_id e = rp_existing_id ?r \<and>
         (ep_ref_id e = None \<or> i_ref_id (ir_input ?row) = None \<or> ep_ref_id e = i_ref_id (ir_input ?row)))
         (pi_existing pin) \<and>
         list_all (\<lambda>e. ep_bib_number e \<noteq> i_bib_number (ir_input ?row) \<or> ep_id e = rp_existing_id ?r)
           (pi_existing pin)
     | _ \<Rightarrow> True"
  proof (cases "rp_action ?r")
    case ActionCreate
    then have "applies ?r" by (simp add: applies_def)
    then obtain mt where "match_sound pin ?row mt" "rp_action ?r = ActionCreate \<longleftrightarrow> mt = None"
      by (rule applies_link [OF i]) blast
    with ActionCreate have "match_sound pin ?row None" by simp
    then show ?thesis using ActionCreate
      by (cases "i_ref_id (ir_input ?row)")
        (simp_all add: match_sound_def by_bib_None by_ref_None list_all_iff)
  next
    case ActionUpdate
    then have "applies ?r" by (simp add: applies_def)
    then obtain mt where "match_sound pin ?row mt" "rp_action ?r = ActionCreate \<longleftrightarrow> mt = None"
      "rp_existing_id ?r = (case mt of None \<Rightarrow> '''' | Some e \<Rightarrow> ep_id e)"
      by (rule applies_link [OF i]) blast
    with ActionUpdate obtain e where e: "match_sound pin ?row (Some e)" "rp_existing_id ?r = ep_id e"
      by (cases mt) simp_all
    have "list_all (\<lambda>x. ep_bib_number x \<noteq> i_bib_number (ir_input ?row) \<or> ep_id x = ep_id e) (pi_existing pin)"
      using own e(1) by (auto simp: list_all_iff)
    moreover have "e \<in> set (pi_existing pin)" "ep_ref_id e = None \<or> i_ref_id (ir_input ?row) = None \<or>
        ep_ref_id e = i_ref_id (ir_input ?row)"
      using e(1) by (auto simp: match_sound_def split: option.splits)
    ultimately show ?thesis using ActionUpdate e(2) by (auto simp: list_ex_iff)
  qed simp_all
qed

end
