(* ===== verification/Import_Team_Props.thy ===== *)
theory Import_Team_Props
  imports Import_Plan_Props
begin

text \<open>
  The teams of an import plan: what the second pass promises about the rows it lets into a
  team, about the teams it will create, and where that promise ends.
\<close>

section \<open>Rows of one team\<close>

abbreviation first_pass :: "plan_input \<Rightarrow> row_plan list" where
  "first_pass pin \<equiv> map (plan_row pin) (pi_rows pin)"

text \<open>The rows of the file that name a team, those of them that will be applied, and the stored
members of the team that no row of the file names again.\<close>

definition naming_rows :: "plan_input \<Rightarrow> string \<Rightarrow> nat list" where
  "naming_rows pin key = key_rows pin (first_pass pin) (length (pi_rows pin)) key"

definition joining_rows :: "plan_input \<Rightarrow> string \<Rightarrow> nat list" where
  "joining_rows pin key =
     filter (\<lambda>i. applies (pl_rows (plan_import pin) ! i) \<and>
       race_is_team pin (ir_race_id (pi_rows pin ! i)) \<and> row_key pin i = key)
       [0..<length (pi_rows pin)]"

definition untouched_members :: "plan_input \<Rightarrow> string \<Rightarrow> existing_participant list" where
  "untouched_members pin key =
     staying_members (first_pass pin) (naming_rows pin key) (group_members pin key)"

lemma joins_first_pass:
  assumes "i < length (pi_rows pin)" "applies (plan_row pin (pi_rows pin ! i))"
  shows "joins_team pin (first_pass pin) i \<longleftrightarrow> race_is_team pin (ir_race_id (pi_rows pin ! i))"
proof -
  have o: "row_outcome pin (pi_rows pin ! i) (plan_row pin (pi_rows pin ! i))"
    by (rule plan_row_outcome)
  from assms(2) have "rp_action (plan_row pin (pi_rows pin ! i)) = ActionCreate \<or>
      rp_action (plan_row pin (pi_rows pin ! i)) = ActionUpdate"
    by (simp add: applies_def)
  then have "\<exists>race. pi_races pin (ir_race_id (pi_rows pin ! i)) = Some race \<and>
      (is_team race \<longrightarrow> ir_team_name (pi_rows pin ! i) \<noteq> '''')"
    using o by (elim disjE) (auto simp: row_outcome_def)
  with assms show ?thesis by (auto simp: joins_team_def race_is_team_def)
qed

lemma joining_rows_admitted:
  assumes rows: "pl_rows (plan_import pin) = map settle_row rows"
    "extends_rows (first_pass pin) rows"
  shows "joining_rows pin key = admitted rows (naming_rows pin key)"
proof -
  have len: "length rows = length (pi_rows pin)" using rows(2) by (auto dest: list_all2_lengthD)
  have "applies (pl_rows (plan_import pin) ! i) \<and> race_is_team pin (ir_race_id (pi_rows pin ! i)) \<longleftrightarrow>
      joins_team pin (first_pass pin) i \<and> \<not> has_error (rows ! i)" if i: "i < length (pi_rows pin)" for i
  proof -
    have r: "pl_rows (plan_import pin) ! i = settle_row (rows ! i)" using rows(1) len i by simp
    have act: "rp_action (rows ! i) = rp_action (plan_row pin (pi_rows pin ! i))"
      using rows(2) i by (simp add: list_all2_conv_all_nth extends_row_def)
    have "applies (settle_row (rows ! i)) \<longleftrightarrow>
        \<not> has_error (rows ! i) \<and> applies (plan_row pin (pi_rows pin ! i))"
      by (simp add: applies_def act)
    moreover have "joins_team pin (first_pass pin) i \<Longrightarrow> applies (plan_row pin (pi_rows pin ! i))"
      using i by (simp add: joins_team_def)
    ultimately show ?thesis using joins_first_pass [OF i] r by auto
  qed
  then show ?thesis
    unfolding joining_rows_def admitted_def naming_rows_def key_rows_def filter_filter
    by (intro filter_cong refl) auto
qed

lemma team_fits_joining:
  assumes "joining_rows pin key \<noteq> []"
  shows "team_fits pin key (naming_rows pin key) (untouched_members pin key) (joining_rows pin key)"
proof -
  obtain rows where rows: "pl_rows (plan_import pin) = map settle_row rows"
    "extends_rows (first_pass pin) rows" and groups: "\<And>k idx. idx = naming_rows pin k \<Longrightarrow> idx \<noteq> [] \<Longrightarrow>
       group_result pin (k, idx) (first_pass pin) rows"
    by (rule plan_import_shape [of pin]) (auto simp: naming_rows_def)
  note adm = joining_rows_admitted [OF rows, of key]
  with assms have "naming_rows pin key \<noteq> []" by (auto simp: admitted_def)
  from groups [OF refl this] adm assms show ?thesis
    by (simp add: group_result_def untouched_members_def)
qed

text \<open>C1: the rows an import puts into a team fit it beside those stored members whom no row for this team names
(of the rows that pass the checks on single rows): together they are at most the race's team size, the legs of the rows are pairwise different and not those of
such members, a team the import creates has a known category, and the composition rule accepts the genders of
both together. Nothing is said of a stored member whom such a row names and whose row is then refused: that
member keeps its seat and is not counted (\<open>import_team_overfull\<close> below).\<close>

theorem import_team_capacity:
  "joining_rows pin key = [] \<or>
   (let acc = joining_rows pin key; staying = untouched_members pin key;
        size = race_size pin (ir_race_id (pi_rows pin ! hd (naming_rows pin key)));
        category = group_category pin key (naming_rows pin key) in
    int (length staying + length acc) \<le> size \<and>
    distinct (concat (map (row_legs pin) acc)) \<and>
    set (concat (map (row_legs pin) acc)) \<inter> set (used_legs staying) = {} \<and>
    fst (check_team_composition category size
           (map ep_gender staying @ map (row_gender pin) acc)) = None \<and>
    (case teams_by_key (pi_teams pin) key of None \<Rightarrow> category_valid category | Some t \<Rightarrow> True))"
  using team_fits_joining [of pin key]
  by (auto simp: Let_def team_fits_def group_size_def split: option.splits)

section \<open>Team references\<close>

lemma plan_row_team_None [simp]: "rp_team (plan_row pin row) = None"
  using plan_row_outcome [of pin row] by (simp add: row_outcome_def)

lemma team_key_nonempty [simp]: "team_key r n \<noteq> ''''" "row_key pin i \<noteq> ''''"
  by (simp_all add: team_key_def row_key_def)

lemma in_naming_rows:
  "i \<in> set (naming_rows pin key) \<longleftrightarrow>
     i < length (pi_rows pin) \<and> joins_team pin (first_pass pin) i \<and> row_key pin i = key"
  by (auto simp: naming_rows_def key_rows_def)

text \<open>The team of a row in the plan, and the rows and teams of the plan it comes from.\<close>

lemma plan_teams_shape:
  obtains rows where "pl_rows (plan_import pin) = map settle_row rows"
    "length rows = length (pi_rows pin)"
    "\<And>i. i < length (pi_rows pin) \<Longrightarrow> rp_team (settle_row (rows ! i)) =
       (if applies (settle_row (rows ! i)) \<and> race_is_team pin (ir_race_id (pi_rows pin ! i))
        then Some (group_ref pin (row_key pin i)) else None)"
    "\<And>key. joining_rows pin key = admitted rows (naming_rows pin key)"
    "pl_new_teams (plan_import pin) = filter (\<lambda>t. used_key (map settle_row rows) (pt_key t))
       (concat (map (planned_for pin rows) (team_groups pin (first_pass pin))))"
proof -
  obtain rows where rows: "pl_rows (plan_import pin) = map settle_row rows"
    "extends_rows (first_pass pin) rows"
    and groups: "\<And>k idx. idx = naming_rows pin k \<Longrightarrow> idx \<noteq> [] \<Longrightarrow>
       group_result pin (k, idx) (first_pass pin) rows"
    and same: "\<And>j. j < length (pi_rows pin) \<Longrightarrow> \<not> joins_team pin (first_pass pin) j \<Longrightarrow>
       rows ! j = plan_row pin (pi_rows pin ! j)"
    and teams: "pl_new_teams (plan_import pin) = filter (\<lambda>t. used_key (map settle_row rows) (pt_key t))
       (concat (map (planned_for pin rows) (team_groups pin (first_pass pin))))"
    by (rule plan_import_shape [of pin]) (auto simp: naming_rows_def)
  have len: "length rows = length (pi_rows pin)" using rows(2) by (auto dest: list_all2_lengthD)
  have "rp_team (settle_row (rows ! i)) =
       (if applies (settle_row (rows ! i)) \<and> race_is_team pin (ir_race_id (pi_rows pin ! i))
        then Some (group_ref pin (row_key pin i)) else None)" if i: "i < length (pi_rows pin)" for i
  proof -
    have act: "rp_action (rows ! i) = rp_action (plan_row pin (pi_rows pin ! i))"
      using rows(2) i by (simp add: list_all2_conv_all_nth extends_row_def)
    show ?thesis
    proof (cases "joins_team pin (first_pass pin) i")
      case True
      then have "i \<in> set (naming_rows pin (row_key pin i))" using i by (simp add: in_naming_rows)
      then have i': "i \<in> set (naming_rows pin (row_key pin i))" "naming_rows pin (row_key pin i) \<noteq> []"
        by auto
      have "rp_team (rows ! i) =
          (if \<not> has_error (rows ! i) then Some (group_ref pin (row_key pin i)) else None)"
        using groups [OF refl i'(2)] i' i by (simp add: group_result_def admitted_def)
      moreover have "applies (plan_row pin (pi_rows pin ! i))"
        "race_is_team pin (ir_race_id (pi_rows pin ! i))"
        using True i by (simp_all add: joins_team_def)
      ultimately show ?thesis by (simp add: applies_def act)
    next
      case False
      then have "rows ! i = plan_row pin (pi_rows pin ! i)" using same i by simp
      then show ?thesis using False joins_first_pass [OF i] by (auto simp: applies_def)
    qed
  qed
  with rows len teams joining_rows_admitted [OF rows] show thesis by (intro that) auto
qed

lemma planned_teams_iff:
  "t \<in> set (pl_new_teams (plan_import pin)) \<longleftrightarrow>
     teams_by_key (pi_teams pin) (pt_key t) = None \<and> joining_rows pin (pt_key t) \<noteq> [] \<and>
     pt_race_id t = ir_race_id (pi_rows pin ! hd (naming_rows pin (pt_key t))) \<and>
     pt_name t = trim_space (ir_team_name (pi_rows pin ! hd (naming_rows pin (pt_key t)))) \<and>
     pt_category t = stated_category pin (naming_rows pin (pt_key t))"
  (is "_ \<longleftrightarrow> ?R t")
proof -
  obtain rows where rows: "pl_rows (plan_import pin) = map settle_row rows"
    "length rows = length (pi_rows pin)"
    and team: "\<And>i. i < length (pi_rows pin) \<Longrightarrow> rp_team (settle_row (rows ! i)) =
       (if applies (settle_row (rows ! i)) \<and> race_is_team pin (ir_race_id (pi_rows pin ! i))
        then Some (group_ref pin (row_key pin i)) else None)"
    and adm: "\<And>key. joining_rows pin key = admitted rows (naming_rows pin key)"
    and teams: "pl_new_teams (plan_import pin) = filter (\<lambda>t. used_key (map settle_row rows) (pt_key t))
       (concat (map (planned_for pin rows) (team_groups pin (first_pass pin))))"
    by (rule plan_teams_shape [of pin]) blast
  have used: "used_key (map settle_row rows) (pt_key t)" if "?R t"
  proof -
    from that obtain i where i: "i \<in> set (joining_rows pin (pt_key t))" by (meson hd_in_set)
    then have "i < length (pi_rows pin)" "row_key pin i = pt_key t"
      "rp_team (settle_row (rows ! i)) = Some (group_ref pin (pt_key t))"
      using team [of i] rows by (auto simp: joining_rows_def)
    moreover have "group_ref pin (pt_key t) = \<lparr>tr_existing_id = '''', tr_new_key = pt_key t\<rparr>"
      using that by (simp add: group_ref_def)
    moreover have "pt_key t \<noteq> ''''" using \<open>row_key pin i = pt_key t\<close> by (metis team_key_nonempty(2))
    ultimately show ?thesis
      unfolding used_key_def list_ex_iff using rows(2)
      by (intro bexI [of _ "settle_row (rows ! i)"]) simp_all
  qed
  have "(\<exists>g \<in> set (team_groups pin (first_pass pin)). t \<in> set (planned_for pin rows g)) \<longleftrightarrow> ?R t"
  proof -
    have "(\<exists>g \<in> set (team_groups pin (first_pass pin)). t \<in> set (planned_for pin rows g)) \<longleftrightarrow>
        (\<exists>k. naming_rows pin k \<noteq> [] \<and> t \<in> set (planned_for pin rows (k, naming_rows pin k)))"
      by (auto simp: team_groups_iff naming_rows_def Bex_def split_paired_Ex)
    also have "\<dots> \<longleftrightarrow> ?R t"
    proof
      assume R: "?R t"
      then have "naming_rows pin (pt_key t) \<noteq> []" by (auto simp: adm admitted_def)
      moreover have "t \<in> set (planned_for pin rows (pt_key t, naming_rows pin (pt_key t)))"
        using R by (simp add: planned_for_def adm)
      ultimately show "\<exists>k. naming_rows pin k \<noteq> [] \<and> t \<in> set (planned_for pin rows (k, naming_rows pin k))"
        by blast
    qed (auto simp: planned_for_def adm split: if_splits)
    finally show ?thesis .
  qed
  then show ?thesis using used by (auto simp: teams)
qed

text \<open>Every applied row of a team race refers to a team and no other row does: to the stored
team with that race and name when there is one, otherwise to a team of the same key that the plan
creates.\<close>

theorem import_team_refs:
  "list_all2 (\<lambda>row r.
     case rp_team r of
       None \<Rightarrow> \<not> (applies r \<and> race_is_team pin (ir_race_id row))
     | Some tr \<Rightarrow> applies r \<and> race_is_team pin (ir_race_id row) \<and>
         (case teams_by_key (pi_teams pin) (team_key (ir_race_id row) (ir_team_name row)) of
            Some t \<Rightarrow> tr = \<lparr>tr_existing_id = et_id t, tr_new_key = ''''\<rparr>
          | None \<Rightarrow> tr = \<lparr>tr_existing_id = '''',
                       tr_new_key = team_key (ir_race_id row) (ir_team_name row)\<rparr> \<and>
              team_key (ir_race_id row) (ir_team_name row) \<in> pt_key ` set (pl_new_teams (plan_import pin))))
     (pi_rows pin) (pl_rows (plan_import pin))"
proof (rule list_all2_all_nthI)
  show "length (pi_rows pin) = length (pl_rows (plan_import pin))" by (simp add: plan_import_length)
next
  fix i assume i: "i < length (pi_rows pin)"
  let ?row = "pi_rows pin ! i" and ?r = "pl_rows (plan_import pin) ! i"
  have key: "team_key (ir_race_id ?row) (ir_team_name ?row) = row_key pin i" by (simp add: row_key_def)
  have team: "rp_team ?r = (if applies ?r \<and> race_is_team pin (ir_race_id ?row)
        then Some (group_ref pin (row_key pin i)) else None)"
    by (rule plan_teams_shape [of pin]) (simp add: i)
  have planned: "row_key pin i \<in> pt_key ` set (pl_new_teams (plan_import pin))"
    if "teams_by_key (pi_teams pin) (row_key pin i) = None" "applies ?r"
      "race_is_team pin (ir_race_id ?row)"
  proof -
    have "i \<in> set (joining_rows pin (row_key pin i))" using i that by (simp add: joining_rows_def)
    then have "joining_rows pin (row_key pin i) \<noteq> []" by auto
    then have "\<lparr>pt_key = row_key pin i,
        pt_race_id = ir_race_id (pi_rows pin ! hd (naming_rows pin (row_key pin i))),
        pt_name = trim_space (ir_team_name (pi_rows pin ! hd (naming_rows pin (row_key pin i)))),
        pt_category = stated_category pin (naming_rows pin (row_key pin i))\<rparr>
        \<in> set (pl_new_teams (plan_import pin))"
      using that(1) by (simp add: planned_teams_iff)
    then show ?thesis by (rule rev_image_eqI) simp
  qed
  show "case rp_team ?r of
       None \<Rightarrow> \<not> (applies ?r \<and> race_is_team pin (ir_race_id ?row))
     | Some tr \<Rightarrow> applies ?r \<and> race_is_team pin (ir_race_id ?row) \<and>
         (case teams_by_key (pi_teams pin) (team_key (ir_race_id ?row) (ir_team_name ?row)) of
            Some t \<Rightarrow> tr = \<lparr>tr_existing_id = et_id t, tr_new_key = ''''\<rparr>
          | None \<Rightarrow> tr = \<lparr>tr_existing_id = '''',
                       tr_new_key = team_key (ir_race_id ?row) (ir_team_name ?row)\<rparr> \<and>
              team_key (ir_race_id ?row) (ir_team_name ?row) \<in> pt_key ` set (pl_new_teams (plan_import pin)))"
    unfolding key team using planned
    by (cases "teams_by_key (pi_teams pin) (row_key pin i)") (simp_all add: group_ref_def)
qed

lemma concat_map_if_distinct:
  assumes "distinct (map fst gs)" "\<And>g. f g = [] \<or> (\<exists>t. f g = [t] \<and> key t = fst g)"
  shows "distinct (map key (concat (map f gs))) \<and> set (map key (concat (map f gs))) \<subseteq> fst ` set gs"
  using assms(1)
proof (induction gs)
  case (Cons g gs)
  with assms(2) [of g] show ?case by (elim disjE exE) (auto simp: image_iff)
qed simp

text \<open>The teams the plan creates have pairwise different keys, none is already stored, and each has
an applied row that joins it, a known category, and the race and trimmed name of a row that names it: the import creates neither
a duplicate nor an empty team.\<close>

theorem import_new_teams:
  "distinct (map pt_key (pl_new_teams (plan_import pin))) \<and>
   list_all (\<lambda>t. teams_by_key (pi_teams pin) (pt_key t) = None \<and>
       joining_rows pin (pt_key t) \<noteq> [] \<and> category_valid (pt_category t) \<and>
       list_ex (\<lambda>i. pt_race_id t = ir_race_id (pi_rows pin ! i) \<and>
         pt_name t = trim_space (ir_team_name (pi_rows pin ! i))) (naming_rows pin (pt_key t)))
     (pl_new_teams (plan_import pin))"
proof
  obtain rows where adm: "\<And>key. joining_rows pin key = admitted rows (naming_rows pin key)"
    and teams: "pl_new_teams (plan_import pin) = filter (\<lambda>t. used_key (map settle_row rows) (pt_key t))
       (concat (map (planned_for pin rows) (team_groups pin (first_pass pin))))"
    by (rule plan_teams_shape [of pin]) blast
  have "distinct (map pt_key (concat (map (planned_for pin rows) (team_groups pin (first_pass pin)))))"
    using concat_map_if_distinct [OF team_groups_keys, of "planned_for pin rows" pt_key pin "first_pass pin"]
    by (auto simp: planned_for_def split: prod.splits)
  then show "distinct (map pt_key (pl_new_teams (plan_import pin)))"
    unfolding teams by (rule distinct_map_filter)
  show "list_all (\<lambda>t. teams_by_key (pi_teams pin) (pt_key t) = None \<and>
       joining_rows pin (pt_key t) \<noteq> [] \<and> category_valid (pt_category t) \<and>
       list_ex (\<lambda>i. pt_race_id t = ir_race_id (pi_rows pin ! i) \<and>
         pt_name t = trim_space (ir_team_name (pi_rows pin ! i))) (naming_rows pin (pt_key t)))
     (pl_new_teams (plan_import pin))"
    unfolding list_all_iff
  proof
    fix t assume t: "t \<in> set (pl_new_teams (plan_import pin))"
    let ?n = "naming_rows pin (pt_key t)"
    from t have facts: "teams_by_key (pi_teams pin) (pt_key t) = None"
      "joining_rows pin (pt_key t) \<noteq> []" "pt_race_id t = ir_race_id (pi_rows pin ! hd ?n)"
      "pt_name t = trim_space (ir_team_name (pi_rows pin ! hd ?n))"
      "pt_category t = stated_category pin ?n"
      by (simp_all add: planned_teams_iff)
    have "category_valid (pt_category t)"
      using team_fits_joining [OF facts(2)] facts(1,5) by (simp add: team_fits_def group_category_def)
    moreover have "?n \<noteq> []" using facts(2) adm [of "pt_key t"] by (auto simp: admitted_def)
    then have "hd ?n \<in> set ?n" by (rule hd_in_set)
    ultimately show "teams_by_key (pi_teams pin) (pt_key t) = None \<and>
       joining_rows pin (pt_key t) \<noteq> [] \<and> category_valid (pt_category t) \<and>
       list_ex (\<lambda>i. pt_race_id t = ir_race_id (pi_rows pin ! i) \<and>
         pt_name t = trim_space (ir_team_name (pi_rows pin ! i))) ?n"
      using facts by (auto simp: list_ex_iff)
  qed
qed


section \<open>A sample file, and the limit of the planner\<close>

definition sample_race :: race_format where
  "sample_race = \<lparr>rf_id = ''r1'', rf_event_id = ''e1'', rf_name = ''Duo'', rf_entry_type = ''team'',
     rf_course_type = ''standard'', rf_team_size = Some 2\<rparr>"

definition sample_member :: "string \<Rightarrow> int \<Rightarrow> existing_participant" where
  "sample_member pid bib = \<lparr>ep_id = pid, ep_race_id = ''r1'', ep_bib_number = bib, ep_ref_id = None,
     ep_team_id = Some ''t1'', ep_leg_order = None, ep_gender = GenderMale\<rparr>"

definition sample_row :: "int \<Rightarrow> int \<Rightarrow> import_row" where
  "sample_row ln bib = \<lparr>ir_line = ln,
     ir_input = \<lparr>i_first_name = ''Budi'', i_last_name = None, i_bib_name = None, i_bib_number = bib,
       i_gender = GenderMale, i_ref_id = None, i_email = None, i_club = None, i_ec_name = None,
       i_ec_phone = None, i_blood_type = None, i_status = StatusRegistered, i_team_id = None,
       i_leg_order = None\<rparr>,
     ir_race_id = ''r1'', ir_team_name = ''Elang'', ir_team_category = '''', ir_bad_blood_type = ''''\<rparr>"

text \<open>A full team of two, registered with BIBs 11 and 12, and a file with the rows given.\<close>

definition sample_input :: "import_row list \<Rightarrow> plan_input" where
  "sample_input rows = \<lparr>pi_rows = rows, pi_update_existing = True,
     pi_races = (\<lambda>i. if i = ''r1'' then Some sample_race else None),
     pi_existing = [sample_member ''p1'' 11, sample_member ''p2'' 12],
     pi_teams = [\<lparr>et_id = ''t1'', et_race_id = ''r1'', et_name = ''elang'', et_category = CategoryMale,
       et_members = [sample_member ''p1'' 11, sample_member ''p2'' 12]\<rparr>]\<rparr>"

theorem import_no_collision_witness:
  "list_all2 (\<lambda>row r. case rp_action r of
       ActionCreate \<Rightarrow> list_all (\<lambda>e. ep_bib_number e \<noteq> i_bib_number (ir_input row) \<and>
         (i_ref_id (ir_input row) = None \<or> ep_ref_id e \<noteq> i_ref_id (ir_input row)))
           (pi_existing (sample_input [sample_row 1 11]))
     | ActionUpdate \<Rightarrow> list_ex (\<lambda>e. ep_id e = rp_existing_id r \<and>
         (ep_ref_id e = None \<or> i_ref_id (ir_input row) = None \<or> ep_ref_id e = i_ref_id (ir_input row)))
         (pi_existing (sample_input [sample_row 1 11])) \<and>
         list_all (\<lambda>e. ep_bib_number e \<noteq> i_bib_number (ir_input row) \<or> ep_id e = rp_existing_id r)
           (pi_existing (sample_input [sample_row 1 11]))
     | _ \<Rightarrow> True) (pi_rows (sample_input [sample_row 1 11]))
     (pl_rows (plan_import (sample_input [sample_row 1 11])))"
  by (rule import_no_collision) (simp add: sample_input_def sample_member_def)

text \<open>
  The promise of \<open>import_team_capacity\<close> counts only the members the file does not name again. A row that names a
  member and is then refused has still taken that member out of the count: with a new entrant on the
  first row and the two members on the next, the planner applies the first two rows and refuses the
  third, whose member keeps the seat it has, and the team of two ends with three members.
\<close>

lemma import_team_overfull:
  "let pin = sample_input [sample_row 1 13, sample_row 2 11, sample_row 3 12];
       rows = pl_rows (plan_import pin)
   in map rp_action rows = [ActionCreate, ActionUpdate, ActionError] \<and>
      map rp_existing_id rows = ['''', ''p1'', ''p2''] \<and>
      map (map_option tr_existing_id \<circ> rp_team) rows = [Some ''t1'', Some ''t1'', None] \<and>
      rf_team_size sample_race = Some 2"
  by code_simp

end
