(* ===== verification/Event_Model.thy ===== *)
theory Event_Model
  imports Domain Complex_Main
begin

text \<open>
  The types and database-free rules of \<open>internal/event\<close>: events, races and the race format
  rules (\<open>event.go\<close>), event assignments and invitations (\<open>assignment.go\<close>), capabilities
  (\<open>capability.go\<close>), and the slug and colour rules of \<open>service.go\<close>.

  Times are integers (nanoseconds); kilometres, Go \<open>float64\<close> values the code only compares
  with zero and with each other, are rationals.
\<close>

section \<open>Slugs and colours\<close>

definition slug_char :: "char \<Rightarrow> bool" where
  "slug_char c = (byte c \<in> {0x61..0x7A} \<or> byte c \<in> {0x30..0x39})"

text \<open>\<open>[^a-z0-9]+\<close> replaced by a dash; the flag says whether a run is already replaced.\<close>

fun sanitize :: "bool \<Rightarrow> string \<Rightarrow> string" where
  "sanitize in_run [] = []"
| "sanitize in_run (c # cs) =
     (if slug_char c then c # sanitize False cs
      else if in_run then sanitize True cs
      else CHR ''-'' # sanitize True cs)"

definition trim_dashes :: "string \<Rightarrow> string" where
  "trim_dashes s =
     rev (dropWhile (\<lambda>c. c = CHR ''-'') (rev (dropWhile (\<lambda>c. c = CHR ''-'') s)))"

definition slugify :: "string \<Rightarrow> string" where
  "slugify s = trim_dashes (sanitize False (to_lower (trim_space s)))"

definition hex_digit :: "char \<Rightarrow> bool" where
  "hex_digit c = (byte c \<in> {0x30..0x39} \<or> byte c \<in> {0x61..0x66} \<or> byte c \<in> {0x41..0x46})"

definition hex_color :: "string \<Rightarrow> bool" where
  "hex_color s = (case s of [] \<Rightarrow> False
     | c # ds \<Rightarrow> c = CHR ''#'' \<and> (length ds = 3 \<or> length ds = 6) \<and> list_all hex_digit ds)"

section \<open>Events and races\<close>

type_synonym event_status = string

abbreviation EventStatusDraft :: event_status where "EventStatusDraft \<equiv> ''draft''"
abbreviation EventStatusPublished :: event_status where "EventStatusPublished \<equiv> ''published''"
abbreviation EventStatusArchived :: event_status where "EventStatusArchived \<equiv> ''archived''"

record event_row =
  ev_id :: string
  ev_tenant_id :: string
  ev_name :: string
  ev_slug :: string
  ev_venue :: "string option"
  ev_start_date :: "int option"
  ev_end_date :: "int option"
  ev_logo_storage_id :: "string option"
  ev_thumbnail_storage_id :: "string option"
  ev_primary_color :: "string option"
  ev_status :: event_status
  ev_created_by :: string
  ev_created_at :: int
  ev_updated_at :: int

abbreviation RaceEntryIndividual :: string where "RaceEntryIndividual \<equiv> ''individual''"
abbreviation RaceEntryTeam :: string where "RaceEntryTeam \<equiv> ''team''"
abbreviation RaceCourseStandard :: string where "RaceCourseStandard \<equiv> ''standard''"
abbreviation RaceCourseRelay :: string where "RaceCourseRelay \<equiv> ''relay''"
abbreviation RaceCourseLoop :: string where "RaceCourseLoop \<equiv> ''loop''"
abbreviation LoopModeTargetLaps :: string where "LoopModeTargetLaps \<equiv> ''target_laps''"
abbreviation LoopModeTimeLimit :: string where "LoopModeTimeLimit \<equiv> ''time_limit''"

text \<open>\<open>event.RaceFormat\<close>\<close>

record race_config =
  rc_entry_type :: string
  rc_course_type :: string
  rc_team_size :: "int option"
  rc_loop_mode :: "string option"
  rc_loop_length_km :: "rat option"
  rc_loop_target_laps :: "int option"
  rc_loop_time_limit_ms :: "int option"

record race_row =
  ra_id :: string
  ra_tenant_id :: string
  ra_event_id :: string
  ra_name :: string
  ra_slug :: string
  ra_distance_km :: "rat option"
  ra_format :: race_config
  ra_created_at :: int
  ra_updated_at :: int

definition invalid_state :: "string \<Rightarrow> go_error" where
  "invalid_state msg = service_error ErrInvalidState msg"

definition format_normalize :: "race_config \<Rightarrow> race_config" where
  "format_normalize f0 =
     (let f1 = (if rc_entry_type f0 = '''' then f0\<lparr>rc_entry_type := RaceEntryIndividual\<rparr> else f0);
          f2 = (if rc_course_type f1 = '''' then f1\<lparr>rc_course_type := RaceCourseStandard\<rparr> else f1);
          f3 = (if rc_entry_type f2 \<noteq> RaceEntryTeam then f2\<lparr>rc_team_size := None\<rparr> else f2)
      in if rc_course_type f3 \<noteq> RaceCourseLoop
         then f3\<lparr>rc_loop_mode := None, rc_loop_length_km := None, rc_loop_target_laps := None,
                 rc_loop_time_limit_ms := None\<rparr>
         else case rc_loop_mode f3 of
                None \<Rightarrow> f3
              | Some m \<Rightarrow>
                  if m = LoopModeTargetLaps then f3\<lparr>rc_loop_time_limit_ms := None\<rparr>
                  else if m = LoopModeTimeLimit then f3\<lparr>rc_loop_target_laps := None\<rparr>
                  else f3)"

text \<open>\<open>RaceFormat.Validate\<close>: the first broken rule.\<close>

definition validate_loop :: "race_config \<Rightarrow> go_error option" where
  "validate_loop f =
     (case rc_loop_mode f of
        None \<Rightarrow> Some (invalid_state ''loop_mode is required for a loop race'')
      | Some m \<Rightarrow>
          if (case rc_loop_length_km f of None \<Rightarrow> True | Some k \<Rightarrow> k \<le> 0)
          then Some (invalid_state ''loop_length_km must be greater than 0 for a loop race'')
          else if m = LoopModeTargetLaps
          then (if (case rc_loop_target_laps f of None \<Rightarrow> True | Some n \<Rightarrow> n < 1)
                then Some (invalid_state
                       ''loop_target_laps must be at least 1 for loop_mode target_laps'')
                else None)
          else if m = LoopModeTimeLimit
          then (if (case rc_loop_time_limit_ms f of None \<Rightarrow> True | Some n \<Rightarrow> n \<le> 0)
                then Some (invalid_state
                       ''loop_time_limit_ms must be greater than 0 for loop_mode time_limit'')
                else None)
          else Some (invalid_state ''loop_mode must be target_laps or time_limit''))"

definition format_validate :: "race_config \<Rightarrow> go_error option" where
  "format_validate f =
     (if rc_entry_type f \<noteq> RaceEntryIndividual \<and> rc_entry_type f \<noteq> RaceEntryTeam
      then Some (invalid_state ''entry_type must be individual or team'')
      else if rc_course_type f \<noteq> RaceCourseStandard \<and> rc_course_type f \<noteq> RaceCourseRelay \<and>
              rc_course_type f \<noteq> RaceCourseLoop
      then Some (invalid_state ''course_type must be standard, relay or loop'')
      else if rc_course_type f = RaceCourseRelay \<and> rc_entry_type f \<noteq> RaceEntryTeam
      then Some (invalid_state ''a relay race must have entry_type team'')
      else if rc_entry_type f = RaceEntryTeam \<and> rc_course_type f = RaceCourseStandard
      then Some (invalid_state ''a team race must have course_type relay or loop'')
      else if rc_entry_type f = RaceEntryTeam \<and> rc_team_size f = None
      then Some (invalid_state ''team_size is required for a team race'')
      else if rc_entry_type f = RaceEntryTeam \<and>
              (case rc_team_size f of None \<Rightarrow> False | Some n \<Rightarrow> n < 2)
      then Some (invalid_state ''team_size must be at least 2'')
      else if rc_course_type f = RaceCourseLoop then validate_loop f
      else None)"

text \<open>\<open>Equal\<close>: fields compared one by one, pointers by what they point at.\<close>

definition format_equal :: "race_config \<Rightarrow> race_config \<Rightarrow> bool" where
  "format_equal f g \<longleftrightarrow>
     rc_entry_type f = rc_entry_type g \<and> rc_course_type f = rc_course_type g \<and>
     rc_team_size f = rc_team_size g \<and> rc_loop_mode f = rc_loop_mode g \<and>
     rc_loop_length_km f = rc_loop_length_km g \<and>
     rc_loop_target_laps f = rc_loop_target_laps g \<and>
     rc_loop_time_limit_ms f = rc_loop_time_limit_ms g"

text \<open>\<open>clearUnfixedDistance\<close>\<close>

definition clear_unfixed_distance :: "race_row \<Rightarrow> race_row" where
  "clear_unfixed_distance r =
     (if rc_course_type (ra_format r) = RaceCourseLoop \<and>
         rc_loop_mode (ra_format r) = Some LoopModeTimeLimit
      then r\<lparr>ra_distance_km := None\<rparr> else r)"

section \<open>Assignments, invitations, capabilities\<close>

abbreviation AssignmentStatusActive :: string where "AssignmentStatusActive \<equiv> ''active''"
abbreviation AssignmentStatusRevoked :: string where "AssignmentStatusRevoked \<equiv> ''revoked''"

definition label_valid :: "string \<Rightarrow> bool" where
  "label_valid l = (l = ''crew'' \<or> l = ''volunteer'' \<or> l = ''photographer'' \<or> l = ''timing'')"

record assignment =
  as_id :: string
  as_tenant_id :: string
  as_event_id :: string
  as_user_id :: string
  as_label :: string
  as_capabilities :: "string list"
  as_status :: string
  as_assigned_by :: string
  as_expires_at :: "int option"
  as_created_at :: int
  as_updated_at :: int

definition has_capability :: "assignment \<Rightarrow> string \<Rightarrow> bool" where
  "has_capability a cap = list_ex (\<lambda>c. c = cap) (as_capabilities a)"

definition assignment_active :: "int \<Rightarrow> assignment \<Rightarrow> bool" where
  "assignment_active now a =
     (if as_status a \<noteq> AssignmentStatusActive then False
      else case as_expires_at a of None \<Rightarrow> True | Some e \<Rightarrow> \<not> now > e)"

abbreviation InvitationPending :: string where "InvitationPending \<equiv> ''pending''"
abbreviation InvitationAccepted :: string where "InvitationAccepted \<equiv> ''accepted''"
abbreviation InvitationRevoked :: string where "InvitationRevoked \<equiv> ''revoked''"

record event_invitation =
  evi_id :: string
  evi_tenant_id :: string
  evi_event_id :: string
  evi_email :: string
  evi_label :: string
  evi_capabilities :: "string list"
  evi_token_hash :: string
  evi_invited_by :: string
  evi_status :: string
  evi_expires_at :: int
  evi_assignment_expires_at :: "int option"
  evi_accepted_at :: "int option"
  evi_created_at :: int

definition event_invitation_expired :: "int \<Rightarrow> event_invitation \<Rightarrow> bool" where
  "event_invitation_expired now i = (now > evi_expires_at i)"

definition all_capabilities :: "string list" where
  "all_capabilities = [''participants:read'', ''rpc:checkin'', ''results:write'', ''gallery:upload'',
     ''gallery:review'', ''gallery:face_search'']"

definition is_valid_capability :: "string \<Rightarrow> bool" where
  "is_valid_capability c = (c \<in> set all_capabilities)"

definition normalize_email :: "string \<Rightarrow> string" where
  "normalize_email e = to_lower (trim_space e)"

definition validate_assignment_input :: "string \<Rightarrow> string list \<Rightarrow> go_error option" where
  "validate_assignment_input label caps =
     (if \<not> label_valid label
      then Some (invalid_state ''label must be one of crew, volunteer, photographer, timing'')
      else if caps = [] then Some (invalid_state ''at least one capability is required'')
      else case find (\<lambda>c. \<not> is_valid_capability c) caps of
             None \<Rightarrow> None
           | Some c \<Rightarrow> Some (invalid_state (''unknown capability '' @ go_quote c)))"


section \<open>Slugs are in normal form\<close>

definition slug_ok :: "char \<Rightarrow> bool" where
  "slug_ok c \<longleftrightarrow> slug_char c \<or> c = CHR ''-''"

lemma sanitize_chars: "list_all slug_ok (sanitize b s)"
  by (induction b s rule: sanitize.induct) (auto simp: slug_ok_def)

lemma dropWhile_all: "list_all p s \<Longrightarrow> list_all p (dropWhile q s)"
  using set_dropWhileD by (force simp: list_all_iff)

lemma slugify_chars: "list_all slug_ok (slugify s)"
proof -
  have rev_all: "list_all slug_ok (rev xs) = list_all slug_ok xs" for xs by (simp add: list_all_iff)
  show ?thesis
    unfolding slugify_def trim_dashes_def by (simp only: rev_all dropWhile_all sanitize_chars)
qed

lemma byte_dash: "byte CHR ''-'' = 45"
  by (simp add: byte_def)

lemma slug_ok_byte: "slug_ok c \<Longrightarrow> byte c \<in> {0x61..0x7A} \<or> byte c \<in> {0x30..0x39} \<or> byte c = 45"
  by (auto simp: slug_ok_def slug_char_def byte_dash)

lemma slug_ok_lower: "slug_ok c \<Longrightarrow> lower_char c = c"
  by (drule slug_ok_byte) (auto simp: lower_char_def)

lemma to_lower_slug: "list_all slug_ok s \<Longrightarrow> to_lower s = s"
  unfolding to_lower_def by (rule map_idI) (auto simp: list_all_iff slug_ok_lower)

lemma space_encoding_not_slug:
  "e \<in> set space_encodings \<Longrightarrow> \<not> slug_ok (hd e) \<and> \<not> slug_ok (last e)"
proof -
  have "list_all (\<lambda>e. \<not> slug_ok (hd e) \<and> \<not> slug_ok (last e)) space_encodings"
    by code_simp
  then show "e \<in> set space_encodings \<Longrightarrow> \<not> slug_ok (hd e) \<and> \<not> slug_ok (last e)"
    by (simp add: list_all_iff)
qed

lemma trim_space_slug:
  assumes "list_all slug_ok s"
  shows "trim_space s = s"
proof -
  have "\<not> prefix e s \<and> \<not> suffix e s" if "e \<in> set space_encodings" for e
  proof -
    have e: "e \<noteq> []" "\<not> slug_ok (hd e)" "\<not> slug_ok (last e)"
      using that space_encodings_nonempty space_encoding_not_slug by auto
    have "\<not> slug_ok (hd e) \<and> hd e \<in> set e" "\<not> slug_ok (last e) \<and> last e \<in> set e"
      using e by simp_all
    with assms show ?thesis
      by (auto simp: list_all_iff dest: set_mono_prefix set_mono_suffix)
  qed
  then have "lead_space s = 0" "trail_space s = 0"
    by (simp_all add: lead_space_0_iff trail_space_0_iff)
  then show ?thesis by (simp add: trim_space_def trim_left_id trim_right_id)
qed

text \<open>No two dashes in a row: what \<open>[^a-z0-9]+\<close> collapses.\<close>

fun no_double_dash :: "string \<Rightarrow> bool" where
  "no_double_dash (a # b # s) = (\<not> (a = CHR ''-'' \<and> b = CHR ''-'') \<and> no_double_dash (b # s))"
| "no_double_dash s = True"

lemma not_slug_dash: "\<not> slug_char CHR ''-''"
  by (simp add: slug_char_def byte_dash)

lemma sanitize_no_double:
  "no_double_dash (sanitize b s) \<and> (b \<longrightarrow> sanitize b s = [] \<or> hd (sanitize b s) \<noteq> CHR ''-'')"
proof (induction b s rule: sanitize.induct)
  case (2 b c cs)
  show ?case
  proof (cases "slug_char c")
    case True
    then have "c \<noteq> CHR ''-''" using not_slug_dash by auto
    with 2 True show ?thesis by (cases "sanitize False cs") auto
  next
    case False
    with 2 show ?thesis by (cases "sanitize True cs"; cases b) auto
  qed
qed simp

lemma no_double_dash_Cons: "no_double_dash (a # s) \<Longrightarrow> no_double_dash s"
  by (cases s) auto

lemma no_double_dash_append: "no_double_dash (s @ t) \<Longrightarrow> no_double_dash s \<and> no_double_dash t"
  by (induction s rule: no_double_dash.induct) (auto dest: no_double_dash_Cons)

lemma sanitize_id:
  "list_all slug_ok s \<Longrightarrow> no_double_dash s \<Longrightarrow> (b \<longrightarrow> s = [] \<or> hd s \<noteq> CHR ''-'') \<Longrightarrow> sanitize b s = s"
proof (induction b s rule: sanitize.induct)
  case (2 b c cs)
  show ?case
  proof (cases "slug_char c")
    case True
    with 2 show ?thesis by (auto dest: no_double_dash_Cons)
  next
    case False
    with 2(4) have c: "c = CHR ''-''" by (simp add: slug_ok_def)
    with 2 False show ?thesis by (cases cs) auto
  qed
qed simp

lemma trim_dashes_parts:
  obtains a b where "s = a @ trim_dashes s @ b"
proof -
  let ?d = "\<lambda>c. c = CHR ''-''"
  have "s = takeWhile ?d s @ dropWhile ?d s" by simp
  moreover have "dropWhile ?d s = trim_dashes s @ rev (takeWhile ?d (rev (dropWhile ?d s)))"
    unfolding trim_dashes_def by (metis rev_append rev_rev_ident takeWhile_dropWhile_id)
  ultimately show thesis using that by metis
qed

lemma dropWhile_rev_head:
  assumes "s = [] \<or> \<not> p (hd s)"
  shows "rev (dropWhile p (rev s)) = [] \<or> \<not> p (hd (rev (dropWhile p (rev s))))"
proof (cases "rev (dropWhile p (rev s)) = []")
  case False
  have "s = rev (dropWhile p (rev s)) @ rev (takeWhile p (rev s))"
    by (metis rev_append rev_rev_ident takeWhile_dropWhile_id)
  then have "hd s = hd (rev (dropWhile p (rev s)))" "s \<noteq> []" using False by (metis hd_append2, auto)
  with assms show ?thesis by simp
qed simp

lemma dropWhile_id_iff: "dropWhile p s = s \<longleftrightarrow> s = [] \<or> \<not> p (hd s)"
proof (cases s)
  case (Cons a t)
  have "length (dropWhile p t) \<le> length t" by (rule length_dropWhile_le)
  then have "dropWhile p t \<noteq> a # t" by auto
  with Cons show ?thesis by simp
qed simp

lemma trim_dashes_idem [simp]: "trim_dashes (trim_dashes s) = trim_dashes s"
proof -
  let ?d = "\<lambda>c. c = CHR ''-''"
  let ?m = "dropWhile ?d s"
  have "?m = [] \<or> \<not> ?d (hd ?m)" by (induction s) auto
  from dropWhile_rev_head [where p = ?d, OF this]
  have "dropWhile ?d (trim_dashes s) = trim_dashes s"
    unfolding dropWhile_id_iff trim_dashes_def .
  moreover have "dropWhile ?d (rev (trim_dashes s)) = rev (trim_dashes s)"
    by (simp add: trim_dashes_def)
  ultimately show ?thesis unfolding trim_dashes_def [of "trim_dashes s"] by simp
qed

lemma slugify_no_double: "no_double_dash (slugify s)"
proof -
  obtain a b where "sanitize False (to_lower (trim_space s)) = a @ slugify s @ b"
    unfolding slugify_def by (rule trim_dashes_parts)
  then have "no_double_dash (a @ slugify s @ b)" using sanitize_no_double by metis
  then show ?thesis by (blast dest: no_double_dash_append)
qed

lemma slugify_normal:
  "list_all (\<lambda>c. slug_char c \<or> c = CHR ''-'') (slugify s) \<and> no_double_dash (slugify s) \<and>
   slugify (slugify s) = slugify s"
proof (intro conjI)
  show "list_all (\<lambda>c. slug_char c \<or> c = CHR ''-'') (slugify s)"
    using slugify_chars [of s] by (simp add: slug_ok_def [abs_def])
  show "no_double_dash (slugify s)" by (rule slugify_no_double)
  have "sanitize False (to_lower (trim_space (slugify s))) = slugify s"
    using slugify_chars slugify_no_double
    by (simp add: trim_space_slug to_lower_slug sanitize_id)
  then show "slugify (slugify s) = slugify s"
    unfolding slugify_def [of "slugify s"] by (simp add: slugify_def)
qed

text \<open>\<open>Slugify\<close> produces only lower-case letters, digits and single dashes, and slugifying a
slug gives it back: the slug a client reads and sends again is the same slug.\<close>

theorem slugify_normal_form:
  "list_all (\<lambda>c. slug_char c \<or> c = CHR ''-'') (slugify s) \<and> no_double_dash (slugify s) \<and>
   slugify (slugify s) = slugify s"
  by (rule slugify_normal)


section \<open>Race formats as a datatype\<close>

text \<open>
  What the flat struct encodes: a standard individual race, a relay of teams, or a loop race run
  alone or by teams, won by laps or by distance in a time limit.
\<close>

datatype loop_goal = TargetLaps int | TimeLimit int

datatype race_kind = StandardRace | RelayRace int | LoopRace "int option" rat loop_goal

fun kind_ok :: "race_kind \<Rightarrow> bool" where
  "kind_ok StandardRace = True"
| "kind_ok (RelayRace n) = (2 \<le> n)"
| "kind_ok (LoopRace team km goal) =
     ((case team of None \<Rightarrow> True | Some n \<Rightarrow> 2 \<le> n) \<and> 0 < km \<and>
      (case goal of TargetLaps n \<Rightarrow> 1 \<le> n | TimeLimit ms \<Rightarrow> 0 < ms))"

fun config_of :: "race_kind \<Rightarrow> race_config" where
  "config_of StandardRace =
     \<lparr>rc_entry_type = RaceEntryIndividual, rc_course_type = RaceCourseStandard, rc_team_size = None,
      rc_loop_mode = None, rc_loop_length_km = None, rc_loop_target_laps = None,
      rc_loop_time_limit_ms = None\<rparr>"
| "config_of (RelayRace n) =
     \<lparr>rc_entry_type = RaceEntryTeam, rc_course_type = RaceCourseRelay, rc_team_size = Some n,
      rc_loop_mode = None, rc_loop_length_km = None, rc_loop_target_laps = None,
      rc_loop_time_limit_ms = None\<rparr>"
| "config_of (LoopRace team km goal) =
     \<lparr>rc_entry_type = (if team = None then RaceEntryIndividual else RaceEntryTeam),
      rc_course_type = RaceCourseLoop, rc_team_size = team,
      rc_loop_mode = Some (case goal of TargetLaps n \<Rightarrow> LoopModeTargetLaps | TimeLimit ms \<Rightarrow> LoopModeTimeLimit),
      rc_loop_length_km = Some km,
      rc_loop_target_laps = (case goal of TargetLaps n \<Rightarrow> Some n | TimeLimit ms \<Rightarrow> None),
      rc_loop_time_limit_ms = (case goal of TargetLaps n \<Rightarrow> None | TimeLimit ms \<Rightarrow> Some ms)\<rparr>"

text \<open>The reading of a struct as a kind, where it is one.\<close>

definition goal_of :: "race_config \<Rightarrow> loop_goal option" where
  "goal_of f =
     (if rc_loop_mode f = Some LoopModeTargetLaps then map_option TargetLaps (rc_loop_target_laps f)
      else if rc_loop_mode f = Some LoopModeTimeLimit then map_option TimeLimit (rc_loop_time_limit_ms f)
      else None)"

definition kind_of :: "race_config \<Rightarrow> race_kind option" where
  "kind_of f =
     (if rc_course_type f = RaceCourseStandard
      then (if rc_entry_type f = RaceEntryIndividual then Some StandardRace else None)
      else if rc_course_type f = RaceCourseRelay
      then (if rc_entry_type f = RaceEntryTeam then map_option RelayRace (rc_team_size f) else None)
      else if rc_course_type f = RaceCourseLoop
      then (case (rc_loop_length_km f, goal_of f) of
              (Some km, Some goal) \<Rightarrow>
                if rc_entry_type f = RaceEntryIndividual then Some (LoopRace None km goal)
                else if rc_entry_type f = RaceEntryTeam
                then map_option (\<lambda>n. LoopRace (Some n) km goal) (rc_team_size f)
                else None
            | _ \<Rightarrow> None)
      else None)"

lemma validate_loop_None:
  "validate_loop f = None \<longleftrightarrow>
     (\<exists>km goal. rc_loop_length_km f = Some km \<and> 0 < km \<and> goal_of f = Some goal \<and>
        (case goal of TargetLaps n \<Rightarrow> 1 \<le> n | TimeLimit ms \<Rightarrow> 0 < ms))"
proof (cases "rc_loop_mode f")
  case None
  then show ?thesis by (simp add: validate_loop_def goal_of_def)
next
  case (Some m)
  consider "m = LoopModeTargetLaps" | "m = LoopModeTimeLimit"
    | "m \<noteq> LoopModeTargetLaps" "m \<noteq> LoopModeTimeLimit" by blast
  then show ?thesis
    by cases (cases "rc_loop_length_km f"; cases "rc_loop_target_laps f"; cases "rc_loop_time_limit_ms f";
      simp add: Some validate_loop_def goal_of_def not_less not_le)+
qed

lemma config_eqI:
  "rc_entry_type f = rc_entry_type g \<Longrightarrow> rc_course_type f = rc_course_type g \<Longrightarrow>
   rc_team_size f = rc_team_size g \<Longrightarrow> rc_loop_mode f = rc_loop_mode g \<Longrightarrow>
   rc_loop_length_km f = rc_loop_length_km g \<Longrightarrow> rc_loop_target_laps f = rc_loop_target_laps g \<Longrightarrow>
   rc_loop_time_limit_ms f = rc_loop_time_limit_ms g \<Longrightarrow> f = (g :: race_config)"
  by (rule race_config.equality) simp_all

definition entry_or_default :: "string \<Rightarrow> string" where
  "entry_or_default e = (if e = '''' then RaceEntryIndividual else e)"

definition course_or_default :: "string \<Rightarrow> string" where
  "course_or_default c = (if c = '''' then RaceCourseStandard else c)"

lemma or_default_idem [simp]:
  "entry_or_default (entry_or_default e) = entry_or_default e"
  "course_or_default (course_or_default e) = course_or_default e"
  by (simp_all add: entry_or_default_def course_or_default_def)

lemma format_normalize_fields:
  "rc_entry_type (format_normalize f) = entry_or_default (rc_entry_type f)"
  "rc_course_type (format_normalize f) = course_or_default (rc_course_type f)"
  "rc_team_size (format_normalize f) =
     (if entry_or_default (rc_entry_type f) = RaceEntryTeam then rc_team_size f else None)"
  "rc_loop_mode (format_normalize f) =
     (if course_or_default (rc_course_type f) = RaceCourseLoop then rc_loop_mode f else None)"
  "rc_loop_length_km (format_normalize f) =
     (if course_or_default (rc_course_type f) = RaceCourseLoop then rc_loop_length_km f else None)"
  "rc_loop_target_laps (format_normalize f) =
     (if course_or_default (rc_course_type f) = RaceCourseLoop \<and> rc_loop_mode f \<noteq> Some LoopModeTimeLimit
      then rc_loop_target_laps f else None)"
  "rc_loop_time_limit_ms (format_normalize f) =
     (if course_or_default (rc_course_type f) = RaceCourseLoop \<and> rc_loop_mode f \<noteq> Some LoopModeTargetLaps
      then rc_loop_time_limit_ms f else None)"
proof -
  obtain e c ts m len laps ms where f: "f = \<lparr>rc_entry_type = e, rc_course_type = c, rc_team_size = ts,
      rc_loop_mode = m, rc_loop_length_km = len, rc_loop_target_laps = laps,
      rc_loop_time_limit_ms = ms\<rparr>"
    by (cases f)
  have "format_normalize f =
     \<lparr>rc_entry_type = entry_or_default e, rc_course_type = course_or_default c,
      rc_team_size = (if entry_or_default e = RaceEntryTeam then ts else None),
      rc_loop_mode = (if course_or_default c = RaceCourseLoop then m else None),
      rc_loop_length_km = (if course_or_default c = RaceCourseLoop then len else None),
      rc_loop_target_laps = (if course_or_default c = RaceCourseLoop \<and> m \<noteq> Some LoopModeTimeLimit
        then laps else None),
      rc_loop_time_limit_ms = (if course_or_default c = RaceCourseLoop \<and> m \<noteq> Some LoopModeTargetLaps
        then ms else None)\<rparr>"
    unfolding f format_normalize_def Let_def entry_or_default_def course_or_default_def
    by (cases "e = ''''"; cases "c = ''''"; cases m) simp_all
  then show "rc_entry_type (format_normalize f) = entry_or_default (rc_entry_type f)"
    "rc_course_type (format_normalize f) = course_or_default (rc_course_type f)"
    "rc_team_size (format_normalize f) =
       (if entry_or_default (rc_entry_type f) = RaceEntryTeam then rc_team_size f else None)"
    "rc_loop_mode (format_normalize f) =
       (if course_or_default (rc_course_type f) = RaceCourseLoop then rc_loop_mode f else None)"
    "rc_loop_length_km (format_normalize f) =
       (if course_or_default (rc_course_type f) = RaceCourseLoop then rc_loop_length_km f else None)"
    "rc_loop_target_laps (format_normalize f) =
       (if course_or_default (rc_course_type f) = RaceCourseLoop \<and> rc_loop_mode f \<noteq> Some LoopModeTimeLimit
        then rc_loop_target_laps f else None)"
    "rc_loop_time_limit_ms (format_normalize f) =
       (if course_or_default (rc_course_type f) = RaceCourseLoop \<and> rc_loop_mode f \<noteq> Some LoopModeTargetLaps
        then rc_loop_time_limit_ms f else None)"
    unfolding f by simp_all
qed

lemma format_normalize_idem: "format_normalize (format_normalize f) = format_normalize f"
  by (rule config_eqI) (simp_all add: format_normalize_fields)

lemma format_validate_None:
  "format_validate f = None \<longleftrightarrow>
     (rc_course_type f = RaceCourseStandard \<and> rc_entry_type f = RaceEntryIndividual) \<or>
     (rc_course_type f = RaceCourseRelay \<and> rc_entry_type f = RaceEntryTeam \<and>
        (\<exists>n. rc_team_size f = Some n \<and> 2 \<le> n)) \<or>
     (rc_course_type f = RaceCourseLoop \<and> validate_loop f = None \<and>
        (rc_entry_type f = RaceEntryIndividual \<or>
         rc_entry_type f = RaceEntryTeam \<and> (\<exists>n. rc_team_size f = Some n \<and> 2 \<le> n)))"
proof -
  let ?e = "rc_entry_type f" and ?c = "rc_course_type f"
  consider "?e \<noteq> RaceEntryIndividual" "?e \<noteq> RaceEntryTeam" | "?e = RaceEntryIndividual" | "?e = RaceEntryTeam"
    by blast
  then show ?thesis
  proof cases
    case 1
    then show ?thesis by (simp add: format_validate_def)
  next
    case 2
    consider "?c = RaceCourseStandard" | "?c = RaceCourseRelay" | "?c = RaceCourseLoop"
      | "?c \<noteq> RaceCourseStandard" "?c \<noteq> RaceCourseRelay" "?c \<noteq> RaceCourseLoop" by blast
    then show ?thesis using 2 by cases (simp_all add: format_validate_def)
  next
    case 3
    consider "?c = RaceCourseStandard" | "?c = RaceCourseRelay" | "?c = RaceCourseLoop"
      | "?c \<noteq> RaceCourseStandard" "?c \<noteq> RaceCourseRelay" "?c \<noteq> RaceCourseLoop" by blast
    then show ?thesis using 3
      by cases (cases "rc_team_size f"; simp add: format_validate_def not_less)+
  qed
qed

lemma kind_of_config_of [simp]: "kind_of (config_of k) = Some k"
proof (cases k)
  case (LoopRace team km goal)
  then show ?thesis by (cases team; cases goal) (simp_all add: kind_of_def goal_of_def)
qed (simp_all add: kind_of_def)

lemma validate_config_of: "format_validate (config_of k) = None \<longleftrightarrow> kind_ok k"
proof (cases k)
  case (LoopRace team km goal)
  then show ?thesis
    by (cases team; cases goal)
      (simp_all add: format_validate_None validate_loop_None goal_of_def conj_ac)
qed (simp_all add: format_validate_None)

lemma normalize_config_of [simp]: "format_normalize (config_of k) = config_of k"
  by (rule config_eqI; cases k rule: config_of.cases)
    (simp_all add: format_normalize_fields entry_or_default_def course_or_default_def
      split: loop_goal.splits)

lemma valid_is_config:
  assumes "format_normalize f = f" "format_validate f = None"
  shows "\<exists>k. f = config_of k"
proof -
  note n = format_normalize_fields [of f, unfolded assms(1)]
  from assms(2) [unfolded format_validate_None] show ?thesis
  proof (elim disjE conjE exE)
    assume "rc_course_type f = RaceCourseStandard" "rc_entry_type f = RaceEntryIndividual"
    then have "f = config_of StandardRace"
      using n(3-7) by (intro config_eqI) (simp_all add: entry_or_default_def course_or_default_def)
    then show ?thesis ..
  next
    fix k assume "rc_course_type f = RaceCourseRelay" "rc_entry_type f = RaceEntryTeam"
      "rc_team_size f = Some k"
    then have "f = config_of (RelayRace k)"
      using n(3-7) by (intro config_eqI) (simp_all add: entry_or_default_def course_or_default_def)
    then show ?thesis ..
  next
    assume c: "rc_course_type f = RaceCourseLoop" "rc_entry_type f = RaceEntryIndividual"
      "validate_loop f = None"
    then obtain km goal where "rc_loop_length_km f = Some km" "goal_of f = Some goal"
      by (auto simp: validate_loop_None)
    then have "f = config_of (LoopRace None km goal)"
      using c(1,2) n(3-7)
      by (cases goal; intro config_eqI)
        (simp_all add: entry_or_default_def course_or_default_def goal_of_def split: if_splits)
    then show ?thesis ..
  next
    fix k assume c: "rc_course_type f = RaceCourseLoop" "rc_entry_type f = RaceEntryTeam"
      "rc_team_size f = Some k" "validate_loop f = None"
    then obtain km goal where "rc_loop_length_km f = Some km" "goal_of f = Some goal"
      by (auto simp: validate_loop_None)
    then have "f = config_of (LoopRace (Some k) km goal)"
      using c(1-3) n(3-7)
      by (cases goal; intro config_eqI)
        (simp_all add: entry_or_default_def course_or_default_def goal_of_def split: if_splits)
    then show ?thesis ..
  qed
qed

text \<open>C6: after \<open>Normalize\<close>, \<open>Validate\<close> accepts exactly the structs that encode a well-formed race
(standard, relay of teams of at least two, or loop with a positive lap and one goal), each race
kind in exactly one way, and normalising again changes nothing: no accepted race carries a
setting that does not apply to its format.\<close>

theorem race_format_refines:
  "(format_validate (format_normalize f) = None \<longleftrightarrow>
      (case kind_of (format_normalize f) of None \<Rightarrow> False
       | Some k \<Rightarrow> kind_ok k \<and> format_normalize f = config_of k)) \<and>
   format_normalize (format_normalize f) = format_normalize f"
proof
  show "format_validate (format_normalize f) = None \<longleftrightarrow>
      (case kind_of (format_normalize f) of None \<Rightarrow> False
       | Some k \<Rightarrow> kind_ok k \<and> format_normalize f = config_of k)"
  proof
    assume "format_validate (format_normalize f) = None"
    with valid_is_config [OF format_normalize_idem] obtain k where
      k: "format_normalize f = config_of k" by blast
    with \<open>format_validate (format_normalize f) = None\<close> show "case kind_of (format_normalize f) of
        None \<Rightarrow> False | Some k \<Rightarrow> kind_ok k \<and> format_normalize f = config_of k"
      by (simp add: validate_config_of)
  qed (auto split: option.splits simp: validate_config_of)
  show "format_normalize (format_normalize f) = format_normalize f" by (rule format_normalize_idem)
qed

lemma format_equal_iff: "format_equal f g \<longleftrightarrow> f = g"
  by (auto simp: format_equal_def intro: config_eqI)

end
