(* ===== verification/Account_Model.thy ===== *)
theory Account_Model
  imports Domain
begin

text \<open>
  The types and database-free rules of \<open>internal/tenant\<close> (workspaces, members, invitations,
  who may change whom), of \<open>internal/auth\<close> (users, refresh tokens, e-mail tokens, social
  accounts) and of \<open>internal/audit\<close>. Times are integers (nanoseconds).
\<close>

section \<open>Tenants\<close>

abbreviation TenantPending :: string where "TenantPending \<equiv> ''pending_verification''"
abbreviation TenantActive :: string where "TenantActive \<equiv> ''active''"
abbreviation TenantRejected :: string where "TenantRejected \<equiv> ''rejected''"
abbreviation TenantSuspended :: string where "TenantSuspended \<equiv> ''suspended''"

record tenant_row =
  tn_id :: string
  tn_name :: string
  tn_slug :: string
  tn_owner_user_id :: string
  tn_status :: string
  tn_status_reason :: "string option"
  tn_created_at :: int
  tn_updated_at :: int

abbreviation MemberActive :: string where "MemberActive \<equiv> ''active''"
abbreviation MemberRemoved :: string where "MemberRemoved \<equiv> ''removed''"

record tenant_member =
  mb_id :: string
  mb_tenant_id :: string
  mb_user_id :: string
  mb_role :: member_role
  mb_status :: string
  mb_created_at :: int
  mb_updated_at :: int

record invitation =
  iv_id :: string
  iv_tenant_id :: string
  iv_email :: string
  iv_role :: member_role
  iv_token_hash :: string
  iv_invited_by :: string
  iv_status :: string
  iv_expires_at :: int
  iv_accepted_at :: "int option"
  iv_created_at :: int

definition invitation_expired :: "int \<Rightarrow> invitation \<Rightarrow> bool" where
  "invitation_expired now i = (now > iv_expires_at i)"

text \<open>\<open>authorizeMemberChange\<close>: the error, or none. A missing new role means removal.\<close>

definition authorize_member_change ::
  "member_role \<Rightarrow> tenant_member \<Rightarrow> member_role option \<Rightarrow> go_error option" where
  "authorize_member_change actor_role target new_role =
     (if \<not> is_at_least actor_role RoleAdmin then Some (Sentinel ErrForbidden)
      else if mb_status target \<noteq> MemberActive then Some (Sentinel ErrNotFound)
      else if mb_role target = RoleOwner then Some (Sentinel ErrForbidden)
      else case new_role of
             Some r \<Rightarrow>
               (if r \<noteq> RoleAdmin \<and> r \<noteq> RoleStaff
                then Some (service_error ErrInvalidState ''role must be admin or staff'')
                else if actor_role \<noteq> RoleOwner then Some (Sentinel ErrForbidden)
                else None)
           | None \<Rightarrow>
               (if actor_role = RoleAdmin \<and> mb_role target \<noteq> RoleStaff
                then Some (Sentinel ErrForbidden) else None))"

text \<open>A member may be changed exactly when the target is active and not the owner, and the
actor is the owner (who may set the admin and staff roles and remove anybody else) or an admin
removing a staff member: nobody changes a role but the owner, and nobody touches the owner.\<close>

theorem member_change_rule:
  "authorize_member_change actor target new_role = None \<longleftrightarrow>
     mb_status target = MemberActive \<and> mb_role target \<noteq> RoleOwner \<and>
     (case new_role of
        Some r \<Rightarrow> actor = RoleOwner \<and> (r = RoleAdmin \<or> r = RoleStaff)
      | None \<Rightarrow> actor = RoleOwner \<or> (actor = RoleAdmin \<and> mb_role target = RoleStaff))"
proof (cases "actor = RoleAdmin \<or> actor = RoleOwner")
  case True
  then show ?thesis
    by (elim disjE) (cases new_role; simp add: authorize_member_change_def)+
next
  case False
  then show ?thesis by (cases new_role) (simp_all add: authorize_member_change_def)
qed

section \<open>Users and their tokens\<close>

abbreviation UserActive :: string where "UserActive \<equiv> ''active''"
abbreviation UserSuspended :: string where "UserSuspended \<equiv> ''suspended''"

record user_row =
  us_id :: string
  us_email :: string
  us_password_hash :: "string option"
  us_first_name :: string
  us_last_name :: string
  us_phone :: "string option"
  us_is_email_verified :: bool
  us_is_super_admin :: bool
  us_status :: string
  us_terms_accepted_at :: "int option"
  us_created_at :: int
  us_updated_at :: int

definition display_name :: "user_row \<Rightarrow> string" where
  "display_name u =
     (if us_last_name u = '''' then us_first_name u
      else us_first_name u @ '' '' @ us_last_name u)"

record refresh_token =
  rt_id :: string
  rt_user_id :: string
  rt_token_hash :: string
  rt_replaced_by_hash :: "string option"
  rt_user_agent :: "string option"
  rt_ip_address :: "string option"
  rt_family_id :: string
  rt_expires_at :: int
  rt_absolute_expires_at :: int
  rt_origin_host :: "string option"
  rt_revoked_at :: "int option"
  rt_created_at :: int

definition refresh_active :: "int \<Rightarrow> refresh_token \<Rightarrow> bool" where
  "refresh_active now t = (rt_revoked_at t = None \<and> now < rt_expires_at t)"

abbreviation PurposeEmailVerify :: string where "PurposeEmailVerify \<equiv> ''email_verify''"
abbreviation PurposePasswordReset :: string where "PurposePasswordReset \<equiv> ''password_reset''"

record email_token =
  vt_id :: string
  vt_user_id :: string
  vt_token_hash :: string
  vt_purpose :: string
  vt_expires_at :: int
  vt_consumed_at :: "int option"
  vt_created_at :: int

definition email_token_usable :: "int \<Rightarrow> email_token \<Rightarrow> bool" where
  "email_token_usable now t = (vt_consumed_at t = None \<and> now < vt_expires_at t)"

record social_account =
  sa_id :: string
  sa_user_id :: string
  sa_provider :: string
  sa_provider_user_id :: string
  sa_created_at :: int

section \<open>Audit entries\<close>

text \<open>A metadata value: what the program puts in a \<open>map[string]any\<close>.\<close>

datatype meta =
    MetaText string | MetaInt int | MetaBool bool | MetaNull | MetaTexts "string list"
  | MetaObject "(string \<times> meta) list" | MetaList "meta list"

record audit_log =
  al_id :: string
  al_tenant_id :: "string option"
  al_actor_user_id :: "string option"
  al_actor_client_id :: "string option"
  al_action :: string
  al_metadata :: "(string \<times> meta) list"
  al_created_at :: int

end
