(* ===== verification/Store.thy ===== *)
theory Store
  imports Participant_Model Event_Model Account_Model
begin

text \<open>
  The database as a state: one table per list of rows, the unique indexes and foreign keys the
  migrations declare, and the transactions of \<open>internal/platform/database\<close>. A statement that
  fails leaves its error; \<open>with_tenant_tx\<close> runs a body and restores the state it started from
  when the body fails.

  Row-level security is the explicit tenant condition of each statement: every statement the
  services issue runs under \<open>WithTenantTx\<close> with the tenant it names, and a statement without a
  tenant condition of its own takes the transaction's tenant as an argument. Failures of the
  connection itself are not modelled.
\<close>

record db =
  db_users :: "user_row list"
  db_refresh_tokens :: "refresh_token list"
  db_email_tokens :: "email_token list"
  db_social_accounts :: "social_account list"
  db_tenants :: "tenant_row list"
  db_members :: "tenant_member list"
  db_invitations :: "invitation list"
  db_events :: "event_row list"
  db_races :: "race_row list"
  db_assignments :: "assignment list"
  db_event_invitations :: "event_invitation list"
  db_teams :: "team list"
  db_participants :: "participant list"
  db_audit :: "audit_log list"

type_synonym 'a query = "(db, go_error, 'a) act"

text \<open>What a request takes from outside: the clock and the fresh identifiers, numbered in the
order the code draws them.\<close>

record env =
  e_now :: int
  e_uuid :: "nat \<Rightarrow> string"

section \<open>Transactions\<close>

definition with_tx :: "('s, 'e, 'a) act \<Rightarrow> ('s, 'e, 'a) act" where
  "with_tx m s = (case m s of (Inl e, s') \<Rightarrow> (Inl e, s) | (Inr a, s') \<Rightarrow> (Inr a, s'))"

definition with_tenant_tx :: "string \<Rightarrow> ('s, go_error, 'a) act \<Rightarrow> ('s, go_error, 'a) act" where
  "with_tenant_tx tenant m =
     (if tenant = '''' then fail (Other ''database: WithTenantTx called with empty tenantID'')
      else with_tx m)"

text \<open>\<open>CheckRowsAffected\<close>: an update or delete that touches no row is \<open>ErrNotFound\<close>.\<close>

definition check_rows :: "nat \<Rightarrow> ('s, go_error, unit) act" where
  "check_rows n = (if n = 0 then fail (Sentinel ErrNotFound) else ret ())"

text \<open>\<open>MapNotFound\<close>: a single-row select without a row is \<open>ErrNotFound\<close>.\<close>

definition found :: "'a option \<Rightarrow> ('s, go_error, 'a) act" where
  "found x = of_option (Sentinel ErrNotFound) x"

text \<open>\<open>audit.Repository.Record\<close>\<close>

definition record_audit ::
  "env \<Rightarrow> nat \<Rightarrow> string option \<Rightarrow> string option \<Rightarrow> string \<Rightarrow> (string \<times> meta) list \<Rightarrow> unit query" where
  "record_audit en k tenant actor action metadata =
     writes (\<lambda>s. s\<lparr>db_audit := db_audit s @
       [\<lparr>al_id = e_uuid en k, al_tenant_id = tenant, al_actor_user_id = actor, al_actor_client_id = None,
         al_action = action, al_metadata = metadata, al_created_at = e_now en\<rparr>]\<rparr>)"

section \<open>Laws of transactions\<close>

lemma with_tx_error: "with_tx m s = (Inl e, s') \<Longrightarrow> s' = s"
  by (auto simp: with_tx_def split: prod.splits sum.splits)

lemma with_tx_InrE [act_elims]:
  assumes "with_tx m s = (Inr a, s')"
  obtains "m s = (Inr a, s')"
  using assms by (auto simp: with_tx_def split: prod.splits sum.splits)

lemma with_tenant_tx_error: "with_tenant_tx t m s = (Inl e, s') \<Longrightarrow> s' = s"
  by (auto simp: with_tenant_tx_def fail_def dest: with_tx_error split: if_splits)

lemma with_tenant_tx_InrE [act_elims]:
  assumes "with_tenant_tx t m s = (Inr a, s')"
  obtains "t \<noteq> ''''" "m s = (Inr a, s')"
  using assms by (auto simp: with_tenant_tx_def fail_def elim: with_tx_InrE split: if_splits)

lemma keeps_with_tx [keeps_intros]: "keeps I m \<Longrightarrow> keeps I (with_tx m)"
  unfolding keeps_def with_tx_def by (fastforce split: prod.splits sum.splits)

lemma keeps_with_tenant_tx [keeps_intros]:
  "(t \<noteq> '''' \<Longrightarrow> keeps I m) \<Longrightarrow> keeps I (with_tenant_tx t m)"
  by (auto simp: with_tenant_tx_def intro: keeps_intros)

lemma keeps_check_rows [keeps_intros]: "keeps I (check_rows n)"
  by (simp add: check_rows_def keeps_intros)

lemma keeps_found [keeps_intros]: "keeps I (found x)"
  by (simp add: found_def keeps_intros)

lemma check_rows_InrE [act_elims]:
  assumes "check_rows n s = (Inr a, s')"
  obtains "n \<noteq> 0" "s' = s"
  using assms by (cases "n = 0") (simp_all add: check_rows_def fail_def ret_def)

lemma found_InrE [act_elims]:
  assumes "found x s = (Inr a, s')"
  obtains "x = Some a" "s' = s"
  using assms unfolding found_def by (rule of_option_InrE)

lemma record_audit_InrE [act_elims]:
  assumes "record_audit en k t u a m s = (Inr x, s')"
  obtains l where "s' = s\<lparr>db_audit := db_audit s @ [l]\<rparr>"
  using assms by (auto simp: record_audit_def writes_def)

text \<open>An invariant that does not look at the audit log survives an audit entry.\<close>

lemma keeps_record_audit [keeps_intros]:
  "(\<And>s l. I s \<Longrightarrow> I (s\<lparr>db_audit := l\<rparr>)) \<Longrightarrow> keeps I (record_audit en k t u a m)"
  unfolding record_audit_def by (rule keeps_writes) simp

text \<open>A service call that is one transaction is atomic: an error leaves the database as it was.\<close>

definition atomic :: "('s, 'e, 'a) act \<Rightarrow> bool" where
  "atomic m \<longleftrightarrow> (\<forall>s. case m s of (Inl e, s') \<Rightarrow> s' = s | (Inr a, s') \<Rightarrow> True)"

named_theorems atomic_intros \<open>closure rules for atomicity\<close>

lemma atomicD: "atomic m \<Longrightarrow> m s = (Inl e, s') \<Longrightarrow> s' = s"
  unfolding atomic_def by (drule spec [of _ s]) simp

lemma atomic_with_tx [atomic_intros]: "atomic (with_tx m)"
  by (auto simp: atomic_def with_tx_def split: prod.splits sum.splits)

lemma atomic_with_tenant_tx [atomic_intros]: "atomic (with_tenant_tx t m)"
  by (auto simp: atomic_def with_tenant_tx_def with_tx_def fail_def split: prod.splits sum.splits)

lemma atomic_guard [atomic_intros]: "atomic m \<Longrightarrow> atomic (guard b e m)"
  by (auto simp: atomic_def guard_def fail_def)

lemma atomic_on_error [atomic_intros]: "atomic m \<Longrightarrow> atomic (on_error eo m)"
  by (auto simp: atomic_def on_error_def fail_def split: option.splits)

lemma atomic_fail [atomic_intros]: "atomic (fail e)"
  by (simp add: atomic_def fail_def)

lemma atomic_if [atomic_intros]: "atomic m \<Longrightarrow> atomic n \<Longrightarrow> atomic (if b then m else n)"
  by simp

end
