(* ===== verification/Participant_Filter.thy ===== *)
theory Participant_Filter
  imports Participant_Model
begin

text \<open>
  The list filters of \<open>internal/participant/filter.go\<close>. The Go code builds SQL text with
  numbered placeholders and a list of arguments; here a condition is a small syntax tree with a
  rendering into that text and a meaning on rows, so that the numbering of the placeholders is
  part of what is proved.
\<close>

section \<open>LIKE patterns\<close>

abbreviation backslash :: char where "backslash \<equiv> CHR 0x5C"

text \<open>\<open>escapeLike\<close>\<close>

fun escape_like :: "string \<Rightarrow> string" where
  "escape_like [] = []"
| "escape_like (c # cs) =
     (if c = backslash \<or> c = CHR ''%'' \<or> c = CHR ''_'' then backslash # c # escape_like cs
      else c # escape_like cs)"

text \<open>SQL's \<open>s LIKE p ESCAPE '\'\<close>.\<close>

fun like :: "string \<Rightarrow> string \<Rightarrow> bool" where
  "like [] s = (s = [])"
| "like (p # ps) s =
     (if p = CHR ''%'' then like ps s \<or> (case s of [] \<Rightarrow> False | c # t \<Rightarrow> like (p # ps) t)
      else if p = CHR ''_'' then (case s of [] \<Rightarrow> False | c # t \<Rightarrow> like ps t)
      else if p = backslash
        then (case ps of [] \<Rightarrow> False
              | q # qs \<Rightarrow> (case s of [] \<Rightarrow> False | c # t \<Rightarrow> c = q \<and> like qs t))
      else (case s of [] \<Rightarrow> False | c # t \<Rightarrow> c = p \<and> like ps t))"

lemma like_percent: "like (CHR ''%'' # p) s \<longleftrightarrow> (\<exists>u t. s = u @ t \<and> like p t)"
proof (induction s)
  case Nil
  show ?case by simp
next
  case (Cons c s)
  have "like (CHR ''%'' # p) (c # s) \<longleftrightarrow> like p (c # s) \<or> like (CHR ''%'' # p) s" by simp
  also have "\<dots> \<longleftrightarrow> (\<exists>u t. c # s = u @ t \<and> like p t)"
    unfolding Cons.IH by (metis append_Cons append_Nil append_eq_Cons_conv)
  finally show ?case .
qed

lemma like_any: "like [CHR ''%''] s"
  by (induction s) auto

lemma like_escape_like: "like (escape_like q @ p) s \<longleftrightarrow> (\<exists>t. s = q @ t \<and> like p t)"
proof (induction q arbitrary: s)
  case (Cons c q)
  then show ?case by (cases s) auto
qed simp

lemma like_substring: "like (''%'' @ escape_like q @ ''%'') s \<longleftrightarrow> sublist q s"
proof -
  have "like (''%'' @ escape_like q @ ''%'') s \<longleftrightarrow> (\<exists>u v. s = u @ q @ v)"
    by (simp only: append_Cons append_Nil like_percent like_escape_like) (auto simp: like_any)
  then show ?thesis by (simp add: sublist_def)
qed

lemmas like_substring_Cons = like_substring [simplified]

text \<open>Whatever a user types, with its wildcards and backslashes, the pattern the search builds
from it matches exactly the texts that contain it literally.\<close>

theorem escaped_search_is_substring:
  "like (''%'' @ escape_like q @ ''%'') s \<longleftrightarrow> sublist q s"
  by (rule like_substring)

section \<open>Conditions\<close>

datatype sql_arg = ArgText string | ArgInt int | ArgTexts "string list"

datatype column = ColTenant | ColEvent | ColRace | ColTeam | ColStatus | ColGender | ColClub | ColBib

text \<open>A condition with the number of its placeholder. \<open>IdIn\<close> is the one \<open>idsClause\<close> adds.\<close>

datatype cond = ColEq column nat | ColNull column | TextLike nat | IdIn nat

fun column_sql :: "column \<Rightarrow> string" where
  "column_sql ColTenant = ''p.tenant_id''"
| "column_sql ColEvent = ''p.event_id''"
| "column_sql ColRace = ''p.race_id''"
| "column_sql ColTeam = ''p.team_id''"
| "column_sql ColStatus = ''p.status''"
| "column_sql ColGender = ''p.gender''"
| "column_sql ColClub = ''p.club''"
| "column_sql ColBib = ''p.bib_number''"

definition placeholder :: "nat \<Rightarrow> string" where
  "placeholder n = ''$'' @ itoa (int n)"

definition name_expr :: string where
  "name_expr = ''lower(p.first_name || ' ' || coalesce(p.last_name, ''@ [CHR 0x27, CHR 0x27] @ ''))''"

definition escape_sql :: string where
  "escape_sql = '' ESCAPE ''@ [CHR 0x27, backslash, CHR 0x27]"

definition coalesce_sql :: "string \<Rightarrow> string" where
  "coalesce_sql c = ''lower(coalesce('' @ c @ '', ''@ [CHR 0x27, CHR 0x27] @ ''))''"

fun render :: "cond \<Rightarrow> string" where
  "render (ColEq c n) = column_sql c @ '' = '' @ placeholder n"
| "render (ColNull c) = column_sql c @ '' IS NULL''"
| "render (TextLike n) =
     ''('' @ name_expr @ '' LIKE '' @ placeholder n @ escape_sql @ '' OR '' @
     coalesce_sql ''p.bib_name'' @ '' LIKE '' @ placeholder n @ escape_sql @ '' OR '' @
     coalesce_sql ''p.email'' @ '' LIKE '' @ placeholder n @ escape_sql @ '')''"
| "render (IdIn n) = ''p.id = ANY('' @ placeholder n @ ''::uuid[])''"

text \<open>What the conditions mean on a row. A row without a gender has NULL in that column.\<close>

fun column_value :: "participant \<Rightarrow> column \<Rightarrow> sql_arg option" where
  "column_value p ColTenant = Some (ArgText (p_tenant_id p))"
| "column_value p ColEvent = Some (ArgText (p_event_id p))"
| "column_value p ColRace = Some (ArgText (p_race_id p))"
| "column_value p ColTeam = map_option ArgText (p_team_id p)"
| "column_value p ColStatus = Some (ArgText (p_status p))"
| "column_value p ColGender = (if p_gender p = '''' then None else Some (ArgText (p_gender p)))"
| "column_value p ColClub = map_option ArgText (p_club p)"
| "column_value p ColBib = Some (ArgInt (p_bib_number p))"

definition or_empty :: "string option \<Rightarrow> string" where
  "or_empty s = (case s of None \<Rightarrow> '''' | Some x \<Rightarrow> x)"

definition full_name :: "participant \<Rightarrow> string" where
  "full_name p = to_lower (p_first_name p @ '' '' @ or_empty (p_last_name p))"

definition nth_arg :: "sql_arg list \<Rightarrow> nat \<Rightarrow> sql_arg option" where
  "nth_arg args n = (if 0 < n \<and> n \<le> length args then Some (args ! (n - 1)) else None)"

fun cond_holds :: "sql_arg list \<Rightarrow> participant \<Rightarrow> cond \<Rightarrow> bool" where
  "cond_holds args p (ColEq c n) = (nth_arg args n \<noteq> None \<and> column_value p c = nth_arg args n)"
| "cond_holds args p (ColNull c) = (column_value p c = None)"
| "cond_holds args p (TextLike n) =
     (case nth_arg args n of
        Some (ArgText pat) \<Rightarrow>
          like pat (full_name p) \<or> like pat (to_lower (or_empty (p_bib_name p))) \<or>
          like pat (to_lower (or_empty (p_email p)))
      | _ \<Rightarrow> False)"
| "cond_holds args p (IdIn n) =
     (case nth_arg args n of Some (ArgTexts ids) \<Rightarrow> p_id p \<in> set ids | _ \<Rightarrow> False)"

type_synonym clause = "cond list \<times> sql_arg list"

definition clause_sql :: "clause \<Rightarrow> string" where
  "clause_sql cl = join '' AND '' (map render (fst cl))"

definition clause_holds :: "clause \<Rightarrow> participant \<Rightarrow> bool" where
  "clause_holds cl p = list_all (cond_holds (snd cl) p) (fst cl)"

section \<open>The participant filter\<close>

record list_filter =
  lf_race_id :: string
  lf_team_id :: string
  lf_status :: part_status
  lf_gender :: gender
  lf_club :: string
  lf_no_club :: bool
  lf_unassigned :: bool
  lf_bib_number :: "int option"
  lf_query :: string

definition no_filter :: list_filter where
  "no_filter = \<lparr>lf_race_id = '''', lf_team_id = '''', lf_status = '''', lf_gender = '''', lf_club = '''',
     lf_no_club = False, lf_unassigned = False, lf_bib_number = None, lf_query = ''''\<rparr>"

definition is_digits :: "string \<Rightarrow> bool" where
  "is_digits s = (list_all is_digit s \<and> s \<noteq> '''')"

text \<open>The closure \<open>add\<close>: append the argument, then a condition that names its place.\<close>

definition add_arg :: "(nat \<Rightarrow> cond) \<Rightarrow> sql_arg \<Rightarrow> clause \<Rightarrow> clause" where
  "add_arg mk v cl = (case cl of (conds, args) \<Rightarrow> (conds @ [mk (length args + 1)], args @ [v]))"

definition add_cond :: "cond \<Rightarrow> clause \<Rightarrow> clause" where
  "add_cond c cl = (case cl of (conds, args) \<Rightarrow> (conds @ [c], args))"

definition add_when :: "bool \<Rightarrow> (clause \<Rightarrow> clause) \<Rightarrow> clause \<Rightarrow> clause" where
  "add_when b f cl = (if b then f cl else cl)"

definition add_query :: "string \<Rightarrow> clause \<Rightarrow> clause" where
  "add_query query cl =
     (let q = trim_space query in
      if q = '''' then cl
      else case parse_int q of
             Some n \<Rightarrow>
               if is_digits q then add_arg (ColEq ColBib) (ArgInt n) cl
               else add_arg TextLike (ArgText (''%'' @ escape_like (to_lower q) @ ''%'')) cl
           | None \<Rightarrow> add_arg TextLike (ArgText (''%'' @ escape_like (to_lower q) @ ''%'')) cl)"

definition list_filter_where :: "list_filter \<Rightarrow> string \<Rightarrow> string \<Rightarrow> clause" where
  "list_filter_where f tenant event =
     (let c0 = ([ColEq ColTenant 1, ColEq ColEvent 2], [ArgText tenant, ArgText event]);
          c1 = add_when (lf_race_id f \<noteq> '''') (add_arg (ColEq ColRace) (ArgText (lf_race_id f))) c0;
          c2 = add_when (lf_team_id f \<noteq> '''') (add_arg (ColEq ColTeam) (ArgText (lf_team_id f))) c1;
          c3 = add_when (lf_unassigned f) (add_cond (ColNull ColTeam)) c2;
          c4 = add_when (lf_status f \<noteq> '''') (add_arg (ColEq ColStatus) (ArgText (lf_status f))) c3;
          c5 = add_when (lf_gender f \<noteq> '''') (add_arg (ColEq ColGender) (ArgText (lf_gender f))) c4;
          c6 = (if lf_no_club f then add_cond (ColNull ColClub) c5
                else add_when (lf_club f \<noteq> '''') (add_arg (ColEq ColClub) (ArgText (lf_club f))) c5);
          c7 = (case lf_bib_number f of
                  None \<Rightarrow> c6 | Some b \<Rightarrow> add_arg (ColEq ColBib) (ArgInt b) c6)
      in add_query (lf_query f) c7)"

text \<open>\<open>idsClause\<close>\<close>

definition ids_clause :: "string list \<Rightarrow> clause \<Rightarrow> clause" where
  "ids_clause ids cl = add_arg IdIn (ArgTexts ids) cl"

section \<open>What the filter selects\<close>

definition query_selects :: "string \<Rightarrow> participant \<Rightarrow> bool" where
  "query_selects query p =
     (let q = trim_space query in
      q = '''' \<or>
      (if is_digits q \<and> parse_int q \<noteq> None then parse_int q = Some (p_bib_number p)
       else sublist (to_lower q) (full_name p) \<or>
            sublist (to_lower q) (to_lower (or_empty (p_bib_name p))) \<or>
            sublist (to_lower q) (to_lower (or_empty (p_email p)))))"

definition filter_selects :: "list_filter \<Rightarrow> string \<Rightarrow> string \<Rightarrow> participant \<Rightarrow> bool" where
  "filter_selects f tenant event p \<longleftrightarrow>
     p_tenant_id p = tenant \<and> p_event_id p = event \<and>
     (lf_race_id f = '''' \<or> p_race_id p = lf_race_id f) \<and>
     (lf_team_id f = '''' \<or> p_team_id p = Some (lf_team_id f)) \<and>
     (\<not> lf_unassigned f \<or> p_team_id p = None) \<and>
     (lf_status f = '''' \<or> p_status p = lf_status f) \<and>
     (lf_gender f = '''' \<or> p_gender p = lf_gender f) \<and>
     (if lf_no_club f then p_club p = None else lf_club f = '''' \<or> p_club p = Some (lf_club f)) \<and>
     (lf_bib_number f = None \<or> lf_bib_number f = Some (p_bib_number p)) \<and>
     query_selects (lf_query f) p"

text \<open>Every placeholder of a clause is one of its arguments; adding arguments keeps its meaning.\<close>

fun cond_slots :: "cond \<Rightarrow> nat list" where
  "cond_slots (ColEq c n) = [n]"
| "cond_slots (ColNull c) = []"
| "cond_slots (TextLike n) = [n]"
| "cond_slots (IdIn n) = [n]"

definition clause_closed :: "clause \<Rightarrow> bool" where
  "clause_closed cl \<longleftrightarrow>
     list_all (\<lambda>c. list_all (\<lambda>n. 0 < n \<and> n \<le> length (snd cl)) (cond_slots c)) (fst cl)"

lemma nth_arg_append: "0 < n \<Longrightarrow> n \<le> length args \<Longrightarrow> nth_arg (args @ extra) n = nth_arg args n"
  by (cases n) (simp_all add: nth_arg_def nth_append)

lemma nth_arg_last [simp]: "nth_arg (args @ [v]) (Suc (length args)) = Some v"
  by (simp add: nth_arg_def)

lemma cond_holds_append:
  "list_all (\<lambda>n. 0 < n \<and> n \<le> length args) (cond_slots c) \<Longrightarrow>
     cond_holds (args @ extra) p c = cond_holds args p c"
  by (cases c) (simp_all add: nth_arg_append)

lemma add_arg_closed: "clause_closed cl \<Longrightarrow> cond_slots (mk (Suc (length (snd cl)))) = [Suc (length (snd cl))] \<Longrightarrow>
    clause_closed (add_arg mk v cl)"
  by (cases cl) (fastforce simp: add_arg_def clause_closed_def list_all_iff)

lemma add_arg_holds:
  assumes "clause_closed cl"
  shows "clause_holds (add_arg mk v cl) p \<longleftrightarrow>
    clause_holds cl p \<and> cond_holds (snd cl @ [v]) p (mk (Suc (length (snd cl))))"
proof (cases cl)
  case (Pair conds args)
  with assms have "list_all (cond_holds (args @ [v]) p) conds = list_all (cond_holds args p) conds"
    by (auto simp: clause_closed_def list_all_iff cond_holds_append)
  with Pair show ?thesis by (simp add: add_arg_def clause_holds_def)
qed

lemma add_cond_holds: "clause_holds (add_cond c cl) p \<longleftrightarrow> clause_holds cl p \<and> cond_holds (snd cl) p c"
  by (cases cl) (simp add: add_cond_def clause_holds_def)

lemma add_cond_closed: "clause_closed cl \<Longrightarrow> cond_slots c = [] \<Longrightarrow> clause_closed (add_cond c cl)"
  by (cases cl) (simp add: add_cond_def clause_closed_def)

lemma when_closed: "clause_closed cl \<Longrightarrow> (\<And>c. clause_closed c \<Longrightarrow> clause_closed (f c)) \<Longrightarrow> clause_closed (add_when b f cl)"
  by (simp add: add_when_def)

text \<open>One equality condition of the filter.\<close>

lemma when_eq_holds:
  "clause_closed cl \<Longrightarrow> clause_holds (add_when b (add_arg (ColEq c) v) cl) p \<longleftrightarrow>
     clause_holds cl p \<and> (\<not> b \<or> column_value p c = Some v)"
  by (simp add: add_when_def add_arg_holds)

lemma when_eq_closed: "clause_closed cl \<Longrightarrow> clause_closed (add_when b (add_arg (ColEq c) v) cl)"
  by (simp add: add_when_def add_arg_closed)

lemma query_holds:
  "clause_closed cl \<Longrightarrow> clause_holds (add_query query cl) p \<longleftrightarrow> clause_holds cl p \<and> query_selects query p"
  by (cases "parse_int (trim_space query)")
    (auto simp: add_query_def query_selects_def Let_def add_arg_holds
      like_substring_Cons)

lemma query_closed: "clause_closed cl \<Longrightarrow> clause_closed (add_query query cl)"
  by (simp add: add_query_def Let_def add_arg_closed split: option.splits)


lemma where_facts:
  "(clause_holds (list_filter_where f tenant event) p \<longleftrightarrow> filter_selects f tenant event p) \<and>
   clause_closed (list_filter_where f tenant event)"
proof -
  define c0 where "c0 = ([ColEq ColTenant 1, ColEq ColEvent 2], [ArgText tenant, ArgText event])"
  define c1 where "c1 = add_when (lf_race_id f \<noteq> '''') (add_arg (ColEq ColRace) (ArgText (lf_race_id f))) c0"
  define c2 where "c2 = add_when (lf_team_id f \<noteq> '''') (add_arg (ColEq ColTeam) (ArgText (lf_team_id f))) c1"
  define c3 where "c3 = add_when (lf_unassigned f) (add_cond (ColNull ColTeam)) c2"
  define c4 where "c4 = add_when (lf_status f \<noteq> '''') (add_arg (ColEq ColStatus) (ArgText (lf_status f))) c3"
  define c5 where "c5 = add_when (lf_gender f \<noteq> '''') (add_arg (ColEq ColGender) (ArgText (lf_gender f))) c4"
  define c6 where "c6 = (if lf_no_club f then add_cond (ColNull ColClub) c5
                else add_when (lf_club f \<noteq> '''') (add_arg (ColEq ColClub) (ArgText (lf_club f))) c5)"
  define c7 where "c7 = (case lf_bib_number f of
                  None \<Rightarrow> c6 | Some b \<Rightarrow> add_arg (ColEq ColBib) (ArgInt b) c6)"
  have w: "list_filter_where f tenant event = add_query (lf_query f) c7"
    by (simp only: list_filter_where_def Let_def c0_def c1_def c2_def c3_def c4_def c5_def c6_def c7_def)
  have k0: "clause_closed c0" by (simp add: c0_def clause_closed_def)
  have k1: "clause_closed c1" unfolding c1_def by (rule when_eq_closed [OF k0])
  have k2: "clause_closed c2" unfolding c2_def by (rule when_eq_closed [OF k1])
  have k3: "clause_closed c3" unfolding c3_def by (rule when_closed [OF k2]) (simp add: add_cond_closed)
  have k4: "clause_closed c4" unfolding c4_def by (rule when_eq_closed [OF k3])
  have k5: "clause_closed c5" unfolding c5_def by (rule when_eq_closed [OF k4])
  have k6: "clause_closed c6" unfolding c6_def using k5 by (simp add: add_cond_closed when_eq_closed)
  have k7: "clause_closed c7" unfolding c7_def using k6 by (simp add: add_arg_closed split: option.splits)
  have h0: "clause_holds c0 p \<longleftrightarrow> p_tenant_id p = tenant \<and> p_event_id p = event"
    by (auto simp: c0_def clause_holds_def nth_arg_def)
  have h2: "clause_holds c2 p \<longleftrightarrow> clause_holds c0 p \<and>
      (lf_race_id f = '''' \<or> p_race_id p = lf_race_id f) \<and>
      (lf_team_id f = '''' \<or> p_team_id p = Some (lf_team_id f))"
    unfolding c2_def c1_def when_eq_holds [OF k1, unfolded c1_def] when_eq_holds [OF k0] by auto
  have h3: "clause_holds c3 p \<longleftrightarrow> clause_holds c2 p \<and> (\<not> lf_unassigned f \<or> p_team_id p = None)"
    by (simp add: c3_def add_when_def add_cond_holds)
  have h5: "clause_holds c5 p \<longleftrightarrow> clause_holds c3 p \<and> (lf_status f = '''' \<or> p_status p = lf_status f) \<and>
      (lf_gender f = '''' \<or> p_gender p = lf_gender f)"
    unfolding c5_def c4_def when_eq_holds [OF k4, unfolded c4_def] when_eq_holds [OF k3] by auto
  have h6: "clause_holds c6 p \<longleftrightarrow> clause_holds c5 p \<and>
      (if lf_no_club f then p_club p = None else lf_club f = '''' \<or> p_club p = Some (lf_club f))"
    using when_eq_holds [OF k5] by (auto simp: c6_def add_cond_holds)
  have h7: "clause_holds c7 p \<longleftrightarrow> clause_holds c6 p \<and>
      (lf_bib_number f = None \<or> lf_bib_number f = Some (p_bib_number p))"
    using k6 by (auto simp: c7_def add_arg_holds split: option.splits)
  show ?thesis
    unfolding w using query_closed [OF k7] query_holds [OF k7, of "lf_query f" p] h0 h2 h3 h5 h6 h7
    by (simp add: filter_selects_def)
qed

lemmas where_holds [simp] = where_facts [THEN conjunct1]
lemmas where_closed [simp] = where_facts [THEN conjunct2]

text \<open>The clause \<open>ListFilter.where\<close> builds selects exactly the participants of the event that
satisfy every part of the filter that is set, and each of its placeholders names one of its
arguments.\<close>

theorem list_filter_where_selects:
  "(clause_holds (list_filter_where f tenant event) p \<longleftrightarrow> filter_selects f tenant event p) \<and>
   clause_closed (list_filter_where f tenant event)"
  by (rule where_facts)

lemma ids_clause_holds [simp]:
  "clause_closed cl \<Longrightarrow> clause_holds (ids_clause ids cl) p \<longleftrightarrow> clause_holds cl p \<and> p_id p \<in> set ids"
  by (simp add: ids_clause_def add_arg_holds)

lemma no_filter_selects [simp]:
  "filter_selects no_filter tenant event p \<longleftrightarrow> p_tenant_id p = tenant \<and> p_event_id p = event"
  by (simp add: filter_selects_def no_filter_def query_selects_def)

end
