(* ===== verification/Pagination.thy ===== *)
theory Pagination
  imports Go_Strings "HOL-Library.List_Lexorder" "HOL-Library.Product_Lexorder" "HOL-Library.Char_ord"
begin

text \<open>
  Keyset pagination, \<open>internal/platform/pagination\<close>, and the cursors of
  \<open>internal/participant/repository.go\<close>: the URL-safe base64 codec of Go's standard library, the
  cursor codecs over it, the clamped page size, and the contract of a keyset listing as a locale:
  whatever listing satisfies it is walked page by page without losing or repeating a row.
\<close>

section \<open>Base64, URL alphabet, no padding\<close>

definition b64_alphabet :: string where
  "b64_alphabet = ''ABCDEFGHIJKLMNOPQRSTUVWXYZabcdefghijklmnopqrstuvwxyz0123456789-_''"

definition b64_char :: "nat \<Rightarrow> char" where
  "b64_char i = b64_alphabet ! i"

definition b64_value :: "char \<Rightarrow> nat option" where
  "b64_value c = (let i = length (takeWhile (\<lambda>d. d \<noteq> c) b64_alphabet) in
     if i < 64 then Some i else None)"

fun b64_encode :: "nat list \<Rightarrow> string" where
  "b64_encode [] = []"
| "b64_encode [a] = [b64_char (a div 4), b64_char ((a mod 4) * 16)]"
| "b64_encode [a, b] =
     [b64_char (a div 4), b64_char ((a mod 4) * 16 + b div 16), b64_char ((b mod 16) * 4)]"
| "b64_encode (a # b # c # bs) =
     b64_char (a div 4) # b64_char ((a mod 4) * 16 + b div 16) #
     b64_char ((b mod 16) * 4 + c div 64) # b64_char (c mod 64) # b64_encode bs"

text \<open>Decoding is not strict: the unused low bits of a last partial group are ignored. Line
breaks are skipped, any other character outside the alphabet is an error, and so is a single
character left over.\<close>

fun b64_groups :: "nat list \<Rightarrow> nat list option" where
  "b64_groups [] = Some []"
| "b64_groups [w] = None"
| "b64_groups [w, x] = Some [w * 4 + x div 16]"
| "b64_groups [w, x, y] = Some [w * 4 + x div 16, (x mod 16) * 16 + y div 4]"
| "b64_groups (w # x # y # z # vs) =
     (case b64_groups vs of None \<Rightarrow> None
      | Some bs \<Rightarrow> Some ((w * 4 + x div 16) # ((x mod 16) * 16 + y div 4) # ((y mod 4) * 64 + z) # bs))"

fun b64_values :: "string \<Rightarrow> nat list option" where
  "b64_values [] = Some []"
| "b64_values (c # cs) =
     (case b64_value c of None \<Rightarrow> None
      | Some v \<Rightarrow> (case b64_values cs of None \<Rightarrow> None | Some vs \<Rightarrow> Some (v # vs)))"

definition raw_url_encode :: "string \<Rightarrow> string" where
  "raw_url_encode s = b64_encode (map byte s)"

definition raw_url_decode :: "string \<Rightarrow> string option" where
  "raw_url_decode s =
     (case b64_values (filter (\<lambda>c. c \<noteq> CHR 0x0A \<and> c \<noteq> CHR 0x0D) s) of
        None \<Rightarrow> None
      | Some vs \<Rightarrow> map_option (map char_of) (b64_groups vs))"

lemma b64_alphabet_table:
  "list_all (\<lambda>i. b64_value (b64_char i) = Some i \<and> b64_char i \<noteq> CHR 0x0A \<and> b64_char i \<noteq> CHR 0x0D) [0..<64]"
  by code_simp

lemma b64_char_facts:
  assumes "i < 64"
  shows "b64_value (b64_char i) = Some i" "b64_char i \<noteq> CHR 0x0A" "b64_char i \<noteq> CHR 0x0D"
  using b64_alphabet_table assms by (simp_all add: list_all_iff)

lemma b64_six_bits:
  "a < (256::nat) \<Longrightarrow> a div 4 < 64"
  "(a mod 4) * 16 < (64::nat)"
  "b < 256 \<Longrightarrow> (a mod 4) * 16 + b div 16 < (64::nat)"
  "(b mod 16) * 4 < (64::nat)"
  "c < 256 \<Longrightarrow> (b mod 16) * 4 + c div 64 < (64::nat)"
  "c mod 64 < (64::nat)"
proof -
  show "a < 256 \<Longrightarrow> a div 4 < 64" "(a mod 4) * 16 < 64" "(b mod 16) * 4 < 64" "c mod 64 < 64"
    by linarith+
  show "(a mod 4) * 16 + b div 16 < 64" if "b < 256"
  proof -
    have "b div 16 < 16" "a mod 4 < 4" using that by linarith+
    then show ?thesis by linarith
  qed
  show "(b mod 16) * 4 + c div 64 < 64" if "c < 256"
  proof -
    have "c div 64 < 4" "b mod 16 < 16" using that by linarith+
    then show ?thesis by linarith
  qed
qed

text \<open>A byte cut at its high bits and put together again.\<close>

lemma cut_byte:
  assumes "b < (256::nat)"
  shows "b div 16 div 16 = 0" "b div 16 mod 16 = b div 16" "b div 64 div 4 = 0"
    "b div 64 mod 4 = b div 64"
proof -
  have "b div 16 < 16" "b div 64 < 4" using assms by linarith+
  then show "b div 16 div 16 = 0" "b div 16 mod 16 = b div 16" "b div 64 div 4 = 0"
    "b div 64 mod 4 = b div 64" by simp_all
qed

lemma b64_roundtrip:
  "list_all (\<lambda>b. b < 256) bs \<Longrightarrow>
     filter (\<lambda>c. c \<noteq> CHR 0x0A \<and> c \<noteq> CHR 0x0D) (b64_encode bs) = b64_encode bs \<and>
     (\<exists>vs. b64_values (b64_encode bs) = Some vs \<and> b64_groups vs = Some bs)"
proof (induction bs rule: b64_encode.induct)
  case (2 a)
  then show ?case by (simp add: b64_char_facts b64_six_bits)
next
  case (3 a b)
  then show ?case
    by (simp add: b64_char_facts b64_six_bits cut_byte)
next
  case (4 a b c bs)
  then obtain vs where "b64_values (b64_encode bs) = Some vs" "b64_groups vs = Some bs" by auto
  with 4 show ?case
    by (simp add: b64_char_facts b64_six_bits cut_byte)
qed simp

lemma byte_lt: "byte c < 256"
  by (simp add: byte_def)

lemma char_of_byte [simp]: "char_of (byte c) = c"
  by (simp add: byte_def)

lemma raw_url_roundtrip [simp]: "raw_url_decode (raw_url_encode s) = Some s"
proof -
  have "list_all (\<lambda>b. b < 256) (map byte s)" by (simp add: list_all_iff byte_lt)
  from b64_roundtrip [OF this] show ?thesis
    by (auto simp: raw_url_decode_def raw_url_encode_def comp_def)
qed

lemma raw_url_encode_Nil_iff [simp]: "raw_url_encode s = [] \<longleftrightarrow> s = []"
  by (cases "map byte s" rule: b64_encode.cases) (auto simp: raw_url_encode_def)

section \<open>Cursors\<close>

text \<open>\<open>strings.Cut\<close> and \<open>strings.SplitN(s, "|", 2)\<close> at the first bar.\<close>

fun cut_bar :: "string \<Rightarrow> (string \<times> string) option" where
  "cut_bar [] = None"
| "cut_bar (c # cs) =
     (if c = CHR ''|'' then Some ([], cs)
      else case cut_bar cs of None \<Rightarrow> None | Some (a, b) \<Rightarrow> Some (c # a, b))"

lemma cut_bar_append: "CHR ''|'' \<notin> set a \<Longrightarrow> cut_bar (a @ CHR ''|'' # b) = Some (a, b)"
  by (induction a) auto

definition encode_cursor :: "int \<Rightarrow> string \<Rightarrow> string" where
  "encode_cursor created_at rid = raw_url_encode (itoa created_at @ ''|'' @ rid)"

definition decode_cursor :: "string \<Rightarrow> (int \<times> string) option" where
  "decode_cursor raw =
     (if raw = '''' then None
      else case raw_url_decode raw of None \<Rightarrow> None
      | Some d \<Rightarrow> (case cut_bar d of None \<Rightarrow> None
        | Some (nanos, rid) \<Rightarrow> map_option (\<lambda>n. (n, rid)) (parse_int nanos)))"

definition encode_bib_cursor :: "int \<Rightarrow> string" where
  "encode_bib_cursor bib = raw_url_encode (itoa bib)"

definition decode_bib_cursor :: "string \<Rightarrow> int option" where
  "decode_bib_cursor raw = (case raw_url_decode raw of None \<Rightarrow> None | Some d \<Rightarrow> parse_int d)"

definition encode_team_cursor :: "string \<Rightarrow> string \<Rightarrow> string" where
  "encode_team_cursor name rid = raw_url_encode (rid @ ''|'' @ name)"

definition decode_team_cursor :: "string \<Rightarrow> (string \<times> string) option" where
  "decode_team_cursor raw =
     (case raw_url_decode raw of None \<Rightarrow> None
      | Some d \<Rightarrow> (case cut_bar d of None \<Rightarrow> None
        | Some (rid, name) \<Rightarrow> if rid \<noteq> '''' then Some (name, rid) else None))"

lemma bar_not_in_itoa: "CHR ''|'' \<notin> set (itoa i)"
  using itoa_chars by (fastforce simp: is_digit_def byte_def)

lemma itoa_nonempty [simp]: "itoa i \<noteq> []"
  by (simp add: itoa_def nat_str_nonempty)

lemma cursor_roundtrip [simp]: "in_int64 c \<Longrightarrow> decode_cursor (encode_cursor c rid) = Some (c, rid)"
  by (simp add: decode_cursor_def encode_cursor_def cut_bar_append bar_not_in_itoa parse_int_itoa)

lemma bib_cursor_roundtrip [simp]: "in_int64 b \<Longrightarrow> decode_bib_cursor (encode_bib_cursor b) = Some b"
  by (simp add: decode_bib_cursor_def encode_bib_cursor_def parse_int_itoa)

lemma team_cursor_roundtrip [simp]:
  "CHR ''|'' \<notin> set rid \<Longrightarrow> rid \<noteq> '''' \<Longrightarrow>
     decode_team_cursor (encode_team_cursor name rid) = Some (name, rid)"
  by (simp add: decode_team_cursor_def encode_team_cursor_def cut_bar_append)

lemma cursors_nonempty [simp]:
  "encode_cursor c rid \<noteq> ''''" "encode_bib_cursor b \<noteq> ''''" "encode_team_cursor name rid \<noteq> ''''"
  by (simp_all add: encode_cursor_def encode_bib_cursor_def encode_team_cursor_def)

lemma empty_cursors [simp]:
  "decode_cursor '''' = None" "decode_bib_cursor '''' = None" "decode_team_cursor '''' = None"
  by (simp_all add: decode_cursor_def decode_bib_cursor_def decode_team_cursor_def raw_url_decode_def
      parse_int_def)

text \<open>C5: every cursor the API hands out decodes to the position it was made from, whatever bytes the
identifier or name holds, and is never the empty cursor that means the first page.\<close>

theorem cursors_roundtrip:
  assumes "in_int64 n" and "CHR ''|'' \<notin> set rid" and "rid \<noteq> ''''"
  shows "decode_cursor (encode_cursor n any_id) = Some (n, any_id) \<and>
    decode_bib_cursor (encode_bib_cursor n) = Some n \<and>
    decode_team_cursor (encode_team_cursor name rid) = Some (name, rid) \<and>
    '''' \<notin> {encode_cursor n any_id, encode_bib_cursor n, encode_team_cursor name rid}"
  using assms cursors_nonempty [symmetric] by simp

theorem cursors_roundtrip_witness:
  "decode_cursor (encode_cursor (-5) ''a|b'') = Some (-5, ''a|b'') \<and>
   decode_bib_cursor (encode_bib_cursor (-5)) = Some (-5) \<and>
   decode_team_cursor (encode_team_cursor ''T|1'' ''id1'') = Some (''T|1'', ''id1'') \<and>
   '''' \<notin> {encode_cursor (-5) ''a|b'', encode_bib_cursor (-5), encode_team_cursor ''T|1'' ''id1''}"
  by (rule cursors_roundtrip) (simp_all add: in_int64_def max_int64_def min_int64_def)

section \<open>Pages\<close>

record page_params =
  pg_limit :: int
  pg_cursor :: string

abbreviation DefaultPageLimit :: int where "DefaultPageLimit \<equiv> 20"
abbreviation MaxPageLimit :: int where "MaxPageLimit \<equiv> 100"

definition normalize_limit :: "page_params \<Rightarrow> nat" where
  "normalize_limit p =
     nat (if pg_limit p \<le> 0 then DefaultPageLimit
          else if pg_limit p > MaxPageLimit then MaxPageLimit else pg_limit p)"

record 'r page =
  pg_items :: "'r list"
  pg_next_cursor :: string

text \<open>The tail of every listing: one row more than the limit was asked for; if it came, the page is
cut and the cursor is that of its last row.\<close>

definition cut_page :: "nat \<Rightarrow> ('r \<Rightarrow> string) \<Rightarrow> 'r list \<Rightarrow> 'r page" where
  "cut_page limit enc out =
     (if length out > limit
      then \<lparr>pg_items = take limit out, pg_next_cursor = enc (out ! (limit - 1))\<rparr>
      else \<lparr>pg_items = out, pg_next_cursor = ''''\<rparr>)"

lemma normalize_limit_bounds: "0 < normalize_limit p" "normalize_limit p \<le> 100"
  by (auto simp: normalize_limit_def)

section \<open>The contract of a keyset listing\<close>

text \<open>
  \<open>after s c\<close> are the rows the query of a listing selects, in its order, for the cursor \<open>c\<close>,
  without the limit. The law: the cursor of a row selects exactly what follows that row. The
  client of the contract is the walk: fetch a page, go on with its cursor until there is none.
\<close>

locale keyset_listing =
  fixes after :: "'s \<Rightarrow> string \<Rightarrow> 'r list"
    and enc :: "'r \<Rightarrow> string"
    and good :: "'s \<Rightarrow> bool"
  assumes cursor_law: "good s \<Longrightarrow> after s '''' = xs @ r # ys \<Longrightarrow> after s (enc r) = ys"
    and cursor_nonempty: "enc r \<noteq> ''''"
begin

definition fetch :: "'s \<Rightarrow> nat \<Rightarrow> string \<Rightarrow> 'r page" where
  "fetch s limit c = cut_page limit enc (take (limit + 1) (after s c))"

text \<open>A client that asks for the next page until there is none; \<open>None\<close> when \<open>n\<close> requests were not enough.\<close>

fun walk :: "nat \<Rightarrow> 's \<Rightarrow> nat \<Rightarrow> string \<Rightarrow> 'r list option" where
  "walk 0 s limit c = None"
| "walk (Suc n) s limit c =
     (let p = fetch s limit c in
      if pg_next_cursor p = '''' then Some (pg_items p)
      else map_option ((@) (pg_items p)) (walk n s limit (pg_next_cursor p)))"

lemma walk_from:
  assumes "good s" "0 < limit" "after s '''' = xs @ after s c" "length (after s c) < n"
  shows "walk n s limit c = Some (after s c)"
  using assms(3,4)
proof (induction n arbitrary: xs c)
  case (Suc n)
  let ?out = "take (limit + 1) (after s c)"
  show ?case
  proof (cases "length (after s c) \<le> limit")
    case True
    then show ?thesis by (simp add: fetch_def cut_page_def)
  next
    case False
    define r where "r = after s c ! (limit - 1)"
    define rest where "rest = drop limit (after s c)"
    have split: "after s c = take (limit - 1) (after s c) @ r # rest"
      using False assms(2) id_take_nth_drop [of "limit - 1" "after s c"] by (simp add: r_def rest_def)
    have all: "after s '''' = (xs @ take (limit - 1) (after s c)) @ r # rest"
      using Suc.prems(1) split by simp
    have next_rows: "after s (enc r) = rest" by (rule cursor_law [OF assms(1) all])
    have fetch: "fetch s limit c = \<lparr>pg_items = take limit (after s c), pg_next_cursor = enc r\<rparr>"
      using False assms(2) by (simp add: fetch_def cut_page_def r_def min_def)
    have "after s '''' = ((xs @ take (limit - 1) (after s c)) @ [r]) @ after s (enc r)"
      using all next_rows by simp
    moreover have "length (after s (enc r)) < n"
      using Suc.prems(2) False assms(2) by (simp add: next_rows rest_def)
    ultimately have "walk n s limit (enc r) = Some rest" using Suc.IH next_rows by simp
    then show ?thesis
      using cursor_nonempty [of r] by (simp add: fetch rest_def Let_def)
  qed
qed simp

text \<open>Walking the pages gives the whole listing, each row once and in order.\<close>

lemma walk_complete:
  "good s \<Longrightarrow> 0 < limit \<Longrightarrow> walk (Suc (length (after s ''''))) s limit '''' = Some (after s '''')"
  by (rule walk_from [where xs = "[]"]) simp_all

end

text \<open>The law holds for a sorted listing filtered by its key.\<close>

lemma filter_after_sorted:
  assumes "sorted_wrt lt (xs @ r # ys)" "\<And>a b. lt a b \<Longrightarrow> \<not> lt b a"
  shows "filter (lt r) (xs @ r # ys) = ys"
proof -
  have "filter (lt r) xs = []" "\<not> lt r r" "filter (lt r) ys = ys"
    using assms by (auto simp: sorted_wrt_append filter_empty_conv filter_id_conv)
  then show ?thesis by simp
qed

lemma sorted_strict:
  fixes f :: "'a \<Rightarrow> 'b::linorder"
  assumes "distinct (map f xs)"
  shows "sorted_wrt (\<lambda>a b. f a < f b) (sort_key f xs)"
proof -
  have "sorted (map f (sort_key f xs))" by simp
  moreover have "distinct (map f (sort_key f xs))" using assms by (simp add: distinct_map)
  ultimately have "sorted_wrt (<) (map f (sort_key f xs))" by (simp add: strict_sorted_iff)
  then show ?thesis by (simp add: sorted_wrt_map)
qed

lemma filter_sort_key: "filter p (sort_key f xs) = sort_key f (filter p xs)"
  by (rule filter_sort)

lemma sorted_strict_desc:
  fixes f :: "'a \<Rightarrow> 'b::linorder"
  assumes "distinct (map f xs)"
  shows "sorted_wrt (\<lambda>a b. f b < f a) (rev (sort_key f xs))"
  using sorted_strict [OF assms] by (simp add: sorted_wrt_rev)

end
