(* ===== verification/Participant_Repo.thy ===== *)
theory Participant_Repo
  imports Store Participant_Filter Pagination Import_Plan
begin

text \<open>
  \<open>internal/participant/repository.go\<close>: every statement on races, participants and teams, with
  the unique indexes and foreign keys of the migrations that a write can hit.
\<close>

section \<open>Constraints and their translation\<close>

datatype sql_error = UniqueViolation string | ForeignKeyViolation string | OutOfRange

text \<open>\<open>translateWrite\<close>: the constraint's name decides the error; the default case looks for
\<open>ref_id\<close> in the driver's message, which quotes the name of the constraint.\<close>

definition translate_write :: "sql_error \<Rightarrow> go_error" where
  "translate_write e =
     (case e of
        UniqueViolation c \<Rightarrow>
          (if c = ''participants_event_bib_uk''
           then FieldError (conflict ''bib_taken'' ''bib_number''
                  ''This BIB number is already used in this event.'')
           else if c = ''participants_team_leg_uk''
           then FieldError (conflict ''leg_taken'' ''leg_order'' ''This leg is already taken in the team.'')
           else if c = ''teams_race_name_uk''
           then FieldError (conflict ''team_name_taken'' ''name''
                  ''A team with this name already exists in this race.'')
           else if sublist ''ref_id'' (''pq: duplicate key value violates unique constraint '' @ c)
           then FieldError (conflict ''ref_id_taken'' ''ref_id'' ''This ref_id is already used in this event.'')
           else Sentinel ErrAlreadyExists)
      | ForeignKeyViolation c \<Rightarrow> Other (''pq: violates foreign key constraint '' @ c)
      | OutOfRange \<Rightarrow> Other ''pq: value out of range for type integer'')"

definition write_check :: "sql_error option \<Rightarrow> unit query" where
  "write_check v = (case v of None \<Rightarrow> ret () | Some e \<Rightarrow> fail (translate_write e))"

definition in_int32 :: "int \<Rightarrow> bool" where
  "in_int32 i \<longleftrightarrow> - (2 ^ 31) \<le> i \<and> i < 2 ^ 31"

text \<open>The keys of the unique indexes; a row the index leaves out has no key.\<close>

definition part_pk :: "participant \<Rightarrow> string option" where
  "part_pk p = Some (p_id p)"

definition part_bib_key :: "participant \<Rightarrow> (string \<times> int) option" where
  "part_bib_key p = Some (p_event_id p, p_bib_number p)"

definition part_leg_key :: "participant \<Rightarrow> (string \<times> int) option" where
  "part_leg_key p = (case (p_team_id p, p_leg_order p) of (Some t, Some l) \<Rightarrow> Some (t, l) | _ \<Rightarrow> None)"

definition part_ref_key :: "participant \<Rightarrow> (string \<times> string) option" where
  "part_ref_key p = map_option (\<lambda>r. (p_event_id p, r)) (p_ref_id p)"

definition team_pk :: "team \<Rightarrow> string option" where
  "team_pk t = Some (t_id t)"

definition team_name_key :: "team \<Rightarrow> (string \<times> string) option" where
  "team_name_key t = Some (t_race_id t, t_name t)"

definition taken :: "('r \<Rightarrow> 'k option) \<Rightarrow> 'r list \<Rightarrow> 'r \<Rightarrow> bool" where
  "taken key others r \<longleftrightarrow> key r \<noteq> None \<and> list_ex (\<lambda>q. key q = key r) others"

text \<open>The first constraint a participant row would violate among the other rows of the table.\<close>

definition participant_violation :: "db \<Rightarrow> participant list \<Rightarrow> participant \<Rightarrow> sql_error option" where
  "participant_violation s others p =
     (if \<not> in_int32 (p_bib_number p) \<or> (case p_leg_order p of None \<Rightarrow> False | Some l \<Rightarrow> \<not> in_int32 l)
      then Some OutOfRange
      else if taken part_pk others p then Some (UniqueViolation ''participants_pkey'')
      else if taken part_bib_key others p then Some (UniqueViolation ''participants_event_bib_uk'')
      else if taken part_leg_key others p then Some (UniqueViolation ''participants_team_leg_uk'')
      else if taken part_ref_key others p then Some (UniqueViolation ''participants_event_ref_id_uk'')
      else if \<not> list_ex (\<lambda>e. ev_id e = p_event_id p) (db_events s)
        then Some (ForeignKeyViolation ''participants_event_id_fkey'')
      else if \<not> list_ex (\<lambda>r. ra_id r = p_race_id p) (db_races s)
        then Some (ForeignKeyViolation ''participants_race_id_fkey'')
      else (case p_team_id p of
              None \<Rightarrow> None
            | Some t \<Rightarrow> if list_ex (\<lambda>u. t_id u = t) (db_teams s) then None
                        else Some (ForeignKeyViolation ''participants_team_id_fkey'')))"

definition team_violation :: "db \<Rightarrow> team list \<Rightarrow> team \<Rightarrow> sql_error option" where
  "team_violation s others t =
     (if taken team_pk others t then Some (UniqueViolation ''teams_pkey'')
      else if taken team_name_key others t then Some (UniqueViolation ''teams_race_name_uk'')
      else if \<not> list_ex (\<lambda>e. ev_id e = t_event_id t) (db_events s)
        then Some (ForeignKeyViolation ''teams_event_id_fkey'')
      else if \<not> list_ex (\<lambda>r. ra_id r = t_race_id t) (db_races s)
        then Some (ForeignKeyViolation ''teams_race_id_fkey'')
      else None)"

section \<open>Races\<close>

definition race_format_of :: "race_row \<Rightarrow> race_format" where
  "race_format_of r =
     \<lparr>rf_id = ra_id r, rf_event_id = ra_event_id r, rf_name = ra_name r,
      rf_entry_type = rc_entry_type (ra_format r), rf_course_type = rc_course_type (ra_format r),
      rf_team_size = rc_team_size (ra_format r)\<rparr>"

definition list_race_formats :: "string \<Rightarrow> string \<Rightarrow> (string \<Rightarrow> race_format option) query" where
  "list_race_formats tenant event =
     reads (\<lambda>s. fold (\<lambda>r m. m(ra_id r \<mapsto> race_format_of r))
       (select (\<lambda>r. ra_tenant_id r = tenant \<and> ra_event_id r = event) (db_races s)) Map.empty)"

section \<open>Participants\<close>

text \<open>\<open>scanParticipant\<close>: a stored row with the name of its team, which the query looks up.\<close>

definition scan_participant :: "db \<Rightarrow> string \<Rightarrow> participant \<Rightarrow> participant" where
  "scan_participant s tenant p =
     p\<lparr>p_team_name := (case p_team_id p of None \<Rightarrow> None
        | Some t \<Rightarrow> map_option t_name
            (select_one (\<lambda>u. t_id u = t \<and> t_tenant_id u = tenant) (db_teams s)))\<rparr>"

definition insert_participant :: "participant \<Rightarrow> unit query" where
  "insert_participant p =
     and_then (reads (\<lambda>s. participant_violation s (db_participants s) p)) (\<lambda>v.
     and_then (write_check v) (\<lambda>_.
     writes (\<lambda>s. s\<lparr>db_participants := db_participants s @ [p]\<rparr>)))"

definition get_participant :: "string \<Rightarrow> string \<Rightarrow> string \<Rightarrow> participant query" where
  "get_participant tenant event pid =
     and_then (reads (\<lambda>s. map_option (scan_participant s tenant)
       (select_one (\<lambda>p. p_tenant_id p = tenant \<and> p_event_id p = event \<and> p_id p = pid)
         (db_participants s)))) found"

text \<open>The columns an update writes, on the stored row; the trigger sets \<open>updated_at\<close>.\<close>

definition write_registration :: "env \<Rightarrow> participant \<Rightarrow> participant \<Rightarrow> participant" where
  "write_registration en p row =
     row\<lparr>p_race_id := p_race_id p, p_team_id := p_team_id p, p_leg_order := p_leg_order p,
         p_first_name := p_first_name p, p_last_name := p_last_name p, p_bib_name := p_bib_name p,
         p_bib_number := p_bib_number p, p_gender := p_gender p, p_ref_id := p_ref_id p,
         p_email := p_email p, p_club := p_club p, p_ec_name := p_ec_name p,
         p_ec_phone := p_ec_phone p, p_blood_type := p_blood_type p, p_status := p_status p,
         p_updated_at := e_now en\<rparr>"

definition is_row :: "participant \<Rightarrow> participant \<Rightarrow> bool" where
  "is_row p q \<longleftrightarrow> p_tenant_id q = p_tenant_id p \<and> p_event_id q = p_event_id p \<and> p_id q = p_id p"

definition update_participant_row :: "env \<Rightarrow> participant \<Rightarrow> unit query" where
  "update_participant_row en p =
     and_then (reads (\<lambda>s. select (is_row p) (db_participants s))) (\<lambda>hit.
     and_then (reads (\<lambda>s. case hit of [] \<Rightarrow> None
        | row # _ \<Rightarrow> participant_violation s (delete_where (is_row p) (db_participants s))
             (write_registration en p row))) (\<lambda>v.
     and_then (write_check v) (\<lambda>_.
     and_then (writes (\<lambda>s. s\<lparr>db_participants :=
        update_where (is_row p) (write_registration en p) (db_participants s)\<rparr>)) (\<lambda>_.
     check_rows (length hit)))))"

text \<open>The rows a cursor selects, in BIB order, before the limit.\<close>

definition participants_after ::
  "db \<times> string \<times> string \<times> list_filter \<Rightarrow> string \<Rightarrow> participant list" where
  "participants_after q cursor = (case q of (s, tenant, event, f) \<Rightarrow>
     map (scan_participant s tenant) (sort_key p_bib_number (select (\<lambda>p.
       clause_holds (list_filter_where f tenant event) p \<and>
       (case decode_bib_cursor cursor of None \<Rightarrow> True | Some b \<Rightarrow> b < p_bib_number p))
       (db_participants s))))"

definition list_participants ::
  "string \<Rightarrow> string \<Rightarrow> list_filter \<Rightarrow> page_params \<Rightarrow> participant page query" where
  "list_participants tenant event f pg =
     (let limit = normalize_limit pg in
      and_then (reads (\<lambda>s. take (limit + 1) (participants_after (s, tenant, event, f) (pg_cursor pg))))
        (\<lambda>out. ret (cut_page limit (\<lambda>p. encode_bib_cursor (p_bib_number p)) out)))"

definition participants_matching :: "string \<Rightarrow> clause \<Rightarrow> participant list query" where
  "participants_matching tenant cl =
     reads (\<lambda>s. map (scan_participant s tenant)
       (sort_key p_bib_number (select (clause_holds cl) (db_participants s))))"

definition delete_participant_rows :: "clause \<Rightarrow> nat query" where
  "delete_participant_rows cl =
     and_then (reads (\<lambda>s. length (select (clause_holds cl) (db_participants s)))) (\<lambda>n.
     and_then (writes (\<lambda>s. s\<lparr>db_participants := delete_where (clause_holds cl) (db_participants s)\<rparr>))
       (\<lambda>_. ret n))"

definition set_status_rows :: "env \<Rightarrow> clause \<Rightarrow> part_status \<Rightarrow> nat query" where
  "set_status_rows en cl st =
     and_then (reads (\<lambda>s. length (select (clause_holds cl) (db_participants s)))) (\<lambda>n.
     and_then (writes (\<lambda>s. s\<lparr>db_participants := update_where (clause_holds cl)
        (\<lambda>p. p\<lparr>p_status := st, p_updated_at := e_now en\<rparr>) (db_participants s)\<rparr>)) (\<lambda>_. ret n))"

section \<open>Summary\<close>

record summary_count =
  sc_race_id :: string
  sc_status :: part_status
  sc_gender :: string
  sc_count :: nat

definition summary_counts :: "string \<Rightarrow> string \<Rightarrow> string \<Rightarrow> summary_count list query" where
  "summary_counts tenant event race =
     reads (\<lambda>s.
       let rows = select (clause_holds (list_filter_where (no_filter\<lparr>lf_race_id := race\<rparr>) tenant event))
                    (db_participants s);
           key = (\<lambda>p. (p_race_id p, p_status p, p_gender p))
       in map (\<lambda>(r, st, g). \<lparr>sc_race_id = r, sc_status = st, sc_gender = g,
             sc_count = length (filter (\<lambda>p. key p = (r, st, g)) rows)\<rparr>)
            (remdups (map key rows)))"

definition team_counts :: "string \<Rightarrow> string \<Rightarrow> (string \<Rightarrow> nat option) query" where
  "team_counts tenant event =
     reads (\<lambda>s.
       let rows = select (\<lambda>t. t_tenant_id t = tenant \<and> t_event_id t = event) (db_teams s)
       in map_of (map (\<lambda>r. (r, length (filter (\<lambda>t. t_race_id t = r) rows))) (remdups (map t_race_id rows))))"

definition list_clubs :: "string \<Rightarrow> string \<Rightarrow> string \<Rightarrow> string list query" where
  "list_clubs tenant event race =
     reads (\<lambda>s. sort (remdups (concat (map (\<lambda>p. case p_club p of None \<Rightarrow> [] | Some c \<Rightarrow> [c])
       (select (clause_holds (list_filter_where (no_filter\<lparr>lf_race_id := race\<rparr>) tenant event))
         (db_participants s))))))"

section \<open>Teams\<close>

definition insert_team :: "team \<Rightarrow> unit query" where
  "insert_team t =
     and_then (reads (\<lambda>s. team_violation s (db_teams s) t)) (\<lambda>v.
     and_then (write_check v) (\<lambda>_.
     writes (\<lambda>s. s\<lparr>db_teams := db_teams s @ [t]\<rparr>)))"

definition is_team_row :: "string \<Rightarrow> string \<Rightarrow> string \<Rightarrow> team \<Rightarrow> bool" where
  "is_team_row tenant event tid t \<longleftrightarrow> t_tenant_id t = tenant \<and> t_event_id t = event \<and> t_id t = tid"

definition get_team :: "string \<Rightarrow> string \<Rightarrow> string \<Rightarrow> team query" where
  "get_team tenant event tid =
     and_then (reads (\<lambda>s. select_one (is_team_row tenant event tid) (db_teams s))) found"

definition update_team_row :: "env \<Rightarrow> team \<Rightarrow> unit query" where
  "update_team_row en t =
     (let here = is_team_row (t_tenant_id t) (t_event_id t) (t_id t);
          wr = (\<lambda>row. row\<lparr>t_name := t_name t, t_gender_category := t_gender_category t,
                        t_updated_at := e_now en\<rparr>)
      in and_then (reads (\<lambda>s. select here (db_teams s))) (\<lambda>hit.
         and_then (reads (\<lambda>s. case hit of [] \<Rightarrow> None
            | row # _ \<Rightarrow> team_violation s (delete_where here (db_teams s)) (wr row))) (\<lambda>v.
         and_then (write_check v) (\<lambda>_.
         and_then (writes (\<lambda>s. s\<lparr>db_teams := update_where here wr (db_teams s)\<rparr>)) (\<lambda>_.
         check_rows (length hit))))))"

definition detach_team_members :: "env \<Rightarrow> string \<Rightarrow> string \<Rightarrow> unit query" where
  "detach_team_members en tenant tid =
     writes (\<lambda>s. s\<lparr>db_participants := update_where
       (\<lambda>p. p_tenant_id p = tenant \<and> p_team_id p = Some tid)
       (\<lambda>p. p\<lparr>p_team_id := None, p_leg_order := None, p_updated_at := e_now en\<rparr>) (db_participants s)\<rparr>)"

text \<open>Deleting a team deletes its participants: \<open>participants.team_id ... ON DELETE CASCADE\<close>.\<close>

definition delete_team_row :: "string \<Rightarrow> string \<Rightarrow> string \<Rightarrow> unit query" where
  "delete_team_row tenant event tid =
     and_then (reads (\<lambda>s. select (is_team_row tenant event tid) (db_teams s))) (\<lambda>hit.
     and_then (writes (\<lambda>s. s\<lparr>db_teams := delete_where (is_team_row tenant event tid) (db_teams s),
        db_participants := delete_where (\<lambda>p. list_ex (\<lambda>t. p_team_id p = Some (t_id t)) hit)
          (db_participants s)\<rparr>)) (\<lambda>_.
     check_rows (length hit)))"

record team_member =
  tm_id :: string
  tm_team_id :: string
  tm_bib_number :: int
  tm_first_name :: string
  tm_last_name :: "string option"
  tm_leg_order :: "int option"
  tm_gender :: gender

definition team_member_of :: "participant \<Rightarrow> team_member" where
  "team_member_of p =
     \<lparr>tm_id = p_id p, tm_team_id = (case p_team_id p of None \<Rightarrow> '''' | Some t \<Rightarrow> t),
      tm_bib_number = p_bib_number p, tm_first_name = p_first_name p, tm_last_name = p_last_name p,
      tm_leg_order = p_leg_order p, tm_gender = p_gender p\<rparr>"

text \<open>\<open>ORDER BY leg_order NULLS LAST, bib_number\<close>\<close>

definition leg_bib_order :: "participant \<Rightarrow> bool \<times> int \<times> int" where
  "leg_bib_order p = (case p_leg_order p of None \<Rightarrow> (True, 0, p_bib_number p)
     | Some l \<Rightarrow> (False, l, p_bib_number p))"

definition list_team_members :: "string \<Rightarrow> string list \<Rightarrow> team_member list query" where
  "list_team_members tenant tids =
     (if tids = [] then ret []
      else reads (\<lambda>s. map team_member_of (sort_key leg_bib_order (select (\<lambda>p. p_tenant_id p = tenant \<and>
         (case p_team_id p of None \<Rightarrow> False | Some t \<Rightarrow> t \<in> set tids)) (db_participants s)))))"

section \<open>Import support\<close>

definition existing_of :: "participant \<Rightarrow> existing_participant" where
  "existing_of p =
     \<lparr>ep_id = p_id p, ep_race_id = p_race_id p, ep_bib_number = p_bib_number p, ep_ref_id = p_ref_id p,
      ep_team_id = p_team_id p, ep_leg_order = p_leg_order p, ep_gender = p_gender p\<rparr>"

definition find_for_import ::
  "string \<Rightarrow> string \<Rightarrow> int list \<Rightarrow> string list \<Rightarrow> existing_participant list query" where
  "find_for_import tenant event bibs refs =
     reads (\<lambda>s. map existing_of (select (\<lambda>p. p_tenant_id p = tenant \<and> p_event_id p = event \<and>
       (p_bib_number p \<in> set bibs \<or> (case p_ref_id p of None \<Rightarrow> False | Some r \<Rightarrow> r \<in> set refs)))
       (db_participants s)))"

text \<open>The members as the planner sees them: race and reference id are left zero.\<close>

definition existing_of_member :: "team_member \<Rightarrow> existing_participant" where
  "existing_of_member m =
     \<lparr>ep_id = tm_id m, ep_race_id = '''', ep_bib_number = tm_bib_number m, ep_ref_id = None,
      ep_team_id = Some (tm_team_id m), ep_leg_order = tm_leg_order m, ep_gender = tm_gender m\<rparr>"

definition list_all_teams :: "string \<Rightarrow> string \<Rightarrow> existing_team list query" where
  "list_all_teams tenant event =
     and_then (reads (\<lambda>s. select (\<lambda>t. t_tenant_id t = tenant \<and> t_event_id t = event) (db_teams s))) (\<lambda>ts.
     and_then (list_team_members tenant (map t_id ts)) (\<lambda>ms.
     ret (map (\<lambda>t. \<lparr>et_id = t_id t, et_race_id = t_race_id t, et_name = t_name t,
         et_category = t_gender_category t,
         et_members = map existing_of_member (filter (\<lambda>m. tm_team_id m = t_id t) ms)\<rparr>) ts)))"

end
