(* ===== verification/Participant_Service.thy ===== *)
theory Participant_Service
  imports Participant_Repo
begin

text \<open>
  \<open>internal/participant/service.go\<close> and \<open>print.go\<close>: the participant and team use cases, each
  one transaction of repository statements with the role check in front.
\<close>

section \<open>Shared steps\<close>

definition audit_event :: "env \<Rightarrow> nat \<Rightarrow> string \<Rightarrow> string \<Rightarrow> string \<Rightarrow> (string \<times> meta) list \<Rightarrow> unit query" where
  "audit_event en k tenant actor action md = record_audit en k (Some tenant) (Some actor) action md"

definition race_of :: "string \<Rightarrow> string \<Rightarrow> string \<Rightarrow> race_format query" where
  "race_of tenant event race =
     and_then (list_race_formats tenant event) (\<lambda>m.
       of_option (FieldError (invalid ''race_id'' ''race_id is not a race of this event.'')) (m race))"

definition field_check :: "field_error option \<Rightarrow> 'a query \<Rightarrow> 'a query" where
  "field_check eo m = on_error (map_option FieldError eo) m"

text \<open>\<open>if err == domain.ErrNotFound { return e }\<close> around a query.\<close>

definition not_found_as :: "go_error \<Rightarrow> ('s, go_error, 'a) act \<Rightarrow> ('s, go_error, 'a) act" where
  "not_found_as e m s = (case m s of
     (Inl e', s') \<Rightarrow> (Inl (if e' = Sentinel ErrNotFound then e else e'), s')
   | (Inr a, s') \<Rightarrow> (Inr a, s'))"

lemma keeps_not_found_as [keeps_intros]: "keeps I m \<Longrightarrow> keeps I (not_found_as e m)"
  unfolding keeps_def not_found_as_def by (fastforce split: prod.splits sum.splits)

definition check_team_join ::
  "string \<Rightarrow> string \<Rightarrow> race_format \<Rightarrow> input \<Rightarrow> string \<Rightarrow> unit query" where
  "check_team_join tenant event race inp exclude =
     (case i_team_id inp of
        None \<Rightarrow> ret ()
      | Some tid \<Rightarrow>
          and_then (not_found_as (FieldError (invalid ''team_id'' ''team_id is not a team of this event.''))
            (get_team tenant event tid)) (\<lambda>team.
          guard (t_race_id team = rf_id race)
            (FieldError (invalid ''team_id'' ''the team belongs to a different race.''))
          (and_then (list_team_members tenant [t_id team]) (\<lambda>members.
           let sz = team_size_or_0 race;
               others = filter (\<lambda>m. tm_id m \<noteq> exclude) members;
               genders = i_gender inp # map tm_gender others;
               cnt = 1 + int (length others)
           in guard (\<not> (i_leg_order inp \<noteq> None \<and> list_ex (\<lambda>m. tm_leg_order m = i_leg_order inp) others))
                (FieldError (conflict ''leg_taken'' ''leg_order''
                  (''leg '' @ itoa (case i_leg_order inp of None \<Rightarrow> 0 | Some l \<Rightarrow> l) @
                   '' is already taken in this team.'')))
              (guard (\<not> (sz > 0 \<and> cnt > sz))
                (FieldError (conflict ''team_full'' ''team_id''
                  (''this team already has '' @ itoa sz @ '' members.'')))
              (field_check (fst (check_team_composition (t_gender_category team) sz genders))
                (ret ())))))))"

section \<open>Participants\<close>

definition new_participant ::
  "env \<Rightarrow> string \<Rightarrow> string \<Rightarrow> string \<Rightarrow> string \<Rightarrow> input \<Rightarrow> participant" where
  "new_participant en pid tenant event race inp =
     \<lparr>p_id = pid, p_tenant_id = tenant, p_event_id = event, p_race_id = race,
      p_team_id = i_team_id inp, p_leg_order = i_leg_order inp, p_team_name = None,
      p_first_name = i_first_name inp, p_last_name = i_last_name inp, p_bib_name = i_bib_name inp,
      p_bib_number = i_bib_number inp, p_gender = i_gender inp, p_ref_id = i_ref_id inp,
      p_email = i_email inp, p_club = i_club inp, p_ec_name = i_ec_name inp,
      p_ec_phone = i_ec_phone inp, p_blood_type = i_blood_type inp, p_status = i_status inp,
      p_gun_time_ms = None, p_net_time_ms = None, p_total_laps = None, p_overall_rank = None,
      p_category_rank = None, p_created_at = e_now en, p_updated_at = e_now en\<rparr>"

definition bad_blood_type :: "string \<Rightarrow> go_error" where
  "bad_blood_type bad =
     FieldError (invalid ''blood_type'' (''blood_type '' @ go_quote bad @ '' is not recognised.''))"

definition create_participant ::
  "env \<Rightarrow> string \<Rightarrow> string \<Rightarrow> string \<Rightarrow> member_role \<Rightarrow> string \<Rightarrow> input \<Rightarrow> participant query" where
  "create_participant en tenant event actor role race_id inp0 =
     on_error (require_role role RoleStaff)
     (case normalize inp0 of (inp, bad) \<Rightarrow>
      guard (bad = '''') (bad_blood_type bad)
      (with_tenant_tx tenant
        (and_then (race_of tenant event race_id) (\<lambda>race.
         field_check (validate inp race)
         (and_then (check_team_join tenant event race inp '''') (\<lambda>_.
          let p = new_participant en (e_uuid en 0) tenant event race_id inp in
          and_then (insert_participant p) (\<lambda>_.
          and_then (audit_event en 1 tenant actor ''participant.created''
            [(''participant_id'', MetaText (p_id p)), (''event_id'', MetaText event),
             (''bib_number'', MetaInt (p_bib_number p))]) (\<lambda>_.
          ret p))))))))"

definition get_participant_call :: "string \<Rightarrow> string \<Rightarrow> string \<Rightarrow> participant query" where
  "get_participant_call tenant event pid = with_tenant_tx tenant (get_participant tenant event pid)"

definition list_participants_call ::
  "string \<Rightarrow> string \<Rightarrow> list_filter \<Rightarrow> page_params \<Rightarrow> participant page query" where
  "list_participants_call tenant event f pg = with_tenant_tx tenant (list_participants tenant event f pg)"

record patch =
  pa_race_id :: "string option"
  pa_first_name :: "string option"
  pa_last_name :: "string option"
  pa_bib_name :: "string option"
  pa_bib_number :: "int option"
  pa_gender :: "gender option"
  pa_ref_id :: "string option"
  pa_email :: "string option"
  pa_club :: "string option"
  pa_ec_name :: "string option"
  pa_ec_phone :: "string option"
  pa_blood_type :: "string option"
  pa_status :: "part_status option"
  pa_team_id :: "string option"
  pa_leg_order :: "int option"

definition or_keep :: "'a option \<Rightarrow> 'a \<Rightarrow> 'a" where
  "or_keep x old = (case x of None \<Rightarrow> old | Some v \<Rightarrow> v)"

definition or_keep_opt :: "'a option \<Rightarrow> 'a option \<Rightarrow> 'a option" where
  "or_keep_opt x old = (case x of None \<Rightarrow> old | Some v \<Rightarrow> Some v)"

definition input_of :: "participant \<Rightarrow> input" where
  "input_of p =
     \<lparr>i_first_name = p_first_name p, i_last_name = p_last_name p, i_bib_name = p_bib_name p,
      i_bib_number = p_bib_number p, i_gender = p_gender p, i_ref_id = p_ref_id p,
      i_email = p_email p, i_club = p_club p, i_ec_name = p_ec_name p, i_ec_phone = p_ec_phone p,
      i_blood_type = p_blood_type p, i_status = p_status p, i_team_id = p_team_id p,
      i_leg_order = p_leg_order p\<rparr>"

text \<open>The race and the input an update leaves after merging its patch, before normalising.\<close>

definition apply_patch :: "patch \<Rightarrow> participant \<Rightarrow> string \<times> input" where
  "apply_patch pa p =
     (let moved = (case pa_race_id pa of None \<Rightarrow> False | Some r \<Rightarrow> r \<noteq> p_race_id p);
          race = (if moved then or_keep (pa_race_id pa) (p_race_id p) else p_race_id p);
          in0 = (if moved then (input_of p)\<lparr>i_team_id := None, i_leg_order := None\<rparr> else input_of p)
      in (race, in0\<lparr>
           i_first_name := or_keep (pa_first_name pa) (i_first_name in0),
           i_last_name := or_keep_opt (pa_last_name pa) (i_last_name in0),
           i_bib_name := or_keep_opt (pa_bib_name pa) (i_bib_name in0),
           i_bib_number := or_keep (pa_bib_number pa) (i_bib_number in0),
           i_gender := or_keep (pa_gender pa) (i_gender in0),
           i_ref_id := or_keep_opt (pa_ref_id pa) (i_ref_id in0),
           i_email := or_keep_opt (pa_email pa) (i_email in0),
           i_club := or_keep_opt (pa_club pa) (i_club in0),
           i_ec_name := or_keep_opt (pa_ec_name pa) (i_ec_name in0),
           i_ec_phone := or_keep_opt (pa_ec_phone pa) (i_ec_phone in0),
           i_blood_type := or_keep_opt (pa_blood_type pa) (i_blood_type in0),
           i_status := or_keep (pa_status pa) (i_status in0),
           i_team_id := or_keep_opt (pa_team_id pa) (i_team_id in0),
           i_leg_order := (case pa_leg_order pa of None \<Rightarrow> i_leg_order in0
              | Some l \<Rightarrow> if l = 0 then None else Some l)\<rparr>))"

text \<open>The in-memory row after an update: every writable field replaced.\<close>

definition with_input :: "string \<Rightarrow> input \<Rightarrow> participant \<Rightarrow> participant" where
  "with_input race inp p =
     p\<lparr>p_race_id := race, p_team_id := i_team_id inp, p_leg_order := i_leg_order inp,
       p_first_name := i_first_name inp, p_last_name := i_last_name inp, p_bib_name := i_bib_name inp,
       p_bib_number := i_bib_number inp, p_gender := i_gender inp, p_ref_id := i_ref_id inp,
       p_email := i_email inp, p_club := i_club inp, p_ec_name := i_ec_name inp,
       p_ec_phone := i_ec_phone inp, p_blood_type := i_blood_type inp, p_status := i_status inp\<rparr>"

definition update_participant ::
  "env \<Rightarrow> string \<Rightarrow> string \<Rightarrow> string \<Rightarrow> member_role \<Rightarrow> string \<Rightarrow> patch \<Rightarrow> participant query" where
  "update_participant en tenant event actor role pid pa =
     on_error (require_role role RoleStaff)
     (with_tenant_tx tenant
       (and_then (get_participant tenant event pid) (\<lambda>p.
        case apply_patch pa p of (race_id, inp0) \<Rightarrow>
        case normalize inp0 of (inp, bad) \<Rightarrow>
        guard (bad = '''') (bad_blood_type bad)
        (and_then (race_of tenant event race_id) (\<lambda>race.
         let lenient = is_team race \<and> i_team_id inp = None \<and> p_team_id p = None;
             verr = (case validate inp race of None \<Rightarrow> None
               | Some e \<Rightarrow> if lenient \<and> fe_field e = ''team_id'' then None else Some e)
         in field_check verr
            (and_then (check_team_join tenant event race inp (p_id p)) (\<lambda>_.
             let p' = with_input race_id inp p in
             and_then (update_participant_row en p') (\<lambda>_.
             and_then (audit_event en 0 tenant actor ''participant.updated''
               [(''participant_id'', MetaText (p_id p)), (''event_id'', MetaText event)]) (\<lambda>_.
             ret p'))))))))) "

record selection =
  sl_ids :: "string list"
  sl_filter :: "list_filter option"

text \<open>\<open>Selection.clause\<close>: exactly one of ids and filter.\<close>

definition selection_clause :: "selection \<Rightarrow> string \<Rightarrow> string \<Rightarrow> go_error + clause" where
  "selection_clause sel tenant event =
     (case sl_filter sel of
        None \<Rightarrow> (if sl_ids sel \<noteq> []
           then Inr (ids_clause (sl_ids sel) (list_filter_where no_filter tenant event))
           else Inl (FieldError (invalid ''selection'' ''give either ids or filter.'')))
      | Some f \<Rightarrow> (if sl_ids sel = [] then Inr (list_filter_where f tenant event)
           else Inl (FieldError (invalid ''selection'' ''give either ids or filter.''))))"

definition with_clause :: "selection \<Rightarrow> string \<Rightarrow> string \<Rightarrow> (clause \<Rightarrow> 'a query) \<Rightarrow> 'a query" where
  "with_clause sel tenant event k =
     (case selection_clause sel tenant event of Inl e \<Rightarrow> fail e | Inr cl \<Rightarrow> k cl)"

definition delete_participants ::
  "env \<Rightarrow> string \<Rightarrow> string \<Rightarrow> string \<Rightarrow> member_role \<Rightarrow> selection \<Rightarrow> nat query" where
  "delete_participants en tenant event actor role sel =
     on_error (require_role role RoleAdmin)
     (with_clause sel tenant event (\<lambda>cl.
      with_tenant_tx tenant
        (and_then (delete_participant_rows cl) (\<lambda>n.
         and_then (audit_event en 0 tenant actor ''participant.deleted''
           [(''event_id'', MetaText event), (''count'', MetaInt (int n))]) (\<lambda>_.
         ret n)))))"

definition set_status ::
  "env \<Rightarrow> string \<Rightarrow> string \<Rightarrow> string \<Rightarrow> member_role \<Rightarrow> selection \<Rightarrow> part_status \<Rightarrow> nat query" where
  "set_status en tenant event actor role sel st =
     on_error (require_role role RoleStaff)
     (guard (st = StatusRegistered \<or> st = StatusDNS)
        (FieldError (invalid ''status'' ''status must be registered or dns.''))
     (with_clause sel tenant event (\<lambda>cl.
      with_tenant_tx tenant
        (and_then (set_status_rows en cl st) (\<lambda>n.
         and_then (audit_event en 0 tenant actor ''participant.updated''
           [(''event_id'', MetaText event), (''count'', MetaInt (int n)), (''status'', MetaText st)]) (\<lambda>_.
         ret n))))))"

section \<open>Summary, export and print\<close>

record summary =
  su_total :: nat
  su_by_status :: "string \<Rightarrow> nat"
  su_by_gender :: "string \<Rightarrow> nat"
  su_by_race :: "string \<Rightarrow> nat"
  su_teams_by_race :: "string \<Rightarrow> nat option"
  su_clubs :: "string list"

text \<open>A Go map read of a missing key is zero, so the counters are total functions.\<close>

definition add_count :: "summary_count \<Rightarrow> summary \<Rightarrow> summary" where
  "add_count c su =
     su\<lparr>su_total := su_total su + sc_count c,
        su_by_status := (su_by_status su)(sc_status c := su_by_status su (sc_status c) + sc_count c),
        su_by_race := (su_by_race su)(sc_race_id c := su_by_race su (sc_race_id c) + sc_count c),
        su_by_gender := (if sc_gender c \<noteq> ''''
          then (su_by_gender su)(sc_gender c := su_by_gender su (sc_gender c) + sc_count c)
          else su_by_gender su)\<rparr>"

definition empty_summary :: summary where
  "empty_summary = \<lparr>su_total = 0, su_by_status = (\<lambda>_. 0), su_by_gender = (\<lambda>_. 0), su_by_race = (\<lambda>_. 0),
     su_teams_by_race = Map.empty, su_clubs = []\<rparr>"

definition summary_call :: "string \<Rightarrow> string \<Rightarrow> string \<Rightarrow> summary query" where
  "summary_call tenant event race =
     with_tenant_tx tenant
       (and_then (summary_counts tenant event race) (\<lambda>counts.
        and_then (team_counts tenant event) (\<lambda>tc.
        and_then (list_clubs tenant event race) (\<lambda>clubs.
        ret ((fold add_count counts empty_summary)\<lparr>su_teams_by_race := tc, su_clubs := clubs\<rparr>)))))"

text \<open>\<open>Export\<close> hands each row to a callback; here the rows it hands over are the result.\<close>

definition export_participants ::
  "env \<Rightarrow> string \<Rightarrow> string \<Rightarrow> string \<Rightarrow> member_role \<Rightarrow> list_filter \<Rightarrow>
     (participant \<times> string \<times> string) list query" where
  "export_participants en tenant event actor role f =
     on_error (require_role role RoleStaff)
     (with_tenant_tx tenant
       (and_then (audit_event en 0 tenant actor ''participant.exported'' [(''event_id'', MetaText event)]) (\<lambda>_.
        and_then (list_race_formats tenant event) (\<lambda>races.
        and_then (list_all_teams tenant event) (\<lambda>teams.
        let team_names = fold (\<lambda>t m. m(et_id t \<mapsto> et_name t)) teams Map.empty in
        and_then (participants_matching tenant (list_filter_where f tenant event)) (\<lambda>ps.
        ret (map (\<lambda>p. (p,
            (case races (p_race_id p) of None \<Rightarrow> '''' | Some r \<Rightarrow> rf_name r),
            (case p_team_id p of None \<Rightarrow> ''''
             | Some t \<Rightarrow> (case team_names t of None \<Rightarrow> '''' | Some n \<Rightarrow> n)))) ps)))))))"

record print_row =
  pr_participant :: participant
  pr_race_name :: string
  pr_team_name :: string
  pr_team_category :: gender_category

definition team_labels :: "string \<Rightarrow> string \<Rightarrow> (string \<Rightarrow> (string \<times> gender_category) option) query" where
  "team_labels tenant event =
     reads (\<lambda>s. fold (\<lambda>t m. m(t_id t \<mapsto> (t_name t, t_gender_category t)))
       (select (\<lambda>t. t_tenant_id t = tenant \<and> t_event_id t = event) (db_teams s)) Map.empty)"

definition print_rows :: "string \<Rightarrow> string \<Rightarrow> string list \<Rightarrow> print_row list query" where
  "print_rows tenant event ids =
     with_tenant_tx tenant
       (and_then (list_race_formats tenant event) (\<lambda>races.
        and_then (team_labels tenant event) (\<lambda>labels.
        and_then (participants_matching tenant (ids_clause ids (list_filter_where no_filter tenant event)))
          (\<lambda>ps. ret (map (\<lambda>p.
             let lab = (case p_team_id p of None \<Rightarrow> ('''', '''')
                  | Some t \<Rightarrow> (case labels t of None \<Rightarrow> ('''', '''') | Some l \<Rightarrow> l))
             in \<lparr>pr_participant = p,
                 pr_race_name = (case races (p_race_id p) of None \<Rightarrow> '''' | Some r \<Rightarrow> rf_name r),
                 pr_team_name = fst lab, pr_team_category = snd lab\<rparr>) ps)))))"

section \<open>Teams\<close>

definition create_team ::
  "env \<Rightarrow> string \<Rightarrow> string \<Rightarrow> string \<Rightarrow> member_role \<Rightarrow> string \<Rightarrow> string \<Rightarrow> gender_category \<Rightarrow> team query" where
  "create_team en tenant event actor role race_id name category =
     on_error (require_role role RoleStaff)
     (with_tenant_tx tenant
       (and_then (race_of tenant event race_id) (\<lambda>race.
        field_check (validate_team name category race)
        (let t = \<lparr>t_id = e_uuid en 0, t_tenant_id = tenant, t_event_id = event, t_race_id = race_id,
                  t_name = trim_space name, t_gender_category = category, t_status = StatusRegistered,
                  t_gun_time_ms = None, t_net_time_ms = None, t_total_laps = None,
                  t_overall_rank = None, t_category_rank = None,
                  t_created_at = e_now en, t_updated_at = e_now en\<rparr>
         in and_then (insert_team t) (\<lambda>_.
            and_then (audit_event en 1 tenant actor ''team.created''
              [(''team_id'', MetaText (t_id t)), (''event_id'', MetaText event),
               (''name'', MetaText (t_name t))]) (\<lambda>_.
            ret t))))))"

definition update_team ::
  "env \<Rightarrow> string \<Rightarrow> string \<Rightarrow> string \<Rightarrow> member_role \<Rightarrow> string \<Rightarrow> string option \<Rightarrow>
     gender_category option \<Rightarrow> team query" where
  "update_team en tenant event actor role tid name category =
     on_error (require_role role RoleStaff)
     (with_tenant_tx tenant
       (and_then (get_team tenant event tid) (\<lambda>t0.
        let t1 = t0\<lparr>t_name := or_keep name (t_name t0),
                    t_gender_category := or_keep category (t_gender_category t0)\<rparr> in
        and_then (race_of tenant event (t_race_id t1)) (\<lambda>race.
        field_check (validate_team (t_name t1) (t_gender_category t1) race)
        (let t = t1\<lparr>t_name := trim_space (t_name t1)\<rparr> in
         and_then
           (if category = None then ret ()
            else and_then (list_team_members tenant [t_id t]) (\<lambda>members.
              field_check (fst (check_team_composition (t_gender_category t) (team_size_or_0 race)
                (map tm_gender members))) (ret ()))) (\<lambda>_.
         and_then (update_team_row en t) (\<lambda>_.
         and_then (audit_event en 0 tenant actor ''team.updated''
           [(''team_id'', MetaText (t_id t)), (''event_id'', MetaText event)]) (\<lambda>_.
         ret t))))))))"

definition delete_team ::
  "env \<Rightarrow> string \<Rightarrow> string \<Rightarrow> string \<Rightarrow> member_role \<Rightarrow> string \<Rightarrow> bool \<Rightarrow> unit query" where
  "delete_team en tenant event actor role tid with_members =
     on_error (require_role role RoleAdmin)
     (with_tenant_tx tenant
       (and_then (get_team tenant event tid) (\<lambda>_.
        and_then (if with_members then ret () else detach_team_members en tenant tid) (\<lambda>_.
        and_then (delete_team_row tenant event tid) (\<lambda>_.
        audit_event en 0 tenant actor ''team.deleted''
          [(''team_id'', MetaText tid), (''event_id'', MetaText event),
           (''with_members'', MetaBool with_members)])))))"

text \<open>The team listing: its filter, its order (name, id) and the members of the page's teams.\<close>

record team_filter =
  tf_race_id :: string
  tf_gender_category :: gender_category
  tf_query :: string

definition member_matches :: "string \<Rightarrow> participant \<Rightarrow> bool" where
  "member_matches q p \<longleftrightarrow>
     like (''%'' @ escape_like (to_lower q) @ ''%'') (full_name p) \<or>
     like (''%'' @ escape_like (to_lower q) @ ''%'') (to_lower (or_empty (p_bib_name p))) \<or>
     (is_digits q \<and> itoa (p_bib_number p) = q)"

definition team_filter_holds :: "team_filter \<Rightarrow> string \<Rightarrow> string \<Rightarrow> db \<Rightarrow> team \<Rightarrow> bool" where
  "team_filter_holds f tenant event s t \<longleftrightarrow>
     t_tenant_id t = tenant \<and> t_event_id t = event \<and>
     (tf_race_id f = '''' \<or> t_race_id t = tf_race_id f) \<and>
     (tf_gender_category f = '''' \<or> t_gender_category t = tf_gender_category f) \<and>
     (let q = trim_space (tf_query f) in
      q = '''' \<or> like (''%'' @ escape_like (to_lower q) @ ''%'') (to_lower (t_name t)) \<or>
      list_ex (\<lambda>p. p_tenant_id p = tenant \<and> p_team_id p = Some (t_id t) \<and> member_matches q p)
        (db_participants s))"

definition teams_after :: "db \<times> string \<times> string \<times> team_filter \<Rightarrow> string \<Rightarrow> team list" where
  "teams_after q cursor = (case q of (s, tenant, event, f) \<Rightarrow>
     sort_key (\<lambda>t. (t_name t, t_id t)) (select (\<lambda>t. team_filter_holds f tenant event s t \<and>
       (case decode_team_cursor cursor of None \<Rightarrow> True | Some k \<Rightarrow> k < (t_name t, t_id t)))
       (db_teams s)))"

definition list_teams ::
  "string \<Rightarrow> string \<Rightarrow> team_filter \<Rightarrow> page_params \<Rightarrow> team page query" where
  "list_teams tenant event f pg =
     (let limit = normalize_limit pg in
      and_then (reads (\<lambda>s. take (limit + 1) (teams_after (s, tenant, event, f) (pg_cursor pg))))
        (\<lambda>out. ret (cut_page limit (\<lambda>t. encode_team_cursor (t_name t) (t_id t)) out)))"

definition list_teams_call ::
  "string \<Rightarrow> string \<Rightarrow> team_filter \<Rightarrow> page_params \<Rightarrow> (team \<times> team_member list) page query" where
  "list_teams_call tenant event f pg =
     with_tenant_tx tenant
       (and_then (list_teams tenant event f pg) (\<lambda>pgs.
        and_then (list_team_members tenant (map t_id (pg_items pgs))) (\<lambda>members.
        ret \<lparr>pg_items = map (\<lambda>t. (t, filter (\<lambda>m. tm_team_id m = t_id t) members)) (pg_items pgs),
             pg_next_cursor = pg_next_cursor pgs\<rparr>)))"

end
