(* ===== verification/Import_Service.thy ===== *)
theory Import_Service
  imports Participant_Service
begin

text \<open>
  \<open>internal/participant/import_service.go\<close>: normalising the rows of a request, planning them
  against the event's current data and applying the plan in one transaction.
\<close>

abbreviation MaxImportRows :: nat where "MaxImportRows \<equiv> 5000"

record import_request =
  iq_default_race_id :: string
  iq_update_existing :: bool
  iq_dry_run :: bool
  iq_rows :: "import_row list"

record import_result =
  is_dry_run :: bool
  is_plan :: plan
  is_created :: nat
  is_updated :: nat
  is_skipped :: nat
  is_errors :: nat
  is_new_teams :: nat

definition prepare_row :: "string \<Rightarrow> import_row \<Rightarrow> import_row" where
  "prepare_row default_race r =
     (case normalize (ir_input r) of (inp, bad) \<Rightarrow>
        r\<lparr>ir_race_id := (if ir_race_id r = '''' then default_race else ir_race_id r),
          ir_input := inp, ir_bad_blood_type := bad\<rparr>)"

definition row_bibs :: "import_row list \<Rightarrow> int list" where
  "row_bibs rows = filter (\<lambda>b. b > 0) (map (\<lambda>r. i_bib_number (ir_input r)) rows)"

definition row_refs :: "import_row list \<Rightarrow> string list" where
  "row_refs rows = concat (map (\<lambda>r. case i_ref_id (ir_input r) of None \<Rightarrow> [] | Some x \<Rightarrow> [x]) rows)"

section \<open>Applying a plan\<close>

text \<open>
  Identifiers are drawn in the order of the code: 0 for the audit entry that opens the import, then
  one per new team, then one per row (only created rows use theirs), then the closing audit entry.
\<close>

definition planned_team_row :: "env \<Rightarrow> nat \<Rightarrow> string \<Rightarrow> string \<Rightarrow> planned_team \<Rightarrow> team" where
  "planned_team_row en k tenant event pt =
     \<lparr>t_id = e_uuid en k, t_tenant_id = tenant, t_event_id = event, t_race_id = pt_race_id pt,
      t_name = pt_name pt, t_gender_category = pt_category pt, t_status = StatusRegistered,
      t_gun_time_ms = None, t_net_time_ms = None, t_total_laps = None, t_overall_rank = None,
      t_category_rank = None, t_created_at = e_now en, t_updated_at = e_now en\<rparr>"

fun create_teams ::
  "env \<Rightarrow> nat \<Rightarrow> string \<Rightarrow> string \<Rightarrow> planned_team list \<Rightarrow> (string \<Rightarrow> string option) \<Rightarrow>
     (string \<Rightarrow> string option) query" where
  "create_teams en k tenant event [] m = ret m"
| "create_teams en k tenant event (pt # pts) m =
     and_then (insert_team (planned_team_row en k tenant event pt)) (\<lambda>_.
       create_teams en (Suc k) tenant event pts (m(pt_key pt \<mapsto> e_uuid en k)))"

text \<open>The input of an applied row: its team resolved, its leg dropped outside relays.\<close>

definition resolve_input ::
  "(string \<Rightarrow> race_format option) \<Rightarrow> (string \<Rightarrow> string option) \<Rightarrow> import_row \<Rightarrow> row_plan \<Rightarrow> input" where
  "resolve_input races new_ids row rp =
     (let inp = (ir_input row)\<lparr>i_team_id := (case rp_team rp of
            None \<Rightarrow> None
          | Some tr \<Rightarrow> Some (if tr_existing_id tr = ''''
              then (case new_ids (tr_new_key tr) of None \<Rightarrow> '''' | Some x \<Rightarrow> x)
              else tr_existing_id tr))\<rparr>;
          relay = (case races (ir_race_id row) of None \<Rightarrow> False | Some r \<Rightarrow> is_relay r)
      in if relay then inp else inp\<lparr>i_leg_order := None\<rparr>)"

text \<open>\<open>keep\<close>: a blank cell leaves the stored value alone.\<close>

definition merge_row :: "import_row \<Rightarrow> input \<Rightarrow> participant \<Rightarrow> participant" where
  "merge_row row inp p =
     p\<lparr>p_race_id := ir_race_id row, p_team_id := i_team_id inp, p_leg_order := i_leg_order inp,
       p_first_name := i_first_name inp, p_bib_number := i_bib_number inp, p_gender := i_gender inp,
       p_last_name := or_keep_opt (i_last_name inp) (p_last_name p),
       p_bib_name := or_keep_opt (i_bib_name inp) (p_bib_name p),
       p_ref_id := or_keep_opt (i_ref_id inp) (p_ref_id p),
       p_email := or_keep_opt (i_email inp) (p_email p),
       p_club := or_keep_opt (i_club inp) (p_club p),
       p_ec_name := or_keep_opt (i_ec_name inp) (p_ec_name p),
       p_ec_phone := or_keep_opt (i_ec_phone inp) (p_ec_phone p),
       p_blood_type := or_keep_opt (i_blood_type inp) (p_blood_type p)\<rparr>"

definition apply_row ::
  "env \<Rightarrow> nat \<Rightarrow> string \<Rightarrow> string \<Rightarrow> (string \<Rightarrow> race_format option) \<Rightarrow> (string \<Rightarrow> string option) \<Rightarrow>
     import_row \<Rightarrow> row_plan \<Rightarrow> unit query" where
  "apply_row en k tenant event races new_ids row rp =
     (if \<not> applies rp then ret ()
      else let inp = resolve_input races new_ids row rp in
        if rp_action rp = ActionCreate
        then insert_participant (new_participant en (e_uuid en k) tenant event (ir_race_id row)
               (inp\<lparr>i_status := StatusRegistered\<rparr>))
        else and_then (get_participant tenant event (rp_existing_id rp)) (\<lambda>p.
               update_participant_row en (merge_row row inp p)))"

fun apply_rows ::
  "env \<Rightarrow> nat \<Rightarrow> string \<Rightarrow> string \<Rightarrow> (string \<Rightarrow> race_format option) \<Rightarrow> (string \<Rightarrow> string option) \<Rightarrow>
     (import_row \<times> row_plan) list \<Rightarrow> unit query" where
  "apply_rows en k tenant event races new_ids [] = ret ()"
| "apply_rows en k tenant event races new_ids ((row, rp) # rest) =
     and_then (apply_row en k tenant event races new_ids row rp) (\<lambda>_.
       apply_rows en (Suc k) tenant event races new_ids rest)"

definition apply_plan ::
  "env \<Rightarrow> nat \<Rightarrow> string \<Rightarrow> string \<Rightarrow> import_row list \<Rightarrow> plan \<Rightarrow> (string \<Rightarrow> race_format option) \<Rightarrow> unit query" where
  "apply_plan en k tenant event rows pl races =
     and_then (create_teams en k tenant event (pl_new_teams pl) Map.empty) (\<lambda>new_ids.
       apply_rows en (k + length (pl_new_teams pl)) tenant event races new_ids (zip rows (pl_rows pl)))"

section \<open>The import\<close>

text \<open>The plan of a request against the current data: the read part of the transaction.\<close>

definition plan_request ::
  "string \<Rightarrow> string \<Rightarrow> import_request \<Rightarrow> (plan_input \<times> plan) query" where
  "plan_request tenant event req =
     (let rows = map (prepare_row (iq_default_race_id req)) (iq_rows req) in
      and_then (list_race_formats tenant event) (\<lambda>races.
      and_then (find_for_import tenant event (row_bibs rows) (row_refs rows)) (\<lambda>existing.
      and_then (list_all_teams tenant event) (\<lambda>teams.
      let pin = \<lparr>pi_rows = rows, pi_update_existing = iq_update_existing req, pi_races = races,
                 pi_existing = existing, pi_teams = teams\<rparr>
      in ret (pin, plan_import pin)))))"

definition result_of :: "import_request \<Rightarrow> plan \<Rightarrow> import_result" where
  "result_of req pl = (case plan_counts pl of (c, u, s, e) \<Rightarrow>
     \<lparr>is_dry_run = iq_dry_run req, is_plan = pl, is_created = c, is_updated = u, is_skipped = s,
      is_errors = e, is_new_teams = length (pl_new_teams pl)\<rparr>)"

definition import_participants ::
  "env \<Rightarrow> string \<Rightarrow> string \<Rightarrow> string \<Rightarrow> member_role \<Rightarrow> import_request \<Rightarrow> import_result query" where
  "import_participants en tenant event actor role req =
     on_error (require_role role RoleStaff)
     (guard (iq_rows req \<noteq> []) (FieldError (invalid ''rows'' ''rows is empty.''))
     (guard (\<not> length (iq_rows req) > MaxImportRows)
        (FieldError (invalid ''rows''
          (''at most '' @ itoa (int MaxImportRows) @ '' rows per import; split the file.'')))
     (with_tenant_tx tenant
       (and_then (plan_request tenant event req) (\<lambda>(pin, pl).
        let res = result_of req pl in
        if iq_dry_run req then ret res
        else and_then (audit_event en 0 tenant actor ''participant.import_started''
               [(''event_id'', MetaText event), (''rows'', MetaInt (int (length (pi_rows pin))))]) (\<lambda>_.
             and_then (apply_plan en 1 tenant event (pi_rows pin) pl (pi_races pin)) (\<lambda>_.
             and_then (audit_event en (1 + length (pl_new_teams pl) + length (pi_rows pin)) tenant actor
               ''participant.import_completed''
               [(''event_id'', MetaText event), (''created'', MetaInt (int (is_created res))),
                (''updated'', MetaInt (int (is_updated res))), (''skipped'', MetaInt (int (is_skipped res))),
                (''errors'', MetaInt (int (is_errors res))),
                (''new_teams'', MetaInt (int (is_new_teams res)))]) (\<lambda>_.
             ret res))))))))"

end
