(* ===== verification/Participant_Props.thy ===== *)
theory Participant_Props
  imports Import_Service
begin

text \<open>
  What the participant component keeps: the unique indexes and foreign keys of its two tables
  (\<open>entries_ok\<close>), through every use case and the import, and the atomicity of each use case.
\<close>

section \<open>The invariant of the tables\<close>

definition participant_refs_ok :: "db \<Rightarrow> participant \<Rightarrow> bool" where
  "participant_refs_ok s p \<longleftrightarrow>
     list_ex (\<lambda>e. ev_id e = p_event_id p) (db_events s) \<and>
     list_ex (\<lambda>r. ra_id r = p_race_id p) (db_races s) \<and>
     (case p_team_id p of None \<Rightarrow> True | Some t \<Rightarrow> list_ex (\<lambda>u. t_id u = t) (db_teams s))"

definition team_refs_ok :: "db \<Rightarrow> team \<Rightarrow> bool" where
  "team_refs_ok s t \<longleftrightarrow>
     list_ex (\<lambda>e. ev_id e = t_event_id t) (db_events s) \<and>
     list_ex (\<lambda>r. ra_id r = t_race_id t) (db_races s)"

definition participants_indexed :: "participant list \<Rightarrow> bool" where
  "participants_indexed ps \<longleftrightarrow>
     unique_on part_pk ps \<and> unique_on part_bib_key ps \<and> unique_on part_leg_key ps \<and>
     unique_on part_ref_key ps"

definition teams_indexed :: "team list \<Rightarrow> bool" where
  "teams_indexed ts \<longleftrightarrow> unique_on team_pk ts \<and> unique_on team_name_key ts"

definition entries_ok :: "db \<Rightarrow> bool" where
  "entries_ok s \<longleftrightarrow>
     participants_indexed (db_participants s) \<and> teams_indexed (db_teams s) \<and>
     list_all (participant_refs_ok s) (db_participants s) \<and> list_all (team_refs_ok s) (db_teams s)"

lemma refs_ok_audit [simp]:
  "participant_refs_ok (s\<lparr>db_audit := l\<rparr>) = participant_refs_ok s"
  "participant_refs_ok (s\<lparr>db_participants := ps\<rparr>) = participant_refs_ok s"
  "team_refs_ok (s\<lparr>db_audit := l\<rparr>) = team_refs_ok s"
  "team_refs_ok (s\<lparr>db_participants := ps\<rparr>) = team_refs_ok s"
  "team_refs_ok (s\<lparr>db_teams := ts\<rparr>) = team_refs_ok s"
  by (simp_all add: participant_refs_ok_def team_refs_ok_def fun_eq_iff split: option.splits)

lemma entries_ok_audit [simp]: "entries_ok (s\<lparr>db_audit := l\<rparr>) = entries_ok s"
  by (simp add: entries_ok_def)

section \<open>The statements keep it\<close>

lemma not_taken_fresh: "\<not> taken key others r \<Longrightarrow> key r = None \<or> list_all (\<lambda>q. key q \<noteq> key r) others"
  by (auto simp: taken_def list_ex_iff list_all_iff)

lemma violation_None:
  "participant_violation s others p = None \<Longrightarrow>
     \<not> taken part_pk others p \<and> \<not> taken part_bib_key others p \<and> \<not> taken part_leg_key others p \<and>
     \<not> taken part_ref_key others p \<and> participant_refs_ok s p"
  by (auto simp: participant_violation_def participant_refs_ok_def split: if_splits option.splits)

lemma team_violation_None:
  "team_violation s others t = None \<Longrightarrow>
     \<not> taken team_pk others t \<and> \<not> taken team_name_key others t \<and> team_refs_ok s t"
  by (auto simp: team_violation_def team_refs_ok_def split: if_splits)

lemma write_check_cases:
  "write_check v = (if v = None then ret () else fail (translate_write (the v)))"
  by (simp add: write_check_def split: option.splits)

lemma write_check_InrE [act_elims]:
  assumes "write_check v s = (Inr a, s')"
  obtains "v = None" "s' = s"
  using assms by (cases v) (simp_all add: write_check_def ret_def fail_def)

lemma keeps_write_check [keeps_intros]: "keeps I (write_check v)"
  by (simp add: write_check_cases keeps_intros)

lemma indexed_append:
  assumes "participants_indexed ps" "participant_violation s ps p = None"
  shows "participants_indexed (ps @ [p])"
  using assms violation_None [OF assms(2)]
  by (simp add: participants_indexed_def unique_on_append_one not_taken_fresh)

text \<open>An update of the one row a primary key selects, checked against the other rows.\<close>

lemma unique_on_update_checked:
  assumes "unique_on key t" "unique_on pk t" "\<And>r. p r \<Longrightarrow> pk r = Some k"
    and "row \<in> set t" "p row" "\<not> taken key (delete_where p t) (f row)"
  shows "unique_on key (update_where p f t)"
proof (rule unique_on_update_fresh_key [OF assms(1-3)])
  fix r q assume *: "r \<in> set t" "p r" "q \<in> set t" "\<not> p q" "key (f r) \<noteq> None"
  have "r = row" using unique_on_sel [OF assms(2) *(1) assms(4)] assms(3,5) *(2) by blast
  with *(3-5) assms(6) show "key q \<noteq> key (f r)"
    by (auto simp: taken_def list_ex_iff set_delete_where)
qed simp_all

lemma select_Cons_mem: "select p t = row # rest \<Longrightarrow> row \<in> set t \<and> p row"
  by (metis list.set_intros(1) mem_Collect_eq set_select)

lemma update_none: "select p t = [] \<Longrightarrow> update_where p f t = t"
  by (auto simp: select_def update_where_def filter_empty_conv intro: map_idI)

lemma keeps_insert_participant [keeps_intros]: "keeps entries_ok (insert_participant p)"
proof (rule keepsI)
  fix s r s' assume ok: "entries_ok s" and run: "insert_participant p s = (r, s')"
  show "entries_ok s'"
  proof (cases "participant_violation s (db_participants s) p")
    case None
    with run have "s' = s\<lparr>db_participants := db_participants s @ [p]\<rparr>"
      by (simp add: insert_participant_def act_simps write_check_def)
    with ok None violation_None [OF None] show ?thesis by (simp add: entries_ok_def indexed_append)
  next
    case (Some v)
    with run ok show ?thesis by (auto simp: insert_participant_def act_simps write_check_def)
  qed
qed

lemma keeps_update_participant_row [keeps_intros]: "keeps entries_ok (update_participant_row en p)"
proof (rule keepsI)
  fix s r s' assume ok: "entries_ok s" and run: "update_participant_row en p s = (r, s')"
  let ?ps = "db_participants s" and ?f = "write_registration en p"
  show "entries_ok s'"
  proof (cases "select (is_row p) ?ps")
    case Nil
    with run have "s' = s"
      by (simp add: update_participant_row_def act_simps write_check_def update_none check_rows_def)
    with ok show ?thesis by simp
  next
    case (Cons row rest)
    then have row: "row \<in> set ?ps" "is_row p row" using select_Cons_mem by fast+
    show ?thesis
    proof (cases "participant_violation s (delete_where (is_row p) ?ps) (?f row)")
      case None
      with run Cons have s': "s' = s\<lparr>db_participants := update_where (is_row p) ?f ?ps\<rparr>"
        by (simp add: update_participant_row_def act_simps write_check_def check_rows_def)
      note v = violation_None [OF None]
      have pk: "part_pk q = Some (p_id p)" if "is_row p q" for q
        using that by (simp add: is_row_def part_pk_def)
      have idx: "participants_indexed ?ps" using ok by (simp add: entries_ok_def)
      then have u: "unique_on part_pk ?ps" by (simp add: participants_indexed_def)
      have "participants_indexed (update_where (is_row p) ?f ?ps)"
        using idx v unfolding participants_indexed_def
        by (intro conjI)
          (rule unique_on_update_checked [where pk = part_pk and k = "p_id p" and row = row and p = "is_row p"];
            use u pk row in simp)+
      moreover have "list_all (participant_refs_ok s) (update_where (is_row p) ?f ?ps)"
      proof -
        have "q = row" if "q \<in> set ?ps" "is_row p q" for q
          using unique_on_sel [OF u that(1) row(1) pk [OF that(2)] pk [OF row(2)]] .
        then show ?thesis using ok v by (auto simp: entries_ok_def list_all_iff set_update_where)
      qed
      ultimately show ?thesis using ok by (simp add: s' entries_ok_def)
    next
      case (Some v)
      with run Cons ok show ?thesis
        by (auto simp: update_participant_row_def act_simps write_check_def)
    qed
  qed
qed

lemma indexed_delete: "participants_indexed ps \<Longrightarrow> participants_indexed (delete_where q ps)"
  by (simp add: participants_indexed_def unique_on_delete)

lemma keeps_delete_participant_rows [keeps_intros]: "keeps entries_ok (delete_participant_rows cl)"
proof -
  have "entries_ok (s\<lparr>db_participants := delete_where q (db_participants s)\<rparr>)" if "entries_ok s" for s q
    using that by (auto simp: entries_ok_def indexed_delete list_all_iff set_delete_where)
  then show ?thesis unfolding delete_participant_rows_def by (intro keeps_intros keeps_writes)
qed

text \<open>Updates that leave the indexed columns alone, or clear the team and leg.\<close>

lemma entries_ok_harmless_update:
  assumes "entries_ok s"
    and "\<And>p. p_id (f p) = p_id p" "\<And>p. p_event_id (f p) = p_event_id p"
      "\<And>p. p_race_id (f p) = p_race_id p" "\<And>p. p_bib_number (f p) = p_bib_number p"
      "\<And>p. p_ref_id (f p) = p_ref_id p"
      "\<And>p. (p_team_id (f p) = p_team_id p \<and> p_leg_order (f p) = p_leg_order p) \<or>
        p_team_id (f p) = None"
  shows "entries_ok (s\<lparr>db_participants := update_where q f (db_participants s)\<rparr>)"
proof -
  have k: "part_pk (f p) = part_pk p" "part_bib_key (f p) = part_bib_key p"
    "part_ref_key (f p) = part_ref_key p" "part_leg_key (f p) = None \<or> part_leg_key (f p) = part_leg_key p" for p
  proof -
    show "part_pk (f p) = part_pk p" "part_bib_key (f p) = part_bib_key p"
      "part_ref_key (f p) = part_ref_key p"
      by (simp_all only: part_pk_def part_bib_key_def part_ref_key_def assms(2-6))
    from assms(7) [of p] show "part_leg_key (f p) = None \<or> part_leg_key (f p) = part_leg_key p"
      by (elim disjE conjE) (simp_all add: part_leg_key_def)
  qed
  have "participants_indexed (update_where q f (db_participants s))"
    using assms(1) k unfolding entries_ok_def participants_indexed_def
    by (intro conjI) (rule unique_on_update_clear; simp)+
  moreover have "participant_refs_ok s p \<Longrightarrow> participant_refs_ok s (f p)" for p
    using assms(2-6) assms(7) [of p] by (auto simp: participant_refs_ok_def)
  ultimately show ?thesis
    using assms(1) by (auto simp: entries_ok_def list_all_iff set_update_where)
qed

lemma keeps_set_status_rows [keeps_intros]: "keeps entries_ok (set_status_rows en cl st)"
  unfolding set_status_rows_def by (intro keeps_intros keeps_writes entries_ok_harmless_update) simp_all

lemma keeps_detach [keeps_intros]: "keeps entries_ok (detach_team_members en tenant tid)"
  unfolding detach_team_members_def by (intro keeps_writes entries_ok_harmless_update) simp_all

lemma participant_refs_mono:
  "participant_refs_ok s p \<Longrightarrow> t_id ` set (db_teams s) \<subseteq> t_id ` set ts \<Longrightarrow>
     participant_refs_ok (s\<lparr>db_teams := ts\<rparr>) p"
  by (auto simp: participant_refs_ok_def list_ex_iff image_iff subset_iff split: option.splits) metis

lemma keeps_insert_team [keeps_intros]: "keeps entries_ok (insert_team t)"
proof (rule keepsI)
  fix s r s' assume ok: "entries_ok s" and run: "insert_team t s = (r, s')"
  show "entries_ok s'"
  proof (cases "team_violation s (db_teams s) t")
    case None
    with run have s': "s' = s\<lparr>db_teams := db_teams s @ [t]\<rparr>"
      by (simp add: insert_team_def act_simps write_check_def)
    have "participant_refs_ok s' p" if "participant_refs_ok s p" for p
      unfolding s' using that by (rule participant_refs_mono) auto
    then have "list_all (participant_refs_ok s') (db_participants s)"
      using ok by (simp add: entries_ok_def list_all_iff)
    moreover have "teams_indexed (db_teams s @ [t])"
      using ok team_violation_None [OF None]
      by (simp add: entries_ok_def teams_indexed_def unique_on_append_one not_taken_fresh)
    moreover have "list_all (team_refs_ok s) (db_teams s @ [t])"
      using ok team_violation_None [OF None] by (simp add: entries_ok_def)
    ultimately show ?thesis using ok by (simp add: s' entries_ok_def)
  next
    case (Some v)
    with run ok show ?thesis by (auto simp: insert_team_def act_simps write_check_def)
  qed
qed

lemma keeps_update_team_row [keeps_intros]: "keeps entries_ok (update_team_row en t)"
proof (rule keepsI)
  fix s r s' assume ok: "entries_ok s" and run: "update_team_row en t s = (r, s')"
  define here where "here = is_team_row (t_tenant_id t) (t_event_id t) (t_id t)"
  define wr where "wr = (\<lambda>row :: team. row\<lparr>t_name := t_name t, t_gender_category := t_gender_category t,
                        t_updated_at := e_now en\<rparr>)"
  note def = update_team_row_def [of en t, folded here_def wr_def, unfolded Let_def]
  show "entries_ok s'"
  proof (cases "select here (db_teams s)")
    case Nil
    with run have "s' = s" by (simp add: def act_simps write_check_def update_none check_rows_def)
    with ok show ?thesis by simp
  next
    case (Cons row rest)
    then have row: "row \<in> set (db_teams s)" "here row" using select_Cons_mem by fast+
    show ?thesis
    proof (cases "team_violation s (delete_where here (db_teams s)) (wr row)")
      case None
      with run Cons have s': "s' = s\<lparr>db_teams := update_where here wr (db_teams s)\<rparr>"
        by (simp add: def act_simps write_check_def check_rows_def)
      note v = team_violation_None [OF None]
      have pk: "team_pk q = Some (t_id t)" if "here q" for q
        using that by (simp add: here_def is_team_row_def team_pk_def)
      have u: "unique_on team_pk (db_teams s)" "unique_on team_name_key (db_teams s)"
        using ok by (simp_all add: entries_ok_def teams_indexed_def)
      have "teams_indexed (update_where here wr (db_teams s))"
        unfolding teams_indexed_def using v u
        by (intro conjI)
          (rule unique_on_update_checked [where pk = team_pk and k = "t_id t" and row = row and p = here];
            use pk row in simp)+
      moreover have "t_id ` set (update_where here wr (db_teams s)) = t_id ` set (db_teams s)"
        unfolding update_where_def set_map image_image
        by (intro image_cong refl) (simp add: wr_def)
      then have "participant_refs_ok s' p" if "participant_refs_ok s p" for p
        unfolding s' using that by (intro participant_refs_mono) simp_all
      moreover have "team_refs_ok s (wr q)" if "team_refs_ok s q" for q
        using that by (simp add: team_refs_ok_def wr_def)
      ultimately show ?thesis using ok
        by (auto simp: s' entries_ok_def list_all_iff set_update_where)
    next
      case (Some v)
      with run Cons ok show ?thesis by (auto simp: def act_simps write_check_def)
    qed
  qed
qed

lemma keeps_delete_team_row [keeps_intros]: "keeps entries_ok (delete_team_row tenant event tid)"
proof -
  let ?here = "is_team_row tenant event tid"
  have "entries_ok (s\<lparr>db_teams := delete_where ?here (db_teams s), db_participants :=
      delete_where (\<lambda>p. list_ex (\<lambda>t. p_team_id p = Some (t_id t)) (select ?here (db_teams s)))
        (db_participants s)\<rparr>)" if ok: "entries_ok s" for s
  proof -
    let ?gone = "\<lambda>p. list_ex (\<lambda>t. p_team_id p = Some (t_id t)) (select ?here (db_teams s))"
    have "participant_refs_ok (s\<lparr>db_teams := delete_where ?here (db_teams s)\<rparr>) p"
      if "participant_refs_ok s p" "\<not> ?gone p" for p
      using that by (auto simp: participant_refs_ok_def list_ex_iff set_delete_where set_select
          split: option.splits)
    then have "list_all (participant_refs_ok (s\<lparr>db_teams := delete_where ?here (db_teams s)\<rparr>))
        (delete_where ?gone (db_participants s))"
      using ok unfolding entries_ok_def list_all_iff set_delete_where by blast
    moreover have "list_all (team_refs_ok s) (delete_where ?here (db_teams s))"
      using ok unfolding entries_ok_def list_all_iff set_delete_where by blast
    moreover have "teams_indexed (delete_where ?here (db_teams s))"
      "participants_indexed (delete_where ?gone (db_participants s))"
      using ok by (simp_all add: entries_ok_def teams_indexed_def unique_on_delete indexed_delete)
    ultimately show ?thesis by (simp add: entries_ok_def)
  qed
  note kept = this
  show ?thesis
  proof (rule keepsI)
    fix s r s' assume ok: "entries_ok s" and run: "delete_team_row tenant event tid s = (r, s')"
    from run have "s' = s\<lparr>db_teams := delete_where ?here (db_teams s), db_participants :=
      delete_where (\<lambda>p. list_ex (\<lambda>t. p_team_id p = Some (t_id t)) (select ?here (db_teams s)))
        (db_participants s)\<rparr>"
      by (simp add: delete_team_row_def act_simps check_rows_def split: if_splits)
    then show "entries_ok s'" using kept [OF ok] by (simp only:)
  qed
qed

section \<open>Statements that only read\<close>

lemma keeps_race_of [keeps_intros]: "keeps I (race_of tenant event race)"
  unfolding race_of_def list_race_formats_def by (intro keeps_intros)

lemma keeps_field_check [keeps_intros]: "(eo = None \<Longrightarrow> keeps I m) \<Longrightarrow> keeps I (field_check eo m)"
  unfolding field_check_def by (intro keeps_intros) simp

lemma not_found_as_InrE [act_elims]:
  assumes "not_found_as e m s = (Inr a, s')"
  obtains "m s = (Inr a, s')"
  using assms by (auto simp: not_found_as_def split: prod.splits sum.splits)

lemma keeps_get_participant [keeps_intros]: "keeps I (get_participant tenant event pid)"
  unfolding get_participant_def by (intro keeps_intros)

lemma keeps_get_team [keeps_intros]: "keeps I (get_team tenant event tid)"
  unfolding get_team_def by (intro keeps_intros)

lemma keeps_list_race_formats [keeps_intros]: "keeps I (list_race_formats tenant event)"
  unfolding list_race_formats_def by (intro keeps_intros)

lemma keeps_list_team_members [keeps_intros]: "keeps I (list_team_members tenant ids)"
  unfolding list_team_members_def by (intro keeps_intros)

lemma keeps_list_all_teams [keeps_intros]: "keeps I (list_all_teams tenant event)"
  unfolding list_all_teams_def by (intro keeps_intros)

lemma keeps_check_team_join [keeps_intros]: "keeps I (check_team_join tenant event race inp x)"
  unfolding check_team_join_def by (intro keeps_intros)

lemma keeps_plan_request [keeps_intros]: "keeps I (plan_request tenant event req)"
  unfolding plan_request_def find_for_import_def by (intro keeps_intros)

lemma keeps_audit_event [keeps_intros]:
  "(\<And>s l. I s \<Longrightarrow> I (s\<lparr>db_audit := l\<rparr>)) \<Longrightarrow> keeps I (audit_event en k tenant actor a md)"
  unfolding audit_event_def by (intro keeps_intros) simp

lemma keeps_with_clause [keeps_intros]:
  "(\<And>cl. selection_clause sel tenant event = Inr cl \<Longrightarrow> keeps I (k cl)) \<Longrightarrow>
     keeps I (with_clause sel tenant event k)"
  unfolding with_clause_def by (intro keeps_intros)

section \<open>The use cases keep the invariant\<close>

text \<open>A call of the participant service: one constructor per use case that can write.\<close>

datatype participant_call =
    CreateCall member_role string input
  | UpdateCall member_role string patch
  | DeleteCall member_role selection
  | StatusCall member_role selection part_status
  | ExportCall member_role list_filter
  | CreateTeamCall member_role string string gender_category
  | UpdateTeamCall member_role string "string option" "gender_category option"
  | DeleteTeamCall member_role string bool
  | ImportCall member_role import_request

definition discard :: "'a query \<Rightarrow> unit query" where
  "discard m = and_then m (\<lambda>_. ret ())"

fun run_call :: "env \<Rightarrow> string \<Rightarrow> string \<Rightarrow> string \<Rightarrow> participant_call \<Rightarrow> unit query" where
  "run_call en t e a (CreateCall role race inp) = discard (create_participant en t e a role race inp)"
| "run_call en t e a (UpdateCall role pid pa) = discard (update_participant en t e a role pid pa)"
| "run_call en t e a (DeleteCall role sel) = discard (delete_participants en t e a role sel)"
| "run_call en t e a (StatusCall role sel st) = discard (set_status en t e a role sel st)"
| "run_call en t e a (ExportCall role f) = discard (export_participants en t e a role f)"
| "run_call en t e a (CreateTeamCall role race name cat) = discard (create_team en t e a role race name cat)"
| "run_call en t e a (UpdateTeamCall role tid name cat) = discard (update_team en t e a role tid name cat)"
| "run_call en t e a (DeleteTeamCall role tid b) = discard (delete_team en t e a role tid b)"
| "run_call en t e a (ImportCall role req) = discard (import_participants en t e a role req)"

lemma keeps_create_teams [keeps_intros]: "keeps entries_ok (create_teams en k tenant event pts m)"
  by (induction pts arbitrary: k m) (auto intro: keeps_intros)

lemma keeps_apply_row [keeps_intros]: "keeps entries_ok (apply_row en k tenant event races ids row rp)"
  unfolding apply_row_def by (intro keeps_intros)

lemma keeps_apply_rows [keeps_intros]: "keeps entries_ok (apply_rows en k tenant event races ids rows)"
proof (induction rows arbitrary: k)
  case (Cons r rows)
  then show ?case by (cases r) (simp only: apply_rows.simps, intro keeps_intros, assumption)
qed (simp add: keeps_intros)

lemma keeps_apply_plan [keeps_intros]: "keeps entries_ok (apply_plan en k tenant event rows pl races)"
  unfolding apply_plan_def by (intro keeps_intros)

lemma keeps_run_call: "keeps entries_ok (run_call en tenant event actor c)"
  by (cases c) (simp_all only: run_call.simps discard_def create_participant_def update_participant_def
    delete_participants_def set_status_def export_participants_def participants_matching_def
    create_team_def update_team_def delete_team_def import_participants_def,
    (intro keeps_intros; simp)+)

text \<open>A history of calls, each with its own clock, tenant, event and actor.\<close>

fun run_calls :: "(env \<times> string \<times> string \<times> string \<times> participant_call) list \<Rightarrow> db \<Rightarrow> db" where
  "run_calls [] s = s"
| "run_calls ((en, t, e, a, c) # cs) s = run_calls cs (snd (run_call en t e a c s))"


lemma entries_ok_run_calls: "entries_ok s \<Longrightarrow> entries_ok (run_calls cs s)"
proof (induction cs arbitrary: s)
  case (Cons c cs)
  obtain en t e a call where c: "c = (en, t, e, a, call)" by (cases c)
  have "entries_ok (snd (run_call en t e a call s))"
    using keepsD [OF keeps_run_call Cons.prems] by (metis surjective_pairing)
  with Cons.IH c show ?case by simp
qed simp

text \<open>Every history of participant, team and import calls, with any inputs, roles, clocks and
identifiers, keeps the indexes and references of the tables: BIB numbers and reference ids unique in
an event, legs unique in a team, team names unique in a race, and no row that points at a missing
event, race or team.\<close>

theorem participant_tables_consistent: "entries_ok s \<Longrightarrow> entries_ok (run_calls cs s)"
  by (rule entries_ok_run_calls)

text \<open>A small event: one relay race of two legs.\<close>

definition demo_race :: race_row where
  "demo_race = \<lparr>ra_id = ''r1'', ra_tenant_id = ''t'', ra_event_id = ''e'', ra_name = ''Relay'',
     ra_slug = ''relay'', ra_distance_km = None,
     ra_format = \<lparr>rc_entry_type = RaceEntryTeam, rc_course_type = RaceCourseRelay, rc_team_size = Some 2,
       rc_loop_mode = None, rc_loop_length_km = None, rc_loop_target_laps = None,
       rc_loop_time_limit_ms = None\<rparr>,
     ra_created_at = 0, ra_updated_at = 0\<rparr>"

definition demo_event :: event_row where
  "demo_event = \<lparr>ev_id = ''e'', ev_tenant_id = ''t'', ev_name = ''Run'', ev_slug = ''run'', ev_venue = None,
     ev_start_date = None, ev_end_date = None, ev_logo_storage_id = None,
     ev_thumbnail_storage_id = None, ev_primary_color = None, ev_status = ''draft'',
     ev_created_by = ''u'', ev_created_at = 0, ev_updated_at = 0\<rparr>"

definition empty_db :: db where
  "empty_db = \<lparr>db_users = [], db_refresh_tokens = [], db_email_tokens = [], db_social_accounts = [],
     db_tenants = [], db_members = [], db_invitations = [], db_events = [], db_races = [],
     db_assignments = [], db_event_invitations = [], db_teams = [], db_participants = [], db_audit = []\<rparr>"

definition demo_db :: db where
  "demo_db = empty_db\<lparr>db_events := [demo_event], db_races := [demo_race]\<rparr>"

definition demo_env :: "string \<Rightarrow> env" where
  "demo_env c = \<lparr>e_now = 1, e_uuid = (\<lambda>k. c @ replicate k CHR ''x'')\<rparr>"

definition demo_input :: "string \<Rightarrow> int \<Rightarrow> int \<Rightarrow> gender \<Rightarrow> input" where
  "demo_input name bib leg g = \<lparr>i_first_name = name, i_last_name = None, i_bib_name = None,
     i_bib_number = bib, i_gender = g, i_ref_id = None, i_email = None, i_club = None,
     i_ec_name = None, i_ec_phone = None, i_blood_type = None, i_status = '''',
     i_team_id = Some ''a'', i_leg_order = Some leg\<rparr>"

definition demo_calls :: "(env \<times> string \<times> string \<times> string \<times> participant_call) list" where
  "demo_calls =
     [(demo_env ''a'', ''t'', ''e'', ''u'', CreateTeamCall RoleStaff ''r1'' ''Alpha'' CategoryMixed),
      (demo_env ''b'', ''t'', ''e'', ''u'', CreateCall RoleStaff ''r1'' (demo_input ''Ann'' 1 1 GenderFemale)),
      (demo_env ''c'', ''t'', ''e'', ''u'', CreateCall RoleStaff ''r1'' (demo_input ''Eve'' 2 2 GenderFemale)),
      (demo_env ''d'', ''t'', ''e'', ''u'', CreateCall RoleStaff ''r1'' (demo_input ''Bob'' 2 2 GenderMale))]"

lemma demo_db_entries: "entries_ok demo_db"
  by code_simp

theorem participant_tables_consistent_witness:
  "entries_ok (run_calls demo_calls demo_db) \<and>
     map p_bib_number (db_participants (run_calls demo_calls demo_db)) = [1, 2]"
proof
  show "entries_ok (run_calls demo_calls demo_db)"
    by (rule participant_tables_consistent [OF demo_db_entries])
  show "map p_bib_number (db_participants (run_calls demo_calls demo_db)) = [1, 2]"
    by code_simp
qed

section \<open>Atomicity\<close>

lemma atomic_case_prod [atomic_intros]:
  "(\<And>a b. x = (a, b) \<Longrightarrow> atomic (f a b)) \<Longrightarrow> atomic (case x of (a, b) \<Rightarrow> f a b)"
  by (cases x) simp

lemma atomic_with_clause [atomic_intros]:
  "(\<And>cl. atomic (k cl)) \<Longrightarrow> atomic (with_clause sel tenant event k)"
  by (auto simp: with_clause_def atomic_fail split: sum.splits)

lemma atomic_discard [atomic_intros]: "atomic m \<Longrightarrow> atomic (discard m)"
  by (auto simp: atomic_def discard_def and_then_def ret_def split: prod.splits sum.splits)


end
