(* ===== verification/Team_Roster.thy ===== *)
theory Team_Roster
  imports Participant_Props "HOL-Library.Multiset"
begin

text \<open>
  The rosters of teams: no team has more members than its race's team size, every roster passes
  the composition rule, and every member runs the team's own race. Every use case of
  \<open>service.go\<close> keeps this; the importer, which plans its rows against a snapshot, is treated in
  \<open>Import_Team_Props\<close>.
\<close>

section \<open>The invariant\<close>

definition race_formats :: "db \<Rightarrow> string \<Rightarrow> string \<Rightarrow> string \<Rightarrow> race_format option" where
  "race_formats s tenant event =
     fold (\<lambda>r m. m(ra_id r \<mapsto> race_format_of r))
       (select (\<lambda>r. ra_tenant_id r = tenant \<and> ra_event_id r = event) (db_races s)) Map.empty"

definition in_team :: "string \<Rightarrow> participant \<Rightarrow> bool" where
  "in_team tid p \<longleftrightarrow> p_team_id p = Some tid"

definition roster_ok :: "gender_category \<Rightarrow> int \<Rightarrow> gender list \<Rightarrow> bool" where
  "roster_ok category sz genders \<longleftrightarrow>
     (sz \<le> 0 \<or> int (length genders) \<le> sz) \<and>
     fst (check_team_composition category sz genders) = None"

definition team_ok :: "db \<Rightarrow> team \<Rightarrow> bool" where
  "team_ok s t \<longleftrightarrow>
     (case race_formats s (t_tenant_id t) (t_event_id t) (t_race_id t) of
        None \<Rightarrow> False
      | Some r \<Rightarrow> is_team r \<and> roster_ok (t_gender_category t) (team_size_or_0 r)
                   (map p_gender (filter (in_team (t_id t)) (db_participants s)))) \<and>
     list_all (\<lambda>p. p_tenant_id p = t_tenant_id t \<and> p_event_id p = t_event_id t \<and>
                  p_race_id p = t_race_id t) (filter (in_team (t_id t)) (db_participants s))"

definition rosters_ok :: "db \<Rightarrow> bool" where
  "rosters_ok s \<longleftrightarrow>
     entries_ok s \<and> list_all (team_ok s) (db_teams s) \<and> list_all (\<lambda>p. p_id p \<noteq> '''') (db_participants s)"

section \<open>The composition rule counts members, it does not order them\<close>

lemma composition_cong:
  "set gs = set gs' \<Longrightarrow> length gs = length gs' \<Longrightarrow>
     check_team_composition c n gs = check_team_composition c n gs'"
  by (simp add: check_team_composition_def list_ex_iff)

lemma composition_mixed_short:
  "int (length gs) < n \<Longrightarrow> c \<noteq> CategoryMale \<Longrightarrow> c \<noteq> CategoryFemale \<Longrightarrow>
     fst (check_team_composition c n gs) = None"
  by (simp add: check_team_composition_def)

lemma composition_gendered_mono:
  "fst (check_team_composition c n gs) = None \<Longrightarrow> set gs' \<subseteq> set gs \<Longrightarrow>
     c = CategoryMale \<or> c = CategoryFemale \<Longrightarrow> fst (check_team_composition c n gs') = None"
  by (auto simp: check_team_composition_def list_ex_iff simp del: not_ex split: if_splits)

lemma composition_no_size:
  "n \<le> 0 \<Longrightarrow> c \<noteq> CategoryMale \<Longrightarrow> c \<noteq> CategoryFemale \<Longrightarrow>
     fst (check_team_composition c n gs) = None"
  by (simp add: check_team_composition_def)

lemma roster_ok_sub:
  assumes "roster_ok c n gs" "mset gs' \<subseteq># mset gs"
  shows "roster_ok c n gs'"
proof (cases "length gs' = length gs")
  case True
  have "mset gs' = mset gs"
    using assms(2) True
    by (metis add_diff_cancel_left' mset_subset_size nat_less_le size_mset subset_mset.less_le)
  then have "set gs' = set gs" by (metis set_mset_mset)
  with True assms(1) show ?thesis
    unfolding roster_ok_def by (simp add: composition_cong [of gs' gs])
next
  case False
  with assms(2) have less: "length gs' < length gs"
    by (metis nat_less_le size_mset size_mset_mono)
  have sub: "set gs' \<subseteq> set gs" using assms(2) by (metis set_mset_mono set_mset_mset)
  have "fst (check_team_composition c n gs') = None"
  proof (cases "c = CategoryMale \<or> c = CategoryFemale")
    case True
    with assms(1) sub show ?thesis
      unfolding roster_ok_def by (elim conjE) (rule composition_gendered_mono)
  next
    case other: False
    show ?thesis
    proof (cases "n \<le> 0")
      case True
      with other show ?thesis by (intro composition_no_size) simp_all
    next
      case False
      with assms(1) less other show ?thesis
        by (intro composition_mixed_short) (simp_all add: roster_ok_def)
    qed
  qed
  with less assms(1) show ?thesis unfolding roster_ok_def by auto
qed

lemma roster_ok_mset: "mset gs' = mset gs \<Longrightarrow> roster_ok c n gs' = roster_ok c n gs"
  by (metis roster_ok_sub subset_mset.order_refl)

text \<open>What a roster sees of its members, as a multiset.\<close>

definition facets :: "participant \<Rightarrow> gender \<times> string \<times> string \<times> string" where
  "facets p = (p_gender p, p_tenant_id p, p_event_id p, p_race_id p)"

definition team_rows :: "string \<Rightarrow> participant list \<Rightarrow> (gender \<times> string \<times> string \<times> string) multiset" where
  "team_rows t ps = image_mset facets (mset (filter (in_team t) ps))"

lemma team_rows_genders: "image_mset fst (team_rows t ps) = mset (map p_gender (filter (in_team t) ps))"
  by (simp add: team_rows_def facets_def image_mset.compositionality comp_def)

lemma team_rows_places:
  "list_all (\<lambda>p. p_tenant_id p = a \<and> p_event_id p = b \<and> p_race_id p = c) (filter (in_team t) ps) \<longleftrightarrow>
     (\<forall>x \<in># team_rows t ps. snd x = (a, b, c))"
  by (auto simp: team_rows_def facets_def list_all_iff)

lemma team_ok_rows:
  "team_ok s t \<longleftrightarrow>
     (case race_formats s (t_tenant_id t) (t_event_id t) (t_race_id t) of
        None \<Rightarrow> False
      | Some r \<Rightarrow> is_team r \<and> roster_ok (t_gender_category t) (team_size_or_0 r)
                   (map p_gender (filter (in_team (t_id t)) (db_participants s)))) \<and>
     (\<forall>x \<in># team_rows (t_id t) (db_participants s). snd x = (t_tenant_id t, t_event_id t, t_race_id t))"
  by (simp only: team_ok_def team_rows_places)

text \<open>A team stays in order when its members are among those it had.\<close>

lemma team_ok_sub:
  assumes "team_ok s t" "race_formats s' = race_formats s"
    and "t_tenant_id t' = t_tenant_id t" "t_event_id t' = t_event_id t" "t_race_id t' = t_race_id t"
      "t_gender_category t' = t_gender_category t"
    and "team_rows (t_id t') (db_participants s') \<subseteq># team_rows (t_id t) (db_participants s)"
  shows "team_ok s' t'"
proof -
  let ?new = "filter (in_team (t_id t')) (db_participants s')"
  let ?old = "filter (in_team (t_id t)) (db_participants s)"
  obtain r where r: "race_formats s (t_tenant_id t) (t_event_id t) (t_race_id t) = Some r"
    "is_team r" "roster_ok (t_gender_category t) (team_size_or_0 r) (map p_gender ?old)"
    using assms(1) unfolding team_ok_def by (auto split: option.splits)
  have "mset (map p_gender ?new) \<subseteq># mset (map p_gender ?old)"
    using image_mset_subseteq_mono [OF assms(7), of fst] by (simp only: team_rows_genders)
  with r(3) have roster: "roster_ok (t_gender_category t) (team_size_or_0 r) (map p_gender ?new)"
    by (rule roster_ok_sub)
  have places: "\<forall>x \<in># team_rows (t_id t) (db_participants s).
      snd x = (t_tenant_id t, t_event_id t, t_race_id t)"
    using assms(1) unfolding team_ok_rows by (elim conjE)
  show ?thesis
    unfolding team_ok_rows assms(2-6) r(1) option.case
    using r(2) roster places set_mset_mono [OF assms(7)] by (intro conjI ballI) (simp_all only: subsetD)
qed

section \<open>Statements on participants and teams\<close>

lemma race_formats_races: "db_races s' = db_races s \<Longrightarrow> race_formats s' = race_formats s"
  by (simp add: race_formats_def fun_eq_iff)

lemma team_ok_cong:
  "db_races s' = db_races s \<Longrightarrow> db_participants s' = db_participants s \<Longrightarrow> team_ok s' = team_ok s"
  by (simp add: team_ok_def fun_eq_iff race_formats_def cong: option.case_cong)

lemma rosters_ok_audit [simp]: "rosters_ok (s\<lparr>db_audit := l\<rparr>) = rosters_ok s"
  by (simp add: rosters_ok_def team_ok_cong [of "s\<lparr>db_audit := l\<rparr>" s])

text \<open>Rows are removed, or changed without touching what the rosters are about.\<close>

lemma team_rows_Nil [simp]: "team_rows t [] = {#}"
  by (simp add: team_rows_def)

lemma team_rows_Cons:
  "team_rows t (p # ps) = (if in_team t p then {#facets p#} else {#}) + team_rows t ps"
  by (simp add: team_rows_def)

lemma team_rows_append [simp]: "team_rows t (ps @ qs) = team_rows t ps + team_rows t qs"
  by (simp add: team_rows_def)

lemma team_rows_update_sub:
  assumes "\<And>p. (p_team_id (f p) = p_team_id p \<or> p_team_id (f p) = None) \<and> facets (f p) = facets p"
  shows "team_rows t (update_where q f ps) \<subseteq># team_rows t ps"
proof (induction ps)
  case (Cons p ps)
  have "(if in_team t (if q p then f p else p) then {#facets (if q p then f p else p)#} else {#}) \<subseteq>#
        (if in_team t p then {#facets p#} else {#})"
    using assms [of p] by (auto simp: in_team_def)
  with Cons show ?case
    unfolding update_where_def list.map team_rows_Cons by (rule subset_mset.add_mono [rotated])
qed (simp add: update_where_def)

lemma team_rows_delete_sub [simp]: "team_rows t (delete_where q ps) \<subseteq># team_rows t ps"
proof (induction ps)
  case (Cons p ps)
  show ?case
  proof (cases "q p")
    case True
    then have "delete_where q (p # ps) = delete_where q ps" by (simp add: delete_where_def)
    with Cons show ?thesis
      unfolding team_rows_Cons by (simp only: subset_mset.add_increasing empty_le)
  next
    case False
    then have "delete_where q (p # ps) = p # delete_where q ps" by (simp add: delete_where_def)
    with Cons show ?thesis by (simp only: team_rows_Cons subset_mset.add_left_mono)
  qed
qed (simp add: delete_where_def)

lemma keeps_rosters_writes:
  assumes "keeps entries_ok m"
    and "\<And>s s' r. m s = (r, s') \<Longrightarrow> db_races s' = db_races s"
    and "\<And>s s' r t. m s = (r, s') \<Longrightarrow> t \<in> set (db_teams s') \<Longrightarrow> t \<in> set (db_teams s)"
    and "\<And>s s' r p. m s = (r, s') \<Longrightarrow> p \<in> set (db_participants s') \<Longrightarrow>
           \<exists>p' \<in> set (db_participants s). p_id p = p_id p'"
    and "\<And>s s' r t. m s = (r, s') \<Longrightarrow>
           team_rows t (db_participants s') \<subseteq># team_rows t (db_participants s)"
  shows "keeps rosters_ok m"
proof (rule keepsI)
  fix s r s' assume ok: "rosters_ok s" and run: "m s = (r, s')"
  have "entries_ok s'" using assms(1) ok run unfolding rosters_ok_def by (blast intro: keepsD)
  moreover have "team_ok s' t" if t: "t \<in> set (db_teams s')" for t
  proof (rule team_ok_sub)
    show "team_ok s t"
      using ok assms(3) [OF run t] unfolding rosters_ok_def list_all_iff by blast
    show "race_formats s' = race_formats s" using assms(2) [OF run] by (rule race_formats_races)
  qed (simp_all add: assms(5) [OF run])
  moreover have "p_id p \<noteq> ''''" if "p \<in> set (db_participants s')" for p
    using ok assms(4) [OF run that] unfolding rosters_ok_def list_all_iff by auto
  ultimately show "rosters_ok s'" unfolding rosters_ok_def list_all_iff by blast
qed

lemma in_update_where:
  "p \<in> set (update_where q f ps) \<Longrightarrow> (\<And>p. p_id (f p) = p_id p) \<Longrightarrow> \<exists>p' \<in> set ps. p_id p = p_id p'"
  by (auto simp: set_update_where)

lemma keeps_rosters_delete_participant_rows [keeps_intros]: "keeps rosters_ok (delete_participant_rows cl)"
  by (rule keeps_rosters_writes [OF keeps_delete_participant_rows])
    (auto simp: delete_participant_rows_def act_simps set_delete_where)

lemma keeps_rosters_set_status_rows [keeps_intros]: "keeps rosters_ok (set_status_rows en cl st)"
  by (rule keeps_rosters_writes [OF keeps_set_status_rows])
    (auto simp: set_status_rows_def act_simps facets_def
      intro!: team_rows_update_sub elim!: in_update_where)

lemma keeps_rosters_detach [keeps_intros]: "keeps rosters_ok (detach_team_members en tenant tid)"
  by (rule keeps_rosters_writes [OF keeps_detach])
    (auto simp: detach_team_members_def act_simps facets_def
      intro!: team_rows_update_sub elim!: in_update_where)

lemma keeps_rosters_delete_team_row [keeps_intros]: "keeps rosters_ok (delete_team_row tenant event tid)"
  by (rule keeps_rosters_writes [OF keeps_delete_team_row])
    (auto simp: delete_team_row_def act_simps check_rows_def set_delete_where
      split: if_splits)

section \<open>A participant row written by a use case\<close>

definition roster_with :: "participant list \<Rightarrow> participant \<Rightarrow> string \<Rightarrow> gender list" where
  "roster_with ps p tid =
     p_gender p # map p_gender (filter (in_team tid) (delete_where (\<lambda>q. p_id q = p_id p) ps))"

definition joins :: "db \<Rightarrow> participant \<Rightarrow> bool" where
  "joins s p \<longleftrightarrow> list_all (\<lambda>t. \<not> in_team (t_id t) p \<or>
     (snd (facets p) = (t_tenant_id t, t_event_id t, t_race_id t) \<and>
      (case race_formats s (t_tenant_id t) (t_event_id t) (t_race_id t) of None \<Rightarrow> False
       | Some r \<Rightarrow> is_team r \<and>
           roster_ok (t_gender_category t) (team_size_or_0 r) (roster_with (db_participants s) p (t_id t)))))
     (db_teams s)"

lemma rosters_ok_put:
  assumes ok: "rosters_ok s" and ok': "entries_ok s'" and races: "db_races s' = db_races s"
    and teams: "db_teams s' = db_teams s"
    and ids: "list_all (\<lambda>q. p_id q \<noteq> '''') (db_participants s')"
    and rows: "\<And>t. team_rows t (db_participants s') \<subseteq>#
        (if in_team t p then {#facets p#} else {#}) +
        team_rows t (delete_where (\<lambda>q. p_id q = p_id p) (db_participants s))"
    and joins: "joins s p"
  shows "rosters_ok s'"
proof -
  have formats: "race_formats s' = race_formats s" using races by (rule race_formats_races)
  have "team_ok s' t" if t: "t \<in> set (db_teams s)" for t
  proof -
    have old: "team_ok s t" using ok t unfolding rosters_ok_def list_all_iff by blast
    show ?thesis
    proof (cases "in_team (t_id t) p")
      case False
      have "team_rows (t_id t) (db_participants s') \<subseteq># team_rows (t_id t) (db_participants s)"
        using rows [of "t_id t"] False team_rows_delete_sub [of "t_id t" _ "db_participants s"]
        by (simp only: if_False add_0) (erule subset_mset.order_trans)
      with old formats show ?thesis by (intro team_ok_sub [OF old]) simp_all
    next
      case True
      with joins t have j: "snd (facets p) = (t_tenant_id t, t_event_id t, t_race_id t)"
        "case race_formats s (t_tenant_id t) (t_event_id t) (t_race_id t) of None \<Rightarrow> False
         | Some r \<Rightarrow> is_team r \<and> roster_ok (t_gender_category t) (team_size_or_0 r)
             (roster_with (db_participants s) p (t_id t))"
        unfolding joins_def list_all_iff by auto
      from j(2) obtain r where r: "race_formats s (t_tenant_id t) (t_event_id t) (t_race_id t) = Some r"
        "is_team r" "roster_ok (t_gender_category t) (team_size_or_0 r)
           (roster_with (db_participants s) p (t_id t))"
        by (auto split: option.splits)
      let ?others = "delete_where (\<lambda>q. p_id q = p_id p) (db_participants s)"
      have sub: "team_rows (t_id t) (db_participants s') \<subseteq># {#facets p#} + team_rows (t_id t) ?others"
        using rows [of "t_id t"] True by simp
      have "mset (map p_gender (filter (in_team (t_id t)) (db_participants s'))) \<subseteq>#
          mset (roster_with (db_participants s) p (t_id t))"
        using image_mset_subseteq_mono [OF sub, of fst]
        unfolding image_mset_union team_rows_genders roster_with_def by (simp add: facets_def)
      with r(3) have roster: "roster_ok (t_gender_category t) (team_size_or_0 r)
          (map p_gender (filter (in_team (t_id t)) (db_participants s')))"
        by (rule roster_ok_sub)
      have "snd x = (t_tenant_id t, t_event_id t, t_race_id t)"
        if "x \<in># team_rows (t_id t) (db_participants s')" for x
      proof -
        from that sub have "x = facets p \<or> x \<in># team_rows (t_id t) ?others"
          by (auto dest: mset_subset_eqD)
        then have "x = facets p \<or> x \<in># team_rows (t_id t) (db_participants s)"
          by (metis mset_subset_eqD team_rows_delete_sub)
        with old j(1) show ?thesis unfolding team_ok_rows by blast
      qed
      with roster r(2) show ?thesis unfolding team_ok_rows formats r(1) option.case by blast
    qed
  qed
  with ok' ids teams show ?thesis unfolding rosters_ok_def list_all_iff by simp
qed

lemma race_formats_id: "race_formats s tenant event rid = Some r \<Longrightarrow> rf_id r = rid"
proof -
  have "fold (\<lambda>r m. m(ra_id r \<mapsto> race_format_of r)) rs m rid = Some r \<Longrightarrow>
      (m rid = Some r \<Longrightarrow> rf_id r = rid) \<Longrightarrow> rf_id r = rid" for rs m
  proof (induction rs arbitrary: m)
    case (Cons x rs)
    show ?case
    proof (rule Cons.IH)
      show "fold (\<lambda>r m. m(ra_id r \<mapsto> race_format_of r)) rs (m(ra_id x \<mapsto> race_format_of x)) rid = Some r"
        using Cons.prems(1) by (simp only: fold_Cons comp_apply)
      show "(m(ra_id x \<mapsto> race_format_of x)) rid = Some r \<Longrightarrow> rf_id r = rid"
        using Cons.prems(2) by (auto simp: race_format_of_def split: if_splits)
    qed
  qed simp
  then show "race_formats s tenant event rid = Some r \<Longrightarrow> rf_id r = rid"
    unfolding race_formats_def by fastforce
qed

lemma race_of_InrE [act_elims]:
  assumes "race_of tenant event rid s = (Inr r, s')"
  obtains "s' = s" "race_formats s tenant event rid = Some r" "rf_id r = rid"
  using assms unfolding race_of_def list_race_formats_def
  by (auto simp: act_simps of_option_def race_formats_def [symmetric] fail_def ret_def
      dest: race_formats_id split: option.splits)

lemma field_check_InrE [act_elims]:
  assumes "field_check eo m s = (Inr a, s')"
  obtains "eo = None" "m s = (Inr a, s')"
  using assms by (cases eo) (simp_all add: field_check_def act_simps)

lemma get_team_InrE [act_elims]:
  assumes "get_team tenant event tid s = (Inr t, s')"
  obtains "s' = s" "select_one (is_team_row tenant event tid) (db_teams s) = Some t"
  using assms unfolding get_team_def by (elim act_elims) (auto simp: reads_def)

lemma get_participant_InrE [act_elims]:
  assumes "get_participant tenant event pid s = (Inr p, s')"
  obtains row where "s' = s" "p = scan_participant s tenant row"
    "select_one (\<lambda>p. p_tenant_id p = tenant \<and> p_event_id p = event \<and> p_id p = pid) (db_participants s) = Some row"
  using assms unfolding get_participant_def by (elim act_elims) (auto simp: reads_def)

lemma audit_event_InrE [act_elims]:
  assumes "audit_event en k t u a m s = (Inr x, s')"
  obtains l where "s' = s\<lparr>db_audit := db_audit s @ [l]\<rparr>"
  using assms unfolding audit_event_def by (rule record_audit_InrE)

text \<open>What a successful \<open>check_team_join\<close> says about the team that is joined.\<close>

definition other_members :: "db \<Rightarrow> string \<Rightarrow> string \<Rightarrow> string \<Rightarrow> participant list" where
  "other_members s tenant tid exclude =
     filter (\<lambda>p. p_tenant_id p = tenant \<and> in_team tid p \<and> p_id p \<noteq> exclude) (db_participants s)"

lemma team_member_of_simps [simp]:
  "tm_gender (team_member_of p) = p_gender p" "tm_id (team_member_of p) = p_id p"
  "tm_leg_order (team_member_of p) = p_leg_order p"
  by (simp_all add: team_member_of_def)

lemma listed_members:
  assumes "list_team_members tenant [tid] s = (Inr ms, s')"
  shows "s' = s" "mset ms = image_mset team_member_of
    (filter_mset (\<lambda>p. p_tenant_id p = tenant \<and> in_team tid p) (mset (db_participants s)))"
proof -
  have ms: "s' = s" "ms = map team_member_of (sort_key leg_bib_order (select (\<lambda>p. p_tenant_id p = tenant \<and>
         (case p_team_id p of None \<Rightarrow> False | Some t \<Rightarrow> t \<in> set [tid])) (db_participants s)))"
    using assms by (auto simp: list_team_members_def act_simps)
  have "(case p_team_id p of None \<Rightarrow> False | Some t \<Rightarrow> t \<in> set [tid]) = in_team tid p" for p
    by (simp add: in_team_def split: option.splits)
  then have "ms = map team_member_of (sort_key leg_bib_order (select (\<lambda>p. p_tenant_id p = tenant \<and>
      in_team tid p) (db_participants s)))"
    using ms(2) by (simp only:)
  then show "mset ms = image_mset team_member_of
    (filter_mset (\<lambda>p. p_tenant_id p = tenant \<and> in_team tid p) (mset (db_participants s)))"
    by (simp add: mset_filter select_def)
  show "s' = s" by (rule ms(1))
qed

lemma listed_others:
  assumes "list_team_members tenant [tid] s = (Inr ms, s')"
  shows "s' = s" "mset (map tm_gender (filter (\<lambda>m. tm_id m \<noteq> x) ms)) =
    mset (map p_gender (other_members s tenant tid x))"
proof -
  have "mset (map tm_gender (filter (\<lambda>m. tm_id m \<noteq> x) ms)) =
      image_mset tm_gender (filter_mset (\<lambda>m. tm_id m \<noteq> x) (mset ms))"
    by (simp add: mset_filter)
  also have "\<dots> = mset (map p_gender (other_members s tenant tid x))"
    unfolding listed_members(2) [OF assms]
    by (simp add: other_members_def filter_mset_image_mset image_mset.compositionality comp_def
        filter_filter_mset conj_ac)
  finally show "mset (map tm_gender (filter (\<lambda>m. tm_id m \<noteq> x) ms)) =
    mset (map p_gender (other_members s tenant tid x))" .
qed (rule listed_members(1) [OF assms])

lemma check_team_join_InrE:
  assumes "check_team_join tenant event race inp exclude s = (Inr u, s')"
  obtains "s' = s" "i_team_id inp = None"
  | tid team where "s' = s" "i_team_id inp = Some tid"
      "select_one (is_team_row tenant event tid) (db_teams s) = Some team"
      "t_race_id team = rf_id race"
      "roster_ok (t_gender_category team) (team_size_or_0 race)
         (i_gender inp # map p_gender (other_members s tenant tid exclude))"
proof (cases "i_team_id inp")
  case None
  with assms that(1) show thesis by (simp add: check_team_join_def act_simps)
next
  case (Some tid)
  from assms obtain team ms s1 where
    team: "select_one (is_team_row tenant event tid) (db_teams s) = Some team"
    and race: "t_race_id team = rf_id race"
    and ms: "list_team_members tenant [t_id team] s = (Inr ms, s1)"
    and size: "\<not> (team_size_or_0 race > 0 \<and> 1 + int (length (filter (\<lambda>m. tm_id m \<noteq> exclude) ms)) > team_size_or_0 race)"
    and comp: "fst (check_team_composition (t_gender_category team) (team_size_or_0 race)
      (i_gender inp # map tm_gender (filter (\<lambda>m. tm_id m \<noteq> exclude) ms))) = None"
    and s': "s' = s1"
    unfolding check_team_join_def Some option.case Let_def
    by (elim act_elims) (simp add: ret_def)
  have tid: "t_id team = tid"
    using team by (auto simp: is_team_row_def dest: select_one_SomeD)
  note o = listed_others [OF ms]
  let ?gs = "map tm_gender (filter (\<lambda>m. tm_id m \<noteq> exclude) ms)"
  have "roster_ok (t_gender_category team) (team_size_or_0 race) (i_gender inp # ?gs)"
    using size comp unfolding roster_ok_def by auto
  then have "roster_ok (t_gender_category team) (team_size_or_0 race)
         (i_gender inp # map p_gender (other_members s tenant tid exclude))"
    by (rule roster_ok_sub) (simp only: mset.simps o(2) [of exclude] tid subset_mset.order_refl)
  with that(2) Some team race o(1) s' show thesis by simp
qed

lemma insert_participant_InrE [act_elims]:
  assumes "insert_participant p s = (Inr u, s')"
  obtains "participant_violation s (db_participants s) p = None"
    "s' = s\<lparr>db_participants := db_participants s @ [p]\<rparr>"
  using assms unfolding insert_participant_def by (elim act_elims) simp

lemma update_participant_row_InrE [act_elims]:
  assumes "update_participant_row en p s = (Inr u, s')"
  obtains row rest where "select (is_row p) (db_participants s) = row # rest"
    "participant_violation s (delete_where (is_row p) (db_participants s)) (write_registration en p row) = None"
    "s' = s\<lparr>db_participants := update_where (is_row p) (write_registration en p) (db_participants s)\<rparr>"
proof (cases "select (is_row p) (db_participants s)")
  case Nil
  with assms show thesis
    unfolding update_participant_row_def by (elim act_elims) simp
next
  case (Cons row rest)
  with assms that show thesis
    unfolding update_participant_row_def by (elim act_elims) simp
qed

lemma insert_team_InrE [act_elims]:
  assumes "insert_team t s = (Inr u, s')"
  obtains "team_violation s (db_teams s) t = None" "s' = s\<lparr>db_teams := db_teams s @ [t]\<rparr>"
  using assms unfolding insert_team_def by (elim act_elims) simp

definition write_team :: "env \<Rightarrow> team \<Rightarrow> team \<Rightarrow> team" where
  "write_team en t row =
     row\<lparr>t_name := t_name t, t_gender_category := t_gender_category t, t_updated_at := e_now en\<rparr>"

lemma update_team_row_InrE [act_elims]:
  assumes "update_team_row en t s = (Inr u, s')"
  obtains row rest where
    "select (is_team_row (t_tenant_id t) (t_event_id t) (t_id t)) (db_teams s) = row # rest"
    "s' = s\<lparr>db_teams := update_where (is_team_row (t_tenant_id t) (t_event_id t) (t_id t))
       (write_team en t) (db_teams s)\<rparr>"
proof (cases "select (is_team_row (t_tenant_id t) (t_event_id t) (t_id t)) (db_teams s)")
  case Nil
  with assms show thesis
    unfolding update_team_row_def Let_def by (elim act_elims) simp
next
  case (Cons row rest)
  with assms that show thesis
    unfolding update_team_row_def Let_def write_team_def [abs_def] by (elim act_elims) simp
qed

section \<open>The use cases that write a participant\<close>

definition env_ok :: "env \<Rightarrow> bool" where
  "env_ok en \<longleftrightarrow> (\<forall>k. e_uuid en k \<noteq> '''')"

lemma unique_team:
  assumes "entries_ok s" "select_one (is_team_row tenant event tid) (db_teams s) = Some team"
    and "t \<in> set (db_teams s)" "t_id t = tid"
  shows "t = team"
proof -
  have "team \<in> set (db_teams s)" "t_id team = tid"
    using select_one_SomeD [OF assms(2)] by (auto simp: is_team_row_def)
  with assms(3,4) show ?thesis
    using unique_on_sel [of team_pk "db_teams s" t team tid] assms(1)
    by (simp add: entries_ok_def teams_indexed_def team_pk_def)
qed

lemma other_members_delete:
  assumes "rosters_ok s" "select_one (is_team_row tenant event tid) (db_teams s) = Some team"
  shows "other_members s tenant tid x =
    filter (in_team tid) (delete_where (\<lambda>q. p_id q = x) (db_participants s))"
proof -
  have "team \<in> set (db_teams s)" "t_id team = tid" "t_tenant_id team = tenant"
    using select_one_SomeD [OF assms(2)] by (auto simp: is_team_row_def)
  with assms(1) have "p_tenant_id p = tenant" if "p \<in> set (db_participants s)" "in_team tid p" for p
    using that unfolding rosters_ok_def team_ok_def list_all_iff by auto
  then show ?thesis
    unfolding other_members_def delete_where_def filter_filter
    by (intro filter_cong refl) auto
qed

lemma joins_by_check:
  assumes ok: "rosters_ok s" and check: "check_team_join tenant event race inp x s = (Inr u, s1)"
    and race: "race_formats s tenant event rid = Some race"
    and val: "i_team_id inp = None \<or> is_team race"
    and p: "p_team_id p = i_team_id inp" "p_gender p = i_gender inp" "p_tenant_id p = tenant"
      "p_event_id p = event" "p_race_id p = rid"
    and x: "delete_where (\<lambda>q. p_id q = x) (db_participants s) =
            delete_where (\<lambda>q. p_id q = p_id p) (db_participants s)"
  shows "joins s p"
  using check
proof (cases rule: check_team_join_InrE)
  case 1
  with p(1) show ?thesis by (simp add: joins_def in_team_def list_all_iff)
next
  case (2 tid team)
  have entries: "entries_ok s" using ok by (simp add: rosters_ok_def)
  show ?thesis
    unfolding joins_def list_all_iff
  proof (intro ballI)
    fix t assume t: "t \<in> set (db_teams s)"
    show "\<not> in_team (t_id t) p \<or>
     (snd (facets p) = (t_tenant_id t, t_event_id t, t_race_id t) \<and>
      (case race_formats s (t_tenant_id t) (t_event_id t) (t_race_id t) of None \<Rightarrow> False
       | Some r \<Rightarrow> is_team r \<and>
           roster_ok (t_gender_category t) (team_size_or_0 r) (roster_with (db_participants s) p (t_id t))))"
    proof (cases "in_team (t_id t) p")
      case True
      then have tid: "t_id t = tid" using p(1) 2(2) by (simp add: in_team_def)
      have t_eq: "t = team" by (rule unique_team [OF entries 2(3) t tid])
      have place: "t_tenant_id t = tenant" "t_event_id t = event" "t_race_id t = rid"
        using select_one_SomeD [OF 2(3)] 2(4) race_formats_id [OF race]
        by (auto simp: t_eq is_team_row_def)
      have "roster_with (db_participants s) p (t_id t) =
          i_gender inp # map p_gender (other_members s tenant tid x)"
        unfolding roster_with_def tid p(2) other_members_delete [OF ok 2(3)] x ..
      with 2(5) place race val 2(2) p(3-5) show ?thesis
        by (simp add: facets_def t_eq)
    qed simp
  qed
qed

lemma validate_team_given:
  "validate inp race = None \<Longrightarrow> i_team_id inp = None \<or> is_team race"
  by (auto simp: validate_def validate_team_id_def split: if_splits option.splits)

lemma keeps_atomicI:
  assumes "atomic m" "\<And>s a s'. I s \<Longrightarrow> m s = (Inr a, s') \<Longrightarrow> I s'"
  shows "keeps I m"
proof (rule keepsI)
  fix s r s' assume "I s" "m s = (r, s')"
  with assms show "I s'" by (cases r) (auto dest: atomicD)
qed

lemma atomic_create: "atomic (create_participant en t e a role race inp)"
  unfolding create_participant_def by (intro atomic_intros)

lemma atomic_update: "atomic (update_participant en t e a role pid pa)"
  unfolding update_participant_def by (intro atomic_intros)

lemma check_team_join_state:
  assumes "check_team_join tenant event race inp x s = (Inr u, s')"
  shows "s' = s"
  by (rule check_team_join_InrE [OF assms])

lemma create_participant_InrE:
  assumes "create_participant en tenant event actor role race_id inp0 s = (Inr p, s')"
  obtains inp race l where "normalize inp0 = (inp, '''')" "require_role role RoleStaff = None"
    "race_formats s tenant event race_id = Some race" "rf_id race = race_id" "validate inp race = None"
    "check_team_join tenant event race inp '''' s = (Inr (), s)"
    "p = new_participant en (e_uuid en 0) tenant event race_id inp"
    "participant_violation s (db_participants s) p = None"
    "s' = s\<lparr>db_participants := db_participants s @ [p], db_audit := l\<rparr>"
proof -
  obtain inp bad where n: "normalize inp0 = (inp, bad)" by (cases "normalize inp0")
  let ?p = "new_participant en (e_uuid en 0) tenant event race_id inp"
  from assms obtain race u s2 l where *:
    "bad = ''''" "require_role role RoleStaff = None"
    "race_formats s tenant event race_id = Some race" "rf_id race = race_id" "validate inp race = None"
    and join: "check_team_join tenant event race inp '''' s = (Inr u, s2)"
    and **: "p = ?p"
    "participant_violation s2 (db_participants s2) ?p = None"
    "s' = s2\<lparr>db_participants := db_participants s2 @ [?p], db_audit := l\<rparr>"
    unfolding create_participant_def n prod.case Let_def
    by (elim act_elims) simp
  show thesis
    by (rule that [of inp race l])
      (use * ** join n in \<open>simp_all add: check_team_join_state [OF join]\<close>)
qed

lemma update_participant_InrE:
  assumes "update_participant en tenant event actor role pid pa s = (Inr p', s')"
  obtains row0 inp race_id race row rest l where
    "select_one (\<lambda>p. p_tenant_id p = tenant \<and> p_event_id p = event \<and> p_id p = pid)
       (db_participants s) = Some row0"
    "race_formats s tenant event race_id = Some race"
    "fst (apply_patch pa (scan_participant s tenant row0)) = race_id"
    "normalize (snd (apply_patch pa (scan_participant s tenant row0))) = (inp, '''')"
    "case validate inp race of None \<Rightarrow> True | Some e \<Rightarrow>
       is_team race \<and> i_team_id inp = None \<and> p_team_id row0 = None \<and> fe_field e = ''team_id''"
    "check_team_join tenant event race inp pid s = (Inr (), s)"
    "p' = with_input race_id inp (scan_participant s tenant row0)"
    "select (is_row p') (db_participants s) = row # rest"
    "participant_violation s (delete_where (is_row p') (db_participants s)) (write_registration en p' row) = None"
    "s' = s\<lparr>db_participants := update_where (is_row p') (write_registration en p') (db_participants s),
             db_audit := l\<rparr>"
proof -
  from assms obtain row0 race u s2 l row rest where *:
    "select_one (\<lambda>p. p_tenant_id p = tenant \<and> p_event_id p = event \<and> p_id p = pid)
       (db_participants s) = Some row0"
    and **: "race_formats s tenant event (fst (apply_patch pa (scan_participant s tenant row0))) = Some race"
    and ***: "snd (normalize (snd (apply_patch pa (scan_participant s tenant row0)))) = ''''"
    and v: "(case validate (fst (normalize (snd (apply_patch pa (scan_participant s tenant row0))))) race of
        None \<Rightarrow> None
      | Some e \<Rightarrow> if (is_team race \<and> i_team_id (fst (normalize (snd (apply_patch pa (scan_participant s tenant row0))))) = None \<and>
           p_team_id (scan_participant s tenant row0) = None) \<and> fe_field e = ''team_id'' then None else Some e) = None"
    and join: "check_team_join tenant event race (fst (normalize (snd (apply_patch pa (scan_participant s tenant row0)))))
        (p_id (scan_participant s tenant row0)) s = (Inr u, s2)"
    and p': "p' = with_input (fst (apply_patch pa (scan_participant s tenant row0)))
        (fst (normalize (snd (apply_patch pa (scan_participant s tenant row0))))) (scan_participant s tenant row0)"
    and row: "select (is_row p') (db_participants s2) = row # rest"
    "participant_violation s2 (delete_where (is_row p') (db_participants s2)) (write_registration en p' row) = None"
    "s' = s2\<lparr>db_participants := update_where (is_row p') (write_registration en p') (db_participants s2),
             db_audit := l\<rparr>"
    unfolding update_participant_def Let_def case_prod_beta
    by (elim act_elims) (hypsubst, blast)
  have id: "p_id (scan_participant s tenant row0) = pid"
    using select_one_SomeD [OF *] by (simp add: scan_participant_def)
  have team: "p_team_id (scan_participant s tenant row0) = p_team_id row0"
    by (simp add: scan_participant_def)
  have s2: "s2 = s" by (rule check_team_join_state [OF join])
  let ?inp = "fst (normalize (snd (apply_patch pa (scan_participant s tenant row0))))"
  have inp: "normalize (snd (apply_patch pa (scan_participant s tenant row0))) = (?inp, '''')"
    using *** by (simp only: prod_eq_iff fst_conv snd_conv)
  have val: "case validate ?inp race of None \<Rightarrow> True | Some e \<Rightarrow>
       is_team race \<and> i_team_id ?inp = None \<and> p_team_id row0 = None \<and> fe_field e = ''team_id''"
    using v unfolding team by (cases "validate ?inp race") (simp_all only: option.case option.distinct if_True if_False conj_assoc split: if_splits)
  show thesis
    by (rule that [OF * ** refl inp val join [unfolded id s2, simplified] p' row [unfolded s2]])
qed

lemma team_rows_update_one:
  assumes "unique_on part_pk ps" "row \<in> set ps" "q row" "\<And>r. q r \<Longrightarrow> p_id r = i"
    and "\<And>r. q r \<Longrightarrow> p_team_id (f r) = p_team_id p \<and> facets (f r) = facets p" and "i = p_id p"
  shows "team_rows t (update_where q f ps) \<subseteq>#
    (if in_team t p then {#facets p#} else {#}) + team_rows t (delete_where (\<lambda>r. p_id r = p_id p) ps)"
  using assms(1-3)
proof (induction ps)
  case (Cons a ps)
  show ?case
  proof (cases "q a")
    case True
    have other: "p_id r \<noteq> p_id p" if "r \<in> set ps" for r
      using Cons.prems(1) that assms(4) [OF True] assms(6) by (auto simp: part_pk_def list_all_iff)
    then have "\<not> q r" if "r \<in> set ps" for r using assms(4) [of r] assms(6) that by auto
    with other have "update_where q f ps = ps" "delete_where (\<lambda>r. p_id r = p_id p) ps = ps"
      by (auto simp: update_where_def delete_where_def intro!: map_idI filter_True)
    with True assms(4) [OF True] assms(5) [OF True] assms(6) show ?thesis
      by (simp add: update_where_def delete_where_def team_rows_Cons in_team_def)
  next
    case False
    with Cons.prems have row: "row \<in> set ps" by auto
    with Cons.prems(1,3) have "p_id a \<noteq> p_id p"
      using assms(4) [OF Cons.prems(3)] assms(6) by (auto simp: part_pk_def list_all_iff)
    then have "delete_where (\<lambda>r. p_id r = p_id p) (a # ps) = a # delete_where (\<lambda>r. p_id r = p_id p) ps"
      "update_where q f (a # ps) = a # update_where q f ps"
      using False by (simp_all add: update_where_def delete_where_def)
    moreover have "team_rows t (update_where q f ps) \<subseteq>#
        (if in_team t p then {#facets p#} else {#}) + team_rows t (delete_where (\<lambda>r. p_id r = p_id p) ps)"
      using Cons.IH Cons.prems(1,3) row by simp
    ultimately show ?thesis
      by (simp only: team_rows_Cons add.left_commute [of "if in_team t p then {#facets p#} else {#}"]
          subset_mset.add_left_mono)
  qed
qed simp

lemma keeps_entries_calls:
  "keeps entries_ok (create_participant en t e a role race inp)"
  "keeps entries_ok (update_participant en t e a role pid pa)"
  "keeps entries_ok (create_team en t e a role race name cat)"
  "keeps entries_ok (update_team en t e a role tid nm ct)"
  unfolding create_participant_def update_participant_def create_team_def update_team_def
  by (intro keeps_intros; simp)+

lemma fresh_id:
  assumes "participant_violation s (db_participants s) p = None"
  shows "delete_where (\<lambda>q. p_id q = p_id p) (db_participants s) = db_participants s"
  using violation_None [OF assms]
  by (auto simp: taken_def part_pk_def list_ex_iff delete_where_def intro: filter_True)

lemma keeps_rosters_create:
  assumes "env_ok en"
  shows "keeps rosters_ok (create_participant en tenant event actor role race_id inp0)"
proof (rule keeps_atomicI [OF atomic_create])
  fix s p s' assume ok: "rosters_ok s"
    and run: "create_participant en tenant event actor role race_id inp0 s = (Inr p, s')"
  from run show "rosters_ok s'"
  proof (rule create_participant_InrE)
    fix inp race l
    assume race: "race_formats s tenant event race_id = Some race" and val: "validate inp race = None"
      and join: "check_team_join tenant event race inp '''' s = (Inr (), s)"
      and p: "p = new_participant en (e_uuid en 0) tenant event race_id inp"
      and viol: "participant_violation s (db_participants s) p = None"
      and s': "s' = s\<lparr>db_participants := db_participants s @ [p], db_audit := l\<rparr>"
    note fresh = fresh_id [OF viol]
    have ids: "list_all (\<lambda>q. p_id q \<noteq> '''') (db_participants s)"
      using ok by (simp add: rosters_ok_def)
    have none: "delete_where (\<lambda>q. p_id q = '''') (db_participants s) = db_participants s"
      using ids by (auto simp: delete_where_def list_all_iff intro: filter_True)
    show ?thesis
    proof (rule rosters_ok_put [OF ok])
      show "entries_ok s'"
        using keepsD [OF keeps_entries_calls(1) _ run] ok by (simp add: rosters_ok_def)
      show "list_all (\<lambda>q. p_id q \<noteq> '''') (db_participants s')"
        using ids assms by (simp add: s' p new_participant_def env_ok_def)
      show "joins s p"
        by (rule joins_by_check [OF ok join race validate_team_given [OF val]])
          (simp_all add: p new_participant_def none fresh [unfolded p new_participant_def, simplified])
      show "team_rows t (db_participants s') \<subseteq># (if in_team t p then {#facets p#} else {#}) +
          team_rows t (delete_where (\<lambda>q. p_id q = p_id p) (db_participants s))" for t
        by (simp add: s' fresh team_rows_Cons)
    qed (simp_all add: s')
  qed
qed

lemma lenient_team_given:
  "case validate inp race of None \<Rightarrow> True | Some e \<Rightarrow>
       is_team race \<and> i_team_id inp = None \<and> c \<and> d e \<Longrightarrow>
     i_team_id inp = None \<or> is_team race"
  by (cases "validate inp race") (simp_all add: validate_team_given)

lemma keeps_rosters_update:
  "keeps rosters_ok (update_participant en tenant event actor role pid pa)"
proof (rule keeps_atomicI [OF atomic_update])
  fix s p' s' assume ok: "rosters_ok s"
    and run: "update_participant en tenant event actor role pid pa s = (Inr p', s')"
  from run show "rosters_ok s'"
  proof (rule update_participant_InrE)
    fix row0 inp race_id race row rest l
    assume row0: "select_one (\<lambda>p. p_tenant_id p = tenant \<and> p_event_id p = event \<and> p_id p = pid)
       (db_participants s) = Some row0"
      and race: "race_formats s tenant event race_id = Some race"
      and val: "case validate inp race of None \<Rightarrow> True | Some e \<Rightarrow>
       is_team race \<and> i_team_id inp = None \<and> p_team_id row0 = None \<and> fe_field e = ''team_id''"
      and join: "check_team_join tenant event race inp pid s = (Inr (), s)"
      and p': "p' = with_input race_id inp (scan_participant s tenant row0)"
      and hit: "select (is_row p') (db_participants s) = row # rest"
      and s': "s' = s\<lparr>db_participants := update_where (is_row p') (write_registration en p')
             (db_participants s), db_audit := l\<rparr>"
    have p'_eqs: "p_id p' = pid" "p_tenant_id p' = tenant" "p_event_id p' = event" "p_race_id p' = race_id"
      "p_team_id p' = i_team_id inp" "p_gender p' = i_gender inp"
      using select_one_SomeD [OF row0] by (auto simp: p' with_input_def scan_participant_def)
    have row: "row \<in> set (db_participants s)" "is_row p' row" using select_Cons_mem [OF hit] by auto
    have pk: "unique_on part_pk (db_participants s)"
      using ok by (simp add: rosters_ok_def entries_ok_def participants_indexed_def)
    show ?thesis
    proof (rule rosters_ok_put [OF ok])
      show "entries_ok s'"
        using keepsD [OF keeps_entries_calls(2) _ run] ok by (simp add: rosters_ok_def)
      show "list_all (\<lambda>q. p_id q \<noteq> '''') (db_participants s')"
        using ok by (auto simp: s' rosters_ok_def list_all_iff set_update_where write_registration_def)
      show "joins s p'"
        by (rule joins_by_check [OF ok join race lenient_team_given [OF val]])
          (simp_all add: p'_eqs)
      show "team_rows t (db_participants s') \<subseteq># (if in_team t p' then {#facets p'#} else {#}) +
          team_rows t (delete_where (\<lambda>q. p_id q = p_id p') (db_participants s))" for t
      proof -
        have rows: "db_participants s' =
            update_where (is_row p') (write_registration en p') (db_participants s)"
          by (simp add: s')
        show ?thesis
          unfolding rows
          by (rule team_rows_update_one [where i = "p_id p'" and row = row and q = "is_row p'"])
            (use pk row in \<open>simp_all add: is_row_def write_registration_def facets_def\<close>)
      qed
    qed (simp_all add: s')
  qed
qed

section \<open>The use cases that write a team\<close>

lemma atomic_create_team: "atomic (create_team en t e a role race name cat)"
  unfolding create_team_def by (intro atomic_intros)

lemma atomic_update_team: "atomic (update_team en t e a role tid nm ct)"
  unfolding update_team_def by (intro atomic_intros)

lemma create_team_InrE:
  assumes "create_team en tenant event actor role race_id name category s = (Inr t, s')"
  obtains race l where "race_formats s tenant event race_id = Some race"
    "validate_team name category race = None"
    "t_tenant_id t = tenant" "t_event_id t = event" "t_race_id t = race_id" "t_id t = e_uuid en 0"
    "t_gender_category t = category" "t_name t = trim_space name"
    "team_violation s (db_teams s) t = None" "s' = s\<lparr>db_teams := db_teams s @ [t], db_audit := l\<rparr>"
proof -
  let ?t = "\<lparr>t_id = e_uuid en 0, t_tenant_id = tenant, t_event_id = event, t_race_id = race_id,
             t_name = trim_space name, t_gender_category = category, t_status = StatusRegistered,
             t_gun_time_ms = None, t_net_time_ms = None, t_total_laps = None,
             t_overall_rank = None, t_category_rank = None,
             t_created_at = e_now en, t_updated_at = e_now en\<rparr>"
  from assms obtain race s2 l where *: "race_formats s tenant event race_id = Some race"
    "validate_team name category race = None" "t = ?t" "team_violation s (db_teams s) ?t = None"
    "s2 = s\<lparr>db_teams := db_teams s @ [?t]\<rparr>" "s' = s2\<lparr>db_audit := l\<rparr>"
    unfolding create_team_def Let_def
    by (elim act_elims) (hypsubst, blast)
  show thesis by (rule that [OF *(1,2)]) (use *(3-6) in simp_all)
qed

lemma update_team_InrE:
  assumes "update_team en tenant event actor role tid name category s = (Inr t, s')"
  obtains t0 race row rest l where
    "select_one (is_team_row tenant event tid) (db_teams s) = Some t0"
    "race_formats s tenant event (t_race_id t0) = Some race"
    "validate_team (or_keep name (t_name t0)) (or_keep category (t_gender_category t0)) race = None"
    "t = t0\<lparr>t_name := trim_space (or_keep name (t_name t0)),
            t_gender_category := or_keep category (t_gender_category t0)\<rparr>"
    "category = None \<or> (\<exists>ms. list_team_members tenant [tid] s = (Inr ms, s) \<and>
       fst (check_team_composition (t_gender_category t) (team_size_or_0 race) (map tm_gender ms)) = None)"
    "select (is_team_row tenant event tid) (db_teams s) = row # rest"
    "s' = s\<lparr>db_teams := update_where (is_team_row tenant event tid) (write_team en t) (db_teams s),
            db_audit := l\<rparr>"
proof -
  let ?t1 = "\<lambda>t0. t0\<lparr>t_name := or_keep name (t_name t0),
                    t_gender_category := or_keep category (t_gender_category t0)\<rparr>"
  let ?t2 = "\<lambda>t0. ?t1 t0\<lparr>t_name := trim_space (t_name (?t1 t0))\<rparr>"
  from assms obtain t0 race s2 s3 u row rest l where
    t0: "select_one (is_team_row tenant event tid) (db_teams s) = Some t0"
    and race0: "race_formats s tenant event (t_race_id (?t1 t0)) = Some race"
    and val0: "validate_team (t_name (?t1 t0)) (t_gender_category (?t1 t0)) race = None"
    and t0': "t = ?t2 t0"
    and comp0: "(if category = None then ret ()
            else and_then (list_team_members tenant [t_id (?t2 t0)]) (\<lambda>members.
              field_check (fst (check_team_composition (t_gender_category (?t2 t0))
                (team_size_or_0 race) (map tm_gender members))) (ret ()))) s = (Inr u, s2)"
    and hit0: "select (is_team_row (t_tenant_id (?t2 t0)) (t_event_id (?t2 t0)) (t_id (?t2 t0))) (db_teams s2) = row # rest"
      "s3 = s2\<lparr>db_teams := update_where (is_team_row (t_tenant_id (?t2 t0)) (t_event_id (?t2 t0)) (t_id (?t2 t0)))
         (write_team en (?t2 t0)) (db_teams s2)\<rparr>"
      "s' = s3\<lparr>db_audit := db_audit s3 @ [l]\<rparr>"
    unfolding update_team_def Let_def
    by (elim act_elims) (hypsubst, blast)
  define upd where "upd = (\<lambda>t0. t0\<lparr>t_name := trim_space (or_keep name (t_name t0)),
            t_gender_category := or_keep category (t_gender_category t0)\<rparr> :: team)"
  have t: "t = upd t0" by (simp add: t0' upd_def)
  have race: "race_formats s tenant event (t_race_id t0) = Some race"
    and val: "validate_team (or_keep name (t_name t0)) (or_keep category (t_gender_category t0)) race = None"
    using race0 val0 by simp_all
  have comp: "(if category = None then ret ()
            else and_then (list_team_members tenant [t_id t0]) (\<lambda>members.
              field_check (fst (check_team_composition (or_keep category (t_gender_category t0))
                (team_size_or_0 race) (map tm_gender members))) (ret ()))) s = (Inr u, s2)"
    using comp0 by (simp cong: if_cong split del: if_split)
  have hit: "select (is_team_row (t_tenant_id t0) (t_event_id t0) (t_id t0)) (db_teams s2) = row # rest"
    "s' = s2\<lparr>db_teams := update_where (is_team_row (t_tenant_id t0) (t_event_id t0) (t_id t0))
         (write_team en t) (db_teams s2), db_audit := db_audit s2 @ [l]\<rparr>"
    using hit0 t0' by simp_all
  have id: "t_tenant_id t0 = tenant" "t_event_id t0 = event" "t_id t0 = tid"
    using select_one_SomeD [OF t0] by (simp_all add: is_team_row_def)
  have "s2 = s \<and> (category = None \<or> (\<exists>ms. list_team_members tenant [tid] s = (Inr ms, s) \<and>
       fst (check_team_composition (or_keep category (t_gender_category t0)) (team_size_or_0 race)
         (map tm_gender ms)) = None))"
  proof (cases "category = None")
    case True
    with comp show ?thesis by (simp add: act_simps)
  next
    case False
    from comp obtain ms where ms: "list_team_members tenant [tid] s = (Inr ms, s2)"
      "fst (check_team_composition (or_keep category (t_gender_category t0)) (team_size_or_0 race)
         (map tm_gender ms)) = None"
      unfolding id if_not_P [OF False] by (elim act_elims) simp
    with listed_others(1) [OF ms(1)] show ?thesis by blast
  qed
  then have s2: "s2 = s" and cond: "category = None \<or> (\<exists>ms. list_team_members tenant [tid] s = (Inr ms, s) \<and>
       fst (check_team_composition (t_gender_category t) (team_size_or_0 race) (map tm_gender ms)) = None)"
    by (simp_all add: t upd_def)
  show thesis
    by (rule that [OF t0 race val t [unfolded upd_def] cond hit [unfolded id s2]])
qed

lemma no_members_of_fresh_team:
  assumes "entries_ok s" "team_violation s (db_teams s) t = None"
  shows "filter (in_team (t_id t)) (db_participants s) = []"
proof -
  have fresh: "t_id u \<noteq> t_id t" if "u \<in> set (db_teams s)" for u
    using team_violation_None [OF assms(2)] that by (auto simp: taken_def team_pk_def list_ex_iff)
  have "\<not> in_team (t_id t) p" if "p \<in> set (db_participants s)" for p
  proof
    assume "in_team (t_id t) p"
    moreover have "participant_refs_ok s p" using assms(1) that by (simp add: entries_ok_def list_all_iff)
    ultimately have "list_ex (\<lambda>u. t_id u = t_id t) (db_teams s)"
      by (simp add: participant_refs_ok_def in_team_def)
    with fresh show False by (auto simp: list_ex_iff)
  qed
  then show ?thesis by (simp add: filter_empty_conv)
qed

lemma roster_ok_empty: "roster_ok c n []"
proof -
  have "n \<le> 0 \<or> int (length ([] :: gender list)) \<le> n" by auto
  then show ?thesis by (auto simp: roster_ok_def check_team_composition_def)
qed

lemma keeps_rosters_create_team:
  "keeps rosters_ok (create_team en tenant event actor role race_id name category)"
proof (rule keeps_atomicI [OF atomic_create_team])
  fix s t s' assume ok: "rosters_ok s"
    and run: "create_team en tenant event actor role race_id name category s = (Inr t, s')"
  from run show "rosters_ok s'"
  proof (rule create_team_InrE)
    fix race l
    assume race: "race_formats s tenant event race_id = Some race"
      and val: "validate_team name category race = None"
      and t: "t_tenant_id t = tenant" "t_event_id t = event" "t_race_id t = race_id"
      and viol: "team_violation s (db_teams s) t = None"
      and s': "s' = s\<lparr>db_teams := db_teams s @ [t], db_audit := l\<rparr>"
    have ent: "entries_ok s" using ok by (simp add: rosters_ok_def)
    have eq: "team_ok s' = team_ok s" by (rule team_ok_cong) (simp_all add: s')
    have "is_team race" using val by (simp add: validate_team_def split: if_splits)
    then have "team_ok s t"
      by (simp add: team_ok_def t race no_members_of_fresh_team [OF ent viol] roster_ok_empty)
    moreover have "entries_ok s'" using keepsD [OF keeps_entries_calls(3) ent run] .
    ultimately show ?thesis using ok unfolding rosters_ok_def eq by (simp add: s')
  qed
qed

lemma keeps_rosters_update_team:
  "keeps rosters_ok (update_team en tenant event actor role tid name category)"
proof (rule keeps_atomicI [OF atomic_update_team])
  fix s t s' assume ok: "rosters_ok s"
    and run: "update_team en tenant event actor role tid name category s = (Inr t, s')"
  have ent: "entries_ok s" using ok by (simp add: rosters_ok_def)
  from run show "rosters_ok s'"
  proof (rule update_team_InrE)
    fix t0 race row rest l
    assume t0: "select_one (is_team_row tenant event tid) (db_teams s) = Some t0"
      and race: "race_formats s tenant event (t_race_id t0) = Some race"
      and t: "t = t0\<lparr>t_name := trim_space (or_keep name (t_name t0)),
            t_gender_category := or_keep category (t_gender_category t0)\<rparr>"
      and comp: "category = None \<or> (\<exists>ms. list_team_members tenant [tid] s = (Inr ms, s) \<and>
        fst (check_team_composition (t_gender_category t) (team_size_or_0 race) (map tm_gender ms)) = None)"
      and s': "s' = s\<lparr>db_teams := update_where (is_team_row tenant event tid) (write_team en t) (db_teams s),
            db_audit := l\<rparr>"
    have place: "t_tenant_id t0 = tenant" "t_event_id t0 = event" "t_id t0 = tid" "t0 \<in> set (db_teams s)"
      using select_one_SomeD [OF t0] by (auto simp: is_team_row_def)
    have eq: "team_ok s' = team_ok s" by (rule team_ok_cong) (simp_all add: s')
    have old: "team_ok s t0" using ok place(4) unfolding rosters_ok_def list_all_iff by blast
    let ?members = "filter (in_team tid) (db_participants s)"
    have r: "roster_ok (t_gender_category t0) (team_size_or_0 race) (map p_gender ?members)"
      and team: "is_team race"
      using old unfolding team_ok_def place race by auto
    have "roster_ok (t_gender_category t) (team_size_or_0 race) (map p_gender ?members)"
    proof (cases "category = None")
      case True
      with r show ?thesis by (simp add: t or_keep_def)
    next
      case False
      with comp obtain ms where ms: "list_team_members tenant [tid] s = (Inr ms, s)"
        "fst (check_team_composition (t_gender_category t) (team_size_or_0 race) (map tm_gender ms)) = None"
        by blast
      have "p_tenant_id p = tenant" if "p \<in> set (db_participants s)" "in_team tid p" for p
        using old that unfolding team_ok_def list_all_iff place by auto
      then have "mset ms = image_mset team_member_of (mset ?members)"
        unfolding listed_members(2) [OF ms(1)] mset_filter
        by (intro arg_cong [where f = "image_mset team_member_of"] filter_mset_cong) auto
      then have eq: "mset (map tm_gender ms) = mset (map p_gender ?members)"
        by (simp add: image_mset.compositionality comp_def)
      have len: "length (map tm_gender ms) = length (map p_gender ?members)"
        by (rule mset_eq_length [OF eq])
      have "roster_ok (t_gender_category t) (team_size_or_0 race) (map tm_gender ms)"
        using r ms(2) unfolding roster_ok_def len by (elim conjE) (intro conjI)
      then show ?thesis by (rule roster_ok_sub) (simp only: eq subset_mset.order_refl)
    qed
    then have new: "team_ok s (write_team en t t0)"
      using old team unfolding team_ok_def by (simp add: write_team_def place race)
    have "entries_ok s'" using keepsD [OF keeps_entries_calls(4) ent run] .
    moreover have "team_ok s u" if u: "u \<in> set (db_teams s')" for u
    proof -
      from u consider "u \<in> set (db_teams s)"
        | row where "row \<in> set (db_teams s)" "t_id row = tid" "u = write_team en t row"
        by (auto simp: s' set_update_where is_team_row_def)
      then show ?thesis
      proof cases
        case 2
        with unique_team [OF ent t0 2(1,2)] new show ?thesis by simp
      qed (use ok in \<open>simp add: rosters_ok_def list_all_iff\<close>)
    qed
    ultimately show ?thesis using ok unfolding rosters_ok_def eq by (simp add: s' list_all_iff)
  qed
qed

section \<open>Every use case keeps the rosters\<close>

text \<open>Every call of the service except the import.\<close>

fun is_import :: "participant_call \<Rightarrow> bool" where
  "is_import (ImportCall role req) = True"
| "is_import c = False"

lemma keeps_rosters_call:
  "env_ok en \<Longrightarrow> \<not> is_import c \<Longrightarrow> keeps rosters_ok (run_call en tenant event actor c)"
  by (cases c) (simp_all only: run_call.simps discard_def is_import.simps delete_participants_def
    set_status_def export_participants_def participants_matching_def delete_team_def not_True_eq_False,
    (intro keeps_intros keeps_rosters_create keeps_rosters_update keeps_rosters_create_team
      keeps_rosters_update_team; simp)+)


text \<open>C4: no history of calls other than the import breaks a team: a team never has more members than its
race's team size, its members pass the composition rule, and every member runs the team's own race in the
team's own event, whichever of create, update, delete, status change, export, team creation, team update or
team deletion is called, in any order and with any arguments. The import is left out because it can overfill
a team (\<open>import_team_overfull\<close>). Identifiers are non-empty, as generated UUIDs are.\<close>

theorem team_rosters_hold:
  assumes "rosters_ok s"
    and "list_all (\<lambda>(en, t, e, a, c). env_ok en \<and> \<not> is_import c) cs"
  shows "rosters_ok (run_calls cs s)"
  using assms
proof (induction cs arbitrary: s)
  case (Cons x cs)
  obtain en t e a c where x: "x = (en, t, e, a, c)" by (cases x)
  with Cons.prems have "keeps rosters_ok (run_call en t e a c)"
    by (intro keeps_rosters_call) simp_all
  then have "rosters_ok (snd (run_call en t e a c s))"
    using Cons.prems(1) by (simp add: keeps_def)
  with Cons x show ?case by simp
qed simp

lemma demo_env_ok: "c \<noteq> '''' \<Longrightarrow> env_ok (demo_env c)"
  by (simp add: env_ok_def demo_env_def)

lemma demo_db_rosters: "rosters_ok demo_db"
  by code_simp

text \<open>In the example the third call, a second woman in a mixed team of two, fails on the
composition rule; the fourth completes the team.\<close>

theorem team_rosters_hold_witness:
  "rosters_ok (run_calls demo_calls demo_db)"
  by (rule team_rosters_hold [OF demo_db_rosters])
    (simp add: demo_calls_def demo_env_ok)

end
