(* ===== verification/Participant_Listing.thy ===== *)
theory Participant_Listing
  imports Participant_Props
begin

text \<open>
  The listings of participants and teams as keyset listings: the queries of
  \<open>ListParticipants\<close> and \<open>ListTeams\<close> satisfy the contract of \<open>Pagination\<close>, so a client that
  follows the cursors reads every row once and in order.
\<close>

section \<open>Participants in BIB order\<close>

definition bibs_ok :: "db \<times> string \<times> string \<times> list_filter \<Rightarrow> bool" where
  "bibs_ok q = (case q of (s, tenant, event, f) \<Rightarrow>
     entries_ok s \<and> list_all (\<lambda>p. in_int32 (p_bib_number p)) (db_participants s))"

lemma scan_bib [simp]: "p_bib_number (scan_participant s t p) = p_bib_number p"
  by (simp add: scan_participant_def)

lemma select_and: "select (\<lambda>p. P p \<and> Q p) t = filter Q (select P t)"
  by (simp add: select_def conj_commute)

lemma in_int32_64: "in_int32 i \<Longrightarrow> in_int64 i"
  by (simp add: in_int32_def in_int64_def min_int64_def max_int64_def)

lemma distinct_keys:
  assumes "unique_on key t" "\<And>r. r \<in> set t \<Longrightarrow> P r \<Longrightarrow> key r = Some (h (f r))" "inj h"
  shows "distinct (map f (select P t))"
  using assms(1,2)
proof (induction t)
  case (Cons a t)
  have "f a \<notin> f ` set (select P t)" if "P a"
  proof
    assume "f a \<in> f ` set (select P t)"
    then obtain b where b: "b \<in> set t" "P b" "f b = f a" by (auto simp: set_select)
    then have "key b = key a" using Cons.prems(2) [of a] Cons.prems(2) [of b] that by simp
    with Cons.prems b that show False by (auto simp: list_all_iff)
  qed
  with Cons show ?case by (auto simp: select_def)
qed (simp add: select_def)

lemma where_is_selects [simp]:
  "clause_holds (list_filter_where f tenant event) = filter_selects f tenant event"
  by (rule ext) simp

lemma participants_after_cursor:
  assumes "bibs_ok (s, tenant, event, f)" and "participants_after (s, tenant, event, f) '''' = xs @ r # ys"
  shows "participants_after (s, tenant, event, f) (encode_bib_cursor (p_bib_number r)) = ys"
proof -
  let ?P = "filter_selects f tenant event"
  let ?L = "sort_key p_bib_number (select ?P (db_participants s))"
  have all: "map (scan_participant s tenant) ?L = xs @ r # ys"
    using assms(2) by (simp add: participants_after_def empty_cursors)
  then have "r \<in> set (map (scan_participant s tenant) ?L)" by simp
  then have "in_int64 (p_bib_number r)"
    using assms(1) by (auto simp: bibs_ok_def set_select list_all_iff intro!: in_int32_64)
  then have dec: "decode_bib_cursor (encode_bib_cursor (p_bib_number r)) = Some (p_bib_number r)"
    by (rule bib_cursor_roundtrip)
  have "distinct (map p_bib_number (select ?P (db_participants s)))"
  proof (rule distinct_keys [where key = part_bib_key and h = "\<lambda>b. (event, b)"])
    show "unique_on part_bib_key (db_participants s)"
      using assms(1) by (simp add: bibs_ok_def entries_ok_def participants_indexed_def)
    show "part_bib_key p = Some (event, p_bib_number p)" if "?P p" for p
      using that by (simp add: part_bib_key_def filter_selects_def)
  qed (simp add: inj_def)
  then have "sorted_wrt (\<lambda>a b. p_bib_number a < p_bib_number b) ?L" by (rule sorted_strict)
  then have "sorted_wrt (\<lambda>a b. p_bib_number a < p_bib_number b) (map (scan_participant s tenant) ?L)"
    by (simp add: sorted_wrt_map)
  then have srt: "sorted_wrt (\<lambda>a b. p_bib_number a < p_bib_number b) (xs @ r # ys)"
    by (simp only: all)
  have "participants_after (s, tenant, event, f) (encode_bib_cursor (p_bib_number r)) =
      map (scan_participant s tenant) (filter (\<lambda>p. p_bib_number r < p_bib_number p) ?L)"
    by (simp add: participants_after_def dec select_and filter_sort_key)
  also have "\<dots> = filter (\<lambda>p. p_bib_number r < p_bib_number p) (map (scan_participant s tenant) ?L)"
    by (simp add: filter_map comp_def)
  also have "\<dots> = ys"
    unfolding all by (rule filter_after_sorted [OF srt]) simp
  finally show ?thesis .
qed

interpretation participants: keyset_listing participants_after "\<lambda>p. encode_bib_cursor (p_bib_number p)" bibs_ok
proof
  show "participants_after q (encode_bib_cursor (p_bib_number r)) = ys"
    if "bibs_ok q" "participants_after q '''' = xs @ r # ys" for q xs r ys
    using that by (cases q) (simp only: participants_after_cursor)
  show "encode_bib_cursor (p_bib_number r) \<noteq> ''''" for r :: participant
    using cursors_nonempty by simp
qed

text \<open>A client that reads the pages of \<open>ListParticipants\<close> until there is no next cursor: \<open>None\<close> when a
request fails or \<open>n\<close> requests do not get to the end.\<close>

fun read_participants ::
  "nat \<Rightarrow> db \<Rightarrow> string \<Rightarrow> string \<Rightarrow> list_filter \<Rightarrow> int \<Rightarrow> string \<Rightarrow> participant list option" where
  "read_participants 0 s tenant event f limit c = None"
| "read_participants (Suc n) s tenant event f limit c =
     (case list_participants_call tenant event f \<lparr>pg_limit = limit, pg_cursor = c\<rparr> s of
        (Inl e, s') \<Rightarrow> None
      | (Inr p, s') \<Rightarrow> if pg_next_cursor p = '''' then Some (pg_items p)
          else map_option ((@) (pg_items p)) (read_participants n s' tenant event f limit (pg_next_cursor p)))"

lemma list_participants_fetch:
  "tenant \<noteq> '''' \<Longrightarrow> list_participants_call tenant event f pg s =
     (Inr (participants.fetch (s, tenant, event, f) (normalize_limit pg) (pg_cursor pg)), s)"
  by (simp add: list_participants_call_def with_tenant_tx_def with_tx_def list_participants_def Let_def
      act_simps participants.fetch_def)

lemma read_participants_walk:
  "tenant \<noteq> '''' \<Longrightarrow> read_participants n s tenant event f limit c =
     participants.walk n (s, tenant, event, f) (normalize_limit \<lparr>pg_limit = limit, pg_cursor = c\<rparr>) c"
  by (induction n arbitrary: c) (simp_all add: list_participants_fetch normalize_limit_def Let_def)

definition limit_of :: "int \<Rightarrow> nat" where
  "limit_of l = normalize_limit \<lparr>pg_limit = l, pg_cursor = ''''\<rparr>"

lemma normalize_limit_of: "normalize_limit \<lparr>pg_limit = l, pg_cursor = c\<rparr> = limit_of l"
  by (simp add: normalize_limit_def limit_of_def)



text \<open>Three participants, read two at a time.\<close>

definition demo_solo :: "string \<Rightarrow> string \<Rightarrow> int \<Rightarrow> participant" where
  "demo_solo pid name bib =
     new_participant (demo_env pid) pid ''t'' ''e'' ''r1''
       ((demo_input name bib 1 GenderMale)\<lparr>i_team_id := None, i_leg_order := None\<rparr>)"

definition demo_field :: db where
  "demo_field = demo_db\<lparr>db_participants :=
     [demo_solo ''c'' ''Cid'' 30, demo_solo ''a'' ''Ann'' 10, demo_solo ''b'' ''Bob'' 20]\<rparr>"

lemma demo_field_entries:
  "entries_ok demo_field" "list_all (\<lambda>p. in_int32 (p_bib_number p)) (db_participants demo_field)"
  by code_simp+


section \<open>Teams by name\<close>

definition team_ids_ok :: "db \<times> string \<times> string \<times> team_filter \<Rightarrow> bool" where
  "team_ids_ok q = (case q of (s, tenant, event, f) \<Rightarrow>
     entries_ok s \<and> list_all (\<lambda>t. t_id t \<noteq> '''' \<and> CHR ''|'' \<notin> set (t_id t)) (db_teams s))"

lemma teams_after_cursor:
  assumes "team_ids_ok (s, tenant, event, f)" and "teams_after (s, tenant, event, f) '''' = xs @ r # ys"
  shows "teams_after (s, tenant, event, f) (encode_team_cursor (t_name r) (t_id r)) = ys"
proof -
  let ?k = "\<lambda>t. (t_name t, t_id t)"
  let ?P = "team_filter_holds f tenant event s"
  let ?L = "sort_key ?k (select ?P (db_teams s))"
  have all: "?L = xs @ r # ys"
    using assms(2) by (simp add: teams_after_def empty_cursors)
  then have "r \<in> set ?L" by simp
  then have "t_id r \<noteq> ''''" "CHR ''|'' \<notin> set (t_id r)"
    using assms(1) by (auto simp: team_ids_ok_def set_select list_all_iff)
  then have dec: "decode_team_cursor (encode_team_cursor (t_name r) (t_id r)) = Some (t_name r, t_id r)"
    by (intro team_cursor_roundtrip)
  have "distinct (map ?k (select ?P (db_teams s)))"
  proof -
    have "distinct (map t_id (select ?P (db_teams s)))"
    proof (rule distinct_keys [where key = team_pk and h = "\<lambda>x. x"])
      show "unique_on team_pk (db_teams s)"
        using assms(1) by (simp add: team_ids_ok_def entries_ok_def teams_indexed_def)
    qed (simp_all add: team_pk_def)
    then show ?thesis by (auto simp: distinct_map inj_on_def)
  qed
  then have "sorted_wrt (\<lambda>a b. ?k a < ?k b) ?L" by (rule sorted_strict)
  then have srt: "sorted_wrt (\<lambda>a b. ?k a < ?k b) (xs @ r # ys)" by (simp only: all)
  have "teams_after (s, tenant, event, f) (encode_team_cursor (t_name r) (t_id r)) =
      filter (\<lambda>t. ?k r < ?k t) ?L"
    by (simp only: teams_after_def prod.case dec option.case select_and filter_sort_key)
  also have "\<dots> = ys"
    unfolding all by (rule filter_after_sorted [OF srt]) (rule less_not_sym)
  finally show ?thesis .
qed

interpretation teams: keyset_listing teams_after "\<lambda>t. encode_team_cursor (t_name t) (t_id t)" team_ids_ok
proof
  show "teams_after q (encode_team_cursor (t_name r) (t_id r)) = ys"
    if "team_ids_ok q" "teams_after q '''' = xs @ r # ys" for q xs r ys
    using that by (cases q) (simp only: teams_after_cursor)
  show "encode_team_cursor (t_name r) (t_id r) \<noteq> ''''" for r :: team
    using cursors_nonempty by simp
qed

text \<open>A client that reads the pages of \<open>ListTeams\<close>; it keeps the teams and drops their members.\<close>

fun read_teams :: "nat \<Rightarrow> db \<Rightarrow> string \<Rightarrow> string \<Rightarrow> team_filter \<Rightarrow> int \<Rightarrow> string \<Rightarrow> team list option" where
  "read_teams 0 s tenant event f limit c = None"
| "read_teams (Suc n) s tenant event f limit c =
     (case list_teams_call tenant event f \<lparr>pg_limit = limit, pg_cursor = c\<rparr> s of
        (Inl e, s') \<Rightarrow> None
      | (Inr p, s') \<Rightarrow> if pg_next_cursor p = '''' then Some (map fst (pg_items p))
          else map_option ((@) (map fst (pg_items p))) (read_teams n s' tenant event f limit (pg_next_cursor p)))"

lemma list_teams_fetch:
  "list_teams tenant event f pg s =
     (Inr (teams.fetch (s, tenant, event, f) (normalize_limit pg) (pg_cursor pg)), s)"
  by (simp add: list_teams_def act_simps teams.fetch_def Let_def)

lemma list_team_members_reads:
  obtains ms where "list_team_members tenant ids s = (Inr ms, s)"
  by (cases "ids = []") (simp_all add: list_team_members_def act_simps)

lemma list_teams_call_fetch:
  assumes "tenant \<noteq> ''''"
  obtains ms where "list_teams_call tenant event f pg s =
    (Inr \<lparr>pg_items = map (\<lambda>t. (t, filter (\<lambda>m. tm_team_id m = t_id t) ms))
            (pg_items (teams.fetch (s, tenant, event, f) (normalize_limit pg) (pg_cursor pg))),
          pg_next_cursor =
            pg_next_cursor (teams.fetch (s, tenant, event, f) (normalize_limit pg) (pg_cursor pg))\<rparr>, s)"
proof -
  let ?p = "teams.fetch (s, tenant, event, f) (normalize_limit pg) (pg_cursor pg)"
  obtain ms where ms: "list_team_members tenant (map t_id (pg_items ?p)) s = (Inr ms, s)"
    by (rule list_team_members_reads)
  show thesis
    by (rule that [of ms])
      (use assms in \<open>simp add: list_teams_call_def with_tenant_tx_def with_tx_def and_then_def
        list_teams_fetch ms ret_def\<close>)
qed

lemma read_teams_walk:
  assumes "tenant \<noteq> ''''"
  shows "read_teams n s tenant event f limit c =
     teams.walk n (s, tenant, event, f) (normalize_limit \<lparr>pg_limit = limit, pg_cursor = c\<rparr>) c"
proof (induction n arbitrary: c)
  case (Suc n)
  obtain ms where "list_teams_call tenant event f \<lparr>pg_limit = limit, pg_cursor = c\<rparr> s =
    (Inr \<lparr>pg_items = map (\<lambda>t. (t, filter (\<lambda>m. tm_team_id m = t_id t) ms))
            (pg_items (teams.fetch (s, tenant, event, f)
               (normalize_limit \<lparr>pg_limit = limit, pg_cursor = c\<rparr>) c)),
          pg_next_cursor = pg_next_cursor (teams.fetch (s, tenant, event, f)
               (normalize_limit \<lparr>pg_limit = limit, pg_cursor = c\<rparr>) c)\<rparr>, s)"
    by (rule list_teams_call_fetch [OF assms, where pg = "\<lparr>pg_limit = limit, pg_cursor = c\<rparr>"]) simp
  then show ?case
    by (simp add: Suc Let_def comp_def normalize_limit_of map_option.compositionality)
qed simp

text \<open>A client that follows the cursors of \<open>ListTeams\<close> reads exactly the teams that match, each
once and in the order of their names, teams of the same name in different races included.\<close>

theorem team_pages_complete:
  assumes "tenant \<noteq> ''''" and "entries_ok s"
    and "list_all (\<lambda>t. t_id t \<noteq> '''' \<and> CHR ''|'' \<notin> set (t_id t)) (db_teams s)"
    and "n = length (select (team_filter_holds f tenant event s) (db_teams s))"
  shows "read_teams (Suc n) s tenant event f limit '''' =
     Some (sort_key (\<lambda>t. (t_name t, t_id t)) (select (team_filter_holds f tenant event s) (db_teams s)))"
proof -
  have all: "teams_after (s, tenant, event, f) '''' =
     sort_key (\<lambda>t. (t_name t, t_id t)) (select (team_filter_holds f tenant event s) (db_teams s))"
    by (simp add: teams_after_def empty_cursors)
  have len: "length (teams_after (s, tenant, event, f) '''') = n"
    unfolding all assms(4) by simp
  have "teams.walk (Suc n) (s, tenant, event, f)
      (normalize_limit \<lparr>pg_limit = limit, pg_cursor = ''''\<rparr>) '''' = Some (teams_after (s, tenant, event, f) '''')"
    unfolding len [symmetric]
    by (rule teams.walk_complete) (simp_all add: team_ids_ok_def assms normalize_limit_bounds)
  then show ?thesis using assms(1) by (simp only: read_teams_walk all not_False_eq_True)
qed

definition demo_teams :: db where
  "demo_teams = demo_db\<lparr>db_teams := map (\<lambda>(i, n).
     planned_team_row (demo_env i) 0 ''t'' ''e'' \<lparr>pt_key = n, pt_race_id = ''r1'', pt_name = n,
       pt_category = CategoryMixed\<rparr>) [(''c'', ''Cobra''), (''a'', ''Bison''), (''b'', ''Ant'')]\<rparr>"

definition any_team :: team_filter where
  "any_team = \<lparr>tf_race_id = '''', tf_gender_category = '''', tf_query = ''''\<rparr>"

theorem team_pages_complete_witness:
  "read_teams (Suc 3) demo_teams ''t'' ''e'' any_team 2 '''' =
     Some (sort_key (\<lambda>t. (t_name t, t_id t)) (select (team_filter_holds any_team ''t'' ''e'' demo_teams) (db_teams demo_teams))) \<and>
   map_option (map t_name) (read_teams (Suc 3) demo_teams ''t'' ''e'' any_team 2 '''') = Some [''Ant'', ''Bison'', ''Cobra'']"
proof
  have "length (select (team_filter_holds any_team ''t'' ''e'' demo_teams) (db_teams demo_teams)) = 3"
    "entries_ok demo_teams"
    "list_all (\<lambda>t. t_id t \<noteq> '''' \<and> CHR ''|'' \<notin> set (t_id t)) (db_teams demo_teams)"
    by code_simp+
  then show "read_teams (Suc 3) demo_teams ''t'' ''e'' any_team 2 '''' =
     Some (sort_key (\<lambda>t. (t_name t, t_id t)) (select (team_filter_holds any_team ''t'' ''e'' demo_teams) (db_teams demo_teams)))"
    by (intro team_pages_complete) simp_all
  show "map_option (map t_name) (read_teams (Suc 3) demo_teams ''t'' ''e'' any_team 2 '''') = Some [''Ant'', ''Bison'', ''Cobra'']"
    by code_simp
qed

end
