(* ===== verification/Event_Repo.thy ===== *)
theory Event_Repo
  imports Participant_Repo
begin

text \<open>
  \<open>internal/event/repository.go\<close>: the statements on events and races, with the unique indexes
  and foreign keys of migrations 0006, 0012 and 0021.
\<close>

section \<open>Constraints\<close>

text \<open>A unique violation is \<open>ErrAlreadyExists\<close>; every other error of the database is passed on.\<close>

definition exists_error :: "sql_error \<Rightarrow> go_error" where
  "exists_error e =
     (case e of
        UniqueViolation c \<Rightarrow> Sentinel ErrAlreadyExists
      | ForeignKeyViolation c \<Rightarrow> Other (''pq: violates foreign key constraint '' @ c)
      | OutOfRange \<Rightarrow> Other ''pq: value out of range'')"

definition exists_check :: "sql_error option \<Rightarrow> ('s, go_error, unit) act" where
  "exists_check v = on_error (map_option exists_error v) (ret ())"

definition event_pk :: "event_row \<Rightarrow> string option" where
  "event_pk e = Some (ev_id e)"

definition event_slug_key :: "event_row \<Rightarrow> string option" where
  "event_slug_key e = Some (ev_slug e)"

definition race_pk :: "race_row \<Rightarrow> string option" where
  "race_pk r = Some (ra_id r)"

definition race_slug_key :: "race_row \<Rightarrow> (string \<times> string) option" where
  "race_slug_key r = Some (ra_event_id r, ra_slug r)"

text \<open>
  The first constraint a row would violate. \<open>events_slug_uk\<close> (global) subsumes the older index per
  tenant. \<open>objects\<close> tells which storage objects exist: that table belongs to another component.
\<close>

definition event_violation :: "(string \<Rightarrow> bool) \<Rightarrow> db \<Rightarrow> event_row list \<Rightarrow> event_row \<Rightarrow> sql_error option" where
  "event_violation objects s others e =
     (if taken event_pk others e then Some (UniqueViolation ''events_pkey'')
      else if taken event_slug_key others e then Some (UniqueViolation ''events_slug_uk'')
      else if \<not> list_ex (\<lambda>t. tn_id t = ev_tenant_id e) (db_tenants s)
        then Some (ForeignKeyViolation ''events_tenant_id_fkey'')
      else if \<not> list_ex (\<lambda>u. us_id u = ev_created_by e) (db_users s)
        then Some (ForeignKeyViolation ''events_created_by_fkey'')
      else if (case ev_logo_storage_id e of None \<Rightarrow> False | Some x \<Rightarrow> \<not> objects x)
        then Some (ForeignKeyViolation ''events_logo_storage_id_fkey'')
      else if (case ev_thumbnail_storage_id e of None \<Rightarrow> False | Some x \<Rightarrow> \<not> objects x)
        then Some (ForeignKeyViolation ''events_thumbnail_storage_id_fkey'')
      else None)"

text \<open>\<open>NUMERIC(6,2)\<close>: rounded to hundredths, half away from zero, at most four digits before the
point.\<close>

definition round_half_away :: "rat \<Rightarrow> int" where
  "round_half_away q = (if q \<ge> 0 then \<lfloor>q + 1 / 2\<rfloor> else - \<lfloor>- q + 1 / 2\<rfloor>)"

definition numeric_6_2 :: "rat \<Rightarrow> rat option" where
  "numeric_6_2 q =
     (let cents = round_half_away (q * 100)
      in if \<bar>cents\<bar> < 1000000 then Some (of_int cents / 100) else None)"

text \<open>A column of an optional value, with the conversion of its type.\<close>

fun column :: "('a \<Rightarrow> 'b option) \<Rightarrow> 'a option \<Rightarrow> 'b option option" where
  "column f None = Some None"
| "column f (Some x) = map_option Some (f x)"

definition integer_4 :: "int \<Rightarrow> int option" where
  "integer_4 i = (if in_int32 i then Some i else None)"

definition integer_8 :: "int \<Rightarrow> int option" where
  "integer_8 i = (if in_int64 i then Some i else None)"

text \<open>The row as the columns of \<open>races\<close> store it.\<close>

definition race_columns :: "race_row \<Rightarrow> race_row option" where
  "race_columns r =
     (case (column numeric_6_2 (ra_distance_km r), column integer_4 (rc_team_size (ra_format r)),
            column numeric_6_2 (rc_loop_length_km (ra_format r)),
            column integer_4 (rc_loop_target_laps (ra_format r)),
            column integer_8 (rc_loop_time_limit_ms (ra_format r))) of
        (Some d, Some ts, Some len, Some laps, Some ms) \<Rightarrow>
          Some (r\<lparr>ra_distance_km := d, ra_format := (ra_format r)\<lparr>rc_team_size := ts,
            rc_loop_length_km := len, rc_loop_target_laps := laps, rc_loop_time_limit_ms := ms\<rparr>\<rparr>)
      | _ \<Rightarrow> None)"

definition race_violation :: "db \<Rightarrow> race_row list \<Rightarrow> race_row \<Rightarrow> sql_error option" where
  "race_violation s others r =
     (if race_columns r = None then Some OutOfRange
      else if taken race_pk others r then Some (UniqueViolation ''races_pkey'')
      else if taken race_slug_key others r then Some (UniqueViolation ''races_event_slug_uk'')
      else if \<not> list_ex (\<lambda>t. tn_id t = ra_tenant_id r) (db_tenants s)
        then Some (ForeignKeyViolation ''races_tenant_id_fkey'')
      else if \<not> list_ex (\<lambda>e. ev_id e = ra_event_id r) (db_events s)
        then Some (ForeignKeyViolation ''races_event_id_fkey'')
      else None)"

definition as_stored :: "race_row \<Rightarrow> race_row" where
  "as_stored r = (case race_columns r of None \<Rightarrow> r | Some r' \<Rightarrow> r')"

lemma exists_check_InrE [act_elims]:
  assumes "exists_check v s = (Inr a, s')"
  obtains "v = None" "s' = s"
  using assms by (cases v) (simp_all add: exists_check_def act_simps)

lemma keeps_exists_check [keeps_intros]: "keeps I (exists_check v)"
  unfolding exists_check_def by (intro keeps_intros)

section \<open>Events\<close>

definition insert_event :: "(string \<Rightarrow> bool) \<Rightarrow> event_row \<Rightarrow> unit query" where
  "insert_event objects e =
     and_then (reads (\<lambda>s. event_violation objects s (db_events s) e)) (\<lambda>v.
     and_then (exists_check v) (\<lambda>_.
     writes (\<lambda>s. s\<lparr>db_events := db_events s @ [e]\<rparr>)))"

definition is_event_row :: "string \<Rightarrow> string \<Rightarrow> event_row \<Rightarrow> bool" where
  "is_event_row tenant eid e \<longleftrightarrow> ev_tenant_id e = tenant \<and> ev_id e = eid"

definition get_event :: "string \<Rightarrow> string \<Rightarrow> event_row query" where
  "get_event tenant eid =
     and_then (reads (\<lambda>s. select_one (is_event_row tenant eid) (db_events s))) found"

definition get_event_by_slug :: "string \<Rightarrow> string \<Rightarrow> event_row query" where
  "get_event_by_slug tenant slug =
     and_then (reads (\<lambda>s. select_one (\<lambda>e. ev_tenant_id e = tenant \<and> ev_slug e = slug) (db_events s))) found"

text \<open>On the administrative connection: no transaction and no tenant.\<close>

definition get_published_event_by_slug :: "string \<Rightarrow> event_row query" where
  "get_published_event_by_slug slug =
     and_then (reads (\<lambda>s. select_one (\<lambda>e. ev_slug e = slug \<and> ev_status e = EventStatusPublished)
       (db_events s))) found"

definition event_position :: "event_row \<Rightarrow> int \<times> string" where
  "event_position e = (ev_created_at e, ev_id e)"

text \<open>The rows of \<open>ListEvents\<close> for a cursor, newest first, before the limit.\<close>

definition events_after :: "db \<times> string \<Rightarrow> string \<Rightarrow> event_row list" where
  "events_after q cursor = (case q of (s, tenant) \<Rightarrow>
     rev (sort_key event_position (select (\<lambda>e. ev_tenant_id e = tenant \<and>
       (case decode_cursor cursor of None \<Rightarrow> True | Some k \<Rightarrow> event_position e < k)) (db_events s))))"

definition list_events :: "string \<Rightarrow> page_params \<Rightarrow> event_row page query" where
  "list_events tenant pg =
     (let limit = normalize_limit pg in
      and_then (reads (\<lambda>s. take (limit + 1) (events_after (s, tenant) (pg_cursor pg))))
        (\<lambda>out. ret (cut_page limit (\<lambda>e. encode_cursor (ev_created_at e) (ev_id e)) out)))"

definition write_event :: "env \<Rightarrow> event_row \<Rightarrow> event_row \<Rightarrow> event_row" where
  "write_event en e row =
     row\<lparr>ev_name := ev_name e, ev_slug := ev_slug e, ev_venue := ev_venue e,
         ev_start_date := ev_start_date e, ev_end_date := ev_end_date e,
         ev_logo_storage_id := ev_logo_storage_id e,
         ev_thumbnail_storage_id := ev_thumbnail_storage_id e,
         ev_primary_color := ev_primary_color e, ev_updated_at := e_now en\<rparr>"

definition update_event_row :: "env \<Rightarrow> (string \<Rightarrow> bool) \<Rightarrow> event_row \<Rightarrow> unit query" where
  "update_event_row en objects e =
     (let here = is_event_row (ev_tenant_id e) (ev_id e) in
      and_then (reads (\<lambda>s. select here (db_events s))) (\<lambda>hit.
      and_then (reads (\<lambda>s. case hit of [] \<Rightarrow> None
        | row # _ \<Rightarrow> event_violation objects s (delete_where here (db_events s)) (write_event en e row))) (\<lambda>v.
      and_then (exists_check v) (\<lambda>_.
      and_then (writes (\<lambda>s. s\<lparr>db_events := update_where here (write_event en e) (db_events s)\<rparr>)) (\<lambda>_.
      check_rows (length hit))))))"

definition update_event_status :: "env \<Rightarrow> string \<Rightarrow> string \<Rightarrow> event_status \<Rightarrow> unit query" where
  "update_event_status en tenant eid st =
     and_then (reads (\<lambda>s. length (select (is_event_row tenant eid) (db_events s)))) (\<lambda>n.
     and_then (writes (\<lambda>s. s\<lparr>db_events := update_where (is_event_row tenant eid)
        (\<lambda>e. e\<lparr>ev_status := st, ev_updated_at := e_now en\<rparr>) (db_events s)\<rparr>)) (\<lambda>_.
     check_rows n))"

section \<open>Races\<close>

definition insert_race :: "race_row \<Rightarrow> unit query" where
  "insert_race r =
     and_then (reads (\<lambda>s. race_violation s (db_races s) r)) (\<lambda>v.
     and_then (exists_check v) (\<lambda>_.
     writes (\<lambda>s. s\<lparr>db_races := db_races s @ [as_stored r]\<rparr>)))"

definition is_race_row :: "string \<Rightarrow> string \<Rightarrow> string \<Rightarrow> race_row \<Rightarrow> bool" where
  "is_race_row tenant event rid r \<longleftrightarrow> ra_tenant_id r = tenant \<and> ra_event_id r = event \<and> ra_id r = rid"

definition get_race :: "string \<Rightarrow> string \<Rightarrow> string \<Rightarrow> race_row query" where
  "get_race tenant event rid =
     and_then (reads (\<lambda>s. select_one (is_race_row tenant event rid) (db_races s))) found"

definition list_races :: "string \<Rightarrow> string \<Rightarrow> race_row list query" where
  "list_races tenant event =
     reads (\<lambda>s. sort_key ra_created_at
       (select (\<lambda>r. ra_tenant_id r = tenant \<and> ra_event_id r = event) (db_races s)))"

definition write_race :: "env \<Rightarrow> race_row \<Rightarrow> race_row \<Rightarrow> race_row" where
  "write_race en r row =
     row\<lparr>ra_name := ra_name r, ra_slug := ra_slug r, ra_distance_km := ra_distance_km r,
         ra_format := ra_format r, ra_updated_at := e_now en\<rparr>"

definition update_race_row :: "env \<Rightarrow> race_row \<Rightarrow> unit query" where
  "update_race_row en r =
     (let here = is_race_row (ra_tenant_id r) (ra_event_id r) (ra_id r) in
      and_then (reads (\<lambda>s. select here (db_races s))) (\<lambda>hit.
      and_then (reads (\<lambda>s. case hit of [] \<Rightarrow> None
        | row # _ \<Rightarrow> race_violation s (delete_where here (db_races s)) (write_race en r row))) (\<lambda>v.
      and_then (exists_check v) (\<lambda>_.
      and_then (writes (\<lambda>s. s\<lparr>db_races :=
        update_where here (\<lambda>row. as_stored (write_race en r row)) (db_races s)\<rparr>)) (\<lambda>_.
      check_rows (length hit))))))"

definition race_has_participants :: "string \<Rightarrow> string \<Rightarrow> bool query" where
  "race_has_participants tenant rid =
     reads (\<lambda>s. list_ex (\<lambda>p. p_tenant_id p = tenant \<and> p_race_id p = rid) (db_participants s))"

text \<open>Migrations 0007 and 0012 declare \<open>ON DELETE CASCADE\<close> for the race of a participant and of a
team, so the delete takes both with it and never violates a foreign key.\<close>

definition delete_race_row :: "string \<Rightarrow> string \<Rightarrow> string \<Rightarrow> unit query" where
  "delete_race_row tenant event rid =
     and_then (reads (\<lambda>s. select (is_race_row tenant event rid) (db_races s))) (\<lambda>hit.
     and_then (writes (\<lambda>s.
        let gone = (\<lambda>rid. list_ex (\<lambda>r. ra_id r = rid) hit);
            lost = select (\<lambda>t. gone (t_race_id t)) (db_teams s)
        in s\<lparr>db_races := delete_where (is_race_row tenant event rid) (db_races s),
             db_teams := delete_where (\<lambda>t. gone (t_race_id t)) (db_teams s),
             db_participants := delete_where (\<lambda>p. gone (p_race_id p) \<or>
               list_ex (\<lambda>t. p_team_id p = Some (t_id t)) lost) (db_participants s)\<rparr>)) (\<lambda>_.
     check_rows (length hit)))"

end
