(* ===== verification/User_Repo.thy ===== *)
theory User_Repo
  imports Event_Repo
begin

text \<open>
  \<open>internal/auth/repository.go\<close>: the statements on users, refresh tokens, e-mail tokens and social
  accounts, with the unique indexes and foreign keys of migrations 0001 and 0014. None of the four
  tables belongs to a tenant. \<open>email\<close> is a \<open>CITEXT\<close> column: it compares without case.
\<close>

section \<open>Users\<close>

definition same_email :: "string \<Rightarrow> string \<Rightarrow> bool" where
  "same_email a b \<longleftrightarrow> to_lower a = to_lower b"

definition user_pk :: "user_row \<Rightarrow> string option" where
  "user_pk u = Some (us_id u)"

definition user_email_key :: "user_row \<Rightarrow> string option" where
  "user_email_key u = Some (to_lower (us_email u))"

definition user_violation :: "user_row list \<Rightarrow> user_row \<Rightarrow> sql_error option" where
  "user_violation others u =
     (if taken user_pk others u then Some (UniqueViolation ''users_pkey'')
      else if taken user_email_key others u then Some (UniqueViolation ''users_email_key'')
      else None)"

definition insert_user :: "user_row \<Rightarrow> unit query" where
  "insert_user u =
     and_then (reads (\<lambda>s. user_violation (db_users s) u)) (\<lambda>v.
     and_then (exists_check v) (\<lambda>_.
     writes (\<lambda>s. s\<lparr>db_users := db_users s @ [u]\<rparr>)))"

definition get_user :: "string \<Rightarrow> user_row query" where
  "get_user uid = and_then (reads (\<lambda>s. select_one (\<lambda>u. us_id u = uid) (db_users s))) found"

definition get_user_by_email :: "string \<Rightarrow> user_row query" where
  "get_user_by_email email =
     and_then (reads (\<lambda>s. select_one (\<lambda>u. same_email (us_email u) email) (db_users s))) found"

definition update_user :: "env \<Rightarrow> string \<Rightarrow> (user_row \<Rightarrow> user_row) \<Rightarrow> unit query" where
  "update_user en uid f =
     and_then (reads (\<lambda>s. length (select (\<lambda>u. us_id u = uid) (db_users s)))) (\<lambda>n.
     and_then (writes (\<lambda>s. s\<lparr>db_users := update_where (\<lambda>u. us_id u = uid)
        (\<lambda>u. (f u)\<lparr>us_updated_at := e_now en\<rparr>) (db_users s)\<rparr>)) (\<lambda>_.
     check_rows n))"

definition mark_user_email_verified :: "env \<Rightarrow> string \<Rightarrow> unit query" where
  "mark_user_email_verified en uid = update_user en uid (\<lambda>u. u\<lparr>us_is_email_verified := True\<rparr>)"

definition update_user_password_hash :: "env \<Rightarrow> string \<Rightarrow> string \<Rightarrow> unit query" where
  "update_user_password_hash en uid h = update_user en uid (\<lambda>u. u\<lparr>us_password_hash := Some h\<rparr>)"

section \<open>Refresh tokens\<close>

definition refresh_pk :: "refresh_token \<Rightarrow> string option" where
  "refresh_pk t = Some (rt_id t)"

definition refresh_hash_key :: "refresh_token \<Rightarrow> string option" where
  "refresh_hash_key t = Some (rt_token_hash t)"

definition has_user :: "db \<Rightarrow> string \<Rightarrow> bool" where
  "has_user s uid \<longleftrightarrow> list_ex (\<lambda>u. us_id u = uid) (db_users s)"

definition refresh_violation :: "db \<Rightarrow> refresh_token \<Rightarrow> sql_error option" where
  "refresh_violation s t =
     (if taken refresh_pk (db_refresh_tokens s) t then Some (UniqueViolation ''refresh_tokens_pkey'')
      else if taken refresh_hash_key (db_refresh_tokens s) t
        then Some (UniqueViolation ''refresh_tokens_token_hash_key'')
      else if \<not> has_user s (rt_user_id t) then Some (ForeignKeyViolation ''refresh_tokens_user_id_fkey'')
      else None)"

definition insert_refresh_token :: "refresh_token \<Rightarrow> unit query" where
  "insert_refresh_token t =
     and_then (reads (\<lambda>s. refresh_violation s t)) (\<lambda>v.
     and_then (exists_check v) (\<lambda>_.
     writes (\<lambda>s. s\<lparr>db_refresh_tokens := db_refresh_tokens s @ [t]\<rparr>)))"

definition get_refresh_token :: "string \<Rightarrow> refresh_token query" where
  "get_refresh_token h =
     and_then (reads (\<lambda>s. select_one (\<lambda>t. rt_token_hash t = h) (db_refresh_tokens s))) found"

text \<open>The four updates of the table; none counts its rows.\<close>

definition rotate_refresh_token :: "string \<Rightarrow> string \<Rightarrow> int \<Rightarrow> unit query" where
  "rotate_refresh_token oid h at_time =
     writes (\<lambda>s. s\<lparr>db_refresh_tokens := update_where (\<lambda>t. rt_id t = oid)
       (\<lambda>t. t\<lparr>rt_revoked_at := Some at_time, rt_replaced_by_hash := Some h\<rparr>) (db_refresh_tokens s)\<rparr>)"

definition revoke_tokens :: "(refresh_token \<Rightarrow> bool) \<Rightarrow> int \<Rightarrow> unit query" where
  "revoke_tokens q at_time =
     writes (\<lambda>s. s\<lparr>db_refresh_tokens := update_where q
       (\<lambda>t. t\<lparr>rt_revoked_at := Some at_time\<rparr>) (db_refresh_tokens s)\<rparr>)"

definition revoke_all_refresh_tokens :: "string \<Rightarrow> int \<Rightarrow> unit query" where
  "revoke_all_refresh_tokens uid = revoke_tokens (\<lambda>t. rt_user_id t = uid \<and> rt_revoked_at t = None)"

definition revoke_refresh_token_family :: "string \<Rightarrow> int \<Rightarrow> unit query" where
  "revoke_refresh_token_family fam = revoke_tokens (\<lambda>t. rt_family_id t = fam \<and> rt_revoked_at t = None)"

definition revoke_refresh_token :: "string \<Rightarrow> int \<Rightarrow> unit query" where
  "revoke_refresh_token tid = revoke_tokens (\<lambda>t. rt_id t = tid)"

section \<open>E-mail tokens and social accounts\<close>

definition email_token_pk :: "email_token \<Rightarrow> string option" where
  "email_token_pk t = Some (vt_id t)"

definition email_token_hash_key :: "email_token \<Rightarrow> string option" where
  "email_token_hash_key t = Some (vt_token_hash t)"

definition email_token_violation :: "db \<Rightarrow> email_token \<Rightarrow> sql_error option" where
  "email_token_violation s t =
     (if taken email_token_pk (db_email_tokens s) t
        then Some (UniqueViolation ''email_verification_tokens_pkey'')
      else if taken email_token_hash_key (db_email_tokens s) t
        then Some (UniqueViolation ''email_verification_tokens_token_hash_key'')
      else if \<not> has_user s (vt_user_id t)
        then Some (ForeignKeyViolation ''email_verification_tokens_user_id_fkey'')
      else None)"

definition insert_email_token :: "email_token \<Rightarrow> unit query" where
  "insert_email_token t =
     and_then (reads (\<lambda>s. email_token_violation s t)) (\<lambda>v.
     and_then (exists_check v) (\<lambda>_.
     writes (\<lambda>s. s\<lparr>db_email_tokens := db_email_tokens s @ [t]\<rparr>)))"

definition get_email_token :: "string \<Rightarrow> email_token query" where
  "get_email_token h =
     and_then (reads (\<lambda>s. select_one (\<lambda>t. vt_token_hash t = h) (db_email_tokens s))) found"

definition mark_email_token_consumed :: "string \<Rightarrow> int \<Rightarrow> unit query" where
  "mark_email_token_consumed tid at_time =
     (let fresh = (\<lambda>t. vt_id t = tid \<and> vt_consumed_at t = None) in
      and_then (reads (\<lambda>s. length (select fresh (db_email_tokens s)))) (\<lambda>n.
      and_then (writes (\<lambda>s. s\<lparr>db_email_tokens :=
        update_where fresh (\<lambda>t. t\<lparr>vt_consumed_at := Some at_time\<rparr>) (db_email_tokens s)\<rparr>)) (\<lambda>_.
      check_rows n)))"

definition social_pk :: "social_account \<Rightarrow> string option" where
  "social_pk a = Some (sa_id a)"

definition social_provider_key :: "social_account \<Rightarrow> (string \<times> string) option" where
  "social_provider_key a = Some (sa_provider a, sa_provider_user_id a)"

definition social_violation :: "db \<Rightarrow> social_account \<Rightarrow> sql_error option" where
  "social_violation s a =
     (if taken social_pk (db_social_accounts s) a then Some (UniqueViolation ''user_social_accounts_pkey'')
      else if taken social_provider_key (db_social_accounts s) a
        then Some (UniqueViolation ''user_social_accounts_provider_uk'')
      else if \<not> has_user s (sa_user_id a) then Some (ForeignKeyViolation ''user_social_accounts_user_id_fkey'')
      else None)"

definition insert_social_account :: "social_account \<Rightarrow> unit query" where
  "insert_social_account a =
     and_then (reads (\<lambda>s. social_violation s a)) (\<lambda>v.
     and_then (exists_check v) (\<lambda>_.
     writes (\<lambda>s. s\<lparr>db_social_accounts := db_social_accounts s @ [a]\<rparr>)))"

definition get_user_by_provider_id :: "string \<Rightarrow> string \<Rightarrow> user_row query" where
  "get_user_by_provider_id provider pid =
     and_then (reads (\<lambda>s. select_one (\<lambda>u. list_ex (\<lambda>a. sa_user_id a = us_id u \<and> sa_provider a = provider \<and>
       sa_provider_user_id a = pid) (db_social_accounts s)) (db_users s))) found"

section \<open>Inversion and closure\<close>

lemma keeps_user_reads [keeps_intros]:
  "keeps I (get_user u)" "keeps I (get_user_by_email m)" "keeps I (get_refresh_token h)"
  "keeps I (get_email_token h)" "keeps I (get_user_by_provider_id p i)"
  unfolding get_user_def get_user_by_email_def get_refresh_token_def get_email_token_def
    get_user_by_provider_id_def
  by (intro keeps_intros)+

lemma get_user_InrE [act_elims]:
  assumes "get_user uid s = (Inr u, s')"
  obtains "s' = s" "select_one (\<lambda>u. us_id u = uid) (db_users s) = Some u"
  using assms unfolding get_user_def by (elim act_elims) simp

lemma get_user_by_email_InrE [act_elims]:
  assumes "get_user_by_email m s = (Inr u, s')"
  obtains "s' = s" "select_one (\<lambda>u. same_email (us_email u) m) (db_users s) = Some u"
  using assms unfolding get_user_by_email_def by (elim act_elims) simp

lemma get_refresh_token_InrE [act_elims]:
  assumes "get_refresh_token h s = (Inr t, s')"
  obtains "s' = s" "select_one (\<lambda>t. rt_token_hash t = h) (db_refresh_tokens s) = Some t"
  using assms unfolding get_refresh_token_def by (elim act_elims) simp

lemma get_email_token_InrE [act_elims]:
  assumes "get_email_token h s = (Inr t, s')"
  obtains "s' = s" "select_one (\<lambda>t. vt_token_hash t = h) (db_email_tokens s) = Some t"
  using assms unfolding get_email_token_def by (elim act_elims) simp

lemma insert_user_InrE [act_elims]:
  assumes "insert_user u s = (Inr x, s')"
  obtains "user_violation (db_users s) u = None" "s' = s\<lparr>db_users := db_users s @ [u]\<rparr>"
  using assms unfolding insert_user_def by (elim act_elims) simp

lemma insert_refresh_token_InrE [act_elims]:
  assumes "insert_refresh_token t s = (Inr x, s')"
  obtains "refresh_violation s t = None" "s' = s\<lparr>db_refresh_tokens := db_refresh_tokens s @ [t]\<rparr>"
  using assms unfolding insert_refresh_token_def by (elim act_elims) simp

lemma insert_email_token_InrE [act_elims]:
  assumes "insert_email_token t s = (Inr x, s')"
  obtains "email_token_violation s t = None" "s' = s\<lparr>db_email_tokens := db_email_tokens s @ [t]\<rparr>"
  using assms unfolding insert_email_token_def by (elim act_elims) simp

lemma insert_social_account_InrE [act_elims]:
  assumes "insert_social_account a s = (Inr x, s')"
  obtains "social_violation s a = None" "s' = s\<lparr>db_social_accounts := db_social_accounts s @ [a]\<rparr>"
  using assms unfolding insert_social_account_def by (elim act_elims) simp

end
