(* ===== verification/Newest_First.thy ===== *)
theory Newest_First
  imports Pagination Prelude
begin

text \<open>
  The listing by \<open>(created_at, id)\<close>, newest first, that tenants, invitations and assignments share:
  \<open>ORDER BY created_at DESC, id DESC\<close> with the condition \<open>(created_at, id) < (\$2, \$3)\<close> for a cursor.
\<close>

definition newest :: "('r \<Rightarrow> int \<times> string) \<Rightarrow> ('r \<Rightarrow> bool) \<Rightarrow> string \<Rightarrow> 'r list \<Rightarrow> 'r list" where
  "newest pos q cursor rows =
     rev (sort_key pos (select (\<lambda>r. q r \<and>
       (case decode_cursor cursor of None \<Rightarrow> True | Some k \<Rightarrow> pos r < k)) rows))"

definition cursor_of :: "int \<times> string \<Rightarrow> string" where
  "cursor_of p = encode_cursor (fst p) (snd p)"

lemma cursor_of_nonempty: "cursor_of p \<noteq> ''''"
  using cursors_nonempty by (simp add: cursor_of_def)

lemma first_page: "decode_cursor '''' = None"
  by (simp add: empty_cursors)

lemma newest_first: "newest pos q '''' rows = rev (sort_key pos (select q rows))"
  by (simp add: newest_def first_page)

lemma newest_from: "in_int64 (fst k) \<Longrightarrow>
    newest pos q (cursor_of k) rows = filter (\<lambda>r. pos r < k) (newest pos q '''' rows)"
  by (cases k) (simp add: newest_def first_page cursor_of_def select_def filter_sort_key rev_filter [symmetric]
      conj_commute)

text \<open>Rows listed newest first, with positions that tell them apart: a keyset listing.\<close>

locale newest_listing =
  fixes rows :: "'s \<Rightarrow> 'r list"
    and pick :: "'s \<Rightarrow> 'r \<Rightarrow> bool"
    and pos :: "'r \<Rightarrow> int \<times> string"
    and good :: "'s \<Rightarrow> bool"
  assumes positions: "good s \<Longrightarrow> distinct (map pos (rows s))"
    and instants: "good s \<Longrightarrow> r \<in> set (rows s) \<Longrightarrow> in_int64 (fst (pos r))"
begin

definition after :: "'s \<Rightarrow> string \<Rightarrow> 'r list" where
  "after s c = newest pos (pick s) c (rows s)"

lemma after_cursor:
  assumes "good s" and "after s '''' = xs @ r # ys"
  shows "after s (cursor_of (pos r)) = ys"
proof -
  let ?L = "after s ''''"
  have "r \<in> set ?L" using assms(2) by simp
  then have "in_int64 (fst (pos r))"
    using instants [OF assms(1)] by (auto simp: after_def newest_first set_select)
  then have "after s (cursor_of (pos r)) = filter (\<lambda>x. pos x < pos r) ?L"
    by (simp add: after_def newest_from)
  moreover have "distinct (map pos (select (pick s) (rows s)))"
    using positions [OF assms(1)] unfolding select_def by (rule distinct_map_filter)
  then have "sorted_wrt (\<lambda>a b. pos b < pos a) ?L"
    unfolding after_def newest_first by (rule sorted_strict_desc)
  then have "filter (\<lambda>x. pos x < pos r) ?L = ys"
    unfolding assms(2) by (rule filter_after_sorted) (rule less_not_sym)
  ultimately show ?thesis by simp
qed

end

sublocale newest_listing \<subseteq> keyset_listing after "\<lambda>r. cursor_of (pos r)" good
  by unfold_locales (simp_all add: after_cursor cursor_of_nonempty)

context newest_listing
begin

text \<open>The pages of such a listing are its rows from the newest to the oldest.\<close>

lemma pages_newest:
  assumes "good s" "0 < limit" "n = length (select (pick s) (rows s))"
  shows "walk (Suc n) s limit '''' = Some (rev (sort_key pos (select (pick s) (rows s))))"
proof -
  have all: "after s '''' = rev (sort_key pos (select (pick s) (rows s)))"
    by (simp add: after_def newest_first)
  then have "length (after s '''') = n" using assms(3) by simp
  with walk_complete [OF assms(1,2)] show ?thesis by (simp only: all)
qed

end

text \<open>Positions differ where identifiers do.\<close>

lemma distinct_positions:
  assumes "unique_on pk rows" and "\<And>r. pk r = Some (snd (pos r))"
  shows "distinct (map pos rows)"
  using assms(1) by (induction rows) (auto simp: list_all_iff assms(2))

end
