(* ===== verification/Tenant_Repo.thy ===== *)
theory Tenant_Repo
  imports User_Repo Newest_First
begin

text \<open>
  \<open>internal/tenant/repository.go\<close>: the statements on tenants, their members and their invitations,
  with the unique indexes, foreign keys and row-level security of migrations 0001 to 0003. The tenant
  in front of a statement on members or invitations is the one of the surrounding transaction.
\<close>

section \<open>Tenants\<close>

definition tenant_pk :: "tenant_row \<Rightarrow> string option" where
  "tenant_pk t = Some (tn_id t)"

definition tenant_slug_key :: "tenant_row \<Rightarrow> string option" where
  "tenant_slug_key t = Some (tn_slug t)"

definition has_tenant :: "db \<Rightarrow> string \<Rightarrow> bool" where
  "has_tenant s tid \<longleftrightarrow> list_ex (\<lambda>t. tn_id t = tid) (db_tenants s)"

definition tenant_violation :: "db \<Rightarrow> tenant_row \<Rightarrow> sql_error option" where
  "tenant_violation s t =
     (if taken tenant_pk (db_tenants s) t then Some (UniqueViolation ''tenants_pkey'')
      else if taken tenant_slug_key (db_tenants s) t then Some (UniqueViolation ''tenants_slug_key'')
      else if \<not> has_user s (tn_owner_user_id t) then Some (ForeignKeyViolation ''tenants_owner_user_id_fkey'')
      else None)"

definition insert_tenant :: "tenant_row \<Rightarrow> unit query" where
  "insert_tenant t =
     and_then (reads (\<lambda>s. tenant_violation s t)) (\<lambda>v.
     and_then (exists_check v) (\<lambda>_.
     writes (\<lambda>s. s\<lparr>db_tenants := db_tenants s @ [t]\<rparr>)))"

definition get_tenant :: "string \<Rightarrow> tenant_row query" where
  "get_tenant tid = and_then (reads (\<lambda>s. select_one (\<lambda>t. tn_id t = tid) (db_tenants s))) found"

definition get_tenant_by_slug :: "string \<Rightarrow> tenant_row query" where
  "get_tenant_by_slug slug = and_then (reads (\<lambda>s. select_one (\<lambda>t. tn_slug t = slug) (db_tenants s))) found"

definition update_tenant_status :: "env \<Rightarrow> string \<Rightarrow> string \<Rightarrow> string option \<Rightarrow> unit query" where
  "update_tenant_status en tid st reason =
     and_then (reads (\<lambda>s. length (select (\<lambda>t. tn_id t = tid) (db_tenants s)))) (\<lambda>n.
     and_then (writes (\<lambda>s. s\<lparr>db_tenants := update_where (\<lambda>t. tn_id t = tid)
        (\<lambda>t. t\<lparr>tn_status := st, tn_status_reason := reason, tn_updated_at := e_now en\<rparr>) (db_tenants s)\<rparr>)) (\<lambda>_.
     check_rows n))"

record tenant_with_role =
  tw_tenant :: tenant_row
  tw_role :: member_role

text \<open>On the administrative connection: the join is not confined to one tenant.\<close>

definition list_tenants_for_user :: "string \<Rightarrow> tenant_with_role list query" where
  "list_tenants_for_user uid =
     reads (\<lambda>s. sort_key (\<lambda>w. tn_created_at (tw_tenant w))
       (concat (map (\<lambda>t. map (\<lambda>m. \<lparr>tw_tenant = t, tw_role = mb_role m\<rparr>)
          (select (\<lambda>m. mb_tenant_id m = tn_id t \<and> mb_user_id m = uid \<and> mb_status m = MemberActive)
            (db_members s))) (db_tenants s))))"

section \<open>Members\<close>

definition member_pk :: "tenant_member \<Rightarrow> string option" where
  "member_pk m = Some (mb_id m)"

definition member_key :: "tenant_member \<Rightarrow> (string \<times> string) option" where
  "member_key m = Some (mb_tenant_id m, mb_user_id m)"

definition member_violation :: "db \<Rightarrow> tenant_member \<Rightarrow> sql_error option" where
  "member_violation s m =
     (if taken member_pk (db_members s) m then Some (UniqueViolation ''tenant_members_pkey'')
      else if taken member_key (db_members s) m then Some (UniqueViolation ''tenant_members_tenant_user_uk'')
      else if \<not> has_tenant s (mb_tenant_id m) then Some (ForeignKeyViolation ''tenant_members_tenant_id_fkey'')
      else if \<not> has_user s (mb_user_id m) then Some (ForeignKeyViolation ''tenant_members_user_id_fkey'')
      else None)"

definition insert_member :: "tenant_member \<Rightarrow> unit query" where
  "insert_member m =
     and_then (reads (\<lambda>s. member_violation s m)) (\<lambda>v.
     and_then (exists_check v) (\<lambda>_.
     writes (\<lambda>s. s\<lparr>db_members := db_members s @ [m]\<rparr>)))"

definition is_membership :: "string \<Rightarrow> string \<Rightarrow> tenant_member \<Rightarrow> bool" where
  "is_membership tid uid m \<longleftrightarrow> mb_tenant_id m = tid \<and> mb_user_id m = uid"

definition get_member :: "string \<Rightarrow> string \<Rightarrow> tenant_member query" where
  "get_member tid uid = and_then (reads (\<lambda>s. select_one (is_membership tid uid) (db_members s))) found"

text \<open>\<open>ActiveRole\<close>: no membership is an inactive one; any other error is passed on.\<close>

definition active_role :: "string \<Rightarrow> string \<Rightarrow> (string \<times> bool) query" where
  "active_role tid uid s =
     (case get_member tid uid s of
        (Inl e, s') \<Rightarrow> if errors_is e ErrNotFound then (Inr ('''', False), s') else (Inl e, s')
      | (Inr m, s') \<Rightarrow> (Inr (mb_role m, mb_status m = MemberActive), s'))"

record member_with_user =
  mu_member :: tenant_member
  mu_email :: string
  mu_first_name :: string
  mu_last_name :: string

text \<open>The join with \<open>users\<close>; members without a user row drop out, as an inner join does.\<close>

definition with_user :: "db \<Rightarrow> tenant_member \<Rightarrow> member_with_user list" where
  "with_user s m = map (\<lambda>u. \<lparr>mu_member = m, mu_email = us_email u, mu_first_name = us_first_name u,
       mu_last_name = us_last_name u\<rparr>) (select (\<lambda>u. us_id u = mb_user_id m) (db_users s))"

definition joined_members :: "db \<Rightarrow> member_with_user list" where
  "joined_members s = concat (map (with_user s) (db_members s))"

definition member_position :: "member_with_user \<Rightarrow> int \<times> string" where
  "member_position w = (mb_created_at (mu_member w), mb_id (mu_member w))"

definition active_member_of :: "string \<Rightarrow> member_with_user \<Rightarrow> bool" where
  "active_member_of tid w \<longleftrightarrow> mb_tenant_id (mu_member w) = tid \<and> mb_status (mu_member w) = MemberActive"

definition list_active_members :: "string \<Rightarrow> page_params \<Rightarrow> member_with_user page query" where
  "list_active_members tid pg =
     (let limit = normalize_limit pg in
      and_then (reads (\<lambda>s. take (limit + 1)
          (newest member_position (active_member_of tid) (pg_cursor pg) (joined_members s))))
        (\<lambda>out. ret (cut_page limit (\<lambda>w. cursor_of (member_position w)) out)))"

definition is_member_row :: "string \<Rightarrow> string \<Rightarrow> tenant_member \<Rightarrow> bool" where
  "is_member_row tid mid m \<longleftrightarrow> mb_tenant_id m = tid \<and> mb_id m = mid"

definition get_member_by_id :: "string \<Rightarrow> string \<Rightarrow> tenant_member query" where
  "get_member_by_id tid mid = and_then (reads (\<lambda>s. select_one (is_member_row tid mid) (db_members s))) found"

definition update_members ::
  "env \<Rightarrow> (tenant_member \<Rightarrow> bool) \<Rightarrow> (tenant_member \<Rightarrow> tenant_member) \<Rightarrow> unit query" where
  "update_members en q f =
     and_then (reads (\<lambda>s. length (select q (db_members s)))) (\<lambda>n.
     and_then (writes (\<lambda>s. s\<lparr>db_members :=
        update_where q (\<lambda>m. (f m)\<lparr>mb_updated_at := e_now en\<rparr>) (db_members s)\<rparr>)) (\<lambda>_.
     check_rows n))"

definition update_member_role_row :: "env \<Rightarrow> string \<Rightarrow> string \<Rightarrow> member_role \<Rightarrow> unit query" where
  "update_member_role_row en tid mid role =
     update_members en (\<lambda>m. is_member_row tid mid m \<and> mb_status m = MemberActive) (\<lambda>m. m\<lparr>mb_role := role\<rparr>)"

definition set_member_status :: "env \<Rightarrow> string \<Rightarrow> string \<Rightarrow> string \<Rightarrow> unit query" where
  "set_member_status en tid mid st = update_members en (is_member_row tid mid) (\<lambda>m. m\<lparr>mb_status := st\<rparr>)"

text \<open>\<open>INSERT \<dots> ON CONFLICT (tenant_id, user_id) DO UPDATE \<dots> WHERE status = 'removed' RETURNING id\<close>:
the identifier of the row that now stands for the membership.\<close>

definition create_or_reactivate_member :: "env \<Rightarrow> tenant_member \<Rightarrow> string query" where
  "create_or_reactivate_member en m =
     and_then (reads (\<lambda>s. select_one (is_membership (mb_tenant_id m) (mb_user_id m)) (db_members s))) (\<lambda>old.
     case old of
       None \<Rightarrow> and_then (reads (\<lambda>s. member_violation s m)) (\<lambda>v.
         and_then (on_error (map_option (\<lambda>e. Other (''pq: '' @
             (case e of UniqueViolation c \<Rightarrow> c | ForeignKeyViolation c \<Rightarrow> c | OutOfRange \<Rightarrow> ''''))) v)
           (writes (\<lambda>s. s\<lparr>db_members := db_members s @ [m]\<rparr>))) (\<lambda>_. ret (mb_id m)))
     | Some o' \<Rightarrow>
         guard (mb_status o' = MemberRemoved) (Sentinel ErrAlreadyExists)
           (and_then (writes (\<lambda>s. s\<lparr>db_members := update_where (is_membership (mb_tenant_id m) (mb_user_id m))
              (\<lambda>r. r\<lparr>mb_role := mb_role m, mb_status := mb_status m, mb_updated_at := e_now en\<rparr>)
              (db_members s)\<rparr>)) (\<lambda>_. ret (mb_id o'))))"

section \<open>Invitations\<close>

definition invitation_pk :: "invitation \<Rightarrow> string option" where
  "invitation_pk i = Some (iv_id i)"

definition invitation_hash_key :: "invitation \<Rightarrow> string option" where
  "invitation_hash_key i = Some (iv_token_hash i)"

definition invitation_violation :: "db \<Rightarrow> invitation \<Rightarrow> sql_error option" where
  "invitation_violation s i =
     (if taken invitation_pk (db_invitations s) i then Some (UniqueViolation ''invitations_pkey'')
      else if taken invitation_hash_key (db_invitations s) i
        then Some (UniqueViolation ''invitations_token_hash_key'')
      else if \<not> has_tenant s (iv_tenant_id i) then Some (ForeignKeyViolation ''invitations_tenant_id_fkey'')
      else if \<not> has_user s (iv_invited_by i) then Some (ForeignKeyViolation ''invitations_invited_by_fkey'')
      else None)"

definition insert_invitation :: "invitation \<Rightarrow> unit query" where
  "insert_invitation i =
     and_then (reads (\<lambda>s. invitation_violation s i)) (\<lambda>v.
     and_then (exists_check v) (\<lambda>_.
     writes (\<lambda>s. s\<lparr>db_invitations := db_invitations s @ [i]\<rparr>)))"

definition invitation_position :: "invitation \<Rightarrow> int \<times> string" where
  "invitation_position i = (iv_created_at i, iv_id i)"

definition list_invitations_rows :: "string \<Rightarrow> page_params \<Rightarrow> invitation page query" where
  "list_invitations_rows tid pg =
     (let limit = normalize_limit pg in
      and_then (reads (\<lambda>s. take (limit + 1)
          (newest invitation_position (\<lambda>i. iv_tenant_id i = tid) (pg_cursor pg) (db_invitations s))))
        (\<lambda>out. ret (cut_page limit (\<lambda>i. cursor_of (invitation_position i)) out)))"

definition is_invitation_row :: "string \<Rightarrow> string \<Rightarrow> invitation \<Rightarrow> bool" where
  "is_invitation_row tid iid i \<longleftrightarrow> iv_tenant_id i = tid \<and> iv_id i = iid"

definition get_invitation :: "string \<Rightarrow> string \<Rightarrow> invitation query" where
  "get_invitation tid iid =
     and_then (reads (\<lambda>s. select_one (is_invitation_row tid iid) (db_invitations s))) found"

text \<open>On the administrative connection: whoever holds the token finds its invitation.\<close>

definition get_invitation_by_hash :: "string \<Rightarrow> invitation query" where
  "get_invitation_by_hash h =
     and_then (reads (\<lambda>s. select_one (\<lambda>i. iv_token_hash i = h) (db_invitations s))) found"

text \<open>The three updates touch a pending invitation only.\<close>

definition update_pending :: "string \<Rightarrow> string \<Rightarrow> (invitation \<Rightarrow> invitation) \<Rightarrow> unit query" where
  "update_pending tid iid f =
     (let q = (\<lambda>i. is_invitation_row tid iid i \<and> iv_status i = InvitationPending) in
      and_then (reads (\<lambda>s. length (select q (db_invitations s)))) (\<lambda>n.
      and_then (writes (\<lambda>s. s\<lparr>db_invitations := update_where q f (db_invitations s)\<rparr>)) (\<lambda>_.
      check_rows n)))"

text \<open>A new token hash that another invitation has violates the unique index.\<close>

definition rotate_invitation_token :: "string \<Rightarrow> string \<Rightarrow> string \<Rightarrow> int \<Rightarrow> unit query" where
  "rotate_invitation_token tid iid h expires =
     and_then (reads (\<lambda>s.
         list_ex (\<lambda>i. is_invitation_row tid iid i \<and> iv_status i = InvitationPending) (db_invitations s) \<and>
         list_ex (\<lambda>i. iv_token_hash i = h \<and> \<not> is_invitation_row tid iid i) (db_invitations s))) (\<lambda>clash.
     guard (\<not> clash) (Other ''pq: invitations_token_hash_key'')
       (update_pending tid iid (\<lambda>i. i\<lparr>iv_token_hash := h, iv_expires_at := expires\<rparr>)))"

definition mark_invitation_accepted :: "string \<Rightarrow> string \<Rightarrow> int \<Rightarrow> unit query" where
  "mark_invitation_accepted tid iid at_time =
     update_pending tid iid (\<lambda>i. i\<lparr>iv_status := InvitationAccepted, iv_accepted_at := Some at_time\<rparr>)"

definition revoke_invitation_row :: "string \<Rightarrow> string \<Rightarrow> unit query" where
  "revoke_invitation_row tid iid = update_pending tid iid (\<lambda>i. i\<lparr>iv_status := InvitationRevoked\<rparr>)"

end
