(* ===== verification/Invite_Preview.thy ===== *)
theory Invite_Preview
  imports Store
begin

text \<open>
  \<open>internal/invitepreview/invitepreview.go\<close>: what the landing page of an invitation shows before
  the invitee signs in, and the mails and links of invitations. The sources are asked in turn.
\<close>

section \<open>Mail and links\<close>

text \<open>What the services hand to \<open>mailer.Mailer\<close>: the delivery itself and its error are ignored.\<close>

datatype mail =
    VerificationEmail string string string
  | SignupOTPEmail string string int
  | InvitationEmail string string string string
  | EventInvitationEmail string string string string

definition trim_right_slashes :: "string \<Rightarrow> string" where
  "trim_right_slashes s = rev (dropWhile (\<lambda>c. c = CHR ''/'') (rev s))"

definition invitation_link :: "string \<Rightarrow> string \<Rightarrow> string" where
  "invitation_link origin token = trim_right_slashes origin @ ''/invite/'' @ token"

section \<open>Masked addresses\<close>

text \<open>The first rune of a string, as \<open>[]rune(s)[:1]\<close> converted back: a byte that starts no valid
UTF-8 sequence becomes the replacement character.\<close>

definition continuation :: "nat \<Rightarrow> bool" where
  "continuation b \<longleftrightarrow> b \<in> {0x80..0xBF}"

definition replacement_rune :: string where
  "replacement_rune = [CHR 0xEF, CHR 0xBF, CHR 0xBD]"

definition second_byte_ok :: "nat \<Rightarrow> nat \<Rightarrow> bool" where
  "second_byte_ok b0 b1 \<longleftrightarrow>
     (if b0 = 0xE0 then b1 \<in> {0xA0..0xBF} else if b0 = 0xED then b1 \<in> {0x80..0x9F}
      else if b0 = 0xF0 then b1 \<in> {0x90..0xBF} else if b0 = 0xF4 then b1 \<in> {0x80..0x8F}
      else continuation b1)"

definition rune_length :: "nat \<Rightarrow> nat" where
  "rune_length b0 =
     (if b0 < 0x80 then 1 else if b0 \<in> {0xC2..0xDF} then 2 else if b0 \<in> {0xE0..0xEF} then 3
      else if b0 \<in> {0xF0..0xF4} then 4 else 0)"

definition first_rune :: "string \<Rightarrow> string" where
  "first_rune s =
     (case s of [] \<Rightarrow> []
      | c # cs \<Rightarrow> let n = rune_length (byte c); tail = map byte (take (n - 1) cs) in
          if n = 1 then [c]
          else if n = 0 \<or> length tail \<noteq> n - 1 \<or> \<not> second_byte_ok (byte c) (hd tail) \<or>
            \<not> list_all continuation tail then replacement_rune
          else c # take (n - 1) cs)"

text \<open>The text before the last \<open>@\<close>, with the rest.\<close>

fun split_last_at :: "string \<Rightarrow> (string \<times> string) option" where
  "split_last_at [] = None"
| "split_last_at (c # cs) =
     (case split_last_at cs of
        Some (l, h) \<Rightarrow> Some (c # l, h)
      | None \<Rightarrow> if c = CHR ''@'' then Some ([], c # cs) else None)"

definition mask_email :: "string \<Rightarrow> string" where
  "mask_email email =
     (case split_last_at email of
        None \<Rightarrow> ''***''
      | Some (local, host) \<Rightarrow> if local = [] then ''***'' else first_rune local @ ''***'' @ host)"

section \<open>The preview\<close>

abbreviation StatusExpired :: string where "StatusExpired \<equiv> ''expired''"

record preview =
  pv_kind :: string
  pv_name :: string
  pv_event_slug :: string
  pv_role :: string
  pv_label :: string
  pv_capabilities :: "string list"
  pv_email :: string
  pv_status :: string
  pv_expires_at :: int

definition resolve_status :: "string \<Rightarrow> int \<Rightarrow> int \<Rightarrow> string" where
  "resolve_status stored expires now =
     (if stored = InvitationPending \<and> now > expires then StatusExpired else stored)"

record preview_dto =
  pd_kind :: string
  pd_name :: string
  pd_event_slug :: string
  pd_role :: string
  pd_label :: string
  pd_capabilities :: "string list"
  pd_email_hint :: string
  pd_status :: string
  pd_expires_at :: int

definition preview_reply :: "preview \<Rightarrow> preview_dto" where
  "preview_reply p =
     \<lparr>pd_kind = pv_kind p, pd_name = pv_name p, pd_event_slug = pv_event_slug p, pd_role = pv_role p,
      pd_label = pv_label p, pd_capabilities = pv_capabilities p, pd_email_hint = mask_email (pv_email p),
      pd_status = pv_status p, pd_expires_at = pv_expires_at p\<rparr>"

fun ask_sources :: "(string \<Rightarrow> preview query) list \<Rightarrow> string \<Rightarrow> (db, http_error, preview_dto) act" where
  "ask_sources [] token = fail (reply 404 ''not_found'' ''This invitation link is not valid.'')"
| "ask_sources (src # srcs) token = (\<lambda>s.
     case src token s of
       (Inl e, s') \<Rightarrow> if errors_is e ErrNotFound then ask_sources srcs token s'
                     else (Inl (from_service_error e), s')
     | (Inr p, s') \<Rightarrow> (Inr (preview_reply p), s'))"

definition preview_handler :: "(string \<Rightarrow> preview query) list \<Rightarrow> string \<Rightarrow> (db, http_error, preview_dto) act" where
  "preview_handler sources query =
     (let token = trim_space query in
      guard (token \<noteq> '''') (reply 400 ''invalid_request'' ''token is required.'') (ask_sources sources token))"

section \<open>What a mask shows\<close>

lemma split_last_at_Some:
  "split_last_at s = Some (l, h) \<Longrightarrow> s = l @ h \<and> (\<exists>d. h = CHR ''@'' # d \<and> CHR ''@'' \<notin> set d)"
proof (induction s arbitrary: l)
  case (Cons c cs)
  have none: "split_last_at cs = None \<Longrightarrow> CHR ''@'' \<notin> set cs" for cs
    by (induction cs) (auto split: option.splits if_splits)
  show ?case
  proof (cases "split_last_at cs")
    case None
    with Cons.prems none [of cs] show ?thesis by (auto split: if_splits)
  next
    case (Some x)
    then obtain l' h' where "split_last_at cs = Some (l', h')" by (cases x) auto
    with Cons show ?thesis by auto
  qed
qed simp

end
