(* ===== verification/Tenant_Service.thy ===== *)
theory Tenant_Service
  imports Tenant_Repo Invite_Preview Participant_Service
begin

text \<open>
  \<open>internal/tenant/service.go\<close> and \<open>members.go\<close>: the use cases of workspaces, members and
  invitations. \<open>hash\<close> is \<open>security.HashToken\<close> (SHA-256), \<open>raw\<close> the token
  \<open>security.GenerateOpaqueToken\<close> returns to the call, \<open>ttl\<close> the configured life of an invitation;
  the count of API clients comes from the table of another component and is a parameter.
\<close>

section \<open>Tenants\<close>

definition tenant_slug :: "string \<Rightarrow> string \<Rightarrow> string" where
  "tenant_slug name slug = (if slug = '''' then slugify name else slugify slug)"

definition new_tenant :: "env \<Rightarrow> string \<Rightarrow> string \<Rightarrow> string \<Rightarrow> tenant_row" where
  "new_tenant en owner name slug =
     \<lparr>tn_id = e_uuid en 0, tn_name = name, tn_slug = slug, tn_owner_user_id = owner,
      tn_status = TenantPending, tn_status_reason = None, tn_created_at = e_now en, tn_updated_at = e_now en\<rparr>"

definition new_member :: "env \<Rightarrow> nat \<Rightarrow> string \<Rightarrow> string \<Rightarrow> member_role \<Rightarrow> tenant_member" where
  "new_member en k tid uid role =
     \<lparr>mb_id = e_uuid en k, mb_tenant_id = tid, mb_user_id = uid, mb_role = role,
      mb_status = MemberActive, mb_created_at = e_now en, mb_updated_at = e_now en\<rparr>"

definition create_tenant :: "env \<Rightarrow> string \<Rightarrow> string \<Rightarrow> string \<Rightarrow> tenant_row query" where
  "create_tenant en owner name slug0 =
     (let slug = tenant_slug name slug0 in
      guard (slug \<noteq> '''')
        (service_error ErrInvalidState ''tenant name/slug must contain at least one alphanumeric character'')
      (let t = new_tenant en owner name slug in
       with_tenant_tx (tn_id t)
         (and_then (insert_tenant t) (\<lambda>_.
          and_then (insert_member (new_member en 1 (tn_id t) owner RoleOwner)) (\<lambda>_.
          and_then (audit_event en 2 (tn_id t) owner ''tenant.created'' [(''slug'', MetaText slug)]) (\<lambda>_.
          ret t))))))"

definition list_tenants_for_user_call :: "string \<Rightarrow> tenant_with_role list query" where
  "list_tenants_for_user_call uid = list_tenants_for_user uid"

record tenant_summary =
  ts_tenant_id :: string
  ts_tenant_name :: string
  ts_oauth_client_count :: nat

definition get_tenant_summary :: "(string \<Rightarrow> nat) \<Rightarrow> string \<Rightarrow> tenant_summary query" where
  "get_tenant_summary clients tid =
     with_tenant_tx tid (and_then (get_tenant tid) (\<lambda>t.
       ret \<lparr>ts_tenant_id = tn_id t, ts_tenant_name = tn_name t, ts_oauth_client_count = clients tid\<rparr>))"

definition meta_option :: "string option \<Rightarrow> meta" where
  "meta_option x = (case x of None \<Rightarrow> MetaNull | Some v \<Rightarrow> MetaText v)"

definition set_tenant_status ::
  "env \<Rightarrow> string \<Rightarrow> bool \<Rightarrow> string \<Rightarrow> string \<Rightarrow> string option \<Rightarrow> tenant_row query" where
  "set_tenant_status en actor is_super tid st reason0 =
     guard is_super (Sentinel ErrForbidden)
     (guard (st = TenantActive \<or> st = TenantRejected \<or> st = TenantSuspended)
        (service_error ErrInvalidState ''status must be one of active, rejected, suspended'')
     (guard (st = TenantActive \<or> (case reason0 of None \<Rightarrow> False | Some r \<Rightarrow> trim_space r \<noteq> ''''))
        (service_error ErrInvalidState ''reason is required when rejecting or suspending a tenant'')
     (let reason = (if st = TenantActive then None else reason0) in
      with_tenant_tx tid
        (and_then (update_tenant_status en tid st reason) (\<lambda>_.
         and_then (get_tenant tid) (\<lambda>t.
         and_then (audit_event en 0 tid actor ''tenant.status_changed''
           [(''status'', MetaText st), (''reason'', meta_option reason)]) (\<lambda>_.
         ret t)))))))"

section \<open>Invitations\<close>

definition new_invitation ::
  "env \<Rightarrow> (string \<Rightarrow> string) \<Rightarrow> int \<Rightarrow> string \<Rightarrow> string \<Rightarrow> string \<Rightarrow> member_role \<Rightarrow> string \<Rightarrow> invitation" where
  "new_invitation en hash ttl tid actor email role raw =
     \<lparr>iv_id = e_uuid en 0, iv_tenant_id = tid, iv_email = email, iv_role = role,
      iv_token_hash = hash raw, iv_invited_by = actor, iv_status = InvitationPending,
      iv_expires_at = e_now en + ttl, iv_accepted_at = None, iv_created_at = e_now en\<rparr>"

definition invite_staff ::
  "env \<Rightarrow> (string \<Rightarrow> string) \<Rightarrow> int \<Rightarrow> string \<Rightarrow> string \<Rightarrow> string \<Rightarrow> member_role \<Rightarrow> member_role \<Rightarrow>
     string \<Rightarrow> string \<Rightarrow> (invitation \<times> string \<times> mail) query" where
  "invite_staff en hash ttl raw tid actor actor_role target_role email0 origin =
     guard (is_at_least actor_role RoleAdmin) (Sentinel ErrForbidden)
     (guard (target_role = RoleAdmin \<or> target_role = RoleStaff)
        (service_error ErrInvalidState ''role must be admin or staff'')
     (guard (\<not> (target_role = RoleAdmin \<and> actor_role \<noteq> RoleOwner)) (Sentinel ErrForbidden)
     (let email = normalize_email email0;
          inv = new_invitation en hash ttl tid actor email target_role raw in
      and_then (with_tenant_tx tid
        (and_then (insert_invitation inv) (\<lambda>_.
         and_then (get_tenant tid) (\<lambda>t.
         and_then (get_user actor) (\<lambda>u.
         and_then (audit_event en 1 tid actor ''invitation.created''
           [(''email'', MetaText email), (''role'', MetaText target_role)]) (\<lambda>_.
         ret (t, u))))))) (\<lambda>(t, u).
      ret (inv, raw, InvitationEmail email (tn_name t) (display_name u) (invitation_link origin raw))))))"

definition list_invitations :: "string \<Rightarrow> page_params \<Rightarrow> invitation page query" where
  "list_invitations tid pg = with_tenant_tx tid (list_invitations_rows tid pg)"

definition revoke_invitation :: "env \<Rightarrow> string \<Rightarrow> string \<Rightarrow> member_role \<Rightarrow> string \<Rightarrow> unit query" where
  "revoke_invitation en tid actor role iid =
     guard (is_at_least role RoleAdmin) (Sentinel ErrForbidden)
     (with_tenant_tx tid
       (and_then (revoke_invitation_row tid iid) (\<lambda>_.
        audit_event en 0 tid actor ''invitation.revoked'' [(''invitation_id'', MetaText iid)])))"

text \<open>The member returned carries the identifier of its row.\<close>

definition accept_invitation ::
  "env \<Rightarrow> (string \<Rightarrow> string) \<Rightarrow> string \<Rightarrow> string \<Rightarrow> tenant_member query" where
  "accept_invitation en hash raw uid =
     and_then (get_invitation_by_hash (hash raw)) (\<lambda>inv.
     guard (iv_status inv = InvitationPending) (Sentinel ErrInvalidState)
     (guard (\<not> invitation_expired (e_now en) inv) (Sentinel ErrTokenExpired)
     (and_then (get_user uid) (\<lambda>user.
      guard (normalize_email (us_email user) = normalize_email (iv_email inv))
        (service_error ErrForbidden ''invitation was issued to a different email address'')
      (with_tenant_tx (iv_tenant_id inv)
        (and_then (mark_invitation_accepted (iv_tenant_id inv) (iv_id inv) (e_now en)) (\<lambda>_.
         let m = new_member en 0 (iv_tenant_id inv) uid (iv_role inv) in
         and_then (create_or_reactivate_member en m) (\<lambda>mid.
         and_then (audit_event en 1 (iv_tenant_id inv) uid ''invitation.accepted''
           [(''invitation_id'', MetaText (iv_id inv))]) (\<lambda>_.
         ret (m\<lparr>mb_id := mid\<rparr>))))))))))"

definition resend_invitation ::
  "env \<Rightarrow> (string \<Rightarrow> string) \<Rightarrow> int \<Rightarrow> string \<Rightarrow> string \<Rightarrow> string \<Rightarrow> member_role \<Rightarrow> string \<Rightarrow> string \<Rightarrow>
     (invitation \<times> string \<times> mail) query" where
  "resend_invitation en hash ttl raw tid actor actor_role iid origin =
     guard (is_at_least actor_role RoleAdmin) (Sentinel ErrForbidden)
     (let expires = e_now en + ttl in
      and_then (with_tenant_tx tid
        (and_then (get_invitation tid iid) (\<lambda>inv.
         guard (\<not> (iv_role inv = RoleAdmin \<and> actor_role \<noteq> RoleOwner)) (Sentinel ErrForbidden)
         (guard (iv_status inv = InvitationPending) (Sentinel ErrInvalidState)
         (and_then (rotate_invitation_token tid iid (hash raw) expires) (\<lambda>_.
          let inv' = inv\<lparr>iv_expires_at := expires\<rparr> in
          and_then (get_tenant tid) (\<lambda>t.
          and_then (get_user actor) (\<lambda>u.
          and_then (audit_event en 0 tid actor ''invitation.resent''
            [(''invitation_id'', MetaText iid), (''email'', MetaText (iv_email inv'))]) (\<lambda>_.
          ret (inv', t, u)))))))))) (\<lambda>(inv', t, u).
      ret (inv', raw, InvitationEmail (iv_email inv') (tn_name t) (display_name u) (invitation_link origin raw))))"

definition preview_invitation :: "env \<Rightarrow> (string \<Rightarrow> string) \<Rightarrow> string \<Rightarrow> preview query" where
  "preview_invitation en hash raw =
     and_then (get_invitation_by_hash (hash raw)) (\<lambda>inv.
     and_then (get_tenant (iv_tenant_id inv)) (\<lambda>t.
     ret \<lparr>pv_kind = ''workspace'', pv_name = tn_name t, pv_event_slug = '''', pv_role = iv_role inv,
          pv_label = '''', pv_capabilities = [], pv_email = iv_email inv,
          pv_status = resolve_status (iv_status inv) (iv_expires_at inv) (e_now en),
          pv_expires_at = iv_expires_at inv\<rparr>))"

section \<open>Members\<close>

definition list_members :: "string \<Rightarrow> page_params \<Rightarrow> member_with_user page query" where
  "list_members tid pg = with_tenant_tx tid (list_active_members tid pg)"

definition update_member_role ::
  "env \<Rightarrow> string \<Rightarrow> string \<Rightarrow> member_role \<Rightarrow> string \<Rightarrow> member_role \<Rightarrow> tenant_member query" where
  "update_member_role en tid actor actor_role mid new_role =
     with_tenant_tx tid
       (and_then (get_member_by_id tid mid) (\<lambda>target.
        on_error (authorize_member_change actor_role target (Some new_role))
        (and_then (update_member_role_row en tid mid new_role) (\<lambda>_.
         let target' = target\<lparr>mb_role := new_role\<rparr> in
         and_then (audit_event en 0 tid actor ''member.role_changed''
           [(''member_id'', MetaText mid), (''user_id'', MetaText (mb_user_id target')),
            (''role'', MetaText new_role)]) (\<lambda>_.
         ret target')))))"

definition remove_member :: "env \<Rightarrow> string \<Rightarrow> string \<Rightarrow> member_role \<Rightarrow> string \<Rightarrow> unit query" where
  "remove_member en tid actor actor_role mid =
     with_tenant_tx tid
       (and_then (get_member_by_id tid mid) (\<lambda>target.
        on_error (authorize_member_change actor_role target None)
        (and_then (set_member_status en tid mid MemberRemoved) (\<lambda>_.
         audit_event en 0 tid actor ''member.removed''
           [(''member_id'', MetaText mid), (''user_id'', MetaText (mb_user_id target))]))))"

end
