(* ===== verification/Event_Service.thy ===== *)
theory Event_Service
  imports Event_Repo Participant_Service
begin

text \<open>
  \<open>internal/event/service.go\<close>: the event and race use cases. \<open>objects\<close> tells which storage
  objects exist (the storage component's table).
\<close>

definition require_admin :: "member_role \<Rightarrow> 'a query \<Rightarrow> 'a query" where
  "require_admin role m = guard (is_at_least role RoleAdmin) (Sentinel ErrForbidden) m"

section \<open>Events\<close>

definition chosen_slug :: "string \<Rightarrow> string \<Rightarrow> string" where
  "chosen_slug name slug = (if slug = '''' then slugify name else slugify slug)"

definition new_event ::
  "env \<Rightarrow> string \<Rightarrow> string \<Rightarrow> string \<Rightarrow> string \<Rightarrow> string option \<Rightarrow> int option \<Rightarrow> int option \<Rightarrow> event_row" where
  "new_event en tenant actor name slug venue start stop =
     \<lparr>ev_id = e_uuid en 0, ev_tenant_id = tenant, ev_name = name, ev_slug = slug, ev_venue = venue,
      ev_start_date = start, ev_end_date = stop, ev_logo_storage_id = None,
      ev_thumbnail_storage_id = None, ev_primary_color = None, ev_status = EventStatusDraft,
      ev_created_by = actor, ev_created_at = e_now en, ev_updated_at = e_now en\<rparr>"

definition create_event ::
  "env \<Rightarrow> (string \<Rightarrow> bool) \<Rightarrow> string \<Rightarrow> string \<Rightarrow> member_role \<Rightarrow> string \<Rightarrow> string \<Rightarrow> string option \<Rightarrow>
     int option \<Rightarrow> int option \<Rightarrow> event_row query" where
  "create_event en objects tenant actor role name slug0 venue start stop =
     require_admin role
     (guard (trim_space name \<noteq> '''') (invalid_state ''name is required'')
     (let slug = chosen_slug name slug0 in
      guard (slug \<noteq> '''')
        (invalid_state ''event name/slug must contain at least one alphanumeric character'')
      (let ev = new_event en tenant actor name slug venue start stop in
       with_tenant_tx tenant
         (and_then (insert_event objects ev) (\<lambda>_.
          and_then (audit_event en 1 tenant actor ''event.created''
            [(''event_id'', MetaText (ev_id ev)), (''slug'', MetaText slug)]) (\<lambda>_.
          ret ev))))))"

definition get_event_call :: "string \<Rightarrow> string \<Rightarrow> event_row query" where
  "get_event_call tenant eid = with_tenant_tx tenant (get_event tenant eid)"

definition published_event_by_slug :: "string \<Rightarrow> event_row query" where
  "published_event_by_slug slug = get_published_event_by_slug slug"

definition list_events_call :: "string \<Rightarrow> page_params \<Rightarrow> event_row page query" where
  "list_events_call tenant pg = with_tenant_tx tenant (list_events tenant pg)"

record event_patch =
  ep_name :: "string option"
  ep_slug :: "string option"
  ep_venue :: "string option"
  ep_start_date :: "int option"
  ep_end_date :: "int option"
  ep_logo_storage_id :: "string option"
  ep_thumbnail_storage_id :: "string option"
  ep_primary_color :: "string option"

text \<open>The checks and assignments of \<open>UpdateEvent\<close>, in their order.\<close>

definition patched_name :: "string option \<Rightarrow> string \<Rightarrow> string \<Rightarrow> go_error + string" where
  "patched_name p msg old =
     (case p of None \<Rightarrow> Inr old
      | Some n \<Rightarrow> if trim_space n = '''' then Inl (invalid_state msg) else Inr n)"

definition patched_slug :: "string option \<Rightarrow> string \<Rightarrow> go_error + string" where
  "patched_slug p old =
     (case p of None \<Rightarrow> Inr old
      | Some x \<Rightarrow> let slug = slugify x in
          if slug = '''' then Inl (invalid_state ''slug must contain at least one alphanumeric character'')
          else Inr slug)"

definition patched_color :: "string option \<Rightarrow> string option \<Rightarrow> go_error + string option" where
  "patched_color p old =
     (case p of None \<Rightarrow> Inr old
      | Some c \<Rightarrow> let color = trim_space c in
          if color \<noteq> '''' \<and> \<not> hex_color color
          then Inl (invalid_state ''primary_color must be a hex color like #2563eb'')
          else Inr (if color = '''' then None else Some color))"

definition of_sum :: "go_error + 'a \<Rightarrow> ('s, go_error, 'a) act" where
  "of_sum x = (case x of Inl e \<Rightarrow> fail e | Inr a \<Rightarrow> ret a)"

lemma keeps_of_sum [keeps_intros]: "keeps I (of_sum x)"
  unfolding of_sum_def by (intro keeps_intros)

definition update_event ::
  "env \<Rightarrow> (string \<Rightarrow> bool) \<Rightarrow> string \<Rightarrow> member_role \<Rightarrow> string \<Rightarrow> event_patch \<Rightarrow> event_row query" where
  "update_event en objects tenant role eid pa =
     require_admin role
     (with_tenant_tx tenant
       (and_then (get_event tenant eid) (\<lambda>cur.
        and_then (of_sum (patched_name (ep_name pa) ''name cannot be empty'' (ev_name cur))) (\<lambda>name.
        and_then (of_sum (patched_slug (ep_slug pa) (ev_slug cur))) (\<lambda>slug.
        and_then (of_sum (patched_color (ep_primary_color pa) (ev_primary_color cur))) (\<lambda>color.
        let ev = cur\<lparr>ev_name := name, ev_slug := slug,
                     ev_venue := or_keep_opt (ep_venue pa) (ev_venue cur),
                     ev_start_date := or_keep_opt (ep_start_date pa) (ev_start_date cur),
                     ev_end_date := or_keep_opt (ep_end_date pa) (ev_end_date cur),
                     ev_logo_storage_id := or_keep_opt (ep_logo_storage_id pa) (ev_logo_storage_id cur),
                     ev_thumbnail_storage_id :=
                       or_keep_opt (ep_thumbnail_storage_id pa) (ev_thumbnail_storage_id cur),
                     ev_primary_color := color\<rparr> in
        and_then (update_event_row en objects ev) (\<lambda>_. ret ev)))))))"

definition set_event_status ::
  "env \<Rightarrow> string \<Rightarrow> string \<Rightarrow> member_role \<Rightarrow> string \<Rightarrow> event_status \<Rightarrow> event_row query" where
  "set_event_status en tenant actor role eid st =
     require_admin role
     (guard (st = EventStatusDraft \<or> st = EventStatusPublished \<or> st = EventStatusArchived)
        (invalid_state ''status must be one of draft, published, archived'')
      (with_tenant_tx tenant
        (and_then (update_event_status en tenant eid st) (\<lambda>_.
         and_then (get_event tenant eid) (\<lambda>ev.
         and_then (audit_event en 0 tenant actor ''event.status_changed''
           [(''event_id'', MetaText eid), (''status'', MetaText st)]) (\<lambda>_.
         ret ev))))))"

section \<open>Races\<close>

definition new_race ::
  "env \<Rightarrow> string \<Rightarrow> string \<Rightarrow> string \<Rightarrow> string \<Rightarrow> rat option \<Rightarrow> race_config \<Rightarrow> race_row" where
  "new_race en tenant event name slug km format =
     clear_unfixed_distance
       \<lparr>ra_id = e_uuid en 0, ra_tenant_id = tenant, ra_event_id = event, ra_name = name, ra_slug = slug,
        ra_distance_km = km, ra_format = format, ra_created_at = e_now en, ra_updated_at = e_now en\<rparr>"

definition create_race ::
  "env \<Rightarrow> string \<Rightarrow> string \<Rightarrow> string \<Rightarrow> member_role \<Rightarrow> string \<Rightarrow> string \<Rightarrow> rat option \<Rightarrow> race_config \<Rightarrow>
     race_row query" where
  "create_race en tenant event actor role name slug0 km format0 =
     require_admin role
     (guard (trim_space name \<noteq> '''') (invalid_state ''name is required'')
     (let slug = chosen_slug name slug0 in
      guard (slug \<noteq> '''')
        (invalid_state ''race name/slug must contain at least one alphanumeric character'')
      (let format = format_normalize format0 in
       on_error (format_validate format)
       (let race = new_race en tenant event name slug km format in
        with_tenant_tx tenant
          (and_then (get_event tenant event) (\<lambda>_.
           and_then (insert_race race) (\<lambda>_.
           and_then (audit_event en 1 tenant actor ''race.created''
             [(''event_id'', MetaText event), (''race_id'', MetaText (ra_id race))]) (\<lambda>_.
           ret race))))))))"

definition get_race_call :: "string \<Rightarrow> string \<Rightarrow> string \<Rightarrow> race_row query" where
  "get_race_call tenant event rid = with_tenant_tx tenant (get_race tenant event rid)"

definition list_races_call :: "string \<Rightarrow> string \<Rightarrow> race_row list query" where
  "list_races_call tenant event = with_tenant_tx tenant (list_races tenant event)"

record race_patch =
  rp_name :: "string option"
  rp_slug :: "string option"
  rp_distance_km :: "rat option"
  rp_entry_type :: "string option"
  rp_course_type :: "string option"
  rp_team_size :: "int option"
  rp_loop_mode :: "string option"
  rp_loop_length_km :: "rat option"
  rp_loop_target_laps :: "int option"
  rp_loop_time_limit_ms :: "int option"

definition apply_format :: "race_patch \<Rightarrow> race_config \<Rightarrow> race_config" where
  "apply_format p f =
     \<lparr>rc_entry_type = or_keep (rp_entry_type p) (rc_entry_type f),
      rc_course_type = or_keep (rp_course_type p) (rc_course_type f),
      rc_team_size = or_keep_opt (rp_team_size p) (rc_team_size f),
      rc_loop_mode = or_keep_opt (rp_loop_mode p) (rc_loop_mode f),
      rc_loop_length_km = or_keep_opt (rp_loop_length_km p) (rc_loop_length_km f),
      rc_loop_target_laps = or_keep_opt (rp_loop_target_laps p) (rc_loop_target_laps f),
      rc_loop_time_limit_ms = or_keep_opt (rp_loop_time_limit_ms p) (rc_loop_time_limit_ms f)\<rparr>"

definition update_race ::
  "env \<Rightarrow> string \<Rightarrow> string \<Rightarrow> member_role \<Rightarrow> string \<Rightarrow> race_patch \<Rightarrow> race_row query" where
  "update_race en tenant event role rid pa =
     require_admin role
     (with_tenant_tx tenant
       (and_then (get_race tenant event rid) (\<lambda>cur.
        and_then (of_sum (patched_name (rp_name pa) ''name cannot be empty'' (ra_name cur))) (\<lambda>name.
        and_then (of_sum (patched_slug (rp_slug pa) (ra_slug cur))) (\<lambda>slug.
        let format = format_normalize (apply_format pa (ra_format cur)) in
        on_error (format_validate format)
        (and_then
          (if format_equal format (ra_format cur) then ret (ra_format cur)
           else and_then (race_has_participants tenant (ra_id cur)) (\<lambda>has.
             guard (\<not> has) (invalid_state ''race format cannot change once the race has participants'')
               (ret format))) (\<lambda>fmt.
         let race = clear_unfixed_distance
               (cur\<lparr>ra_name := name, ra_slug := slug,
                    ra_distance_km := or_keep_opt (rp_distance_km pa) (ra_distance_km cur),
                    ra_format := fmt\<rparr>) in
         and_then (update_race_row en race) (\<lambda>_. ret race))))))))"

definition delete_race :: "string \<Rightarrow> string \<Rightarrow> member_role \<Rightarrow> string \<Rightarrow> unit query" where
  "delete_race tenant event role rid =
     require_admin role (with_tenant_tx tenant (delete_race_row tenant event rid))"

end
