(* ===== verification/Event_Props.thy ===== *)
theory Event_Props
  imports Event_Service Team_Roster
begin

text \<open>
  What the event component keeps: the indexes, references and slugs of events and races
  (\<open>events_ok\<close>), through its own use cases and those of the participant component, and what it does
  to the tables of participants when a race goes.
\<close>

section \<open>The invariant of events and races\<close>

definition slug_normal :: "string \<Rightarrow> bool" where
  "slug_normal x \<longleftrightarrow> x \<noteq> '''' \<and> slugify x = x"

definition event_row_ok :: "event_row \<Rightarrow> bool" where
  "event_row_ok e \<longleftrightarrow> slug_normal (ev_slug e) \<and> trim_space (ev_name e) \<noteq> '''' \<and>
     ev_status e \<in> {EventStatusDraft, EventStatusPublished, EventStatusArchived}"

definition race_row_ok :: "event_row list \<Rightarrow> race_row \<Rightarrow> bool" where
  "race_row_ok es r \<longleftrightarrow> slug_normal (ra_slug r) \<and> race_columns r = Some r \<and>
     list_ex (\<lambda>e. ev_id e = ra_event_id r \<and> ev_tenant_id e = ra_tenant_id r) es"

definition events_ok :: "db \<Rightarrow> bool" where
  "events_ok s \<longleftrightarrow>
     unique_on event_pk (db_events s) \<and> unique_on event_slug_key (db_events s) \<and>
     list_all event_row_ok (db_events s) \<and>
     unique_on race_pk (db_races s) \<and> unique_on race_slug_key (db_races s) \<and>
     list_all (race_row_ok (db_events s)) (db_races s)"

lemma events_ok_frame:
  "db_events s' = db_events s \<Longrightarrow> db_races s' = db_races s \<Longrightarrow> events_ok s' = events_ok s"
  by (simp add: events_ok_def)

lemma events_ok_audit [simp]: "events_ok (s\<lparr>db_audit := l\<rparr>) = events_ok s"
  by (rule events_ok_frame) simp_all

lemma list_ex_carry:
  "list_ex (\<lambda>x. k x = a) xs \<Longrightarrow> list_all (\<lambda>x. list_ex (\<lambda>y. k y = k x) ys) xs \<Longrightarrow> list_ex (\<lambda>y. k y = a) ys"
  by (auto simp: list_all_iff list_ex_iff)

lemma entries_ok_frame:
  assumes ev: "list_all (\<lambda>e. list_ex (\<lambda>e'. ev_id e' = ev_id e) (db_events s')) (db_events s)"
    and ra: "list_all (\<lambda>r. list_ex (\<lambda>r'. ra_id r' = ra_id r) (db_races s')) (db_races s)"
    and same: "db_participants s' = db_participants s" "db_teams s' = db_teams s"
    and ok: "entries_ok s"
  shows "entries_ok s'"
proof -
  have "participant_refs_ok s' p" if "participant_refs_ok s p" for p
    using that list_ex_carry [OF _ ev, of "p_event_id p"] list_ex_carry [OF _ ra, of "p_race_id p"]
    by (simp add: participant_refs_ok_def same cong: option.case_cong)
  moreover have "team_refs_ok s' t" if "team_refs_ok s t" for t
    using that list_ex_carry [OF _ ev, of "t_event_id t"] list_ex_carry [OF _ ra, of "t_race_id t"]
    by (simp add: team_refs_ok_def)
  ultimately show ?thesis using ok by (simp add: entries_ok_def same list_all_iff)
qed

lemma list_all_ex_refl: "(\<And>x. x \<in> set xs \<Longrightarrow> \<exists>y \<in> set ys. k y = k x) \<Longrightarrow> list_all (\<lambda>x. list_ex (\<lambda>y. k y = k x) ys) xs"
  by (simp add: list_all_iff list_ex_iff)

section \<open>Slugs the service computes\<close>

lemma slugify_idem: "slugify (slugify x) = slugify x"
  using slugify_normal [of x] by (elim conjE)

lemma slug_normal_slugify: "slugify x \<noteq> '''' \<Longrightarrow> slug_normal (slugify x)"
  by (simp add: slug_normal_def slugify_idem)

lemma slug_normal_chosen: "chosen_slug name slug \<noteq> '''' \<Longrightarrow> slug_normal (chosen_slug name slug)"
  by (cases "slug = ''''") (simp_all add: chosen_slug_def slug_normal_slugify)

lemma of_sum_InrE [act_elims]:
  assumes "of_sum x s = (Inr a, s')"
  obtains "x = Inr a" "s' = s"
  using assms by (cases x) (simp_all add: of_sum_def fail_def ret_def)

lemma patched_slug_normal:
  "patched_slug p old = Inr slug \<Longrightarrow> slug_normal old \<Longrightarrow> slug_normal slug"
  by (cases p) (auto simp: patched_slug_def Let_def slug_normal_slugify split: if_splits)

lemma patched_name_ok:
  "patched_name p msg old = Inr n \<Longrightarrow> trim_space old \<noteq> '''' \<Longrightarrow> trim_space n \<noteq> ''''"
  by (cases p) (auto simp: patched_name_def split: if_splits)

section \<open>The tables of the organizer\<close>

text \<open>Events, races, teams and participants together.\<close>

definition organizer_ok :: "db \<Rightarrow> bool" where
  "organizer_ok s \<longleftrightarrow> events_ok s \<and> entries_ok s"

lemma organizer_ok_audit [simp]: "organizer_ok (s\<lparr>db_audit := l\<rparr>) = organizer_ok s"
  by (simp add: organizer_ok_def)

lemma keeps_event_reads [keeps_intros]:
  "keeps I (get_event t e)" "keeps I (get_race t e r)" "keeps I (race_has_participants t r)"
  "keeps I (list_events t pg)" "keeps I (list_races t e)"
  unfolding get_event_def get_race_def race_has_participants_def list_events_def list_races_def
  by (intro keeps_intros)+

lemma get_event_InrE [act_elims]:
  assumes "get_event t e s = (Inr ev, s')"
  obtains "s' = s" "select_one (is_event_row t e) (db_events s) = Some ev"
  using assms unfolding get_event_def by (elim act_elims) simp

lemma get_race_InrE [act_elims]:
  assumes "get_race t e rid s = (Inr r, s')"
  obtains "s' = s" "select_one (is_race_row t e rid) (db_races s) = Some r"
  using assms unfolding get_race_def by (elim act_elims) simp

lemma insert_event_InrE [act_elims]:
  assumes "insert_event objects e s = (Inr u, s')"
  obtains "event_violation objects s (db_events s) e = None" "s' = s\<lparr>db_events := db_events s @ [e]\<rparr>"
  using assms unfolding insert_event_def by (elim act_elims) simp

lemma update_event_row_InrE [act_elims]:
  assumes "update_event_row en objects e s = (Inr u, s')"
  obtains row rest where "select (is_event_row (ev_tenant_id e) (ev_id e)) (db_events s) = row # rest"
    "event_violation objects s (delete_where (is_event_row (ev_tenant_id e) (ev_id e)) (db_events s))
       (write_event en e row) = None"
    "s' = s\<lparr>db_events := update_where (is_event_row (ev_tenant_id e) (ev_id e)) (write_event en e) (db_events s)\<rparr>"
proof (cases "select (is_event_row (ev_tenant_id e) (ev_id e)) (db_events s)")
  case Nil
  with assms show thesis unfolding update_event_row_def Let_def by (elim act_elims) simp
next
  case (Cons row rest)
  with assms that show thesis unfolding update_event_row_def Let_def by (elim act_elims) simp
qed

lemma update_event_status_InrE [act_elims]:
  assumes "update_event_status en t e st s = (Inr u, s')"
  obtains "select (is_event_row t e) (db_events s) \<noteq> []"
    "s' = s\<lparr>db_events := update_where (is_event_row t e)
        (\<lambda>e. e\<lparr>ev_status := st, ev_updated_at := e_now en\<rparr>) (db_events s)\<rparr>"
  using assms unfolding update_event_status_def by (elim act_elims) simp

lemma insert_race_InrE [act_elims]:
  assumes "insert_race r s = (Inr u, s')"
  obtains "race_violation s (db_races s) r = None" "s' = s\<lparr>db_races := db_races s @ [as_stored r]\<rparr>"
  using assms unfolding insert_race_def by (elim act_elims) simp

lemma update_race_row_InrE [act_elims]:
  assumes "update_race_row en r s = (Inr u, s')"
  obtains row rest where
    "select (is_race_row (ra_tenant_id r) (ra_event_id r) (ra_id r)) (db_races s) = row # rest"
    "race_violation s (delete_where (is_race_row (ra_tenant_id r) (ra_event_id r) (ra_id r)) (db_races s))
       (write_race en r row) = None"
    "s' = s\<lparr>db_races := update_where (is_race_row (ra_tenant_id r) (ra_event_id r) (ra_id r))
       (\<lambda>row. as_stored (write_race en r row)) (db_races s)\<rparr>"
proof (cases "select (is_race_row (ra_tenant_id r) (ra_event_id r) (ra_id r)) (db_races s)")
  case Nil
  with assms show thesis unfolding update_race_row_def Let_def by (elim act_elims) simp
next
  case (Cons row rest)
  with assms that show thesis unfolding update_race_row_def Let_def by (elim act_elims) simp
qed

text \<open>What a row may be stored as: the columns change only by rounding, and rounding is stable.\<close>

lemma round_half_away_of_int [simp]: "round_half_away (of_int n) = n"
  unfolding round_half_away_def by (simp add: floor_unique)

lemma numeric_6_2_stable: "numeric_6_2 q = Some q' \<Longrightarrow> numeric_6_2 q' = Some q'"
proof -
  assume "numeric_6_2 q = Some q'"
  then have c: "\<bar>round_half_away (q * 100)\<bar> < 1000000" "q' = of_int (round_half_away (q * 100)) / 100"
    by (auto simp: numeric_6_2_def Let_def split: if_splits)
  have "q' * 100 = of_int (round_half_away (q * 100))" unfolding c(2) by simp
  then have "round_half_away (q' * 100) = round_half_away (q * 100)" by simp
  with c show ?thesis by (simp add: numeric_6_2_def Let_def)
qed

definition stable :: "('a \<Rightarrow> 'a option) \<Rightarrow> bool" where
  "stable f \<longleftrightarrow> (\<forall>a b. f a = Some b \<longrightarrow> f b = Some b)"

lemma column_stable: "stable f \<Longrightarrow> column f x = Some y \<Longrightarrow> column f y = Some y"
  by (cases x) (auto simp: stable_def)

lemma stable_columns: "stable numeric_6_2" "stable integer_4" "stable integer_8"
  by (auto simp: stable_def integer_4_def integer_8_def numeric_6_2_stable split: if_splits)

lemma race_columns_Some:
  assumes "race_columns r = Some r'"
  shows "race_columns r' = Some r'" "ra_id r' = ra_id r" "ra_tenant_id r' = ra_tenant_id r"
    "ra_event_id r' = ra_event_id r" "ra_slug r' = ra_slug r" "ra_name r' = ra_name r"
proof -
  obtain d ts len laps ms where c: "column numeric_6_2 (ra_distance_km r) = Some d"
    "column integer_4 (rc_team_size (ra_format r)) = Some ts"
    "column numeric_6_2 (rc_loop_length_km (ra_format r)) = Some len"
    "column integer_4 (rc_loop_target_laps (ra_format r)) = Some laps"
    "column integer_8 (rc_loop_time_limit_ms (ra_format r)) = Some ms"
    and r': "r' = r\<lparr>ra_distance_km := d, ra_format := (ra_format r)\<lparr>rc_team_size := ts,
            rc_loop_length_km := len, rc_loop_target_laps := laps, rc_loop_time_limit_ms := ms\<rparr>\<rparr>"
    using assms unfolding race_columns_def by (auto split: option.splits)
  then show "race_columns r' = Some r'"
    using c(1,3) [THEN column_stable [OF stable_columns(1)]]
      c(2,4) [THEN column_stable [OF stable_columns(2)]]
      c(5) [THEN column_stable [OF stable_columns(3)]]
    by (simp add: race_columns_def)
qed (use assms in \<open>auto simp: race_columns_def split: option.splits\<close>)

lemma as_stored_simps [simp]:
  "ra_id (as_stored r) = ra_id r" "ra_tenant_id (as_stored r) = ra_tenant_id r"
  "ra_event_id (as_stored r) = ra_event_id r" "ra_slug (as_stored r) = ra_slug r"
  "ra_name (as_stored r) = ra_name r"
  by (auto simp: as_stored_def dest: race_columns_Some split: option.splits)

lemma as_stored_columns: "race_columns r \<noteq> None \<Longrightarrow> race_columns (as_stored r) = Some (as_stored r)"
  by (auto simp: as_stored_def dest: race_columns_Some)

section \<open>The use cases\<close>

lemma event_violation_None:
  "event_violation objects s others e = None \<Longrightarrow>
     \<not> taken event_pk others e \<and> \<not> taken event_slug_key others e"
  by (simp add: event_violation_def split: if_splits)

lemma race_violation_None:
  "race_violation s others r = None \<Longrightarrow>
     \<not> taken race_pk others r \<and> \<not> taken race_slug_key others r \<and> race_columns r \<noteq> None"
  by (simp add: race_violation_def split: if_splits)

lemma race_row_ok_mono:
  assumes "list_all (race_row_ok es) rs"
    and "\<And>e. e \<in> set es \<Longrightarrow> \<exists>e' \<in> set es'. ev_id e' = ev_id e \<and> ev_tenant_id e' = ev_tenant_id e"
  shows "list_all (race_row_ok es') rs"
  unfolding list_all_iff
proof
  fix r assume "r \<in> set rs"
  with assms(1) have r: "race_row_ok es r" by (simp add: list_all_iff)
  then obtain e where e: "e \<in> set es" "ev_id e = ra_event_id r" "ev_tenant_id e = ra_tenant_id r"
    by (auto simp: race_row_ok_def list_ex_iff)
  with assms(2) [OF e(1)] r show "race_row_ok es' r" by (auto simp: race_row_ok_def list_ex_iff)
qed

lemma organizer_ok_new_event:
  assumes ok: "organizer_ok s" and row: "event_row_ok ev"
    and v: "event_violation objects s (db_events s) ev = None"
  shows "organizer_ok (s\<lparr>db_events := db_events s @ [ev]\<rparr>)"
proof -
  let ?s = "s\<lparr>db_events := db_events s @ [ev]\<rparr>"
  have "unique_on event_pk (db_events ?s)" "unique_on event_slug_key (db_events ?s)"
    using ok event_violation_None [OF v]
    by (simp_all add: organizer_ok_def events_ok_def unique_on_append_one not_taken_fresh)
  moreover have "list_all (race_row_ok (db_events ?s)) (db_races s)"
    by (rule race_row_ok_mono [of "db_events s"]) (use ok in \<open>auto simp: organizer_ok_def events_ok_def\<close>)
  moreover have "entries_ok ?s"
    by (rule entries_ok_frame [where s = s])
      (use ok in \<open>auto simp: organizer_ok_def list_all_iff list_ex_iff\<close>)
  ultimately show ?thesis using ok row by (simp add: organizer_ok_def events_ok_def)
qed

text \<open>Events that change without a new identifier or tenant.\<close>

lemma organizer_ok_events:
  assumes ok: "organizer_ok s"
    and same: "\<And>e. ev_id (f e) = ev_id e \<and> ev_tenant_id (f e) = ev_tenant_id e"
    and uniq: "unique_on event_slug_key (update_where q f (db_events s))"
    and rows: "\<And>e. e \<in> set (db_events s) \<Longrightarrow> q e \<Longrightarrow> event_row_ok (f e)"
  shows "organizer_ok (s\<lparr>db_events := update_where q f (db_events s)\<rparr>)"
proof -
  let ?s = "s\<lparr>db_events := update_where q f (db_events s)\<rparr>"
  have carried: "\<exists>e' \<in> set (update_where q f (db_events s)). ev_id e' = ev_id e \<and> ev_tenant_id e' = ev_tenant_id e"
    if "e \<in> set (db_events s)" for e
    using that same by (auto simp: set_update_where)
  have "unique_on event_pk (db_events ?s)"
    using ok same by (auto simp: organizer_ok_def events_ok_def event_pk_def intro: unique_on_update_same_key)
  moreover have "list_all event_row_ok (db_events ?s)"
    using ok rows by (auto simp: organizer_ok_def events_ok_def list_all_iff set_update_where)
  moreover have "list_all (race_row_ok (db_events ?s)) (db_races s)"
    by (rule race_row_ok_mono [of "db_events s"]) (use ok carried in \<open>auto simp: organizer_ok_def events_ok_def\<close>)
  moreover have "entries_ok ?s"
    by (rule entries_ok_frame [where s = s])
      (use ok carried in \<open>auto simp: organizer_ok_def list_all_iff list_ex_iff\<close>)
  ultimately show ?thesis using ok uniq by (simp add: organizer_ok_def events_ok_def)
qed

lemma atomic_event_calls:
  "atomic (create_event en objects t a role name slug venue start stop)"
  "atomic (update_event en objects t role eid pa)" "atomic (set_event_status en t a role eid st)"
  "atomic (create_race en t e a role name slug km format)" "atomic (update_race en t e role rid rpa)"
  "atomic (delete_race t e role rid)"
  unfolding create_event_def update_event_def set_event_status_def create_race_def update_race_def
    delete_race_def require_admin_def Let_def
  by (intro atomic_intros)+

lemma require_admin_InrE [act_elims]:
  assumes "require_admin role m s = (Inr a, s')"
  obtains "is_at_least role RoleAdmin" "m s = (Inr a, s')"
  using assms unfolding require_admin_def by (rule guard_InrE)

lemma keeps_create_event: "keeps organizer_ok (create_event en objects t a role name slug0 venue start stop)"
proof (rule keeps_atomicI [OF atomic_event_calls(1)])
  fix s ev s' assume ok: "organizer_ok s"
    and run: "create_event en objects t a role name slug0 venue start stop s = (Inr ev, s')"
  let ?ev = "new_event en t a name (chosen_slug name slug0) venue start stop"
  from run obtain s1 l where name: "trim_space name \<noteq> ''''" and slug: "chosen_slug name slug0 \<noteq> ''''"
    and v: "event_violation objects s (db_events s) ?ev = None"
    and s1: "s1 = s\<lparr>db_events := db_events s @ [?ev]\<rparr>" and s': "s' = s1\<lparr>db_audit := db_audit s1 @ [l]\<rparr>"
    unfolding create_event_def Let_def
    by (elim act_elims) (hypsubst, blast)
  have "event_row_ok ?ev"
    using name slug_normal_chosen [OF slug] by (simp add: event_row_ok_def new_event_def)
  from organizer_ok_new_event [OF ok this v] show "organizer_ok s'" by (simp add: s1 s')
qed

lemma keeps_update_event: "keeps organizer_ok (update_event en objects t role eid pa)"
proof (rule keeps_atomicI [OF atomic_event_calls(2)])
  fix s ev s' assume ok: "organizer_ok s" and run: "update_event en objects t role eid pa s = (Inr ev, s')"
  from run obtain cur name slug color row rest where
    cur: "select_one (is_event_row t eid) (db_events s) = Some cur"
    and name: "patched_name (ep_name pa) ''name cannot be empty'' (ev_name cur) = Inr name"
    and slug: "patched_slug (ep_slug pa) (ev_slug cur) = Inr slug"
    and ev: "ev = cur\<lparr>ev_name := name, ev_slug := slug,
                     ev_venue := or_keep_opt (ep_venue pa) (ev_venue cur),
                     ev_start_date := or_keep_opt (ep_start_date pa) (ev_start_date cur),
                     ev_end_date := or_keep_opt (ep_end_date pa) (ev_end_date cur),
                     ev_logo_storage_id := or_keep_opt (ep_logo_storage_id pa) (ev_logo_storage_id cur),
                     ev_thumbnail_storage_id :=
                       or_keep_opt (ep_thumbnail_storage_id pa) (ev_thumbnail_storage_id cur),
                     ev_primary_color := color\<rparr>"
    and hit: "select (is_event_row (ev_tenant_id ev) (ev_id ev)) (db_events s) = row # rest"
    and v: "event_violation objects s (delete_where (is_event_row (ev_tenant_id ev) (ev_id ev)) (db_events s))
       (write_event en ev row) = None"
    and s': "s' = s\<lparr>db_events := update_where (is_event_row (ev_tenant_id ev) (ev_id ev)) (write_event en ev) (db_events s)\<rparr>"
    unfolding update_event_def Let_def
    by (elim act_elims) (hypsubst, blast)
  have cur_ok: "event_row_ok cur"
    using ok select_one_SomeD [OF cur] by (simp add: organizer_ok_def events_ok_def list_all_iff)
  have row: "row \<in> set (db_events s)" "is_event_row (ev_tenant_id ev) (ev_id ev) row"
    using select_Cons_mem [OF hit] by simp_all
  have uniq: "unique_on event_pk (db_events s)" "unique_on event_slug_key (db_events s)"
    using ok by (simp_all add: organizer_ok_def events_ok_def)
  show "organizer_ok s'"
    unfolding s'
  proof (rule organizer_ok_events [OF ok])
    show "unique_on event_slug_key (update_where (is_event_row (ev_tenant_id ev) (ev_id ev)) (write_event en ev) (db_events s))"
      by (rule unique_on_update_checked [where pk = event_pk and k = "ev_id ev" and row = row
            and p = "is_event_row (ev_tenant_id ev) (ev_id ev)"])
        (use uniq row event_violation_None [OF v] in \<open>simp_all add: event_pk_def is_event_row_def\<close>)
    show "event_row_ok (write_event en ev e)"
      if "e \<in> set (db_events s)" "is_event_row (ev_tenant_id ev) (ev_id ev) e" for e
      using that ok cur_ok patched_slug_normal [OF slug] patched_name_ok [OF name]
      by (simp add: event_row_ok_def write_event_def ev organizer_ok_def events_ok_def list_all_iff)
  qed (simp add: write_event_def)
qed

lemma keeps_set_event_status: "keeps organizer_ok (set_event_status en t a role eid st)"
proof (rule keeps_atomicI [OF atomic_event_calls(3)])
  fix s ev s' assume ok: "organizer_ok s" and run: "set_event_status en t a role eid st s = (Inr ev, s')"
  from run obtain s1 l where st: "st = EventStatusDraft \<or> st = EventStatusPublished \<or> st = EventStatusArchived"
    and s1: "s1 = s\<lparr>db_events := update_where (is_event_row t eid)
        (\<lambda>e. e\<lparr>ev_status := st, ev_updated_at := e_now en\<rparr>) (db_events s)\<rparr>"
    and s': "s' = s1\<lparr>db_audit := db_audit s1 @ [l]\<rparr>"
    unfolding set_event_status_def
    by (elim act_elims) (hypsubst, blast)
  have "organizer_ok s1"
    unfolding s1
  proof (rule organizer_ok_events [OF ok])
    show "unique_on event_slug_key (update_where (is_event_row t eid)
        (\<lambda>e. e\<lparr>ev_status := st, ev_updated_at := e_now en\<rparr>) (db_events s))"
      using ok by (auto simp: organizer_ok_def events_ok_def event_slug_key_def intro: unique_on_update_same_key)
  qed (use ok st in \<open>auto simp: organizer_ok_def events_ok_def list_all_iff event_row_ok_def\<close>)
  then show "organizer_ok s'" by (simp add: s')
qed

lemma list_ex_race_ids:
  "(\<And>r. r \<in> set rs \<Longrightarrow> \<exists>r' \<in> set rs'. ra_id r' = ra_id r) \<Longrightarrow>
     list_all (\<lambda>r. list_ex (\<lambda>r'. ra_id r' = ra_id r) rs') rs"
  by (simp add: list_all_iff list_ex_iff)

lemma keeps_create_race: "keeps organizer_ok (create_race en t e a role name slug0 km format0)"
proof (rule keeps_atomicI [OF atomic_event_calls(4)])
  fix s race s' assume ok: "organizer_ok s"
    and run: "create_race en t e a role name slug0 km format0 s = (Inr race, s')"
  let ?r = "new_race en t e name (chosen_slug name slug0) km (format_normalize format0)"
  from run obtain ev s1 l where slug: "chosen_slug name slug0 \<noteq> ''''"
    and ev: "select_one (is_event_row t e) (db_events s) = Some ev"
    and v: "race_violation s (db_races s) ?r = None"
    and s1: "s1 = s\<lparr>db_races := db_races s @ [as_stored ?r]\<rparr>" and s': "s' = s1\<lparr>db_audit := db_audit s1 @ [l]\<rparr>"
    unfolding create_race_def Let_def
    by (elim act_elims) (hypsubst, blast)
  have r: "ra_tenant_id ?r = t" "ra_event_id ?r = e" "ra_slug ?r = chosen_slug name slug0"
    by (simp_all add: new_race_def clear_unfixed_distance_def)
  have keys: "race_pk (as_stored ?r) = race_pk ?r" "race_slug_key (as_stored ?r) = race_slug_key ?r"
    by (simp_all add: race_pk_def race_slug_key_def)
  note v' = race_violation_None [OF v]
  have "unique_on race_pk (db_races s1)" "unique_on race_slug_key (db_races s1)"
    using ok v' not_taken_fresh [of race_pk "db_races s" ?r] not_taken_fresh [of race_slug_key "db_races s" ?r]
    unfolding s1 organizer_ok_def events_ok_def by (simp_all add: unique_on_append_one keys)
  moreover have "race_row_ok (db_events s) (as_stored ?r)"
    using slug_normal_chosen [OF slug] as_stored_columns v' select_one_SomeD [OF ev]
    by (auto simp: race_row_ok_def r list_ex_iff is_event_row_def)
  moreover have "entries_ok s1"
    by (rule entries_ok_frame [where s = s])
      (use ok in \<open>auto simp: s1 organizer_ok_def list_all_iff list_ex_iff\<close>)
  ultimately have "organizer_ok s1" using ok by (simp add: organizer_ok_def events_ok_def s1)
  then show "organizer_ok s'" by (simp add: s')
qed

lemma organizer_ok_races:
  assumes ok: "organizer_ok s"
    and same: "\<And>r. ra_id (f r) = ra_id r"
    and uniq: "unique_on race_slug_key (update_where q f (db_races s))"
    and rows: "\<And>r. r \<in> set (db_races s) \<Longrightarrow> q r \<Longrightarrow> race_row_ok (db_events s) (f r)"
  shows "organizer_ok (s\<lparr>db_races := update_where q f (db_races s)\<rparr>)"
proof -
  let ?s = "s\<lparr>db_races := update_where q f (db_races s)\<rparr>"
  have carried: "\<exists>r' \<in> set (update_where q f (db_races s)). ra_id r' = ra_id r"
    if "r \<in> set (db_races s)" for r
    using that same by (auto simp: set_update_where)
  have "unique_on race_pk (db_races ?s)"
    using ok same by (auto simp: organizer_ok_def events_ok_def race_pk_def intro: unique_on_update_same_key)
  moreover have "list_all (race_row_ok (db_events s)) (db_races ?s)"
    using ok rows by (auto simp: organizer_ok_def events_ok_def list_all_iff set_update_where)
  moreover have "entries_ok ?s"
    by (rule entries_ok_frame [where s = s])
      (use ok carried in \<open>auto simp: organizer_ok_def list_all_iff list_ex_iff\<close>)
  ultimately show ?thesis using ok uniq by (simp add: organizer_ok_def events_ok_def)
qed

text \<open>What a successful \<open>UpdateRace\<close> did.\<close>

lemma update_race_InrE:
  assumes "update_race en t e role rid pa s = (Inr race, s')"
  obtains cur name slug fmt row rest where
    "select_one (is_race_row t e rid) (db_races s) = Some cur"
    "patched_slug (rp_slug pa) (ra_slug cur) = Inr slug"
    "fmt = (if format_equal (format_normalize (apply_format pa (ra_format cur))) (ra_format cur)
            then ra_format cur else format_normalize (apply_format pa (ra_format cur)))"
    "format_equal (format_normalize (apply_format pa (ra_format cur))) (ra_format cur) \<or>
     \<not> list_ex (\<lambda>p. p_tenant_id p = t \<and> p_race_id p = rid) (db_participants s)"
    "format_validate (format_normalize (apply_format pa (ra_format cur))) = None"
    "race = clear_unfixed_distance (cur\<lparr>ra_name := name, ra_slug := slug,
       ra_distance_km := or_keep_opt (rp_distance_km pa) (ra_distance_km cur), ra_format := fmt\<rparr>)"
    "select (is_race_row t e rid) (db_races s) = row # rest"
    "race_violation s (delete_where (is_race_row t e rid) (db_races s)) (write_race en race row) = None"
    "s' = s\<lparr>db_races := update_where (is_race_row t e rid) (\<lambda>row. as_stored (write_race en race row)) (db_races s)\<rparr>"
proof -
  from assms obtain cur name slug fmt s1 row rest where
    cur: "select_one (is_race_row t e rid) (db_races s) = Some cur"
    and slug: "patched_slug (rp_slug pa) (ra_slug cur) = Inr slug"
    and val: "format_validate (format_normalize (apply_format pa (ra_format cur))) = None"
    and step: "(if format_equal (format_normalize (apply_format pa (ra_format cur))) (ra_format cur)
           then ret (ra_format cur)
           else and_then (race_has_participants t (ra_id cur)) (\<lambda>has.
             guard (\<not> has) (invalid_state ''race format cannot change once the race has participants'')
               (ret (format_normalize (apply_format pa (ra_format cur)))))) s = (Inr fmt, s1)"
    and race: "race = clear_unfixed_distance (cur\<lparr>ra_name := name, ra_slug := slug,
       ra_distance_km := or_keep_opt (rp_distance_km pa) (ra_distance_km cur), ra_format := fmt\<rparr>)"
    and hit: "select (is_race_row (ra_tenant_id race) (ra_event_id race) (ra_id race)) (db_races s1) = row # rest"
    and v: "race_violation s1 (delete_where (is_race_row (ra_tenant_id race) (ra_event_id race) (ra_id race)) (db_races s1))
       (write_race en race row) = None"
    and s': "s' = s1\<lparr>db_races := update_where (is_race_row (ra_tenant_id race) (ra_event_id race) (ra_id race))
       (\<lambda>row. as_stored (write_race en race row)) (db_races s1)\<rparr>"
    unfolding update_race_def Let_def
    by (elim act_elims) (hypsubst, blast)
  have id: "ra_tenant_id race = t" "ra_event_id race = e" "ra_id race = rid" "ra_id cur = rid"
    using select_one_SomeD [OF cur] by (simp_all add: race clear_unfixed_distance_def is_race_row_def)
  have "s1 = s \<and> fmt = (if format_equal (format_normalize (apply_format pa (ra_format cur))) (ra_format cur)
            then ra_format cur else format_normalize (apply_format pa (ra_format cur))) \<and>
    (format_equal (format_normalize (apply_format pa (ra_format cur))) (ra_format cur) \<or>
     \<not> list_ex (\<lambda>p. p_tenant_id p = t \<and> p_race_id p = rid) (db_participants s))"
    using step by (auto simp: id race_has_participants_def act_simps guard_def fail_def ret_def split: if_splits)
  then have s1: "s1 = s" and fmt: "fmt = (if format_equal (format_normalize (apply_format pa (ra_format cur))) (ra_format cur)
            then ra_format cur else format_normalize (apply_format pa (ra_format cur)))"
    and free: "format_equal (format_normalize (apply_format pa (ra_format cur))) (ra_format cur) \<or>
     \<not> list_ex (\<lambda>p. p_tenant_id p = t \<and> p_race_id p = rid) (db_participants s)"
    by blast+
  show thesis
    by (rule that [OF cur slug fmt free val race hit [unfolded id s1] v [unfolded id s1] s' [unfolded id s1]])
qed

lemma keeps_update_race: "keeps organizer_ok (update_race en t e role rid pa)"
proof (rule keeps_atomicI [OF atomic_event_calls(5)])
  fix s race s' assume ok: "organizer_ok s" and run: "update_race en t e role rid pa s = (Inr race, s')"
  from run show "organizer_ok s'"
  proof (rule update_race_InrE)
    fix cur name slug fmt row rest
    assume cur: "select_one (is_race_row t e rid) (db_races s) = Some cur"
      and slug: "patched_slug (rp_slug pa) (ra_slug cur) = Inr slug"
      and race: "race = clear_unfixed_distance (cur\<lparr>ra_name := name, ra_slug := slug,
       ra_distance_km := or_keep_opt (rp_distance_km pa) (ra_distance_km cur), ra_format := fmt\<rparr>)"
      and hit: "select (is_race_row t e rid) (db_races s) = row # rest"
      and v: "race_violation s (delete_where (is_race_row t e rid) (db_races s)) (write_race en race row) = None"
      and s': "s' = s\<lparr>db_races := update_where (is_race_row t e rid) (\<lambda>row. as_stored (write_race en race row)) (db_races s)\<rparr>"
    have row: "row \<in> set (db_races s)" "is_race_row t e rid row" using select_Cons_mem [OF hit] by simp_all
    have uniq: "unique_on race_pk (db_races s)" "unique_on race_slug_key (db_races s)"
      using ok by (simp_all add: organizer_ok_def events_ok_def)
    have keys: "race_slug_key (as_stored (write_race en race row)) = race_slug_key (write_race en race row)"
      by (simp add: race_slug_key_def)
    have cur_ok: "slug_normal (ra_slug cur)"
      using ok select_one_SomeD [OF cur]
      by (simp add: organizer_ok_def events_ok_def list_all_iff race_row_ok_def)
    have slug': "ra_slug race = slug" by (simp add: race clear_unfixed_distance_def)
    note v' = race_violation_None [OF v]
    show ?thesis
      unfolding s'
    proof (rule organizer_ok_races [OF ok])
      show "unique_on race_slug_key (update_where (is_race_row t e rid)
          (\<lambda>row. as_stored (write_race en race row)) (db_races s))"
        by (rule unique_on_update_checked [where pk = race_pk and k = rid and row = row and p = "is_race_row t e rid"])
          (use uniq row v' keys in \<open>simp_all add: race_pk_def is_race_row_def taken_def\<close>)
      show "race_row_ok (db_events s) (as_stored (write_race en race r))"
        if r: "r \<in> set (db_races s)" "is_race_row t e rid r" for r
      proof -
        have "r = row"
          using unique_on_sel [OF uniq(1) r(1) row(1), of rid] r(2) row(2)
          by (simp add: race_pk_def is_race_row_def)
        moreover have "race_row_ok (db_events s) row"
          using ok row(1) by (simp add: organizer_ok_def events_ok_def list_all_iff)
        ultimately show ?thesis
          using v' as_stored_columns patched_slug_normal [OF slug cur_ok] slug'
          by (auto simp: race_row_ok_def write_race_def)
      qed
    qed (simp add: write_race_def)
  qed
qed

section \<open>Deleting a race\<close>

definition race_gone :: "string \<Rightarrow> string \<Rightarrow> string \<Rightarrow> db \<Rightarrow> string \<Rightarrow> bool" where
  "race_gone t e rid s r \<longleftrightarrow> list_ex (\<lambda>x. ra_id x = r) (select (is_race_row t e rid) (db_races s))"

definition without_race :: "string \<Rightarrow> string \<Rightarrow> string \<Rightarrow> db \<Rightarrow> db" where
  "without_race t e rid s =
     s\<lparr>db_races := delete_where (is_race_row t e rid) (db_races s),
       db_teams := delete_where (\<lambda>u. race_gone t e rid s (t_race_id u)) (db_teams s),
       db_participants := delete_where (\<lambda>p. race_gone t e rid s (p_race_id p) \<or>
         list_ex (\<lambda>u. p_team_id p = Some (t_id u))
           (select (\<lambda>u. race_gone t e rid s (t_race_id u)) (db_teams s))) (db_participants s)\<rparr>"

lemma delete_race_row_run:
  "delete_race_row t e rid s =
     (if select (is_race_row t e rid) (db_races s) = [] then Inl (Sentinel ErrNotFound) else Inr (),
      without_race t e rid s)"
  by (simp add: delete_race_row_def act_simps check_rows_def without_race_def race_gone_def [abs_def] Let_def)

lemma delete_race_InrE [act_elims]:
  assumes "delete_race t e role rid s = (Inr u, s')"
  obtains "is_at_least role RoleAdmin" "select (is_race_row t e rid) (db_races s) \<noteq> []"
    "s' = without_race t e rid s"
proof -
  from assms have "is_at_least role RoleAdmin" "delete_race_row t e rid s = (Inr u, s')"
    unfolding delete_race_def by (elim act_elims; simp)+
  with that show thesis by (auto simp: delete_race_row_run split: if_splits)
qed

lemma race_not_gone:
  assumes "list_ex (\<lambda>r. ra_id r = x) (db_races s)" "\<not> race_gone t e rid s x"
  shows "list_ex (\<lambda>r. ra_id r = x) (delete_where (is_race_row t e rid) (db_races s))"
  using assms by (auto simp: race_gone_def list_ex_iff set_delete_where set_select)

lemma organizer_ok_without_race: "organizer_ok s \<Longrightarrow> organizer_ok (without_race t e rid s)"
proof -
  assume ok: "organizer_ok s"
  let ?s = "without_race t e rid s"
  have sub: "set (db_races ?s) \<subseteq> set (db_races s)" "db_events ?s = db_events s"
    "set (db_teams ?s) \<subseteq> set (db_teams s)" "set (db_participants ?s) \<subseteq> set (db_participants s)"
    by (auto simp: without_race_def set_delete_where)
  have "events_ok ?s"
    using ok sub(1) unfolding organizer_ok_def events_ok_def
    by (auto simp: without_race_def unique_on_delete list_all_iff set_delete_where)
  moreover have "entries_ok ?s"
  proof -
    have "participants_indexed (db_participants ?s)" "teams_indexed (db_teams ?s)"
      using ok unfolding organizer_ok_def entries_ok_def
      by (simp_all add: without_race_def indexed_delete teams_indexed_def unique_on_delete)
    moreover have "participant_refs_ok ?s p" if "p \<in> set (db_participants ?s)" for p
    proof -
      have p: "participant_refs_ok s p"
        using ok sub(4) that unfolding organizer_ok_def entries_ok_def list_all_iff by blast
      have stay: "\<not> race_gone t e rid s (p_race_id p)"
        "\<not> list_ex (\<lambda>u. p_team_id p = Some (t_id u)) (select (\<lambda>u. race_gone t e rid s (t_race_id u)) (db_teams s))"
        using that by (auto simp: without_race_def set_delete_where)
      have "list_ex (\<lambda>u. t_id u = x) (db_teams ?s)" if "p_team_id p = Some x" for x
        using p stay(2) that
        by (auto simp: participant_refs_ok_def without_race_def list_ex_iff set_delete_where set_select)
      with p race_not_gone [OF _ stay(1)] sub(2) show ?thesis
        by (simp add: participant_refs_ok_def without_race_def split: option.splits)
    qed
    moreover have "team_refs_ok ?s u" if "u \<in> set (db_teams ?s)" for u
    proof -
      have u: "team_refs_ok s u"
        using ok sub(3) that unfolding organizer_ok_def entries_ok_def list_all_iff by blast
      have "\<not> race_gone t e rid s (t_race_id u)" using that by (auto simp: without_race_def set_delete_where)
      with u race_not_gone [of "t_race_id u"] sub(2) show ?thesis
        by (simp add: team_refs_ok_def without_race_def)
    qed
    ultimately show ?thesis by (simp add: entries_ok_def list_all_iff)
  qed
  ultimately show ?thesis by (simp add: organizer_ok_def)
qed

lemma keeps_delete_race: "keeps organizer_ok (delete_race t e role rid)"
  by (rule keeps_atomicI [OF atomic_event_calls(6)]) (elim delete_race_InrE, simp add: organizer_ok_without_race)

section \<open>Histories of the organizer's calls\<close>

datatype event_call =
    CreateEventCall member_role string string "string option" "int option" "int option"
  | UpdateEventCall member_role string event_patch
  | EventStatusCall member_role string event_status
  | CreateRaceCall member_role string string string "rat option" race_config
  | UpdateRaceCall member_role string string race_patch
  | DeleteRaceCall member_role string string

fun run_event_call ::
  "env \<Rightarrow> (string \<Rightarrow> bool) \<Rightarrow> string \<Rightarrow> string \<Rightarrow> event_call \<Rightarrow> unit query" where
  "run_event_call en objs t a (CreateEventCall role name slug venue start stop) =
     discard (create_event en objs t a role name slug venue start stop)"
| "run_event_call en objs t a (UpdateEventCall role eid pa) = discard (update_event en objs t role eid pa)"
| "run_event_call en objs t a (EventStatusCall role eid st) = discard (set_event_status en t a role eid st)"
| "run_event_call en objs t a (CreateRaceCall role e name slug km format) =
     discard (create_race en t e a role name slug km format)"
| "run_event_call en objs t a (UpdateRaceCall role e rid pa) = discard (update_race en t e role rid pa)"
| "run_event_call en objs t a (DeleteRaceCall role e rid) = discard (delete_race t e role rid)"

datatype organizer_call =
    OnEvents "string \<Rightarrow> bool" event_call
  | OnEntries string participant_call

fun run_organizer_call :: "env \<Rightarrow> string \<Rightarrow> string \<Rightarrow> organizer_call \<Rightarrow> unit query" where
  "run_organizer_call en t a (OnEvents objs c) = run_event_call en objs t a c"
| "run_organizer_call en t a (OnEntries e c) = run_call en t e a c"

fun run_organizer :: "(env \<times> string \<times> string \<times> organizer_call) list \<Rightarrow> db \<Rightarrow> db" where
  "run_organizer [] s = s"
| "run_organizer ((en, t, a, c) # cs) s = run_organizer cs (snd (run_organizer_call en t a c s))"

lemma keeps_run_event_call: "keeps organizer_ok (run_event_call en objs t a c)"
  by (cases c) (simp_all only: run_event_call.simps discard_def,
    (intro keeps_intros keeps_create_event keeps_update_event keeps_set_event_status keeps_create_race
      keeps_update_race keeps_delete_race)+)


text \<open>The participant component never writes events or races.\<close>

definition same_events :: "event_row list \<Rightarrow> race_row list \<Rightarrow> db \<Rightarrow> bool" where
  "same_events es rs s \<longleftrightarrow> db_events s = es \<and> db_races s = rs"

lemma same_events_audit [simp]: "same_events es rs (s\<lparr>db_audit := l\<rparr>) = same_events es rs s"
  by (simp add: same_events_def)

lemma keeps_same_events_statements [keeps_intros]:
  "keeps (same_events es rs) (insert_participant p)"
  "keeps (same_events es rs) (update_participant_row en p)"
  "keeps (same_events es rs) (delete_participant_rows cl)"
  "keeps (same_events es rs) (set_status_rows en cl st)"
  "keeps (same_events es rs) (detach_team_members en t tid)"
  "keeps (same_events es rs) (insert_team u)"
  "keeps (same_events es rs) (update_team_row en u)"
  "keeps (same_events es rs) (delete_team_row t e tid)"
  unfolding insert_participant_def update_participant_row_def delete_participant_rows_def
    set_status_rows_def detach_team_members_def insert_team_def update_team_row_def delete_team_row_def Let_def
  by (intro keeps_intros keeps_writes; simp add: same_events_def)+

lemma keeps_same_events_import [keeps_intros]:
  "keeps (same_events es rs) (create_teams en k t e pts m)"
  "keeps (same_events es rs) (apply_rows en k t e races ids rows)"
proof -
  show "keeps (same_events es rs) (create_teams en k t e pts m)"
    by (induction pts arbitrary: k m) (simp_all only: create_teams.simps, (intro keeps_intros; simp)+)
  show "keeps (same_events es rs) (apply_rows en k t e races ids rows)"
  proof (induction rows arbitrary: k)
    case (Cons r rows)
    then show ?case
      by (cases r) (simp only: apply_rows.simps apply_row_def, intro keeps_intros, assumption)
  qed (simp add: keeps_intros)
qed

lemma keeps_same_events_call: "keeps (same_events es rs) (run_call en t e a c)"
  by (cases c) (simp_all only: run_call.simps discard_def create_participant_def update_participant_def
    delete_participants_def set_status_def export_participants_def participants_matching_def
    create_team_def update_team_def delete_team_def import_participants_def apply_plan_def,
    (intro keeps_intros; simp)+)

lemma keeps_run_organizer_call: "keeps organizer_ok (run_organizer_call en t a c)"
proof (cases c)
  case (OnEvents objs d)
  then show ?thesis by (simp add: keeps_run_event_call)
next
  case (OnEntries e d)
  show ?thesis
  proof (rule keepsI)
    fix s r s' assume ok: "organizer_ok s" and run: "run_organizer_call en t a c s = (r, s')"
    then have run': "run_call en t e a d s = (r, s')" by (simp add: OnEntries)
    have "same_events (db_events s) (db_races s) s'"
      by (rule keepsD [OF keeps_same_events_call _ run']) (simp add: same_events_def)
    then have "events_ok s' = events_ok s" by (intro events_ok_frame) (simp_all add: same_events_def)
    moreover have "entries_ok s'"
      by (rule keepsD [OF keeps_run_call _ run']) (use ok in \<open>simp add: organizer_ok_def\<close>)
    ultimately show "organizer_ok s'" using ok by (simp add: organizer_ok_def)
  qed
qed

text \<open>C8: every history of event, race, participant, team and import calls of any tenants, with any
arguments and roles, keeps the tables consistent: event slugs globally unique and in slug form, race
slugs unique in their event, every race in an event of its own tenant, and every participant and
team row with its event, race and team in place, deleting races included.\<close>

theorem organizer_tables_consistent: "organizer_ok s \<Longrightarrow> organizer_ok (run_organizer cs s)"
proof (induction cs arbitrary: s)
  case (Cons x cs)
  obtain en t a c where x: "x = (en, t, a, c)" by (cases x)
  have "organizer_ok (snd (run_organizer_call en t a c s))"
    using keeps_run_organizer_call Cons.prems by (simp add: keeps_def)
  with Cons.IH x show ?case by simp
qed simp

text \<open>A tenant with one user, and the race format of a loop.\<close>

definition demo_user :: user_row where
  "demo_user = \<lparr>us_id = ''u'', us_email = ''u@x.id'', us_password_hash = None, us_first_name = ''U'',
     us_last_name = '''', us_phone = None, us_is_email_verified = True, us_is_super_admin = False,
     us_status = ''active'', us_terms_accepted_at = None, us_created_at = 0, us_updated_at = 0\<rparr>"

definition demo_tenant :: tenant_row where
  "demo_tenant = \<lparr>tn_id = ''t'', tn_name = ''T'', tn_slug = ''t'', tn_owner_user_id = ''u'',
     tn_status = ''active'', tn_status_reason = None, tn_created_at = 0, tn_updated_at = 0\<rparr>"

definition demo_org :: db where
  "demo_org = empty_db\<lparr>db_users := [demo_user], db_tenants := [demo_tenant]\<rparr>"

definition loop_format :: "rat \<Rightarrow> race_config" where
  "loop_format km = \<lparr>rc_entry_type = '''', rc_course_type = RaceCourseLoop, rc_team_size = None,
     rc_loop_mode = Some LoopModeTargetLaps, rc_loop_length_km = Some km, rc_loop_target_laps = Some 3,
     rc_loop_time_limit_ms = None\<rparr>"

definition demo_history :: "(env \<times> string \<times> string \<times> organizer_call) list" where
  "demo_history =
     [(demo_env ''e'', ''t'', ''u'', OnEvents (\<lambda>_. False) (CreateEventCall RoleOwner ''City Run'' '''' None None None)),
      (demo_env ''r'', ''t'', ''u'', OnEvents (\<lambda>_. False)
         (CreateRaceCall RoleOwner ''e'' ''Loop'' '''' None (loop_format (5/2)))),
      (demo_env ''p'', ''t'', ''u'', OnEntries ''e'' (CreateCall RoleStaff ''r''
         ((demo_input ''Ann'' 1 1 GenderFemale)\<lparr>i_team_id := None, i_leg_order := None\<rparr>)))]"

lemma demo_org_ok: "organizer_ok demo_org"
  by code_simp

theorem organizer_tables_consistent_witness:
  "organizer_ok (run_organizer demo_history demo_org) \<and>
     map ev_slug (db_events (run_organizer demo_history demo_org)) = [''city-run''] \<and>
     map p_race_id (db_participants (run_organizer demo_history demo_org)) = [''r'']"
proof (intro conjI)
  show "organizer_ok (run_organizer demo_history demo_org)"
    by (rule organizer_tables_consistent [OF demo_org_ok])
  show "map ev_slug (db_events (run_organizer demo_history demo_org)) = [''city-run'']"
    "map p_race_id (db_participants (run_organizer demo_history demo_org)) = [''r'']"
    by code_simp+
qed

end
