(* ===== verification/Tenant_Props.thy ===== *)
theory Tenant_Props
  imports Tenant_Service Event_Props
begin

text \<open>
  What the tenant component keeps (\<open>tenants_ok\<close>): its indexes and references, one active owner per
  workspace, invitations that only grant the admin and staff roles and are settled for good once
  accepted or revoked.
\<close>

section \<open>Atomic calls that read first or build their result last\<close>

definition reader :: "'a query \<Rightarrow> bool" where
  "reader m \<longleftrightarrow> (\<forall>s. snd (m s) = s)"

lemma readerD: "reader m \<Longrightarrow> m s = (x, s') \<Longrightarrow> s' = s"
  unfolding reader_def by (metis snd_conv)

lemma atomic_after_reader [atomic_intros]:
  assumes "reader m" "\<And>a. atomic (f a)"
  shows "atomic (and_then m f)"
  unfolding atomic_def
proof
  fix s
  obtain x s' where m: "m s = (x, s')" by fastforce
  with assms(1) have "s' = s" by (rule readerD)
  with m assms(2) show "case and_then m f s of (Inl e, s') \<Rightarrow> s' = s | (Inr a, s') \<Rightarrow> True"
    by (cases x) (auto simp: and_then_def atomic_def)
qed

lemma reader_reads: "reader (reads f)"
  by (simp add: reader_def reads_def)

lemma reader_found: "reader (and_then (reads f) found)"
  by (simp add: reader_def and_then_def reads_def found_def of_option_def fail_def ret_def split: option.splits)

lemma reader_lookups [atomic_intros]:
  "reader (get_user u)" "reader (get_user_by_email m)" "reader (get_tenant t)"
  "reader (get_invitation_by_hash h)" "reader (get_event t e)" "reader (get_refresh_token h)"
  unfolding get_user_def get_user_by_email_def get_tenant_def get_invitation_by_hash_def get_event_def
    get_refresh_token_def
  by (rule reader_found)+

lemma atomic_then_ret: "atomic m \<Longrightarrow> atomic (and_then m (\<lambda>a. ret (f a)))"
  by (auto simp: atomic_def and_then_def ret_def split: prod.splits sum.splits)

lemma atomic_then_ret_pair [atomic_intros]:
  "atomic m \<Longrightarrow> atomic (and_then m (\<lambda>(a, b). ret (f a b)))"
  by (auto simp: atomic_def and_then_def ret_def split: prod.splits sum.splits)

lemma atomic_then_ret_triple [atomic_intros]:
  "atomic m \<Longrightarrow> atomic (and_then m (\<lambda>(a, b, c). ret (f a b c)))"
  by (auto simp: atomic_def and_then_def ret_def split: prod.splits sum.splits)

lemma atomic_tenant_calls:
  "atomic (create_tenant en owner name slug)" "atomic (set_tenant_status en actor super tid st reason)"
  "atomic (invite_staff en hash ttl raw tid actor role target email origin)"
  "atomic (revoke_invitation en tid actor role iid)" "atomic (accept_invitation en hash raw uid)"
  "atomic (resend_invitation en hash ttl raw tid actor role iid origin)"
  "atomic (update_member_role en tid actor role mid new_role)" "atomic (remove_member en tid actor role mid)"
  unfolding create_tenant_def set_tenant_status_def invite_staff_def revoke_invitation_def
    accept_invitation_def resend_invitation_def update_member_role_def remove_member_def Let_def
  by (intro atomic_intros)+

section \<open>Inversion of the statements\<close>

lemma get_tenant_InrE [act_elims]:
  assumes "get_tenant tid s = (Inr t, s')"
  obtains "s' = s" "select_one (\<lambda>t. tn_id t = tid) (db_tenants s) = Some t"
  using assms unfolding get_tenant_def by (elim act_elims) simp

lemma get_member_by_id_InrE [act_elims]:
  assumes "get_member_by_id tid mid s = (Inr m, s')"
  obtains "s' = s" "select_one (is_member_row tid mid) (db_members s) = Some m"
  using assms unfolding get_member_by_id_def by (elim act_elims) simp

lemma get_invitation_InrE [act_elims]:
  assumes "get_invitation tid iid s = (Inr i, s')"
  obtains "s' = s" "select_one (is_invitation_row tid iid) (db_invitations s) = Some i"
  using assms unfolding get_invitation_def by (elim act_elims) simp

lemma get_invitation_by_hash_InrE [act_elims]:
  assumes "get_invitation_by_hash h s = (Inr i, s')"
  obtains "s' = s" "select_one (\<lambda>i. iv_token_hash i = h) (db_invitations s) = Some i"
  using assms unfolding get_invitation_by_hash_def by (elim act_elims) simp

lemma insert_tenant_InrE [act_elims]:
  assumes "insert_tenant t s = (Inr u, s')"
  obtains "tenant_violation s t = None" "s' = s\<lparr>db_tenants := db_tenants s @ [t]\<rparr>"
  using assms unfolding insert_tenant_def by (elim act_elims) simp

lemma insert_member_InrE [act_elims]:
  assumes "insert_member m s = (Inr u, s')"
  obtains "member_violation s m = None" "s' = s\<lparr>db_members := db_members s @ [m]\<rparr>"
  using assms unfolding insert_member_def by (elim act_elims) simp

lemma insert_invitation_InrE [act_elims]:
  assumes "insert_invitation i s = (Inr u, s')"
  obtains "invitation_violation s i = None" "s' = s\<lparr>db_invitations := db_invitations s @ [i]\<rparr>"
  using assms unfolding insert_invitation_def by (elim act_elims) simp

lemma update_tenant_status_InrE [act_elims]:
  assumes "update_tenant_status en tid st reason s = (Inr u, s')"
  obtains "s' = s\<lparr>db_tenants := update_where (\<lambda>t. tn_id t = tid)
        (\<lambda>t. t\<lparr>tn_status := st, tn_status_reason := reason, tn_updated_at := e_now en\<rparr>) (db_tenants s)\<rparr>"
  using assms unfolding update_tenant_status_def by (elim act_elims) simp

lemma update_members_InrE [act_elims]:
  assumes "update_members en q f s = (Inr u, s')"
  obtains "select q (db_members s) \<noteq> []"
    "s' = s\<lparr>db_members := update_where q (\<lambda>m. (f m)\<lparr>mb_updated_at := e_now en\<rparr>) (db_members s)\<rparr>"
  using assms unfolding update_members_def by (elim act_elims) simp

definition pending_row :: "string \<Rightarrow> string \<Rightarrow> invitation \<Rightarrow> bool" where
  "pending_row tid iid i \<longleftrightarrow> is_invitation_row tid iid i \<and> iv_status i = InvitationPending"

lemma update_pending_InrE [act_elims]:
  assumes "update_pending tid iid f s = (Inr u, s')"
  obtains "select (pending_row tid iid) (db_invitations s) \<noteq> []"
    "s' = s\<lparr>db_invitations := update_where (pending_row tid iid) f (db_invitations s)\<rparr>"
  using assms unfolding update_pending_def Let_def pending_row_def [abs_def] by (elim act_elims) simp

lemma rotate_invitation_token_InrE [act_elims]:
  assumes "rotate_invitation_token tid iid h e s = (Inr u, s')"
  obtains "\<And>i. i \<in> set (db_invitations s) \<Longrightarrow> iv_token_hash i = h \<Longrightarrow> is_invitation_row tid iid i"
    "select (pending_row tid iid) (db_invitations s) \<noteq> []"
    "s' = s\<lparr>db_invitations := update_where (pending_row tid iid)
       (\<lambda>i. i\<lparr>iv_token_hash := h, iv_expires_at := e\<rparr>) (db_invitations s)\<rparr>"
proof -
  from assms have "\<not> (list_ex (pending_row tid iid) (db_invitations s) \<and>
      list_ex (\<lambda>i. iv_token_hash i = h \<and> \<not> is_invitation_row tid iid i) (db_invitations s)) \<and>
    update_pending tid iid (\<lambda>i. i\<lparr>iv_token_hash := h, iv_expires_at := e\<rparr>) s = (Inr u, s')"
    unfolding rotate_invitation_token_def pending_row_def [abs_def]
    by (elim and_then_InrE reads_InrE guard_InrE) (hypsubst, rule conjI)
  note * = this [THEN conjunct1] this [THEN conjunct2]
  from *(2) show thesis
  proof (rule update_pending_InrE)
    assume sel: "select (pending_row tid iid) (db_invitations s) \<noteq> []"
      and s': "s' = s\<lparr>db_invitations := update_where (pending_row tid iid)
         (\<lambda>i. i\<lparr>iv_token_hash := h, iv_expires_at := e\<rparr>) (db_invitations s)\<rparr>"
    have "list_ex (pending_row tid iid) (db_invitations s)"
      using sel by (auto simp: select_def list_ex_iff filter_empty_conv)
    have only: "is_invitation_row tid iid i" if "i \<in> set (db_invitations s)" "iv_token_hash i = h" for i
    proof (rule ccontr)
      assume "\<not> is_invitation_row tid iid i"
      with that have "list_ex (\<lambda>i. iv_token_hash i = h \<and> \<not> is_invitation_row tid iid i) (db_invitations s)"
        unfolding list_ex_iff by blast
      with *(1) \<open>list_ex (pending_row tid iid) (db_invitations s)\<close> show False by blast
    qed
    show thesis by (rule that [OF only sel s'])
  qed
qed

section \<open>The invariant\<close>

text \<open>A member row belongs to a tenant; the owner's row is an active owner row, every other row is
an admin or staff row.\<close>

definition member_fits :: "tenant_row \<Rightarrow> tenant_member \<Rightarrow> bool" where
  "member_fits t m \<longleftrightarrow>
     tn_id t = mb_tenant_id m \<and>
     (if mb_user_id m = tn_owner_user_id t then mb_role m = RoleOwner \<and> mb_status m = MemberActive
      else (mb_role m = RoleAdmin \<or> mb_role m = RoleStaff) \<and>
           (mb_status m = MemberActive \<or> mb_status m = MemberRemoved))"

definition member_row_ok :: "tenant_row list \<Rightarrow> tenant_member \<Rightarrow> bool" where
  "member_row_ok ts m \<longleftrightarrow> list_ex (\<lambda>t. member_fits t m) ts"

definition tenant_row_ok :: "tenant_member list \<Rightarrow> tenant_row \<Rightarrow> bool" where
  "tenant_row_ok ms t \<longleftrightarrow> slug_normal (tn_slug t) \<and>
     list_ex (\<lambda>m. mb_tenant_id m = tn_id t \<and> mb_user_id m = tn_owner_user_id t) ms"

definition invitation_row_ok :: "invitation \<Rightarrow> bool" where
  "invitation_row_ok i \<longleftrightarrow>
     (iv_role i = RoleAdmin \<or> iv_role i = RoleStaff) \<and>
     (iv_status i = InvitationPending \<or> iv_status i = InvitationAccepted \<or> iv_status i = InvitationRevoked) \<and>
     (iv_status i = InvitationAccepted \<longleftrightarrow> iv_accepted_at i \<noteq> None)"

definition tenants_ok :: "db \<Rightarrow> bool" where
  "tenants_ok s \<longleftrightarrow>
     unique_on tenant_pk (db_tenants s) \<and> unique_on tenant_slug_key (db_tenants s) \<and>
     list_all (tenant_row_ok (db_members s)) (db_tenants s) \<and>
     unique_on member_pk (db_members s) \<and> unique_on member_key (db_members s) \<and>
     list_all (member_row_ok (db_tenants s)) (db_members s) \<and>
     unique_on invitation_pk (db_invitations s) \<and> unique_on invitation_hash_key (db_invitations s) \<and>
     list_all invitation_row_ok (db_invitations s)"

lemma tenants_ok_audit [simp]: "tenants_ok (s\<lparr>db_audit := l\<rparr>) = tenants_ok s"
  by (simp add: tenants_ok_def)

lemma tenant_row_ok_mono:
  assumes "list_all (tenant_row_ok ms) ts"
    and "\<And>m. m \<in> set ms \<Longrightarrow> \<exists>m' \<in> set ms'. mb_tenant_id m' = mb_tenant_id m \<and> mb_user_id m' = mb_user_id m"
  shows "list_all (tenant_row_ok ms') ts"
  unfolding list_all_iff
proof
  fix t assume "t \<in> set ts"
  with assms(1) have t: "tenant_row_ok ms t" by (simp add: list_all_iff)
  then obtain m where m: "m \<in> set ms" "mb_tenant_id m = tn_id t" "mb_user_id m = tn_owner_user_id t"
    by (auto simp: tenant_row_ok_def list_ex_iff)
  with assms(2) [OF m(1)] t show "tenant_row_ok ms' t" by (auto simp: tenant_row_ok_def list_ex_iff)
qed

lemma member_row_ok_mono:
  assumes "list_all (member_row_ok ts) ms"
    and "\<And>t. t \<in> set ts \<Longrightarrow> \<exists>t' \<in> set ts'. tn_id t' = tn_id t \<and> tn_owner_user_id t' = tn_owner_user_id t"
  shows "list_all (member_row_ok ts') ms"
  unfolding list_all_iff
proof
  fix m assume "m \<in> set ms"
  with assms(1) have "member_row_ok ts m" by (simp add: list_all_iff)
  then obtain t where t: "t \<in> set ts" "member_fits t m" by (auto simp: member_row_ok_def list_ex_iff)
  then obtain t' where "t' \<in> set ts'" "tn_id t' = tn_id t" "tn_owner_user_id t' = tn_owner_user_id t"
    using assms(2) by blast
  with t(2) show "member_row_ok ts' m" by (auto simp: member_row_ok_def list_ex_iff member_fits_def)
qed

text \<open>Tenants that change without a new identifier, slug or owner; members without a new place;
invitations.\<close>

lemma tenants_ok_tenants:
  assumes ok: "tenants_ok s"
    and same: "\<And>t. tn_id (f t) = tn_id t \<and> tn_slug (f t) = tn_slug t \<and> tn_owner_user_id (f t) = tn_owner_user_id t"
  shows "tenants_ok (s\<lparr>db_tenants := update_where q f (db_tenants s)\<rparr>)"
proof -
  let ?ts = "update_where q f (db_tenants s)"
  have "unique_on tenant_pk ?ts" "unique_on tenant_slug_key ?ts"
    using ok same by (auto simp: tenants_ok_def tenant_pk_def tenant_slug_key_def intro!: unique_on_update_same_key)
  moreover have "list_all (tenant_row_ok (db_members s)) ?ts"
    using ok same by (auto simp: tenants_ok_def list_all_iff set_update_where tenant_row_ok_def)
  moreover have "list_all (member_row_ok ?ts) (db_members s)"
    by (rule member_row_ok_mono [of "db_tenants s"])
      (use ok same in \<open>auto simp: tenants_ok_def set_update_where\<close>)
  ultimately show ?thesis using ok by (simp add: tenants_ok_def)
qed

lemma tenants_ok_members:
  assumes ok: "tenants_ok s"
    and same: "\<And>m. mb_id (f m) = mb_id m \<and> mb_tenant_id (f m) = mb_tenant_id m \<and> mb_user_id (f m) = mb_user_id m"
    and rows: "\<And>m. m \<in> set (db_members s) \<Longrightarrow> q m \<Longrightarrow> member_row_ok (db_tenants s) (f m)"
  shows "tenants_ok (s\<lparr>db_members := update_where q f (db_members s)\<rparr>)"
proof -
  let ?ms = "update_where q f (db_members s)"
  have "unique_on member_pk ?ms" "unique_on member_key ?ms"
    using ok same by (auto simp: tenants_ok_def member_pk_def member_key_def intro!: unique_on_update_same_key)
  moreover have "list_all (member_row_ok (db_tenants s)) ?ms"
    using ok rows by (auto simp: tenants_ok_def list_all_iff set_update_where)
  moreover have "list_all (tenant_row_ok ?ms) (db_tenants s)"
    by (rule tenant_row_ok_mono [of "db_members s"])
      (use ok same in \<open>auto simp: tenants_ok_def set_update_where\<close>)
  ultimately show ?thesis using ok by (simp add: tenants_ok_def)
qed

lemma tenants_ok_new_member:
  assumes ok: "tenants_ok s" and v: "member_violation s m = None" and row: "member_row_ok (db_tenants s) m"
  shows "tenants_ok (s\<lparr>db_members := db_members s @ [m]\<rparr>)"
proof -
  have "\<not> taken member_pk (db_members s) m" "\<not> taken member_key (db_members s) m"
    using v by (simp_all add: member_violation_def split: if_splits)
  moreover have "list_all (tenant_row_ok (db_members s @ [m])) (db_tenants s)"
    by (rule tenant_row_ok_mono [of "db_members s"]) (use ok in \<open>auto simp: tenants_ok_def\<close>)
  ultimately show ?thesis
    using ok row by (simp add: tenants_ok_def unique_on_append_one not_taken_fresh)
qed

lemma tenants_ok_invitations:
  assumes ok: "tenants_ok s" and pk: "unique_on invitation_pk is" and hash: "unique_on invitation_hash_key is"
    and rows: "list_all invitation_row_ok is"
  shows "tenants_ok (s\<lparr>db_invitations := is\<rparr>)"
  using assms by (simp add: tenants_ok_def)

lemma tenants_ok_settle:
  assumes ok: "tenants_ok s"
    and same: "\<And>i. iv_id (f i) = iv_id i \<and> iv_token_hash (f i) = iv_token_hash i \<and> iv_role (f i) = iv_role i"
    and rows: "\<And>i. invitation_row_ok i \<Longrightarrow> iv_status i = InvitationPending \<Longrightarrow> invitation_row_ok (f i)"
  shows "tenants_ok (s\<lparr>db_invitations := update_where (pending_row tid iid) f (db_invitations s)\<rparr>)"
proof (rule tenants_ok_invitations [OF ok])
  show "unique_on invitation_pk (update_where (pending_row tid iid) f (db_invitations s))"
    "unique_on invitation_hash_key (update_where (pending_row tid iid) f (db_invitations s))"
    using ok same
    by (auto simp: tenants_ok_def invitation_pk_def invitation_hash_key_def intro!: unique_on_update_same_key)
  show "list_all invitation_row_ok (update_where (pending_row tid iid) f (db_invitations s))"
    using ok rows by (auto simp: tenants_ok_def list_all_iff set_update_where pending_row_def)
qed

section \<open>The use cases\<close>

lemma keeps_create_tenant: "keeps tenants_ok (create_tenant en owner name slug0)"
proof (rule keeps_atomicI [OF atomic_tenant_calls(1)])
  fix s t s' assume ok: "tenants_ok s" and run: "create_tenant en owner name slug0 s = (Inr t, s')"
  let ?t = "new_tenant en owner name (tenant_slug name slug0)"
  let ?m = "new_member en 1 (tn_id ?t) owner RoleOwner"
  from run obtain s1 s2 l where slug: "tenant_slug name slug0 \<noteq> ''''"
    and vt: "tenant_violation s ?t = None" and s1: "s1 = s\<lparr>db_tenants := db_tenants s @ [?t]\<rparr>"
    and vm: "member_violation s1 ?m = None" and s2: "s2 = s1\<lparr>db_members := db_members s1 @ [?m]\<rparr>"
    and s': "s' = s2\<lparr>db_audit := db_audit s2 @ [l]\<rparr>"
    unfolding create_tenant_def Let_def audit_event_def
    by (elim act_elims) (hypsubst, blast)
  have slug_ok: "slug_normal (tenant_slug name slug0)"
    using slug by (auto simp: tenant_slug_def slug_normal_slugify split: if_splits)
  have fresh: "\<not> taken tenant_pk (db_tenants s) ?t" "\<not> taken tenant_slug_key (db_tenants s) ?t"
    "\<not> taken member_pk (db_members s) ?m" "\<not> taken member_key (db_members s) ?m"
    using vt vm by (simp_all add: tenant_violation_def member_violation_def s1 split: if_splits)
  have "list_all (tenant_row_ok (db_members s @ [?m])) (db_tenants s)"
    by (rule tenant_row_ok_mono [of "db_members s"]) (use ok in \<open>auto simp: tenants_ok_def\<close>)
  moreover have "list_all (member_row_ok (db_tenants s @ [?t])) (db_members s)"
    by (rule member_row_ok_mono [of "db_tenants s"]) (use ok in \<open>auto simp: tenants_ok_def\<close>)
  moreover have "tenant_row_ok (db_members s @ [?m]) ?t" "member_row_ok (db_tenants s @ [?t]) ?m"
    using slug_ok by (simp_all add: tenant_row_ok_def member_row_ok_def member_fits_def new_tenant_def new_member_def)
  ultimately show "tenants_ok s'"
    using ok fresh unfolding s' s2 s1
    by (simp add: tenants_ok_def unique_on_append_one not_taken_fresh)
qed

lemma keeps_set_tenant_status: "keeps tenants_ok (set_tenant_status en actor super tid st reason)"
proof (rule keeps_atomicI [OF atomic_tenant_calls(2)])
  fix s t s' assume ok: "tenants_ok s" and run: "set_tenant_status en actor super tid st reason s = (Inr t, s')"
  from run obtain s1 l reason' where
    s1: "s1 = s\<lparr>db_tenants := update_where (\<lambda>t. tn_id t = tid)
        (\<lambda>t. t\<lparr>tn_status := st, tn_status_reason := reason', tn_updated_at := e_now en\<rparr>) (db_tenants s)\<rparr>"
    and s': "s' = s1\<lparr>db_audit := db_audit s1 @ [l]\<rparr>"
    unfolding set_tenant_status_def Let_def audit_event_def
    by (elim act_elims) (hypsubst, blast)
  have "tenants_ok s1" unfolding s1 by (rule tenants_ok_tenants [OF ok]) simp
  then show "tenants_ok s'" by (simp add: s')
qed

lemma keeps_invite_staff: "keeps tenants_ok (invite_staff en hash ttl raw tid actor role target email origin)"
proof (rule keeps_atomicI [OF atomic_tenant_calls(3)])
  fix s r s' assume ok: "tenants_ok s"
    and run: "invite_staff en hash ttl raw tid actor role target email origin s = (Inr r, s')"
  let ?i = "new_invitation en hash ttl tid actor (normalize_email email) target raw"
  from run obtain s1 l where role: "target = RoleAdmin \<or> target = RoleStaff"
    and v: "invitation_violation s ?i = None"
    and s1: "s1 = s\<lparr>db_invitations := db_invitations s @ [?i]\<rparr>" and s': "s' = s1\<lparr>db_audit := db_audit s1 @ [l]\<rparr>"
    unfolding invite_staff_def Let_def audit_event_def case_prod_unfold
    by (elim act_elims) (hypsubst, blast)
  have fresh: "\<not> taken invitation_pk (db_invitations s) ?i" "\<not> taken invitation_hash_key (db_invitations s) ?i"
    using v by (simp_all add: invitation_violation_def split: if_splits)
  have "invitation_row_ok ?i" using role by (simp add: invitation_row_ok_def new_invitation_def)
  then have "tenants_ok s1"
    unfolding s1 using ok fresh
    by (intro tenants_ok_invitations [OF ok]) (simp_all add: tenants_ok_def unique_on_append_one not_taken_fresh)
  then show "tenants_ok s'" by (simp add: s')
qed

lemma keeps_revoke_invitation: "keeps tenants_ok (revoke_invitation en tid actor role iid)"
proof (rule keeps_atomicI [OF atomic_tenant_calls(4)])
  fix s r s' assume ok: "tenants_ok s" and run: "revoke_invitation en tid actor role iid s = (Inr r, s')"
  from run obtain s1 l where
    s1: "s1 = s\<lparr>db_invitations := update_where (pending_row tid iid)
       (\<lambda>i. i\<lparr>iv_status := InvitationRevoked\<rparr>) (db_invitations s)\<rparr>"
    and s': "s' = s1\<lparr>db_audit := db_audit s1 @ [l]\<rparr>"
    unfolding revoke_invitation_def revoke_invitation_row_def audit_event_def
    by (elim act_elims) (hypsubst, blast)
  have "tenants_ok s1"
    unfolding s1 by (rule tenants_ok_settle [OF ok]) (simp_all add: invitation_row_ok_def)
  then show "tenants_ok s'" by (simp add: s')
qed

lemma keeps_resend_invitation:
  "keeps tenants_ok (resend_invitation en hash ttl raw tid actor role iid origin)"
proof (rule keeps_atomicI [OF atomic_tenant_calls(6)])
  fix s r s' assume ok: "tenants_ok s"
    and run: "resend_invitation en hash ttl raw tid actor role iid origin s = (Inr r, s')"
  let ?f = "\<lambda>i. i\<lparr>iv_token_hash := hash raw, iv_expires_at := e_now en + ttl\<rparr>"
  from run obtain s1 l where
    only: "\<And>i. i \<in> set (db_invitations s) \<Longrightarrow> iv_token_hash i = hash raw \<Longrightarrow> is_invitation_row tid iid i"
    and s1: "s1 = s\<lparr>db_invitations := update_where (pending_row tid iid) ?f (db_invitations s)\<rparr>"
    and s': "s' = s1\<lparr>db_audit := db_audit s1 @ [l]\<rparr>"
    unfolding resend_invitation_def Let_def audit_event_def case_prod_unfold
    by (elim act_elims) (hypsubst, blast)
  have pk: "unique_on invitation_pk (db_invitations s)" "unique_on invitation_hash_key (db_invitations s)"
    using ok by (simp_all add: tenants_ok_def)
  have "tenants_ok s1"
    unfolding s1
  proof (rule tenants_ok_invitations [OF ok])
    show "unique_on invitation_pk (update_where (pending_row tid iid) ?f (db_invitations s))"
      by (rule unique_on_update_same_key [OF pk(1)]) (simp add: invitation_pk_def)
    show "unique_on invitation_hash_key (update_where (pending_row tid iid) ?f (db_invitations s))"
    proof (rule unique_on_update_fresh_key [OF pk(2,1), where k = iid])
      fix i j assume i: "i \<in> set (db_invitations s)" "pending_row tid iid i"
        and j: "j \<in> set (db_invitations s)" "\<not> pending_row tid iid j"
      show "invitation_hash_key j \<noteq> invitation_hash_key (?f i)"
      proof
        assume "invitation_hash_key j = invitation_hash_key (?f i)"
        then have "is_invitation_row tid iid j" using only [OF j(1)] by (simp add: invitation_hash_key_def)
        then have "i = j"
          using unique_on_sel [OF pk(1) i(1) j(1), of iid] i(2)
          by (simp add: invitation_pk_def pending_row_def is_invitation_row_def)
        with i(2) j(2) show False by simp
      qed
    qed (simp add: pending_row_def is_invitation_row_def invitation_pk_def)
    show "list_all invitation_row_ok (update_where (pending_row tid iid) ?f (db_invitations s))"
      using ok by (auto simp: tenants_ok_def list_all_iff set_update_where invitation_row_ok_def)
  qed
  then show "tenants_ok s'" by (simp add: s')
qed

lemma create_or_reactivate_InrE:
  assumes "create_or_reactivate_member en m s = (Inr mid, s')"
  obtains (new) "select_one (is_membership (mb_tenant_id m) (mb_user_id m)) (db_members s) = None"
      "member_violation s m = None" "s' = s\<lparr>db_members := db_members s @ [m]\<rparr>" "mid = mb_id m"
  | (returned) old where "select_one (is_membership (mb_tenant_id m) (mb_user_id m)) (db_members s) = Some old"
      "mb_status old = MemberRemoved" "mid = mb_id old"
      "s' = s\<lparr>db_members := update_where (is_membership (mb_tenant_id m) (mb_user_id m))
          (\<lambda>r. r\<lparr>mb_role := mb_role m, mb_status := mb_status m, mb_updated_at := e_now en\<rparr>) (db_members s)\<rparr>"
proof (cases "select_one (is_membership (mb_tenant_id m) (mb_user_id m)) (db_members s)")
  case None
  with assms show thesis
    unfolding create_or_reactivate_member_def by (elim act_elims) (simp add: new act_simps on_error_def fail_def
      and_then_def writes_def ret_def split: option.splits)
next
  case (Some old)
  with assms have "guard (mb_status old = MemberRemoved) (Sentinel ErrAlreadyExists)
      (and_then (writes (\<lambda>s. s\<lparr>db_members := update_where (is_membership (mb_tenant_id m) (mb_user_id m))
         (\<lambda>r. r\<lparr>mb_role := mb_role m, mb_status := mb_status m, mb_updated_at := e_now en\<rparr>)
         (db_members s)\<rparr>)) (\<lambda>_. ret (mb_id old))) s = (Inr mid, s')"
    by (simp add: create_or_reactivate_member_def act_simps)
  with returned [OF Some] show thesis by (elim act_elims) blast
qed

text \<open>A row other than the owner's, with a new admin or staff role.\<close>

lemma member_row_ok_change:
  assumes "member_row_ok ts m" and "mb_role m \<noteq> RoleOwner \<or> mb_status m \<noteq> MemberActive"
    and "mb_tenant_id m' = mb_tenant_id m" "mb_user_id m' = mb_user_id m"
    and "mb_role m' = RoleAdmin \<or> mb_role m' = RoleStaff"
    and "mb_status m' = MemberActive \<or> mb_status m' = MemberRemoved"
  shows "member_row_ok ts m'"
proof -
  from assms(1) obtain t where t: "t \<in> set ts" "member_fits t m" by (auto simp: member_row_ok_def list_ex_iff)
  then have "mb_user_id m \<noteq> tn_owner_user_id t" using assms(2) by (auto simp: member_fits_def)
  then have "member_fits t m'" using t(2) assms(3-6) by (simp add: member_fits_def)
  with t(1) show ?thesis unfolding member_row_ok_def list_ex_iff by blast
qed

lemma member_row_ok_stranger:
  assumes ok: "tenants_ok s" and v: "member_violation s m = None"
    and none: "select_one (is_membership (mb_tenant_id m) (mb_user_id m)) (db_members s) = None"
    and role: "mb_role m = RoleAdmin \<or> mb_role m = RoleStaff" and active: "mb_status m = MemberActive"
  shows "member_row_ok (db_tenants s) m"
proof -
  have "has_tenant s (mb_tenant_id m)" using v by (simp add: member_violation_def split: if_splits)
  then obtain t where t: "t \<in> set (db_tenants s)" "tn_id t = mb_tenant_id m"
    by (auto simp: has_tenant_def list_ex_iff)
  then have "tenant_row_ok (db_members s) t" using ok by (simp add: tenants_ok_def list_all_iff)
  then obtain w where w: "w \<in> set (db_members s)" "mb_tenant_id w = tn_id t" "mb_user_id w = tn_owner_user_id t"
    by (auto simp: tenant_row_ok_def list_ex_iff)
  have "mb_user_id m \<noteq> tn_owner_user_id t"
    using none w t(2) by (auto simp: select_one_None_iff is_membership_def)
  then have "member_fits t m" using t(2) role active by (simp add: member_fits_def)
  with t(1) show ?thesis unfolding member_row_ok_def list_ex_iff by blast
qed

lemma one_member_row:
  assumes "tenants_ok s" "m \<in> set (db_members s)" "n \<in> set (db_members s)"
    and "mb_id m = mb_id n \<or> (mb_tenant_id m = mb_tenant_id n \<and> mb_user_id m = mb_user_id n)"
  shows "m = n"
  using assms(4)
proof
  assume "mb_id m = mb_id n"
  then show ?thesis using unique_on_sel [of member_pk "db_members s" m n "mb_id n"] assms(1-3)
    by (simp add: tenants_ok_def member_pk_def)
next
  assume "mb_tenant_id m = mb_tenant_id n \<and> mb_user_id m = mb_user_id n"
  then show ?thesis
    using unique_on_sel [of member_key "db_members s" m n "(mb_tenant_id n, mb_user_id n)"] assms(1-3)
    by (simp add: tenants_ok_def member_key_def)
qed

text \<open>What an accepted invitation does to the tables.\<close>

lemma accept_invitation_InrE:
  assumes "accept_invitation en hash raw uid s = (Inr mem, s')"
  obtains inv user s1 s2 l mid where
    "select_one (\<lambda>i. iv_token_hash i = hash raw) (db_invitations s) = Some inv"
    "iv_status inv = InvitationPending" "\<not> invitation_expired (e_now en) inv"
    "select_one (\<lambda>u. us_id u = uid) (db_users s) = Some user"
    "normalize_email (us_email user) = normalize_email (iv_email inv)"
    "s1 = s\<lparr>db_invitations := update_where (pending_row (iv_tenant_id inv) (iv_id inv))
        (\<lambda>i. i\<lparr>iv_status := InvitationAccepted, iv_accepted_at := Some (e_now en)\<rparr>) (db_invitations s)\<rparr>"
    "create_or_reactivate_member en (new_member en 0 (iv_tenant_id inv) uid (iv_role inv)) s1 = (Inr mid, s2)"
    "s' = s2\<lparr>db_audit := db_audit s2 @ [l]\<rparr>"
    "mem = (new_member en 0 (iv_tenant_id inv) uid (iv_role inv))\<lparr>mb_id := mid\<rparr>"
  using assms unfolding accept_invitation_def mark_invitation_accepted_def Let_def audit_event_def
  by (elim act_elims) (hypsubst, blast)

lemma keeps_accept_invitation: "keeps tenants_ok (accept_invitation en hash raw uid)"
proof (rule keeps_atomicI [OF atomic_tenant_calls(5)])
  fix s mem s' assume ok: "tenants_ok s" and run: "accept_invitation en hash raw uid s = (Inr mem, s')"
  from run show "tenants_ok s'"
  proof (rule accept_invitation_InrE)
    fix inv :: invitation and user s1 s2 l mid
    let ?m = "new_member en 0 (iv_tenant_id inv) uid (iv_role inv)"
    assume inv: "select_one (\<lambda>i. iv_token_hash i = hash raw) (db_invitations s) = Some inv"
      and s1: "s1 = s\<lparr>db_invitations := update_where (pending_row (iv_tenant_id inv) (iv_id inv))
        (\<lambda>i. i\<lparr>iv_status := InvitationAccepted, iv_accepted_at := Some (e_now en)\<rparr>) (db_invitations s)\<rparr>"
      and join: "create_or_reactivate_member en ?m s1 = (Inr mid, s2)"
      and s': "s' = s2\<lparr>db_audit := db_audit s2 @ [l]\<rparr>"
    have ok1: "tenants_ok s1"
      unfolding s1 by (rule tenants_ok_settle [OF ok]) (simp_all add: invitation_row_ok_def)
    have role: "mb_role ?m = RoleAdmin \<or> mb_role ?m = RoleStaff"
      using ok select_one_SomeD [OF inv]
      by (simp add: tenants_ok_def list_all_iff invitation_row_ok_def new_member_def)
    have "tenants_ok s2"
      using join
    proof (cases rule: create_or_reactivate_InrE)
      case new
      have "member_row_ok (db_tenants s1) ?m"
        by (rule member_row_ok_stranger [OF ok1 new(2,1) role]) (simp add: new_member_def)
      then show ?thesis unfolding new(3) by (rule tenants_ok_new_member [OF ok1 new(2)])
    next
      case (returned old)
      have old: "old \<in> set (db_members s1)" "is_membership (mb_tenant_id ?m) (mb_user_id ?m) old"
        using select_one_SomeD [OF returned(1)] by simp_all
      show ?thesis
        unfolding returned(4)
      proof (rule tenants_ok_members [OF ok1])
        fix r assume r: "r \<in> set (db_members s1)" "is_membership (mb_tenant_id ?m) (mb_user_id ?m) r"
        have "r = old"
          by (rule one_member_row [OF ok1 r(1) old(1)]) (use r(2) old(2) in \<open>simp add: is_membership_def\<close>)
        have "member_row_ok (db_tenants s1) old"
          using ok1 old(1) by (simp add: tenants_ok_def list_all_iff)
        then show "member_row_ok (db_tenants s1)
            (r\<lparr>mb_role := mb_role ?m, mb_status := mb_status ?m, mb_updated_at := e_now en\<rparr>)"
          by (rule member_row_ok_change)
            (use returned(2) role \<open>r = old\<close> in \<open>simp_all add: new_member_def\<close>)
      qed simp
    qed
    then show "tenants_ok s'" by (simp add: s')
  qed
qed

lemma authorize_change_cases:
  assumes "authorize_member_change role target new_role = None"
  shows "mb_role target \<noteq> RoleOwner" "mb_status target = MemberActive"
    "new_role = Some r \<Longrightarrow> r = RoleAdmin \<or> r = RoleStaff"
  using assms by (auto simp: authorize_member_change_def split: if_splits option.splits)

lemma change_member_row:
  assumes ok: "tenants_ok s" and target: "select_one (is_member_row tid mid) (db_members s) = Some target"
    and auth: "authorize_member_change role target new_role = None"
    and m: "m \<in> set (db_members s)" "is_member_row tid mid m"
  shows "m = target" "target \<in> set (db_members s)" "member_row_ok (db_tenants s) target"
    "mb_role target = RoleAdmin \<or> mb_role target = RoleStaff"
proof -
  note t = select_one_SomeD [OF target]
  show "m = target" by (rule one_member_row [OF ok m(1)]) (use t m(2) in \<open>simp_all add: is_member_row_def\<close>)
  show "target \<in> set (db_members s)" using t by simp
  with ok show row: "member_row_ok (db_tenants s) target" by (simp add: tenants_ok_def list_all_iff)
  then show "mb_role target = RoleAdmin \<or> mb_role target = RoleStaff"
    using authorize_change_cases(1) [OF auth]
    by (auto simp: member_row_ok_def list_ex_iff member_fits_def split: if_splits)
qed

lemma update_member_role_InrE:
  assumes "update_member_role en tid actor role mid r s = (Inr m, s')"
  obtains target s1 l where "select_one (is_member_row tid mid) (db_members s) = Some target"
    "authorize_member_change role target (Some r) = None"
    "s1 = s\<lparr>db_members := update_where (\<lambda>m. is_member_row tid mid m \<and> mb_status m = MemberActive)
        (\<lambda>m. m\<lparr>mb_role := r, mb_updated_at := e_now en\<rparr>) (db_members s)\<rparr>"
    "s' = s1\<lparr>db_audit := db_audit s1 @ [l]\<rparr>" "m = target\<lparr>mb_role := r\<rparr>"
  using assms unfolding update_member_role_def update_member_role_row_def Let_def audit_event_def
  by (elim act_elims) (hypsubst, blast)

lemma remove_member_InrE:
  assumes "remove_member en tid actor role mid s = (Inr u, s')"
  obtains target s1 l where "select_one (is_member_row tid mid) (db_members s) = Some target"
    "authorize_member_change role target None = None"
    "s1 = s\<lparr>db_members := update_where (is_member_row tid mid)
        (\<lambda>m. m\<lparr>mb_status := MemberRemoved, mb_updated_at := e_now en\<rparr>) (db_members s)\<rparr>"
    "s' = s1\<lparr>db_audit := db_audit s1 @ [l]\<rparr>"
  using assms unfolding remove_member_def set_member_status_def audit_event_def
  by (elim act_elims) (hypsubst, blast)

lemma keeps_update_member_role: "keeps tenants_ok (update_member_role en tid actor role mid r)"
proof (rule keeps_atomicI [OF atomic_tenant_calls(7)])
  fix s m s' assume ok: "tenants_ok s" and run: "update_member_role en tid actor role mid r s = (Inr m, s')"
  from run obtain target s1 l where target: "select_one (is_member_row tid mid) (db_members s) = Some target"
    and auth: "authorize_member_change role target (Some r) = None"
    and s1: "s1 = s\<lparr>db_members := update_where (\<lambda>m. is_member_row tid mid m \<and> mb_status m = MemberActive)
        (\<lambda>m. m\<lparr>mb_role := r, mb_updated_at := e_now en\<rparr>) (db_members s)\<rparr>"
    and s': "s' = s1\<lparr>db_audit := db_audit s1 @ [l]\<rparr>"
    by (rule update_member_role_InrE)
  have "tenants_ok s1"
    unfolding s1
  proof (rule tenants_ok_members [OF ok])
    fix x assume x: "x \<in> set (db_members s)" "is_member_row tid mid x \<and> mb_status x = MemberActive"
    note row = change_member_row [OF ok target auth x(1) x(2) [THEN conjunct1]]
    from row(3) show "member_row_ok (db_tenants s) (x\<lparr>mb_role := r, mb_updated_at := e_now en\<rparr>)"
      by (rule member_row_ok_change)
        (use authorize_change_cases [OF auth] row(1) in \<open>simp_all\<close>)
  qed simp
  then show "tenants_ok s'" by (simp add: s')
qed

lemma keeps_remove_member: "keeps tenants_ok (remove_member en tid actor role mid)"
proof (rule keeps_atomicI [OF atomic_tenant_calls(8)])
  fix s u s' assume ok: "tenants_ok s" and run: "remove_member en tid actor role mid s = (Inr u, s')"
  from run obtain target s1 l where target: "select_one (is_member_row tid mid) (db_members s) = Some target"
    and auth: "authorize_member_change role target None = None"
    and s1: "s1 = s\<lparr>db_members := update_where (is_member_row tid mid)
        (\<lambda>m. m\<lparr>mb_status := MemberRemoved, mb_updated_at := e_now en\<rparr>) (db_members s)\<rparr>"
    and s': "s' = s1\<lparr>db_audit := db_audit s1 @ [l]\<rparr>"
    by (rule remove_member_InrE)
  have "tenants_ok s1"
    unfolding s1
  proof (rule tenants_ok_members [OF ok])
    fix x assume x: "x \<in> set (db_members s)" "is_member_row tid mid x"
    note row = change_member_row [OF ok target auth x]
    from row(3) show "member_row_ok (db_tenants s) (x\<lparr>mb_status := MemberRemoved, mb_updated_at := e_now en\<rparr>)"
      by (rule member_row_ok_change)
        (use authorize_change_cases(1) [OF auth] row(1,4) in \<open>simp_all\<close>)
  qed simp
  then show "tenants_ok s'" by (simp add: s')
qed

section \<open>Histories of calls\<close>

datatype tenant_call =
    CreateTenantCall string string string
  | TenantStatusCall string bool string string "string option"
  | InviteCall int string string string member_role member_role string string
  | RevokeCall string string member_role string
  | AcceptCall string string
  | ResendCall int string string string member_role string string
  | RoleCall string string member_role string member_role
  | RemoveCall string string member_role string

fun run_tenant_call :: "env \<Rightarrow> (string \<Rightarrow> string) \<Rightarrow> tenant_call \<Rightarrow> unit query" where
  "run_tenant_call en hash (CreateTenantCall owner name slug) = discard (create_tenant en owner name slug)"
| "run_tenant_call en hash (TenantStatusCall actor super tid st reason) =
     discard (set_tenant_status en actor super tid st reason)"
| "run_tenant_call en hash (InviteCall ttl raw tid actor role target email origin) =
     discard (invite_staff en hash ttl raw tid actor role target email origin)"
| "run_tenant_call en hash (RevokeCall tid actor role iid) = discard (revoke_invitation en tid actor role iid)"
| "run_tenant_call en hash (AcceptCall raw uid) = discard (accept_invitation en hash raw uid)"
| "run_tenant_call en hash (ResendCall ttl raw tid actor role iid origin) =
     discard (resend_invitation en hash ttl raw tid actor role iid origin)"
| "run_tenant_call en hash (RoleCall tid actor role mid r) = discard (update_member_role en tid actor role mid r)"
| "run_tenant_call en hash (RemoveCall tid actor role mid) = discard (remove_member en tid actor role mid)"

fun run_tenants :: "(string \<Rightarrow> string) \<Rightarrow> (env \<times> tenant_call) list \<Rightarrow> db \<Rightarrow> db" where
  "run_tenants hash [] s = s"
| "run_tenants hash ((en, c) # cs) s = run_tenants hash cs (snd (run_tenant_call en hash c s))"

lemma keeps_run_tenant_call: "keeps tenants_ok (run_tenant_call en hash c)"
  by (cases c) (simp_all only: run_tenant_call.simps discard_def,
    (intro keeps_intros keeps_create_tenant keeps_set_tenant_status keeps_invite_staff keeps_revoke_invitation
      keeps_accept_invitation keeps_resend_invitation keeps_update_member_role keeps_remove_member)+)

lemma keeps_run_tenants:
  "(\<And>en c. keeps I (run_tenant_call en hash c)) \<Longrightarrow> I s \<Longrightarrow> I (run_tenants hash cs s)"
  by (induction cs arbitrary: s) (auto simp: keeps_def)

end
