(* ===== verification/Tenant_Rules.thy ===== *)
theory Tenant_Rules
  imports Tenant_Props
begin

text \<open>
  What the tenant component promises: one owner per workspace, invitations redeemed once, changes of
  members that take effect at once and touch nobody else, and calls that stay in their tenant.
\<close>

section \<open>One owner\<close>

lemma select_unique:
  assumes "unique_on key t" "w \<in> set t" "P w" "key w = Some k" "\<And>r. r \<in> set t \<Longrightarrow> P r \<Longrightarrow> key r = Some k"
  shows "select P t = [w]"
  using assms
proof (induction t)
  case (Cons a t)
  have others: "r \<notin> set t" if "key r = Some k" "key a = Some k" for r
    using Cons.prems(1) that by (auto simp: list_all_iff)
  show ?case
  proof (cases "P a")
    case True
    then have a: "key a = Some k" using Cons.prems(5) [of a] by simp
    then have "select P t = []"
      using others Cons.prems(5) by (auto simp: select_def filter_empty_conv)
    moreover have "w = a" using Cons.prems(2,4) others [OF _ a] by auto
    ultimately show ?thesis using True by (simp add: select_def)
  next
    case False
    with Cons.prems(2,3) have "w \<in> set t" by auto
    with Cons False show ?thesis by (simp add: select_def)
  qed
qed simp

definition is_active_owner :: "tenant_row \<Rightarrow> tenant_member \<Rightarrow> bool" where
  "is_active_owner t m \<longleftrightarrow> mb_tenant_id m = tn_id t \<and> mb_role m = RoleOwner \<and> mb_status m = MemberActive"

lemma one_active_owner:
  assumes ok: "tenants_ok s" and t: "t \<in> set (db_tenants s)"
  shows "map mb_user_id (select (is_active_owner t) (db_members s)) = [tn_owner_user_id t]"
proof -
  have fits: "member_fits t m" if m: "m \<in> set (db_members s)" "mb_tenant_id m = tn_id t" for m
  proof -
    obtain t' where t': "t' \<in> set (db_tenants s)" "member_fits t' m"
      using ok m(1) by (auto simp: tenants_ok_def list_all_iff member_row_ok_def list_ex_iff)
    then have "t' = t"
      using unique_on_sel [of tenant_pk "db_tenants s" t' t "tn_id t"] ok t m(2)
      by (simp add: tenants_ok_def tenant_pk_def member_fits_def)
    with t'(2) show ?thesis by simp
  qed
  obtain w where w: "w \<in> set (db_members s)" "mb_tenant_id w = tn_id t" "mb_user_id w = tn_owner_user_id t"
    using ok t by (auto simp: tenants_ok_def list_all_iff tenant_row_ok_def list_ex_iff)
  have "select (is_active_owner t) (db_members s) = [w]"
  proof (rule select_unique [where key = member_key and k = "(tn_id t, tn_owner_user_id t)"])
    show "unique_on member_key (db_members s)" using ok by (simp add: tenants_ok_def)
    show "is_active_owner t w" "member_key w = Some (tn_id t, tn_owner_user_id t)"
      using fits [OF w(1,2)] w by (simp_all add: is_active_owner_def member_fits_def member_key_def)
    show "member_key r = Some (tn_id t, tn_owner_user_id t)"
      if "r \<in> set (db_members s)" "is_active_owner t r" for r
      using fits [of r] that by (auto simp: is_active_owner_def member_fits_def member_key_def split: if_splits)
  qed (rule w(1))
  with w(3) show ?thesis by simp
qed

text \<open>C10: whatever calls are made on workspaces, by anybody and in any order (creation, invitation,
acceptance, re-invitation of removed people, role changes, removals), every workspace keeps exactly
one active owner, the user its row names; memberships stay unique per workspace and user, slugs and
invitation tokens unique, and no invitation ever grants ownership.\<close>

theorem one_owner_for_ever:
  assumes "tenants_ok s" and "t \<in> set (db_tenants (run_tenants hash cs s))"
  shows "tenants_ok (run_tenants hash cs s) \<and>
    map mb_user_id (select (is_active_owner t) (db_members (run_tenants hash cs s))) = [tn_owner_user_id t]"
proof -
  have "tenants_ok (run_tenants hash cs s)"
    using keeps_run_tenant_call assms(1) by (rule keeps_run_tenants)
  with one_active_owner [OF _ assms(2)] show ?thesis by simp
qed

text \<open>Two people, a workspace, an invitation that is accepted, and an attempt to remove the owner.\<close>

definition demo_people :: db where
  "demo_people = empty_db\<lparr>db_users := [demo_user, demo_user\<lparr>us_id := ''v'', us_email := ''v@x.id''\<rparr>]\<rparr>"

definition demo_env_at :: "string \<Rightarrow> int \<Rightarrow> env" where
  "demo_env_at x n = \<lparr>e_now = n, e_uuid = (\<lambda>k. x @ nat_str k)\<rparr>"

definition demo_hash :: "string \<Rightarrow> string" where
  "demo_hash raw = ''#'' @ raw"

definition club_history :: "(env \<times> tenant_call) list" where
  "club_history =
     [(demo_env_at ''t'' 1, CreateTenantCall ''u'' ''Run Club'' ''''),
      (demo_env_at ''i'' 2, InviteCall 10 ''tok'' ''t0'' ''u'' RoleOwner RoleStaff '' V@X.id'' ''https://a/''),
      (demo_env_at ''a'' 3, AcceptCall ''tok'' ''v''),
      (demo_env_at ''r'' 4, RemoveCall ''t0'' ''v'' RoleOwner ''t1'')]"

lemma demo_people_ok: "tenants_ok demo_people"
  by code_simp

theorem one_owner_for_ever_witness:
  "let s = run_tenants demo_hash club_history demo_people in
     map mb_user_id (db_members s) = [''u'', ''v''] \<and>
     map mb_user_id (select (is_active_owner (hd (db_tenants s))) (db_members s)) = [''u'']"
proof -
  let ?s = "run_tenants demo_hash club_history demo_people"
  have "map tn_owner_user_id (db_tenants ?s) = [''u'']" "map mb_user_id (db_members ?s) = [''u'', ''v'']"
    by code_simp+
  moreover from this(1) obtain t where t: "db_tenants ?s = [t]" "tn_owner_user_id t = ''u''"
    by (cases "db_tenants ?s") auto
  moreover have "t \<in> set (db_tenants ?s)" by (simp add: t)
  from one_owner_for_ever [OF demo_people_ok this]
  have "map mb_user_id (select (is_active_owner t) (db_members ?s)) = [''u'']" by (simp only: t(2))
  ultimately show ?thesis by (simp add: Let_def)
qed

section \<open>Invitations settle once\<close>

definition settled :: "invitation \<Rightarrow> db \<Rightarrow> bool" where
  "settled i s \<longleftrightarrow> i \<in> set (db_invitations s) \<and> iv_status i \<noteq> InvitationPending"

lemma settled_frame [simp]:
  "settled i (s\<lparr>db_audit := l\<rparr>) = settled i s" "settled i (s\<lparr>db_tenants := ts\<rparr>) = settled i s"
  "settled i (s\<lparr>db_members := ms\<rparr>) = settled i s"
  by (simp_all add: settled_def)

lemma keeps_settled_statements [keeps_intros]:
  "keeps (settled i) (insert_tenant t)" "keeps (settled i) (insert_member m)"
  "keeps (settled i) (insert_invitation j)" "keeps (settled i) (update_tenant_status en tid st reason)"
  "keeps (settled i) (update_members en q f)" "keeps (settled i) (update_pending tid iid g)"
  "keeps (settled i) (create_or_reactivate_member en m)"
proof -
  show "keeps (settled i) (insert_tenant t)" "keeps (settled i) (insert_member m)"
    "keeps (settled i) (insert_invitation j)" "keeps (settled i) (update_tenant_status en tid st reason)"
    "keeps (settled i) (update_members en q f)" "keeps (settled i) (update_pending tid iid g)"
    unfolding insert_tenant_def insert_member_def insert_invitation_def update_tenant_status_def
      update_members_def update_pending_def Let_def
    by (intro keeps_intros keeps_writes; auto simp: settled_def set_update_where)+
  show "keeps (settled i) (create_or_reactivate_member en m)"
    unfolding create_or_reactivate_member_def
    by (intro keeps_intros keeps_writes) simp_all
qed

lemma keeps_tenant_reads [keeps_intros]:
  "keeps I (get_tenant tid)" "keeps I (get_invitation tid iid)" "keeps I (get_invitation_by_hash h)"
  "keeps I (get_member_by_id tid mid)"
  unfolding get_tenant_def get_invitation_def get_invitation_by_hash_def get_member_by_id_def
  by (intro keeps_intros)+

lemma keeps_settled_call: "keeps (settled i) (run_tenant_call en hash c)"
  by (cases c) (simp_all only: run_tenant_call.simps discard_def create_tenant_def set_tenant_status_def
    invite_staff_def revoke_invitation_def revoke_invitation_row_def accept_invitation_def
    mark_invitation_accepted_def resend_invitation_def rotate_invitation_token_def update_member_role_def
    update_member_role_row_def remove_member_def set_member_status_def audit_event_def case_prod_unfold,
    (intro keeps_intros; simp)+)

lemma lookup_by_hash:
  assumes "tenants_ok s" "i \<in> set (db_invitations s)"
  shows "get_invitation_by_hash (iv_token_hash i) s = (Inr i, s)"
proof -
  obtain j where j: "select_one (\<lambda>j. iv_token_hash j = iv_token_hash i) (db_invitations s) = Some j"
    using assms(2) by (cases "select_one (\<lambda>j. iv_token_hash j = iv_token_hash i) (db_invitations s)")
      (auto simp: select_one_None_iff)
  have "j = i"
    using unique_on_sel [of invitation_hash_key "db_invitations s" j i "iv_token_hash i"]
      select_one_SomeD [OF j] assms
    by (simp add: tenants_ok_def invitation_hash_key_def)
  with j show ?thesis by (simp add: get_invitation_by_hash_def act_simps found_def)
qed

lemma accept_settled:
  assumes "tenants_ok s" "settled i s" "hash raw = iv_token_hash i"
  shows "accept_invitation en hash raw uid s = (Inl (Sentinel ErrInvalidState), s)"
proof -
  have "get_invitation_by_hash (hash raw) s = (Inr i, s)"
    using lookup_by_hash [OF assms(1), of i] assms(2,3) by (simp add: settled_def)
  then show ?thesis
    using assms(2) by (simp add: accept_invitation_def and_then_def guard_def fail_def settled_def)
qed

text \<open>C11: an invitation is redeemed at most once: after somebody accepted it, whatever calls follow
(resending, revoking, new invitations, removals), redeeming the same token again is refused as an
invalid state, for every user and at every time, and leaves the database as it is.\<close>

theorem invitation_redeemed_once:
  assumes "tenants_ok s" and "accept_invitation en hash raw uid s = (Inr m, s')"
  shows "accept_invitation en' hash raw uid' (run_tenants hash cs s') =
    (Inl (Sentinel ErrInvalidState), run_tenants hash cs s')"
proof -
  from assms(2) obtain inv user s1 s2 l mid where
    inv: "select_one (\<lambda>i. iv_token_hash i = hash raw) (db_invitations s) = Some inv"
      "iv_status inv = InvitationPending" "\<not> invitation_expired (e_now en) inv"
    and "select_one (\<lambda>u. us_id u = uid) (db_users s) = Some user"
      "normalize_email (us_email user) = normalize_email (iv_email inv)"
    and s1: "s1 = s\<lparr>db_invitations := update_where (pending_row (iv_tenant_id inv) (iv_id inv))
        (\<lambda>i. i\<lparr>iv_status := InvitationAccepted, iv_accepted_at := Some (e_now en)\<rparr>) (db_invitations s)\<rparr>"
    and join: "create_or_reactivate_member en (new_member en 0 (iv_tenant_id inv) uid (iv_role inv)) s1 = (Inr mid, s2)"
    and s': "s' = s2\<lparr>db_audit := db_audit s2 @ [l]\<rparr>"
    and "m = (new_member en 0 (iv_tenant_id inv) uid (iv_role inv))\<lparr>mb_id := mid\<rparr>"
    by (rule accept_invitation_InrE)
  let ?inv = "inv\<lparr>iv_status := InvitationAccepted, iv_accepted_at := Some (e_now en)\<rparr>"
  have "settled ?inv s1"
    using select_one_SomeD [OF inv(1)] inv(2)
    by (simp add: settled_def s1 set_update_where pending_row_def is_invitation_row_def)
  then have "settled ?inv s2" using join by (rule keepsD [OF keeps_settled_statements(7)])
  then have "settled ?inv s'" by (simp add: s')
  then have settled: "settled ?inv (run_tenants hash cs s')"
    by (rule keeps_run_tenants [OF keeps_settled_call])
  have "tenants_ok s'" using keepsD [OF keeps_accept_invitation assms] .
  then have "tenants_ok (run_tenants hash cs s')"
    by (rule keeps_run_tenants [OF keeps_run_tenant_call])
  from accept_settled [OF this settled] select_one_SomeD [OF inv(1)] show ?thesis by simp
qed

theorem invitation_redeemed_once_witness:
  "let s = run_tenants demo_hash (take 2 club_history) demo_people;
       r = accept_invitation (demo_env_at ''a'' 3) demo_hash ''tok'' ''v'' s
   in \<not> isl (fst r) \<and>
      fst (accept_invitation (demo_env_at ''b'' 9) demo_hash ''tok'' ''v''
             (run_tenants demo_hash (drop 3 club_history) (snd r))) = Inl (Sentinel ErrInvalidState)"
proof -
  let ?s = "run_tenants demo_hash (take 2 club_history) demo_people"
  let ?r = "accept_invitation (demo_env_at ''a'' 3) demo_hash ''tok'' ''v'' ?s"
  have ok: "tenants_ok ?s" using demo_people_ok by (rule keeps_run_tenants [OF keeps_run_tenant_call])
  have acc: "\<not> isl (fst ?r)" by code_simp
  from acc show ?thesis
    unfolding Let_def
    by (intro conjI) (simp_all only: invitation_redeemed_once [OF ok run_succeeded [OF acc]] fst_conv not_False_eq_True)
qed

section \<open>Removing a member\<close>

lemma select_one_update_where:
  assumes "\<And>r. p (f r) = p r"
  shows "select_one p (update_where q f t) = map_option (\<lambda>r. if q r then f r else r) (select_one p t)"
  by (induction t) (simp_all add: select_one_def update_where_def assms)

lemma active_role_run:
  "active_role tid uid s =
     (Inr (case select_one (is_membership tid uid) (db_members s) of
             None \<Rightarrow> ('''', False) | Some m \<Rightarrow> (mb_role m, mb_status m = MemberActive)), s)"
  by (cases "select_one (is_membership tid uid) (db_members s)")
    (simp_all add: active_role_def get_member_def found_def act_simps)

lemma is_membership_update [simp]:
  "is_membership t u (m\<lparr>mb_status := x, mb_updated_at := n\<rparr>) = is_membership t u m"
  by (simp add: is_membership_def)

text \<open>Whoever removes a member was the owner, or an admin removing a staff member; from then on the
person has no active role in that workspace, the very next check included, while the role of every
other person and of the same person in other workspaces is what it was.\<close>

theorem removal_ends_access:
  assumes "tenants_ok s" and "remove_member en tid actor role mid s = (Inr u, s')"
  shows "\<exists>m \<in> set (db_members s). is_member_row tid mid m \<and>
    (role = RoleOwner \<or> role = RoleAdmin \<and> mb_role m = RoleStaff) \<and> mb_role m \<noteq> RoleOwner \<and>
    active_role tid (mb_user_id m) s' = (Inr (mb_role m, False), s') \<and>
    (\<forall>t v. (t, v) \<noteq> (tid, mb_user_id m) \<longrightarrow> fst (active_role t v s') = fst (active_role t v s))"
proof -
  let ?f = "\<lambda>m. m\<lparr>mb_status := MemberRemoved, mb_updated_at := e_now en\<rparr>"
  from assms(2) obtain m s1 l where m: "select_one (is_member_row tid mid) (db_members s) = Some m"
    and auth: "authorize_member_change role m None = None"
    and s1: "s1 = s\<lparr>db_members := update_where (is_member_row tid mid) ?f (db_members s)\<rparr>"
    and s': "s' = s1\<lparr>db_audit := db_audit s1 @ [l]\<rparr>"
    by (rule remove_member_InrE)
  have look: "select_one (is_membership t v) (db_members s') =
      map_option (\<lambda>r. if is_member_row tid mid r then ?f r else r) (select_one (is_membership t v) (db_members s))"
    for t v by (simp add: s' s1 select_one_update_where)
  note mem = select_one_SomeD [OF m]
  then have mt: "mb_tenant_id m = tid" by (simp add: is_member_row_def)
  have here: "select_one (is_membership tid (mb_user_id m)) (db_members s) = Some m"
  proof (cases "select_one (is_membership tid (mb_user_id m)) (db_members s)")
    case None
    with mem mt show ?thesis by (auto simp: select_one_None_iff is_membership_def)
  next
    case (Some n)
    then have "n = m"
      using one_member_row [OF assms(1), of n m] select_one_SomeD [OF Some] mem mt
      by (simp add: is_membership_def)
    with Some show ?thesis by simp
  qed
  have there: "fst (active_role t v s') = fst (active_role t v s)" if "(t, v) \<noteq> (tid, mb_user_id m)" for t v
  proof (cases "select_one (is_membership t v) (db_members s)")
    case (Some n)
    have "\<not> is_member_row tid mid n"
      using change_member_row(1) [OF assms(1) m auth, of n] select_one_SomeD [OF Some] that mt
      by (auto simp: is_membership_def)
    with Some look [of t v] show ?thesis by (simp add: active_role_run)
  qed (simp add: active_role_run look)
  have rule: "role = RoleOwner \<or> role = RoleAdmin \<and> mb_role m = RoleStaff" "mb_role m \<noteq> RoleOwner"
    using auth by (auto simp: authorize_member_change_def split: if_splits)
  have "active_role tid (mb_user_id m) s' = (Inr (mb_role m, False), s')"
    using mem by (simp add: active_role_run look here)
  with mem rule there show ?thesis by blast
qed

theorem removal_ends_access_witness:
  "let s = run_tenants demo_hash (take 3 club_history) demo_people;
       r = remove_member (demo_env_at ''r'' 4) ''t0'' ''u'' RoleOwner ''a0'' s
   in fst r = Inr () \<and> (\<exists>m \<in> set (db_members s). mb_id m = ''a0'' \<and>
        fst (active_role ''t0'' (mb_user_id m) (snd r)) = Inr (mb_role m, False))"
proof -
  let ?s = "run_tenants demo_hash (take 3 club_history) demo_people"
  let ?r = "remove_member (demo_env_at ''r'' 4) ''t0'' ''u'' RoleOwner ''a0'' ?s"
  have ok: "tenants_ok ?s" by (rule keeps_run_tenants [OF keeps_run_tenant_call demo_people_ok])
  have run: "fst ?r = Inr ()" by code_simp
  then have "?r = (Inr (), snd ?r)" by (simp add: prod_eq_iff)
  from removal_ends_access [OF ok this] obtain m where m: "m \<in> set (db_members ?s)" "is_member_row ''t0'' ''a0'' m"
    "active_role ''t0'' (mb_user_id m) (snd ?r) = (Inr (mb_role m, False), snd ?r)" by blast
  then show ?thesis unfolding Let_def is_member_row_def
    by (intro conjI bexI [of _ m] run) (simp_all only: fst_conv)
qed

section \<open>Calls stay in their tenant\<close>

text \<open>Two states that agree on everything that is not of the tenant: the rows of other workspaces in the
tables of tenants, members, invitations and audit entries, and every table of the other components.\<close>

definition same_elsewhere :: "string \<Rightarrow> db \<Rightarrow> db \<Rightarrow> bool" where
  "same_elsewhere tid s0 s \<longleftrightarrow>
     select (\<lambda>t. tn_id t \<noteq> tid) (db_tenants s) = select (\<lambda>t. tn_id t \<noteq> tid) (db_tenants s0) \<and>
     select (\<lambda>m. mb_tenant_id m \<noteq> tid) (db_members s) = select (\<lambda>m. mb_tenant_id m \<noteq> tid) (db_members s0) \<and>
     select (\<lambda>i. iv_tenant_id i \<noteq> tid) (db_invitations s) =
       select (\<lambda>i. iv_tenant_id i \<noteq> tid) (db_invitations s0) \<and>
     select (\<lambda>l. al_tenant_id l \<noteq> Some tid) (db_audit s) = select (\<lambda>l. al_tenant_id l \<noteq> Some tid) (db_audit s0) \<and>
     s\<lparr>db_tenants := db_tenants s0, db_members := db_members s0, db_invitations := db_invitations s0,
       db_audit := db_audit s0\<rparr> = s0"

lemma select_append_out: "\<not> p r \<Longrightarrow> select p (t @ [r]) = select p t"
  by (simp add: select_def)

lemma select_update_out:
  assumes "\<And>r. q r \<Longrightarrow> \<not> p r \<and> \<not> p (f r)"
  shows "select p (update_where q f t) = select p t"
  by (induction t) (auto simp: select_def update_where_def dest: assms)

lemma keeps_elsewhere_inserts:
  "keeps (same_elsewhere (iv_tenant_id i) s0) (insert_invitation i)"
  "keeps (same_elsewhere tid s0) (audit_event en k tid actor action md)"
  unfolding insert_invitation_def audit_event_def record_audit_def
  by (intro keeps_intros keeps_writes; simp add: same_elsewhere_def select_append_out)+

lemma keeps_elsewhere_new_invitation [keeps_intros]:
  "keeps (same_elsewhere tid s0) (insert_invitation (new_invitation en hash ttl tid actor email role raw))"
  using keeps_elsewhere_inserts(1) [of "new_invitation en hash ttl tid actor email role raw" s0]
  by (simp add: new_invitation_def)

lemma keeps_elsewhere_members:
  assumes "\<And>m. q m \<Longrightarrow> mb_tenant_id m = tid" "\<And>m. mb_tenant_id (f m) = mb_tenant_id m"
  shows "keeps (same_elsewhere tid s0) (update_members en q f)"
proof -
  have "select (\<lambda>m. mb_tenant_id m \<noteq> tid) (update_where q (\<lambda>m. (f m)\<lparr>mb_updated_at := e_now en\<rparr>) ms) =
    select (\<lambda>m. mb_tenant_id m \<noteq> tid) ms" for ms
    by (rule select_update_out) (use assms in auto)
  then show ?thesis
    unfolding update_members_def by (intro keeps_intros keeps_writes) (simp add: same_elsewhere_def)
qed

lemma keeps_elsewhere_pending:
  assumes "\<And>i. iv_tenant_id (f i) = iv_tenant_id i"
  shows "keeps (same_elsewhere tid s0) (update_pending tid iid f)"
proof -
  have "select (\<lambda>i. iv_tenant_id i \<noteq> tid)
      (update_where (\<lambda>i. is_invitation_row tid iid i \<and> iv_status i = InvitationPending) f is) =
    select (\<lambda>i. iv_tenant_id i \<noteq> tid) is" for "is"
    by (rule select_update_out) (use assms in \<open>auto simp: is_invitation_row_def\<close>)
  then show ?thesis
    unfolding update_pending_def Let_def by (intro keeps_intros keeps_writes) (simp add: same_elsewhere_def)
qed

lemma keeps_elsewhere_updates [keeps_intros]:
  "keeps (same_elsewhere tid s0) (audit_event en k tid actor action md)"
  "keeps (same_elsewhere tid s0) (update_tenant_status en tid st reason)"
  "keeps (same_elsewhere tid s0) (update_member_role_row en tid mid r)"
  "keeps (same_elsewhere tid s0) (set_member_status en tid mid st)"
  "keeps (same_elsewhere tid s0) (revoke_invitation_row tid iid)"
  "keeps (same_elsewhere tid s0) (rotate_invitation_token tid iid h e)"
proof -
  show "keeps (same_elsewhere tid s0) (update_tenant_status en tid st reason)"
    unfolding update_tenant_status_def
    by (intro keeps_intros keeps_writes) (simp add: same_elsewhere_def select_update_out)
qed (unfold update_member_role_row_def set_member_status_def revoke_invitation_row_def rotate_invitation_token_def,
  (intro keeps_intros keeps_elsewhere_inserts keeps_elsewhere_members keeps_elsewhere_pending;
    simp add: is_member_row_def)+)

fun call_tenant :: "tenant_call \<Rightarrow> string option" where
  "call_tenant (TenantStatusCall actor super tid st reason) = Some tid"
| "call_tenant (InviteCall ttl raw tid actor role target email origin) = Some tid"
| "call_tenant (RevokeCall tid actor role iid) = Some tid"
| "call_tenant (ResendCall ttl raw tid actor role iid origin) = Some tid"
| "call_tenant (RoleCall tid actor role mid r) = Some tid"
| "call_tenant (RemoveCall tid actor role mid) = Some tid"
| "call_tenant (CreateTenantCall owner name slug) = None"
| "call_tenant (AcceptCall raw uid) = None"

text \<open>C12: a call made in a tenant touches that tenant only: with any arguments, identifiers of other
tenants' members and invitations included, it leaves every other workspace with its members,
invitations and audit trail, and every other table, exactly as they were.\<close>

theorem tenant_calls_isolated:
  assumes "call_tenant c = Some tid"
  shows "same_elsewhere tid s (snd (run_tenant_call en hash c s))"
proof -
  have "keeps (same_elsewhere tid s) (run_tenant_call en hash c)"
    using assms
    by (cases c) (simp_all only: call_tenant.simps option.inject option.distinct run_tenant_call.simps
      discard_def set_tenant_status_def invite_staff_def revoke_invitation_def resend_invitation_def
      update_member_role_def remove_member_def case_prod_unfold, (intro keeps_intros; simp)+)
  moreover have "same_elsewhere tid s s" by (simp add: same_elsewhere_def)
  ultimately show ?thesis by (simp add: keeps_def)
qed

theorem tenant_calls_isolated_witness:
  "let s = run_tenants demo_hash (club_history @
             [(demo_env_at ''x'' 5, CreateTenantCall ''v'' ''Trail'' '''')]) demo_people
   in same_elsewhere ''x0'' s (snd (run_tenant_call (demo_env_at ''y'' 6) demo_hash
        (RemoveCall ''x0'' ''v'' RoleOwner ''t1'') s))"
  unfolding Let_def by (rule tenant_calls_isolated) simp

end
