(* ===== verification/Tenant_Listing.thy ===== *)
theory Tenant_Listing
  imports Tenant_Rules Participant_Listing
begin

text \<open>
  The listings of members and invitations: a client that follows their cursors reads every row once.
\<close>

section \<open>Invitations\<close>

definition invitations_listed :: "db \<times> string \<Rightarrow> bool" where
  "invitations_listed q \<longleftrightarrow> unique_on invitation_pk (db_invitations (fst q)) \<and>
     list_all (\<lambda>i. in_int64 (iv_created_at i)) (db_invitations (fst q))"

interpretation workspace_invitations: newest_listing "\<lambda>q. db_invitations (fst q)"
    "\<lambda>q i. iv_tenant_id i = snd q" invitation_position invitations_listed
proof
  show "distinct (map invitation_position (db_invitations (fst q)))" if "invitations_listed q" for q
    by (rule distinct_positions [where pk = invitation_pk])
      (use that in \<open>simp_all add: invitations_listed_def invitation_pk_def invitation_position_def\<close>)
  show "in_int64 (fst (invitation_position i))"
    if "invitations_listed q" "i \<in> set (db_invitations (fst q))" for q i
    using that by (simp add: invitations_listed_def list_all_iff invitation_position_def)
qed

lemma list_invitations_fetch:
  "tid \<noteq> '''' \<Longrightarrow> list_invitations tid pg s =
     (Inr (workspace_invitations.fetch (s, tid) (normalize_limit pg) (pg_cursor pg)), s)"
  by (simp add: list_invitations_def with_tenant_tx_def with_tx_def list_invitations_rows_def Let_def
      act_simps workspace_invitations.fetch_def workspace_invitations.after_def)

section \<open>Members with their users\<close>

definition members_listed :: "db \<times> string \<Rightarrow> bool" where
  "members_listed q \<longleftrightarrow> unique_on member_pk (db_members (fst q)) \<and> unique_on user_pk (db_users (fst q)) \<and>
     list_all (\<lambda>m. in_int64 (mb_created_at m)) (db_members (fst q))"

lemma with_user_single:
  "unique_on user_pk (db_users s) \<Longrightarrow> with_user s m = [] \<or> (\<exists>w. with_user s m = [w] \<and> mu_member w = m)"
proof -
  assume u: "unique_on user_pk (db_users s)"
  have "length (select (\<lambda>u. us_id u = x) us) \<le> 1" if "unique_on user_pk us" for us x
    using that
  proof (induction us)
    case (Cons a us)
    then have "us_id a = x \<Longrightarrow> select (\<lambda>u. us_id u = x) us = []"
      by (auto simp: select_def filter_empty_conv user_pk_def list_all_iff)
    with Cons show ?case by (auto simp: select_def)
  qed (simp add: select_def)
  from this [OF u, of "mb_user_id m"] show ?thesis
    by (cases "select (\<lambda>u. us_id u = mb_user_id m) (db_users s)") (auto simp: with_user_def)
qed

lemma joined_positions:
  assumes "unique_on user_pk (db_users s)" "unique_on member_pk ms"
  shows "distinct (map member_position (concat (map (with_user s) ms)))"
  using assms(2)
proof (induction ms)
  case (Cons m ms)
  have ids: "\<exists>n \<in> set ms. snd (member_position w) = mb_id n" if "w \<in> set (concat (map (with_user s) ms))" for w
    using that by (auto simp: with_user_def member_position_def)
  from Cons.prems have "list_all (\<lambda>n. mb_id n \<noteq> mb_id m) ms" by (simp add: member_pk_def list_all_iff)
  then have "member_position v \<noteq> member_position w"
    if "mu_member v = m" "w \<in> set (concat (map (with_user s) ms))" for v w
    using ids [OF that(2)] that(1) by (auto simp: list_all_iff member_position_def)
  with Cons with_user_single [OF assms(1), of m] show ?case by fastforce
qed simp

interpretation workspace_members: newest_listing "\<lambda>q. joined_members (fst q)"
    "\<lambda>q. active_member_of (snd q)" member_position members_listed
proof
  show "distinct (map member_position (joined_members (fst q)))" if "members_listed q" for q
    unfolding joined_members_def by (rule joined_positions) (use that in \<open>simp_all add: members_listed_def\<close>)
  show "in_int64 (fst (member_position w))" if "members_listed q" "w \<in> set (joined_members (fst q))" for q w
    using that by (auto simp: members_listed_def list_all_iff member_position_def joined_members_def with_user_def)
qed

lemma list_members_fetch:
  "tid \<noteq> '''' \<Longrightarrow> list_members tid pg s =
     (Inr (workspace_members.fetch (s, tid) (normalize_limit pg) (pg_cursor pg)), s)"
  by (simp add: list_members_def with_tenant_tx_def with_tx_def list_active_members_def Let_def
      act_simps workspace_members.fetch_def workspace_members.after_def)

fun read_members :: "nat \<Rightarrow> db \<Rightarrow> string \<Rightarrow> int \<Rightarrow> string \<Rightarrow> member_with_user list option" where
  "read_members 0 s tid limit c = None"
| "read_members (Suc n) s tid limit c =
     (case list_members tid \<lparr>pg_limit = limit, pg_cursor = c\<rparr> s of
        (Inl e, s') \<Rightarrow> None
      | (Inr p, s') \<Rightarrow> if pg_next_cursor p = '''' then Some (pg_items p)
          else map_option ((@) (pg_items p)) (read_members n s' tid limit (pg_next_cursor p)))"

lemma read_members_walk:
  "tid \<noteq> '''' \<Longrightarrow> read_members n s tid limit c = workspace_members.walk n (s, tid) (limit_of limit) c"
  by (induction n arbitrary: c) (simp_all add: list_members_fetch normalize_limit_of Let_def)

text \<open>A client that follows the cursors of \<open>ListMembers\<close> ends, and reads every active member of the
workspace with the person it belongs to exactly once, the newest first: people who joined in the same
instant included, removed members and other workspaces left out.\<close>

theorem member_pages_complete:
  assumes "tid \<noteq> ''''" and "tenants_ok s" and "unique_on user_pk (db_users s)"
    and "list_all (\<lambda>m. in_int64 (mb_created_at m)) (db_members s)"
    and "n = length (select (active_member_of tid) (joined_members s))"
  shows "read_members (Suc n) s tid limit '''' =
     Some (rev (sort_key member_position (select (active_member_of tid) (joined_members s))))"
proof -
  have "members_listed (s, tid)" using assms(2-4) by (simp add: members_listed_def tenants_ok_def)
  then have "workspace_members.walk (Suc n) (s, tid) (limit_of limit) '''' =
      Some (rev (sort_key member_position (select (active_member_of tid) (joined_members s))))"
    using workspace_members.pages_newest [of "(s, tid)" "limit_of limit" n] assms(5)
    by (simp only: limit_of_def normalize_limit_bounds fst_conv snd_conv)
  then show ?thesis using assms(1) by (simp only: read_members_walk not_False_eq_True)
qed

definition demo_member :: "string \<Rightarrow> string \<Rightarrow> member_role \<Rightarrow> int \<Rightarrow> tenant_member" where
  "demo_member mid uid role n = \<lparr>mb_id = mid, mb_tenant_id = ''t0'', mb_user_id = uid, mb_role = role,
     mb_status = MemberActive, mb_created_at = n, mb_updated_at = n\<rparr>"

definition demo_club :: db where
  "demo_club = demo_people\<lparr>db_tenants := [demo_tenant\<lparr>tn_id := ''t0''\<rparr>],
     db_members := [demo_member ''t1'' ''u'' RoleOwner 1, demo_member ''a0'' ''v'' RoleStaff 3]\<rparr>"

theorem member_pages_complete_witness:
  "read_members (Suc 2) demo_club ''t0'' 1 '''' =
     Some (rev (sort_key member_position (select (active_member_of ''t0'') (joined_members demo_club)))) \<and>
   map_option (map mu_email) (read_members (Suc 2) demo_club ''t0'' 1 '''') = Some [''v@x.id'', ''u@x.id'']"
proof
  have "tenants_ok demo_club" "unique_on user_pk (db_users demo_club)"
    "list_all (\<lambda>m. in_int64 (mb_created_at m)) (db_members demo_club)"
    "2 = length (select (active_member_of ''t0'') (joined_members demo_club))"
    by code_simp+
  then show "read_members (Suc 2) demo_club ''t0'' 1 '''' =
     Some (rev (sort_key member_position (select (active_member_of ''t0'') (joined_members demo_club))))"
    by (intro member_pages_complete) simp_all
  show "map_option (map mu_email) (read_members (Suc 2) demo_club ''t0'' 1 '''') = Some [''v@x.id'', ''u@x.id'']"
    by code_simp
qed

end
