(* ===== verification/Event_Rules.thy ===== *)
theory Event_Rules
  imports Event_Props Participant_Listing
begin

text \<open>
  The rules a race and an event obey: a format is frozen once somebody is registered, what deleting a
  race takes with it, publishing, and the listing of events.
\<close>

section \<open>Formats are frozen\<close>

lemma stored_format:
  assumes "race_columns r = Some r" "race_columns q \<noteq> None" "ra_format q = ra_format r"
  shows "ra_format (as_stored q) = ra_format r"
  using assms
  by (auto simp: as_stored_def race_columns_def split: option.splits)
    (drule arg_cong [where f = ra_format], simp)

lemma format_equal_eq: "format_equal f g \<Longrightarrow> f = g"
  by (simp add: format_equal_def race_config.equality)

text \<open>C7: once somebody is registered in a race, no update of the race changes the format of any
race: its entry type, course, team size and loop settings stay what the registrations were made under.\<close>

theorem race_format_frozen:
  assumes "organizer_ok s" and "update_race en t e role rid pa s = (Inr race, s')"
    and "list_ex (\<lambda>p. p_tenant_id p = t \<and> p_race_id p = rid) (db_participants s)"
  shows "map (\<lambda>r. (ra_id r, ra_format r)) (db_races s') = map (\<lambda>r. (ra_id r, ra_format r)) (db_races s)"
  using assms(2)
proof (rule update_race_InrE)
  fix cur name slug fmt row rest
  assume cur: "select_one (is_race_row t e rid) (db_races s) = Some cur"
    and fmt: "fmt = (if format_equal (format_normalize (apply_format pa (ra_format cur))) (ra_format cur)
            then ra_format cur else format_normalize (apply_format pa (ra_format cur)))"
    and free: "format_equal (format_normalize (apply_format pa (ra_format cur))) (ra_format cur) \<or>
     \<not> list_ex (\<lambda>p. p_tenant_id p = t \<and> p_race_id p = rid) (db_participants s)"
    and race: "race = clear_unfixed_distance (cur\<lparr>ra_name := name, ra_slug := slug,
       ra_distance_km := or_keep_opt (rp_distance_km pa) (ra_distance_km cur), ra_format := fmt\<rparr>)"
    and hit: "select (is_race_row t e rid) (db_races s) = row # rest"
    and v: "race_violation s (delete_where (is_race_row t e rid) (db_races s)) (write_race en race row) = None"
    and s': "s' = s\<lparr>db_races := update_where (is_race_row t e rid) (\<lambda>row. as_stored (write_race en race row)) (db_races s)\<rparr>"
  have uniq: "unique_on race_pk (db_races s)" using assms(1) by (simp add: organizer_ok_def events_ok_def)
  have c: "cur \<in> set (db_races s)" "is_race_row t e rid cur" using select_one_SomeD [OF cur] by simp_all
  have same: "r = cur" if "r \<in> set (db_races s)" "is_race_row t e rid r" for r
    using unique_on_sel [OF uniq that(1) c(1), of rid] that(2) c(2) by (simp add: race_pk_def is_race_row_def)
  have row: "row = cur" using select_Cons_mem [OF hit] same by blast
  have "fmt = ra_format cur" using fmt free assms(3) by simp
  then have f: "ra_format (write_race en race cur) = ra_format cur"
    by (simp add: write_race_def race clear_unfixed_distance_def)
  have stored: "race_columns cur = Some cur"
    using assms(1) c(1) by (simp add: organizer_ok_def events_ok_def list_all_iff race_row_ok_def)
  have "ra_format (as_stored (write_race en race r)) = ra_format r"
    if "r \<in> set (db_races s)" "is_race_row t e rid r" for r
    unfolding same [OF that]
    by (rule stored_format [OF stored _ f]) (use race_violation_None [OF v] row in simp)
  then show ?thesis
    by (simp add: s' update_where_def write_race_def)
qed

definition keep_race :: race_patch where
  "keep_race = \<lparr>rp_name = None, rp_slug = None, rp_distance_km = None, rp_entry_type = None,
     rp_course_type = None, rp_team_size = None, rp_loop_mode = None, rp_loop_length_km = None,
     rp_loop_target_laps = None, rp_loop_time_limit_ms = None\<rparr>"

definition demo_full :: db where
  "demo_full = demo_field\<lparr>db_users := [demo_user], db_tenants := [demo_tenant]\<rparr>"

lemma demo_full_ok: "organizer_ok demo_full"
  by code_simp

theorem race_format_frozen_witness:
  "let r = update_race (demo_env ''z'') ''t'' ''e'' RoleAdmin ''r1'' (keep_race\<lparr>rp_name := Some ''New''\<rparr>) demo_full
   in map (\<lambda>x. (ra_id x, ra_format x)) (db_races (snd r)) = map (\<lambda>x. (ra_id x, ra_format x)) (db_races demo_full) \<and>
      map ra_name (db_races (snd r)) = [''New'']"
proof -
  let ?r = "update_race (demo_env ''z'') ''t'' ''e'' RoleAdmin ''r1'' (keep_race\<lparr>rp_name := Some ''New''\<rparr>) demo_full"
  have run: "?r = (Inr (projr (fst ?r)), snd ?r)" by (rule run_succeeded) code_simp
  have "list_ex (\<lambda>p. p_tenant_id p = ''t'' \<and> p_race_id p = ''r1'') (db_participants demo_full)" by code_simp
  from race_format_frozen [OF demo_full_ok run this]
  have "map (\<lambda>x. (ra_id x, ra_format x)) (db_races (snd ?r)) =
    map (\<lambda>x. (ra_id x, ra_format x)) (db_races demo_full)" .
  moreover have "map ra_name (db_races (snd ?r)) = [''New'']" by code_simp
  ultimately show ?thesis by (simp only: Let_def simp_thms)
qed

section \<open>Deleting a race\<close>

text \<open>Deleting a race succeeds whether or not people are registered in it, and takes with it
exactly the race, its teams and its participants; every other row of the three tables stays.\<close>

theorem delete_race_cascades:
  assumes "organizer_ok s" and "rosters_ok s" and "delete_race t e role rid s = (Inr u, s')"
  shows "db_races s' = delete_where (\<lambda>r. ra_id r = rid) (db_races s) \<and>
    db_teams s' = delete_where (\<lambda>u. t_race_id u = rid) (db_teams s) \<and>
    db_participants s' = delete_where (\<lambda>p. p_race_id p = rid) (db_participants s)"
  using assms(3)
proof (rule delete_race_InrE)
  assume hit: "select (is_race_row t e rid) (db_races s) \<noteq> []" and s': "s' = without_race t e rid s"
  obtain r where r: "r \<in> set (db_races s)" "is_race_row t e rid r"
    using hit by (auto simp: select_def filter_empty_conv)
  have uniq: "unique_on race_pk (db_races s)" using assms(1) by (simp add: organizer_ok_def events_ok_def)
  have only: "is_race_row t e rid x \<longleftrightarrow> ra_id x = rid" if "x \<in> set (db_races s)" for x
    using unique_on_sel [OF uniq that r(1), of rid] r(2) by (auto simp: race_pk_def is_race_row_def)
  have gone: "race_gone t e rid s x \<longleftrightarrow> x = rid" for x
    using r only by (auto simp: race_gone_def list_ex_iff set_select is_race_row_def)
  have member: "p_race_id p = rid"
    if "p \<in> set (db_participants s)" "v \<in> set (db_teams s)" "t_race_id v = rid" "p_team_id p = Some (t_id v)" for p v
  proof -
    have "team_ok s v" using assms(2) that(2) by (simp add: rosters_ok_def list_all_iff)
    with that show ?thesis by (auto simp: team_ok_def in_team_def list_all_iff)
  qed
  have "delete_where (\<lambda>p. p_race_id p = rid \<or> list_ex (\<lambda>u. p_team_id p = Some (t_id u))
        (select (\<lambda>u. t_race_id u = rid) (db_teams s))) (db_participants s) =
      delete_where (\<lambda>p. p_race_id p = rid) (db_participants s)"
    unfolding delete_where_def
    by (intro filter_cong refl) (auto simp: list_ex_iff set_select dest: member)
  moreover have "delete_where (is_race_row t e rid) (db_races s) = delete_where (\<lambda>r. ra_id r = rid) (db_races s)"
    unfolding delete_where_def by (intro filter_cong refl) (simp add: only)
  ultimately show ?thesis by (simp add: s' without_race_def gone)
qed

lemma demo_full_rosters: "rosters_ok demo_full"
  by code_simp

theorem delete_race_cascades_witness:
  "let s' = snd (delete_race ''t'' ''e'' RoleAdmin ''r1'' demo_full)
   in db_races s' = delete_where (\<lambda>r. ra_id r = ''r1'') (db_races demo_full) \<and>
      db_participants s' = [] \<and> length (db_participants demo_full) = 3"
proof -
  let ?r = "delete_race ''t'' ''e'' RoleAdmin ''r1'' demo_full"
  have run: "?r = (Inr (projr (fst ?r)), snd ?r)" by (rule run_succeeded) code_simp
  from delete_race_cascades [OF demo_full_ok demo_full_rosters run]
  have "db_races (snd ?r) = delete_where (\<lambda>r. ra_id r = ''r1'') (db_races demo_full)" by (elim conjE)
  moreover have "db_participants (snd ?r) = []" "length (db_participants demo_full) = 3" by code_simp+
  ultimately show ?thesis by (simp only: Let_def simp_thms)
qed

section \<open>Publishing\<close>

lemma updated_rowE:
  assumes "x \<in> set (update_where p f t)"
  obtains y where "y \<in> set t" "x = (if p y then f y else y)"
  using assms unfolding update_where_def set_map by (rule imageE) (rule that)

lemma set_event_status_InrE:
  assumes "set_event_status en t a role eid st s = (Inr ev, s')"
  obtains s1 l where "s1 = s\<lparr>db_events := update_where (is_event_row t eid)
        (\<lambda>e. e\<lparr>ev_status := st, ev_updated_at := e_now en\<rparr>) (db_events s)\<rparr>"
    "select_one (is_event_row t eid) (db_events s1) = Some ev" "s' = s1\<lparr>db_audit := db_audit s1 @ [l]\<rparr>"
  using assms unfolding set_event_status_def
  by (elim act_elims) (hypsubst, blast)

text \<open>Publishing is what makes the public page resolve: right after an event was set to a status,
its slug resolves publicly to that very event if the status is published and to nothing otherwise.\<close>

theorem publish_then_resolve:
  assumes "organizer_ok s" and "set_event_status en t a role eid st s = (Inr ev, s')"
  shows "published_event_by_slug (ev_slug ev) s' =
    (if st = EventStatusPublished then Inr ev else Inl (Sentinel ErrNotFound), s')"
  using assms(2)
proof (rule set_event_status_InrE)
  fix s1 l
  assume s1: "s1 = s\<lparr>db_events := update_where (is_event_row t eid)
        (\<lambda>e. e\<lparr>ev_status := st, ev_updated_at := e_now en\<rparr>) (db_events s)\<rparr>"
    and ev: "select_one (is_event_row t eid) (db_events s1) = Some ev"
    and s': "s' = s1\<lparr>db_audit := db_audit s1 @ [l]\<rparr>"
  have "organizer_ok s'" by (rule keepsD [OF keeps_set_event_status assms(1,2)])
  then have uniq: "unique_on event_slug_key (db_events s')" by (simp add: organizer_ok_def events_ok_def)
  have mem: "ev \<in> set (db_events s')" "is_event_row t eid ev" using select_one_SomeD [OF ev] by (simp_all add: s')
  have "ev_status x = st" if "x \<in> set (db_events s')" "is_event_row t eid x" for x
  proof -
    have "db_events s' = update_where (is_event_row t eid)
        (\<lambda>e. e\<lparr>ev_status := st, ev_updated_at := e_now en\<rparr>) (db_events s)"
      by (simp add: s' s1)
    with that(1) obtain y where y: "x = (if is_event_row t eid y
        then y\<lparr>ev_status := st, ev_updated_at := e_now en\<rparr> else y)"
      by (simp only:) (erule updated_rowE, rule that)
    show ?thesis
      using that(2) by (cases "is_event_row t eid y") (simp_all add: y)
  qed
  with mem have st: "ev_status ev = st" by blast
  have same: "x = ev" if "x \<in> set (db_events s')" "ev_slug x = ev_slug ev" for x
    using unique_on_sel [OF uniq that(1) mem(1)] that(2) by (simp add: event_slug_key_def)
  have "select_one (\<lambda>e. ev_slug e = ev_slug ev \<and> ev_status e = EventStatusPublished) (db_events s') =
      (if st = EventStatusPublished then Some ev else None)"
  proof (cases "st = EventStatusPublished")
    case True
    have "select_one (\<lambda>e. ev_slug e = ev_slug ev \<and> ev_status e = EventStatusPublished) (db_events s') \<noteq> None"
      unfolding select_one_None_iff using mem(1) st True by blast
    then obtain x where x: "select_one (\<lambda>e. ev_slug e = ev_slug ev \<and> ev_status e = EventStatusPublished) (db_events s') = Some x"
      by blast
    have "x = ev" using select_one_SomeD [OF x] by (intro same) (elim conjE, assumption)+
    with x True show ?thesis by (simp only: if_True simp_thms)
  next
    case False
    have "select_one (\<lambda>e. ev_slug e = ev_slug ev \<and> ev_status e = EventStatusPublished) (db_events s') = None"
      unfolding select_one_None_iff using same st False by blast
    with False show ?thesis by (simp only: if_False simp_thms)
  qed
  then show ?thesis
    by (cases "st = EventStatusPublished")
      (simp_all add: published_event_by_slug_def get_published_event_by_slug_def act_simps found_def)
qed

theorem publish_then_resolve_witness:
  "let r = set_event_status (demo_env ''z'') ''t'' ''u'' RoleOwner ''e'' EventStatusPublished demo_full
   in published_event_by_slug ''run'' (snd r) = (Inr (projr (fst r)), snd r)"
proof -
  let ?r = "set_event_status (demo_env ''z'') ''t'' ''u'' RoleOwner ''e'' EventStatusPublished demo_full"
  have run: "?r = (Inr (projr (fst ?r)), snd ?r)" by (rule run_succeeded) code_simp
  have "ev_slug (projr (fst ?r)) = ''run''" by code_simp
  with publish_then_resolve [OF demo_full_ok run] show ?thesis by (simp add: Let_def)
qed

section \<open>The listing of events\<close>

definition event_times_ok :: "db \<times> string \<Rightarrow> bool" where
  "event_times_ok q = (case q of (s, tenant) \<Rightarrow>
     unique_on event_pk (db_events s) \<and> list_all (\<lambda>e. in_int64 (ev_created_at e)) (db_events s))"

lemma events_after_cursor:
  assumes "event_times_ok (s, tenant)" and "events_after (s, tenant) '''' = xs @ r # ys"
  shows "events_after (s, tenant) (encode_cursor (ev_created_at r) (ev_id r)) = ys"
proof -
  let ?P = "\<lambda>e. ev_tenant_id e = tenant"
  let ?L = "rev (sort_key event_position (select ?P (db_events s)))"
  have all: "?L = xs @ r # ys"
    using assms(2) by (simp add: events_after_def empty_cursors)
  then have "r \<in> set ?L" by simp
  then have "in_int64 (ev_created_at r)"
    using assms(1) by (auto simp: event_times_ok_def set_select list_all_iff)
  then have dec: "decode_cursor (encode_cursor (ev_created_at r) (ev_id r)) = Some (event_position r)"
    by (simp add: event_position_def)
  have "distinct (map event_position (select ?P (db_events s)))"
  proof -
    have "distinct (map ev_id (select ?P (db_events s)))"
    proof (rule distinct_keys [where key = event_pk and h = "\<lambda>x. x"])
      show "unique_on event_pk (db_events s)" using assms(1) by (simp add: event_times_ok_def)
    qed (simp_all add: event_pk_def)
    then show ?thesis by (auto simp: distinct_map inj_on_def event_position_def)
  qed
  then have "sorted_wrt (\<lambda>a b. event_position b < event_position a) ?L" by (rule sorted_strict_desc)
  then have srt: "sorted_wrt (\<lambda>a b. event_position b < event_position a) (xs @ r # ys)" by (simp only: all)
  have "events_after (s, tenant) (encode_cursor (ev_created_at r) (ev_id r)) =
      filter (\<lambda>e. event_position e < event_position r) ?L"
    by (simp only: events_after_def prod.case dec option.case select_and filter_sort_key rev_filter [symmetric])
  also have "\<dots> = ys"
    unfolding all by (rule filter_after_sorted [OF srt]) (rule less_not_sym)
  finally show ?thesis .
qed

interpretation events: keyset_listing events_after "\<lambda>e. encode_cursor (ev_created_at e) (ev_id e)" event_times_ok
proof
  show "events_after q (encode_cursor (ev_created_at r) (ev_id r)) = ys"
    if "event_times_ok q" "events_after q '''' = xs @ r # ys" for q xs r ys
    using that by (cases q) (simp only: events_after_cursor)
  show "encode_cursor (ev_created_at r) (ev_id r) \<noteq> ''''" for r :: event_row
    using cursors_nonempty by simp
qed

fun read_events :: "nat \<Rightarrow> db \<Rightarrow> string \<Rightarrow> int \<Rightarrow> string \<Rightarrow> event_row list option" where
  "read_events 0 s tenant limit c = None"
| "read_events (Suc n) s tenant limit c =
     (case list_events_call tenant \<lparr>pg_limit = limit, pg_cursor = c\<rparr> s of
        (Inl e, s') \<Rightarrow> None
      | (Inr p, s') \<Rightarrow> if pg_next_cursor p = '''' then Some (pg_items p)
          else map_option ((@) (pg_items p)) (read_events n s' tenant limit (pg_next_cursor p)))"

lemma list_events_fetch:
  "tenant \<noteq> '''' \<Longrightarrow> list_events_call tenant pg s =
     (Inr (events.fetch (s, tenant) (normalize_limit pg) (pg_cursor pg)), s)"
  by (simp add: list_events_call_def with_tenant_tx_def with_tx_def list_events_def Let_def
      act_simps events.fetch_def)

lemma read_events_walk:
  "tenant \<noteq> '''' \<Longrightarrow> read_events n s tenant limit c = events.walk n (s, tenant) (limit_of limit) c"
  by (induction n arbitrary: c) (simp_all add: list_events_fetch normalize_limit_of Let_def)

text \<open>A client that follows the cursors of \<open>ListEvents\<close> reads every event of the tenant exactly
once, the newest first, events created in the same instant included, and no event of another tenant.\<close>

theorem event_pages_complete:
  assumes "tenant \<noteq> ''''" and "organizer_ok s"
    and "list_all (\<lambda>e. in_int64 (ev_created_at e)) (db_events s)"
    and "n = length (select (\<lambda>e. ev_tenant_id e = tenant) (db_events s))"
  shows "read_events (Suc n) s tenant limit '''' =
     Some (rev (sort_key event_position (select (\<lambda>e. ev_tenant_id e = tenant) (db_events s))))"
proof -
  have all: "events_after (s, tenant) '''' =
     rev (sort_key event_position (select (\<lambda>e. ev_tenant_id e = tenant) (db_events s)))"
    by (simp add: events_after_def empty_cursors)
  have len: "length (events_after (s, tenant) '''') = n"
    unfolding all assms(4) by simp
  have "events.walk (Suc n) (s, tenant) (limit_of limit) '''' = Some (events_after (s, tenant) '''')"
    unfolding len [symmetric]
    by (rule events.walk_complete)
      (use assms in \<open>simp_all add: event_times_ok_def organizer_ok_def events_ok_def limit_of_def normalize_limit_bounds\<close>)
  then show ?thesis using assms(1) by (simp only: read_events_walk all not_False_eq_True)
qed

definition demo_three :: db where
  "demo_three = empty_db\<lparr>db_events := map (\<lambda>(i, n, c).
     demo_event\<lparr>ev_id := i, ev_slug := n, ev_created_at := c\<rparr>)
       [(''a'', ''one'', 5), (''b'', ''two'', 7), (''c'', ''three'', 5)]\<rparr>"

theorem event_pages_complete_witness:
  "read_events (Suc 3) demo_three ''t'' 2 '''' =
     Some (rev (sort_key event_position (select (\<lambda>e. ev_tenant_id e = ''t'') (db_events demo_three)))) \<and>
   map_option (map ev_id) (read_events (Suc 3) demo_three ''t'' 2 '''') = Some [''b'', ''c'', ''a'']"
proof
  have "organizer_ok demo_three" "list_all (\<lambda>e. in_int64 (ev_created_at e)) (db_events demo_three)"
    "3 = length (select (\<lambda>e. ev_tenant_id e = ''t'') (db_events demo_three))"
    by code_simp+
  then show "read_events (Suc 3) demo_three ''t'' 2 '''' =
     Some (rev (sort_key event_position (select (\<lambda>e. ev_tenant_id e = ''t'') (db_events demo_three))))"
    by (intro event_pages_complete) simp_all
  show "map_option (map ev_id) (read_events (Suc 3) demo_three ''t'' 2 '''') = Some [''b'', ''c'', ''a'']"
    by code_simp
qed

section \<open>Two consequences worth knowing\<close>

text \<open>\<open>Validate\<close> accepts any positive lap, \<open>NUMERIC(6,2)\<close> keeps two decimals: a lap of one metre is
stored as zero, and from then on every update of the race is refused for its lap.\<close>

theorem short_lap_is_lost:
  "let s' = snd (create_race (demo_env ''q'') ''t'' ''e'' ''u'' RoleOwner ''Mini'' '''' None (loop_format (1/1000)) demo_full)
   in map (\<lambda>r. rc_loop_length_km (ra_format r)) (select (\<lambda>r. ra_id r = ''q'') (db_races s')) = [Some 0] \<and>
      fst (update_race (demo_env ''z'') ''t'' ''e'' RoleOwner ''q'' (keep_race\<lparr>rp_name := Some ''Mini 2''\<rparr>) s') =
        Inl (invalid_state ''loop_length_km must be greater than 0 for a loop race'')"
  by code_simp

text \<open>\<open>UpdateRace\<close> looks for participants only: a race whose teams are still empty may be made
individual, and its teams stay behind in a race that can have none.\<close>

theorem empty_teams_are_stranded:
  "let s = demo_full\<lparr>db_participants := [], db_teams := [planned_team_row (demo_env ''a'') 0 ''t'' ''e''
         \<lparr>pt_key = ''k'', pt_race_id = ''r1'', pt_name = ''Alpha'', pt_category = CategoryMixed\<rparr>]\<rparr>;
       r = update_race (demo_env ''z'') ''t'' ''e'' RoleOwner ''r1''
         (keep_race\<lparr>rp_entry_type := Some RaceEntryIndividual, rp_course_type := Some RaceCourseStandard\<rparr>) s
   in rosters_ok s \<and> \<not> isl (fst r) \<and> \<not> rosters_ok (snd r)"
  by code_simp

end
