(* ===== verification/Assignment_Repo.thy ===== *)
theory Assignment_Repo
  imports Tenant_Repo
begin

text \<open>
  \<open>internal/event/assignment_repository.go\<close>: the statements on event assignments and event
  invitations (migration 0011). The tenant in front of a statement is the one of the surrounding
  transaction, or the row-level security of it.
\<close>

section \<open>Assignments\<close>

definition assignment_pk :: "assignment \<Rightarrow> string option" where
  "assignment_pk a = Some (as_id a)"

definition assignment_key :: "assignment \<Rightarrow> (string \<times> string) option" where
  "assignment_key a = Some (as_event_id a, as_user_id a)"

definition has_event :: "db \<Rightarrow> string \<Rightarrow> bool" where
  "has_event s eid \<longleftrightarrow> list_ex (\<lambda>e. ev_id e = eid) (db_events s)"

definition assignment_violation :: "db \<Rightarrow> assignment \<Rightarrow> sql_error option" where
  "assignment_violation s a =
     (if taken assignment_pk (db_assignments s) a then Some (UniqueViolation ''event_assignments_pkey'')
      else if taken assignment_key (db_assignments s) a
        then Some (UniqueViolation ''event_assignments_event_user_uk'')
      else if \<not> has_tenant s (as_tenant_id a) then Some (ForeignKeyViolation ''event_assignments_tenant_id_fkey'')
      else if \<not> has_event s (as_event_id a) then Some (ForeignKeyViolation ''event_assignments_event_id_fkey'')
      else if \<not> has_user s (as_user_id a) then Some (ForeignKeyViolation ''event_assignments_user_id_fkey'')
      else if \<not> has_user s (as_assigned_by a)
        then Some (ForeignKeyViolation ''event_assignments_assigned_by_fkey'')
      else None)"

definition insert_assignment :: "assignment \<Rightarrow> unit query" where
  "insert_assignment a =
     and_then (reads (\<lambda>s. assignment_violation s a)) (\<lambda>v.
     and_then (exists_check v) (\<lambda>_.
     writes (\<lambda>s. s\<lparr>db_assignments := db_assignments s @ [a]\<rparr>)))"

definition is_assignment_row :: "string \<Rightarrow> string \<Rightarrow> string \<Rightarrow> assignment \<Rightarrow> bool" where
  "is_assignment_row tid eid aid a \<longleftrightarrow> as_tenant_id a = tid \<and> as_event_id a = eid \<and> as_id a = aid"

definition get_assignment :: "string \<Rightarrow> string \<Rightarrow> string \<Rightarrow> assignment query" where
  "get_assignment tid eid aid =
     and_then (reads (\<lambda>s. select_one (is_assignment_row tid eid aid) (db_assignments s))) found"

definition is_assignment_of :: "string \<Rightarrow> string \<Rightarrow> string \<Rightarrow> assignment \<Rightarrow> bool" where
  "is_assignment_of tid eid uid a \<longleftrightarrow> as_tenant_id a = tid \<and> as_event_id a = eid \<and> as_user_id a = uid"

definition get_assignment_for_user :: "string \<Rightarrow> string \<Rightarrow> string \<Rightarrow> assignment query" where
  "get_assignment_for_user tid eid uid =
     and_then (reads (\<lambda>s. select_one (is_assignment_of tid eid uid) (db_assignments s))) found"

definition assignment_position :: "assignment \<Rightarrow> int \<times> string" where
  "assignment_position a = (as_created_at a, as_id a)"

definition list_assignments_rows :: "string \<Rightarrow> string \<Rightarrow> page_params \<Rightarrow> assignment page query" where
  "list_assignments_rows tid eid pg =
     (let limit = normalize_limit pg in
      and_then (reads (\<lambda>s. take (limit + 1) (newest assignment_position
          (\<lambda>a. as_tenant_id a = tid \<and> as_event_id a = eid) (pg_cursor pg) (db_assignments s))))
        (\<lambda>out. ret (cut_page limit (\<lambda>a. cursor_of (assignment_position a)) out)))"

definition update_assignments ::
  "env \<Rightarrow> (assignment \<Rightarrow> bool) \<Rightarrow> (assignment \<Rightarrow> assignment) \<Rightarrow> unit query" where
  "update_assignments en q f =
     and_then (reads (\<lambda>s. length (select q (db_assignments s)))) (\<lambda>n.
     and_then (writes (\<lambda>s. s\<lparr>db_assignments :=
        update_where q (\<lambda>a. (f a)\<lparr>as_updated_at := e_now en\<rparr>) (db_assignments s)\<rparr>)) (\<lambda>_.
     check_rows n))"

definition update_assignment_row :: "env \<Rightarrow> assignment \<Rightarrow> unit query" where
  "update_assignment_row en a =
     update_assignments en (is_assignment_row (as_tenant_id a) (as_event_id a) (as_id a))
       (\<lambda>r. r\<lparr>as_label := as_label a, as_capabilities := as_capabilities a, as_expires_at := as_expires_at a\<rparr>)"

definition revoke_assignment_row :: "env \<Rightarrow> string \<Rightarrow> string \<Rightarrow> string \<Rightarrow> unit query" where
  "revoke_assignment_row en tid eid aid =
     update_assignments en (\<lambda>a. is_assignment_row tid eid aid a \<and> as_status a = AssignmentStatusActive)
       (\<lambda>a. a\<lparr>as_status := AssignmentStatusRevoked\<rparr>)"

text \<open>On the administrative connection: which tenant an event belongs to.\<close>

definition tenant_id_for_event :: "string \<Rightarrow> string query" where
  "tenant_id_for_event eid =
     and_then (reads (\<lambda>s. map_option ev_tenant_id (select_one (\<lambda>e. ev_id e = eid) (db_events s)))) found"

record assignment_with_event =
  aw_assignment :: assignment
  aw_event_name :: string
  aw_event_slug :: string

text \<open>On the administrative connection: a person's active assignments in every tenant, oldest first.\<close>

definition my_assignments_rows :: "string \<Rightarrow> assignment_with_event list query" where
  "my_assignments_rows uid =
     reads (\<lambda>s. sort_key (\<lambda>w. as_created_at (aw_assignment w))
       (concat (map (\<lambda>a. map (\<lambda>e. \<lparr>aw_assignment = a, aw_event_name = ev_name e, aw_event_slug = ev_slug e\<rparr>)
          (select (\<lambda>e. ev_id e = as_event_id a) (db_events s)))
        (select (\<lambda>a. as_user_id a = uid \<and> as_status a = AssignmentStatusActive) (db_assignments s)))))"

section \<open>Invitations\<close>

definition event_invitation_pk :: "event_invitation \<Rightarrow> string option" where
  "event_invitation_pk i = Some (evi_id i)"

definition event_invitation_hash_key :: "event_invitation \<Rightarrow> string option" where
  "event_invitation_hash_key i = Some (evi_token_hash i)"

definition event_invitation_violation :: "db \<Rightarrow> event_invitation \<Rightarrow> sql_error option" where
  "event_invitation_violation s i =
     (if taken event_invitation_pk (db_event_invitations s) i
        then Some (UniqueViolation ''event_invitations_pkey'')
      else if taken event_invitation_hash_key (db_event_invitations s) i
        then Some (UniqueViolation ''event_invitations_token_hash_key'')
      else if \<not> has_tenant s (evi_tenant_id i) then Some (ForeignKeyViolation ''event_invitations_tenant_id_fkey'')
      else if \<not> has_event s (evi_event_id i) then Some (ForeignKeyViolation ''event_invitations_event_id_fkey'')
      else if \<not> has_user s (evi_invited_by i)
        then Some (ForeignKeyViolation ''event_invitations_invited_by_fkey'')
      else None)"

definition insert_event_invitation :: "event_invitation \<Rightarrow> unit query" where
  "insert_event_invitation i =
     and_then (reads (\<lambda>s. event_invitation_violation s i)) (\<lambda>v.
     and_then (exists_check v) (\<lambda>_.
     writes (\<lambda>s. s\<lparr>db_event_invitations := db_event_invitations s @ [i]\<rparr>)))"

text \<open>On the administrative connection.\<close>

definition get_event_invitation_by_hash :: "string \<Rightarrow> event_invitation query" where
  "get_event_invitation_by_hash h =
     and_then (reads (\<lambda>s. select_one (\<lambda>i. evi_token_hash i = h) (db_event_invitations s))) found"

definition event_invitation_position :: "event_invitation \<Rightarrow> int \<times> string" where
  "event_invitation_position i = (evi_created_at i, evi_id i)"

definition list_event_invitations :: "string \<Rightarrow> string \<Rightarrow> page_params \<Rightarrow> event_invitation page query" where
  "list_event_invitations tid eid pg =
     (let limit = normalize_limit pg in
      and_then (reads (\<lambda>s. take (limit + 1) (newest event_invitation_position
          (\<lambda>i. evi_tenant_id i = tid \<and> evi_event_id i = eid) (pg_cursor pg) (db_event_invitations s))))
        (\<lambda>out. ret (cut_page limit (\<lambda>i. cursor_of (event_invitation_position i)) out)))"

definition update_event_invitations ::
  "(event_invitation \<Rightarrow> bool) \<Rightarrow> (event_invitation \<Rightarrow> event_invitation) \<Rightarrow> unit query" where
  "update_event_invitations q f =
     and_then (reads (\<lambda>s. length (select q (db_event_invitations s)))) (\<lambda>n.
     and_then (writes (\<lambda>s. s\<lparr>db_event_invitations := update_where q f (db_event_invitations s)\<rparr>)) (\<lambda>_.
     check_rows n))"

definition mark_event_invitation_accepted :: "string \<Rightarrow> string \<Rightarrow> int \<Rightarrow> unit query" where
  "mark_event_invitation_accepted tid iid at_time =
     update_event_invitations
       (\<lambda>i. evi_tenant_id i = tid \<and> evi_id i = iid \<and> evi_status i = InvitationPending)
       (\<lambda>i. i\<lparr>evi_status := InvitationAccepted, evi_accepted_at := Some at_time\<rparr>)"

definition revoke_event_invitation :: "string \<Rightarrow> string \<Rightarrow> string \<Rightarrow> unit query" where
  "revoke_event_invitation tid eid iid =
     update_event_invitations
       (\<lambda>i. evi_id i = iid \<and> evi_tenant_id i = tid \<and> evi_event_id i = eid \<and> evi_status i = InvitationPending)
       (\<lambda>i. i\<lparr>evi_status := InvitationRevoked\<rparr>)"

section \<open>Inversion and closure\<close>

lemma insert_assignment_InrE [act_elims]:
  assumes "insert_assignment a s = (Inr u, s')"
  obtains "assignment_violation s a = None" "s' = s\<lparr>db_assignments := db_assignments s @ [a]\<rparr>"
  using assms unfolding insert_assignment_def by (elim act_elims) simp

lemma insert_event_invitation_InrE [act_elims]:
  assumes "insert_event_invitation i s = (Inr u, s')"
  obtains "event_invitation_violation s i = None" "s' = s\<lparr>db_event_invitations := db_event_invitations s @ [i]\<rparr>"
  using assms unfolding insert_event_invitation_def by (elim act_elims) simp

lemma get_assignment_InrE [act_elims]:
  assumes "get_assignment tid eid aid s = (Inr a, s')"
  obtains "s' = s" "select_one (is_assignment_row tid eid aid) (db_assignments s) = Some a"
  using assms unfolding get_assignment_def by (elim act_elims) simp

lemma get_event_invitation_by_hash_InrE [act_elims]:
  assumes "get_event_invitation_by_hash h s = (Inr i, s')"
  obtains "s' = s" "select_one (\<lambda>i. evi_token_hash i = h) (db_event_invitations s) = Some i"
  using assms unfolding get_event_invitation_by_hash_def by (elim act_elims) simp

lemma update_assignments_InrE [act_elims]:
  assumes "update_assignments en q f s = (Inr u, s')"
  obtains "select q (db_assignments s) \<noteq> []"
    "s' = s\<lparr>db_assignments := update_where q (\<lambda>a. (f a)\<lparr>as_updated_at := e_now en\<rparr>) (db_assignments s)\<rparr>"
  using assms unfolding update_assignments_def by (elim act_elims) simp

lemma update_event_invitations_InrE [act_elims]:
  assumes "update_event_invitations q f s = (Inr u, s')"
  obtains "select q (db_event_invitations s) \<noteq> []"
    "s' = s\<lparr>db_event_invitations := update_where q f (db_event_invitations s)\<rparr>"
  using assms unfolding update_event_invitations_def by (elim act_elims) simp

lemma keeps_assignment_reads [keeps_intros]:
  "keeps I (get_assignment t e a)" "keeps I (get_assignment_for_user t e u)"
  "keeps I (get_event_invitation_by_hash h)" "keeps I (tenant_id_for_event e)" "keeps I (my_assignments_rows u)"
  unfolding get_assignment_def get_assignment_for_user_def get_event_invitation_by_hash_def
    tenant_id_for_event_def my_assignments_rows_def
  by (intro keeps_intros)+

end
