(* ===== verification/Assignment_Service.thy ===== *)
theory Assignment_Service
  imports Assignment_Repo Invite_Preview Event_Service
begin

text \<open>
  \<open>internal/event/assignment_service.go\<close>, \<open>access.go\<close> and \<open>lookup.go\<close>: crew and volunteers of one
  event, the gate of event-scoped routes, and the lookup of an event by its slug. \<open>members\<close> is the
  \<open>MembershipChecker\<close> the service is built with; \<open>hash\<close>, \<open>raw\<close> and \<open>ttl\<close> as in the tenant service.
\<close>

section \<open>Assigning\<close>

datatype assigned =
    Granted assignment
  | Invited event_invitation string mail

definition new_assignment ::
  "env \<Rightarrow> string \<Rightarrow> string \<Rightarrow> string \<Rightarrow> string \<Rightarrow> string list \<Rightarrow> string \<Rightarrow> int option \<Rightarrow> assignment" where
  "new_assignment en tid eid uid label caps by_user expires =
     \<lparr>as_id = e_uuid en 0, as_tenant_id = tid, as_event_id = eid, as_user_id = uid, as_label = label,
      as_capabilities = caps, as_status = AssignmentStatusActive, as_assigned_by = by_user,
      as_expires_at = expires, as_created_at = e_now en, as_updated_at = e_now en\<rparr>"

definition new_event_invitation ::
  "env \<Rightarrow> (string \<Rightarrow> string) \<Rightarrow> int \<Rightarrow> string \<Rightarrow> string \<Rightarrow> string \<Rightarrow> string \<Rightarrow> string \<Rightarrow> string \<Rightarrow>
     string list \<Rightarrow> int option \<Rightarrow> event_invitation" where
  "new_event_invitation en hash ttl raw tid eid actor email label caps expires =
     \<lparr>evi_id = e_uuid en 0, evi_tenant_id = tid, evi_event_id = eid, evi_email = email, evi_label = label,
      evi_capabilities = caps, evi_token_hash = hash raw, evi_invited_by = actor,
      evi_status = InvitationPending, evi_expires_at = e_now en + ttl,
      evi_assignment_expires_at = expires, evi_accepted_at = None, evi_created_at = e_now en\<rparr>"

definition grant_assignment ::
  "env \<Rightarrow> string \<Rightarrow> string \<Rightarrow> string \<Rightarrow> string \<Rightarrow> string list \<Rightarrow> int option \<Rightarrow> string \<Rightarrow> assigned query" where
  "grant_assignment en tid eid actor label caps expires uid =
     (let a = new_assignment en tid eid uid label caps actor expires in
      with_tenant_tx tid
        (and_then (get_event tid eid) (\<lambda>_.
         and_then (insert_assignment a) (\<lambda>_.
         and_then (audit_event en 1 tid actor ''event_assignment.created''
           [(''event_id'', MetaText eid), (''user_id'', MetaText uid), (''label'', MetaText label)]) (\<lambda>_.
         ret (Granted a))))))"

definition invite_to_event ::
  "env \<Rightarrow> (string \<Rightarrow> string) \<Rightarrow> int \<Rightarrow> string \<Rightarrow> string \<Rightarrow> string \<Rightarrow> string \<Rightarrow> string \<Rightarrow> string \<Rightarrow>
     string list \<Rightarrow> int option \<Rightarrow> string \<Rightarrow> assigned query" where
  "invite_to_event en hash ttl raw tid eid actor email label caps expires origin =
     (let inv = new_event_invitation en hash ttl raw tid eid actor email label caps expires in
      and_then (with_tenant_tx tid
        (and_then (get_event tid eid) (\<lambda>ev.
         and_then (insert_event_invitation inv) (\<lambda>_.
         and_then (get_user actor) (\<lambda>u.
         and_then (audit_event en 1 tid actor ''event_assignment.invited''
           [(''event_id'', MetaText eid), (''email'', MetaText email), (''label'', MetaText label)]) (\<lambda>_.
         ret (ev, u))))))) (\<lambda>(ev, u).
      ret (Invited inv raw
        (EventInvitationEmail email (ev_name ev) (display_name u) (invitation_link origin raw)))))"

definition assign_to_event ::
  "env \<Rightarrow> (string \<Rightarrow> string) \<Rightarrow> int \<Rightarrow> string \<Rightarrow> string \<Rightarrow> string \<Rightarrow> string \<Rightarrow> member_role \<Rightarrow> string \<Rightarrow> string \<Rightarrow>
     string list \<Rightarrow> int option \<Rightarrow> string \<Rightarrow> assigned query" where
  "assign_to_event en hash ttl raw tid eid actor role email0 label caps expires origin =
     guard (is_at_least role RoleStaff) (Sentinel ErrForbidden)
     (on_error (validate_assignment_input label caps)
     (let email = normalize_email email0 in
      (\<lambda>s. case get_user_by_email email s of
         (Inr u, s') \<Rightarrow> grant_assignment en tid eid actor label caps expires (us_id u) s'
       | (Inl e, s') \<Rightarrow>
           if \<not> errors_is e ErrNotFound then (Inl e, s')
           else invite_to_event en hash ttl raw tid eid actor email label caps expires origin s')))"

definition list_assignments :: "string \<Rightarrow> string \<Rightarrow> page_params \<Rightarrow> assignment page query" where
  "list_assignments tid eid pg = with_tenant_tx tid (list_assignments_rows tid eid pg)"

text \<open>A missing list of capabilities leaves them; an empty one is rejected by the validation.\<close>

record assignment_patch =
  ap_label :: "string option"
  ap_capabilities :: "string list option"
  ap_expires_at :: "int option"
  ap_clear_expiry :: bool

definition update_assignment ::
  "env \<Rightarrow> string \<Rightarrow> string \<Rightarrow> string \<Rightarrow> member_role \<Rightarrow> string \<Rightarrow> assignment_patch \<Rightarrow> assignment query" where
  "update_assignment en tid eid actor role aid pa =
     guard (is_at_least role RoleStaff) (Sentinel ErrForbidden)
     (with_tenant_tx tid
       (and_then (get_assignment tid eid aid) (\<lambda>cur.
        let label = or_keep (ap_label pa) (as_label cur);
            caps = or_keep (ap_capabilities pa) (as_capabilities cur) in
        on_error (validate_assignment_input label caps)
        (let a = cur\<lparr>as_label := label, as_capabilities := caps,
               as_expires_at := (if ap_clear_expiry pa then None
                 else or_keep_opt (ap_expires_at pa) (as_expires_at cur))\<rparr> in
         and_then (update_assignment_row en a) (\<lambda>_.
         and_then (audit_event en 0 tid actor ''event_assignment.updated'' [(''assignment_id'', MetaText aid)]) (\<lambda>_.
         ret a))))))"

definition revoke_assignment :: "env \<Rightarrow> string \<Rightarrow> string \<Rightarrow> string \<Rightarrow> member_role \<Rightarrow> string \<Rightarrow> unit query" where
  "revoke_assignment en tid eid actor role aid =
     guard (is_at_least role RoleStaff) (Sentinel ErrForbidden)
     (with_tenant_tx tid
       (and_then (revoke_assignment_row en tid eid aid) (\<lambda>_.
        audit_event en 0 tid actor ''event_assignment.revoked'' [(''assignment_id'', MetaText aid)])))"

definition accept_event_invitation ::
  "env \<Rightarrow> (string \<Rightarrow> string) \<Rightarrow> string \<Rightarrow> string \<Rightarrow> assignment query" where
  "accept_event_invitation en hash raw uid =
     and_then (get_event_invitation_by_hash (hash raw)) (\<lambda>inv.
     guard (evi_status inv = InvitationPending) (Sentinel ErrInvalidState)
     (guard (\<not> event_invitation_expired (e_now en) inv) (Sentinel ErrTokenExpired)
     (and_then (get_user uid) (\<lambda>user.
      guard (normalize_email (us_email user) = normalize_email (evi_email inv))
        (service_error ErrForbidden ''invitation was issued to a different email address'')
      (let a = new_assignment en (evi_tenant_id inv) (evi_event_id inv) uid (evi_label inv)
                 (evi_capabilities inv) (evi_invited_by inv) (evi_assignment_expires_at inv) in
       with_tenant_tx (evi_tenant_id inv)
        (and_then (mark_event_invitation_accepted (evi_tenant_id inv) (evi_id inv) (e_now en)) (\<lambda>_.
         and_then (insert_assignment a) (\<lambda>_.
         and_then (audit_event en 1 (evi_tenant_id inv) uid ''event_assignment.accepted''
           [(''invitation_id'', MetaText (evi_id inv))]) (\<lambda>_.
         ret a)))))))))"

definition my_assignments :: "string \<Rightarrow> assignment_with_event list query" where
  "my_assignments uid = my_assignments_rows uid"

definition preview_event_invitation :: "env \<Rightarrow> (string \<Rightarrow> string) \<Rightarrow> string \<Rightarrow> preview query" where
  "preview_event_invitation en hash raw =
     and_then (get_event_invitation_by_hash (hash raw)) (\<lambda>inv.
     and_then (with_tenant_tx (evi_tenant_id inv) (get_event (evi_tenant_id inv) (evi_event_id inv))) (\<lambda>ev.
     ret \<lparr>pv_kind = ''event'', pv_name = ev_name ev, pv_event_slug = ev_slug ev, pv_role = '''',
          pv_label = evi_label inv, pv_capabilities = evi_capabilities inv, pv_email = evi_email inv,
          pv_status = resolve_status (evi_status inv) (evi_expires_at inv) (e_now en),
          pv_expires_at = evi_expires_at inv\<rparr>))"

section \<open>The gate of event-scoped routes\<close>

type_synonym membership_check = "string \<Rightarrow> string \<Rightarrow> (string \<times> bool) query"

text \<open>What the handler behind the gate finds in its context: a tenant with a role, or with the
capabilities of an assignment.\<close>

datatype access =
    StaffAccess string member_role
  | CrewAccess string "string list"

definition map_error :: "('e \<Rightarrow> 'f) \<Rightarrow> ('s, 'e, 'a) act \<Rightarrow> ('s, 'f, 'a) act" where
  "map_error f m s = (case m s of (Inl e, s') \<Rightarrow> (Inl (f e), s') | (Inr a, s') \<Rightarrow> (Inr a, s'))"

definition internal_error :: http_error where
  "internal_error = reply 500 ''internal_error'' ''Something went wrong. Please try again.''"

text \<open>Path A: the token's tenant is the event's, and the role is read afresh.\<close>

definition staff_path ::
  "membership_check \<Rightarrow> string \<Rightarrow> string option \<Rightarrow> string \<Rightarrow> (db, http_error, access option) act" where
  "staff_path members uid claim tid =
     (if claim = Some tid then
        and_then (map_error (\<lambda>_. internal_error) (with_tenant_tx tid (members tid uid))) (\<lambda>(role, active).
        ret (if active \<and> is_at_least role RoleStaff then Some (StaffAccess tid role) else None))
      else ret None)"

text \<open>Path B: an active assignment with the capability.\<close>

definition crew_path ::
  "int \<Rightarrow> string \<Rightarrow> string \<Rightarrow> string \<Rightarrow> string \<Rightarrow> (db, http_error, access) act" where
  "crew_path now uid tid eid cap s =
     (let forbidden = reply 403 ''forbidden'' ''You are not assigned to this event.'' in
      case with_tenant_tx tid (get_assignment_for_user tid eid uid) s of
        (Inl e, s') \<Rightarrow> (Inl (if errors_is e ErrNotFound then forbidden else internal_error), s')
      | (Inr a, s') \<Rightarrow>
          if \<not> assignment_active now a \<or> (cap \<noteq> '''' \<and> \<not> has_capability a cap) then (Inl forbidden, s')
          else (Inr (CrewAccess tid (as_capabilities a)), s'))"

definition require_event_access ::
  "membership_check \<Rightarrow> int \<Rightarrow> string option \<Rightarrow> string option \<Rightarrow> string \<Rightarrow> string \<Rightarrow> (db, http_error, access) act" where
  "require_event_access members now user claim cap eid =
     (case user of
        None \<Rightarrow> fail (reply 401 ''unauthorized'' ''Authentication required.'')
      | Some uid \<Rightarrow>
          and_then (map_error (\<lambda>_. reply 404 ''not_found'' ''Event not found.'') (tenant_id_for_event eid)) (\<lambda>tid.
          and_then (staff_path members uid claim tid) (\<lambda>staff.
          case staff of
            Some acc \<Rightarrow> ret acc
          | None \<Rightarrow> crew_path now uid tid eid cap)))"

section \<open>Lookup by slug\<close>

record event_lookup =
  el_event :: event_row
  el_races :: "race_row list"
  el_kind :: string
  el_role :: string
  el_capabilities :: "string list"

definition staff_lookup :: "membership_check \<Rightarrow> string \<Rightarrow> string \<Rightarrow> string \<Rightarrow> event_lookup query" where
  "staff_lookup members uid claim slug =
     with_tenant_tx claim
       (and_then (members claim uid) (\<lambda>(role, active).
        guard (active \<and> is_at_least role RoleStaff) (Sentinel ErrNotFound)
        (and_then (get_event_by_slug claim slug) (\<lambda>ev.
         and_then (list_races claim (ev_id ev)) (\<lambda>races.
         ret \<lparr>el_event = ev, el_races = races, el_kind = ''staff'', el_role = role, el_capabilities = []\<rparr>)))))"

definition crew_lookup :: "int \<Rightarrow> string \<Rightarrow> string \<Rightarrow> event_lookup query" where
  "crew_lookup now uid slug =
     and_then (my_assignments_rows uid) (\<lambda>ws.
     case find (\<lambda>w. aw_event_slug w = slug \<and> assignment_active now (aw_assignment w)) ws of
       None \<Rightarrow> fail (Sentinel ErrNotFound)
     | Some w \<Rightarrow>
         let a = aw_assignment w in
         with_tenant_tx (as_tenant_id a)
           (and_then (get_event (as_tenant_id a) (as_event_id a)) (\<lambda>ev.
            and_then (list_races (as_tenant_id a) (as_event_id a)) (\<lambda>races.
            ret \<lparr>el_event = ev, el_races = races, el_kind = ''crew'', el_role = '''',
                 el_capabilities = as_capabilities a\<rparr>))))"

definition lookup_event ::
  "membership_check \<Rightarrow> int \<Rightarrow> string \<Rightarrow> string \<Rightarrow> string \<Rightarrow> event_lookup query" where
  "lookup_event members now uid claim slug s =
     (if claim \<noteq> '''' then
        (case staff_lookup members uid claim slug s of
           (Inr out, s') \<Rightarrow> (Inr out, s')
         | (Inl e, s') \<Rightarrow> if e \<noteq> Sentinel ErrNotFound then (Inl e, s') else crew_lookup now uid slug s')
      else crew_lookup now uid slug s)"

end
