(* ===== verification/Redis_Store.thy ===== *)
theory Redis_Store
  imports Store
begin

text \<open>
  \<open>internal/platform/rediscli/client.go\<close>, its commands: what \<open>SET\<close>, \<open>SET NX\<close>, \<open>GET\<close>, \<open>DEL\<close>, \<open>EXISTS\<close>,
  \<open>PEXPIRE\<close> and \<open>INCR\<close> do to the keys, with the expiry in milliseconds the client sends. A key that
  has expired is gone. A client that cannot reach the server gets an error and changes nothing.
\<close>

type_synonym kv = "string \<Rightarrow> (string \<times> int option) option"

text \<open>The database and Redis side by side: what the session calls work on.\<close>

type_synonym world = "db \<times> kv"

type_synonym 'a call = "(world, go_error, 'a) act"

definition on_db :: "'a query \<Rightarrow> 'a call" where
  "on_db m w = (case m (fst w) of (r, s') \<Rightarrow> (r, (s', snd w)))"

section \<open>Keys with an expiry\<close>

text \<open>\<open>ttl.Milliseconds()\<close> of a duration in nanoseconds, back in nanoseconds.\<close>

definition whole_ms :: "int \<Rightarrow> int" where
  "whole_ms ttl = (ttl div 1000000) * 1000000"

definition live :: "int \<Rightarrow> kv \<Rightarrow> string \<Rightarrow> string option" where
  "live now k key =
     (case k key of
        None \<Rightarrow> None
      | Some (v, None) \<Rightarrow> Some v
      | Some (v, Some e) \<Rightarrow> if now < e then Some v else None)"

definition expiry_of :: "int \<Rightarrow> int \<Rightarrow> int option" where
  "expiry_of now ttl = (if ttl > 0 then Some (now + whole_ms ttl) else None)"

definition put :: "int \<Rightarrow> string \<Rightarrow> string \<Rightarrow> int \<Rightarrow> kv \<Rightarrow> kv" where
  "put now key v ttl k = k(key \<mapsto> (v, expiry_of now ttl))"

definition drop_keys :: "string list \<Rightarrow> kv \<Rightarrow> kv" where
  "drop_keys keys k = (\<lambda>x. if x \<in> set keys then None else k x)"

section \<open>The commands\<close>

definition redis_down :: go_error where
  "redis_down = Other ''rediscli: dial''"

definition redis :: "bool \<Rightarrow> (kv \<Rightarrow> 'a \<times> kv) \<Rightarrow> 'a call" where
  "redis up f w = (if up then (case f (snd w) of (a, k') \<Rightarrow> (Inr a, (fst w, k'))) else (Inl redis_down, w))"

text \<open>A positive expiry under a millisecond is sent as \<open>PX 0\<close>, which the server refuses.\<close>

definition expire_ok :: "int \<Rightarrow> bool" where
  "expire_ok ttl \<longleftrightarrow> ttl \<le> 0 \<or> whole_ms ttl > 0"

definition invalid_expire :: go_error where
  "invalid_expire = Other ''rediscli: server error: ERR invalid expire time in 'set' command''"

definition redis_set :: "bool \<Rightarrow> int \<Rightarrow> string \<Rightarrow> string \<Rightarrow> int \<Rightarrow> unit call" where
  "redis_set up now key v ttl =
     guard (up \<longrightarrow> expire_ok ttl) invalid_expire (redis up (\<lambda>k. ((), put now key v ttl k)))"

definition redis_setnx :: "bool \<Rightarrow> int \<Rightarrow> string \<Rightarrow> string \<Rightarrow> int \<Rightarrow> bool call" where
  "redis_setnx up now key v ttl =
     guard (up \<longrightarrow> expire_ok ttl) invalid_expire
       (redis up (\<lambda>k. if live now k key = None then (True, put now key v ttl k) else (False, k)))"

text \<open>\<open>ErrNil\<close> is the missing value.\<close>

definition redis_get :: "bool \<Rightarrow> int \<Rightarrow> string \<Rightarrow> string option call" where
  "redis_get up now key = redis up (\<lambda>k. (live now k key, k))"

definition redis_del :: "bool \<Rightarrow> string list \<Rightarrow> unit call" where
  "redis_del up keys = redis up (\<lambda>k. ((), drop_keys keys k))"

definition redis_exists :: "bool \<Rightarrow> int \<Rightarrow> string \<Rightarrow> bool call" where
  "redis_exists up now key = redis up (\<lambda>k. (live now k key \<noteq> None, k))"

definition expire_key :: "int \<Rightarrow> string \<Rightarrow> int \<Rightarrow> kv \<Rightarrow> kv" where
  "expire_key now key ttl k =
     (case live now k key of
        None \<Rightarrow> k
      | Some v \<Rightarrow> if whole_ms ttl > 0 then k(key \<mapsto> (v, Some (now + whole_ms ttl))) else drop_keys [key] k)"

definition redis_expire :: "bool \<Rightarrow> int \<Rightarrow> string \<Rightarrow> int \<Rightarrow> unit call" where
  "redis_expire up now key ttl = redis up (\<lambda>k. ((), expire_key now key ttl k))"

text \<open>\<open>INCR\<close> keeps the expiry; a value that is no 64-bit integer, or would overflow, is a server error.\<close>

definition incr_key :: "int \<Rightarrow> string \<Rightarrow> kv \<Rightarrow> go_error + (int \<times> kv)" where
  "incr_key now key k =
     (case (case live now k key of None \<Rightarrow> Some 0 | Some v \<Rightarrow> parse_int v) of
        None \<Rightarrow> Inl (Other ''rediscli: server error: ERR value is not an integer or out of range'')
      | Some n \<Rightarrow>
          if n = max_int64
          then Inl (Other ''rediscli: server error: ERR increment or decrement would overflow'')
          else Inr (n + 1, k(key \<mapsto>
            (itoa (n + 1), case live now k key of None \<Rightarrow> None | Some v \<Rightarrow> snd (the (k key))))))"

definition redis_incr :: "bool \<Rightarrow> int \<Rightarrow> string \<Rightarrow> int call" where
  "redis_incr up now key w =
     (if \<not> up then (Inl redis_down, w)
      else case incr_key now key (snd w) of
        Inl e \<Rightarrow> (Inl e, w)
      | Inr (n, k') \<Rightarrow> (Inr n, (fst w, k')))"

text \<open>\<open>_ = call\<close>: the error is dropped, what was done stays.\<close>

definition ignoring :: "unit call \<Rightarrow> unit call" where
  "ignoring m w = (Inr (), snd (m w))"

section \<open>Laws\<close>

lemma live_put: "0 < whole_ms ttl \<Longrightarrow> live now (put now key v ttl k) x = (if x = key then Some v else live now k x)"
proof -
  assume ms: "0 < whole_ms ttl"
  have "0 < ttl" using ms unfolding whole_ms_def by presburger
  with ms show ?thesis by (simp add: live_def put_def expiry_of_def)
qed

lemma live_drop: "live now (drop_keys keys k) x = (if x \<in> set keys then None else live now k x)"
  by (simp add: live_def drop_keys_def)

end
