(* ===== verification/Auth_Service.thy ===== *)
theory Auth_Service
  imports User_Repo Tenant_Service Assignment_Service Redis_Store
begin

text \<open>
  \<open>internal/auth/service.go\<close>: registration, e-mail verification, login, the rotation of refresh tokens,
  the choice of a tenant and logout; \<open>internal/security/jwt.go\<close>: the claims of an access token.

  The primitives are arguments: the hash of an opaque token, the derivation and check of a password, the
  signature of claims (the JWT library) and its inverse, which yields the claims of a token whose
  signature is good. \<open>tok k\<close> is the \<open>k\<close>-th opaque token a call draws.
\<close>

section \<open>Access tokens\<close>

abbreviation TokenTypeUserAccess :: string where "TokenTypeUserAccess \<equiv> ''user_access''"
abbreviation TokenTypeM2MAccess :: string where "TokenTypeM2MAccess \<equiv> ''m2m_access''"

record claims =
  cl_issuer :: string
  cl_subject :: string
  cl_id :: string
  cl_issued_at :: int
  cl_not_before :: int
  cl_expires_at :: int
  cl_type :: string
  cl_user_id :: string
  cl_super :: bool
  cl_client_id :: string
  cl_scopes :: "string list"
  cl_tenant_id :: string

record auth_deps =
  ad_hash :: "string \<Rightarrow> string"
  ad_derive :: "string \<Rightarrow> string"
  ad_verify :: "string \<Rightarrow> string \<Rightarrow> bool"
  ad_sign :: "claims \<Rightarrow> string"
  ad_decode :: "string \<Rightarrow> claims option"
  ad_issuer :: string
  ad_access_ttl :: int
  ad_email_ttl :: int
  ad_refresh_ttl :: int
  ad_absolute_ttl :: int
  ad_grace :: int
  ad_otp_ttl :: int
  ad_cooldown :: int
  ad_signup_token_ttl :: int

definition user_claims :: "auth_deps \<Rightarrow> int \<Rightarrow> string \<Rightarrow> string \<Rightarrow> bool \<Rightarrow> string \<Rightarrow> claims" where
  "user_claims d now jti uid super tid =
     \<lparr>cl_issuer = ad_issuer d, cl_subject = uid, cl_id = jti, cl_issued_at = now, cl_not_before = now,
      cl_expires_at = now + ad_access_ttl d, cl_type = TokenTypeUserAccess, cl_user_id = uid,
      cl_super = super, cl_client_id = '''', cl_scopes = [], cl_tenant_id = tid\<rparr>"

definition issue_user_access_token ::
  "auth_deps \<Rightarrow> int \<Rightarrow> string \<Rightarrow> string \<Rightarrow> bool \<Rightarrow> string \<Rightarrow> string \<times> string \<times> int" where
  "issue_user_access_token d now jti uid super tid =
     (ad_sign d (user_claims d now jti uid super tid), jti, now + ad_access_ttl d)"

definition parse_ignoring_expiry :: "auth_deps \<Rightarrow> string \<Rightarrow> claims option" where
  "parse_ignoring_expiry d token =
     (case ad_decode d token of
        None \<Rightarrow> None
      | Some c \<Rightarrow> if cl_issuer c = ad_issuer d then Some c else None)"

definition has_scope :: "claims \<Rightarrow> string \<Rightarrow> bool" where
  "has_scope c scope = list_ex (\<lambda>x. x = scope) (cl_scopes c)"

section \<open>Sessions\<close>

record client_info =
  ci_user_agent :: string
  ci_ip :: string
  ci_origin_host :: string

record session_tokens =
  st_access :: string
  st_access_expires :: int
  st_refresh :: string
  st_refresh_expires :: int
  st_tenant_id :: string

definition ptr_or_nil :: "string \<Rightarrow> string option" where
  "ptr_or_nil x = (if x = '''' then None else Some x)"

definition hash_password :: "auth_deps \<Rightarrow> string \<Rightarrow> string query" where
  "hash_password d pw =
     guard (pw \<noteq> '''') (Other ''security: password must not be empty'') (ret (ad_derive d pw))"

definition new_refresh_token ::
  "auth_deps \<Rightarrow> int \<Rightarrow> string \<Rightarrow> string \<Rightarrow> string \<Rightarrow> string \<Rightarrow> int \<Rightarrow> client_info \<Rightarrow> refresh_token" where
  "new_refresh_token d now rid raw uid fam absolute client =
     (let e = now + ad_refresh_ttl d in
      \<lparr>rt_id = rid, rt_user_id = uid, rt_token_hash = ad_hash d raw, rt_replaced_by_hash = None,
       rt_user_agent = ptr_or_nil (ci_user_agent client), rt_ip_address = ptr_or_nil (ci_ip client),
       rt_family_id = fam, rt_expires_at = (if e > absolute then absolute else e),
       rt_absolute_expires_at = absolute, rt_origin_host = ptr_or_nil (ci_origin_host client),
       rt_revoked_at = None, rt_created_at = now\<rparr>)"

text \<open>\<open>issueSession\<close>: a fresh family, whose hard cap is fixed here. \<open>k\<close> and \<open>j\<close> number the first
identifier and the first opaque token it draws.\<close>

definition issue_session ::
  "env \<Rightarrow> nat \<Rightarrow> (nat \<Rightarrow> string) \<Rightarrow> nat \<Rightarrow> auth_deps \<Rightarrow> user_row \<Rightarrow> client_info \<Rightarrow> session_tokens query" where
  "issue_session en k tok j d user client =
     (case issue_user_access_token d (e_now en) (tok j) (us_id user) (us_is_super_admin user) '''' of
        (access, jti, expires) \<Rightarrow>
          let r = new_refresh_token d (e_now en) (e_uuid en (k + 1)) (tok (j + 1)) (us_id user)
                    (e_uuid en k) (e_now en + ad_absolute_ttl d) client in
          and_then (insert_refresh_token r) (\<lambda>_.
          ret \<lparr>st_access = access, st_access_expires = expires, st_refresh = tok (j + 1),
               st_refresh_expires = rt_expires_at r, st_tenant_id = ''''\<rparr>))"

definition verify_tenant_membership :: "membership_check \<Rightarrow> string \<Rightarrow> string \<Rightarrow> unit query" where
  "verify_tenant_membership members tid uid =
     and_then (with_tenant_tx tid (members tid uid)) (\<lambda>(role, active).
     guard active (Sentinel ErrForbidden) (ret ()))"

section \<open>Registration and verification\<close>

definition new_email_token ::
  "env \<Rightarrow> nat \<Rightarrow> auth_deps \<Rightarrow> string \<Rightarrow> string \<Rightarrow> string \<Rightarrow> int \<Rightarrow> email_token" where
  "new_email_token en k d raw uid purpose ttl =
     \<lparr>vt_id = e_uuid en k, vt_user_id = uid, vt_token_hash = ad_hash d raw, vt_purpose = purpose,
      vt_expires_at = e_now en + ttl, vt_consumed_at = None, vt_created_at = e_now en\<rparr>"

definition issue_email_token ::
  "env \<Rightarrow> nat \<Rightarrow> auth_deps \<Rightarrow> string \<Rightarrow> string \<Rightarrow> string \<Rightarrow> int \<Rightarrow> string query" where
  "issue_email_token en k d raw uid purpose ttl =
     and_then (insert_email_token (new_email_token en k d raw uid purpose ttl)) (\<lambda>_. ret raw)"

definition audit_user :: "env \<Rightarrow> nat \<Rightarrow> string \<Rightarrow> string \<Rightarrow> (string \<times> meta) list \<Rightarrow> unit query" where
  "audit_user en k uid action md = record_audit en k None (Some uid) action md"

definition registered_user ::
  "env \<Rightarrow> string \<Rightarrow> string \<Rightarrow> string \<Rightarrow> string \<Rightarrow> user_row" where
  "registered_user en email pw_hash first_name last_name =
     \<lparr>us_id = e_uuid en 0, us_email = email, us_password_hash = Some pw_hash, us_first_name = first_name,
      us_last_name = last_name, us_phone = None, us_is_email_verified = False, us_is_super_admin = False,
      us_status = UserActive, us_terms_accepted_at = None, us_created_at = e_now en, us_updated_at = e_now en\<rparr>"

definition register ::
  "env \<Rightarrow> (nat \<Rightarrow> string) \<Rightarrow> auth_deps \<Rightarrow> string \<Rightarrow> string \<Rightarrow> string \<Rightarrow> string \<Rightarrow> (user_row \<times> mail) query" where
  "register en tok d email0 password first_name last_name =
     (let email = normalize_email email0 in
      and_then (hash_password d password) (\<lambda>h.
      let user = registered_user en email h first_name last_name in
      and_then (with_tx
        (and_then (insert_user user) (\<lambda>_.
         and_then (issue_email_token en 1 d (tok 0) (us_id user) PurposeEmailVerify (ad_email_ttl d)) (\<lambda>raw.
         and_then (audit_user en 2 (us_id user) ''user.registered'' [(''email'', MetaText email)]) (\<lambda>_.
         ret raw))))) (\<lambda>raw.
      ret (user, VerificationEmail (us_email user) (display_name user)
            (''https://app.racetify.id/verify-email?token='' @ raw)))))"

definition verify_email :: "env \<Rightarrow> auth_deps \<Rightarrow> string \<Rightarrow> unit query" where
  "verify_email en d raw =
     with_tx
       (and_then (get_email_token (ad_hash d raw)) (\<lambda>t.
        guard (vt_purpose t = PurposeEmailVerify) (Sentinel ErrInvalidState)
        (guard (vt_consumed_at t = None) (Sentinel ErrTokenConsumed)
        (guard (\<not> e_now en > vt_expires_at t) (Sentinel ErrTokenExpired)
        (and_then (mark_email_token_consumed (vt_id t) (e_now en)) (\<lambda>_.
         and_then (mark_user_email_verified en (vt_user_id t)) (\<lambda>_.
         audit_user en 0 (vt_user_id t) ''user.email_verified'' [])))))))"

section \<open>Login\<close>

definition check_credentials :: "auth_deps \<Rightarrow> string \<Rightarrow> string \<Rightarrow> user_row query" where
  "check_credentials d email password =
     and_then (not_found_as (Sentinel ErrInvalidCredentials) (get_user_by_email email)) (\<lambda>user.
     case us_password_hash user of
       None \<Rightarrow> fail (Sentinel ErrInvalidCredentials)
     | Some h \<Rightarrow>
         guard (ad_verify d password h) (Sentinel ErrInvalidCredentials)
         (guard (us_status user = UserActive) (Sentinel ErrAccountSuspended) (ret user)))"

definition login ::
  "env \<Rightarrow> (nat \<Rightarrow> string) \<Rightarrow> auth_deps \<Rightarrow> string \<Rightarrow> string \<Rightarrow> client_info \<Rightarrow>
     (user_row \<times> session_tokens) query" where
  "login en tok d email password client =
     and_then (with_tx
       (and_then (check_credentials d (normalize_email email) password) (\<lambda>user.
        and_then (audit_user en 0 (us_id user) ''user.logged_in'' [(''ip'', MetaText (ci_ip client))]) (\<lambda>_.
        ret user)))) (\<lambda>user.
     and_then (issue_session en 1 tok 0 d user client) (\<lambda>tokens.
     ret (user, tokens)))"

section \<open>Rotation\<close>

text \<open>What the transaction of \<open>RefreshAccessToken\<close> ends with.\<close>

datatype rotation =
    ReuseDetected
  | Rotated user_row string int

definition within_grace :: "auth_deps \<Rightarrow> int \<Rightarrow> refresh_token \<Rightarrow> bool" where
  "within_grace d now t =
     (case rt_revoked_at t of
        None \<Rightarrow> False
      | Some r \<Rightarrow> rt_replaced_by_hash t \<noteq> None \<and> now - r \<le> ad_grace d)"

definition rotate_session ::
  "env \<Rightarrow> (nat \<Rightarrow> string) \<Rightarrow> auth_deps \<Rightarrow> string \<Rightarrow> client_info \<Rightarrow> rotation query" where
  "rotate_session en tok d raw client =
     with_tx
       (and_then (not_found_as (Sentinel ErrInvalidCredentials) (get_refresh_token (ad_hash d raw))) (\<lambda>t.
        let now = e_now en; grace = within_grace d now t in
        if rt_revoked_at t \<noteq> None \<and> \<not> grace then
          and_then (revoke_refresh_token_family (rt_family_id t) now) (\<lambda>_. ret ReuseDetected)
        else
          guard (\<not> (now > rt_expires_at t \<or> now > rt_absolute_expires_at t)) (Sentinel ErrTokenExpired)
          (and_then (get_user (rt_user_id t)) (\<lambda>user.
           guard (us_status user = UserActive) (Sentinel ErrAccountSuspended)
           (let r = new_refresh_token d now (e_uuid en 0) (tok 0) (us_id user) (rt_family_id t)
                      (rt_absolute_expires_at t) client in
            and_then (insert_refresh_token r) (\<lambda>_.
            and_then (if \<not> grace then rotate_refresh_token (rt_id t) (rt_token_hash r) now else ret ()) (\<lambda>_.
            ret (Rotated user (tok 0) (rt_expires_at r)))))))))"

text \<open>The tenant the previous access token names, when its signature and issuer are good.\<close>

definition tenant_hint :: "auth_deps \<Rightarrow> string \<Rightarrow> string" where
  "tenant_hint d previous =
     (if previous = '''' then ''''
      else case parse_ignoring_expiry d previous of
        None \<Rightarrow> ''''
      | Some c \<Rightarrow> if cl_type c = TokenTypeUserAccess \<and> cl_tenant_id c \<noteq> '''' then cl_tenant_id c else '''')"

text \<open>A membership that cannot be verified drops the hint.\<close>

definition verified_hint :: "membership_check \<Rightarrow> string \<Rightarrow> string \<Rightarrow> string query" where
  "verified_hint members hint uid s =
     (if hint = '''' then (Inr '''', s)
      else case verify_tenant_membership members hint uid s of
        (Inl e, s') \<Rightarrow> (Inr '''', s')
      | (Inr u, s') \<Rightarrow> (Inr hint, s'))"

definition refresh_access_token ::
  "membership_check \<Rightarrow> env \<Rightarrow> (nat \<Rightarrow> string) \<Rightarrow> auth_deps \<Rightarrow> string \<Rightarrow> string \<Rightarrow> client_info \<Rightarrow>
     (user_row \<times> session_tokens) query" where
  "refresh_access_token members en tok d raw previous client =
     and_then (rotate_session en tok d raw client) (\<lambda>r.
     case r of
       ReuseDetected \<Rightarrow> fail (Sentinel ErrInvalidCredentials)
     | Rotated user new_raw expires \<Rightarrow>
         and_then (verified_hint members (tenant_hint d previous) (us_id user)) (\<lambda>tid.
         case issue_user_access_token d (e_now en) (tok 1) (us_id user) (us_is_super_admin user) tid of
           (access, jti, access_expires) \<Rightarrow>
             ret (user, \<lparr>st_access = access, st_access_expires = access_expires, st_refresh = new_raw,
                         st_refresh_expires = expires, st_tenant_id = tid\<rparr>)))"

section \<open>Tenant selection and logout\<close>

text \<open>
  The policy of migration 0003 on \<open>audit_logs\<close>: a row may be written only under the tenant it names, and
  one without a tenant only under none. Inside \<open>WithTenantTx\<close> and \<open>WithTx\<close> the other calls satisfy it;
  the entry of \<open>SelectTenant\<close> is written outside any transaction, and its error is dropped.
\<close>

definition audit_policy :: "string option \<Rightarrow> string option \<Rightarrow> bool" where
  "audit_policy ctx tenant \<longleftrightarrow> tenant = ctx"

definition audit_under ::
  "string option \<Rightarrow> env \<Rightarrow> nat \<Rightarrow> string option \<Rightarrow> string \<Rightarrow> string \<Rightarrow> (string \<times> meta) list \<Rightarrow> unit query" where
  "audit_under ctx en k tenant uid action md =
     guard (audit_policy ctx tenant) (Other ''pq: new row violates row-level security policy'')
       (record_audit en k tenant (Some uid) action md)"

definition dropping :: "unit query \<Rightarrow> unit query" where
  "dropping m s = (Inr (), snd (m s))"

definition select_tenant ::
  "membership_check \<Rightarrow> env \<Rightarrow> (nat \<Rightarrow> string) \<Rightarrow> auth_deps \<Rightarrow> string \<Rightarrow> bool \<Rightarrow> string \<Rightarrow>
     session_tokens query" where
  "select_tenant members en tok d uid super tid =
     guard (tid \<noteq> '''') (Sentinel ErrInvalidState)
     (and_then (verify_tenant_membership members tid uid) (\<lambda>_.
      case issue_user_access_token d (e_now en) (tok 0) uid super tid of
        (access, jti, expires) \<Rightarrow>
          and_then (dropping (audit_under None en 0 (Some tid) uid ''user.switched_tenant'' [])) (\<lambda>_.
          ret \<lparr>st_access = access, st_access_expires = expires, st_refresh = '''', st_refresh_expires = 0,
               st_tenant_id = tid\<rparr>)))"

definition blacklist_key :: "string \<Rightarrow> string" where
  "blacklist_key jti = ''auth:blacklist:'' @ jti"

text \<open>Ending the family of the presented token: any error on the way is dropped.\<close>

definition end_family :: "env \<Rightarrow> auth_deps \<Rightarrow> string \<Rightarrow> string \<Rightarrow> unit query" where
  "end_family en d raw uid s =
     (case get_refresh_token (ad_hash d raw) s of
        (Inl e, s') \<Rightarrow> (Inr (), s')
      | (Inr t, s') \<Rightarrow>
          if rt_user_id t = uid then (Inr (), snd (revoke_refresh_token_family (rt_family_id t) (e_now en) s'))
          else (Inr (), s'))"

definition logout ::
  "bool \<Rightarrow> env \<Rightarrow> auth_deps \<Rightarrow> string \<Rightarrow> string \<Rightarrow> int \<Rightarrow> string \<Rightarrow> unit call" where
  "logout up en d raw jti access_expires uid =
     and_then (if raw \<noteq> '''' then on_db (end_family en d raw uid) else ret ()) (\<lambda>_.
     and_then (if jti \<noteq> '''' \<and> access_expires - e_now en > 0
       then ignoring (redis_set up (e_now en) (blacklist_key jti) ''1'' (access_expires - e_now en))
       else ret ()) (\<lambda>_.
     on_db (audit_user en 0 uid ''user.logged_out'' [])))"

text \<open>An unreachable Redis counts as revoked.\<close>

definition is_access_token_revoked :: "bool \<Rightarrow> int \<Rightarrow> string \<Rightarrow> bool call" where
  "is_access_token_revoked up now jti w =
     (case redis_exists up now (blacklist_key jti) w of
        (Inl e, w') \<Rightarrow> (Inr True, w')
      | (Inr b, w') \<Rightarrow> (Inr b, w'))"

definition get_user_by_id :: "string \<Rightarrow> user_row query" where
  "get_user_by_id uid = get_user uid"

end
