(* ===== verification/Signup.thy ===== *)
theory Signup
  imports Auth_Service
begin

text \<open>
  \<open>internal/auth/signup.go\<close>: self-registration by a one-time password sent to the address. Everything
  before the account lives in Redis. \<open>up\<close> tells of each command of a call, numbered from 0 in the order of the
  code, whether Redis answers it; a command that it does not answer changes nothing.
\<close>

section \<open>Keys and codes\<close>

abbreviation signup_otp_max_attempts :: int where "signup_otp_max_attempts \<equiv> 5"
abbreviation signup_max_sends_per_hr :: int where "signup_max_sends_per_hr \<equiv> 5"
abbreviation hour :: int where "hour \<equiv> 3600000000000"

definition signup_otp_key :: "string \<Rightarrow> string" where
  "signup_otp_key email = ''auth:signup:otp:'' @ email"

definition signup_attempts_key :: "string \<Rightarrow> string" where
  "signup_attempts_key email = ''auth:signup:attempts:'' @ email"

definition signup_cooldown_key :: "string \<Rightarrow> string" where
  "signup_cooldown_key email = ''auth:signup:cooldown:'' @ email"

definition signup_sends_key :: "string \<Rightarrow> string" where
  "signup_sends_key email = ''auth:signup:sends:'' @ email"

definition signup_token_key :: "string \<Rightarrow> string" where
  "signup_token_key h = ''auth:signup:token:'' @ h"

definition otp_digest :: "auth_deps \<Rightarrow> string \<Rightarrow> string \<Rightarrow> string" where
  "otp_digest d email code = ad_hash d (email @ '':'' @ code)"

text \<open>\<open>%06d\<close> of the number drawn below a million.\<close>

definition generate_otp :: "int \<Rightarrow> string" where
  "generate_otp n = (let x = itoa (n mod 1000000) in replicate (6 - length x) (CHR ''0'') @ x)"

section \<open>The three steps\<close>

text \<open>Only \<open>ErrNotFound\<close> means that the address is free.\<close>

definition address_taken :: "string \<Rightarrow> bool call" where
  "address_taken email w =
     (case get_user_by_email email (fst w) of
        (Inr u, s') \<Rightarrow> (Inr True, (s', snd w))
      | (Inl e, s') \<Rightarrow> ((if errors_is e ErrNotFound then Inr False else Inl e), (s', snd w)))"

text \<open>Everything before the mail is handed over; the result is the mail, if there is one.\<close>

definition issue_signup_otp :: "(nat \<Rightarrow> bool) \<Rightarrow> env \<Rightarrow> auth_deps \<Rightarrow> int \<Rightarrow> string \<Rightarrow> mail option call" where
  "issue_signup_otp up en d n email0 =
     (let email = normalize_email email0; now = e_now en in
      and_then (redis_setnx (up 0) now (signup_cooldown_key email) ''1'' (ad_cooldown d)) (\<lambda>ok.
      guard ok (Sentinel ErrRateLimited)
      (and_then (redis_incr (up 1) now (signup_sends_key email)) (\<lambda>sends.
       and_then (if sends = 1 then ignoring (redis_expire (up 2) now (signup_sends_key email) hour) else ret ()) (\<lambda>_.
       guard (\<not> sends > signup_max_sends_per_hr) (Sentinel ErrRateLimited)
       (and_then (address_taken email) (\<lambda>known.
        if known then ret None
        else
          let code = generate_otp n in
          and_then (redis_set (up 3) now (signup_otp_key email) (otp_digest d email code) (ad_otp_ttl d)) (\<lambda>_.
          and_then (ignoring (redis_del (up 4) [signup_attempts_key email])) (\<lambda>_.
          ret (Some (SignupOTPEmail email code (ad_otp_ttl d))))))))))))"

text \<open>\<open>StartSignup\<close>; \<open>fault\<close> is what the mailer answers when it is called.\<close>

definition start_signup ::
  "(nat \<Rightarrow> bool) \<Rightarrow> go_error option \<Rightarrow> env \<Rightarrow> auth_deps \<Rightarrow> int \<Rightarrow> string \<Rightarrow> unit call" where
  "start_signup up fault en d n email =
     and_then (issue_signup_otp up en d n email) (\<lambda>m.
     case (m, fault) of (Some _, Some e) \<Rightarrow> fail e | _ \<Rightarrow> ret ())"

definition verify_signup_otp ::
  "(nat \<Rightarrow> bool) \<Rightarrow> env \<Rightarrow> auth_deps \<Rightarrow> string \<Rightarrow> string \<Rightarrow> string \<Rightarrow> string call" where
  "verify_signup_otp up en d raw email0 code0 =
     (let email = normalize_email email0; code = trim_space code0; now = e_now en in
      and_then (redis_get (up 0) now (signup_otp_key email)) (\<lambda>got.
      and_then (of_option (Sentinel ErrInvalidOTP) got) (\<lambda>stored.
      and_then (redis_incr (up 1) now (signup_attempts_key email)) (\<lambda>attempts.
      and_then (if attempts = 1 then ignoring (redis_expire (up 2) now (signup_attempts_key email) (ad_otp_ttl d))
        else ret ()) (\<lambda>_.
      if attempts > signup_otp_max_attempts then
        and_then (ignoring (redis_del (up 3) [signup_otp_key email, signup_attempts_key email])) (\<lambda>_.
        fail (Sentinel ErrInvalidOTP))
      else
        guard (stored = otp_digest d email code) (Sentinel ErrInvalidOTP)
        (and_then (ignoring (redis_del (up 3) [signup_otp_key email, signup_attempts_key email])) (\<lambda>_.
         and_then (redis_set (up 4) now (signup_token_key (ad_hash d raw)) email (ad_signup_token_ttl d)) (\<lambda>_.
         ret raw))))))))"

definition signed_up_user :: "env \<Rightarrow> string \<Rightarrow> string \<Rightarrow> string \<Rightarrow> string \<Rightarrow> user_row" where
  "signed_up_user en email h first_name last_name =
     \<lparr>us_id = e_uuid en 0, us_email = email, us_password_hash = Some h,
      us_first_name = trim_space first_name, us_last_name = trim_space last_name, us_phone = None,
      us_is_email_verified = True, us_is_super_admin = False, us_status = UserActive,
      us_terms_accepted_at = Some (e_now en), us_created_at = e_now en, us_updated_at = e_now en\<rparr>"

definition complete_signup ::
  "(nat \<Rightarrow> bool) \<Rightarrow> env \<Rightarrow> (nat \<Rightarrow> string) \<Rightarrow> auth_deps \<Rightarrow> string \<Rightarrow> string \<Rightarrow> string \<Rightarrow> string \<Rightarrow> bool \<Rightarrow>
     client_info \<Rightarrow> (user_row \<times> session_tokens) call" where
  "complete_signup up en tok d token first_name last_name password accepted client =
     guard accepted (Sentinel ErrTermsNotAccepted)
     (let key = signup_token_key (ad_hash d token); now = e_now en in
      and_then (redis_get (up 0) now key) (\<lambda>got.
      and_then (of_option (Sentinel ErrTokenExpired) got) (\<lambda>email.
      and_then (on_db (hash_password d password)) (\<lambda>h.
      let user = signed_up_user en email h first_name last_name in
      and_then (on_db (with_tx
        (and_then (insert_user user) (\<lambda>_.
         audit_user en 1 (us_id user) ''user.registered''
           [(''via'', MetaText ''email_otp''), (''ip'', MetaText (ci_ip client))])))) (\<lambda>_.
      and_then (ignoring (redis_del (up 1) [key])) (\<lambda>_.
      and_then (on_db (issue_session en 2 tok 0 d user client)) (\<lambda>tokens.
      ret (user, tokens))))))))"

end
