(* ===== verification/Assignment_Props.thy ===== *)
theory Assignment_Props
  imports Assignment_Service Tenant_Props
begin

text \<open>
  What the assignment component keeps (\<open>assignments_ok\<close>): one row per event and person, grants and
  offers that belong to the tenant of their event and carry a valid label and known capabilities.
\<close>

section \<open>The invariant\<close>

definition event_of_tenant :: "db \<Rightarrow> string \<Rightarrow> string \<Rightarrow> bool" where
  "event_of_tenant s eid tid \<longleftrightarrow> list_ex (\<lambda>e. ev_id e = eid \<and> ev_tenant_id e = tid) (db_events s)"

definition assignment_row_ok :: "db \<Rightarrow> assignment \<Rightarrow> bool" where
  "assignment_row_ok s a \<longleftrightarrow>
     event_of_tenant s (as_event_id a) (as_tenant_id a) \<and>
     validate_assignment_input (as_label a) (as_capabilities a) = None \<and>
     (as_status a = AssignmentStatusActive \<or> as_status a = AssignmentStatusRevoked)"

definition event_invitation_row_ok :: "db \<Rightarrow> event_invitation \<Rightarrow> bool" where
  "event_invitation_row_ok s i \<longleftrightarrow>
     event_of_tenant s (evi_event_id i) (evi_tenant_id i) \<and>
     validate_assignment_input (evi_label i) (evi_capabilities i) = None"

definition assignments_ok :: "db \<Rightarrow> bool" where
  "assignments_ok s \<longleftrightarrow>
     unique_on assignment_pk (db_assignments s) \<and> unique_on assignment_key (db_assignments s) \<and>
     list_all (assignment_row_ok s) (db_assignments s) \<and>
     unique_on event_invitation_pk (db_event_invitations s) \<and>
     unique_on event_invitation_hash_key (db_event_invitations s) \<and>
     list_all (event_invitation_row_ok s) (db_event_invitations s)"

lemma event_of_tenant_frame [simp]:
  "event_of_tenant (s\<lparr>db_audit := l\<rparr>) = event_of_tenant s"
  "event_of_tenant (s\<lparr>db_assignments := as\<rparr>) = event_of_tenant s"
  "event_of_tenant (s\<lparr>db_event_invitations := is\<rparr>) = event_of_tenant s"
  by (simp_all add: event_of_tenant_def fun_eq_iff)

lemma row_ok_frame [simp]:
  "assignment_row_ok (s\<lparr>db_audit := l\<rparr>) = assignment_row_ok s"
  "assignment_row_ok (s\<lparr>db_assignments := as\<rparr>) = assignment_row_ok s"
  "assignment_row_ok (s\<lparr>db_event_invitations := is\<rparr>) = assignment_row_ok s"
  "event_invitation_row_ok (s\<lparr>db_audit := l\<rparr>) = event_invitation_row_ok s"
  "event_invitation_row_ok (s\<lparr>db_assignments := as\<rparr>) = event_invitation_row_ok s"
  "event_invitation_row_ok (s\<lparr>db_event_invitations := is\<rparr>) = event_invitation_row_ok s"
  by (simp_all add: assignment_row_ok_def event_invitation_row_ok_def fun_eq_iff)

lemma assignments_ok_audit [simp]: "assignments_ok (s\<lparr>db_audit := l\<rparr>) = assignments_ok s"
  by (simp add: assignments_ok_def)

lemma assignments_ok_new:
  assumes "assignments_ok s" "assignment_violation s a = None" "assignment_row_ok s a"
  shows "assignments_ok (s\<lparr>db_assignments := db_assignments s @ [a]\<rparr>)"
proof -
  have "\<not> taken assignment_pk (db_assignments s) a" "\<not> taken assignment_key (db_assignments s) a"
    using assms(2) by (simp_all add: assignment_violation_def split: if_splits)
  with assms(1,3) show ?thesis
    by (simp add: assignments_ok_def unique_on_append_one not_taken_fresh)
qed

lemma assignments_ok_new_invitation:
  assumes "assignments_ok s" "event_invitation_violation s i = None" "event_invitation_row_ok s i"
  shows "assignments_ok (s\<lparr>db_event_invitations := db_event_invitations s @ [i]\<rparr>)"
proof -
  have "\<not> taken event_invitation_pk (db_event_invitations s) i"
    "\<not> taken event_invitation_hash_key (db_event_invitations s) i"
    using assms(2) by (simp_all add: event_invitation_violation_def split: if_splits)
  with assms(1,3) show ?thesis
    by (simp add: assignments_ok_def unique_on_append_one not_taken_fresh)
qed

lemma assignments_ok_update:
  assumes ok: "assignments_ok s"
    and same: "\<And>a. as_id (f a) = as_id a \<and> as_event_id (f a) = as_event_id a \<and> as_user_id (f a) = as_user_id a"
    and rows: "\<And>a. a \<in> set (db_assignments s) \<Longrightarrow> q a \<Longrightarrow> assignment_row_ok s (f a)"
  shows "assignments_ok (s\<lparr>db_assignments := update_where q f (db_assignments s)\<rparr>)"
proof -
  have "unique_on assignment_pk (update_where q f (db_assignments s))"
    "unique_on assignment_key (update_where q f (db_assignments s))"
    using ok same
    by (auto simp: assignments_ok_def assignment_pk_def assignment_key_def intro!: unique_on_update_same_key)
  moreover have "list_all (assignment_row_ok s) (update_where q f (db_assignments s))"
    using ok rows by (auto simp: assignments_ok_def list_all_iff set_update_where)
  ultimately show ?thesis using ok by (simp add: assignments_ok_def)
qed

lemma assignments_ok_update_invitations:
  assumes ok: "assignments_ok s"
    and same: "\<And>i. evi_id (f i) = evi_id i \<and> evi_token_hash (f i) = evi_token_hash i \<and>
      event_invitation_row_ok s (f i) = event_invitation_row_ok s i"
  shows "assignments_ok (s\<lparr>db_event_invitations := update_where q f (db_event_invitations s)\<rparr>)"
proof -
  have "unique_on event_invitation_pk (update_where q f (db_event_invitations s))"
    "unique_on event_invitation_hash_key (update_where q f (db_event_invitations s))"
    using ok same
    by (auto simp: assignments_ok_def event_invitation_pk_def event_invitation_hash_key_def
        intro!: unique_on_update_same_key)
  moreover have "list_all (event_invitation_row_ok s) (update_where q f (db_event_invitations s))"
    using ok same by (auto simp: assignments_ok_def list_all_iff set_update_where)
  ultimately show ?thesis using ok by (simp add: assignments_ok_def)
qed

section \<open>The use cases\<close>

lemma reader_hash_lookup [atomic_intros]: "reader (get_event_invitation_by_hash h)"
  unfolding get_event_invitation_by_hash_def by (rule reader_found)

lemma atomic_grant: "atomic (grant_assignment en tid eid actor label caps expires uid)"
  unfolding grant_assignment_def Let_def by (intro atomic_intros)

lemma atomic_invite: "atomic (invite_to_event en hash ttl raw tid eid actor email label caps expires origin)"
  unfolding invite_to_event_def Let_def by (intro atomic_intros)

lemma get_user_by_email_reads: "get_user_by_email m s = (x, s') \<Longrightarrow> s' = s"
  by (rule readerD [OF reader_lookups(2)])

lemma assign_to_event_cases:
  "assign_to_event en hash ttl raw tid eid actor role email label caps expires origin s =
     (if \<not> is_at_least role RoleStaff then (Inl (Sentinel ErrForbidden), s)
      else case validate_assignment_input label caps of
        Some e \<Rightarrow> (Inl e, s)
      | None \<Rightarrow> (case select_one (\<lambda>u. same_email (us_email u) (normalize_email email)) (db_users s) of
          Some u \<Rightarrow> grant_assignment en tid eid actor label caps expires (us_id u) s
        | None \<Rightarrow> invite_to_event en hash ttl raw tid eid actor (normalize_email email) label caps expires origin s))"
  by (simp add: assign_to_event_def guard_def on_error_def Let_def fail_def get_user_by_email_def
      act_simps found_def of_option_def split: option.splits)

lemma atomic_assign:
  "atomic (assign_to_event en hash ttl raw tid eid actor role email label caps expires origin)"
  using atomic_grant atomic_invite unfolding atomic_def assign_to_event_cases
  by (auto split: option.splits)

lemma atomic_assignment_calls:
  "atomic (update_assignment en tid eid actor role aid pa)" "atomic (revoke_assignment en tid eid actor role aid)"
  "atomic (accept_event_invitation en hash raw uid)"
  unfolding update_assignment_def revoke_assignment_def accept_event_invitation_def Let_def
  by (intro atomic_intros)+

lemma grant_assignment_InrE:
  assumes "grant_assignment en tid eid actor label caps expires uid s = (Inr r, s')"
  obtains ev s1 l where "select_one (is_event_row tid eid) (db_events s) = Some ev"
    "assignment_violation s (new_assignment en tid eid uid label caps actor expires) = None"
    "s1 = s\<lparr>db_assignments := db_assignments s @ [new_assignment en tid eid uid label caps actor expires]\<rparr>"
    "s' = s1\<lparr>db_audit := db_audit s1 @ [l]\<rparr>" "r = Granted (new_assignment en tid eid uid label caps actor expires)"
  using assms unfolding grant_assignment_def Let_def audit_event_def
  by (elim act_elims) (hypsubst, blast)

lemma invite_to_event_InrE:
  assumes "invite_to_event en hash ttl raw tid eid actor email label caps expires origin s = (Inr r, s')"
  obtains ev s1 l where "select_one (is_event_row tid eid) (db_events s) = Some ev"
    "event_invitation_violation s
       (new_event_invitation en hash ttl raw tid eid actor email label caps expires) = None"
    "s1 = s\<lparr>db_event_invitations := db_event_invitations s @
       [new_event_invitation en hash ttl raw tid eid actor email label caps expires]\<rparr>"
    "s' = s1\<lparr>db_audit := db_audit s1 @ [l]\<rparr>"
  using assms unfolding invite_to_event_def Let_def audit_event_def case_prod_unfold
  by (elim act_elims) (hypsubst, blast)

lemma event_of_tenant_found:
  "select_one (is_event_row tid eid) (db_events s) = Some ev \<Longrightarrow> event_of_tenant s eid tid"
  by (drule select_one_SomeD) (auto simp: event_of_tenant_def is_event_row_def list_ex_iff)

lemma keeps_assign:
  "keeps assignments_ok (assign_to_event en hash ttl raw tid eid actor role email label caps expires origin)"
proof (rule keeps_atomicI [OF atomic_assign])
  fix s r s' assume ok: "assignments_ok s"
    and run: "assign_to_event en hash ttl raw tid eid actor role email label caps expires origin s = (Inr r, s')"
  have valid: "validate_assignment_input label caps = None"
    using run by (auto simp: assign_to_event_cases split: if_splits option.splits)
  show "assignments_ok s'"
  proof (cases "select_one (\<lambda>u. same_email (us_email u) (normalize_email email)) (db_users s)")
    case (Some u)
    with run valid have "grant_assignment en tid eid actor label caps expires (us_id u) s = (Inr r, s')"
      by (simp add: assign_to_event_cases split: if_splits)
    then show ?thesis
      by (rule grant_assignment_InrE)
        (use assignments_ok_new [OF ok] event_of_tenant_found [of tid eid s] valid in
          \<open>simp add: assignment_row_ok_def new_assignment_def\<close>)
  next
    case None
    with run valid have "invite_to_event en hash ttl raw tid eid actor (normalize_email email) label caps
        expires origin s = (Inr r, s')"
      by (simp add: assign_to_event_cases split: if_splits)
    then show ?thesis
      by (rule invite_to_event_InrE)
        (use assignments_ok_new_invitation [OF ok] event_of_tenant_found [of tid eid s] valid in
          \<open>simp add: event_invitation_row_ok_def new_event_invitation_def\<close>)
  qed
qed

lemma keeps_update_assignment: "keeps assignments_ok (update_assignment en tid eid actor role aid pa)"
proof (rule keeps_atomicI [OF atomic_assignment_calls(1)])
  fix s r s' assume ok: "assignments_ok s" and run: "update_assignment en tid eid actor role aid pa s = (Inr r, s')"
  from run obtain cur s1 l where "select_one (is_assignment_row tid eid aid) (db_assignments s) = Some cur"
    and v: "validate_assignment_input (or_keep (ap_label pa) (as_label cur))
      (or_keep (ap_capabilities pa) (as_capabilities cur)) = None"
    and r: "r = cur\<lparr>as_label := or_keep (ap_label pa) (as_label cur),
      as_capabilities := or_keep (ap_capabilities pa) (as_capabilities cur),
      as_expires_at := (if ap_clear_expiry pa then None
        else or_keep_opt (ap_expires_at pa) (as_expires_at cur))\<rparr>"
    and s1: "s1 = s\<lparr>db_assignments := update_where (is_assignment_row (as_tenant_id r) (as_event_id r) (as_id r))
        (\<lambda>x. x\<lparr>as_label := as_label r, as_capabilities := as_capabilities r,
           as_expires_at := as_expires_at r, as_updated_at := e_now en\<rparr>) (db_assignments s)\<rparr>"
    and s': "s' = s1\<lparr>db_audit := db_audit s1 @ [l]\<rparr>"
    unfolding update_assignment_def update_assignment_row_def Let_def audit_event_def
    by (elim act_elims) (hypsubst, blast)
  have valid: "validate_assignment_input (as_label r) (as_capabilities r) = None"
    using v by (simp add: r)
  have "assignments_ok s1"
    unfolding s1
  proof (rule assignments_ok_update [OF ok])
    fix a assume "a \<in> set (db_assignments s)"
    with ok have "assignment_row_ok s a" by (simp add: assignments_ok_def list_all_iff)
    with valid show "assignment_row_ok s (a\<lparr>as_label := as_label r, as_capabilities := as_capabilities r,
           as_expires_at := as_expires_at r, as_updated_at := e_now en\<rparr>)"
      by (simp add: assignment_row_ok_def)
  qed simp
  then show "assignments_ok s'" by (simp add: s')
qed

lemma revoke_assignment_InrE:
  assumes "revoke_assignment en tid eid actor role aid s = (Inr u, s')"
  obtains s1 l where
    "select (\<lambda>a. is_assignment_row tid eid aid a \<and> as_status a = AssignmentStatusActive) (db_assignments s) \<noteq> []"
    "s1 = s\<lparr>db_assignments := update_where
        (\<lambda>a. is_assignment_row tid eid aid a \<and> as_status a = AssignmentStatusActive)
        (\<lambda>a. a\<lparr>as_status := AssignmentStatusRevoked, as_updated_at := e_now en\<rparr>) (db_assignments s)\<rparr>"
    "s' = s1\<lparr>db_audit := db_audit s1 @ [l]\<rparr>"
  using assms unfolding revoke_assignment_def revoke_assignment_row_def audit_event_def
  by (elim act_elims) (hypsubst, blast)

lemma keeps_revoke_assignment: "keeps assignments_ok (revoke_assignment en tid eid actor role aid)"
proof (rule keeps_atomicI [OF atomic_assignment_calls(2)])
  fix s u s' assume ok: "assignments_ok s" and run: "revoke_assignment en tid eid actor role aid s = (Inr u, s')"
  have row: "assignment_row_ok s (a\<lparr>as_status := AssignmentStatusRevoked, as_updated_at := e_now en\<rparr>)"
    if "a \<in> set (db_assignments s)" for a
    using ok that by (simp add: assignments_ok_def list_all_iff assignment_row_ok_def)
  from run show "assignments_ok s'"
    by (rule revoke_assignment_InrE) (use assignments_ok_update [OF ok] row in simp)
qed

lemma accept_event_invitation_InrE:
  assumes "accept_event_invitation en hash raw uid s = (Inr a, s')"
  obtains inv s1 s2 l where
    "select_one (\<lambda>i. evi_token_hash i = hash raw) (db_event_invitations s) = Some inv"
    "s1 = s\<lparr>db_event_invitations := update_where
        (\<lambda>i. evi_tenant_id i = evi_tenant_id inv \<and> evi_id i = evi_id inv \<and> evi_status i = InvitationPending)
        (\<lambda>i. i\<lparr>evi_status := InvitationAccepted, evi_accepted_at := Some (e_now en)\<rparr>) (db_event_invitations s)\<rparr>"
    "a = new_assignment en (evi_tenant_id inv) (evi_event_id inv) uid (evi_label inv)
       (evi_capabilities inv) (evi_invited_by inv) (evi_assignment_expires_at inv)"
    "assignment_violation s1 a = None" "s2 = s1\<lparr>db_assignments := db_assignments s1 @ [a]\<rparr>"
    "s' = s2\<lparr>db_audit := db_audit s2 @ [l]\<rparr>"
  using assms unfolding accept_event_invitation_def mark_event_invitation_accepted_def Let_def audit_event_def
  by (elim act_elims) (hypsubst, blast)

lemma keeps_accept_event_invitation: "keeps assignments_ok (accept_event_invitation en hash raw uid)"
proof (rule keeps_atomicI [OF atomic_assignment_calls(3)])
  fix s a s' assume ok: "assignments_ok s" and run: "accept_event_invitation en hash raw uid s = (Inr a, s')"
  from run obtain inv s1 s2 l where
    inv: "select_one (\<lambda>i. evi_token_hash i = hash raw) (db_event_invitations s) = Some inv"
    and s1: "s1 = s\<lparr>db_event_invitations := update_where
        (\<lambda>i. evi_tenant_id i = evi_tenant_id inv \<and> evi_id i = evi_id inv \<and> evi_status i = InvitationPending)
        (\<lambda>i. i\<lparr>evi_status := InvitationAccepted, evi_accepted_at := Some (e_now en)\<rparr>) (db_event_invitations s)\<rparr>"
    and a: "a = new_assignment en (evi_tenant_id inv) (evi_event_id inv) uid (evi_label inv)
       (evi_capabilities inv) (evi_invited_by inv) (evi_assignment_expires_at inv)"
    and v: "assignment_violation s1 a = None" and s2: "s2 = s1\<lparr>db_assignments := db_assignments s1 @ [a]\<rparr>"
    and s': "s' = s2\<lparr>db_audit := db_audit s2 @ [l]\<rparr>"
    by (rule accept_event_invitation_InrE)
  have ok1: "assignments_ok s1"
    unfolding s1 by (rule assignments_ok_update_invitations [OF ok]) (simp add: event_invitation_row_ok_def)
  have "event_invitation_row_ok s inv"
    using ok select_one_SomeD [OF inv] by (simp add: assignments_ok_def list_all_iff)
  then have "assignment_row_ok s1 a"
    by (simp add: event_invitation_row_ok_def assignment_row_ok_def a new_assignment_def s1)
  from assignments_ok_new [OF ok1 v this] show "assignments_ok s'" by (simp add: s' s2)
qed

section \<open>Histories\<close>

datatype assignment_call =
    AssignCall int string string string string member_role string string "string list" "int option" string
  | UpdateAssignmentCall string string string member_role string assignment_patch
  | RevokeAssignmentCall string string string member_role string
  | AcceptEventCall string string

fun run_assignment_call :: "env \<Rightarrow> (string \<Rightarrow> string) \<Rightarrow> assignment_call \<Rightarrow> unit query" where
  "run_assignment_call en hash (AssignCall ttl raw tid eid actor role email label caps expires origin) =
     discard (assign_to_event en hash ttl raw tid eid actor role email label caps expires origin)"
| "run_assignment_call en hash (UpdateAssignmentCall tid eid actor role aid pa) =
     discard (update_assignment en tid eid actor role aid pa)"
| "run_assignment_call en hash (RevokeAssignmentCall tid eid actor role aid) =
     discard (revoke_assignment en tid eid actor role aid)"
| "run_assignment_call en hash (AcceptEventCall raw uid) = discard (accept_event_invitation en hash raw uid)"

fun run_assignments :: "(string \<Rightarrow> string) \<Rightarrow> (env \<times> assignment_call) list \<Rightarrow> db \<Rightarrow> db" where
  "run_assignments hash [] s = s"
| "run_assignments hash ((en, c) # cs) s = run_assignments hash cs (snd (run_assignment_call en hash c s))"

lemma keeps_run_assignment_call: "keeps assignments_ok (run_assignment_call en hash c)"
  by (cases c) (simp_all only: run_assignment_call.simps discard_def,
    (intro keeps_intros keeps_assign keeps_update_assignment keeps_revoke_assignment
      keeps_accept_event_invitation)+)

lemma keeps_run_assignments:
  "(\<And>en c. keeps I (run_assignment_call en hash c)) \<Longrightarrow> I s \<Longrightarrow> I (run_assignments hash cs s)"
  by (induction cs arbitrary: s) (auto simp: keeps_def)

end
