(* ===== verification/Event_Access.thy ===== *)
theory Event_Access
  imports Assignment_Props Tenant_Listing
begin

text \<open>
  Who gets through the gate of event-scoped routes, and what the lookup by slug reveals. The gate is
  proved against the interface the event service declares (\<open>middleware.MembershipChecker\<close>) and put to
  work on the tenant repository that provides it.
\<close>

definition races_of :: "db \<Rightarrow> string \<Rightarrow> string \<Rightarrow> race_row list" where
  "races_of s tid eid =
     sort_key ra_created_at (select (\<lambda>r. ra_tenant_id r = tid \<and> ra_event_id r = eid) (db_races s))"

text \<open>The crew path of the lookup finds an event the caller is actively assigned to.\<close>

lemma crew_lookup_sound:
  assumes "crew_lookup now uid slug s = (Inr out, s')"
  shows "s' = s \<and> (\<exists>a \<in> set (db_assignments s). as_user_id a = uid \<and> assignment_active now a \<and>
      ev_id (el_event out) = as_event_id a \<and> ev_tenant_id (el_event out) = as_tenant_id a \<and>
      el_races out = races_of s (as_tenant_id a) (as_event_id a) \<and> el_capabilities out = as_capabilities a)"
proof -
  let ?ws = "sort_key (\<lambda>w. as_created_at (aw_assignment w))
       (concat (map (\<lambda>a. map (\<lambda>e. \<lparr>aw_assignment = a, aw_event_name = ev_name e, aw_event_slug = ev_slug e\<rparr>)
          (select (\<lambda>e. ev_id e = as_event_id a) (db_events s)))
        (select (\<lambda>a. as_user_id a = uid \<and> as_status a = AssignmentStatusActive) (db_assignments s))))"
  let ?p = "\<lambda>w. aw_event_slug w = slug \<and> assignment_active now (aw_assignment w)"
  show ?thesis
  proof (cases "find ?p ?ws")
    case None
    with assms show ?thesis by (simp add: crew_lookup_def my_assignments_rows_def act_simps)
  next
    case (Some w)
    then have "select_one ?p ?ws = Some w" by (simp only: select_one_def)
    note w = select_one_SomeD [OF this, THEN conjunct1] select_one_SomeD [OF this, THEN conjunct2]
    let ?a = "aw_assignment w"
    from w(1) have a: "?a \<in> set (db_assignments s)" "as_user_id ?a = uid" by (auto simp: set_select)
    from assms Some have "with_tenant_tx (as_tenant_id ?a)
           (and_then (get_event (as_tenant_id ?a) (as_event_id ?a)) (\<lambda>ev.
            and_then (list_races (as_tenant_id ?a) (as_event_id ?a)) (\<lambda>races.
            ret \<lparr>el_event = ev, el_races = races, el_kind = ''crew'', el_role = '''',
                 el_capabilities = as_capabilities ?a\<rparr>))) s = (Inr out, s')"
      by (simp add: crew_lookup_def my_assignments_rows_def act_simps Let_def)
    then have "s' = s \<and> ev_id (el_event out) = as_event_id ?a \<and> ev_tenant_id (el_event out) = as_tenant_id ?a \<and>
      el_races out = races_of s (as_tenant_id ?a) (as_event_id ?a) \<and> el_capabilities out = as_capabilities ?a"
      unfolding list_races_def
      by (elim act_elims) (auto simp: races_of_def is_event_row_def dest: select_one_SomeD)
    with a w(2) show ?thesis by blast
  qed
qed

section \<open>The interface of the membership check\<close>

text \<open>A membership check answers from the current rows and writes nothing.\<close>

locale membership_checker =
  fixes role_of :: "db \<Rightarrow> string \<Rightarrow> string \<Rightarrow> string \<times> bool"
    and check_role :: membership_check
  assumes check_run: "check_role tid uid s = (Inr (role_of s tid uid), s)"
begin

definition staff_of :: "db \<Rightarrow> string \<Rightarrow> string \<Rightarrow> bool" where
  "staff_of s tid uid \<longleftrightarrow> snd (role_of s tid uid) \<and> is_at_least (fst (role_of s tid uid)) RoleStaff"

lemma staff_path_run:
  "tid \<noteq> '''' \<Longrightarrow> staff_path check_role uid claim tid s =
     (Inr (if claim = Some tid \<and> staff_of s tid uid then Some (StaffAccess tid (fst (role_of s tid uid)))
           else None), s)"
  by (simp add: staff_path_def map_error_def and_then_def with_tenant_tx_def with_tx_def check_run
      staff_of_def ret_def case_prod_unfold)

lemma gate_run:
  assumes "select_one (\<lambda>e. ev_id e = eid) (db_events s) = Some ev" "ev_tenant_id ev = tid" "tid \<noteq> ''''"
  shows "require_event_access check_role now (Some uid) claim cap eid s =
    (if claim = Some tid \<and> staff_of s tid uid then (Inr (StaffAccess tid (fst (role_of s tid uid))), s)
     else crew_path now uid tid eid cap s)"
proof -
  have "tenant_id_for_event eid s = (Inr tid, s)"
    using assms(1,2) by (simp add: tenant_id_for_event_def act_simps found_def)
  with assms(3) show ?thesis
    by (simp add: require_event_access_def map_error_def and_then_def staff_path_run ret_def)
qed

lemma staff_lookup_run:
  assumes "claim \<noteq> ''''"
  shows "staff_lookup check_role uid claim slug s =
    (if staff_of s claim uid then
       (case select_one (\<lambda>e. ev_tenant_id e = claim \<and> ev_slug e = slug) (db_events s) of
          None \<Rightarrow> (Inl (Sentinel ErrNotFound), s)
        | Some ev \<Rightarrow> (Inr \<lparr>el_event = ev, el_races = races_of s claim (ev_id ev),
            el_kind = ''staff'', el_role = fst (role_of s claim uid), el_capabilities = []\<rparr>, s))
     else (Inl (Sentinel ErrNotFound), s))"
  using assms
  by (cases "role_of s claim uid")
    (simp add: staff_lookup_def with_tenant_tx_def with_tx_def and_then_def check_run guard_def fail_def ret_def
      staff_of_def get_event_by_slug_def reads_def found_def of_option_def list_races_def races_of_def
      split: option.splits)

text \<open>What the lookup reveals: the event of that slug in the token's tenant to its staff, or an event the
caller is actively assigned to.\<close>

lemma lookup_sound:
  assumes "lookup_event check_role now uid claim slug s = (Inr out, s')"
  shows "s' = s \<and> (claim \<noteq> '''' \<and> staff_of s claim uid \<and> ev_tenant_id (el_event out) = claim \<and>
      ev_slug (el_event out) = slug \<and> el_capabilities out = [] \<or>
    (\<exists>a \<in> set (db_assignments s). as_user_id a = uid \<and> assignment_active now a \<and>
      ev_id (el_event out) = as_event_id a \<and> ev_tenant_id (el_event out) = as_tenant_id a \<and>
      el_capabilities out = as_capabilities a))"
proof (cases "claim = ''''")
  case True
  with assms have "crew_lookup now uid slug s = (Inr out, s')" by (simp add: lookup_event_def)
  from crew_lookup_sound [OF this] show ?thesis by blast
next
  case False
  show ?thesis
  proof (cases "staff_lookup check_role uid claim slug s")
    case (Pair r s1)
    show ?thesis
    proof (cases r)
      case (Inr out')
      with assms False Pair have "out' = out" "s1 = s'" by (simp_all add: lookup_event_def)
      with Pair Inr have "staff_lookup check_role uid claim slug s = (Inr out, s')" by simp
      then show ?thesis
        unfolding staff_lookup_run [OF False]
        using False by (auto split: if_splits option.splits dest: select_one_SomeD)
    next
      case (Inl e)
      have "s1 = s" using Pair unfolding staff_lookup_run [OF False] by (auto split: if_splits option.splits)
      with assms False Pair Inl have "crew_lookup now uid slug s = (Inr out, s')"
        by (simp add: lookup_event_def split: if_splits)
      from crew_lookup_sound [OF this] show ?thesis by blast
    qed
  qed
qed

end

section \<open>The gate on the tenant repository\<close>

definition current_role :: "db \<Rightarrow> string \<Rightarrow> string \<Rightarrow> string \<times> bool" where
  "current_role s tid uid =
     (case select_one (is_membership tid uid) (db_members s) of
        None \<Rightarrow> ('''', False) | Some m \<Rightarrow> (mb_role m, mb_status m = MemberActive))"

interpretation tenant_members: membership_checker current_role active_role
  by unfold_locales (simp add: active_role_run current_role_def)

text \<open>A member who serves a workspace: active, and staff or more.\<close>

definition serves :: "string \<Rightarrow> string \<Rightarrow> tenant_member \<Rightarrow> bool" where
  "serves tid uid m \<longleftrightarrow> is_membership tid uid m \<and> mb_status m = MemberActive \<and> is_at_least (mb_role m) RoleStaff"

lemma one_membership:
  assumes "tenants_ok s" "m \<in> set (db_members s)" "is_membership tid uid m"
  shows "select_one (is_membership tid uid) (db_members s) = Some m"
proof (cases "select_one (is_membership tid uid) (db_members s)")
  case None
  with assms(2,3) show ?thesis by (auto simp: select_one_None_iff)
next
  case (Some n)
  have "n = m"
    using one_member_row [OF assms(1), of n m] select_one_SomeD [OF Some] assms(2,3)
    by (simp add: is_membership_def)
  with Some show ?thesis by simp
qed

lemma staff_of_iff:
  assumes "tenants_ok s"
  shows "tenant_members.staff_of s tid uid \<longleftrightarrow> (\<exists>m \<in> set (db_members s). serves tid uid m)"
proof (cases "select_one (is_membership tid uid) (db_members s)")
  case None
  then have "current_role s tid uid = ('''', False)" by (simp add: current_role_def)
  with None show ?thesis by (auto simp: tenant_members.staff_of_def serves_def select_one_None_iff)
next
  case (Some m)
  have "serves tid uid n \<Longrightarrow> n \<in> set (db_members s) \<Longrightarrow> n = m" for n
    using one_membership [OF assms, of n tid uid] Some by (simp add: serves_def)
  with select_one_SomeD [OF Some] show ?thesis
    by (auto simp: tenant_members.staff_of_def current_role_def serves_def Some)
qed

lemma one_assignment:
  assumes "assignments_ok s" "a \<in> set (db_assignments s)" "is_assignment_of tid eid uid a"
  shows "select_one (is_assignment_of tid eid uid) (db_assignments s) = Some a"
proof (cases "select_one (is_assignment_of tid eid uid) (db_assignments s)")
  case None
  with assms(2,3) show ?thesis by (auto simp: select_one_None_iff)
next
  case (Some b)
  have "b = a"
    using unique_on_sel [of assignment_key "db_assignments s" b a "(eid, uid)"] select_one_SomeD [OF Some] assms
    by (simp add: assignments_ok_def assignment_key_def is_assignment_of_def)
  with Some show ?thesis by simp
qed

lemma get_assignment_for_user_run:
  "get_assignment_for_user tid eid uid s =
     (case select_one (is_assignment_of tid eid uid) (db_assignments s) of
        None \<Rightarrow> (Inl (Sentinel ErrNotFound), s) | Some a \<Rightarrow> (Inr a, s))"
  by (simp add: get_assignment_for_user_def act_simps found_def of_option_def split: option.splits)

definition not_assigned :: http_error where
  "not_assigned = reply 403 ''forbidden'' ''You are not assigned to this event.''"

lemma crew_path_run:
  assumes "tid \<noteq> ''''"
  shows "crew_path now uid tid eid cap s =
    (case select_one (is_assignment_of tid eid uid) (db_assignments s) of
       None \<Rightarrow> (Inl not_assigned, s)
     | Some a \<Rightarrow> (if assignment_active now a \<and> (cap = '''' \<or> has_capability a cap)
         then Inr (CrewAccess tid (as_capabilities a)) else Inl not_assigned, s))"
  using assms
  by (cases "select_one (is_assignment_of tid eid uid) (db_assignments s)")
    (auto simp: crew_path_def with_tenant_tx_def with_tx_def get_assignment_for_user_run not_assigned_def Let_def)

lemma crew_path_granted:
  assumes "tid \<noteq> ''''" "assignments_ok s"
  shows "crew_path now uid tid eid cap s = (Inr acc, s') \<longleftrightarrow> s' = s \<and>
    (\<exists>a \<in> set (db_assignments s). is_assignment_of tid eid uid a \<and> assignment_active now a \<and>
      (cap = '''' \<or> cap \<in> set (as_capabilities a)) \<and> acc = CrewAccess tid (as_capabilities a))"
proof (cases "select_one (is_assignment_of tid eid uid) (db_assignments s)")
  case None
  then have "crew_path now uid tid eid cap s = (Inl not_assigned, s)" by (simp add: crew_path_run [OF assms(1)])
  with None show ?thesis by (auto simp: select_one_None_iff)
next
  case (Some a)
  have "b = a" if "b \<in> set (db_assignments s)" "is_assignment_of tid eid uid b" for b
    using one_assignment [OF assms(2) that] Some by simp
  with select_one_SomeD [OF Some] show ?thesis
    by (auto simp: crew_path_run [OF assms(1)] Some has_capability_def list_ex_iff)
qed

text \<open>C13: the gate of event-scoped routes opens in exactly two cases, judged on the current rows and not
on the token: the token names the event's tenant and its holder is an active member there with at
least the staff role; or, failing that, the holder has an active, unexpired assignment to this very
event with the capability the route asks for. The handler behind it then sees the current role or the
current capabilities, and opening it changes nothing.\<close>

theorem event_access_rule:
  assumes "tenants_ok s" and "assignments_ok s" and "select_one (\<lambda>e. ev_id e = eid) (db_events s) = Some ev"
    and "ev_tenant_id ev = tid" and "tid \<noteq> ''''"
  shows "require_event_access active_role now (Some uid) claim cap eid s = (Inr acc, s') \<longleftrightarrow> s' = s \<and>
    ((\<exists>m \<in> set (db_members s). claim = Some tid \<and> serves tid uid m \<and> acc = StaffAccess tid (mb_role m)) \<or>
     (\<not> (claim = Some tid \<and> (\<exists>m \<in> set (db_members s). serves tid uid m))) \<and>
     (\<exists>a \<in> set (db_assignments s). is_assignment_of tid eid uid a \<and> assignment_active now a \<and>
        (cap = '''' \<or> cap \<in> set (as_capabilities a)) \<and> acc = CrewAccess tid (as_capabilities a)))"
proof (cases "claim = Some tid \<and> (\<exists>m \<in> set (db_members s). serves tid uid m)")
  case True
  then obtain m where m: "m \<in> set (db_members s)" "serves tid uid m" by blast
  have role: "fst (current_role s tid uid) = mb_role n" if "n \<in> set (db_members s)" "serves tid uid n" for n
    using one_membership [OF assms(1), of n tid uid] that by (simp add: current_role_def serves_def)
  have only: "mb_role n = mb_role m" if "n \<in> set (db_members s)" "serves tid uid n" for n
    using role [OF that] role [OF m] by simp
  have "require_event_access active_role now (Some uid) claim cap eid s = (Inr (StaffAccess tid (mb_role m)), s)"
    unfolding tenant_members.gate_run [OF assms(3-5)] staff_of_iff [OF assms(1)] if_P [OF True] role [OF m] ..
  with True m show ?thesis by (auto dest: only)
next
  case False
  then show ?thesis
    unfolding tenant_members.gate_run [OF assms(3-5)] staff_of_iff [OF assms(1)] if_not_P [OF False]
    unfolding crew_path_granted [OF assms(5,2)] by blast
qed

text \<open>An event, its owner, and a volunteer who may check people in.\<close>

definition demo_assignment :: assignment where
  "demo_assignment = \<lparr>as_id = ''a'', as_tenant_id = ''t'', as_event_id = ''e'', as_user_id = ''v'',
     as_label = ''volunteer'', as_capabilities = [''rpc:checkin''], as_status = AssignmentStatusActive,
     as_assigned_by = ''u'', as_expires_at = Some 100, as_created_at = 5, as_updated_at = 5\<rparr>"

definition demo_crew :: db where
  "demo_crew = demo_people\<lparr>db_tenants := [demo_tenant], db_events := [demo_event],
     db_members := [(demo_member ''m'' ''u'' RoleOwner 1)\<lparr>mb_tenant_id := ''t''\<rparr>],
     db_assignments := [demo_assignment]\<rparr>"

lemma demo_crew_ok: "tenants_ok demo_crew" "assignments_ok demo_crew"
  "select_one (\<lambda>e. ev_id e = ''e'') (db_events demo_crew) = Some demo_event"
  by code_simp+

lemma demo_event_tenant: "ev_tenant_id demo_event = ''t''"
  by code_simp

theorem event_access_rule_witness:
  "(\<exists>m \<in> set (db_members demo_crew). Some ''t'' = Some ''t'' \<and> serves ''t'' ''u'' m \<and>
      StaffAccess ''t'' RoleOwner = StaffAccess ''t'' (mb_role m)) \<or>
   \<not> (Some ''t'' = Some ''t'' \<and> (\<exists>m \<in> set (db_members demo_crew). serves ''t'' ''u'' m)) \<and>
   (\<exists>a \<in> set (db_assignments demo_crew). is_assignment_of ''t'' ''e'' ''u'' a \<and> assignment_active 7 a \<and>
      (''rpc:checkin'' = '''' \<or> ''rpc:checkin'' \<in> set (as_capabilities a)) \<and>
      StaffAccess ''t'' RoleOwner = CrewAccess ''t'' (as_capabilities a))"
proof -
  have "require_event_access active_role 7 (Some ''u'') (Some ''t'') ''rpc:checkin'' ''e'' demo_crew =
      (Inr (StaffAccess ''t'' RoleOwner), demo_crew)"
    by code_simp
  then show ?thesis
    using event_access_rule [OF demo_crew_ok demo_event_tenant, where claim = "Some ''t''" and now = 7 and uid = "''u''"
        and cap = "''rpc:checkin''" and acc = "StaffAccess ''t'' RoleOwner" and s' = demo_crew]
    by simp
qed

section \<open>Revocation\<close>

text \<open>A revoked row of a person on an event, with the events as they are.\<close>

definition revoked_for :: "string \<Rightarrow> string \<Rightarrow> string \<Rightarrow> event_row list \<Rightarrow> db \<Rightarrow> bool" where
  "revoked_for tid eid uid es s \<longleftrightarrow> db_events s = es \<and>
     (\<exists>a \<in> set (db_assignments s). is_assignment_of tid eid uid a \<and> as_status a = AssignmentStatusRevoked)"

lemma revoked_for_frame [simp]:
  "revoked_for tid eid uid es (s\<lparr>db_audit := l\<rparr>) = revoked_for tid eid uid es s"
  "revoked_for tid eid uid es (s\<lparr>db_event_invitations := is\<rparr>) = revoked_for tid eid uid es s"
  by (simp_all add: revoked_for_def)

lemma keeps_revoked_update:
  assumes "\<And>a. is_assignment_of tid eid uid (f a) = is_assignment_of tid eid uid a"
    and "\<And>a. as_status a = AssignmentStatusRevoked \<Longrightarrow> as_status (f a) = AssignmentStatusRevoked"
  shows "keeps (revoked_for tid eid uid es) (update_assignments en q f)"
  unfolding update_assignments_def
proof (intro keeps_intros keeps_writes)
  fix s
  assume "revoked_for tid eid uid es s"
  then obtain a where a: "a \<in> set (db_assignments s)" "is_assignment_of tid eid uid a"
    "as_status a = AssignmentStatusRevoked" and es: "db_events s = es"
    by (auto simp: revoked_for_def)
  let ?g = "\<lambda>a. (f a)\<lparr>as_updated_at := e_now en\<rparr>"
  have "is_assignment_of tid eid uid (?g a)" "as_status (?g a) = AssignmentStatusRevoked"
    using a(2,3) assms by (simp_all add: is_assignment_of_def)
  with a es show "revoked_for tid eid uid es (s\<lparr>db_assignments := update_where q ?g (db_assignments s)\<rparr>)"
    unfolding revoked_for_def by (cases "q a") (auto simp: set_update_where)
qed

lemma keeps_revoked_statements [keeps_intros]:
  "keeps (revoked_for tid eid uid es) (insert_assignment a)"
  "keeps (revoked_for tid eid uid es) (insert_event_invitation i)"
  "keeps (revoked_for tid eid uid es) (update_event_invitations q f)"
  "keeps (revoked_for tid eid uid es) (update_assignment_row en a)"
  "keeps (revoked_for tid eid uid es) (revoke_assignment_row en t e aid)"
proof -
  show "keeps (revoked_for tid eid uid es) (insert_assignment a)"
    unfolding insert_assignment_def
    by (intro keeps_intros keeps_writes) (auto simp: revoked_for_def)
  show "keeps (revoked_for tid eid uid es) (insert_event_invitation i)"
    "keeps (revoked_for tid eid uid es) (update_event_invitations q f)"
    unfolding insert_event_invitation_def update_event_invitations_def
    by (intro keeps_intros keeps_writes; simp)+
  show "keeps (revoked_for tid eid uid es) (update_assignment_row en a)"
    "keeps (revoked_for tid eid uid es) (revoke_assignment_row en t e aid)"
    unfolding update_assignment_row_def revoke_assignment_row_def
    by (rule keeps_revoked_update; simp add: is_assignment_of_def)+
qed

lemma keeps_revoked_assign:
  "keeps (revoked_for tid eid uid es)
     (assign_to_event en hash ttl raw t e actor role email label caps expires origin)"
proof (rule keepsI)
  fix s r s'
  assume rv: "revoked_for tid eid uid es s"
    and run: "assign_to_event en hash ttl raw t e actor role email label caps expires origin s = (r, s')"
  have "keeps (revoked_for tid eid uid es) (grant_assignment en t e actor label caps expires x)" for x
    unfolding grant_assignment_def audit_event_def by (intro keeps_intros; simp)
  moreover have "keeps (revoked_for tid eid uid es)
      (invite_to_event en hash ttl raw t e actor x label caps expires origin)" for x
    unfolding invite_to_event_def audit_event_def case_prod_unfold by (intro keeps_intros; simp)
  ultimately show "revoked_for tid eid uid es s'"
    using rv run unfolding assign_to_event_cases
    by (auto split: if_splits option.splits dest: keepsD)
qed

lemma keeps_revoked_call: "keeps (revoked_for tid eid uid es) (run_assignment_call en hash c)"
proof (cases c)
  case (AssignCall x1 x2 x3 x4 x5 x6 x7 x8 x9 x10 x11)
  then show ?thesis
    by (simp only: run_assignment_call.simps discard_def) (intro keeps_intros keeps_revoked_assign)
qed (simp_all only: run_assignment_call.simps discard_def update_assignment_def revoke_assignment_def
    accept_event_invitation_def mark_event_invitation_accepted_def audit_event_def Let_def,
  (intro keeps_intros; simp)+)

lemma revoked_is_forbidden:
  assumes ok: "assignments_ok s" and rv: "revoked_for tid eid uid es s"
    and ev: "select_one (\<lambda>e. ev_id e = eid) es = Some ev" "ev_tenant_id ev = tid" "tid \<noteq> ''''"
  shows "require_event_access active_role now (Some uid) None cap eid s = (Inl not_assigned, s)"
    and "as_event_id b = eid \<Longrightarrow> as_user_id b = uid \<Longrightarrow>
      insert_assignment b s = (Inl (Sentinel ErrAlreadyExists), s)"
proof -
  from rv obtain a where a: "a \<in> set (db_assignments s)" "is_assignment_of tid eid uid a"
    "as_status a = AssignmentStatusRevoked" and es: "db_events s = es"
    by (auto simp: revoked_for_def)
  have "crew_path now uid tid eid cap s = (Inl not_assigned, s)"
    using one_assignment [OF ok a(1,2)] a(3) by (simp add: crew_path_run [OF ev(3)] assignment_active_def)
  moreover have "\<not> (None = Some tid \<and> tenant_members.staff_of s tid uid)" by simp
  ultimately show "require_event_access active_role now (Some uid) None cap eid s = (Inl not_assigned, s)"
    using tenant_members.gate_run [of eid s ev tid now uid None cap] ev by (simp only: es if_False simp_thms option.distinct)
  assume b: "as_event_id b = eid" "as_user_id b = uid"
  have "taken assignment_key (db_assignments s) b"
    using a(1,2) b by (auto simp: taken_def assignment_key_def is_assignment_of_def list_ex_iff)
  then have "\<exists>c. assignment_violation s b = Some (UniqueViolation c)" by (simp add: assignment_violation_def)
  then show "insert_assignment b s = (Inl (Sentinel ErrAlreadyExists), s)"
    by (auto simp: insert_assignment_def act_simps exists_check_def exists_error_def)
qed

text \<open>Revoking an assignment is final: whatever assignments, changes, new invitations and acceptances
follow, the gate stays shut for that person on that event (as crew, for every capability and at every
time), and no statement can give them a new assignment: the unique key of event and person answers
that one already exists.\<close>

theorem revocation_is_final:
  assumes "assignments_ok s" and "select_one (is_assignment_row tid eid aid) (db_assignments s) = Some a"
    and "select_one (\<lambda>e. ev_id e = eid) (db_events s) = Some ev" "ev_tenant_id ev = tid"
    and "revoke_assignment en tid eid actor role aid s = (Inr u, s')"
  shows "let s'' = run_assignments hash cs s' in
    require_event_access active_role now (Some (as_user_id a)) None cap eid s'' = (Inl not_assigned, s'') \<and>
    (as_event_id b = eid \<and> as_user_id b = as_user_id a \<longrightarrow>
       insert_assignment b s'' = (Inl (Sentinel ErrAlreadyExists), s''))"
proof -
  let ?q = "\<lambda>a. is_assignment_row tid eid aid a \<and> as_status a = AssignmentStatusActive"
  let ?f = "\<lambda>a. a\<lparr>as_status := AssignmentStatusRevoked, as_updated_at := e_now en\<rparr>"
  from assms(5) obtain s1 l where hit: "select ?q (db_assignments s) \<noteq> []"
    and s1: "s1 = s\<lparr>db_assignments := update_where ?q ?f (db_assignments s)\<rparr>"
    and s': "s' = s1\<lparr>db_audit := db_audit s1 @ [l]\<rparr>"
    by (rule revoke_assignment_InrE)
  from assms(5) have tid: "tid \<noteq> ''''" unfolding revoke_assignment_def by (elim act_elims)
  from hit obtain x where x: "x \<in> set (db_assignments s)" "?q x"
    by (auto simp: select_def filter_empty_conv)
  have a: "a \<in> set (db_assignments s)" "is_assignment_row tid eid aid a" using select_one_SomeD [OF assms(2)] by simp_all
  have "x = a"
    using unique_on_sel [of assignment_pk "db_assignments s" x a aid] assms(1) x a
    by (simp add: assignments_ok_def assignment_pk_def is_assignment_row_def)
  with x a have "?f a \<in> set (update_where ?q ?f (db_assignments s))" by (auto simp: set_update_where)
  moreover have "is_assignment_of tid eid (as_user_id a) (?f a)"
    using a(2) by (simp add: is_assignment_row_def is_assignment_of_def)
  ultimately have "revoked_for tid eid (as_user_id a) (db_events s) s'"
    unfolding revoked_for_def s' s1 by (intro conjI bexI [of _ "?f a"]) simp_all
  then have rv: "revoked_for tid eid (as_user_id a) (db_events s) (run_assignments hash cs s')"
    by (rule keeps_run_assignments [OF keeps_revoked_call])
  have "assignments_ok s'" by (rule keepsD [OF keeps_revoke_assignment assms(1,5)])
  then have ok: "assignments_ok (run_assignments hash cs s')"
    by (rule keeps_run_assignments [OF keeps_run_assignment_call])
  show ?thesis
    unfolding Let_def using revoked_is_forbidden [OF ok rv assms(3,4) tid] by blast
qed

theorem revocation_is_final_witness:
  "let s' = snd (revoke_assignment (demo_env_at ''k'' 8) ''t'' ''e'' ''u'' RoleOwner ''a'' demo_crew);
       s'' = run_assignments demo_hash [(demo_env_at ''n'' 9,
         AssignCall 10 ''tok'' ''t'' ''e'' ''u'' RoleOwner ''v@x.id'' ''crew'' [''rpc:checkin''] None '''')] s'
   in require_event_access active_role 9 (Some (as_user_id demo_assignment)) None '''' ''e'' s'' =
        (Inl not_assigned, s'') \<and>
      insert_assignment (demo_assignment\<lparr>as_id := ''b''\<rparr>) s'' = (Inl (Sentinel ErrAlreadyExists), s'')"
proof -
  let ?r = "revoke_assignment (demo_env_at ''k'' 8) ''t'' ''e'' ''u'' RoleOwner ''a'' demo_crew"
  let ?b = "demo_assignment\<lparr>as_id := ''b''\<rparr>"
  have run: "?r = (Inr (projr (fst ?r)), snd ?r)" by (rule run_succeeded) code_simp
  have row: "select_one (is_assignment_row ''t'' ''e'' ''a'') (db_assignments demo_crew) = Some demo_assignment"
    by code_simp
  have b: "as_event_id ?b = ''e'' \<and> as_user_id ?b = as_user_id demo_assignment"
    by (simp add: demo_assignment_def)
  from revocation_is_final [OF demo_crew_ok(2) row demo_crew_ok(3) demo_event_tenant run] b
  show ?thesis unfolding Let_def by blast
qed

section \<open>What a slug reveals\<close>

text \<open>C38: A slug is not a way to discover events: the lookup answers only with an event of the workspace
the token names to somebody who serves that workspace now, or with an event the caller has an active
assignment to, and then with the capabilities of that assignment; it changes nothing.\<close>

theorem lookup_reveals_own_events:
  assumes "tenants_ok s" and "lookup_event active_role now uid claim slug s = (Inr out, s')"
  shows "s' = s \<and>
    (claim \<noteq> '''' \<and> (\<exists>m \<in> set (db_members s). serves claim uid m) \<and> ev_tenant_id (el_event out) = claim \<and>
       ev_slug (el_event out) = slug \<and> el_capabilities out = [] \<or>
     (\<exists>a \<in> set (db_assignments s). as_user_id a = uid \<and> assignment_active now a \<and>
       ev_id (el_event out) = as_event_id a \<and> ev_tenant_id (el_event out) = as_tenant_id a \<and>
       el_capabilities out = as_capabilities a))"
  using tenant_members.lookup_sound [OF assms(2)] unfolding staff_of_iff [OF assms(1)] .

theorem lookup_reveals_own_events_witness:
  "let r = lookup_event active_role 9 ''v'' ''t'' ''run'' demo_crew in
     map_sum id el_capabilities (fst r) = Inr [''rpc:checkin''] \<and>
     (\<exists>a \<in> set (db_assignments demo_crew). as_user_id a = ''v'' \<and>
        ev_id (el_event (projr (fst r))) = as_event_id a)"
proof -
  let ?r = "lookup_event active_role 9 ''v'' ''t'' ''run'' demo_crew"
  have caps: "map_sum id el_capabilities (fst ?r) = Inr [''rpc:checkin'']" by code_simp
  then have out: "el_capabilities (projr (fst ?r)) = [''rpc:checkin'']" by (cases "fst ?r") simp_all
  have run: "?r = (Inr (projr (fst ?r)), snd ?r)"
    by (rule run_succeeded) (use caps in \<open>cases "fst ?r"; simp\<close>)
  from lookup_reveals_own_events [OF demo_crew_ok(1) run] out
  have "\<exists>a \<in> set (db_assignments demo_crew). as_user_id a = ''v'' \<and>
        ev_id (el_event (projr (fst ?r))) = as_event_id a" by auto
  with caps show ?thesis by (simp only: Let_def simp_thms)
qed

end
