(* ===== verification/Auth_Props.thy ===== *)
theory Auth_Props
  imports Auth_Service Event_Access
begin

text \<open>
  What the session calls do to the refresh tokens: rotation, families and their caps, the answer to the
  reuse of a dead token, and the tenants access tokens may carry.
\<close>

section \<open>Rotation, case by case\<close>

lemma rotate_refresh_token_InrE [act_elims]:
  assumes "rotate_refresh_token oid h n s = (Inr u, s')"
  obtains "s' = s\<lparr>db_refresh_tokens := update_where (\<lambda>t. rt_id t = oid)
     (\<lambda>t. t\<lparr>rt_revoked_at := Some n, rt_replaced_by_hash := Some h\<rparr>) (db_refresh_tokens s)\<rparr>"
  using assms unfolding rotate_refresh_token_def by (rule writes_InrE)

lemma revoke_family_run:
  "revoke_refresh_token_family fam n s =
     (Inr (), s\<lparr>db_refresh_tokens := update_where (\<lambda>t. rt_family_id t = fam \<and> rt_revoked_at t = None)
       (\<lambda>t. t\<lparr>rt_revoked_at := Some n\<rparr>) (db_refresh_tokens s)\<rparr>)"
  by (simp add: revoke_refresh_token_family_def revoke_tokens_def act_simps)

definition successor :: "env \<Rightarrow> (nat \<Rightarrow> string) \<Rightarrow> auth_deps \<Rightarrow> refresh_token \<Rightarrow> user_row \<Rightarrow> client_info \<Rightarrow> refresh_token" where
  "successor en tok d t user client =
     new_refresh_token d (e_now en) (e_uuid en 0) (tok 0) (us_id user) (rt_family_id t)
       (rt_absolute_expires_at t) client"

definition retired :: "int \<Rightarrow> refresh_token \<Rightarrow> refresh_token \<Rightarrow> refresh_token list \<Rightarrow> refresh_token list" where
  "retired n r t ts = update_where (\<lambda>x. rt_id x = rt_id t)
     (\<lambda>x. x\<lparr>rt_revoked_at := Some n, rt_replaced_by_hash := Some (rt_token_hash r)\<rparr>) ts"

lemma rotate_session_InrE:
  assumes "rotate_session en tok d raw client s = (Inr r, s')"
  obtains (reuse) t where "select_one (\<lambda>t. rt_token_hash t = ad_hash d raw) (db_refresh_tokens s) = Some t"
      "rt_revoked_at t \<noteq> None" "\<not> within_grace d (e_now en) t" "r = ReuseDetected"
      "s' = s\<lparr>db_refresh_tokens := update_where (\<lambda>x. rt_family_id x = rt_family_id t \<and> rt_revoked_at x = None)
          (\<lambda>x. x\<lparr>rt_revoked_at := Some (e_now en)\<rparr>) (db_refresh_tokens s)\<rparr>"
  | (rotated) t user where "select_one (\<lambda>t. rt_token_hash t = ad_hash d raw) (db_refresh_tokens s) = Some t"
      "rt_revoked_at t = None \<or> within_grace d (e_now en) t"
      "e_now en \<le> rt_expires_at t" "e_now en \<le> rt_absolute_expires_at t"
      "select_one (\<lambda>u. us_id u = rt_user_id t) (db_users s) = Some user" "us_status user = UserActive"
      "refresh_violation s (successor en tok d t user client) = None"
      "r = Rotated user (tok 0) (rt_expires_at (successor en tok d t user client))"
      "s' = s\<lparr>db_refresh_tokens :=
         (if within_grace d (e_now en) t then \<lambda>ts. ts
          else retired (e_now en) (successor en tok d t user client) t)
           (db_refresh_tokens s @ [successor en tok d t user client])\<rparr>"
proof -
  let ?h = "\<lambda>t. rt_token_hash t = ad_hash d raw"
  let ?next = "\<lambda>user t. and_then (insert_refresh_token (successor en tok d t user client)) (\<lambda>_.
     and_then (if \<not> within_grace d (e_now en) t
       then rotate_refresh_token (rt_id t) (rt_token_hash (successor en tok d t user client)) (e_now en) else ret ()) (\<lambda>_.
     ret (Rotated user (tok 0) (rt_expires_at (successor en tok d t user client)))))"
  let ?body = "\<lambda>t. if rt_revoked_at t \<noteq> None \<and> \<not> within_grace d (e_now en) t then
          and_then (revoke_refresh_token_family (rt_family_id t) (e_now en)) (\<lambda>_. ret ReuseDetected)
        else guard (\<not> (e_now en > rt_expires_at t \<or> e_now en > rt_absolute_expires_at t)) (Sentinel ErrTokenExpired)
          (and_then (get_user (rt_user_id t)) (\<lambda>user.
           guard (us_status user = UserActive) (Sentinel ErrAccountSuspended) (?next user t)))"
  from assms obtain t where t: "select_one ?h (db_refresh_tokens s) = Some t" and run: "?body t s = (Inr r, s')"
    unfolding rotate_session_def Let_def successor_def
    by (elim with_tx_InrE and_then_InrE not_found_as_InrE get_refresh_token_InrE) (hypsubst, blast)
  show thesis
  proof (cases "rt_revoked_at t \<noteq> None \<and> \<not> within_grace d (e_now en) t")
    case True
    from run have "and_then (revoke_refresh_token_family (rt_family_id t) (e_now en)) (\<lambda>_. ret ReuseDetected) s = (Inr r, s')"
      unfolding if_P [OF True] .
    then have "r = ReuseDetected" "s' = snd (revoke_refresh_token_family (rt_family_id t) (e_now en) s)"
      by (simp_all add: and_then_def revoke_family_run ret_def)
    with True t show thesis by (intro reuse [of t]) (simp_all add: revoke_family_run)
  next
    case False
    from run have run: "guard (\<not> (e_now en > rt_expires_at t \<or> e_now en > rt_absolute_expires_at t)) (Sentinel ErrTokenExpired)
          (and_then (get_user (rt_user_id t)) (\<lambda>user.
           guard (us_status user = UserActive) (Sentinel ErrAccountSuspended) (?next user t))) s = (Inr r, s')"
      unfolding if_not_P [OF False] .
    then obtain times: "\<not> (e_now en > rt_expires_at t \<or> e_now en > rt_absolute_expires_at t)"
      and rest: "and_then (get_user (rt_user_id t)) (\<lambda>user.
           guard (us_status user = UserActive) (Sentinel ErrAccountSuspended) (?next user t)) s = (Inr r, s')"
      by (rule guard_InrE)
    from rest obtain user s1 where got: "get_user (rt_user_id t) s = (Inr user, s1)"
      and guarded: "guard (us_status user = UserActive) (Sentinel ErrAccountSuspended) (?next user t) s1 = (Inr r, s')"
      by (rule and_then_InrE)
    from got obtain user: "s1 = s" "select_one (\<lambda>u. us_id u = rt_user_id t) (db_users s) = Some user"
      by (rule get_user_InrE)
    from guarded obtain active: "us_status user = UserActive" and last: "?next user t s = (Inr r, s')"
      unfolding user(1) by (rule guard_InrE)
    from last obtain s2 where ins: "insert_refresh_token (successor en tok d t user client) s = (Inr (), s2)"
      and tail: "and_then (if \<not> within_grace d (e_now en) t
         then rotate_refresh_token (rt_id t) (rt_token_hash (successor en tok d t user client)) (e_now en) else ret ()) (\<lambda>_.
       ret (Rotated user (tok 0) (rt_expires_at (successor en tok d t user client)))) s2 = (Inr r, s')"
      by (rule and_then_InrE) simp
    from ins obtain v: "refresh_violation s (successor en tok d t user client) = None"
      and s2: "s2 = s\<lparr>db_refresh_tokens := db_refresh_tokens s @ [successor en tok d t user client]\<rparr>"
      by (rule insert_refresh_token_InrE)
    have "r = Rotated user (tok 0) (rt_expires_at (successor en tok d t user client))"
      "s' = s\<lparr>db_refresh_tokens :=
         (if within_grace d (e_now en) t then \<lambda>ts. ts
          else retired (e_now en) (successor en tok d t user client) t)
           (db_refresh_tokens s @ [successor en tok d t user client])\<rparr>"
      using tail unfolding s2
      by (cases "within_grace d (e_now en) t"; simp add: and_then_def ret_def rotate_refresh_token_def
          writes_def retired_def)+
    with False times user(2) active v t show thesis by (intro rotated [of t user]) simp_all
  qed
qed

section \<open>Families and their caps\<close>

definition family_capped :: "string \<Rightarrow> int \<Rightarrow> string \<Rightarrow> db \<Rightarrow> bool" where
  "family_capped fam cap uid s \<longleftrightarrow>
     list_all (\<lambda>t. rt_family_id t = fam \<longrightarrow>
       rt_absolute_expires_at t = cap \<and> rt_expires_at t \<le> cap \<and> rt_user_id t = uid) (db_refresh_tokens s)"

lemma family_capped_frame [simp]:
  "family_capped fam cap uid (s\<lparr>db_audit := l\<rparr>) = family_capped fam cap uid s"
  "family_capped fam cap uid (s\<lparr>db_users := us\<rparr>) = family_capped fam cap uid s"
  "family_capped fam cap uid (s\<lparr>db_email_tokens := es\<rparr>) = family_capped fam cap uid s"
  by (simp_all add: family_capped_def)

lemma family_capped_update:
  assumes "family_capped fam cap uid s"
    and "\<And>t. rt_family_id (f t) = rt_family_id t \<and> rt_absolute_expires_at (f t) = rt_absolute_expires_at t \<and>
      rt_expires_at (f t) = rt_expires_at t \<and> rt_user_id (f t) = rt_user_id t"
  shows "family_capped fam cap uid (s\<lparr>db_refresh_tokens := update_where q f (db_refresh_tokens s)\<rparr>)"
  using assms by (auto simp: family_capped_def list_all_iff set_update_where)

lemma keeps_capped_statements [keeps_intros]:
  "keeps (family_capped fam cap uid) (insert_user u)" "keeps (family_capped fam cap uid) (insert_email_token t)"
  "keeps (family_capped fam cap uid) (mark_email_token_consumed tid n)"
  "keeps (family_capped fam cap uid) (mark_user_email_verified en x)"
  "keeps (family_capped fam cap uid) (record_audit en k tenant actor action md)"
  unfolding insert_user_def insert_email_token_def mark_email_token_consumed_def mark_user_email_verified_def
    update_user_def record_audit_def Let_def
  by (intro keeps_intros keeps_writes; simp)+

lemma keeps_capped_insert:
  "rt_family_id t \<noteq> fam \<Longrightarrow> keeps (family_capped fam cap uid) (insert_refresh_token t)"
  unfolding insert_refresh_token_def
  by (intro keeps_intros keeps_writes) (simp add: family_capped_def)

lemma keeps_capped_register: "keeps (family_capped fam cap uid) (register en tok d email pw first_name last_name)"
  unfolding register_def hash_password_def issue_email_token_def audit_user_def by (intro keeps_intros)

lemma keeps_capped_verify: "keeps (family_capped fam cap uid) (verify_email en d raw)"
  unfolding verify_email_def audit_user_def by (intro keeps_intros)

lemma keeps_capped_login:
  assumes "e_uuid en 1 \<noteq> fam"
  shows "keeps (family_capped fam cap uid) (login en tok d email pw client)"
proof -
  have "keeps (family_capped fam cap uid) (issue_session en 1 tok 0 d user client)" for user
    unfolding issue_session_def issue_user_access_token_def prod.case Let_def
    by (intro keeps_intros keeps_capped_insert) (use assms in \<open>simp add: new_refresh_token_def Let_def\<close>)
  then show ?thesis
    unfolding login_def check_credentials_def audit_user_def by (intro keeps_intros)
qed

lemma atomic_rotate: "atomic (rotate_session en tok d raw client)"
  unfolding rotate_session_def by (intro atomic_intros)

lemma successor_simps [simp]:
  "rt_family_id (successor en tok d t user client) = rt_family_id t"
  "rt_absolute_expires_at (successor en tok d t user client) = rt_absolute_expires_at t"
  "rt_user_id (successor en tok d t user client) = us_id user"
  "rt_revoked_at (successor en tok d t user client) = None"
  "rt_token_hash (successor en tok d t user client) = ad_hash d (tok 0)"
  "rt_expires_at (successor en tok d t user client) \<le> rt_absolute_expires_at t"
  by (simp_all add: successor_def new_refresh_token_def Let_def)

lemma keeps_capped_rotate: "keeps (family_capped fam cap uid) (rotate_session en tok d raw client)"
proof (rule keeps_atomicI [OF atomic_rotate])
  fix s r s' assume ok: "family_capped fam cap uid s" and run: "rotate_session en tok d raw client s = (Inr r, s')"
  from run show "family_capped fam cap uid s'"
  proof (cases rule: rotate_session_InrE)
    case (reuse t)
    show ?thesis unfolding reuse(5) by (rule family_capped_update [OF ok]) simp
  next
    case (rotated t user)
    let ?r = "successor en tok d t user client"
    have t: "t \<in> set (db_refresh_tokens s)" "us_id user = rt_user_id t"
      using select_one_SomeD [OF rotated(1)] select_one_SomeD [OF rotated(5)] by simp_all
    have "rt_family_id t = fam \<Longrightarrow> rt_expires_at ?r \<le> cap"
      using ok t successor_simps(6) [of en tok d t user client] by (auto simp: family_capped_def list_all_iff)
    then have "family_capped fam cap uid (s\<lparr>db_refresh_tokens := db_refresh_tokens s @ [?r]\<rparr>)"
      using ok t by (auto simp: family_capped_def list_all_iff)
    then show ?thesis
      unfolding rotated(9) retired_def
      using family_capped_update [of fam cap uid "s\<lparr>db_refresh_tokens := db_refresh_tokens s @ [?r]\<rparr>"
        "\<lambda>x. x\<lparr>rt_revoked_at := Some (e_now en), rt_replaced_by_hash := Some (rt_token_hash ?r)\<rparr>"
        "\<lambda>x. rt_id x = rt_id t"]
      by (cases "within_grace d (e_now en) t") simp_all
  qed
qed

section \<open>The tenant of an access token\<close>

lemma verify_membership_run:
  "verify_tenant_membership active_role tid uid s =
     (if tid = '''' then (Inl (Other ''database: WithTenantTx called with empty tenantID''), s)
      else if snd (current_role s tid uid) then (Inr (), s) else (Inl (Sentinel ErrForbidden), s))"
  by (cases "current_role s tid uid")
    (simp add: verify_tenant_membership_def with_tenant_tx_def with_tx_def and_then_def guard_def fail_def ret_def
      tenant_members.check_run)

lemma verified_hint_run:
  "verified_hint active_role hint uid s =
     (Inr (if hint \<noteq> '''' \<and> snd (current_role s hint uid) then hint else ''''), s)"
  by (simp add: verified_hint_def verify_membership_run)

lemma refresh_run:
  "refresh_access_token active_role en tok d raw previous client s =
     (case rotate_session en tok d raw client s of
        (Inl e, s') \<Rightarrow> (Inl e, s')
      | (Inr ReuseDetected, s') \<Rightarrow> (Inl (Sentinel ErrInvalidCredentials), s')
      | (Inr (Rotated user raw' expires), s') \<Rightarrow>
          (Inr (user, let hint = tenant_hint d previous;
              tid = (if hint \<noteq> '''' \<and> snd (current_role s' hint (us_id user)) then hint else '''') in
            \<lparr>st_access = ad_sign d (user_claims d (e_now en) (tok 1) (us_id user) (us_is_super_admin user) tid),
             st_access_expires = e_now en + ad_access_ttl d, st_refresh = raw', st_refresh_expires = expires,
             st_tenant_id = tid\<rparr>), s'))"
  by (auto simp: refresh_access_token_def and_then_def verified_hint_run issue_user_access_token_def
      fail_def ret_def Let_def split: prod.splits sum.splits rotation.splits)

lemma keeps_refresh:
  "keeps I (rotate_session en tok d raw client) \<Longrightarrow>
     keeps I (refresh_access_token active_role en tok d raw previous client)"
  unfolding keeps_def refresh_run by (auto split: prod.splits sum.splits rotation.splits)

end
