(* ===== verification/Auth_Rules.thy ===== *)
theory Auth_Rules
  imports Auth_Props
begin

text \<open>
  What the session calls promise: sessions end at their cap, the reuse of a dead token ends its family,
  logout ends the session but for the grace window, and a token carries a tenant only with a membership.
\<close>

section \<open>Histories of session calls\<close>

datatype session_call =
    RegisterCall string string string string
  | VerifyEmailCall string
  | LoginCall string string client_info
  | RefreshCall string string client_info
  | SelectTenantCall string bool string
  | LogoutCall bool string string int string

fun run_session_call :: "auth_deps \<Rightarrow> env \<Rightarrow> (nat \<Rightarrow> string) \<Rightarrow> session_call \<Rightarrow> unit call" where
  "run_session_call d en tok (RegisterCall email pw first_name last_name) =
     on_db (discard (register en tok d email pw first_name last_name))"
| "run_session_call d en tok (VerifyEmailCall raw) = on_db (verify_email en d raw)"
| "run_session_call d en tok (LoginCall email pw client) = on_db (discard (login en tok d email pw client))"
| "run_session_call d en tok (RefreshCall raw previous client) =
     on_db (discard (refresh_access_token active_role en tok d raw previous client))"
| "run_session_call d en tok (SelectTenantCall uid super tid) =
     on_db (discard (select_tenant active_role en tok d uid super tid))"
| "run_session_call d en tok (LogoutCall up raw jti expires uid) = logout up en d raw jti expires uid"

fun run_sessions :: "auth_deps \<Rightarrow> (env \<times> (nat \<Rightarrow> string) \<times> session_call) list \<Rightarrow> world \<Rightarrow> world" where
  "run_sessions d [] w = w"
| "run_sessions d ((en, tok, c) # cs) w = run_sessions d cs (snd (run_session_call d en tok c w))"

lemma keeps_on_db [keeps_intros]: "keeps I m \<Longrightarrow> keeps (\<lambda>w. I (fst w)) (on_db m)"
  by (auto simp: keeps_def on_db_def split: prod.splits)

lemma keeps_redis_writes [keeps_intros]: "keeps (\<lambda>w. I (fst w)) (ignoring (redis_set up now key v ttl))"
  by (simp add: keeps_def ignoring_def redis_set_def redis_def guard_def fail_def)

lemma select_tenant_run:
  "select_tenant active_role en tok d uid super tid s =
     (if tid = '''' then Inl (Sentinel ErrInvalidState)
      else if snd (current_role s tid uid) then
        Inr \<lparr>st_access = ad_sign d (user_claims d (e_now en) (tok 0) uid super tid),
             st_access_expires = e_now en + ad_access_ttl d, st_refresh = '''', st_refresh_expires = 0,
             st_tenant_id = tid\<rparr>
      else Inl (Sentinel ErrForbidden), s)"
  by (simp add: select_tenant_def verify_membership_run issue_user_access_token_def dropping_def audit_under_def
      audit_policy_def guard_def fail_def ret_def and_then_def)

lemma keeps_select_tenant [keeps_intros]: "keeps I (select_tenant active_role en tok d uid super tid)"
  by (simp add: keeps_def select_tenant_run)

lemma end_family_run:
  "end_family en d raw uid s =
     (Inr (), case select_one (\<lambda>t. rt_token_hash t = ad_hash d raw) (db_refresh_tokens s) of
        None \<Rightarrow> s
      | Some t \<Rightarrow> if rt_user_id t \<noteq> uid then s
          else s\<lparr>db_refresh_tokens := update_where (\<lambda>x. rt_family_id x = rt_family_id t \<and> rt_revoked_at x = None)
              (\<lambda>x. x\<lparr>rt_revoked_at := Some (e_now en)\<rparr>) (db_refresh_tokens s)\<rparr>)"
  by (simp add: end_family_def get_refresh_token_def act_simps found_def of_option_def revoke_family_run
      split: option.splits)

lemma keeps_capped_end_family [keeps_intros]: "keeps (family_capped fam cap uid) (end_family en d raw x)"
  by (auto simp: keeps_def end_family_run intro!: family_capped_update split: option.splits)

text \<open>A login whose new family is not the one in question.\<close>

definition other_family :: "string \<Rightarrow> env \<times> (nat \<Rightarrow> string) \<times> session_call \<Rightarrow> bool" where
  "other_family fam x \<longleftrightarrow> (case x of (en, tok, LoginCall email pw client) \<Rightarrow> e_uuid en 1 \<noteq> fam | _ \<Rightarrow> True)"

lemma keeps_capped_call:
  assumes "other_family fam (en, tok, c)"
  shows "keeps (\<lambda>w. family_capped fam cap uid (fst w)) (run_session_call d en tok c)"
proof (cases c)
  case (LogoutCall up raw jti expires x)
  show ?thesis
    unfolding LogoutCall run_session_call.simps logout_def audit_user_def by (intro keeps_intros)
next
  case (LoginCall email pw client)
  with assms have "e_uuid en 1 \<noteq> fam" by (simp add: other_family_def)
  then show ?thesis
    unfolding LoginCall run_session_call.simps discard_def by (intro keeps_intros keeps_capped_login)
qed (simp_all only: run_session_call.simps discard_def,
  (intro keeps_intros keeps_capped_register keeps_capped_verify keeps_refresh keeps_capped_rotate)+)

lemma capped_run_sessions:
  "list_all (other_family fam) cs \<Longrightarrow> family_capped fam cap uid (fst w) \<Longrightarrow>
     family_capped fam cap uid (fst (run_sessions d cs w))"
proof (induction cs arbitrary: w)
  case (Cons x cs)
  obtain en tok c where x: "x = (en, tok, c)" by (cases x)
  with Cons.prems(1) have "other_family fam (en, tok, c)" by simp
  from keeps_capped_call [OF this] Cons.prems(2)
  have "family_capped fam cap uid (fst (snd (run_session_call d en tok c w)))" unfolding keeps_def by blast
  with Cons.IH [OF _ this] Cons.prems(1) x show ?case by simp
qed simp

text \<open>C14: a session never outlives the cap fixed at its login: through any history of registrations,
logins, refreshes (rotations, grace uses, reuse attempts, of any tokens by anybody), tenant switches and
logouts, every token of the family keeps the same cap and owner and expires at the cap at the latest, and
after the cap a refresh with any token of the family fails.\<close>

theorem session_capped:
  assumes "family_capped fam cap uid (fst w)" and "list_all (other_family fam) cs"
    and "select_one (\<lambda>t. rt_token_hash t = ad_hash d raw) (db_refresh_tokens (fst (run_sessions d cs w))) = Some t"
    and "rt_family_id t = fam" and "cap < e_now en"
  shows "family_capped fam cap uid (fst (run_sessions d cs w)) \<and>
    isl (fst (refresh_access_token active_role en tok d raw previous client (fst (run_sessions d cs w))))"
proof -
  let ?s = "fst (run_sessions d cs w)"
  have ok: "family_capped fam cap uid ?s" using assms(1,2) by (intro capped_run_sessions)
  then have cap: "rt_absolute_expires_at t = cap"
    using select_one_SomeD [OF assms(3)] assms(4) by (simp add: family_capped_def list_all_iff)
  have "r = ReuseDetected" if "rotate_session en tok d raw client ?s = (Inr r, s')" for r s'
    using that
  proof (cases rule: rotate_session_InrE)
    case (rotated t' user)
    with assms(3,5) cap show ?thesis by simp
  qed
  then have "isl (fst (refresh_access_token active_role en tok d raw previous client ?s))"
    unfolding refresh_run by (auto split: prod.splits sum.splits rotation.splits)
  with ok show ?thesis ..
qed

text \<open>A signed-in user: one token of the family \<open>f\<close>, and functions in place of the primitives.\<close>

definition demo_deps :: auth_deps where
  "demo_deps = \<lparr>ad_hash = (\<lambda>x. ''#'' @ x), ad_derive = (\<lambda>x. ''$'' @ x), ad_verify = (\<lambda>p h. h = ''$'' @ p),
     ad_sign = (\<lambda>c. cl_user_id c @ ''/'' @ cl_tenant_id c), ad_decode = (\<lambda>x. None), ad_issuer = ''r'',
     ad_access_ttl = 10, ad_email_ttl = 50, ad_refresh_ttl = 60, ad_absolute_ttl = 100, ad_grace = 5,
     ad_otp_ttl = 3000000, ad_cooldown = 1000000, ad_signup_token_ttl = 9000000\<rparr>"

definition demo_token :: refresh_token where
  "demo_token = \<lparr>rt_id = ''i'', rt_user_id = ''u'', rt_token_hash = ''#one'', rt_replaced_by_hash = None,
     rt_user_agent = None, rt_ip_address = None, rt_family_id = ''f'', rt_expires_at = 60,
     rt_absolute_expires_at = 100, rt_origin_host = None, rt_revoked_at = None, rt_created_at = 0\<rparr>"

definition demo_signed_in :: db where
  "demo_signed_in = demo_people\<lparr>db_refresh_tokens := [demo_token]\<rparr>"

definition demo_client :: client_info where
  "demo_client = \<lparr>ci_user_agent = ''UA'', ci_ip = ''10.0.0.1'', ci_origin_host = ''''\<rparr>"

definition demo_refresh :: "env \<times> (nat \<Rightarrow> string) \<times> session_call" where
  "demo_refresh = (demo_env_at ''n'' 50, (\<lambda>k. ''two'' @ nat_str k), RefreshCall ''one'' '''' demo_client)"

theorem session_capped_witness:
  "let w = run_sessions demo_deps [demo_refresh] (demo_signed_in, Map.empty) in
     family_capped ''f'' 100 ''u'' (fst w) \<and>
     map rt_expires_at (db_refresh_tokens (fst w)) = [60, 100] \<and>
     isl (fst (refresh_access_token active_role (demo_env_at ''m'' 101) (\<lambda>k. ''x'') demo_deps ''two0'' '''' demo_client (fst w)))"
proof -
  let ?w = "run_sessions demo_deps [demo_refresh] (demo_signed_in, Map.empty)"
  let ?s = "select_one (\<lambda>t. rt_token_hash t = ad_hash demo_deps ''two0'') (db_refresh_tokens (fst ?w))"
  have s: "?s \<noteq> None" "rt_family_id (the ?s) = ''f''" by code_simp+
  then have some: "?s = Some (the ?s)" by simp
  have cap: "family_capped ''f'' 100 ''u'' (fst (demo_signed_in, Map.empty :: kv))" by code_simp
  have fresh: "list_all (other_family ''f'') [demo_refresh]" by code_simp
  have late: "100 < e_now (demo_env_at ''m'' 101)" by code_simp
  have times: "map rt_expires_at (db_refresh_tokens (fst ?w)) = [60, 100]" by code_simp
  from session_capped [OF cap fresh some s(2) late] times show ?thesis unfolding Let_def by blast
qed

section \<open>Reuse of a dead token\<close>

lemma rotate_reuse:
  assumes "select_one (\<lambda>t. rt_token_hash t = ad_hash d raw) (db_refresh_tokens s) = Some t"
    and "rt_revoked_at t \<noteq> None" "\<not> within_grace d (e_now en) t"
  shows "rotate_session en tok d raw client s = (Inr ReuseDetected,
    s\<lparr>db_refresh_tokens := update_where (\<lambda>x. rt_family_id x = rt_family_id t \<and> rt_revoked_at x = None)
       (\<lambda>x. x\<lparr>rt_revoked_at := Some (e_now en)\<rparr>) (db_refresh_tokens s)\<rparr>)"
proof -
  have "not_found_as (Sentinel ErrInvalidCredentials) (get_refresh_token (ad_hash d raw)) s = (Inr t, s)"
    using assms(1) by (simp add: not_found_as_def get_refresh_token_def act_simps found_def)
  with assms(2,3) show ?thesis
    by (simp add: rotate_session_def with_tx_def and_then_def Let_def revoke_family_run ret_def)
qed

text \<open>Whoever presents a refresh token that is already dead (revoked, and not rotated within the
grace window) gets invalid credentials, and the whole session it belonged to ends with it: every token
of that family is revoked, and the revocation is kept although the call fails; tokens of other sessions
are exactly as they were.\<close>

theorem reuse_ends_session:
  assumes "select_one (\<lambda>t. rt_token_hash t = ad_hash d raw) (db_refresh_tokens s) = Some t"
    and "rt_revoked_at t \<noteq> None" and "\<not> within_grace d (e_now en) t"
    and "refresh_access_token active_role en tok d raw previous client s = (r, s')"
  shows "r = Inl (Sentinel ErrInvalidCredentials) \<and>
    (\<forall>x \<in> set (db_refresh_tokens s'). rt_family_id x = rt_family_id t \<longrightarrow> rt_revoked_at x \<noteq> None) \<and>
    select (\<lambda>x. rt_family_id x \<noteq> rt_family_id t) (db_refresh_tokens s') =
      select (\<lambda>x. rt_family_id x \<noteq> rt_family_id t) (db_refresh_tokens s)"
proof -
  have run: "r = Inl (Sentinel ErrInvalidCredentials)"
    "s' = s\<lparr>db_refresh_tokens := update_where (\<lambda>x. rt_family_id x = rt_family_id t \<and> rt_revoked_at x = None)
       (\<lambda>x. x\<lparr>rt_revoked_at := Some (e_now en)\<rparr>) (db_refresh_tokens s)\<rparr>"
    using assms(4) unfolding refresh_run rotate_reuse [OF assms(1-3)] by simp_all
  have "select (\<lambda>x. rt_family_id x \<noteq> rt_family_id t) (db_refresh_tokens s') =
      select (\<lambda>x. rt_family_id x \<noteq> rt_family_id t) (db_refresh_tokens s)"
    unfolding run(2) by (simp, rule select_update_out) simp
  moreover have "\<forall>x \<in> set (db_refresh_tokens s'). rt_family_id x = rt_family_id t \<longrightarrow> rt_revoked_at x \<noteq> None"
    unfolding run(2) by (auto simp: set_update_where)
  ultimately show ?thesis using run(1) by blast
qed

text \<open>The token was rotated at 50; somebody presents it again at 60, after the grace of 5.\<close>

theorem reuse_ends_session_witness:
  "let s = fst (run_sessions demo_deps [demo_refresh] (demo_signed_in, Map.empty));
       r = refresh_access_token active_role (demo_env_at ''m'' 60) (\<lambda>k. ''x'') demo_deps ''one'' '''' demo_client s
   in fst r = Inl (Sentinel ErrInvalidCredentials) \<and> length (db_refresh_tokens (snd r)) = 2 \<and>
      (\<forall>x \<in> set (db_refresh_tokens (snd r)). rt_family_id x = ''f'' \<longrightarrow> rt_revoked_at x \<noteq> None)"
proof -
  let ?s = "fst (run_sessions demo_deps [demo_refresh] (demo_signed_in, Map.empty))"
  let ?r = "refresh_access_token active_role (demo_env_at ''m'' 60) (\<lambda>k. ''x'') demo_deps ''one'' '''' demo_client ?s"
  let ?t = "select_one (\<lambda>t. rt_token_hash t = ad_hash demo_deps ''one'') (db_refresh_tokens ?s)"
  have t: "?t \<noteq> None" "rt_revoked_at (the ?t) \<noteq> None"
    "\<not> within_grace demo_deps (e_now (demo_env_at ''m'' 60)) (the ?t)" "rt_family_id (the ?t) = ''f''" by code_simp+
  from t(1) have some: "?t = Some (the ?t)" by simp
  have run: "?r = (fst ?r, snd ?r)" by simp
  have len: "length (db_refresh_tokens (snd ?r)) = 2" by code_simp
  from reuse_ends_session [OF some t(2,3) run] len t(4) show ?thesis unfolding Let_def by simp
qed

section \<open>Logout\<close>

text \<open>What logout leaves behind: the family ended, and the access token on the blacklist.\<close>

lemma audit_user_run: "audit_user en k uid action md s = (Inr (), s\<lparr>db_audit := db_audit (snd (audit_user en k uid action md s))\<rparr>)"
  by (simp add: audit_user_def record_audit_def writes_def)

definition blacklisted :: "bool \<Rightarrow> int \<Rightarrow> string \<Rightarrow> int \<Rightarrow> kv \<Rightarrow> kv" where
  "blacklisted up now jti expires k =
     (if jti \<noteq> '''' \<and> expires - now > 0 \<and> up \<and> expire_ok (expires - now)
      then put now (blacklist_key jti) ''1'' (expires - now) k else k)"

lemma blacklist_run:
  "(if jti \<noteq> '''' \<and> expires - e_now en > 0
     then ignoring (redis_set up (e_now en) (blacklist_key jti) ''1'' (expires - e_now en)) else ret ()) w =
   (Inr (), fst w, blacklisted up (e_now en) jti expires (snd w))"
  by (simp add: ignoring_def redis_set_def redis_def blacklisted_def guard_def fail_def ret_def)

lemma logout_run:
  assumes "raw \<noteq> ''''"
  shows "\<exists>l. logout up en d raw jti expires uid w =
     (Inr (), (snd (end_family en d raw uid (fst w)))\<lparr>db_audit := l\<rparr>, blacklisted up (e_now en) jti expires (snd w))"
proof -
  obtain s' where ended: "end_family en d raw uid (fst w) = (Inr (), s')" by (simp add: end_family_run)
  show ?thesis
    unfolding logout_def and_then_def blacklist_run
    by (simp add: assms ended on_db_def audit_user_def record_audit_def writes_def) blast
qed

lemma blacklisted_revoked:
  assumes "jti \<noteq> ''''" "1000000 \<le> expires - e_now en" "t < e_now en + whole_ms (expires - e_now en)"
  shows "is_access_token_revoked up' t jti (s, blacklisted True (e_now en) jti expires k) =
    (Inr True, s, blacklisted True (e_now en) jti expires k)"
proof -
  have "live t (blacklisted True (e_now en) jti expires k) (blacklist_key jti) = Some ''1''"
    using assms by (simp add: blacklisted_def live_def put_def expiry_of_def expire_ok_def whole_ms_def pos_imp_zdiv_pos_iff)
  then show ?thesis by (simp add: is_access_token_revoked_def redis_exists_def redis_def)
qed

lemma dead_token_refused:
  assumes "select_one (\<lambda>t. rt_token_hash t = ad_hash d raw) (db_refresh_tokens s) = Some t"
    and "rt_revoked_at t \<noteq> None" "\<not> within_grace d (e_now en) t"
  shows "fst (refresh_access_token active_role en tok d raw previous client s) = Inl (Sentinel ErrInvalidCredentials)"
  unfolding refresh_run rotate_reuse [OF assms] by simp

text \<open>Logout ends the session: whoever presents a refresh token of his own gets every token of its
family revoked, tokens of other families stay as they were, and from then on no token of the family is
honoured, unless it was rotated and its grace window is still open (such a token still starts a new
access token after the logout). While Redis is up the access token is revoked until its last whole
millisecond.\<close>

theorem logout_ends_session:
  assumes "select_one (\<lambda>t. rt_token_hash t = ad_hash d raw) (db_refresh_tokens (fst w)) = Some t"
    and "rt_user_id t = uid" and "raw \<noteq> ''''"
    and "logout up en d raw jti expires uid w = (r, w')"
  shows "r = Inr () \<and>
    (\<forall>x \<in> set (db_refresh_tokens (fst w')). rt_family_id x = rt_family_id t \<longrightarrow> rt_revoked_at x \<noteq> None) \<and>
    select (\<lambda>x. rt_family_id x \<noteq> rt_family_id t) (db_refresh_tokens (fst w')) =
      select (\<lambda>x. rt_family_id x \<noteq> rt_family_id t) (db_refresh_tokens (fst w)) \<and>
    (\<forall>raw' x en' tok client previous.
       select_one (\<lambda>t. rt_token_hash t = ad_hash d raw') (db_refresh_tokens (fst w')) = Some x \<and>
       rt_family_id x = rt_family_id t \<and> \<not> within_grace d (e_now en') x \<longrightarrow>
       fst (refresh_access_token active_role en' tok d raw' previous client (fst w')) =
         Inl (Sentinel ErrInvalidCredentials)) \<and>
    (up \<and> jti \<noteq> '''' \<and> 1000000 \<le> expires - e_now en \<longrightarrow>
      (\<forall>later up'. later < e_now en + whole_ms (expires - e_now en) \<longrightarrow>
         fst (is_access_token_revoked up' later jti w') = Inr True))"
proof -
  let ?f = "\<lambda>x. rt_family_id x = rt_family_id t"
  from logout_run [OF assms(3)] obtain l where run: "r = Inr ()"
    "w' = ((snd (end_family en d raw uid (fst w)))\<lparr>db_audit := l\<rparr>, blacklisted up (e_now en) jti expires (snd w))"
    using assms(4) by (metis prod.inject)
  have tokens: "db_refresh_tokens (fst w') = update_where (\<lambda>x. ?f x \<and> rt_revoked_at x = None)
      (\<lambda>x. x\<lparr>rt_revoked_at := Some (e_now en)\<rparr>) (db_refresh_tokens (fst w))"
    unfolding run(2) by (simp add: end_family_run assms(1,2))
  have dead: "\<forall>x \<in> set (db_refresh_tokens (fst w')). ?f x \<longrightarrow> rt_revoked_at x \<noteq> None"
    unfolding tokens by (auto simp: set_update_where)
  have other: "select (\<lambda>x. \<not> ?f x) (db_refresh_tokens (fst w')) = select (\<lambda>x. \<not> ?f x) (db_refresh_tokens (fst w))"
    unfolding tokens by (rule select_update_out) simp
  have refused: "fst (refresh_access_token active_role en' tok d raw' previous client (fst w')) =
      Inl (Sentinel ErrInvalidCredentials)"
    if "select_one (\<lambda>t. rt_token_hash t = ad_hash d raw') (db_refresh_tokens (fst w')) = Some x" "?f x"
      "\<not> within_grace d (e_now en') x" for raw' x en' tok client previous
    using that dead select_one_SomeD [OF that(1)] by (intro dead_token_refused [OF that(1)]) simp_all
  have listed: "fst (is_access_token_revoked up' later jti w') = Inr True"
    if "up" "jti \<noteq> ''''" "1000000 \<le> expires - e_now en" "later < e_now en + whole_ms (expires - e_now en)" for later up'
    using that unfolding run(2) by (simp add: blacklisted_revoked)
  show ?thesis using run(1) dead other refused listed by blast
qed

text \<open>The token \<open>one\<close> was rotated at 50; logout with its successor at 52; at 54 the successor is refused,
and \<open>one\<close>, in its grace window, still gets a new session.\<close>

theorem logout_ends_session_witness:
  "let w = run_sessions demo_deps [demo_refresh] (demo_signed_in, Map.empty);
       r = logout True (demo_env_at ''l'' 52) demo_deps ''two0'' ''j'' 3000000 ''u'' w;
       again = (\<lambda>raw. fst (refresh_access_token active_role (demo_env_at ''m'' 54) (\<lambda>k. ''x'') demo_deps raw '''' demo_client (fst (snd r))))
   in fst r = Inr () \<and> again ''two0'' = Inl (Sentinel ErrInvalidCredentials) \<and> \<not> isl (again ''one'') \<and>
      fst (is_access_token_revoked True 2000000 ''j'' (snd r)) = Inr True"
proof -
  let ?w = "run_sessions demo_deps [demo_refresh] (demo_signed_in, Map.empty)"
  let ?r = "logout True (demo_env_at ''l'' 52) demo_deps ''two0'' ''j'' 3000000 ''u'' ?w"
  let ?h = "\<lambda>t. rt_token_hash t = ad_hash demo_deps ''two0''"
  let ?t = "select_one ?h (db_refresh_tokens (fst ?w))"
  let ?x = "select_one ?h (db_refresh_tokens (fst (snd ?r)))"
  have t: "?t \<noteq> None" "rt_user_id (the ?t) = ''u''" "rt_family_id (the ?t) = ''f''" by code_simp+
  have x: "?x \<noteq> None" "rt_family_id (the ?x) = ''f''"
    "\<not> within_grace demo_deps (e_now (demo_env_at ''m'' 54)) (the ?x)" by code_simp+
  have grace: "\<not> isl (fst (refresh_access_token active_role (demo_env_at ''m'' 54) (\<lambda>k. ''x'') demo_deps ''one'' '''' demo_client (fst (snd ?r))))"
    by code_simp
  have some: "?t = Some (the ?t)" "?x = Some (the ?x)" using t(1) x(1) by simp_all
  have time: "e_now (demo_env_at ''l'' 52) = 52" "whole_ms (3000000 - 52) = 2000000" by code_simp+
  have raw: "''two0'' \<noteq> ''''" "?r = (fst ?r, snd ?r)" by simp_all
  note all = logout_ends_session [OF some(1) t(2) raw, unfolded time t(3)]
  from all some(2) x(2,3) show ?thesis unfolding Let_def by (intro conjI grace) (simp, blast, simp)
qed

section \<open>Tokens and tenants\<close>

text \<open>A refreshed session carries a tenant only when the previous access token named it, its
signature and issuer were good, and its user is an active member there at that moment; the access token
names the user of the refresh token and that tenant. Without such a membership the session simply has
no tenant.\<close>

theorem refreshed_tenant_verified:
  assumes "refresh_access_token active_role en tok d raw previous client s = (Inr (user, tokens), s')"
  shows "st_tenant_id tokens =
      (if tenant_hint d previous \<noteq> '''' \<and> snd (current_role s' (tenant_hint d previous) (us_id user))
       then tenant_hint d previous else '''') \<and>
    st_access tokens = ad_sign d (user_claims d (e_now en) (tok 1) (us_id user) (us_is_super_admin user) (st_tenant_id tokens)) \<and>
    (\<exists>t \<in> set (db_refresh_tokens s). rt_token_hash t = ad_hash d raw \<and> rt_user_id t = us_id user) \<and>
    us_status user = UserActive \<and> db_members s' = db_members s"
proof -
  from assms obtain raw' expires where run: "rotate_session en tok d raw client s = (Inr (Rotated user raw' expires), s')"
    and tokens: "tokens = (let tid = (if tenant_hint d previous \<noteq> '''' \<and> snd (current_role s' (tenant_hint d previous) (us_id user))
        then tenant_hint d previous else '''') in
      \<lparr>st_access = ad_sign d (user_claims d (e_now en) (tok 1) (us_id user) (us_is_super_admin user) tid),
       st_access_expires = e_now en + ad_access_ttl d, st_refresh = raw', st_refresh_expires = expires, st_tenant_id = tid\<rparr>)"
    unfolding refresh_run by (auto simp: Let_def split: prod.splits sum.splits rotation.splits)
  from run show ?thesis
  proof (cases rule: rotate_session_InrE)
    case (rotated t user')
    have t: "t \<in> set (db_refresh_tokens s)" "rt_token_hash t = ad_hash d raw" "us_id user' = rt_user_id t"
      using select_one_SomeD [OF rotated(1)] select_one_SomeD [OF rotated(5)] by simp_all
    from rotated(8) have user: "user' = user" by simp
    have members: "db_members s' = db_members s" unfolding rotated(9) by simp
    show ?thesis using t rotated(6) members unfolding tokens user Let_def by auto
  qed simp
qed

theorem refreshed_tenant_verified_witness:
  "let d = demo_deps\<lparr>ad_decode := (\<lambda>x. Some (user_claims demo_deps 0 ''j'' ''u'' False x))\<rparr>;
       s = (run_tenants demo_hash (take 1 club_history) demo_people)\<lparr>db_refresh_tokens := [demo_token]\<rparr>;
       r = (\<lambda>tid. refresh_access_token active_role (demo_env_at ''m'' 50) (\<lambda>k. ''x'') d ''one'' tid demo_client s)
   in map_sum id (st_tenant_id \<circ> snd) (fst (r ''t0'')) = Inr ''t0'' \<and>
      map_sum id (st_tenant_id \<circ> snd) (fst (r ''t9'')) = Inr '''' \<and> db_members (snd (r ''t0'')) = db_members s"
proof -
  let ?d = "demo_deps\<lparr>ad_decode := (\<lambda>x. Some (user_claims demo_deps 0 ''j'' ''u'' False x))\<rparr>"
  let ?s = "(run_tenants demo_hash (take 1 club_history) demo_people)\<lparr>db_refresh_tokens := [demo_token]\<rparr>"
  let ?r = "\<lambda>tid. refresh_access_token active_role (demo_env_at ''m'' 50) (\<lambda>k. ''x'') ?d ''one'' tid demo_client ?s"
  have run: "\<not> isl (fst (?r ''t0''))" by code_simp
  then have "?r ''t0'' = (Inr (fst (projr (fst (?r ''t0''))), snd (projr (fst (?r ''t0'')))), snd (?r ''t0''))"
    using run_succeeded [OF run] by simp
  from refreshed_tenant_verified [OF this] have "db_members (snd (?r ''t0'')) = db_members ?s" by blast
  moreover have "map_sum id (st_tenant_id \<circ> snd) (fst (?r ''t0'')) = Inr ''t0''" by code_simp
  moreover have "map_sum id (st_tenant_id \<circ> snd) (fst (?r ''t9'')) = Inr ''''" by code_simp
  ultimately show ?thesis unfolding Let_def by blast
qed

text \<open>The choice of a tenant succeeds exactly for an active member of it and then signs a token for
that tenant; whatever the outcome, the call stores nothing: the audit entry \<open>user.switched_tenant\<close> is
refused by the row-level policy, as it names a tenant outside any tenant's transaction, and the error is
dropped.\<close>

theorem tenant_switch_rule:
  "select_tenant active_role en tok d uid super tid s =
     (if tid = '''' then Inl (Sentinel ErrInvalidState)
      else if \<exists>m. select_one (is_membership tid uid) (db_members s) = Some m \<and> mb_status m = MemberActive then
        Inr \<lparr>st_access = ad_sign d (user_claims d (e_now en) (tok 0) uid super tid),
             st_access_expires = e_now en + ad_access_ttl d, st_refresh = '''', st_refresh_expires = 0,
             st_tenant_id = tid\<rparr>
      else Inl (Sentinel ErrForbidden), s)"
  unfolding select_tenant_run current_role_def by (auto split: option.splits)

end
