(* ===== verification/Signup_Rules.thy ===== *)
theory Signup_Rules
  imports Signup Auth_Rules
begin

text \<open>
  What sign-up promises: a code can be guessed at five times, nobody learns from it whether an address
  has an account while codes can be delivered, and every account it makes belongs to an address that was sent a
  code which came back; and what happens when Redis or the mailer fails in the middle of a call.
\<close>

section \<open>The calls, case by case\<close>

lemmas signup_key_defs = signup_otp_key_def signup_attempts_key_def signup_cooldown_key_def
  signup_sends_key_def signup_token_key_def

lemma signup_keys_differ [simp]:
  "signup_otp_key e \<noteq> signup_attempts_key f" "signup_otp_key e \<noteq> signup_cooldown_key f"
  "signup_otp_key e \<noteq> signup_sends_key f" "signup_otp_key e \<noteq> signup_token_key f"
  "signup_attempts_key e \<noteq> signup_otp_key f" "signup_attempts_key e \<noteq> signup_cooldown_key f"
  "signup_attempts_key e \<noteq> signup_sends_key f" "signup_attempts_key e \<noteq> signup_token_key f"
  "signup_cooldown_key e \<noteq> signup_otp_key f" "signup_cooldown_key e \<noteq> signup_attempts_key f"
  "signup_cooldown_key e \<noteq> signup_sends_key f" "signup_cooldown_key e \<noteq> signup_token_key f"
  "signup_sends_key e \<noteq> signup_otp_key f" "signup_sends_key e \<noteq> signup_attempts_key f"
  "signup_sends_key e \<noteq> signup_cooldown_key f" "signup_sends_key e \<noteq> signup_token_key f"
  "signup_token_key e \<noteq> signup_otp_key f" "signup_token_key e \<noteq> signup_attempts_key f"
  "signup_token_key e \<noteq> signup_cooldown_key f" "signup_token_key e \<noteq> signup_sends_key f"
  by (simp_all add: signup_key_defs)

lemma signup_keys_inj [simp]:
  "signup_otp_key e = signup_otp_key f \<longleftrightarrow> e = f" "signup_attempts_key e = signup_attempts_key f \<longleftrightarrow> e = f"
  "signup_token_key e = signup_token_key f \<longleftrightarrow> e = f" "signup_sends_key e = signup_sends_key f \<longleftrightarrow> e = f"
  "signup_cooldown_key e = signup_cooldown_key f \<longleftrightarrow> e = f"
  by (simp_all add: signup_key_defs)

text \<open>A counter that starts its window at one, if the command that sets the expiry is answered.\<close>

definition counted :: "bool \<Rightarrow> int \<Rightarrow> string \<Rightarrow> int \<Rightarrow> kv \<Rightarrow> go_error + (int \<times> kv)" where
  "counted x now key ttl k =
     (case incr_key now key k of
        Inl e \<Rightarrow> Inl e
      | Inr (n, k') \<Rightarrow> Inr (n, if n = 1 \<and> x then expire_key now key ttl k' else k'))"

lemma counted_other: "counted b now key ttl k = Inr (n, k') \<Longrightarrow> x \<noteq> key \<Longrightarrow> k' x = k x"
  by (auto simp: counted_def incr_key_def expire_key_def drop_keys_def split: sum.splits option.splits if_splits)

lemma count_run:
  "and_then (redis_incr True now key) (\<lambda>n.
     and_then (if n = 1 then ignoring (redis_expire x now key ttl) else ret ()) (\<lambda>_. f n)) (s, k) =
   (case counted x now key ttl k of Inl e \<Rightarrow> (Inl e, (s, k)) | Inr (n, k') \<Rightarrow> f n (s, k'))"
  by (cases "incr_key now key k")
    (auto simp: counted_def and_then_def redis_incr_def ignoring_def redis_expire_def redis_def ret_def)

lemma redis_get_run: "redis_get True now key (s, k) = (Inr (live now k key), (s, k))"
  by (simp add: redis_get_def redis_def)

lemma redis_del_run: "ignoring (redis_del x keys) (s, k) = (Inr (), (s, if x then drop_keys keys k else k))"
  by (simp add: ignoring_def redis_del_def redis_def)

lemma redis_set_run:
  "redis_set x now key v ttl (s, k) =
     (if \<not> x then (Inl redis_down, (s, k))
      else if expire_ok ttl then (Inr (), (s, put now key v ttl k)) else (Inl invalid_expire, (s, k)))"
  by (simp add: redis_set_def redis_def guard_def fail_def)

lemma address_taken_run:
  "address_taken email (s, k) = (Inr (list_ex (\<lambda>u. same_email (us_email u) email) (db_users s)), (s, k))"
proof (cases "select_one (\<lambda>u. same_email (us_email u) email) (db_users s)")
  case None
  then have "\<not> list_ex (\<lambda>u. same_email (us_email u) email) (db_users s)"
    by (simp add: select_one_None_iff list_ex_iff)
  with None show ?thesis
    by (simp add: address_taken_def get_user_by_email_def and_then_def reads_def found_def of_option_def
      fail_def)
next
  case (Some u)
  then have "list_ex (\<lambda>u. same_email (us_email u) email) (db_users s)"
    using select_one_SomeD [OF Some] by (auto simp: list_ex_iff)
  with Some show ?thesis
    by (simp add: address_taken_def get_user_by_email_def and_then_def reads_def found_def of_option_def ret_def)
qed

lemma issue_signup_run:
  "issue_signup_otp up en d n email0 (s, k) =
     (let email = normalize_email email0; now = e_now en; p = put now (signup_cooldown_key email) ''1'' (ad_cooldown d) k in
      if \<not> up 0 then (Inl redis_down, (s, k))
      else if \<not> expire_ok (ad_cooldown d) then (Inl invalid_expire, (s, k))
      else if live now k (signup_cooldown_key email) \<noteq> None then (Inl (Sentinel ErrRateLimited), (s, k))
      else if \<not> up 1 then (Inl redis_down, (s, p))
      else case counted (up 2) now (signup_sends_key email) hour p of
        Inl e \<Rightarrow> (Inl e, (s, p))
      | Inr (sends, k') \<Rightarrow>
          if sends > signup_max_sends_per_hr then (Inl (Sentinel ErrRateLimited), (s, k'))
          else if list_ex (\<lambda>u. same_email (us_email u) email) (db_users s) then (Inr None, (s, k'))
          else if \<not> up 3 then (Inl redis_down, (s, k'))
          else if \<not> expire_ok (ad_otp_ttl d) then (Inl invalid_expire, (s, k'))
          else let q = put now (signup_otp_key email) (otp_digest d email (generate_otp n)) (ad_otp_ttl d) k' in
            (Inr (Some (SignupOTPEmail email (generate_otp n) (ad_otp_ttl d))),
             (s, if up 4 then drop_keys [signup_attempts_key email] q else q)))"
proof (cases "up 0")
  case False
  then show ?thesis
    by (simp add: issue_signup_otp_def Let_def redis_setnx_def redis_def guard_def and_then_def)
next
  case True
  note first_step = redis_setnx_def redis_def guard_def fail_def
  have tail: "and_then (address_taken e) f (s, k') = f (list_ex (\<lambda>u. same_email (us_email u) e) (db_users s)) (s, k')"
    "and_then (redis_set x now key v ttl) g (s, k') =
      (if \<not> x then (Inl redis_down, (s, k'))
       else if expire_ok ttl then g () (s, put now key v ttl k') else (Inl invalid_expire, (s, k')))"
    "and_then (ignoring (redis_del x keys)) g (s, k') = g () (s, if x then drop_keys keys k' else k')"
    for e f g now key keys v ttl k' x
    by (simp_all add: and_then_def address_taken_run redis_set_run redis_del_run)
  show ?thesis
  proof (cases "up 1")
    case False
    with True show ?thesis
      by (simp add: issue_signup_otp_def Let_def first_step and_then_def redis_incr_def)
  next
    case on: True
    show ?thesis
      unfolding issue_signup_otp_def Let_def eqTrueI [OF True] eqTrueI [OF on] tail
      by (subst (1) and_then_def)
        (simp add: first_step count_run tail ret_def split: sum.splits prod.splits)
  qed
qed

lemma verify_signup_run:
  "verify_signup_otp up en d raw email0 code0 (s, k) =
     (let email = normalize_email email0; now = e_now en in
      if \<not> up 0 then (Inl redis_down, (s, k))
      else case live now k (signup_otp_key email) of
        None \<Rightarrow> (Inl (Sentinel ErrInvalidOTP), (s, k))
      | Some stored \<Rightarrow>
          if \<not> up 1 then (Inl redis_down, (s, k))
          else case counted (up 2) now (signup_attempts_key email) (ad_otp_ttl d) k of
            Inl e \<Rightarrow> (Inl e, (s, k))
          | Inr (n, k') \<Rightarrow>
              let gone = (if up 3 then drop_keys [signup_otp_key email, signup_attempts_key email] k' else k') in
              if n > signup_otp_max_attempts then (Inl (Sentinel ErrInvalidOTP), (s, gone))
              else if stored \<noteq> otp_digest d email (trim_space code0) then (Inl (Sentinel ErrInvalidOTP), (s, k'))
              else if \<not> up 4 then (Inl redis_down, (s, gone))
              else if \<not> expire_ok (ad_signup_token_ttl d) then (Inl invalid_expire, (s, gone))
              else (Inr raw, (s, put now (signup_token_key (ad_hash d raw)) email (ad_signup_token_ttl d) gone)))"
proof (cases "up 0")
  case False
  then show ?thesis by (simp add: verify_signup_otp_def Let_def redis_get_def redis_def and_then_def)
next
  case on0: True
  show ?thesis
  proof (cases "up 1")
    case False
    with on0 show ?thesis
      by (simp add: verify_signup_otp_def Let_def and_then_def redis_get_run of_option_def ret_def fail_def redis_incr_def
          split: option.splits)
  next
    case on1: True
    show ?thesis
      unfolding verify_signup_otp_def Let_def eqTrueI [OF on0] eqTrueI [OF on1]
      by (subst (1) and_then_def)
        (simp add: redis_get_run of_option_def ret_def fail_def and_then_def [of "ret _"] and_then_def [of "fail _"]
          and_then_def [of "ignoring _"] and_then_def [of "redis_set _ _ _ _ _"] redis_del_run redis_set_run
          count_run guard_def split: option.splits sum.splits prod.splits)
  qed
qed

definition add_account :: "env \<Rightarrow> client_info \<Rightarrow> user_row \<Rightarrow> unit query" where
  "add_account en client user =
     with_tx (and_then (insert_user user) (\<lambda>_.
       audit_user en 1 (us_id user) ''user.registered''
         [(''via'', MetaText ''email_otp''), (''ip'', MetaText (ci_ip client))]))"

lemma on_db_ret: "on_db (ret x) = ret x"
  by (simp add: fun_eq_iff on_db_def ret_def)

lemma complete_signup_run:
  "complete_signup up en tok d token first_name last_name pw accepted client (s, k) =
     (let key = signup_token_key (ad_hash d token) in
      if \<not> accepted then (Inl (Sentinel ErrTermsNotAccepted), (s, k))
      else if \<not> up 0 then (Inl redis_down, (s, k))
      else case live (e_now en) k key of
        None \<Rightarrow> (Inl (Sentinel ErrTokenExpired), (s, k))
      | Some email \<Rightarrow>
          if pw = '''' then (Inl (Other ''security: password must not be empty''), (s, k))
          else let user = signed_up_user en email (ad_derive d pw) first_name last_name in
            case add_account en client user s of
              (Inl e, s') \<Rightarrow> (Inl e, (s', k))
            | (Inr u, s') \<Rightarrow>
                (case issue_session en 2 tok 0 d user client s' of
                   (Inl e, s2) \<Rightarrow> (Inl e, (s2, if up 1 then drop_keys [key] k else k))
                 | (Inr tokens, s2) \<Rightarrow> (Inr (user, tokens), (s2, if up 1 then drop_keys [key] k else k))))"
proof (cases "accepted \<and> up 0")
  case False
  then show ?thesis by (auto simp: complete_signup_def Let_def redis_get_def redis_def and_then_def guard_def fail_def)
next
  case True
  then have on: "accepted = True" "up 0 = True" by simp_all
  show ?thesis
  proof (cases "live (e_now en) k (signup_token_key (ad_hash d token))")
    case None
    then show ?thesis
      by (simp add: complete_signup_def Let_def on guard_def and_then_def redis_get_run of_option_def fail_def)
  next
    case (Some email)
    show ?thesis
    proof (cases "pw = ''''")
      case True
      with Some show ?thesis
        by (simp add: complete_signup_def Let_def on guard_def and_then_def redis_get_run of_option_def ret_def
            fail_def on_db_def hash_password_def)
    next
      case False
      have start: "complete_signup up en tok d token first_name last_name pw accepted client (s, k) =
        (let user = signed_up_user en email (ad_derive d pw) first_name last_name in
         and_then (on_db (add_account en client user)) (\<lambda>_.
         and_then (ignoring (redis_del (up 1) [signup_token_key (ad_hash d token)])) (\<lambda>_.
         and_then (on_db (issue_session en 2 tok 0 d user client)) (\<lambda>tokens. ret (user, tokens)))) (s, k))"
        using False Some
        by (simp add: complete_signup_def Let_def on guard_def and_then_def [of "redis_get _ _ _"] redis_get_run
            of_option_Some and_then_ret hash_password_def on_db_ret add_account_def)
      show ?thesis
        unfolding start Let_def
        by (simp add: on Some False and_then_def on_db_def redis_del_run ret_def split: sum.splits prod.splits)
    qed
  qed
qed

lemma add_account_InrE:
  assumes "add_account en client user s = (Inr x, s')"
  obtains "user_violation (db_users s) user = None" "db_users s' = db_users s @ [user]"
  using assms unfolding add_account_def audit_user_def record_audit_def
  by (elim with_tx_InrE and_then_InrE insert_user_InrE writes_InrE) simp

lemma add_account_Inl: "add_account en client user s = (Inl e, s') \<Longrightarrow> s' = s"
  unfolding add_account_def by (rule with_tx_error)

lemma keeps_users_session: "keeps (\<lambda>s. db_users s = us) (issue_session en i tok j d user client)"
  unfolding issue_session_def issue_user_access_token_def prod.case Let_def insert_refresh_token_def
  by (intro keeps_intros keeps_writes) simp

lemma issue_session_users: "issue_session en i tok j d user client s = (r, s') \<Longrightarrow> db_users s' = db_users s"
  using keepsD [OF keeps_users_session [of "db_users s"]] by blast

section \<open>Histories\<close>

datatype signup_call =
    StartCall int string
  | VerifyCall string string string
  | CompleteCall "nat \<Rightarrow> string" string string string string bool client_info

type_synonym signup_event = "(nat \<Rightarrow> bool) \<times> env \<times> signup_call"

text \<open>\<open>Sent\<close> is the mail handed to the mailer, whatever the mailer answers.\<close>

datatype signup_answer =
    Sent "mail option"
  | Granted string
  | SignedUp user_row

fun answering :: "('a \<Rightarrow> signup_answer) \<Rightarrow> 'a call \<Rightarrow> signup_answer call" where
  "answering f m w = (case m w of (r, w') \<Rightarrow> (map_sum id f r, w'))"

fun run_signup :: "auth_deps \<Rightarrow> signup_event \<Rightarrow> signup_answer call" where
  "run_signup d (up, en, StartCall n email) = answering Sent (issue_signup_otp up en d n email)"
| "run_signup d (up, en, VerifyCall raw email code) = answering Granted (verify_signup_otp up en d raw email code)"
| "run_signup d (up, en, CompleteCall tok token first_name last_name pw accepted client) =
     answering (\<lambda>x. SignedUp (fst x)) (complete_signup up en tok d token first_name last_name pw accepted client)"

fun run_signups :: "auth_deps \<Rightarrow> signup_event list \<Rightarrow> world \<Rightarrow> world" where
  "run_signups d [] w = w"
| "run_signups d (x # xs) w = run_signups d xs (snd (run_signup d x w))"

text \<open>Calls made one after another, the first not before \<open>t\<close>.\<close>

fun in_order :: "int \<Rightarrow> signup_event list \<Rightarrow> bool" where
  "in_order t [] = True"
| "in_order t ((up, en, c) # xs) = (t \<le> e_now en \<and> in_order (e_now en) xs)"

fun last_time :: "int \<Rightarrow> signup_event list \<Rightarrow> int" where
  "last_time t [] = t"
| "last_time t ((up, en, c) # xs) = last_time (e_now en) xs"

text \<open>A call that presents a code for the address and is counted, since Redis answers its first two commands, and one that asks for a new code.\<close>

fun is_guess :: "string \<Rightarrow> signup_event \<Rightarrow> bool" where
  "is_guess e (up, en, VerifyCall raw email code) = (up 0 \<and> up 1 \<and> normalize_email email = e)"
| "is_guess e x = False"

fun asks_code :: "string \<Rightarrow> signup_event \<Rightarrow> bool" where
  "asks_code e (up, en, StartCall n email) = (normalize_email email = e)"
| "asks_code e x = False"

section \<open>Five guesses\<close>

text \<open>The code of an address after \<open>n\<close> guesses: while it is live, its counter stands at \<open>n\<close> or more and
does not expire before it.\<close>

definition guarded :: "auth_deps \<Rightarrow> string \<Rightarrow> nat \<Rightarrow> int \<Rightarrow> kv \<Rightarrow> bool" where
  "guarded d e n now k \<longleftrightarrow> (live now k (signup_otp_key e) \<noteq> None \<longrightarrow>
     (\<exists>v x. k (signup_otp_key e) = Some (v, Some x) \<and> x \<le> now + whole_ms (ad_otp_ttl d) \<and>
        (n = 0 \<and> live now k (signup_attempts_key e) = None \<or>
         (\<exists>m t. k (signup_attempts_key e) = Some (itoa m, t) \<and> min 5 (int n) \<le> m \<and> 1 \<le> m \<and> m \<le> max_int64 \<and>
           (\<forall>y. t = Some y \<longrightarrow> x \<le> y)))))"

lemma live_later: "live now k x = None \<Longrightarrow> now \<le> later \<Longrightarrow> live later k x = None"
  by (auto simp: live_def split: option.splits prod.splits if_splits)

lemma guarded_later: "guarded d e n now k \<Longrightarrow> now \<le> later \<Longrightarrow> guarded d e n later k"
  unfolding guarded_def using live_later [of now k _ later] by fastforce

lemma guarded_cong:
  "k' (signup_otp_key e) = k (signup_otp_key e) \<Longrightarrow> k' (signup_attempts_key e) = k (signup_attempts_key e) \<Longrightarrow>
     guarded d e n now k' = guarded d e n now k"
  by (simp add: guarded_def live_def)

lemma guarded_dead: "k (signup_otp_key e) = None \<Longrightarrow> guarded d e n now k"
  by (simp add: guarded_def live_def)

text \<open>One more guess on the counter.\<close>

lemma counted_guarded:
  assumes "guarded d e n now k" "live now k (signup_otp_key e) = Some v" "0 < whole_ms (ad_otp_ttl d)"
  shows "(\<exists>err. counted b now (signup_attempts_key e) (ad_otp_ttl d) k = Inl err \<and> guarded d e (Suc n) now k) \<or>
    (\<exists>m k'. counted b now (signup_attempts_key e) (ad_otp_ttl d) k = Inr (m, k') \<and> min 5 (int n) < m \<and>
       guarded d e (Suc n) now k')"
proof -
  let ?a = "signup_attempts_key e" and ?o = "signup_otp_key e"
  from assms(1,2) obtain w x where otp: "k ?o = Some (w, Some x)" "x \<le> now + whole_ms (ad_otp_ttl d)"
    and cnt: "n = 0 \<and> live now k ?a = None \<or> (\<exists>m t. k ?a = Some (itoa m, t) \<and> min 5 (int n) \<le> m \<and> 1 \<le> m \<and>
      m \<le> max_int64 \<and> (\<forall>y. t = Some y \<longrightarrow> x \<le> y))"
    unfolding guarded_def by blast
  have alive: "now < x" using assms(2) otp(1) by (simp add: live_def split: if_splits)
  from cnt show ?thesis
  proof
    assume new: "n = 0 \<and> live now k ?a = None"
    let ?k = "k(?a \<mapsto> (itoa 1, if b then Some (now + whole_ms (ad_otp_ttl d)) else None))"
    have "counted b now ?a (ad_otp_ttl d) k = Inr (1, ?k)"
      using new assms(3) by (simp add: counted_def incr_key_def expire_key_def live_def max_int64_def)
    moreover have "guarded d e (Suc n) now ?k"
      unfolding guarded_def using otp new by (auto intro!: exI [of _ 1] simp: max_int64_def)
    ultimately show ?thesis using new by auto
  next
    assume "\<exists>m t. k ?a = Some (itoa m, t) \<and> min 5 (int n) \<le> m \<and> 1 \<le> m \<and> m \<le> max_int64 \<and> (\<forall>y. t = Some y \<longrightarrow> x \<le> y)"
    then obtain m t where m: "k ?a = Some (itoa m, t)" "min 5 (int n) \<le> m" "1 \<le> m" "m \<le> max_int64"
      "\<forall>y. t = Some y \<longrightarrow> x \<le> y" by blast
    have lv: "live now k ?a = Some (itoa m)" using m(1,5) alive by (auto simp: live_def split: option.splits)
    have parse: "parse_int (itoa m) = Some m" using m(3,4) by (simp add: parse_int_itoa in_int64_def min_int64_def)
    show ?thesis
    proof (cases "m = max_int64")
      case True
      then have "guarded d e (Suc n) now k"
        unfolding guarded_def using otp m by (auto simp: max_int64_def)
      moreover have "\<exists>err. counted b now ?a (ad_otp_ttl d) k = Inl err"
        using lv parse True by (simp add: counted_def incr_key_def)
      ultimately show ?thesis by blast
    next
      case False
      let ?k = "k(?a \<mapsto> (itoa (m + 1), t))"
      have run: "counted b now ?a (ad_otp_ttl d) k = Inr (m + 1, ?k)"
        using lv parse False m(1,3) by (simp add: counted_def incr_key_def)
      have "guarded d e (Suc n) now ?k"
        unfolding guarded_def using otp m False by (auto intro!: exI [of _ "m + 1"])
      with run m(2) show ?thesis by auto
    qed
  qed
qed

text \<open>What each call does to the code of an address.\<close>

lemma guarded_verify:
  assumes g: "guarded d e n (e_now en) (snd w)" and ttl: "0 < whole_ms (ad_otp_ttl d)"
    and run: "verify_signup_otp up en d raw email code w = (r, w')"
  shows "guarded d e (if up 0 \<and> up 1 \<and> normalize_email email = e then Suc n else n) (e_now en) (snd w') \<and>
    (normalize_email email = e \<and> 5 \<le> n \<longrightarrow> isl r)"
proof -
  obtain s k where w: "w = (s, k)" by (cases w)
  let ?e = "normalize_email email" and ?o = "signup_otp_key (normalize_email email)"
    and ?a = "signup_attempts_key (normalize_email email)"
  note run' = run [unfolded w verify_signup_run Let_def, symmetric]
  show ?thesis
  proof (cases "up 0 \<and> up 1 \<and> ?e = e")
    case False
    have "snd w' (signup_otp_key e) = k (signup_otp_key e) \<and> snd w' (signup_attempts_key e) = k (signup_attempts_key e)"
      if "up 0" "up 1"
      using run' False that
      by (auto simp: drop_keys_def put_def counted_other split: option.splits sum.splits prod.splits if_splits)
    moreover have "w' = w \<and> isl r" if "\<not> (up 0 \<and> up 1)"
      using run' that w by (auto simp del: One_nat_def split: option.splits if_splits)
    ultimately show ?thesis
      using False g guarded_cong [of "snd w'" e k] unfolding w by (cases "up 0 \<and> up 1") auto
  next
    case True
    then have up: "up 0" "up 1" and e: "?e = e" by simp_all
    show ?thesis
    proof (cases "live (e_now en) k ?o")
      case None
      with run' up have "w' = w \<and> isl r" by (simp add: w)
      with None True show ?thesis by (simp add: guarded_def e w)
    next
      case (Some v)
      from counted_guarded [where b = "up 2", OF g [unfolded w snd_conv] Some [unfolded e] ttl] show ?thesis
      proof (elim disjE exE conjE)
        fix err assume "counted (up 2) (e_now en) (signup_attempts_key e) (ad_otp_ttl d) k = Inl err"
          "guarded d e (Suc n) (e_now en) k"
        with run' up Some show ?thesis by (simp add: e w)
      next
        fix m k' assume c: "counted (up 2) (e_now en) (signup_attempts_key e) (ad_otp_ttl d) k = Inr (m, k')"
          "min 5 (int n) < m" "guarded d e (Suc n) (e_now en) k'"
        let ?g = "if up 3 then drop_keys [signup_otp_key e, signup_attempts_key e] k' else k'"
        have gone: "guarded d e (Suc n) (e_now en) ?g"
          using c(3) by (cases "up 3") (simp_all add: guarded_dead drop_keys_def)
        then have dead: "guarded d e (Suc n) (e_now en) (put now (signup_token_key h) x t ?g)" for now h x t
          using guarded_cong [of "put now (signup_token_key h) x t ?g" e ?g] by (simp add: put_def)
        note out = c(3) gone dead
        show ?thesis
          using run' up Some c(1,2) out unfolding e by (cases "up 3") (auto simp: w split: if_splits)
      qed
    qed
  qed
qed

lemma guarded_start:
  assumes "guarded d e n (e_now en) (snd w)" "normalize_email email \<noteq> e"
  shows "guarded d e n (e_now en) (snd (snd (issue_signup_otp up en d m email w)))"
proof -
  obtain s k where w: "w = (s, k)" by (cases w)
  have "snd (snd (issue_signup_otp up en d m email w)) x = k x"
    if "x = signup_otp_key e \<or> x = signup_attempts_key e" for x
    using assms(2) that unfolding w issue_signup_run Let_def
    by (auto simp: drop_keys_def put_def dest: counted_other [where x = x] split: sum.splits prod.splits)
  then show ?thesis using assms(1) guarded_cong [of "snd (snd (issue_signup_otp up en d m email w))" e k] by (simp add: w)
qed

lemma guarded_complete:
  assumes "guarded d e n (e_now en) (snd w)"
  shows "guarded d e n (e_now en) (snd (snd (complete_signup up en tok d token f l pw accepted client w)))"
proof -
  obtain s k where w: "w = (s, k)" by (cases w)
  have "snd (snd (complete_signup up en tok d token f l pw accepted client w)) x = k x"
    if "x = signup_otp_key e \<or> x = signup_attempts_key e" for x
    using that unfolding w complete_signup_run Let_def
    by (auto simp: drop_keys_def split: option.splits sum.splits prod.splits)
  then show ?thesis
    using assms guarded_cong [of "snd (snd (complete_signup up en tok d token f l pw accepted client w))" e k]
    by (simp add: w)
qed

lemma guarded_run:
  assumes "0 < whole_ms (ad_otp_ttl d)"
  shows "in_order t hs \<Longrightarrow> \<not> list_ex (asks_code e) hs \<Longrightarrow> guarded d e n t (snd w) \<Longrightarrow>
    guarded d e (n + length (filter (is_guess e) hs)) (last_time t hs) (snd (run_signups d hs w))"
proof (induction hs arbitrary: t n w)
  case (Cons x hs)
  obtain up en c where x: "x = (up, en, c)" by (cases x)
  from Cons.prems x have now: "t \<le> e_now en" "in_order (e_now en) hs" by simp_all
  have g: "guarded d e n (e_now en) (snd w)" using Cons.prems(3) now(1) by (rule guarded_later)
  have next_state: "guarded d e (if is_guess e x then Suc n else n) (e_now en) (snd (snd (run_signup d x w)))"
  proof (cases c)
    case (StartCall m email)
    with Cons.prems(2) x have "normalize_email email \<noteq> e" by simp
    then show ?thesis using guarded_start [OF g, of email up m] by (cases "issue_signup_otp up en d m email w") (simp add: x StartCall)
  next
    case (VerifyCall raw email code)
    show ?thesis
      using guarded_verify [OF g assms, of up raw email code]
      by (cases "verify_signup_otp up en d raw email code w") (simp add: x VerifyCall)
  next
    case (CompleteCall tok token f l pw accepted client)
    show ?thesis
      using guarded_complete [OF g, of up tok token f l pw accepted client]
      by (cases "complete_signup up en tok d token f l pw accepted client w") (simp add: x CompleteCall)
  qed
  have step: "n + length (filter (is_guess e) (x # hs)) = (if is_guess e x then Suc n else n) + length (filter (is_guess e) hs)"
    by simp
  have run: "run_signups d (x # hs) w = run_signups d hs (snd (run_signup d x w))"
    "last_time t (x # hs) = last_time (e_now en) hs" by (simp_all add: x)
  from Cons.prems(2) have "\<not> list_ex (asks_code e) hs" by simp
  then show ?case unfolding step run by (rule Cons.IH [OF now(2) _ next_state])
qed simp

lemma guarded_issued:
  assumes "issue_signup_otp up en d n email w = (Inr (Some m), w')" "0 < whole_ms (ad_otp_ttl d)" "up 4"
  shows "guarded d (normalize_email email) 0 (e_now en) (snd w')"
proof -
  obtain s k where w: "w = (s, k)" by (cases w)
  have "0 < ad_otp_ttl d" using assms(2) unfolding whole_ms_def by presburger
  then show ?thesis
    using assms(1) unfolding w issue_signup_run Let_def
    by (auto simp: guarded_def drop_keys_def put_def expiry_of_def live_def Let_def assms(3) split: option.splits if_splits sum.splits)
qed

text \<open>C15: a code can be guessed at five times: once a code was issued for an address and the counter of its
guesses deleted, and until another
is asked for, five calls that present any code for the address, among any other calls of the flow by
anybody and whichever commands Redis fails to answer, leave a state in which no call for it succeeds any more, the right code included. The counter
cannot be run out, reset by its expiry or shared with another address.\<close>

theorem otp_five_guesses:
  assumes "0 < whole_ms (ad_otp_ttl d)"
    and "issue_signup_otp up en d n email w = (Inr (Some m), w')" and "up 4"
    and "in_order (e_now en) hs" and "\<not> list_ex (asks_code (normalize_email email)) hs"
    and "5 \<le> length (filter (is_guess (normalize_email email)) hs)"
    and "last_time (e_now en) hs \<le> e_now en'" and "normalize_email email' = normalize_email email"
  shows "isl (fst (verify_signup_otp up' en' d raw email' code (run_signups d hs w')))"
proof -
  let ?e = "normalize_email email"
  have "guarded d ?e (0 + length (filter (is_guess ?e) hs)) (last_time (e_now en) hs) (snd (run_signups d hs w'))"
    using guarded_run [OF assms(1,4,5) guarded_issued [OF assms(2,1,3)]] .
  then have g: "guarded d ?e (length (filter (is_guess ?e) hs)) (e_now en') (snd (run_signups d hs w'))"
    using guarded_later [OF _ assms(7)] by simp
  show ?thesis
    using guarded_verify [OF g assms(1), of up' raw email' code] assms(6,8)
    by (cases "verify_signup_otp up' en' d raw email' code (run_signups d hs w')") simp
qed

definition demo_code :: "int \<Rightarrow> string \<Rightarrow> signup_event" where
  "demo_code n code = (\<lambda>i. True, demo_env_at ''e'' n, VerifyCall ''raw'' ''z@x.id'' code)"

text \<open>Five wrong codes, then the right one.\<close>

theorem otp_five_guesses_witness:
  "let r = issue_signup_otp (\<lambda>i. True) (demo_env_at ''e'' 1) demo_deps 7 '' Z@x.id'' (demo_people, Map.empty);
       hs = map (\<lambda>n. demo_code (int n) ''000000'') [2..<7]
   in fst r = Inr (Some (SignupOTPEmail ''z@x.id'' ''000007'' 3000000)) \<and>
      \<not> isl (fst (verify_signup_otp (\<lambda>i. True) (demo_env_at ''e'' 8) demo_deps ''raw'' ''z@x.id'' ''000007'' (run_signups demo_deps (tl hs) (snd r)))) \<and>
      isl (fst (verify_signup_otp (\<lambda>i. True) (demo_env_at ''e'' 8) demo_deps ''raw'' ''z@x.id'' ''000007'' (run_signups demo_deps hs (snd r))))"
proof -
  let ?r = "issue_signup_otp (\<lambda>i. True) (demo_env_at ''e'' 1) demo_deps 7 '' Z@x.id'' (demo_people, Map.empty)"
  let ?hs = "map (\<lambda>n. demo_code (int n) ''000000'') [2..<7]"
  have run: "fst ?r = Inr (Some (SignupOTPEmail ''z@x.id'' ''000007'' 3000000))" by code_simp
  then have r: "?r = (Inr (Some (SignupOTPEmail ''z@x.id'' ''000007'' 3000000)), snd ?r)" by (simp add: prod_eq_iff)
  have four: "\<not> isl (fst (verify_signup_otp (\<lambda>i. True) (demo_env_at ''e'' 8) demo_deps ''raw'' ''z@x.id'' ''000007'' (run_signups demo_deps (tl ?hs) (snd ?r))))"
    by code_simp
  have hyps: "0 < whole_ms (ad_otp_ttl demo_deps)" "in_order (e_now (demo_env_at ''e'' 1)) ?hs"
    "\<not> list_ex (asks_code (normalize_email '' Z@x.id'')) ?hs"
    "5 \<le> length (filter (is_guess (normalize_email '' Z@x.id'')) ?hs)"
    "last_time (e_now (demo_env_at ''e'' 1)) ?hs \<le> e_now (demo_env_at ''e'' 8)"
    "normalize_email ''z@x.id'' = normalize_email '' Z@x.id''"
    by code_simp+
  from otp_five_guesses [OF hyps(1) r TrueI hyps(2-6)] run four show ?thesis unfolding Let_def by blast
qed

section \<open>No enumeration of accounts\<close>

type_synonym start_event = "(nat \<Rightarrow> bool) \<times> go_error option \<times> env \<times> int \<times> string"

fun start_answers :: "auth_deps \<Rightarrow> start_event list \<Rightarrow> world \<Rightarrow> (go_error + unit) list" where
  "start_answers d [] w = []"
| "start_answers d ((up, fault, en, n, email) # xs) w =
     (case start_signup up fault en d n email w of (r, w') \<Rightarrow> r # start_answers d xs w')"

text \<open>What a new code needs beyond what every call needs works: the command that stores it, and the mailer.\<close>

fun delivering :: "start_event \<Rightarrow> bool" where
  "delivering (up, fault, en, n, email) \<longleftrightarrow> up 3 \<and> fault = None"

lemma start_signup_run:
  "start_signup up None en d n email w =
     (map_sum id (\<lambda>m. ()) (fst (issue_signup_otp up en d n email w)), snd (issue_signup_otp up en d n email w))"
  by (cases "issue_signup_otp up en d n email w")
    (auto simp: start_signup_def and_then_def ret_def split: sum.splits option.splits)

definition same_windows :: "kv \<Rightarrow> kv \<Rightarrow> bool" where
  "same_windows k j \<longleftrightarrow> (\<forall>e. k (signup_cooldown_key e) = j (signup_cooldown_key e) \<and>
     k (signup_sends_key e) = j (signup_sends_key e))"

lemma counted_same:
  assumes "k key = j key"
  shows "map_sum id (\<lambda>x. (fst x, snd x key)) (counted b now key ttl k) =
    map_sum id (\<lambda>x. (fst x, snd x key)) (counted b now key ttl j)"
  using assms by (auto simp: counted_def incr_key_def expire_key_def live_def drop_keys_def split: option.splits)

lemma same_windows_code:
  assumes "same_windows k j"
  shows "same_windows (if x then drop_keys [signup_attempts_key e] (put now (signup_otp_key e) v ttl k)
      else put now (signup_otp_key e) v ttl k) j"
  using assms by (simp add: same_windows_def drop_keys_def put_def)

lemma same_windows_sym: "same_windows k j \<Longrightarrow> same_windows j k"
  by (simp add: same_windows_def)

lemma issue_same:
  assumes "same_windows k j" "expire_ok (ad_otp_ttl d)" "up 3"
  shows "map_sum id (\<lambda>m. ()) (fst (issue_signup_otp up en d n email (s1, k))) =
      map_sum id (\<lambda>m. ()) (fst (issue_signup_otp up en d n email (s2, j))) \<and>
    same_windows (snd (snd (issue_signup_otp up en d n email (s1, k)))) (snd (snd (issue_signup_otp up en d n email (s2, j)))) \<and>
    fst (snd (issue_signup_otp up en d n email (s1, k))) = s1 \<and> fst (snd (issue_signup_otp up en d n email (s2, j))) = s2"
proof -
  let ?e = "normalize_email email" and ?now = "e_now en"
  let ?c = "signup_cooldown_key ?e" and ?s = "signup_sends_key ?e"
  let ?p = "\<lambda>k. put ?now ?c ''1'' (ad_cooldown d) k"
  have put: "same_windows (?p k) (?p j)" using assms(1) by (simp add: same_windows_def put_def)
  then have start: "?p k ?s = ?p j ?s" by (simp add: same_windows_def)
  note cnt = counted_same [where k = "?p k" and j = "?p j" and key = ?s and now = ?now and ttl = hour and b = "up 2", OF start]
  have win: "live ?now k ?c = live ?now j ?c" using assms(1) by (simp add: same_windows_def live_def)
  show ?thesis
  proof (cases "counted (up 2) ?now ?s hour (?p k)")
    case (Inl err)
    with cnt have "counted (up 2) ?now ?s hour (?p j) = Inl err" by (cases "counted (up 2) ?now ?s hour (?p j)") simp_all
    with Inl win put assms(1) show ?thesis unfolding issue_signup_run Let_def by simp
  next
    case (Inr x)
    obtain m k' where x: "x = (m, k')" by (cases x)
    with cnt Inr obtain j' where j: "counted (up 2) ?now ?s hour (?p j) = Inr (m, j')" "k' ?s = j' ?s"
      by (cases "counted (up 2) ?now ?s hour (?p j)") auto
    have after: "same_windows k' j'"
      unfolding same_windows_def
    proof (intro allI conjI)
      fix e show "k' (signup_cooldown_key e) = j' (signup_cooldown_key e)"
        using put counted_other [OF Inr [unfolded x]] counted_other [OF j(1)] by (simp add: same_windows_def)
      show "k' (signup_sends_key e) = j' (signup_sends_key e)"
        using put j(2) counted_other [OF Inr [unfolded x], of "signup_sends_key e"]
          counted_other [OF j(1), of "signup_sends_key e"]
        by (cases "e = ?e") (simp_all add: same_windows_def)
    qed
    let ?q = "\<lambda>i. put ?now (signup_otp_key ?e) (otp_digest d ?e (generate_otp n)) (ad_otp_ttl d) i"
    let ?r = "\<lambda>i. if up 4 then drop_keys [signup_attempts_key ?e] (?q i) else ?q i"
    have "same_windows (?r k') j'" "same_windows k' (?r j')" "same_windows (?r k') (?r j')"
      using same_windows_code [OF after] same_windows_code [OF same_windows_sym [OF after]]
      by (blast intro: same_windows_code same_windows_sym)+
    with after Inr x j win assms put show ?thesis
      unfolding issue_signup_run Let_def by (cases "up 4") simp_all
  qed
qed

lemma starts_same:
  "same_windows k j \<Longrightarrow> expire_ok (ad_otp_ttl d) \<Longrightarrow> list_all delivering hs \<Longrightarrow>
     start_answers d hs (s1, k) = start_answers d hs (s2, j)"
proof (induction hs arbitrary: k j)
  case (Cons x hs)
  obtain up fault en n email where x: "x = (up, fault, en, n, email)" by (cases x)
  with Cons.prems(3) have up: "up 3" and fault: "fault = None" by simp_all
  note step = issue_same [where n = n and email = email and up = up, OF Cons.prems(1,2) up, of en s1 s2]
  obtain r k' where a: "issue_signup_otp up en d n email (s1, k) = (r, (s1, k'))"
    using step by (metis prod.collapse)
  obtain q j' where b: "issue_signup_otp up en d n email (s2, j) = (q, (s2, j'))"
    using step by (metis prod.collapse)
  from step a b Cons.IH [of k' j'] Cons.prems(2,3) show ?case by (simp add: x fault start_signup_run)
qed simp

text \<open>C16: nobody learns from \<open>StartSignup\<close> whether an address has an account as long as codes can be delivered:
whatever calls are made, in any order and as often as wanted, the answers (success, rate limit or failure) are the
same whichever accounts exist, provided that in each call Redis stores the code it is given and the mailer accepts the
mail, and that the configured lifetime of a code is one Redis takes. Other commands of Redis may fail.\<close>

theorem signup_hides_accounts:
  assumes "expire_ok (ad_otp_ttl d)" and "list_all delivering hs"
  shows "start_answers d hs (s1, k) = start_answers d hs (s2, k)"
  using assms by (intro starts_same) (simp_all add: same_windows_def)

theorem signup_hides_accounts_witness:
  "let hs = map (\<lambda>n. (\<lambda>i. True, None, demo_env_at ''e'' n, n, ''v@x.id'')) [1, 2, 2000000] in
     start_answers demo_deps hs (demo_people, Map.empty) = start_answers demo_deps hs (empty_db, Map.empty) \<and>
     start_answers demo_deps hs (empty_db, Map.empty) = [Inr (), Inl (Sentinel ErrRateLimited), Inr ()]"
proof -
  let ?hs = "map (\<lambda>n. (\<lambda>i. True, None, demo_env_at ''e'' n, n, ''v@x.id'')) [1, 2, 2000000]"
  have "expire_ok (ad_otp_ttl demo_deps)" by code_simp
  moreover have "list_all delivering ?hs" by simp
  ultimately have same: "start_answers demo_deps ?hs (demo_people, Map.empty) = start_answers demo_deps ?hs (empty_db, Map.empty)"
    by (rule signup_hides_accounts)
  have "start_answers demo_deps ?hs (empty_db, Map.empty) = [Inr (), Inl (Sentinel ErrRateLimited), Inr ()]" by code_simp
  with same show ?thesis unfolding Let_def by blast
qed

text \<open>When the mailer fails, or Redis does not store the code, the answer tells: only an address that has no account
gets that far.\<close>

theorem outage_tells_accounts:
  assumes "fault \<noteq> None \<or> \<not> up 3"
    and "fst (start_signup up fault en d n email (s, k)) = Inr ()"
  shows "list_ex (\<lambda>u. same_email (us_email u) (normalize_email email)) (db_users s)"
  using assms(1,2)
  by (auto simp: start_signup_def and_then_def issue_signup_run Let_def fail_def ret_def
      split: sum.splits option.splits prod.splits if_splits)

text \<open>The counter of guesses is deleted when a new code is issued, but nobody looks at whether that worked. After
four wrong guesses at a first code and a deletion that Redis did not answer, the old counter runs out before the new
code does, which then stands six guesses.\<close>

theorem undeleted_counter_more_guesses:
  "let now_at = \<lambda>t. demo_env_at ''e'' t;
       w0 = snd (issue_signup_otp (\<lambda>i. True) (now_at 0) demo_deps 7 ''z@x.id'' (demo_people, Map.empty));
       w1 = run_signups demo_deps (map (\<lambda>n. demo_code (int n) ''000000'') [1..<5]) w0;
       w2 = snd (issue_signup_otp (\<lambda>i. i \<noteq> 4) (now_at 2000000) demo_deps 8 ''z@x.id'' w1);
       w3 = run_signups demo_deps (map (\<lambda>n. demo_code n ''000000'') [2000001, 3100000, 3100001, 3100002, 3100003]) w2
   in fst (verify_signup_otp (\<lambda>i. True) (now_at 3100004) demo_deps ''raw'' ''z@x.id'' ''000008'' w3) = Inr ''raw''"
  by code_simp

section \<open>Accounts and mailboxes\<close>

text \<open>The calls of a history with their results.\<close>

type_synonym trace = "(signup_event \<times> (go_error + signup_answer)) list"

fun signup_trace :: "auth_deps \<Rightarrow> signup_event list \<Rightarrow> world \<Rightarrow> trace" where
  "signup_trace d [] w = []"
| "signup_trace d (x # xs) w = (x, fst (run_signup d x w)) # signup_trace d xs (snd (run_signup d x w))"

definition mailed :: "auth_deps \<Rightarrow> string \<Rightarrow> string \<Rightarrow> trace \<Rightarrow> bool" where
  "mailed d e c tr \<longleftrightarrow> (\<exists>x. (x, Inr (Sent (Some (SignupOTPEmail e c (ad_otp_ttl d))))) \<in> set tr)"

text \<open>A call presented a code with the digest of one mailed to the address before it.\<close>

definition proven :: "auth_deps \<Rightarrow> string \<Rightarrow> trace \<Rightarrow> bool" where
  "proven d e tr \<longleftrightarrow> (\<exists>before after up en raw email code c.
     tr = before @ ((up, en, VerifyCall raw email code), Inr (Granted raw)) # after \<and>
     normalize_email email = e \<and> mailed d e c before \<and>
     otp_digest d e (trim_space code) = otp_digest d e c)"

definition consented :: "user_row \<Rightarrow> bool" where
  "consented u \<longleftrightarrow> us_is_email_verified u \<and> us_terms_accepted_at u \<noteq> None \<and> \<not> us_is_super_admin u"

definition signup_inv :: "auth_deps \<Rightarrow> db \<Rightarrow> trace \<Rightarrow> world \<Rightarrow> bool" where
  "signup_inv d s0 tr w \<longleftrightarrow>
     (\<forall>e v t. snd w (signup_otp_key e) = Some (v, t) \<longrightarrow> (\<exists>c. mailed d e c tr \<and> v = otp_digest d e c)) \<and>
     (\<forall>h e t. snd w (signup_token_key h) = Some (e, t) \<longrightarrow> proven d e tr) \<and>
     (\<forall>u \<in> set (db_users (fst w)). u \<in> set (db_users s0) \<or> proven d (us_email u) tr \<and> consented u)"

lemma mailed_append: "mailed d e c tr \<Longrightarrow> mailed d e c (tr @ tr')"
  by (auto simp: mailed_def)

lemma proven_append:
  assumes "proven d e tr"
  shows "proven d e (tr @ tr')"
proof -
  from assms obtain before after up en raw email code c where
    "tr = before @ ((up, en, VerifyCall raw email code), Inr (Granted raw)) # after"
    "normalize_email email = e" "mailed d e c before" "otp_digest d e (trim_space code) = otp_digest d e c"
    unfolding proven_def by blast
  then show ?thesis
    unfolding proven_def
    by (intro exI [of _ before] exI [of _ "after @ tr'"] exI [of _ up] exI [of _ en] exI [of _ raw]
        exI [of _ email] exI [of _ code] exI [of _ c]) simp
qed

text \<open>What a step may do to the keys and the users.\<close>

lemma signup_inv_step:
  assumes "signup_inv d s0 tr w"
    and "\<And>e v t. snd w' (signup_otp_key e) = Some (v, t) \<Longrightarrow> snd w (signup_otp_key e) = Some (v, t) \<or>
      (\<exists>c. mailed d e c (tr @ [x]) \<and> v = otp_digest d e c)"
    and "\<And>h e t. snd w' (signup_token_key h) = Some (e, t) \<Longrightarrow> snd w (signup_token_key h) = Some (e, t) \<or>
      proven d e (tr @ [x])"
    and "\<And>u. u \<in> set (db_users (fst w')) \<Longrightarrow> u \<in> set (db_users (fst w)) \<or> proven d (us_email u) tr \<and> consented u"
  shows "signup_inv d s0 (tr @ [x]) w'"
  unfolding signup_inv_def
proof (intro conjI allI impI ballI)
  fix e v t assume "snd w' (signup_otp_key e) = Some (v, t)"
  from assms(2) [OF this] show "\<exists>c. mailed d e c (tr @ [x]) \<and> v = otp_digest d e c"
    using assms(1) unfolding signup_inv_def by (blast intro: mailed_append)
next
  fix h e t assume "snd w' (signup_token_key h) = Some (e, t)"
  from assms(3) [OF this] show "proven d e (tr @ [x])"
    using assms(1) unfolding signup_inv_def by (blast intro: proven_append)
next
  fix u assume "u \<in> set (db_users (fst w'))"
  from assms(4) [OF this] show "u \<in> set (db_users s0) \<or> proven d (us_email u) (tr @ [x]) \<and> consented u"
    using assms(1) unfolding signup_inv_def by (blast intro: proven_append)
qed

lemma signup_inv_start:
  assumes inv: "signup_inv d s0 tr w" and run: "issue_signup_otp up en d n email w = (r, w')"
  shows "signup_inv d s0 (tr @ [((up, en, StartCall n email), map_sum id Sent r)]) w'"
proof (rule signup_inv_step [OF inv])
  obtain s k where w: "w = (s, k)" by (cases w)
  let ?e = "normalize_email email" and ?now = "e_now en"
  let ?p = "put ?now (signup_cooldown_key ?e) ''1'' (ad_cooldown d) k"
  note run = run [unfolded w issue_signup_run Let_def, symmetric]
  have other: "k' (signup_otp_key f) = k (signup_otp_key f)" "k' (signup_token_key h) = k (signup_token_key h)"
    if "counted (up 2) ?now (signup_sends_key ?e) hour ?p = Inr (m, k')" for m k' f h
    using counted_other [OF that] by (simp_all add: put_def)
  show "snd w (signup_otp_key e) = Some (v, t) \<or>
      (\<exists>c. mailed d e c (tr @ [((up, en, StartCall n email), map_sum id Sent r)]) \<and> v = otp_digest d e c)"
    if otp: "snd w' (signup_otp_key e) = Some (v, t)" for e v t
  proof -
    let ?tr = "tr @ [((up, en, StartCall n email), map_sum id Sent r)]"
    have mail: "mailed d f c ?tr" if "r = Inr (Some (SignupOTPEmail f c (ad_otp_ttl d)))" for f c
      using that by (auto simp: mailed_def)
    consider "snd w' (signup_otp_key e) = k (signup_otp_key e)"
      | "e = ?e" "v = otp_digest d e (generate_otp n)" "r = Inr (Some (SignupOTPEmail e (generate_otp n) (ad_otp_ttl d)))"
      using otp run other
      by (cases "e = ?e") (auto simp: drop_keys_def put_def split: option.splits sum.splits if_splits)
    then show ?thesis using otp mail [of e "generate_otp n"] by cases (auto simp: w)
  qed
  show "snd w (signup_token_key h) = Some (e, t) \<or> proven d e (tr @ [((up, en, StartCall n email), map_sum id Sent r)])"
    if "snd w' (signup_token_key h) = Some (e, t)" for h e t
    using that run other
    by (auto simp: w drop_keys_def put_def split: option.splits sum.splits if_splits)
  show "u \<in> set (db_users (fst w)) \<or> proven d (us_email u) tr \<and> consented u"
    if "u \<in> set (db_users (fst w'))" for u
    using that run by (auto simp: w split: option.splits sum.splits if_splits)
qed

lemma signup_inv_verify:
  assumes inv: "signup_inv d s0 tr w" and run: "verify_signup_otp up en d raw email code w = (r, w')"
  shows "signup_inv d s0 (tr @ [((up, en, VerifyCall raw email code), map_sum id Granted r)]) w'"
proof (rule signup_inv_step [OF inv])
  obtain s k where w: "w = (s, k)" by (cases w)
  let ?e = "normalize_email email" and ?now = "e_now en"
  let ?x = "((up, en, VerifyCall raw email code), map_sum id Granted r)"
  note run = run [unfolded w verify_signup_run Let_def, symmetric]
  have other: "k' (signup_otp_key f) = k (signup_otp_key f)" "k' (signup_token_key h) = k (signup_token_key h)"
    if "counted (up 2) ?now (signup_attempts_key ?e) (ad_otp_ttl d) k = Inr (m, k')" for m k' f h
    using counted_other [OF that] by simp_all
  show "snd w (signup_otp_key e) = Some (v, t) \<or> (\<exists>c. mailed d e c (tr @ [?x]) \<and> v = otp_digest d e c)"
    if "snd w' (signup_otp_key e) = Some (v, t)" for e v t
    using that run other
    by (auto simp: w drop_keys_def put_def split: option.splits sum.splits if_splits)
  show "u \<in> set (db_users (fst w)) \<or> proven d (us_email u) tr \<and> consented u"
    if "u \<in> set (db_users (fst w'))" for u
    using that run by (auto simp: w split: option.splits sum.splits if_splits)
  show "snd w (signup_token_key h) = Some (e, t) \<or> proven d e (tr @ [?x])"
    if token: "snd w' (signup_token_key h) = Some (e, t)" for h e t
  proof -
    consider "snd w' (signup_token_key h) = k (signup_token_key h)"
      | v where "e = ?e" "r = Inr raw" "live ?now k (signup_otp_key ?e) = Some v" "v = otp_digest d ?e (trim_space code)"
      using token run other
      by (cases "h = ad_hash d raw")
        (auto simp: drop_keys_def put_def split: option.splits sum.splits if_splits)
    then show ?thesis
    proof cases
      case 1
      with token show ?thesis by (simp add: w)
    next
      case (2 v)
      from 2(3) obtain t where "k (signup_otp_key ?e) = Some (v, t)"
        by (auto simp: live_def split: option.splits prod.splits if_splits)
      with inv obtain c where "mailed d ?e c tr" "v = otp_digest d ?e c"
        unfolding signup_inv_def w snd_conv by blast
      then have "proven d ?e (tr @ [?x])"
        using 2(2,4) unfolding proven_def
        by (intro exI [of _ tr] exI [of _ "[]"] exI [of _ up] exI [of _ en] exI [of _ raw]
            exI [of _ email] exI [of _ code] exI [of _ c]) simp
      then show ?thesis by (simp add: 2(1))
    qed
  qed
qed

lemma signup_inv_complete:
  assumes inv: "signup_inv d s0 tr w"
    and run: "complete_signup up en tok d token f l pw accepted client w = (r, w')"
  shows "signup_inv d s0 (tr @ [((up, en, CompleteCall tok token f l pw accepted client), q)]) w'"
proof (rule signup_inv_step [OF inv])
  obtain s k where w: "w = (s, k)" by (cases w)
  let ?key = "signup_token_key (ad_hash d token)"
  note run = run [unfolded w complete_signup_run Let_def, symmetric]
  have keys: "snd w' x = k x \<or> snd w' x = None" for x
    using run by (auto simp: drop_keys_def split: option.splits sum.splits prod.splits if_splits)
  then show "snd w' (signup_otp_key e) = Some (v, t) \<Longrightarrow>
      snd w (signup_otp_key e) = Some (v, t) \<or> (\<exists>c. mailed d e c (tr @ [x]) \<and> v = otp_digest d e c)"
    "snd w' (signup_token_key h) = Some (e, t) \<Longrightarrow>
      snd w (signup_token_key h) = Some (e, t) \<or> proven d e (tr @ [x])" for e v t h x
    unfolding w snd_conv by (metis option.distinct(1))+
  show "u \<in> set (db_users (fst w)) \<or> proven d (us_email u) tr \<and> consented u"
    if u: "u \<in> set (db_users (fst w'))" for u
  proof -
    have "db_users (fst w') = db_users s \<or> (\<exists>user. db_users (fst w') = db_users s @ [user] \<and>
      live (e_now en) k ?key = Some (us_email user) \<and> consented user)"
    proof (cases "accepted \<and> up 0 \<and> live (e_now en) k ?key \<noteq> None \<and> pw \<noteq> ''''")
      case False
      with run show ?thesis by (auto split: option.splits if_splits)
    next
      case True
      then obtain email where email: "live (e_now en) k ?key = Some email" by blast
      let ?user = "signed_up_user en email (ad_derive d pw) f l"
      have user: "us_email ?user = email" "consented ?user" by (simp_all add: signed_up_user_def consented_def)
      show ?thesis
      proof (cases "add_account en client ?user s")
        case (Pair a s1)
        show ?thesis
        proof (cases a)
          case (Inl err)
          with run True email Pair add_account_Inl [of en client ?user s err s1] show ?thesis by simp
        next
          case (Inr x)
          from Pair Inr have "db_users s1 = db_users s @ [?user]" by (auto elim: add_account_InrE)
          moreover obtain b s2 where "issue_session en 2 tok 0 d ?user client s1 = (b, s2)" by (metis prod.exhaust)
          ultimately have "db_users (fst w') = db_users s @ [?user]"
            using run True email Pair Inr issue_session_users by (auto split: sum.splits)
          then show ?thesis using email user by metis
        qed
      qed
    qed
    then show ?thesis
    proof
      assume "\<exists>user. db_users (fst w') = db_users s @ [user] \<and> live (e_now en) k ?key = Some (us_email user) \<and> consented user"
      then obtain user where new: "db_users (fst w') = db_users s @ [user]"
        "live (e_now en) k ?key = Some (us_email user)" "consented user" by blast
      from new(2) obtain t where "k ?key = Some (us_email user, t)"
        by (auto simp: live_def split: option.splits prod.splits if_splits)
      with inv have "proven d (us_email user) tr" unfolding signup_inv_def w snd_conv by blast
      with u new show ?thesis by (auto simp: w)
    qed (use u in \<open>simp add: w\<close>)
  qed
qed

lemma signup_inv_run:
  "signup_inv d s0 tr w \<Longrightarrow> signup_inv d s0 (tr @ signup_trace d hs w) (run_signups d hs w)"
proof (induction hs arbitrary: tr w)
  case (Cons x hs)
  obtain up en c where x: "x = (up, en, c)" by (cases x)
  have "signup_inv d s0 (tr @ [(x, fst (run_signup d x w))]) (snd (run_signup d x w))"
  proof (cases c)
    case (StartCall n email)
    obtain r w' where run: "issue_signup_otp up en d n email w = (r, w')" by (metis prod.exhaust)
    from signup_inv_start [OF Cons.prems run] show ?thesis by (simp add: x StartCall run)
  next
    case (VerifyCall raw email code)
    obtain r w' where run: "verify_signup_otp up en d raw email code w = (r, w')" by (metis prod.exhaust)
    from signup_inv_verify [OF Cons.prems run] show ?thesis by (simp add: x VerifyCall run)
  next
    case (CompleteCall tok token f l pw accepted client)
    obtain r w' where run: "complete_signup up en tok d token f l pw accepted client w = (r, w')" by (metis prod.exhaust)
    from signup_inv_complete [OF Cons.prems run] show ?thesis by (simp add: x CompleteCall run)
  qed
  from Cons.IH [OF this] show ?case by simp
qed simp

text \<open>C17: an account made by sign-up belongs to an address whose mailbox was read: in every history of
sign-up calls, by anybody, that starts with no sign-up pending, each user who was not there before has an
address to which a code was mailed, and afterwards a call presented for that address a code with the same
digest and was granted a token; the account is marked as verified, with the consent recorded, and is no
super administrator.\<close>

theorem account_needs_mailed_code:
  assumes "run_signups d hs (s, Map.empty) = (s', k')" and "u \<in> set (db_users s')" and "u \<notin> set (db_users s)"
  shows "proven d (us_email u) (signup_trace d hs (s, Map.empty)) \<and> consented u"
proof -
  have "signup_inv d s [] (s, Map.empty)" by (simp add: signup_inv_def)
  from signup_inv_run [OF this, of hs] assms show ?thesis by (auto simp: signup_inv_def)
qed

definition demo_signup :: "signup_event list" where
  "demo_signup =
     [(\<lambda>i. True, demo_env_at ''e'' 1, StartCall 7 '' Z@x.id''), demo_code 2 ''000000'', demo_code 3 '' 000007 '',
      (\<lambda>i. True, demo_env_at ''e'' 4, CompleteCall (\<lambda>k. ''t'' @ nat_str k) ''raw'' ''Zoe'' '' Z '' ''pw'' True demo_client)]"

theorem account_needs_mailed_code_witness:
  "\<exists>u \<in> set (db_users (fst (run_signups demo_deps demo_signup (demo_people, Map.empty)))).
     us_email u = ''z@x.id'' \<and> proven demo_deps ''z@x.id'' (signup_trace demo_deps demo_signup (demo_people, Map.empty)) \<and>
     consented u"
proof -
  let ?w = "run_signups demo_deps demo_signup (demo_people, Map.empty)"
  let ?u = "List.last (db_users (fst ?w))"
  have some: "db_users (fst ?w) \<noteq> []" "us_email ?u = ''z@x.id''"
    "list_all (\<lambda>u. us_email u \<noteq> ''z@x.id'') (db_users demo_people)" by code_simp+
  then have new: "?u \<notin> set (db_users demo_people)" by (auto simp: list_all_iff)
  have mem: "?u \<in> set (db_users (fst ?w))" using some(1) by (rule last_in_set)
  have run: "?w = (fst ?w, snd ?w)" by simp
  from account_needs_mailed_code [OF run mem new] some(2) mem show ?thesis by metis
qed

end
