(* ===== verification/Job_Queue.thy ===== *)
theory Job_Queue
  imports Tenant_Repo
begin

text \<open>
  \<open>internal/jobqueue\<close> and \<open>internal/domain/job.go\<close>: the table of background jobs, the Redis list
  that carries their identifiers to the workers, the dispatcher and one round of a worker's loop. A
  payload and a result are the entries of their JSON object. \<open>up\<close> tells whether Redis is reachable.
\<close>

section \<open>Jobs\<close>

abbreviation JobQueued :: string where "JobQueued \<equiv> ''queued''"
abbreviation JobProcessing :: string where "JobProcessing \<equiv> ''processing''"
abbreviation JobCompleted :: string where "JobCompleted \<equiv> ''completed''"
abbreviation JobCompletedWithErrors :: string where "JobCompletedWithErrors \<equiv> ''completed_with_errors''"
abbreviation JobFailed :: string where "JobFailed \<equiv> ''failed''"

type_synonym details = "(string \<times> meta) list"

record job =
  jb_id :: string
  jb_tenant_id :: string
  jb_type :: string
  jb_status :: string
  jb_payload :: details
  jb_result :: "details option"
  jb_error :: "string option"
  jb_progress_current :: int
  jb_progress_total :: int
  jb_created_by :: string
  jb_created_at :: int
  jb_updated_at :: int
  jb_started_at :: "int option"
  jb_finished_at :: "int option"

text \<open>The other tables, the jobs, and the list \<open>racetify:jobqueue\<close> with its head first.\<close>

record backlog =
  bl_db :: db
  bl_jobs :: "job list"
  bl_list :: "string list"

type_synonym 'a queued = "(backlog, go_error, 'a) act"

section \<open>The repository\<close>

definition job_pk :: "job \<Rightarrow> string option" where
  "job_pk j = Some (jb_id j)"

definition job_violation :: "backlog \<Rightarrow> job \<Rightarrow> sql_error option" where
  "job_violation b j =
     (if taken job_pk (bl_jobs b) j then Some (UniqueViolation ''jobs_pkey'')
      else if \<not> list_ex (\<lambda>t. tn_id t = jb_tenant_id j) (db_tenants (bl_db b))
        then Some (ForeignKeyViolation ''jobs_tenant_id_fkey'')
      else if \<not> list_ex (\<lambda>u. us_id u = jb_created_by j) (db_users (bl_db b))
        then Some (ForeignKeyViolation ''jobs_created_by_fkey'')
      else None)"

definition sql_failure :: "sql_error \<Rightarrow> go_error" where
  "sql_failure e = Other (case e of UniqueViolation c \<Rightarrow> c | ForeignKeyViolation c \<Rightarrow> c)"

definition insert_job :: "job \<Rightarrow> unit queued" where
  "insert_job j =
     and_then (reads (\<lambda>b. job_violation b j)) (\<lambda>v.
     on_error (map_option sql_failure v)
       (writes (\<lambda>b. b\<lparr>bl_jobs := bl_jobs b @ [j]\<rparr>)))"

definition is_job_of :: "string \<Rightarrow> string \<Rightarrow> job \<Rightarrow> bool" where
  "is_job_of tid jid j \<longleftrightarrow> jb_tenant_id j = tid \<and> jb_id j = jid"

definition get_job_row :: "string \<Rightarrow> string \<Rightarrow> job queued" where
  "get_job_row tid jid = and_then (reads (\<lambda>b. select_one (is_job_of tid jid) (bl_jobs b))) found"

definition get_job_unscoped :: "string \<Rightarrow> job queued" where
  "get_job_unscoped jid = and_then (reads (\<lambda>b. select_one (\<lambda>j. jb_id j = jid) (bl_jobs b))) found"

definition job_position :: "job \<Rightarrow> int \<times> string" where
  "job_position j = (jb_created_at j, jb_id j)"

definition job_listed :: "string \<Rightarrow> string option \<Rightarrow> string option \<Rightarrow> job \<Rightarrow> bool" where
  "job_listed tid ty st j \<longleftrightarrow> jb_tenant_id j = tid \<and>
     (case ty of None \<Rightarrow> True | Some x \<Rightarrow> jb_type j = x) \<and> (case st of None \<Rightarrow> True | Some x \<Rightarrow> jb_status j = x)"

definition list_jobs_rows ::
  "string \<Rightarrow> page_params \<Rightarrow> string option \<Rightarrow> string option \<Rightarrow> job page queued" where
  "list_jobs_rows tid pg ty st =
     (let limit = normalize_limit pg in
      and_then (reads (\<lambda>b. take (limit + 1) (newest job_position (job_listed tid ty st) (pg_cursor pg) (bl_jobs b))))
        (\<lambda>out. ret (cut_page limit (\<lambda>j. cursor_of (job_position j)) out)))"

text \<open>An update by identifier, under the tenant of the transaction; the trigger stamps \<open>updated_at\<close>.\<close>

definition update_job :: "env \<Rightarrow> string \<Rightarrow> string \<Rightarrow> (job \<Rightarrow> job) \<Rightarrow> unit queued" where
  "update_job en tid jid f =
     and_then (reads (\<lambda>b. length (select (is_job_of tid jid) (bl_jobs b)))) (\<lambda>n.
     and_then (writes (\<lambda>b. b\<lparr>bl_jobs := update_where (is_job_of tid jid)
        (\<lambda>j. (f j)\<lparr>jb_updated_at := e_now en\<rparr>) (bl_jobs b)\<rparr>)) (\<lambda>_.
     check_rows n))"

definition mark_processing_row :: "env \<Rightarrow> string \<Rightarrow> string \<Rightarrow> unit queued" where
  "mark_processing_row en tid jid =
     update_job en tid jid (\<lambda>j. j\<lparr>jb_status := JobProcessing, jb_started_at := Some (e_now en)\<rparr>)"

definition update_progress_row :: "env \<Rightarrow> string \<Rightarrow> string \<Rightarrow> int \<Rightarrow> int \<Rightarrow> unit queued" where
  "update_progress_row en tid jid c t =
     update_job en tid jid (\<lambda>j. j\<lparr>jb_progress_current := c, jb_progress_total := t\<rparr>)"

definition finish_row ::
  "env \<Rightarrow> string \<Rightarrow> string \<Rightarrow> string \<Rightarrow> details option \<Rightarrow> string option \<Rightarrow> unit queued" where
  "finish_row en tid jid st res err =
     update_job en tid jid (\<lambda>j. j\<lparr>jb_status := st, jb_result := res, jb_error := err,
       jb_finished_at := Some (e_now en)\<rparr>)"

section \<open>The queue\<close>

definition new_job :: "env \<Rightarrow> string \<Rightarrow> string \<Rightarrow> string \<Rightarrow> details \<Rightarrow> job" where
  "new_job en tid actor ty payload =
     \<lparr>jb_id = e_uuid en 0, jb_tenant_id = tid, jb_type = ty, jb_status = JobQueued, jb_payload = payload,
      jb_result = None, jb_error = None, jb_progress_current = 0, jb_progress_total = 0,
      jb_created_by = actor, jb_created_at = e_now en, jb_updated_at = e_now en,
      jb_started_at = None, jb_finished_at = None\<rparr>"

definition lpush :: "bool \<Rightarrow> string \<Rightarrow> unit queued" where
  "lpush up x = guard up (Other ''jobqueue: push to redis'') (writes (\<lambda>b. b\<lparr>bl_list := x # bl_list b\<rparr>))"

definition enqueue :: "bool \<Rightarrow> env \<Rightarrow> string \<Rightarrow> string \<Rightarrow> string \<Rightarrow> details \<Rightarrow> string queued" where
  "enqueue up en tid actor ty payload =
     (let j = new_job en tid actor ty payload in
      and_then (with_tenant_tx tid (insert_job j)) (\<lambda>_.
      and_then (lpush up (jb_id j)) (\<lambda>_. ret (jb_id j))))"

text \<open>\<open>BRPOP\<close> takes the last element; an empty list is \<open>ErrEmpty\<close> after the wait.\<close>

definition err_empty :: go_error where
  "err_empty = Other ''jobqueue: no job available''"

definition brpop :: "bool \<Rightarrow> string queued" where
  "brpop up b =
     (if \<not> up then (Inl (Other ''rediscli: brpop''), b)
      else if bl_list b = [] then (Inl err_empty, b)
      else (Inr (List.last (bl_list b)), b\<lparr>bl_list := butlast (bl_list b)\<rparr>))"

definition dequeue :: "bool \<Rightarrow> job queued" where
  "dequeue up = and_then (brpop up) get_job_unscoped"

definition mark_processing :: "env \<Rightarrow> job \<Rightarrow> unit queued" where
  "mark_processing en j = with_tenant_tx (jb_tenant_id j) (mark_processing_row en (jb_tenant_id j) (jb_id j))"

definition update_progress :: "env \<Rightarrow> job \<Rightarrow> int \<Rightarrow> int \<Rightarrow> unit queued" where
  "update_progress en j c t =
     with_tenant_tx (jb_tenant_id j) (update_progress_row en (jb_tenant_id j) (jb_id j) c t)"

definition mark_completed :: "env \<Rightarrow> job \<Rightarrow> details option \<Rightarrow> unit queued" where
  "mark_completed en j res =
     with_tenant_tx (jb_tenant_id j) (finish_row en (jb_tenant_id j) (jb_id j) JobCompleted res None)"

definition mark_completed_with_errors :: "env \<Rightarrow> job \<Rightarrow> details option \<Rightarrow> string \<Rightarrow> unit queued" where
  "mark_completed_with_errors en j res msg =
     with_tenant_tx (jb_tenant_id j) (finish_row en (jb_tenant_id j) (jb_id j) JobCompletedWithErrors res (Some msg))"

definition mark_failed :: "env \<Rightarrow> job \<Rightarrow> string \<Rightarrow> unit queued" where
  "mark_failed en j msg =
     with_tenant_tx (jb_tenant_id j) (finish_row en (jb_tenant_id j) (jb_id j) JobFailed None (Some msg))"

definition get_job :: "string \<Rightarrow> string \<Rightarrow> job queued" where
  "get_job tid jid = with_tenant_tx tid (get_job_row tid jid)"

definition list_jobs :: "string \<Rightarrow> page_params \<Rightarrow> string option \<Rightarrow> string option \<Rightarrow> job page queued" where
  "list_jobs tid pg ty st = with_tenant_tx tid (list_jobs_rows tid pg ty st)"

section \<open>Dispatching\<close>

text \<open>What a handler ends with: an error, or a result and the text of the partial errors.\<close>

type_synonym outcome = "go_error + (details option \<times> string)"

text \<open>\<open>Register\<close>: the second handler of a type is a panic.\<close>

definition register_handler :: "string \<Rightarrow> 'h \<Rightarrow> (string \<Rightarrow> 'h option) \<Rightarrow> (string \<Rightarrow> 'h option) option" where
  "register_handler ty h m = (if m ty \<noteq> None then None else Some (m(ty \<mapsto> h)))"

definition dispatch :: "(string \<Rightarrow> (job \<Rightarrow> (details option \<times> string) queued) option) \<Rightarrow> job \<Rightarrow>
    (details option \<times> string) queued" where
  "dispatch handlers j =
     (case handlers (jb_type j) of
        None \<Rightarrow> fail (Other (''jobqueue: no handler registered for this job type: '' @ go_quote (jb_type j)))
      | Some h \<Rightarrow> h j)"

text \<open>\<open>Run\<close>'s switch: an error first, then partial errors.\<close>

definition record_outcome :: "env \<Rightarrow> job \<Rightarrow> outcome \<Rightarrow> unit queued" where
  "record_outcome en j out =
     (case out of
        Inl e \<Rightarrow> mark_failed en j (error_text e)
      | Inr (res, partial_err) \<Rightarrow>
          if partial_err \<noteq> '''' then mark_completed_with_errors en j res partial_err
          else mark_completed en j res)"

text \<open>One round of the loop: what goes wrong is logged, and the loop goes on. The clock is read at the
start and at the end of the work.\<close>

definition work_round ::
  "bool \<Rightarrow> env \<Rightarrow> env \<Rightarrow> (string \<Rightarrow> (job \<Rightarrow> (details option \<times> string) queued) option) \<Rightarrow> backlog \<Rightarrow> backlog" where
  "work_round up en en' handlers b =
     (case dequeue up b of
        (Inl e, b1) \<Rightarrow> b1
      | (Inr j, b1) \<Rightarrow>
          (case mark_processing en j b1 of
             (Inl e, b2) \<Rightarrow> b2
           | (Inr u, b2) \<Rightarrow> (case dispatch handlers j b2 of (out, b3) \<Rightarrow> snd (record_outcome en' j out b3))))"

end
