(* ===== verification/Job_Lifecycle.thy ===== *)
theory Job_Lifecycle
  imports Job_Queue Tenant_Rules
begin

text \<open>
  The job queue as a system of processes: servers that insert a row and then push its identifier, workers
  that take identifiers and run jobs, each statement a step of its own, and crashes between any two
  of them. A job is started at most once and its outcome is final.
\<close>

section \<open>Servers and workers\<close>

datatype phase = Idle | Taken job | Running job

record plant =
  pl_backlog :: backlog
  pl_pushing :: "string list"
  pl_worker :: "nat \<Rightarrow> phase"

inductive plant_step :: "plant \<Rightarrow> plant \<Rightarrow> bool" where
  inserted: "with_tenant_tx tid (insert_job (new_job en tid actor ty payload)) (pl_backlog p) = (Inr (), b) \<Longrightarrow>
    plant_step p (p\<lparr>pl_backlog := b, pl_pushing := e_uuid en 0 # pl_pushing p\<rparr>)"
| pushed: "x \<in> set (pl_pushing p) \<Longrightarrow> lpush up x (pl_backlog p) = (r, b) \<Longrightarrow>
    plant_step p (p\<lparr>pl_backlog := b, pl_pushing := remove1 x (pl_pushing p)\<rparr>)"
| server_crash: "plant_step p (p\<lparr>pl_pushing := remove1 x (pl_pushing p)\<rparr>)"
| took: "pl_worker p i = Idle \<Longrightarrow> dequeue up (pl_backlog p) = (Inr j, b) \<Longrightarrow>
    plant_step p (p\<lparr>pl_backlog := b, pl_worker := (pl_worker p)(i := Taken j)\<rparr>)"
| missed: "pl_worker p i = Idle \<Longrightarrow> dequeue up (pl_backlog p) = (Inl e, b) \<Longrightarrow>
    plant_step p (p\<lparr>pl_backlog := b\<rparr>)"
| started: "pl_worker p i = Taken j \<Longrightarrow> mark_processing en j (pl_backlog p) = (Inr (), b) \<Longrightarrow>
    plant_step p (p\<lparr>pl_backlog := b, pl_worker := (pl_worker p)(i := Running j)\<rparr>)"
| progressed: "pl_worker p i = Running j \<Longrightarrow> update_progress en j c t (pl_backlog p) = (r, b) \<Longrightarrow>
    plant_step p (p\<lparr>pl_backlog := b\<rparr>)"
| ended: "pl_worker p i = Running j \<Longrightarrow> record_outcome en j out (pl_backlog p) = (Inr (), b) \<Longrightarrow>
    plant_step p (p\<lparr>pl_backlog := b, pl_worker := (pl_worker p)(i := Idle)\<rparr>)"
| worker_crash: "plant_step p (p\<lparr>pl_worker := (pl_worker p)(i := Idle)\<rparr>)"
| elsewhere: "plant_step p (p\<lparr>pl_backlog := (pl_backlog p)\<lparr>bl_db := s\<rparr>\<rparr>)"

text \<open>Any number of steps.\<close>

inductive plant_run :: "plant \<Rightarrow> plant \<Rightarrow> bool" where
  here: "plant_run p p"
| further: "plant_run p q \<Longrightarrow> plant_step q r \<Longrightarrow> plant_run p r"

lemma plant_run_trans: "plant_run q r \<Longrightarrow> plant_run p q \<Longrightarrow> plant_run p r"
  by (induction rule: plant_run.induct) (auto intro: plant_run.intros)

definition start_plant :: "db \<Rightarrow> plant" where
  "start_plant s = \<lparr>pl_backlog = \<lparr>bl_db = s, bl_jobs = [], bl_list = []\<rparr>, pl_pushing = [], pl_worker = (\<lambda>i. Idle)\<rparr>"

section \<open>What the statements do\<close>

lemma insert_job_InrE:
  assumes "with_tenant_tx tid (insert_job j) b = (Inr x, b')"
  obtains "job_violation b j = None" "b' = b\<lparr>bl_jobs := bl_jobs b @ [j]\<rparr>"
  using assms unfolding insert_job_def by (elim with_tenant_tx_InrE) (auto simp: act_simps on_error_def fail_def writes_def split: option.splits)

lemma dequeue_cases:
  assumes "dequeue up b = (r, b')"
  shows "(b' = b \<and> isl r) \<or> (bl_list b \<noteq> [] \<and> b' = b\<lparr>bl_list := butlast (bl_list b)\<rparr> \<and>
    (\<forall>j. r = Inr j \<longrightarrow> j \<in> set (bl_jobs b) \<and> jb_id j = List.last (bl_list b)))"
  using assms
  by (cases "up \<and> bl_list b \<noteq> []"; cases "select_one (\<lambda>j. jb_id j = List.last (bl_list b)) (bl_jobs b)")
    (auto simp: dequeue_def and_then_def brpop_def get_job_unscoped_def reads_def found_def of_option_def
      fail_def ret_def dest: select_one_SomeD split: if_splits)

definition rewrite_job :: "env \<Rightarrow> job \<Rightarrow> (job \<Rightarrow> job) \<Rightarrow> backlog \<Rightarrow> backlog" where
  "rewrite_job en j f b = b\<lparr>bl_jobs := update_where (is_job_of (jb_tenant_id j) (jb_id j))
     (\<lambda>x. (f x)\<lparr>jb_updated_at := e_now en\<rparr>) (bl_jobs b)\<rparr>"

lemma update_job_run:
  "with_tenant_tx (jb_tenant_id j) (update_job en (jb_tenant_id j) (jb_id j) f) b = (r, b') \<Longrightarrow>
     (isl r \<and> b' = b) \<or> (r = Inr () \<and> (\<exists>x \<in> set (bl_jobs b). is_job_of (jb_tenant_id j) (jb_id j) x) \<and> b' = rewrite_job en j f b)"
  by (auto simp: select_def filter_empty_conv with_tenant_tx_def with_tx_def update_job_def and_then_def reads_def writes_def check_rows_def
      fail_def ret_def rewrite_job_def split: if_splits)

text \<open>Whatever the outcome, recording it puts the row into a final status with its end.\<close>

definition finished :: "env \<Rightarrow> outcome \<Rightarrow> job \<Rightarrow> job" where
  "finished en out j =
     (case out of
        Inl e \<Rightarrow> j\<lparr>jb_status := JobFailed, jb_result := None, jb_error := Some (error_text e), jb_finished_at := Some (e_now en)\<rparr>
      | Inr (res, msg) \<Rightarrow>
          if msg \<noteq> '''' then j\<lparr>jb_status := JobCompletedWithErrors, jb_result := res, jb_error := Some msg, jb_finished_at := Some (e_now en)\<rparr>
          else j\<lparr>jb_status := JobCompleted, jb_result := res, jb_error := None, jb_finished_at := Some (e_now en)\<rparr>)"

lemma record_outcome_run:
  assumes "record_outcome en j out b = (Inr (), b')"
  shows "b' = rewrite_job en j (finished en out) b \<and> (\<exists>x \<in> set (bl_jobs b). is_job_of (jb_tenant_id j) (jb_id j) x)"
proof (cases out)
  case (Inl e)
  with assms have "with_tenant_tx (jb_tenant_id j) (update_job en (jb_tenant_id j) (jb_id j) (finished en out)) b = (Inr (), b')"
    by (simp add: record_outcome_def mark_failed_def finish_row_def finished_def [abs_def])
  from update_job_run [OF this] show ?thesis by simp
next
  case (Inr x)
  obtain res msg where x: "x = (res, msg)" by (cases x)
  with assms Inr have "with_tenant_tx (jb_tenant_id j) (update_job en (jb_tenant_id j) (jb_id j) (finished en out)) b = (Inr (), b')"
    by (cases "msg = ''''")
      (simp_all add: record_outcome_def mark_completed_def mark_completed_with_errors_def finish_row_def finished_def [abs_def])
  from update_job_run [OF this] show ?thesis by simp
qed

lemma mark_processing_run:
  assumes "mark_processing en j b = (Inr (), b')"
  shows "b' = rewrite_job en j (\<lambda>j. j\<lparr>jb_status := JobProcessing, jb_started_at := Some (e_now en)\<rparr>) b \<and>
    (\<exists>x \<in> set (bl_jobs b). is_job_of (jb_tenant_id j) (jb_id j) x)"
  using update_job_run [OF assms [unfolded mark_processing_def mark_processing_row_def]] by simp

lemma update_progress_run:
  assumes "update_progress en j c t b = (r, b')"
  shows "b' = b \<or> b' = rewrite_job en j (\<lambda>j. j\<lparr>jb_progress_current := c, jb_progress_total := t\<rparr>) b"
  using update_job_run [OF assms [unfolded update_progress_def update_progress_row_def]] by blast

section \<open>The life of a job\<close>

definition final_status :: "string \<Rightarrow> bool" where
  "final_status st \<longleftrightarrow> st = JobCompleted \<or> st = JobCompletedWithErrors \<or> st = JobFailed"

text \<open>Instants and results fit the status.\<close>

definition job_ok :: "job \<Rightarrow> bool" where
  "job_ok j \<longleftrightarrow>
     (jb_status j = JobQueued \<and> jb_started_at j = None \<and> jb_finished_at j = None \<and> jb_result j = None \<and> jb_error j = None) \<or>
     (jb_status j = JobProcessing \<and> jb_started_at j \<noteq> None \<and> jb_finished_at j = None \<and> jb_result j = None \<and> jb_error j = None) \<or>
     (final_status (jb_status j) \<and> jb_started_at j \<noteq> None \<and> jb_finished_at j \<noteq> None \<and>
        (jb_error j = None \<longleftrightarrow> jb_status j = JobCompleted))"

definition has_status :: "backlog \<Rightarrow> string \<Rightarrow> string \<Rightarrow> bool" where
  "has_status b x st \<longleftrightarrow> (\<exists>j \<in> set (bl_jobs b). jb_id j = x \<and> jb_status j = st)"

definition held :: "phase \<Rightarrow> string option" where
  "held ph = (case ph of Idle \<Rightarrow> None | Taken j \<Rightarrow> Some (jb_id j) | Running j \<Rightarrow> Some (jb_id j))"

definition plant_ok :: "plant \<Rightarrow> bool" where
  "plant_ok p \<longleftrightarrow>
     unique_on job_pk (bl_jobs (pl_backlog p)) \<and> list_all job_ok (bl_jobs (pl_backlog p)) \<and>
     distinct (pl_pushing p @ bl_list (pl_backlog p)) \<and>
     (\<forall>x \<in> set (pl_pushing p) \<union> set (bl_list (pl_backlog p)). has_status (pl_backlog p) x JobQueued \<and>
        (\<forall>i. held (pl_worker p i) \<noteq> Some x)) \<and>
     (\<forall>i k x. held (pl_worker p i) = Some x \<longrightarrow> held (pl_worker p k) = Some x \<longrightarrow> i = k) \<and>
     (\<forall>i j. pl_worker p i = Taken j \<longrightarrow> has_status (pl_backlog p) (jb_id j) JobQueued) \<and>
     (\<forall>i j. pl_worker p i = Running j \<longrightarrow> has_status (pl_backlog p) (jb_id j) JobProcessing)"

lemma rewrite_simps [simp]:
  "bl_list (rewrite_job en j f b) = bl_list b" "bl_db (rewrite_job en j f b) = bl_db b"
  by (simp_all add: rewrite_job_def)

definition rewritten :: "env \<Rightarrow> job \<Rightarrow> (job \<Rightarrow> job) \<Rightarrow> job \<Rightarrow> job" where
  "rewritten en j f y =
     (if is_job_of (jb_tenant_id j) (jb_id j) y then (f y)\<lparr>jb_updated_at := e_now en\<rparr> else y)"

lemma rewrite_jobs: "set (bl_jobs (rewrite_job en j f b)) = rewritten en j f ` set (bl_jobs b)"
  by (auto simp: rewrite_job_def set_update_where rewritten_def)

text \<open>A rewriting that keeps what a job is.\<close>

definition same_job :: "job \<Rightarrow> job \<Rightarrow> bool" where
  "same_job x y \<longleftrightarrow> jb_id x = jb_id y \<and> jb_tenant_id x = jb_tenant_id y \<and> jb_type x = jb_type y \<and>
     jb_payload x = jb_payload y \<and> jb_created_by x = jb_created_by y \<and> jb_created_at x = jb_created_at y"

lemma rewritten_same: "(\<And>y. same_job (f y) y) \<Longrightarrow> same_job (rewritten en j f y) y"
  by (simp add: rewritten_def same_job_def)

lemma rewrite_unique:
  assumes "unique_on job_pk (bl_jobs b)" "\<And>y. same_job (f y) y"
  shows "unique_on job_pk (bl_jobs (rewrite_job en j f b))"
proof -
  have "jb_id ((f y)\<lparr>jb_updated_at := n\<rparr>) = jb_id y" for y n using assms(2) [of y] by (simp add: same_job_def)
  then show ?thesis
    unfolding rewrite_job_def by (simp add: unique_on_update_same_key [OF assms(1)] job_pk_def)
qed

lemma rewrite_other:
  assumes "x \<noteq> jb_id j" "\<And>y. same_job (f y) y"
  shows "has_status (rewrite_job en j f b) x st = has_status b x st"
proof -
  have "jb_id (rewritten en j f y) = x \<and> jb_status (rewritten en j f y) = st \<longleftrightarrow> jb_id y = x \<and> jb_status y = st" for y
    using rewritten_same [of f en j y] assms
    by (cases "is_job_of (jb_tenant_id j) (jb_id j) y") (auto simp: rewritten_def same_job_def is_job_of_def)
  then show ?thesis by (simp add: has_status_def rewrite_jobs)
qed

lemma rewrite_own:
  assumes "\<exists>x \<in> set (bl_jobs b). is_job_of (jb_tenant_id j) (jb_id j) x" "\<And>y. same_job (f y) y" "\<And>y. jb_status (f y) = st"
  shows "has_status (rewrite_job en j f b) (jb_id j) st"
proof -
  from assms(1) obtain x where x: "x \<in> set (bl_jobs b)" "is_job_of (jb_tenant_id j) (jb_id j) x" by blast
  then have "jb_id (rewritten en j f x) = jb_id j \<and> jb_status (rewritten en j f x) = st"
    using assms(2) [of x] assms(3) by (simp add: rewritten_def same_job_def is_job_of_def)
  with x(1) show ?thesis unfolding has_status_def rewrite_jobs by blast
qed

lemma has_status_unique:
  "unique_on job_pk (bl_jobs b) \<Longrightarrow> has_status b x st \<Longrightarrow> has_status b x st' \<Longrightarrow> st = st'"
  unfolding has_status_def
proof (elim bexE conjE)
  fix y z assume "unique_on job_pk (bl_jobs b)" "y \<in> set (bl_jobs b)" "z \<in> set (bl_jobs b)"
    "jb_id y = x" "jb_status y = st" "jb_id z = x" "jb_status z = st'"
  then have "y = z" using unique_on_sel [of job_pk "bl_jobs b" y z] by (simp add: job_pk_def)
  with \<open>jb_status y = st\<close> \<open>jb_status z = st'\<close> show "st = st'" by simp
qed

text \<open>How a row may change.\<close>

definition row_step :: "job \<Rightarrow> job \<Rightarrow> bool" where
  "row_step y x \<longleftrightarrow> same_job x y \<and> (final_status (jb_status y) \<longrightarrow> x = y) \<and>
     (jb_status x = jb_status y \<or> jb_status y = JobQueued \<and> jb_status x = JobProcessing \<or>
      jb_status y = JobProcessing \<and> final_status (jb_status x))"

definition rows_step :: "backlog \<Rightarrow> backlog \<Rightarrow> bool" where
  "rows_step b b' \<longleftrightarrow> (\<forall>y \<in> set (bl_jobs b). \<exists>x \<in> set (bl_jobs b'). row_step y x)"

lemma row_step_refl: "row_step y y"
  by (simp add: row_step_def same_job_def)

lemma rows_step_same: "set (bl_jobs b) \<subseteq> set (bl_jobs b') \<Longrightarrow> rows_step b b'"
  unfolding rows_step_def using row_step_refl by blast

lemma plant_okD:
  assumes "plant_ok p"
  shows "unique_on job_pk (bl_jobs (pl_backlog p))" "y \<in> set (bl_jobs (pl_backlog p)) \<Longrightarrow> job_ok y"
    "distinct (pl_pushing p @ bl_list (pl_backlog p))"
    "x \<in> set (pl_pushing p) \<union> set (bl_list (pl_backlog p)) \<Longrightarrow> has_status (pl_backlog p) x JobQueued"
    "x \<in> set (pl_pushing p) \<union> set (bl_list (pl_backlog p)) \<Longrightarrow> held (pl_worker p i) \<noteq> Some x"
    "held (pl_worker p i) = Some x \<Longrightarrow> held (pl_worker p k) = Some x \<Longrightarrow> i = k"
    "pl_worker p i = Taken j \<Longrightarrow> has_status (pl_backlog p) (jb_id j) JobQueued"
    "pl_worker p i = Running j \<Longrightarrow> has_status (pl_backlog p) (jb_id j) JobProcessing"
  using assms by (simp_all add: plant_ok_def list_all_iff)

text \<open>A worker rewrites the row of the job it holds.\<close>

lemma worker_rewrites:
  assumes ok: "plant_ok p" and i: "held (pl_worker p i) = Some (jb_id j)"
    and st: "has_status (pl_backlog p) (jb_id j) st"
    and f: "\<And>y. same_job (f y) y" "\<And>y. job_ok y \<Longrightarrow> jb_status y = st \<Longrightarrow> job_ok ((f y)\<lparr>jb_updated_at := e_now en\<rparr>)"
    and steps: "\<And>y. jb_status y = st \<Longrightarrow> row_step y ((f y)\<lparr>jb_updated_at := e_now en\<rparr>)"
    and ph: "ph = Idle \<or> ph = Running j \<and> has_status (rewrite_job en j f (pl_backlog p)) (jb_id j) JobProcessing"
  shows "plant_ok (p\<lparr>pl_backlog := rewrite_job en j f (pl_backlog p), pl_worker := (pl_worker p)(i := ph)\<rparr>) \<and>
    rows_step (pl_backlog p) (rewrite_job en j f (pl_backlog p))"
proof -
  let ?b = "pl_backlog p" and ?b' = "rewrite_job en j f (pl_backlog p)"
  have row: "jb_status y = st" if "y \<in> set (bl_jobs ?b)" "jb_id y = jb_id j" for y
    using has_status_unique [OF plant_okD(1) [OF ok] st, of "jb_status y"] that unfolding has_status_def by blast
  have good: "job_ok (rewritten en j f y) \<and> row_step y (rewritten en j f y)" if "y \<in> set (bl_jobs ?b)" for y
    using plant_okD(2) [OF ok that] f(2) [of y] steps [of y] row [OF that] row_step_refl [of y]
    by (simp add: rewritten_def is_job_of_def)
  have other: "has_status ?b' x t = has_status ?b x t" if "x \<noteq> jb_id j" for x t
    using rewrite_other [OF that f(1)] .
  have free: "x \<noteq> jb_id j" if "x \<in> set (pl_pushing p) \<union> set (bl_list ?b)" for x
    using plant_okD(5) [OF ok that, of i] i by auto
  have alone: "held (pl_worker p k) = Some (jb_id j) \<Longrightarrow> k = i" for k
    using plant_okD(6) [OF ok i] by blast
  have away: "jb_id j' \<noteq> jb_id j" if "pl_worker p k = Taken j' \<or> pl_worker p k = Running j'" "k \<noteq> i" for k j'
    using alone [of k] that by (auto simp: held_def)
  have held': "held (((pl_worker p)(i := ph)) k) = (if k = i \<and> ph = Idle then None else held (pl_worker p k))" for k
    using ph i by (auto simp: held_def)
  let ?q = "p\<lparr>pl_backlog := ?b', pl_worker := (pl_worker p)(i := ph)\<rparr>"
  have q: "pl_backlog ?q = ?b'" "pl_pushing ?q = pl_pushing p" "pl_worker ?q = (pl_worker p)(i := ph)" by simp_all
  have "plant_ok ?q"
    unfolding plant_ok_def q
  proof (intro conjI)
    show "unique_on job_pk (bl_jobs ?b')" using plant_okD(1) [OF ok] f(1) by (rule rewrite_unique)
    show "list_all job_ok (bl_jobs ?b')" using good by (auto simp: list_all_iff rewrite_jobs)
    show "distinct (pl_pushing p @ bl_list ?b')" using plant_okD(3) [OF ok] by simp
    show "\<forall>x\<in>set (pl_pushing p) \<union> set (bl_list ?b'). has_status ?b' x JobQueued \<and>
        (\<forall>k. held (((pl_worker p)(i := ph)) k) \<noteq> Some x)"
      unfolding held' rewrite_simps using plant_okD(4,5) [OF ok] free other by auto
    show "\<forall>k l x. held (((pl_worker p)(i := ph)) k) = Some x \<longrightarrow> held (((pl_worker p)(i := ph)) l) = Some x \<longrightarrow> k = l"
      unfolding held' using plant_okD(6) [OF ok] by (metis option.distinct(1))
    show "\<forall>k j'. ((pl_worker p)(i := ph)) k = Taken j' \<longrightarrow> has_status ?b' (jb_id j') JobQueued"
    proof (intro allI impI)
      fix k j' assume k: "((pl_worker p)(i := ph)) k = Taken j'"
      with ph have "k \<noteq> i" by auto
      with k have taken: "pl_worker p k = Taken j'" by simp
      with \<open>k \<noteq> i\<close> show "has_status ?b' (jb_id j') JobQueued"
        using other [OF away [of k j']] plant_okD(7) [OF ok taken] by simp
    qed
    show "\<forall>k j'. ((pl_worker p)(i := ph)) k = Running j' \<longrightarrow> has_status ?b' (jb_id j') JobProcessing"
    proof (intro allI impI)
      fix k j' assume k: "((pl_worker p)(i := ph)) k = Running j'"
      show "has_status ?b' (jb_id j') JobProcessing"
      proof (cases "k = i")
        case True
        with k ph show ?thesis by auto
      next
        case False
        with k have running: "pl_worker p k = Running j'" by simp
        with False show ?thesis using other [OF away [of k j']] plant_okD(8) [OF ok running] by simp
      qed
    qed
  qed
  moreover have "rows_step ?b ?b'" unfolding rows_step_def rewrite_jobs using good by blast
  ultimately show ?thesis ..
qed

text \<open>Other steps: the jobs grow at most, the waiting identifiers shrink or gain a fresh one.\<close>

lemma waiting_shrinks:
  assumes ok: "plant_ok p" and jobs: "bl_jobs b = bl_jobs (pl_backlog p)"
    and waiting: "distinct (w @ bl_list b)" "set w \<union> set (bl_list b) \<subseteq> set (pl_pushing p) \<union> set (bl_list (pl_backlog p))"
  shows "plant_ok (p\<lparr>pl_backlog := b, pl_pushing := w\<rparr>) \<and> rows_step (pl_backlog p) b"
proof -
  have st: "has_status b x t = has_status (pl_backlog p) x t" for x t by (simp add: has_status_def jobs)
  let ?q = "p\<lparr>pl_backlog := b, pl_pushing := w\<rparr>"
  have q: "pl_backlog ?q = b" "pl_pushing ?q = w" "pl_worker ?q = pl_worker p" by simp_all
  have "plant_ok ?q"
    unfolding plant_ok_def q st jobs
    using ok waiting unfolding plant_ok_def by blast
  then show ?thesis by (simp add: rows_step_same jobs)
qed

lemma worker_drops:
  assumes "plant_ok p"
  shows "plant_ok (p\<lparr>pl_worker := (pl_worker p)(i := Idle)\<rparr>)"
proof -
  let ?q = "p\<lparr>pl_worker := (pl_worker p)(i := Idle)\<rparr>"
  have q: "pl_backlog ?q = pl_backlog p" "pl_pushing ?q = pl_pushing p" "pl_worker ?q = (pl_worker p)(i := Idle)" by simp_all
  have less: "held (((pl_worker p)(i := Idle)) k) = Some x \<Longrightarrow> held (pl_worker p k) = Some x" for k x
    by (simp add: held_def split: if_splits)
  have idle: "((pl_worker p)(i := Idle)) k = ph \<Longrightarrow> ph \<noteq> Idle \<Longrightarrow> pl_worker p k = ph" for k ph
    by (simp split: if_splits)
  show ?thesis
    unfolding plant_ok_def q
  proof (intro conjI)
    show "\<forall>x\<in>set (pl_pushing p) \<union> set (bl_list (pl_backlog p)). has_status (pl_backlog p) x JobQueued \<and>
        (\<forall>k. held (((pl_worker p)(i := Idle)) k) \<noteq> Some x)"
      using plant_okD(4,5) [OF assms] less by blast
    show "\<forall>k l x. held (((pl_worker p)(i := Idle)) k) = Some x \<longrightarrow> held (((pl_worker p)(i := Idle)) l) = Some x \<longrightarrow> k = l"
      using plant_okD(6) [OF assms] less by blast
    show "\<forall>k j. ((pl_worker p)(i := Idle)) k = Taken j \<longrightarrow> has_status (pl_backlog p) (jb_id j) JobQueued"
      using plant_okD(7) [OF assms] idle by blast
    show "\<forall>k j. ((pl_worker p)(i := Idle)) k = Running j \<longrightarrow> has_status (pl_backlog p) (jb_id j) JobProcessing"
      using plant_okD(8) [OF assms] idle by blast
    show "list_all job_ok (bl_jobs (pl_backlog p))" using plant_okD(2) [OF assms] by (simp add: list_all_iff)
  qed (use plant_okD(1,3) [OF assms] in simp_all)
qed

lemma worker_takes:
  assumes ok: "plant_ok p" and j: "j \<in> set (bl_jobs (pl_backlog p))" "jb_id j = List.last (bl_list (pl_backlog p))"
    and ne: "bl_list (pl_backlog p) \<noteq> []" and idle: "pl_worker p i = Idle"
  shows "plant_ok (p\<lparr>pl_backlog := (pl_backlog p)\<lparr>bl_list := butlast (bl_list (pl_backlog p))\<rparr>,
    pl_worker := (pl_worker p)(i := Taken j)\<rparr>)"
proof -
  let ?b = "(pl_backlog p)\<lparr>bl_list := butlast (bl_list (pl_backlog p))\<rparr>"
  let ?q = "p\<lparr>pl_backlog := ?b, pl_worker := (pl_worker p)(i := Taken j)\<rparr>"
  have q: "pl_backlog ?q = ?b" "pl_pushing ?q = pl_pushing p" "pl_worker ?q = (pl_worker p)(i := Taken j)" by simp_all
  obtain xs where xs: "bl_list (pl_backlog p) = xs @ [jb_id j]"
    using ne j(2) by (metis append_butlast_last_id)
  have st: "has_status ?b x t = has_status (pl_backlog p) x t" for x t by (simp add: has_status_def)
  have wait: "jb_id j \<in> set (pl_pushing p) \<union> set (bl_list (pl_backlog p))" by (simp add: xs)
  note nobody = plant_okD(5) [OF ok wait]
  have held': "held (((pl_worker p)(i := Taken j)) k) = (if k = i then Some (jb_id j) else held (pl_worker p k))" for k
    by (simp add: held_def)
  have d: "distinct (pl_pushing p @ xs)" "jb_id j \<notin> set (pl_pushing p) \<union> set xs"
    using plant_okD(3) [OF ok] by (auto simp: xs)
  show ?thesis
    unfolding plant_ok_def q st held'
  proof (intro conjI)
    show "\<forall>x\<in>set (pl_pushing p) \<union> set (bl_list ?b). has_status (pl_backlog p) x JobQueued \<and>
        (\<forall>k. (if k = i then Some (jb_id j) else held (pl_worker p k)) \<noteq> Some x)"
      using plant_okD(4,5) [OF ok] d by (auto simp: xs)
    show "\<forall>k l x. (if k = i then Some (jb_id j) else held (pl_worker p k)) = Some x \<longrightarrow>
        (if l = i then Some (jb_id j) else held (pl_worker p l)) = Some x \<longrightarrow> k = l"
      using plant_okD(6) [OF ok] nobody by (auto split: if_splits)
    show "\<forall>k j'. ((pl_worker p)(i := Taken j)) k = Taken j' \<longrightarrow> has_status (pl_backlog p) (jb_id j') JobQueued"
      using plant_okD(4) [OF ok wait] plant_okD(7) [OF ok] by (auto split: if_splits)
    show "\<forall>k j'. ((pl_worker p)(i := Taken j)) k = Running j' \<longrightarrow> has_status (pl_backlog p) (jb_id j') JobProcessing"
      using plant_okD(8) [OF ok] by (auto split: if_splits)
    show "unique_on job_pk (bl_jobs ?b)" using plant_okD(1) [OF ok] by simp
    show "list_all job_ok (bl_jobs ?b)" using plant_okD(2) [OF ok] by (simp add: list_all_iff)
    show "distinct (pl_pushing p @ bl_list ?b)" using d(1) by (simp add: xs)
  qed
qed

lemma row_inserted:
  assumes ok: "plant_ok p" and v: "job_violation (pl_backlog p) (new_job en tid actor ty payload) = None"
    and b: "b = (pl_backlog p)\<lparr>bl_jobs := bl_jobs (pl_backlog p) @ [new_job en tid actor ty payload]\<rparr>"
  shows "plant_ok (p\<lparr>pl_backlog := b, pl_pushing := e_uuid en 0 # pl_pushing p\<rparr>) \<and> rows_step (pl_backlog p) b"
proof -
  let ?n = "new_job en tid actor ty payload" and ?x = "e_uuid en 0"
  let ?q = "p\<lparr>pl_backlog := b, pl_pushing := ?x # pl_pushing p\<rparr>"
  have q: "pl_backlog ?q = b" "pl_pushing ?q = ?x # pl_pushing p" "pl_worker ?q = pl_worker p" by simp_all
  have fresh: "\<not> taken job_pk (bl_jobs (pl_backlog p)) ?n" using v by (auto simp: job_violation_def split: if_splits)
  then have unused: "\<not> has_status (pl_backlog p) ?x t" for t
    by (auto simp: has_status_def taken_def list_ex_iff job_pk_def new_job_def)
  have st: "has_status b x t \<longleftrightarrow> has_status (pl_backlog p) x t \<or> x = ?x \<and> t = JobQueued" for x t
    by (auto simp: has_status_def b new_job_def)
  have "?x \<notin> set (pl_pushing p) \<union> set (bl_list (pl_backlog p))" using plant_okD(4) [OF ok] unused by blast
  moreover have "held (pl_worker p i) \<noteq> Some ?x" for i
    using plant_okD(7,8) [OF ok, of i] unused by (cases "pl_worker p i") (auto simp: held_def)
  moreover have "job_ok ?n" by (simp add: job_ok_def new_job_def)
  moreover have "unique_on job_pk (bl_jobs b)"
    using plant_okD(1) [OF ok] fresh by (auto simp: b unique_on_append_one taken_def list_ex_iff list_all_iff)
  ultimately have "plant_ok ?q"
    unfolding plant_ok_def q st using ok unfolding plant_ok_def by (auto simp: b)
  moreover have "rows_step (pl_backlog p) b" by (rule rows_step_same) (auto simp: b)
  ultimately show ?thesis ..
qed

lemma plant_step_ok:
  assumes "plant_step p q" "plant_ok p"
  shows "plant_ok q \<and> rows_step (pl_backlog p) (pl_backlog q)"
  using assms
proof (cases rule: plant_step.cases)
  case (inserted tid en actor ty payload b)
  from inserted(2) show ?thesis by (rule insert_job_InrE) (use inserted row_inserted [OF assms(2)] in simp)
next
  case (pushed x up r b)
  from pushed(3) have b: "b = pl_backlog p \<or> b = (pl_backlog p)\<lparr>bl_list := x # bl_list (pl_backlog p)\<rparr>"
    by (auto simp: lpush_def guard_def fail_def writes_def split: if_splits)
  have d: "distinct (pl_pushing p @ bl_list (pl_backlog p))" using plant_okD(3) [OF assms(2)] .
  have "distinct (remove1 x (pl_pushing p) @ bl_list b)"
    "set (remove1 x (pl_pushing p)) \<union> set (bl_list b) \<subseteq> set (pl_pushing p) \<union> set (bl_list (pl_backlog p))"
    "bl_jobs b = bl_jobs (pl_backlog p)"
    using b d pushed(2) set_remove1_subset [of x "pl_pushing p"] by (auto simp: set_remove1_eq)
  from waiting_shrinks [OF assms(2) this(3,1,2)] pushed(1) show ?thesis by simp
next
  case (server_crash x)
  have "distinct (remove1 x (pl_pushing p) @ bl_list (pl_backlog p))"
    "set (remove1 x (pl_pushing p)) \<union> set (bl_list (pl_backlog p)) \<subseteq> set (pl_pushing p) \<union> set (bl_list (pl_backlog p))"
    using plant_okD(3) [OF assms(2)] set_remove1_subset [of x "pl_pushing p"] by auto
  from waiting_shrinks [OF assms(2) refl this] server_crash show ?thesis by simp
next
  case (took i up j b)
  from dequeue_cases [OF took(3)] have b: "bl_list (pl_backlog p) \<noteq> []"
    "b = (pl_backlog p)\<lparr>bl_list := butlast (bl_list (pl_backlog p))\<rparr>" "j \<in> set (bl_jobs (pl_backlog p))"
    "jb_id j = List.last (bl_list (pl_backlog p))" by auto
  from worker_takes [OF assms(2) b(3,4,1) took(2)] took(1) b(2) show ?thesis by (simp add: rows_step_same)
next
  case (missed i up e b)
  from dequeue_cases [OF missed(3)] have b: "b = pl_backlog p \<or> b = (pl_backlog p)\<lparr>bl_list := butlast (bl_list (pl_backlog p))\<rparr>" by auto
  have "distinct (pl_pushing p @ bl_list b)" "bl_jobs b = bl_jobs (pl_backlog p)"
    "set (pl_pushing p) \<union> set (bl_list b) \<subseteq> set (pl_pushing p) \<union> set (bl_list (pl_backlog p))"
    using b plant_okD(3) [OF assms(2)] in_set_butlastD [of _ "bl_list (pl_backlog p)"]
    by (auto simp: distinct_butlast)
  from waiting_shrinks [OF assms(2) this(2,1,3)] missed(1) show ?thesis by simp
next
  case (started i j en b)
  let ?f = "\<lambda>j. j\<lparr>jb_status := JobProcessing, jb_started_at := Some (e_now en)\<rparr>"
  note run = mark_processing_run [OF started(3)]
  have same: "same_job (?f y) y" for y by (simp add: same_job_def)
  have held: "held (pl_worker p i) = Some (jb_id j)" by (simp add: held_def started(2))
  have ok: "job_ok y \<Longrightarrow> jb_status y = JobQueued \<Longrightarrow> job_ok ((?f y)\<lparr>jb_updated_at := e_now en\<rparr>)" for y
    by (simp add: job_ok_def final_status_def)
  have st: "jb_status y = JobQueued \<Longrightarrow> row_step y ((?f y)\<lparr>jb_updated_at := e_now en\<rparr>)" for y
    by (simp add: row_step_def same_job_def final_status_def)
  have keep: "has_status (rewrite_job en j ?f (pl_backlog p)) (jb_id j) JobProcessing"
    by (rule rewrite_own [OF conjunct2 [OF run] same]) simp
  have ph: "Running j = Idle \<or> Running j = Running j \<and> has_status (rewrite_job en j ?f (pl_backlog p)) (jb_id j) JobProcessing"
    using keep by blast
  have q: "pl_backlog q = rewrite_job en j ?f (pl_backlog p)" unfolding started(1) conjunct1 [OF run] by simp
  from worker_rewrites [OF assms(2) held plant_okD(7) [OF assms(2) started(2)] same ok st ph]
  show ?thesis unfolding q unfolding started(1) conjunct1 [OF run] .
next
  case (progressed i j en c t r b)
  let ?f = "\<lambda>j. j\<lparr>jb_progress_current := c, jb_progress_total := t\<rparr>"
  have same: "same_job (?f y) y" for y by (simp add: same_job_def)
  from update_progress_run [OF progressed(3)] show ?thesis
  proof
    assume "b = pl_backlog p"
    with progressed(1) assms(2) show ?thesis by (simp add: rows_step_same)
  next
    assume b: "b = rewrite_job en j ?f (pl_backlog p)"
    note st = plant_okD(8) [OF assms(2) progressed(2)]
    then obtain y where y: "y \<in> set (bl_jobs (pl_backlog p))" "jb_id y = jb_id j" "jb_status y = JobProcessing"
      unfolding has_status_def by blast
    have "jb_id (rewritten en j ?f y) = jb_id j \<and> jb_status (rewritten en j ?f y) = JobProcessing"
      using y(2,3) by (simp add: rewritten_def)
    with y(1) have keep: "has_status (rewrite_job en j ?f (pl_backlog p)) (jb_id j) JobProcessing"
      unfolding has_status_def rewrite_jobs by blast
    have "(pl_worker p)(i := Running j) = pl_worker p" using progressed(2) by (simp add: fun_upd_idem)
    then have "p\<lparr>pl_backlog := b, pl_worker := (pl_worker p)(i := Running j)\<rparr> = q" using progressed(1) by simp
    note q = this
    have held: "held (pl_worker p i) = Some (jb_id j)" by (simp add: held_def progressed(2))
    have ok: "job_ok y \<Longrightarrow> jb_status y = JobProcessing \<Longrightarrow> job_ok ((?f y)\<lparr>jb_updated_at := e_now en\<rparr>)" for y
      by (simp add: job_ok_def final_status_def)
    have step: "jb_status y = JobProcessing \<Longrightarrow> row_step y ((?f y)\<lparr>jb_updated_at := e_now en\<rparr>)" for y
      by (simp add: row_step_def same_job_def final_status_def)
    have ph: "Running j = Idle \<or> Running j = Running j \<and> has_status (rewrite_job en j ?f (pl_backlog p)) (jb_id j) JobProcessing"
      using keep by blast
    have q': "pl_backlog q = rewrite_job en j ?f (pl_backlog p)" unfolding progressed(1) b by simp
    from worker_rewrites [OF assms(2) held st same ok step ph]
    show ?thesis unfolding q' unfolding q [symmetric] b .
  qed
next
  case (ended i j en out b)
  note run = record_outcome_run [OF ended(3)]
  have same: "same_job (finished en out y) y" for y by (simp add: same_job_def finished_def split: sum.splits prod.splits)
  have held: "held (pl_worker p i) = Some (jb_id j)" by (simp add: held_def ended(2))
  have st: "jb_status y = JobProcessing \<Longrightarrow> row_step y ((finished en out y)\<lparr>jb_updated_at := e_now en\<rparr>)" for y
    by (simp add: row_step_def same_job_def final_status_def finished_def split: sum.splits prod.splits)
  have ok: "job_ok y \<Longrightarrow> jb_status y = JobProcessing \<Longrightarrow> job_ok ((finished en out y)\<lparr>jb_updated_at := e_now en\<rparr>)" for y
    by (simp add: job_ok_def final_status_def finished_def split: sum.splits prod.splits)
  have q: "pl_backlog q = rewrite_job en j (finished en out) (pl_backlog p)"
    unfolding ended(1) conjunct1 [OF run] by simp
  from worker_rewrites [OF assms(2) held plant_okD(8) [OF assms(2) ended(2)] same ok st disjI1 [OF refl]]
  show ?thesis unfolding q unfolding ended(1) conjunct1 [OF run] .
next
  case (worker_crash i)
  with worker_drops [OF assms(2)] show ?thesis by (simp add: rows_step_same)
next
  case (elsewhere s)
  let ?b = "(pl_backlog p)\<lparr>bl_db := s\<rparr>"
  have b: "bl_jobs ?b = bl_jobs (pl_backlog p)" "bl_list ?b = bl_list (pl_backlog p)" by simp_all
  have "distinct (pl_pushing p @ bl_list ?b)" unfolding b by (rule plant_okD(3) [OF assms(2)])
  from waiting_shrinks [OF assms(2) b(1) this] have "plant_ok (p\<lparr>pl_backlog := ?b, pl_pushing := pl_pushing p\<rparr>)"
    "rows_step (pl_backlog p) ?b" unfolding b by blast+
  then show ?thesis unfolding elsewhere by simp
qed

section \<open>What holds of every plant\<close>

definition later_row :: "job \<Rightarrow> job \<Rightarrow> bool" where
  "later_row y x \<longleftrightarrow> same_job x y \<and> (final_status (jb_status y) \<longrightarrow> x = y) \<and>
     (jb_status y \<noteq> JobQueued \<longrightarrow> jb_status x \<noteq> JobQueued)"

lemma row_step_later: "row_step y x \<Longrightarrow> later_row y x"
  by (auto simp: row_step_def later_row_def final_status_def)

lemma later_row_trans: "later_row x y \<Longrightarrow> later_row y z \<Longrightarrow> later_row x z"
  by (auto simp: later_row_def same_job_def)

lemma plant_run_keeps:
  assumes "plant_run p q" "plant_ok p"
  shows "plant_ok q \<and> (\<forall>y \<in> set (bl_jobs (pl_backlog p)). \<exists>x \<in> set (bl_jobs (pl_backlog q)). later_row y x)"
  using assms
proof (induction rule: plant_run.induct)
  case (here p)
  have "later_row y y" for y by (rule row_step_later [OF row_step_refl])
  with here show ?case by blast
next
  case (further p q r)
  from further.IH [OF further.prems] have ok: "plant_ok q"
    and first: "\<forall>y \<in> set (bl_jobs (pl_backlog p)). \<exists>x \<in> set (bl_jobs (pl_backlog q)). later_row y x" by simp_all
  from plant_step_ok [OF further.hyps(2) ok] have step: "plant_ok r"
    "\<forall>y \<in> set (bl_jobs (pl_backlog q)). \<exists>x \<in> set (bl_jobs (pl_backlog r)). row_step y x"
    by (simp_all add: rows_step_def)
  from first step(2) have "\<forall>y \<in> set (bl_jobs (pl_backlog p)). \<exists>x \<in> set (bl_jobs (pl_backlog r)). later_row y x"
    by (meson row_step_later later_row_trans)
  with step(1) show ?case ..
qed

lemma start_plant_ok: "plant_ok (start_plant s)"
  by (simp add: plant_ok_def start_plant_def held_def)

text \<open>C18: a job is started at most once: whatever servers and workers do, in any interleaving of their
statements and with any crashes, once a worker has marked a job as processing no worker ever takes that
job again, and its identifier does not come back into the list.\<close>

theorem job_started_once:
  assumes "plant_run (start_plant s) p" and "pl_worker p i = Taken j"
    and "mark_processing en j (pl_backlog p) = (Inr (), b)"
    and "plant_run (p\<lparr>pl_backlog := b, pl_worker := (pl_worker p)(i := Running j)\<rparr>) q"
  shows "(\<forall>k j'. pl_worker q k = Taken j' \<longrightarrow> jb_id j' \<noteq> jb_id j) \<and> jb_id j \<notin> set (bl_list (pl_backlog q))"
proof -
  let ?p' = "p\<lparr>pl_backlog := b, pl_worker := (pl_worker p)(i := Running j)\<rparr>"
  have ok: "plant_ok ?p'"
    using plant_run_keeps [OF assms(1) start_plant_ok] plant_step_ok [OF plant_step.started [OF assms(2,3)]] by blast
  have "has_status b (jb_id j) JobProcessing" using plant_okD(8) [OF ok, of i j] by simp
  then obtain y where y: "y \<in> set (bl_jobs b)" "jb_id y = jb_id j" "jb_status y = JobProcessing"
    unfolding has_status_def by blast
  from plant_run_keeps [OF assms(4) ok] y(1) obtain x where q: "plant_ok q"
    and x: "x \<in> set (bl_jobs (pl_backlog q))" "later_row y x" by auto
  have st: "has_status (pl_backlog q) (jb_id j) (jb_status x)" "jb_status x \<noteq> JobQueued"
    using x y(2,3) by (auto simp: has_status_def later_row_def same_job_def)
  have "\<not> has_status (pl_backlog q) (jb_id j) JobQueued"
    using has_status_unique [OF plant_okD(1) [OF q] st(1)] st(2) by blast
  then show ?thesis using plant_okD(4,7) [OF q] by (metis UnCI)
qed

text \<open>The record of a job never goes back: in every reachable plant a job's instants, result and error
fit its status (a queued one has none, a finished one has both instants, and an error exactly when it
was not a full success); a row is never lost and keeps its identity, tenant, type and payload; and once
the outcome is recorded the row never changes again.\<close>

theorem job_outcome_final:
  assumes "plant_run (start_plant s) p" and "plant_run p q"
  shows "list_all job_ok (bl_jobs (pl_backlog q)) \<and>
    (\<forall>y \<in> set (bl_jobs (pl_backlog p)). \<exists>x \<in> set (bl_jobs (pl_backlog q)). same_job x y \<and>
       (final_status (jb_status y) \<longrightarrow> x = y))"
proof -
  have p: "plant_ok p" using plant_run_keeps [OF assms(1) start_plant_ok] ..
  from plant_run_keeps [OF assms(2) p] have q: "plant_ok q"
    and rows: "\<forall>y \<in> set (bl_jobs (pl_backlog p)). \<exists>x \<in> set (bl_jobs (pl_backlog q)). later_row y x" by simp_all
  have "list_all job_ok (bl_jobs (pl_backlog q))" using plant_okD(2) [OF q] by (simp add: list_all_iff)
  with rows show ?thesis unfolding later_row_def by blast
qed

section \<open>The loop of a worker\<close>

text \<open>A handler that touches the table of jobs only to report its progress.\<close>

inductive reports :: "job \<Rightarrow> backlog \<Rightarrow> backlog \<Rightarrow> bool" where
  silent: "reports j b b"
| report: "reports j b b' \<Longrightarrow> update_progress en j c t b' = (r, b'') \<Longrightarrow> reports j b b''"
| other_work: "reports j b b' \<Longrightarrow> reports j b (b'\<lparr>bl_db := s\<rparr>)"

lemma reports_run:
  assumes "reports j b b'" "pl_worker p i = Running j" "pl_backlog p = b"
  shows "plant_run p (p\<lparr>pl_backlog := b'\<rparr>)"
  using assms
proof (induction rule: reports.induct)
  case (silent j b)
  then have "p\<lparr>pl_backlog := b\<rparr> = p" by simp
  then show ?case by (simp add: plant_run.here)
next
  case (report j b b' en c t r b'')
  then have "plant_run p (p\<lparr>pl_backlog := b'\<rparr>)" by simp
  moreover have "plant_step (p\<lparr>pl_backlog := b'\<rparr>) ((p\<lparr>pl_backlog := b'\<rparr>)\<lparr>pl_backlog := b''\<rparr>)"
    by (rule plant_step.progressed [where i = i and j = j and en = en and c = c and t = t and r = r])
      (use report in simp_all)
  ultimately show ?case by (auto intro: plant_run.further)
next
  case (other_work j b b' s)
  then have "plant_run p (p\<lparr>pl_backlog := b'\<rparr>)" by simp
  moreover have "plant_step (p\<lparr>pl_backlog := b'\<rparr>) ((p\<lparr>pl_backlog := b'\<rparr>)\<lparr>pl_backlog := (pl_backlog (p\<lparr>pl_backlog := b'\<rparr>))\<lparr>bl_db := s\<rparr>\<rparr>)"
    by (rule plant_step.elsewhere)
  ultimately show ?case by (auto intro: plant_run.further)
qed

lemma record_outcome_Inl: "record_outcome en j out b = (Inl e, b') \<Longrightarrow> b' = b"
  by (auto simp: record_outcome_def mark_failed_def mark_completed_def mark_completed_with_errors_def
      dest: with_tenant_tx_error split: sum.splits prod.splits if_splits)

text \<open>C19: a round of the worker's loop is a run of the plant: whether it finds nothing, loses the row,
fails to mark the job, has no handler, or runs it and records one of the three outcomes, successfully or
not, what it does to the tables and the list is a sequence of the steps for which the other properties
hold.\<close>

theorem work_round_refines:
  assumes "pl_worker p i = Idle"
    and "\<And>ty h j b out b'. handlers ty = Some h \<Longrightarrow> h j b = (out, b') \<Longrightarrow> reports j b b'"
  shows "plant_run p (p\<lparr>pl_backlog := work_round up en en' handlers (pl_backlog p)\<rparr>)"
proof -
  let ?b = "pl_backlog p"
  have idle: "(pl_worker p)(i := Idle) = pl_worker p" using assms(1) by (simp add: fun_upd_idem)
  have reset: "p\<lparr>pl_backlog := x, pl_worker := (pl_worker p)(i := Idle)\<rparr> = p\<lparr>pl_backlog := x\<rparr>" for x
    unfolding idle by (cases p) simp
  obtain d b1 where deq: "dequeue up ?b = (d, b1)" by (metis prod.exhaust)
  show ?thesis
  proof (cases d)
    case (Inl e)
    have "plant_step p (p\<lparr>pl_backlog := b1\<rparr>)" using plant_step.missed [OF assms(1)] deq Inl by blast
    then show ?thesis using deq Inl plant_run.further [OF plant_run.here] by (simp add: work_round_def)
  next
    case (Inr j)
    let ?p1 = "p\<lparr>pl_backlog := b1, pl_worker := (pl_worker p)(i := Taken j)\<rparr>"
    have run1: "plant_run p ?p1"
      using plant_step.took [OF assms(1)] deq Inr plant_run.further [OF plant_run.here] by blast
    obtain m b2 where mark: "mark_processing en j b1 = (m, b2)" by (metis prod.exhaust)
    show ?thesis
    proof (cases m)
      case Inl': (Inl e)
      have "b2 = b1" using mark Inl' with_tenant_tx_error unfolding mark_processing_def by metis
      with plant_run.further [OF run1 plant_step.worker_crash [of ?p1 i]] reset deq Inr mark Inl'
      show ?thesis by (simp add: work_round_def)
    next
      case Inr': (Inr u)
      let ?p2 = "p\<lparr>pl_backlog := b2, pl_worker := (pl_worker p)(i := Running j)\<rparr>"
      have "plant_step ?p1 (?p1\<lparr>pl_backlog := b2, pl_worker := (pl_worker ?p1)(i := Running j)\<rparr>)"
        by (rule plant_step.started [where en = en]) (use mark Inr' in simp_all)
      then have run2: "plant_run p ?p2" using plant_run.further [OF run1] by simp
      obtain out b3 where disp: "dispatch handlers j b2 = (out, b3)" by (metis prod.exhaust)
      have "reports j b2 b3"
        using disp assms(2) reports.silent by (auto simp: dispatch_def fail_def split: option.splits)
      then have more: "plant_run ?p2 (?p2\<lparr>pl_backlog := b3\<rparr>)" by (rule reports_run [where i = i]) simp_all
      have same: "?p2\<lparr>pl_backlog := b3\<rparr> = p\<lparr>pl_backlog := b3, pl_worker := (pl_worker p)(i := Running j)\<rparr>"
        by (cases p) simp
      have run3: "plant_run p (p\<lparr>pl_backlog := b3, pl_worker := (pl_worker p)(i := Running j)\<rparr>)"
        using plant_run_trans [OF more run2] unfolding same .
      let ?p3 = "p\<lparr>pl_backlog := b3, pl_worker := (pl_worker p)(i := Running j)\<rparr>"
      obtain r b4 where rec: "record_outcome en' j out b3 = (r, b4)" by (metis prod.exhaust)
      have round: "work_round up en en' handlers ?b = b4"
        using deq Inr mark Inr' disp rec by (simp add: work_round_def)
      show ?thesis
      proof (cases r)
        case Inl'': (Inl e)
        with rec have "b4 = b3" by (simp add: record_outcome_Inl)
        then show ?thesis
          using plant_run.further [OF run3 plant_step.worker_crash [of ?p3 i]] by (simp add: reset round)
      next
        case Inr'': (Inr v)
        have "plant_step ?p3 (?p3\<lparr>pl_backlog := b4, pl_worker := (pl_worker ?p3)(i := Idle)\<rparr>)"
          by (rule plant_step.ended [where j = j and en = en' and out = out]) (use rec Inr'' in simp_all)
        moreover have "?p3\<lparr>pl_backlog := b4, pl_worker := (pl_worker ?p3)(i := Idle)\<rparr> = p\<lparr>pl_backlog := b4\<rparr>"
          by (simp add: reset)
        ultimately show ?thesis using plant_run.further [OF run3] by (simp only: round)
      qed
    qed
  qed
qed

section \<open>An example\<close>

definition demo_organizer :: db where
  "demo_organizer = run_tenants demo_hash (take 1 club_history) demo_people"

definition demo_queued :: backlog where
  "demo_queued = snd (enqueue True (demo_env_at ''j'' 5) ''t0'' ''u'' ''certificates.batch'' []
     \<lparr>bl_db = demo_organizer, bl_jobs = [], bl_list = []\<rparr>)"

definition demo_handlers :: "string \<Rightarrow> (job \<Rightarrow> (details option \<times> string) queued) option" where
  "demo_handlers = [''certificates.batch'' \<mapsto>
     (\<lambda>j b. (Inr (None, ''one failed''), snd (update_progress (demo_env_at ''h'' 7) j 1 2 b)))]"

lemma demo_plant_queued:
  "plant_run (start_plant demo_organizer) ((start_plant demo_organizer)\<lparr>pl_backlog := demo_queued\<rparr>)"
proof -
  let ?s = "start_plant demo_organizer" and ?n = "new_job (demo_env_at ''j'' 5) ''t0'' ''u'' ''certificates.batch'' []"
  let ?i = "with_tenant_tx ''t0'' (insert_job ?n) (pl_backlog ?s)"
  let ?x = "e_uuid (demo_env_at ''j'' 5) 0"
  have "fst ?i = Inr ()" by code_simp
  then have "?i = (Inr (), snd ?i)" by (simp add: prod_eq_iff)
  from plant_run.further [OF plant_run.here plant_step.inserted [OF this]]
  have run: "plant_run ?s (?s\<lparr>pl_backlog := snd ?i, pl_pushing := ?x # pl_pushing ?s\<rparr>)" .
  let ?q = "?s\<lparr>pl_backlog := snd ?i, pl_pushing := ?x # pl_pushing ?s\<rparr>"
  have "plant_step ?q (?q\<lparr>pl_backlog := snd (lpush True ?x (pl_backlog ?q)), pl_pushing := remove1 ?x (pl_pushing ?q)\<rparr>)"
    by (rule plant_step.pushed [where x = ?x and up = True and r = "fst (lpush True ?x (pl_backlog ?q))"]) simp_all
  from plant_run.further [OF run this]
  have run: "plant_run ?s (?q\<lparr>pl_backlog := snd (lpush True ?x (snd ?i)), pl_pushing := []\<rparr>)" by (simp add: start_plant_def)
  have "snd (lpush True ?x (snd ?i)) = demo_queued" unfolding demo_queued_def start_plant_def by code_simp
  with run show ?thesis by (simp add: start_plant_def)
qed

theorem work_round_refines_witness:
  "let p = (start_plant demo_organizer)\<lparr>pl_backlog := demo_queued\<rparr>;
       b = work_round True (demo_env_at ''w'' 6) (demo_env_at ''w'' 8) demo_handlers demo_queued
   in plant_run p (p\<lparr>pl_backlog := b\<rparr>) \<and>
      map (\<lambda>j. (jb_status j, jb_started_at j, jb_finished_at j)) (bl_jobs b) = [(JobCompletedWithErrors, Some 6, Some 8)]"
proof -
  let ?p = "(start_plant demo_organizer)\<lparr>pl_backlog := demo_queued\<rparr>"
  let ?b = "work_round True (demo_env_at ''w'' 6) (demo_env_at ''w'' 8) demo_handlers demo_queued"
  have "pl_worker ?p 0 = Idle" by (simp add: start_plant_def)
  moreover have "reports j b b'" if "demo_handlers ty = Some h" "h j b = (out, b')" for ty h j b out b'
    using that report [OF silent, of "demo_env_at ''h'' 7" j 1 2 b "fst (update_progress (demo_env_at ''h'' 7) j 1 2 b)"]
    by (auto simp: demo_handlers_def split: if_splits)
  ultimately have "plant_run ?p (?p\<lparr>pl_backlog := work_round True (demo_env_at ''w'' 6) (demo_env_at ''w'' 8) demo_handlers (pl_backlog ?p)\<rparr>)"
    by (rule work_round_refines)
  moreover have "map (\<lambda>j. (jb_status j, jb_started_at j, jb_finished_at j)) (bl_jobs ?b) = [(JobCompletedWithErrors, Some 6, Some 8)]"
    by code_simp
  ultimately show ?thesis unfolding Let_def by simp
qed

theorem job_outcome_final_witness:
  "let p = (start_plant demo_organizer)\<lparr>pl_backlog := demo_queued\<rparr> in
     bl_jobs demo_queued \<noteq> [] \<and> list_all job_ok (bl_jobs demo_queued)"
proof -
  have "bl_jobs demo_queued \<noteq> []" by code_simp
  moreover have "list_all job_ok (bl_jobs (pl_backlog ((start_plant demo_organizer)\<lparr>pl_backlog := demo_queued\<rparr>)))"
    using job_outcome_final [OF plant_run.here demo_plant_queued] by blast
  ultimately show ?thesis by simp
qed

theorem job_started_once_witness:
  "\<exists>(p :: plant) j b. pl_worker p 0 = Taken j \<and> mark_processing (demo_env_at ''w'' 6) j (pl_backlog p) = (Inr (), b) \<and>
     jb_id j = ''j0'' \<and> jb_id j \<notin> set (bl_list b)"
proof -
  let ?s = "(start_plant demo_organizer)\<lparr>pl_backlog := demo_queued\<rparr>"
  let ?d = "dequeue True demo_queued"
  have found: "\<not> isl (fst ?d)" "jb_id (projr (fst ?d)) = ''j0''"
    "fst (mark_processing (demo_env_at ''w'' 6) (projr (fst ?d)) (snd ?d)) = Inr ()" by code_simp+
  let ?j = "projr (fst ?d)"
  let ?p = "?s\<lparr>pl_backlog := snd ?d, pl_worker := (pl_worker ?s)(0 := Taken ?j)\<rparr>"
  have "dequeue True (pl_backlog ?s) = (Inr ?j, snd ?d)" using run_succeeded [OF found(1)] by simp
  then have "plant_step ?s ?p" by (intro plant_step.took) (simp_all add: start_plant_def)
  then have run: "plant_run (start_plant demo_organizer) ?p" by (rule plant_run.further [OF demo_plant_queued])
  have taken: "pl_worker ?p 0 = Taken ?j" by simp
  have mark: "mark_processing (demo_env_at ''w'' 6) ?j (pl_backlog ?p) =
    (Inr (), snd (mark_processing (demo_env_at ''w'' 6) ?j (snd ?d)))"
    using found(3) by (simp add: prod_eq_iff)
  have "jb_id ?j \<notin> set (bl_list (snd (mark_processing (demo_env_at ''w'' 6) ?j (snd ?d))))"
    using job_started_once [OF run taken mark plant_run.here] by simp
  with found(2) taken mark show ?thesis
    by (intro exI [of _ ?p] exI [of _ ?j] exI [of _ "snd (mark_processing (demo_env_at ''w'' 6) ?j (snd ?d))"] conjI)
qed

end
