(* ===== verification/Api_Clients.thy ===== *)
theory Api_Clients
  imports Auth_Service
begin

text \<open>
  \<open>internal/oauthclient\<close>: the credentials a workspace gives to other servers, and the token endpoint of
  the client credentials grant; \<open>IssueM2MAccessToken\<close> and \<open>Parse\<close> of \<open>internal/security/jwt.go\<close>.
\<close>

section \<open>Clients and scopes\<close>

abbreviation ClientActive :: string where "ClientActive \<equiv> ''active''"
abbreviation ClientRevoked :: string where "ClientRevoked \<equiv> ''revoked''"

record oauth_client =
  oc_id :: string
  oc_tenant_id :: string
  oc_client_id :: string
  oc_secret_hash :: string
  oc_name :: string
  oc_scopes :: "string list"
  oc_status :: string
  oc_created_by :: string
  oc_last_used_at :: "int option"
  oc_created_at :: int
  oc_updated_at :: int

definition client_has_scope :: "oauth_client \<Rightarrow> string \<Rightarrow> bool" where
  "client_has_scope c scope = list_ex (\<lambda>x. x = scope) (oc_scopes c)"

definition valid_scopes :: "string list" where
  "valid_scopes = [''events:read'', ''events:write'', ''registrations:read'', ''timing:write'', ''tenant:read'',
     ''face:write'', ''face:read'']"

definition is_valid_scope :: "string \<Rightarrow> bool" where
  "is_valid_scope x = list_ex (\<lambda>y. y = x) valid_scopes"

text \<open>The other tables and the clients.\<close>

record keyring =
  kr_db :: db
  kr_clients :: "oauth_client list"

type_synonym 'a keyed = "(keyring, go_error, 'a) act"

definition on_tables :: "'a query \<Rightarrow> 'a keyed" where
  "on_tables m k = (case m (kr_db k) of (r, s) \<Rightarrow> (r, k\<lparr>kr_db := s\<rparr>))"

section \<open>The repository\<close>

definition client_pk :: "oauth_client \<Rightarrow> string option" where
  "client_pk c = Some (oc_id c)"

definition client_id_key :: "oauth_client \<Rightarrow> string option" where
  "client_id_key c = Some (oc_client_id c)"

definition client_violation :: "keyring \<Rightarrow> oauth_client \<Rightarrow> sql_error option" where
  "client_violation k c =
     (if taken client_pk (kr_clients k) c then Some (UniqueViolation ''oauth_clients_pkey'')
      else if taken client_id_key (kr_clients k) c then Some (UniqueViolation ''oauth_clients_client_id_key'')
      else if \<not> list_ex (\<lambda>t. tn_id t = oc_tenant_id c) (db_tenants (kr_db k))
        then Some (ForeignKeyViolation ''oauth_clients_tenant_id_fkey'')
      else if \<not> has_user (kr_db k) (oc_created_by c)
        then Some (ForeignKeyViolation ''oauth_clients_created_by_fkey'')
      else None)"

definition insert_client :: "oauth_client \<Rightarrow> unit keyed" where
  "insert_client c =
     and_then (reads (\<lambda>k. client_violation k c)) (\<lambda>v.
     and_then (exists_check v) (\<lambda>_.
     writes (\<lambda>k. k\<lparr>kr_clients := kr_clients k @ [c]\<rparr>)))"

definition client_position :: "oauth_client \<Rightarrow> int \<times> string" where
  "client_position c = (oc_created_at c, oc_id c)"

definition list_clients_rows :: "string \<Rightarrow> page_params \<Rightarrow> oauth_client page keyed" where
  "list_clients_rows tid pg =
     (let limit = normalize_limit pg in
      and_then (reads (\<lambda>k. take (limit + 1)
          (newest client_position (\<lambda>c. oc_tenant_id c = tid) (pg_cursor pg) (kr_clients k))))
        (\<lambda>out. ret (cut_page limit (\<lambda>c. cursor_of (client_position c)) out)))"

definition get_client :: "string \<Rightarrow> oauth_client keyed" where
  "get_client cid = and_then (reads (\<lambda>k. select_one (\<lambda>c. oc_client_id c = cid) (kr_clients k))) found"

definition update_clients :: "env \<Rightarrow> (oauth_client \<Rightarrow> bool) \<Rightarrow> (oauth_client \<Rightarrow> oauth_client) \<Rightarrow> keyring \<Rightarrow> keyring" where
  "update_clients en q f k = k\<lparr>kr_clients := update_where q (\<lambda>c. (f c)\<lparr>oc_updated_at := e_now en\<rparr>) (kr_clients k)\<rparr>"

definition revoke_client_row :: "env \<Rightarrow> string \<Rightarrow> string \<Rightarrow> unit keyed" where
  "revoke_client_row en tid rid =
     (let q = (\<lambda>c. oc_id c = rid \<and> oc_tenant_id c = tid) in
      and_then (reads (\<lambda>k. length (select q (kr_clients k)))) (\<lambda>n.
      and_then (writes (update_clients en q (\<lambda>c. c\<lparr>oc_status := ClientRevoked\<rparr>))) (\<lambda>_.
      check_rows n)))"

definition touch_last_used :: "env \<Rightarrow> string \<Rightarrow> unit keyed" where
  "touch_last_used en rid =
     writes (update_clients en (\<lambda>c. oc_id c = rid) (\<lambda>c. c\<lparr>oc_last_used_at := Some (e_now en)\<rparr>))"

section \<open>Management\<close>

definition new_client ::
  "env \<Rightarrow> auth_deps \<Rightarrow> string \<Rightarrow> string \<Rightarrow> string \<Rightarrow> string \<Rightarrow> string \<Rightarrow> string list \<Rightarrow> oauth_client" where
  "new_client en d tid actor cid secret name scopes =
     \<lparr>oc_id = e_uuid en 0, oc_tenant_id = tid, oc_client_id = cid, oc_secret_hash = ad_hash d secret,
      oc_name = name, oc_scopes = scopes, oc_status = ClientActive, oc_created_by = actor,
      oc_last_used_at = None, oc_created_at = e_now en, oc_updated_at = e_now en\<rparr>"

text \<open>\<open>tok 0\<close> and \<open>tok 1\<close> are the random parts of the identifier and of the secret.\<close>

definition create_client ::
  "env \<Rightarrow> (nat \<Rightarrow> string) \<Rightarrow> auth_deps \<Rightarrow> string \<Rightarrow> string \<Rightarrow> member_role \<Rightarrow> string \<Rightarrow> string list \<Rightarrow>
     (oauth_client \<times> string) keyed" where
  "create_client en tok d tid actor role name scopes =
     guard (is_at_least role RoleAdmin) (Sentinel ErrForbidden)
     (on_error (map_option (\<lambda>x. Wrapped ErrInvalidScope
          (''service: '' @ sentinel_text ErrInvalidScope @ '': '' @ go_quote x))
        (find (\<lambda>x. \<not> is_valid_scope x) scopes))
     (guard (trim_space name \<noteq> '''') (service_error ErrInvalidState ''client name is required'')
     (let cid = ''rtf_client_'' @ tok 0; secret = ''rtf_secret_'' @ tok 1;
          c = new_client en d tid actor cid secret name scopes in
      and_then (with_tenant_tx tid
        (and_then (insert_client c) (\<lambda>_.
         on_tables (record_audit en 1 (Some tid) (Some actor) ''oauth_client.created''
           [(''client_id'', MetaText cid), (''scopes'', MetaTexts scopes)])))) (\<lambda>_.
      ret (c, secret)))))"

definition list_clients :: "string \<Rightarrow> page_params \<Rightarrow> oauth_client page keyed" where
  "list_clients tid pg = with_tenant_tx tid (list_clients_rows tid pg)"

definition revoke_client :: "env \<Rightarrow> string \<Rightarrow> string \<Rightarrow> member_role \<Rightarrow> string \<Rightarrow> unit keyed" where
  "revoke_client en tid actor role rid =
     guard (is_at_least role RoleAdmin) (Sentinel ErrForbidden)
     (with_tenant_tx tid
       (and_then (revoke_client_row en tid rid) (\<lambda>_.
        on_tables (record_audit en 0 (Some tid) (Some actor) ''oauth_client.revoked'' [(''id'', MetaText rid)]))))"

section \<open>The token endpoint\<close>

definition m2m_claims :: "auth_deps \<Rightarrow> int \<Rightarrow> int \<Rightarrow> string \<Rightarrow> string \<Rightarrow> string \<Rightarrow> string list \<Rightarrow> claims" where
  "m2m_claims d ttl now jti cid tid scopes =
     \<lparr>cl_issuer = ad_issuer d, cl_subject = cid, cl_id = jti, cl_issued_at = now, cl_not_before = now,
      cl_expires_at = now + ttl, cl_type = TokenTypeM2MAccess, cl_user_id = '''', cl_super = False,
      cl_client_id = cid, cl_scopes = scopes, cl_tenant_id = tid\<rparr>"

definition issue_m2m_access_token ::
  "auth_deps \<Rightarrow> int \<Rightarrow> int \<Rightarrow> string \<Rightarrow> string \<Rightarrow> string \<Rightarrow> string list \<Rightarrow> string \<times> string \<times> int" where
  "issue_m2m_access_token d ttl now jti cid tid scopes =
     (ad_sign d (m2m_claims d ttl now jti cid tid scopes), jti, now + ttl)"

record grant_result =
  gr_access_token :: string
  gr_token_type :: string
  gr_expires_in :: int
  gr_scope :: string

text \<open>The scopes asked for, or else all the client has.\<close>

definition narrowed_scopes :: "oauth_client \<Rightarrow> string \<Rightarrow> go_error + string list" where
  "narrowed_scopes c requested =
     (if requested = '''' then Inr (oc_scopes c)
      else case find (\<lambda>x. \<not> client_has_scope c x) (str_fields requested) of
        None \<Rightarrow> Inr (str_fields requested)
      | Some x \<Rightarrow> Inl (Wrapped ErrInvalidScope (''service: '' @ sentinel_text ErrInvalidScope @ '': '' @
            go_quote x @ '' was not granted to this client'')))"

definition audit_client :: "env \<Rightarrow> nat \<Rightarrow> string \<Rightarrow> string \<Rightarrow> string \<Rightarrow> (string \<times> meta) list \<Rightarrow> unit query" where
  "audit_client en k tid cid action md =
     writes (\<lambda>s. s\<lparr>db_audit := db_audit s @
       [\<lparr>al_id = e_uuid en k, al_tenant_id = Some tid, al_actor_user_id = None, al_actor_client_id = Some cid,
         al_action = action, al_metadata = md, al_created_at = e_now en\<rparr>]\<rparr>)"

definition dropped :: "unit keyed \<Rightarrow> unit keyed" where
  "dropped m k = (Inr (), snd (m k))"

definition client_credentials_grant ::
  "env \<Rightarrow> (nat \<Rightarrow> string) \<Rightarrow> auth_deps \<Rightarrow> int \<Rightarrow> string \<Rightarrow> string \<Rightarrow> string \<Rightarrow> grant_result keyed" where
  "client_credentials_grant en tok d ttl cid secret requested =
     and_then (not_found_as (Sentinel ErrInvalidCredentials) (get_client cid)) (\<lambda>c.
     guard (oc_status c = ClientActive) (Sentinel ErrInvalidCredentials)
     (guard (ad_hash d secret = oc_secret_hash c) (Sentinel ErrInvalidCredentials)
     (and_then (of_sum (narrowed_scopes c requested)) (\<lambda>scopes.
      case issue_m2m_access_token d ttl (e_now en) (tok 0) (oc_client_id c) (oc_tenant_id c) scopes of
        (access, jti, expires) \<Rightarrow>
          and_then (touch_last_used en (oc_id c)) (\<lambda>_.
          and_then (dropped (with_tenant_tx (oc_tenant_id c) (on_tables
            (audit_client en 0 (oc_tenant_id c) (oc_client_id c) ''oauth_token.issued''
              [(''scope'', MetaTexts scopes)])))) (\<lambda>_.
          ret \<lparr>gr_access_token = access, gr_token_type = ''Bearer'',
               gr_expires_in = (expires - e_now en) div 1000000000, gr_scope = join '' '' scopes\<rparr>))))))"

section \<open>Verification of a token\<close>

text \<open>\<open>Parse\<close>: the signature, the issuer and the times; the library requires an expiry.\<close>

definition parse_token :: "auth_deps \<Rightarrow> int \<Rightarrow> string \<Rightarrow> claims option" where
  "parse_token d now token =
     (case ad_decode d token of
        None \<Rightarrow> None
      | Some c \<Rightarrow>
          if cl_issuer c = ad_issuer d \<and> now < cl_expires_at c \<and> cl_not_before c \<le> now then Some c else None)"

end
