(* ===== verification/Origin_Policy.thy ===== *)
theory Origin_Policy
  imports Go_Strings
begin

text \<open>
  \<open>internal/platform/originpolicy\<close>: which frontend origins a browser may be sent to and a link may point
  at. The parser of the standard library, \<open>url.Parse\<close>, is modelled as far as the policy looks at its
  result: the scheme, the host, whether there is user information and whether the path is empty.
\<close>

section \<open>Parsing a URL\<close>

record url =
  ur_scheme :: string
  ur_host :: string
  ur_user :: bool
  ur_path :: string

text \<open>\<open>strings.Cut\<close>, \<open>strings.Index\<close>, \<open>strings.CutSuffix\<close> and \<open>strings.TrimRight\<close> for one character.\<close>

definition cut :: "char \<Rightarrow> string \<Rightarrow> string \<times> string" where
  "cut c s = (takeWhile (\<lambda>x. x \<noteq> c) s, tl (dropWhile (\<lambda>x. x \<noteq> c) s))"

fun index_of :: "string \<Rightarrow> string \<Rightarrow> nat option" where
  "index_of p [] = (if p = [] then Some 0 else None)"
| "index_of p (c # s) = (if prefix p (c # s) then Some 0 else map_option Suc (index_of p s))"

definition cut_suffix :: "string \<Rightarrow> string \<Rightarrow> string option" where
  "cut_suffix s x = (if suffix x s then Some (take (length s - length x) s) else None)"

definition trim_right_char :: "char \<Rightarrow> string \<Rightarrow> string" where
  "trim_right_char c s = rev (dropWhile (\<lambda>x. x = c) (rev s))"

definition is_letter :: "char \<Rightarrow> bool" where
  "is_letter c \<longleftrightarrow> 65 \<le> byte c \<and> byte c \<le> 90 \<or> 97 \<le> byte c \<and> byte c \<le> 122"

text \<open>\<open>getScheme\<close>: the scheme and the rest; \<open>None\<close> is the missing scheme before a colon.\<close>

fun scheme_from :: "string \<Rightarrow> string \<Rightarrow> string \<Rightarrow> (string \<times> string) option" where
  "scheme_from raw seen [] = Some ('''', raw)"
| "scheme_from raw seen (c # s) =
     (if is_letter c then scheme_from raw (seen @ [c]) s
      else if is_digit c \<or> c = CHR ''+'' \<or> c = CHR ''-'' \<or> c = CHR ''.''
        then (if seen = [] then Some ('''', raw) else scheme_from raw (seen @ [c]) s)
      else if c = CHR '':'' then (if seen = [] then None else Some (seen, s))
      else Some ('''', raw))"

definition get_scheme :: "string \<Rightarrow> (string \<times> string) option" where
  "get_scheme raw = scheme_from raw '''' raw"

definition is_hex :: "char \<Rightarrow> bool" where
  "is_hex c \<longleftrightarrow> is_digit c \<or> 65 \<le> byte c \<and> byte c \<le> 70 \<or> 97 \<le> byte c \<and> byte c \<le> 102"

definition unhex :: "char \<Rightarrow> nat" where
  "unhex c = (if is_digit c then byte c - 48 else if byte c \<le> 70 then byte c - 55 else byte c - 87)"

text \<open>The bytes of a host that need no escape, and the decoding of a host and of a path.\<close>

definition host_byte :: "char \<Rightarrow> bool" where
  "host_byte c \<longleftrightarrow> 128 \<le> byte c \<or> is_letter c \<or> is_digit c \<or>
     c \<in> set ''!$&()*+,;=:[]<>\"-_.~'' \<or> byte c = 39"

definition escape_allowed :: "bool \<Rightarrow> nat \<Rightarrow> bool" where
  "escape_allowed zone v \<longleftrightarrow>
     v = 37 \<or> (if zone then v = 32 \<or> v < 128 \<and> host_byte (char_of v) else 128 \<le> v)"

fun unescape_host :: "bool \<Rightarrow> string \<Rightarrow> string option" where
  "unescape_host zone [] = Some []"
| "unescape_host zone (c # s) =
     (if c = CHR ''%'' then
        (case s of
           a # b # t \<Rightarrow>
             if is_hex a \<and> is_hex b \<and> escape_allowed zone (16 * unhex a + unhex b)
             then map_option (\<lambda>r. char_of (16 * unhex a + unhex b) # r) (unescape_host zone t)
             else None
         | _ \<Rightarrow> None)
      else if host_byte c then map_option (\<lambda>r. c # r) (unescape_host zone s)
      else None)"

fun path_escapes_ok :: "string \<Rightarrow> bool" where
  "path_escapes_ok [] = True"
| "path_escapes_ok (c # s) =
     (if c = CHR ''%'' then
        (case s of a # b # t \<Rightarrow> is_hex a \<and> is_hex b \<and> path_escapes_ok t | _ \<Rightarrow> False)
      else path_escapes_ok s)"

definition valid_optional_port :: "string \<Rightarrow> bool" where
  "valid_optional_port p = (p = '''' \<or> hd p = CHR '':'' \<and> list_all is_digit (tl p))"

text \<open>\<open>strings.LastIndex\<close>: what follows the last occurrence of a character.\<close>

definition after_last :: "char \<Rightarrow> string \<Rightarrow> string option" where
  "after_last c s = (if c \<in> set s then Some (rev (takeWhile (\<lambda>x. x \<noteq> c) (rev s))) else None)"

text \<open>\<open>parseHost\<close>: a bracketed address, whose zone has escapes of its own, or a name with a port.\<close>

definition unescape_literal :: "string \<Rightarrow> string \<Rightarrow> string option" where
  "unescape_literal inner rest =
     (case index_of ''%25'' inner of
        None \<Rightarrow> unescape_host False (inner @ rest)
      | Some z \<Rightarrow>
          (case (unescape_host False (take z inner), unescape_host True (drop z inner), unescape_host False rest) of
             (Some a, Some b, Some c) \<Rightarrow> Some (a @ b @ c)
           | _ \<Rightarrow> None))"

definition parse_host :: "string \<Rightarrow> string option" where
  "parse_host h =
     (if prefix ''['' h then
        (case after_last (CHR '']'') h of
           None \<Rightarrow> None
         | Some p \<Rightarrow>
             if valid_optional_port p
             then unescape_literal (take (length h - length p - 1) h) (CHR '']'' # p) else None)
      else case after_last (CHR '':'') h of
             None \<Rightarrow> unescape_host False h
           | Some p \<Rightarrow> if list_all is_digit p then unescape_host False h else None)"

definition valid_userinfo :: "string \<Rightarrow> bool" where
  "valid_userinfo u \<longleftrightarrow> path_escapes_ok u \<and>
     list_all (\<lambda>c. is_letter c \<or> is_digit c \<or> c \<in> set ''-._:~!$&()*+,;=%@'' \<or> byte c = 39) u"

text \<open>\<open>parseAuthority\<close>: whether there is user information, and the host.\<close>

definition parse_authority :: "string \<Rightarrow> (bool \<times> string) option" where
  "parse_authority a =
     (case after_last (CHR ''@'') a of
        None \<Rightarrow> map_option (Pair False) (parse_host a)
      | Some h \<Rightarrow>
          (case parse_host h of
             None \<Rightarrow> None
           | Some host \<Rightarrow>
               if valid_userinfo (take (length a - length h - 1) a) then Some (True, host) else None))"

definition with_path :: "string \<Rightarrow> bool \<Rightarrow> string \<Rightarrow> string \<Rightarrow> url option" where
  "with_path scheme user host path =
     (if path_escapes_ok path
      then Some \<lparr>ur_scheme = scheme, ur_host = host, ur_user = user, ur_path = path\<rparr> else None)"

text \<open>The part after the scheme, with the query cut off.\<close>

definition parse_rest :: "string \<Rightarrow> string \<Rightarrow> url option" where
  "parse_rest scheme rest =
     (if \<not> prefix ''/'' rest \<and> scheme \<noteq> '''' then
        Some \<lparr>ur_scheme = scheme, ur_host = '''', ur_user = False, ur_path = ''''\<rparr>
      else if \<not> prefix ''/'' rest \<and> CHR '':'' \<in> set (fst (cut (CHR ''/'') rest)) then None
      else if (scheme \<noteq> '''' \<or> \<not> prefix ''///'' rest) \<and> prefix ''//'' rest then
        (let after = drop 2 rest; authority = fst (cut (CHR ''/'') after) in
         case parse_authority authority of
           None \<Rightarrow> None
         | Some (user, host) \<Rightarrow> with_path scheme user host (drop (length authority) after))
      else with_path scheme False '''' rest)"

definition url_parse :: "string \<Rightarrow> url option" where
  "url_parse raw =
     (case cut (CHR ''#'') raw of (u, frag) \<Rightarrow>
        if list_ex (\<lambda>c. byte c < 32 \<or> byte c = 127) u then None
        else if \<not> path_escapes_ok frag then None
        else if u = ''*'' then with_path '''' False '''' ''*''
        else case get_scheme u of
          None \<Rightarrow> None
        | Some (scheme, rest) \<Rightarrow> parse_rest (to_lower scheme) (fst (cut (CHR ''?'') rest)))"

section \<open>The policy\<close>

record pattern =
  pt_scheme :: string
  pt_host :: string
  pt_wildcard :: bool

record policy =
  po_patterns :: "pattern list"
  po_fallback :: string

definition web_url :: "url \<Rightarrow> bool" where
  "web_url u \<longleftrightarrow> (ur_scheme u = ''http'' \<or> ur_scheme u = ''https'') \<and> ur_host u \<noteq> '''' \<and> \<not> ur_user u"

text \<open>An entry: its wildcard is lifted out before it is parsed.\<close>

definition lift_wildcard :: "string \<Rightarrow> bool \<times> string" where
  "lift_wildcard raw =
     (case index_of ''://*.'' raw of
        None \<Rightarrow> (False, raw)
      | Some i \<Rightarrow> (True, take (i + 3) raw @ drop (i + 5) raw))"

definition entry_pattern :: "string \<Rightarrow> pattern option" where
  "entry_pattern entry =
     (case lift_wildcard (trim_right_char (CHR ''/'') (trim_space entry)) of (wildcard, raw) \<Rightarrow>
        case url_parse raw of
          None \<Rightarrow> None
        | Some u \<Rightarrow>
            if \<not> web_url u \<or> ur_path u \<noteq> '''' \<or> CHR ''*'' \<in> set (ur_host u) then None
            else Some \<lparr>pt_scheme = ur_scheme u, pt_host = to_lower (ur_host u), pt_wildcard = wildcard\<rparr>)"

definition add_entry :: "string \<Rightarrow> policy \<Rightarrow> policy" where
  "add_entry entry p =
     (case entry_pattern entry of
        None \<Rightarrow> p
      | Some pt \<Rightarrow>
          \<lparr>po_patterns = po_patterns p @ [pt],
           po_fallback = (if po_fallback p = '''' \<and> \<not> pt_wildcard pt
             then pt_scheme pt @ ''://'' @ pt_host pt else po_fallback p)\<rparr>)"

definition new_policy :: "string list \<Rightarrow> policy" where
  "new_policy entries = fold add_entry entries \<lparr>po_patterns = [], po_fallback = ''''\<rparr>"

definition matches :: "pattern \<Rightarrow> string \<Rightarrow> string \<Rightarrow> bool" where
  "matches pt scheme host \<longleftrightarrow>
     pt_scheme pt = scheme \<and>
     (if \<not> pt_wildcard pt then host = pt_host pt
      else case cut_suffix host (CHR ''.'' # pt_host pt) of
        None \<Rightarrow> False
      | Some label \<Rightarrow> label \<noteq> '''' \<and> CHR ''.'' \<notin> set label)"

definition origin :: "policy \<Rightarrow> string \<Rightarrow> string option" where
  "origin p raw =
     (case url_parse (trim_space raw) of
        None \<Rightarrow> None
      | Some u \<Rightarrow>
          if \<not> web_url u then None
          else if list_ex (\<lambda>pt. matches pt (ur_scheme u) (to_lower (ur_host u))) (po_patterns p)
          then Some (ur_scheme u @ ''://'' @ to_lower (ur_host u)) else None)"

definition allowed_origin :: "policy \<Rightarrow> string \<Rightarrow> bool" where
  "allowed_origin p raw \<longleftrightarrow> origin p raw \<noteq> None"

definition link_origin :: "policy \<Rightarrow> string \<Rightarrow> string" where
  "link_origin p requested =
     (case origin p requested of Some o' \<Rightarrow> o' | None \<Rightarrow> po_fallback p)"

section \<open>What the policy lets through\<close>

text \<open>The origins of a pattern: the host itself, or one label under it.\<close>

definition covers :: "pattern \<Rightarrow> string \<Rightarrow> bool" where
  "covers pt o' \<longleftrightarrow>
     (if pt_wildcard pt
      then (\<exists>label. label \<noteq> '''' \<and> CHR ''.'' \<notin> set label \<and>
              o' = pt_scheme pt @ ''://'' @ label @ ''.'' @ pt_host pt)
      else o' = pt_scheme pt @ ''://'' @ pt_host pt)"

lemma cut_suffix_Some: "cut_suffix s x = Some l \<longleftrightarrow> s = l @ x"
  by (auto simp: cut_suffix_def suffix_def)

lemma matches_iff: "matches pt scheme host \<longleftrightarrow> scheme = pt_scheme pt \<and> covers pt (scheme @ ''://'' @ host)"
proof (cases "pt_wildcard pt")
  case True
  have "(case cut_suffix host (CHR ''.'' # pt_host pt) of None \<Rightarrow> False | Some l \<Rightarrow> l \<noteq> '''' \<and> CHR ''.'' \<notin> set l)
      \<longleftrightarrow> (\<exists>l. cut_suffix host (CHR ''.'' # pt_host pt) = Some l \<and> l \<noteq> '''' \<and> CHR ''.'' \<notin> set l)"
    by (simp split: option.split)
  with True show ?thesis by (auto simp: matches_def covers_def cut_suffix_Some)
qed (auto simp: matches_def covers_def)

lemma origin_covered:
  assumes "origin p raw = Some o'" shows "\<exists>pt \<in> set (po_patterns p). covers pt o'"
proof -
  obtain u where u: "url_parse (trim_space raw) = Some u" using assms by (cases "url_parse (trim_space raw)") (simp_all add: origin_def)
  have "list_ex (\<lambda>pt. matches pt (ur_scheme u) (to_lower (ur_host u))) (po_patterns p)"
    and o': "o' = ur_scheme u @ ''://'' @ to_lower (ur_host u)"
    using assms by (simp_all add: origin_def u split: if_splits)
  then show ?thesis unfolding o' list_ex_iff matches_iff by blast
qed

lemma entry_pattern_web:
  "entry_pattern e = Some pt \<Longrightarrow> pt_scheme pt = ''http'' \<or> pt_scheme pt = ''https''"
  by (auto simp: entry_pattern_def web_url_def split: prod.splits option.splits if_splits)

definition configured :: "string list \<Rightarrow> policy \<Rightarrow> bool" where
  "configured es p \<longleftrightarrow>
     (\<forall>pt \<in> set (po_patterns p). \<exists>e \<in> set es. entry_pattern e = Some pt) \<and>
     (po_fallback p \<noteq> '''' \<longrightarrow> (\<exists>pt \<in> set (po_patterns p). covers pt (po_fallback p)))"

lemma covers_exact: "\<not> pt_wildcard pt \<Longrightarrow> covers pt (pt_scheme pt @ ''://'' @ pt_host pt)"
  by (simp add: covers_def)

lemma configured_add_entry:
  assumes "configured es p" "e \<in> set es" shows "configured es (add_entry e p)"
proof (cases "entry_pattern e")
  case None
  with assms show ?thesis by (simp add: add_entry_def)
next
  case (Some pt)
  with assms covers_exact [of pt] show ?thesis
    unfolding configured_def add_entry_def option.case by (auto split: if_splits)
qed

lemma configured_fold: "configured es p \<Longrightarrow> set xs \<subseteq> set es \<Longrightarrow> configured es (fold add_entry xs p)"
proof (induction xs arbitrary: p)
  case (Cons x xs)
  have "configured es (add_entry x p)" by (rule configured_add_entry) (use Cons.prems in auto)
  then show ?case unfolding fold_Cons o_apply using Cons.prems(2) by (intro Cons.IH) auto
qed simp

lemma new_policy_configured: "configured es (new_policy es)"
  unfolding new_policy_def by (rule configured_fold) (simp_all add: configured_def)

text \<open>Whatever origin a caller claims, a link the API mails points at a configured frontend (an entry's
host, or exactly one label under a wildcard entry, with the entry's scheme and port), or nowhere when no
exact entry is configured; and an origin is allowed only if it is one of these.\<close>

theorem links_point_at_frontends:
  "(let o' = link_origin (new_policy es) claimed in
      o' = '''' \<or> (\<exists>e \<in> set es. \<exists>pt. entry_pattern e = Some pt \<and> covers pt o')) \<and>
   (case origin (new_policy es) claimed of
      None \<Rightarrow> \<not> allowed_origin (new_policy es) claimed
    | Some o' \<Rightarrow> \<exists>e \<in> set es. \<exists>pt. entry_pattern e = Some pt \<and> covers pt o')"
proof (cases "origin (new_policy es) claimed")
  case None
  with new_policy_configured [of es] show ?thesis
    by (auto simp: link_origin_def allowed_origin_def configured_def Let_def)
next
  case (Some o')
  have "\<exists>e \<in> set es. \<exists>pt. entry_pattern e = Some pt \<and> covers pt o'"
    using origin_covered [OF Some] new_policy_configured [of es] unfolding configured_def by metis
  then show ?thesis unfolding Some link_origin_def Let_def option.case by blast
qed

end
