(* ===== verification/Http_Guards.thy ===== *)
theory Http_Guards
  imports Api_Clients Origin_Policy
begin

text \<open>
  The guards of the HTTP routes: \<open>internal/httpapi/reqctx\<close>, \<open>middleware\<close> and \<open>routing\<close>,
  \<open>internal/platform/ratelimit\<close> and \<open>RequireRole\<close> of \<open>internal/tenant\<close>. A handler takes the request and
  its context and answers with a value or with an error reply; a middleware turns a handler into a
  handler.
\<close>

section \<open>Requests and their context\<close>

text \<open>A request after \<open>net/http\<close> has read it: headers and cookies by name, in the order they came.\<close>

record http_request =
  hr_method :: string
  hr_path :: string
  hr_headers :: "(string \<times> string) list"
  hr_cookies :: "(string \<times> string) list"
  hr_remote_addr :: string

definition header :: "http_request \<Rightarrow> string \<Rightarrow> string" where
  "header r name = (case map_of (hr_headers r) name of None \<Rightarrow> '''' | Some v \<Rightarrow> v)"

definition cookie :: "http_request \<Rightarrow> string \<Rightarrow> string option" where
  "cookie r name = map_of (hr_cookies r) name"

record req_ctx =
  cx_user_id :: "string option"
  cx_super :: bool
  cx_tenant_id :: "string option"
  cx_member_role :: "string option"
  cx_client_id :: "string option"
  cx_scopes :: "string list"
  cx_access_jti :: "string option"
  cx_access_expires :: "int option"
  cx_request_id :: "string option"

definition empty_ctx :: req_ctx where
  "empty_ctx = \<lparr>cx_user_id = None, cx_super = False, cx_tenant_id = None, cx_member_role = None,
     cx_client_id = None, cx_scopes = [], cx_access_jti = None, cx_access_expires = None, cx_request_id = None\<rparr>"

definition with_user_id :: "string \<Rightarrow> req_ctx \<Rightarrow> req_ctx" where
  "with_user_id v c = c\<lparr>cx_user_id := Some v\<rparr>"

definition with_super_admin :: "bool \<Rightarrow> req_ctx \<Rightarrow> req_ctx" where
  "with_super_admin v c = c\<lparr>cx_super := v\<rparr>"

definition with_tenant_id :: "string \<Rightarrow> req_ctx \<Rightarrow> req_ctx" where
  "with_tenant_id v c = c\<lparr>cx_tenant_id := Some v\<rparr>"

definition with_member_role :: "string \<Rightarrow> req_ctx \<Rightarrow> req_ctx" where
  "with_member_role v c = c\<lparr>cx_member_role := Some v\<rparr>"

definition with_m2m_client_id :: "string \<Rightarrow> req_ctx \<Rightarrow> req_ctx" where
  "with_m2m_client_id v c = c\<lparr>cx_client_id := Some v\<rparr>"

definition with_m2m_scopes :: "string list \<Rightarrow> req_ctx \<Rightarrow> req_ctx" where
  "with_m2m_scopes v c = c\<lparr>cx_scopes := v\<rparr>"

definition with_access_token_meta :: "string \<Rightarrow> int \<Rightarrow> req_ctx \<Rightarrow> req_ctx" where
  "with_access_token_meta jti e c = c\<lparr>cx_access_jti := Some jti, cx_access_expires := Some e\<rparr>"

definition with_request_id :: "string \<Rightarrow> req_ctx \<Rightarrow> req_ctx" where
  "with_request_id v c = c\<lparr>cx_request_id := Some v\<rparr>"

section \<open>Chains\<close>

type_synonym 'a handler = "http_request \<Rightarrow> req_ctx \<Rightarrow> (world, http_error, 'a) act"

type_synonym 'a middleware = "'a handler \<Rightarrow> 'a handler"

definition chain :: "'a handler \<Rightarrow> 'a middleware list \<Rightarrow> 'a handler" where
  "chain h mws = fold (\<lambda>mw. mw) mws h"

section \<open>Authentication\<close>

definition bearer_token :: "http_request \<Rightarrow> string option" where
  "bearer_token r =
     (let h = header r ''Authorization'' in
      if has_prefix h ''Bearer '' then Some (trim_space (trim_prefix h ''Bearer '')) else None)"

abbreviation AccessCookieName :: string where "AccessCookieName \<equiv> ''racetify_access''"

definition user_access_token :: "http_request \<Rightarrow> (string \<times> bool) option" where
  "user_access_token r =
     (case bearer_token r of
        Some raw \<Rightarrow> Some (raw, False)
      | None \<Rightarrow>
          (case cookie r AccessCookieName of
             Some v \<Rightarrow> if v \<noteq> '''' then Some (v, True) else None
           | None \<Rightarrow> None))"

definition invalid_token :: http_error where
  "invalid_token = reply 401 ''unauthorized'' ''Invalid or expired access token.''"

definition user_ctx :: "claims \<Rightarrow> req_ctx \<Rightarrow> req_ctx" where
  "user_ctx c cx =
     (let cx1 = with_super_admin (cl_super c) (with_user_id (cl_user_id c) cx);
          cx2 = (if cl_tenant_id c \<noteq> '''' then with_tenant_id (cl_tenant_id c) cx1 else cx1)
      in with_access_token_meta (cl_id c) (cl_expires_at c div 1000000000) cx2)"

definition require_user_auth :: "bool \<Rightarrow> int \<Rightarrow> auth_deps \<Rightarrow> 'a middleware" where
  "require_user_auth up now d next r cx =
     (case user_access_token r of
        None \<Rightarrow> fail (reply 401 ''unauthorized'' ''Not signed in.'')
      | Some (raw, from_cookie) \<Rightarrow>
          (case parse_token d now raw of
             None \<Rightarrow> fail invalid_token
           | Some c \<Rightarrow>
               guard (cl_type c = TokenTypeUserAccess) invalid_token
               (and_then (map_error from_service_error (is_access_token_revoked up now (cl_id c))) (\<lambda>revoked.
                guard (\<not> revoked) (reply 401 ''unauthorized'' ''This session has been signed out.'')
                (next r (user_ctx c cx))))))"

definition m2m_ctx :: "claims \<Rightarrow> req_ctx \<Rightarrow> req_ctx" where
  "m2m_ctx c cx =
     with_m2m_scopes (cl_scopes c) (with_tenant_id (cl_tenant_id c) (with_m2m_client_id (cl_client_id c) cx))"

definition require_m2m_auth :: "int \<Rightarrow> auth_deps \<Rightarrow> 'a middleware" where
  "require_m2m_auth now d next r cx =
     (case bearer_token r of
        None \<Rightarrow> fail (reply 401 ''unauthorized'' ''Missing or malformed Authorization header.'')
      | Some raw \<Rightarrow>
          (case parse_token d now raw of
             None \<Rightarrow> fail invalid_token
           | Some c \<Rightarrow>
               guard (cl_type c = TokenTypeM2MAccess) invalid_token (next r (m2m_ctx c cx))))"

definition require_scope :: "string \<Rightarrow> 'a middleware" where
  "require_scope scope next r cx =
     (if list_ex (\<lambda>x. x = scope) (cx_scopes cx) then next r cx
      else fail (reply 403 ''insufficient_scope''
        (''This client was not granted the '' @ [char_of (39 :: nat)] @ scope @ [char_of (39 :: nat)] @ '' scope.'')))"

definition require_super_admin :: "'a middleware" where
  "require_super_admin next r cx =
     guard (cx_super cx) (reply 403 ''forbidden'' ''This endpoint is restricted to platform administrators.'')
       (next r cx)"

section \<open>The workspace and the role\<close>

definition require_tenant_for_user :: "membership_check \<Rightarrow> 'a middleware" where
  "require_tenant_for_user members next r cx =
     (case cx_user_id cx of
        None \<Rightarrow> fail (reply 401 ''unauthorized'' ''Authentication required.'')
      | Some uid \<Rightarrow>
          let tid = (case cx_tenant_id cx of None \<Rightarrow> '''' | Some t \<Rightarrow> t) in
          guard (tid \<noteq> '''') (reply 400 ''tenant_required''
            ''This endpoint requires a tenant-scoped access token. Call POST /api/v1/auth/switch-tenant to select one.'')
          (and_then (map_error (\<lambda>_. internal_error) (on_db (with_tenant_tx tid (members tid uid)))) (\<lambda>(role, active).
           guard active (reply 403 ''forbidden'' ''You are not an active member of this tenant.'')
             (next r (with_member_role role (with_tenant_id tid cx))))))"

definition require_tenant_for_m2m :: "'a middleware" where
  "require_tenant_for_m2m next r cx =
     guard (cx_tenant_id cx \<noteq> None) (reply 401 ''unauthorized'' ''M2M authentication required.'') (next r cx)"

definition require_member_role :: "member_role \<Rightarrow> 'a middleware" where
  "require_member_role minimum next r cx =
     (case cx_member_role cx of
        None \<Rightarrow> fail (reply 403 ''forbidden'' ''Tenant context is required for this endpoint.'')
      | Some role \<Rightarrow>
          guard (is_at_least role minimum) (reply 403 ''forbidden'' ''Your role does not permit this action.'')
            (next r cx))"

section \<open>Cross-site requests\<close>

definition safe_method :: "string \<Rightarrow> bool" where
  "safe_method m \<longleftrightarrow> m = ''GET'' \<or> m = ''HEAD'' \<or> m = ''OPTIONS''"

definition has_cookie :: "http_request \<Rightarrow> string \<Rightarrow> bool" where
  "has_cookie r name \<longleftrightarrow> cookie r name \<noteq> None"

definition cross_origin_refused :: http_error where
  "cross_origin_refused = reply 403 ''forbidden'' ''Cross-origin request refused.''"

definition csrf :: "policy \<Rightarrow> 'a middleware" where
  "csrf p next r cx =
     (if safe_method (hr_method r) \<or> header r ''Authorization'' \<noteq> '''' then next r cx
      else
        let has_cookies = (has_cookie r AccessCookieName \<or> has_cookie r ''racetify_refresh_token'');
            is_auth_endpoint = has_prefix (hr_path r) ''/api/v1/auth/'' in
        if \<not> has_cookies \<and> \<not> is_auth_endpoint then next r cx
        else
          let o' = header r ''Origin'' in
          guard (\<not> (o' = '''' \<and> has_cookies)) cross_origin_refused
          (guard (\<not> (o' \<noteq> '''' \<and> \<not> allowed_origin p o')) cross_origin_refused
          (guard (header r ''Sec-Fetch-Site'' \<noteq> ''cross-site'') cross_origin_refused
            (next r cx))))"

text \<open>\<open>RequestOrigin\<close>\<close>

definition request_origin :: "http_request \<Rightarrow> string" where
  "request_origin r =
     (if header r ''X-Frontend-Origin'' \<noteq> '''' then header r ''X-Frontend-Origin'' else header r ''Origin'')"

text \<open>\<open>CORS\<close>: the headers it sets and, for a preflight, the reply without a body.\<close>

record cors_reply =
  co_headers :: "(string \<times> string) list"
  co_done :: bool

definition cors :: "policy \<Rightarrow> http_request \<Rightarrow> cors_reply" where
  "cors p r =
     (let o' = header r ''Origin'' in
      \<lparr>co_headers = [(''Vary'', ''Origin'')] @
         (if o' \<noteq> '''' \<and> allowed_origin p o'
          then [(''Access-Control-Allow-Origin'', o'), (''Access-Control-Allow-Credentials'', ''true'')] else []) @
         [(''Access-Control-Allow-Methods'', ''GET, POST, PUT, PATCH, DELETE, OPTIONS''),
          (''Access-Control-Allow-Headers'', ''Authorization, Content-Type, X-Request-ID, X-Token-Delivery''),
          (''Access-Control-Max-Age'', ''7200'')],
       co_done = (hr_method r = ''OPTIONS'')\<rparr>)"

definition request_id :: "string \<Rightarrow> 'a middleware" where
  "request_id fresh next r cx =
     (let id = header r ''X-Request-ID'' in next r (with_request_id (if id = '''' then fresh else id) cx))"

section \<open>Rate limits\<close>

text \<open>\<open>net.SplitHostPort\<close>, the host.\<close>

definition split_host_port :: "string \<Rightarrow> string option" where
  "split_host_port hp =
     (case after_last (CHR '':'') hp of
        None \<Rightarrow> None
      | Some port \<Rightarrow>
          let i = length hp - length port - 1 in
          if prefix ''['' hp then
            (let close = index_byte (CHR '']'') hp in
             if close < 0 \<or> close + 1 \<noteq> int i then None
             else let host = take (nat close - 1) (drop 1 hp) in
               if CHR ''['' \<in> set (drop 1 hp) \<or> CHR '']'' \<in> set (drop (nat close + 1) hp) then None
               else Some host)
          else let host = take i hp in
            if CHR '':'' \<in> set host \<or> CHR ''['' \<in> set hp \<or> CHR '']'' \<in> set hp then None else Some host)"

definition client_ip :: "http_request \<Rightarrow> string" where
  "client_ip r =
     (let xff = header r ''X-Forwarded-For'' in
      if xff \<noteq> '''' then
        (let i = index_byte (CHR '','') xff in if i \<ge> 0 then take (nat i) xff else xff)
      else case split_host_port (hr_remote_addr r) of None \<Rightarrow> hr_remote_addr r | Some h \<Rightarrow> h)"

text \<open>\<open>Allow\<close>: \<open>up\<close> and \<open>up'\<close> say whether Redis answers the increment and the expiry. The error of the
expiry is dropped, an unreachable Redis lets the caller through.\<close>

definition allow :: "bool \<Rightarrow> bool \<Rightarrow> int \<Rightarrow> string \<Rightarrow> int \<Rightarrow> int \<Rightarrow> bool call" where
  "allow up up' now key limit window w =
     (case redis_incr up now key w of
        (Inl e, w1) \<Rightarrow> (Inr True, w1)
      | (Inr count, w1) \<Rightarrow>
          (Inr (count \<le> limit), if count = 1 then snd (redis_expire up' now key window w1) else w1))"

definition limit_key :: "string \<Rightarrow> string \<Rightarrow> string" where
  "limit_key bucket k = ''ratelimit:'' @ bucket @ '':'' @ k"

definition rate_limit ::
  "bool \<Rightarrow> bool \<Rightarrow> int \<Rightarrow> string \<Rightarrow> int \<Rightarrow> int \<Rightarrow> (http_request \<Rightarrow> string) \<Rightarrow> 'a middleware" where
  "rate_limit up up' now bucket limit window key_func next r cx =
     and_then (map_error from_service_error (allow up up' now (limit_key bucket (key_func r)) limit window)) (\<lambda>ok.
     guard ok (reply 429 ''rate_limited'' ''Too many requests. Please try again later.'') (next r cx))"

end
