(* ===== verification/Guard_Rules.thy ===== *)
theory Guard_Rules
  imports Http_Guards Event_Access
begin

text \<open>
  What the guards of a route let through: the chain of a workspace route on the tenant repository, the
  chain of an API client's route with the tokens the grant hands out, requests across sites, and the
  rate limiter.
\<close>

section \<open>Routes of a workspace\<close>

lemma revoked_run:
  "is_access_token_revoked up now jti w = (Inr (\<not> up \<or> live now (snd w) (blacklist_key jti) \<noteq> None), w)"
  by (cases w) (auto simp: is_access_token_revoked_def redis_exists_def redis_def)

lemma map_error_Inr: "m s = (Inr a, s') \<Longrightarrow> map_error f m s = (Inr a, s')"
  by (simp add: map_error_def)

definition user_route ::
  "membership_check \<Rightarrow> bool \<Rightarrow> int \<Rightarrow> auth_deps \<Rightarrow> member_role \<Rightarrow> 'a handler \<Rightarrow> 'a handler" where
  "user_route members up now d minimum h =
     chain h [require_member_role minimum, require_tenant_for_user members, require_user_auth up now d]"

text \<open>The claims of a request that are good now: signed, current, of a user and not signed out.\<close>

definition user_claims_of :: "bool \<Rightarrow> int \<Rightarrow> auth_deps \<Rightarrow> http_request \<Rightarrow> kv \<Rightarrow> claims option" where
  "user_claims_of up now d r k =
     (case user_access_token r of
        None \<Rightarrow> None
      | Some (raw, b) \<Rightarrow>
          (case parse_token d now raw of
             None \<Rightarrow> None
           | Some c \<Rightarrow>
               if cl_type c = TokenTypeUserAccess \<and> up \<and> live now k (blacklist_key (cl_id c)) = None
               then Some c else None))"

lemma user_auth_run:
  "case user_claims_of up now d r (snd w) of
     Some c \<Rightarrow> require_user_auth up now d h r cx w = h r (user_ctx c cx) w
   | None \<Rightarrow> \<exists>e. he_status e = 401 \<and> require_user_auth up now d h r cx w = (Inl e, w)"
  by (auto simp: require_user_auth_def user_claims_of_def guard_def fail_def and_then_def
      map_error_Inr [OF revoked_run] invalid_token_def reply_def split: option.splits prod.splits)

lemma user_ctx_sel:
  "cx_user_id (user_ctx c cx) = Some (cl_user_id c)"
  "cx_tenant_id (user_ctx c cx) = (if cl_tenant_id c \<noteq> '''' then Some (cl_tenant_id c) else cx_tenant_id cx)"
  by (simp_all add: user_ctx_def Let_def with_access_token_meta_def with_tenant_id_def with_super_admin_def
      with_user_id_def)

definition member_ctx :: "claims \<Rightarrow> string \<Rightarrow> req_ctx" where
  "member_ctx c role = with_member_role role (with_tenant_id (cl_tenant_id c) (user_ctx c empty_ctx))"

context membership_checker
begin

definition holds_role :: "db \<Rightarrow> member_role \<Rightarrow> claims \<Rightarrow> bool" where
  "holds_role s minimum c \<longleftrightarrow> cl_tenant_id c \<noteq> '''' \<and> snd (role_of s (cl_tenant_id c) (cl_user_id c)) \<and>
     is_at_least (fst (role_of s (cl_tenant_id c) (cl_user_id c))) minimum"

lemma tenant_guard_run:
  "case role_of (fst w) (cl_tenant_id c) (cl_user_id c) of (role, active) \<Rightarrow>
     if cl_tenant_id c \<noteq> '''' \<and> active
     then require_tenant_for_user check_role h r (user_ctx c empty_ctx) w = h r (member_ctx c role) w
     else \<exists>e. he_status e \<in> {400, 403} \<and>
       require_tenant_for_user check_role h r (user_ctx c empty_ctx) w = (Inl e, w)"
proof -
  have "map_error (\<lambda>_. internal_error) (on_db (with_tenant_tx tid (check_role tid uid))) w
      = (Inr (role_of (fst w) tid uid), w)" if "tid \<noteq> ''''" for tid uid
    using that by (simp add: map_error_def on_db_def with_tenant_tx_def with_tx_def check_run)
  then show ?thesis
    by (auto simp: require_tenant_for_user_def user_ctx_sel empty_ctx_def Let_def guard_def fail_def and_then_def
        reply_def member_ctx_def split: prod.splits)
qed

lemma user_route_run:
  "case user_claims_of up now d r (snd w) of
     None \<Rightarrow> \<exists>e. he_status e = 401 \<and> user_route check_role up now d minimum h r empty_ctx w = (Inl e, w)
   | Some c \<Rightarrow>
       if holds_role (fst w) minimum c
       then user_route check_role up now d minimum h r empty_ctx w =
         h r (member_ctx c (fst (role_of (fst w) (cl_tenant_id c) (cl_user_id c)))) w
       else \<exists>e. he_status e \<in> {400, 403} \<and> user_route check_role up now d minimum h r empty_ctx w = (Inl e, w)"
proof (cases "user_claims_of up now d r (snd w)")
  case None
  with user_auth_run [where up = up and now = now and d = d and r = r and w = w] show ?thesis by (simp add: user_route_def chain_def)
next
  case (Some c)
  let ?h = "require_member_role minimum h"
  let ?t = "require_tenant_for_user check_role ?h"
  obtain role active where ro: "role_of (fst w) (cl_tenant_id c) (cl_user_id c) = (role, active)" by fastforce
  have run: "user_route check_role up now d minimum h r empty_ctx w = ?t r (user_ctx c empty_ctx) w"
    using user_auth_run [where up = up and now = now and d = d and r = r and w = w and h = ?t and cx = empty_ctx] by (simp add: user_route_def chain_def Some)
  have role: "?h r (member_ctx c role) w =
      (if is_at_least role minimum then h r (member_ctx c role) w
       else (Inl (reply 403 ''forbidden'' ''Your role does not permit this action.''), w))"
    by (simp add: require_member_role_def member_ctx_def with_member_role_def guard_def fail_def)
  from tenant_guard_run [where w = w and c = c and h = ?h and r = r] show ?thesis
    unfolding Some option.case run holds_role_def ro prod.case fst_conv snd_conv
    by (auto simp: role reply_def split: if_splits)
qed

end

text \<open>C20: a route of a workspace is reached with exactly these requests: the access token (of the header, or
else of the cookie) is signed by this server, current, of a user and not signed out, it names a workspace,
and its user is at this moment an active member there with at least the role the route asks for. The
handler then sees that workspace and that role. Every other request is refused with 400, 401 or 403 and
nothing is changed; with Redis unreachable nobody gets in.\<close>

theorem user_route_rule:
  assumes "tenants_ok (fst w)"
  shows "(\<exists>c m. user_claims_of up now d r (snd w) = Some c \<and> cl_tenant_id c \<noteq> '''' \<and>
       m \<in> set (db_members (fst w)) \<and> is_membership (cl_tenant_id c) (cl_user_id c) m \<and>
       mb_status m = MemberActive \<and> is_at_least (mb_role m) minimum \<and>
       user_route active_role up now d minimum h r empty_ctx w = h r (member_ctx c (mb_role m)) w) \<or>
    (\<nexists>c m. user_claims_of up now d r (snd w) = Some c \<and> cl_tenant_id c \<noteq> '''' \<and>
       m \<in> set (db_members (fst w)) \<and> is_membership (cl_tenant_id c) (cl_user_id c) m \<and>
       mb_status m = MemberActive \<and> is_at_least (mb_role m) minimum) \<and>
    (\<exists>e. he_status e \<in> {400, 401, 403} \<and> user_route active_role up now d minimum h r empty_ctx w = (Inl e, w))"
proof (cases "user_claims_of up now d r (snd w)")
  case None
  with tenant_members.user_route_run [where up = up and now = now and d = d and r = r and w = w and minimum = minimum and h = h] show ?thesis by auto
next
  case (Some c)
  note run = tenant_members.user_route_run [where up = up and now = now and d = d and r = r and w = w and minimum = minimum and h = h, unfolded Some option.case]
  let ?m = "select_one (is_membership (cl_tenant_id c) (cl_user_id c)) (db_members (fst w))"
  have cur: "current_role (fst w) (cl_tenant_id c) (cl_user_id c) = (mb_role m, mb_status m = MemberActive)"
    if "m \<in> set (db_members (fst w))" "is_membership (cl_tenant_id c) (cl_user_id c) m" for m
    using one_membership [OF assms that] by (simp add: current_role_def)
  show ?thesis
  proof (cases "tenant_members.holds_role (fst w) minimum c")
    case True
    then have tid: "cl_tenant_id c \<noteq> ''''" and ok: "snd (current_role (fst w) (cl_tenant_id c) (cl_user_id c))"
      "is_at_least (fst (current_role (fst w) (cl_tenant_id c) (cl_user_id c))) minimum"
      by (simp_all add: tenant_members.holds_role_def)
    from ok(1) obtain m where "?m = Some m" by (cases ?m) (simp_all add: current_role_def)
    note m = select_one_SomeD [OF this]
    with ok run [unfolded if_P [OF True]] have "mb_status m = MemberActive" "is_at_least (mb_role m) minimum"
      "user_route active_role up now d minimum h r empty_ctx w = h r (member_ctx c (mb_role m)) w"
      by (simp_all add: cur [OF conjunct1 [OF m] conjunct2 [OF m]])
    with m tid Some show ?thesis by blast
  next
    case False
    have "\<not> (cl_tenant_id c \<noteq> '''' \<and> m \<in> set (db_members (fst w)) \<and>
        is_membership (cl_tenant_id c) (cl_user_id c) m \<and>
        mb_status m = MemberActive \<and> is_at_least (mb_role m) minimum)" for m
      using False cur [of m] by (auto simp: tenant_members.holds_role_def)
    with run [unfolded if_not_P [OF False]] Some show ?thesis by auto
  qed
qed

definition demo_bearer :: "string \<Rightarrow> http_request" where
  "demo_bearer token = \<lparr>hr_method = ''POST'', hr_path = ''/api/v1/events'',
     hr_headers = [(''Authorization'', ''Bearer '' @ token)], hr_cookies = [], hr_remote_addr = ''10.0.0.1:80''\<rparr>"

text \<open>Tokens that read as the name of the workspace they are for.\<close>

definition demo_decode :: "string \<Rightarrow> claims option" where
  "demo_decode x = Some
     \<lparr>cl_issuer = ''r'', cl_subject = ''u'', cl_id = ''j'', cl_issued_at = 0, cl_not_before = 0, cl_expires_at = 10,
      cl_type = TokenTypeUserAccess, cl_user_id = ''u'', cl_super = False, cl_client_id = '''', cl_scopes = [],
      cl_tenant_id = x\<rparr>"

definition demo_signer :: auth_deps where
  "demo_signer = \<lparr>ad_hash = (\<lambda>x. ''#'' @ x), ad_derive = (\<lambda>x. ''$'' @ x), ad_verify = (\<lambda>p h. h = ''$'' @ p),
     ad_sign = cl_tenant_id, ad_decode = demo_decode, ad_issuer = ''r'',
     ad_access_ttl = 10, ad_email_ttl = 50, ad_refresh_ttl = 60, ad_absolute_ttl = 100, ad_grace = 5,
     ad_otp_ttl = 3000000, ad_cooldown = 1000000, ad_signup_token_ttl = 9000000\<rparr>"

theorem user_route_rule_witness:
  "let d = demo_signer;
       out = user_route active_role True 5 d RoleAdmin (\<lambda>r cx. ret cx) (demo_bearer ''t'') empty_ctx (demo_crew, Map.empty)
   in map_sum id cx_member_role (fst out) = Inr (Some RoleOwner) \<and>
      (\<exists>m \<in> set (db_members demo_crew). mb_status m = MemberActive \<and> is_at_least (mb_role m) RoleAdmin)"
proof -
  let ?d = demo_signer
  let ?w = "(demo_crew, Map.empty :: kv)"
  let ?out = "user_route active_role True 5 ?d RoleAdmin (\<lambda>r cx. ret cx) (demo_bearer ''t'') empty_ctx ?w"
  have in': "map_sum id cx_member_role (fst ?out) = Inr (Some RoleOwner)" by code_simp
  then have "\<nexists>e. ?out = (Inl e, ?w)" by auto
  moreover have "tenants_ok (fst ?w)" by (simp add: demo_crew_ok(1))
  ultimately have "\<exists>m \<in> set (db_members (fst ?w)). mb_status m = MemberActive \<and> is_at_least (mb_role m) RoleAdmin"
    using user_route_rule [where w = ?w and up = True and now = 5 and d = ?d and r = "demo_bearer ''t''"
        and minimum = RoleAdmin and h = "\<lambda>r cx. ret cx"] by blast
  with in' show ?thesis by simp
qed

section \<open>Requests across sites\<close>

text \<open>A request a browser sends on its own: it changes something, carries no Authorization header, and has
the session cookies or signs in.\<close>

definition rides_on_cookies :: "http_request \<Rightarrow> bool" where
  "rides_on_cookies r \<longleftrightarrow> has_cookie r AccessCookieName \<or> has_cookie r ''racetify_refresh_token''"

definition browser_request :: "http_request \<Rightarrow> bool" where
  "browser_request r \<longleftrightarrow> \<not> safe_method (hr_method r) \<and> header r ''Authorization'' = '''' \<and>
     (rides_on_cookies r \<or> has_prefix (hr_path r) ''/api/v1/auth/'')"

lemma csrf_run:
  "csrf p h r cx =
     (if browser_request r \<and>
         (header r ''Sec-Fetch-Site'' = ''cross-site'' \<or>
          (if header r ''Origin'' = '''' then rides_on_cookies r else \<not> allowed_origin p (header r ''Origin'')))
      then fail cross_origin_refused else h r cx)"
  by (auto simp: csrf_def browser_request_def rides_on_cookies_def Let_def guard_def)

lemma origin_covered_by_entry:
  assumes "allowed_origin (new_policy es) raw"
  shows "\<exists>o' e pt. origin (new_policy es) raw = Some o' \<and> e \<in> set es \<and> entry_pattern e = Some pt \<and> covers pt o'"
proof -
  obtain o' where o': "origin (new_policy es) raw = Some o'" using assms by (auto simp: allowed_origin_def)
  from origin_covered [OF this] new_policy_configured [of es] o' show ?thesis unfolding configured_def by metis
qed

text \<open>C21: a request without an Authorization header that changes something and rides on the session cookies
reaches a handler only from a configured frontend: the Origin header names the host of an entry, or one label
under a wildcard entry, with its scheme and port, and the browser does not call the request cross-site.
Anything else leaves the database and Redis untouched and is answered with 403. A request with an
Authorization header of any kind is let past this check (\<open>other_scheme_skips_csrf\<close>).\<close>

theorem cookie_requests_from_frontends:
  assumes "\<not> safe_method (hr_method r)" "header r ''Authorization'' = ''''"
    and "has_cookie r AccessCookieName \<or> has_cookie r ''racetify_refresh_token''"
  shows "(header r ''Sec-Fetch-Site'' \<noteq> ''cross-site'' \<and>
       (\<exists>o' e pt. origin (new_policy es) (header r ''Origin'') = Some o' \<and> e \<in> set es \<and>
          entry_pattern e = Some pt \<and> covers pt o') \<and>
       csrf (new_policy es) h r cx w = h r cx w) \<or>
    csrf (new_policy es) h r cx w = (Inl cross_origin_refused, w)"
  unfolding csrf_run
  using assms origin_covered_by_entry [of es "header r ''Origin''"]
  by (auto simp: browser_request_def rides_on_cookies_def fail_def)

definition demo_form :: "string \<Rightarrow> http_request" where
  "demo_form o' = \<lparr>hr_method = ''POST'', hr_path = ''/api/v1/events'', hr_headers = [(''Origin'', o')],
     hr_cookies = [(AccessCookieName, ''jwt'')], hr_remote_addr = ''10.0.0.1:80''\<rparr>"

theorem cookie_requests_from_frontends_witness:
  "let p = new_policy [''https://*.racetify.com''];
       run = (\<lambda>o'. fst (csrf p (\<lambda>r cx. ret cx) (demo_form o') empty_ctx (demo_crew, Map.empty)))
   in run ''https://lawu.racetify.com'' = Inr empty_ctx \<and> run ''https://racetify.com.evil.com'' = Inl cross_origin_refused \<and>
      (\<exists>o' e pt. origin p ''https://lawu.racetify.com'' = Some o' \<and> e \<in> set [''https://*.racetify.com''] \<and>
          entry_pattern e = Some pt \<and> covers pt o')"
proof -
  let ?p = "new_policy [''https://*.racetify.com'']"
  let ?run = "\<lambda>o'. csrf ?p (\<lambda>r cx. ret cx) (demo_form o') empty_ctx (demo_crew, Map.empty)"
  let ?r = "demo_form ''https://lawu.racetify.com''"
  have runs: "fst (?run ''https://lawu.racetify.com'') = Inr empty_ctx"
    "fst (?run ''https://racetify.com.evil.com'') = Inl cross_origin_refused"
    by code_simp+
  have hyps: "\<not> safe_method (hr_method ?r)" "header ?r ''Authorization'' = ''''"
    "has_cookie ?r AccessCookieName \<or> has_cookie ?r ''racetify_refresh_token''" by code_simp+
  have "header ?r ''Origin'' = ''https://lawu.racetify.com''" by code_simp
  with cookie_requests_from_frontends [OF hyps, where es = "[''https://*.racetify.com'']" and h = "\<lambda>r cx. ret cx"
      and cx = empty_ctx and w = "(demo_crew, Map.empty)"] runs
  show ?thesis by auto
qed

text \<open>An Authorization header of another scheme turns the check off, and the cookie still signs the caller in.\<close>

lemma other_scheme_skips_csrf:
  "let r = (demo_form ''https://evil.com'')\<lparr>hr_headers := [(''Authorization'', ''Basic x''), (''Origin'', ''https://evil.com'')]\<rparr>
   in csrf p h r cx = h r cx \<and> user_access_token r = Some (''jwt'', True)"
  by (simp add: csrf_def demo_form_def header_def user_access_token_def bearer_token_def has_prefix_def cookie_def)

section \<open>The rate limiter\<close>

text \<open>Requests of one caller, each at its time and after whatever the others did to Redis.\<close>

fun run_hits :: "string \<Rightarrow> int \<Rightarrow> int \<Rightarrow> (int \<times> (kv \<Rightarrow> kv)) list \<Rightarrow> world \<Rightarrow> bool list \<times> world" where
  "run_hits key limit window [] w = ([], w)"
| "run_hits key limit window ((now, others) # hs) w =
     (case allow True True now key limit window (fst w, others (snd w)) of (r, w1) \<Rightarrow>
      case run_hits key limit window hs w1 of (oks, w2) \<Rightarrow> ((r = Inr True) # oks, w2))"

definition counts :: "string \<Rightarrow> int \<Rightarrow> int \<Rightarrow> kv \<Rightarrow> bool" where
  "counts key n e k \<longleftrightarrow> k key = Some (itoa n, Some e)"

lemma allow_first:
  assumes "live now (snd w) key = None" "0 < whole_ms window"
  obtains w' where "allow True True now key limit window w = (Inr (1 \<le> limit), w')"
    "counts key 1 (now + whole_ms window) (snd w')"
proof
  show "allow True True now key limit window w = (Inr (1 \<le> limit),
    (fst w, (snd w)(key \<mapsto> (itoa 1, Some (now + whole_ms window)))))"
    using assms by (simp add: allow_def redis_incr_def incr_key_def max_int64_def redis_expire_def redis_def
        expire_key_def live_def)
qed (simp add: counts_def)

lemma allow_next:
  assumes "counts key n e (snd w)" "now < e" "0 < n" "n < max_int64"
  obtains w' where "allow True True now key limit window w = (Inr (n + 1 \<le> limit), w')" "counts key (n + 1) e (snd w')"
proof
  have "in_int64 n" using assms(3,4) by (simp add: in_int64_def min_int64_def)
  then have "parse_int (itoa n) = Some n" by (simp add: parse_int_itoa)
  moreover have live: "live now (snd w) key = Some (itoa n)" using assms(1,2) by (simp add: counts_def live_def)
  ultimately show "allow True True now key limit window w =
      (Inr (n + 1 \<le> limit), (fst w, (snd w)(key \<mapsto> (itoa (n + 1), Some e))))"
    using assms by (simp add: allow_def redis_incr_def incr_key_def counts_def)
qed (simp add: counts_def)

definition later_hit :: "string \<Rightarrow> int \<Rightarrow> int \<times> (kv \<Rightarrow> kv) \<Rightarrow> bool" where
  "later_hit key e h \<longleftrightarrow> fst h < e \<and> (\<forall>k. snd h k key = k key)"

lemma run_hits_counted:
  assumes "counts key n e (snd w)" "0 < n" "n + int (length hs) < max_int64" "\<forall>h \<in> set hs. later_hit key e h"
  shows "fst (run_hits key limit window hs w) = map (\<lambda>i. n + int i < limit) [0..<length hs]"
  using assms
proof (induction hs arbitrary: n w)
  case (Cons h hs)
  obtain now f where h: "h = (now, f)" by fastforce
  have f: "f k key = k key" "now < e" for k using Cons.prems(4) by (simp_all add: h later_hit_def)
  from Cons.prems(1) have "counts key n e (snd (fst w, f (snd w)))" by (simp add: counts_def f)
  then obtain w' where run: "allow True True now key limit window (fst w, f (snd w)) = (Inr (n + 1 \<le> limit), w')"
    and w': "counts key (n + 1) e (snd w')"
    by (rule allow_next [where window = window and limit = limit]) (use f Cons.prems(2,3) in auto)
  have "fst (run_hits key limit window hs w') = map (\<lambda>i. n + 1 + int i < limit) [0..<length hs]"
    using Cons.prems(2-4) by (intro Cons.IH w') auto
  then show ?case
    by (simp add: h run case_prod_unfold upt_conv_Cons map_Suc_upt [symmetric] o_def add.assoc add.commute [of 1]
        del: upt_Suc) (auto simp: ac_simps)
qed simp

text \<open>The rate limiter is exact in a window: of the requests of one caller that come within the window of
the first (to whole milliseconds), whatever others do to other keys between them, the first \<open>limit\<close> are let
through and every later one is refused.\<close>

theorem rate_limit_exact:
  assumes "live now (others (snd w)) key = None" "0 < whole_ms window"
    and "\<forall>h \<in> set hs. later_hit key (now + whole_ms window) h" "int (length hs) + 1 < max_int64"
  shows "fst (run_hits key limit window ((now, others) # hs) w) = map (\<lambda>i. int i < limit) [0..<Suc (length hs)]"
proof -
  from assms(1,2) obtain w' where run: "allow True True now key limit window (fst w, others (snd w)) = (Inr (1 \<le> limit), w')"
    and w': "counts key 1 (now + whole_ms window) (snd w')"
    by (rule_tac allow_first [where w = "(fst w, others (snd w))" and limit = limit]) auto
  have "fst (run_hits key limit window hs w') = map (\<lambda>i. 1 + int i < limit) [0..<length hs]"
    by (rule run_hits_counted [OF w' _ _ assms(3)]) (use assms(4) in auto)
  then show ?thesis
    by (simp add: run case_prod_unfold upt_conv_Cons map_Suc_upt [symmetric] o_def del: upt_Suc) (auto simp: ac_simps)
qed

theorem rate_limit_exact_witness:
  "fst (run_hits (limit_key ''login'' ''10.0.0.1'') 2 60000000000 [(0, id), (5, id), (6, id)] (demo_crew, Map.empty))
   = [True, True, False]"
proof -
  have "live 0 (id (snd (demo_crew, Map.empty :: kv))) (limit_key ''login'' ''10.0.0.1'') = None" by (simp add: live_def)
  moreover have "0 < whole_ms 60000000000" by (simp add: whole_ms_def)
  ultimately show ?thesis
    using rate_limit_exact [of 0 id "(demo_crew, Map.empty :: kv)" "limit_key ''login'' ''10.0.0.1''" 60000000000
        "[(5, id), (6, id)]" 2]
    by (simp add: later_hit_def whole_ms_def max_int64_def upt_conv_Cons del: run_hits.simps)
qed

text \<open>When the expiry of the first request is lost (its error is dropped), the counter never restarts: the
caller is refused at every later time.\<close>

lemma lost_expiry_locks_out:
  assumes "snd w key = Some (itoa n, None)" "0 < n" "limit \<le> n" "n < max_int64"
  obtains w' where "allow True up' now key limit window w = (Inr False, w')" "snd w' key = Some (itoa (n + 1), None)"
proof
  have "in_int64 n" using assms(2,4) by (simp add: in_int64_def min_int64_def)
  then have "parse_int (itoa n) = Some n" by (simp add: parse_int_itoa)
  then show "allow True up' now key limit window w = (Inr False, (fst w, (snd w)(key \<mapsto> (itoa (n + 1), None))))"
    using assms by (simp add: allow_def redis_incr_def incr_key_def live_def)
qed simp

text \<open>The caller's own header names the bucket it is counted in.\<close>

lemma forwarded_header_names_bucket:
  assumes "x \<noteq> ''''" "CHR '','' \<notin> set x" "header r ''X-Forwarded-For'' = x @ rest" "rest = '''' \<or> hd rest = CHR '',''"
  shows "client_ip r = x"
  using assms by (cases rest) (auto simp: client_ip_def index_byte_def Let_def takeWhile_append)

end
