(* ===== verification/Client_Rules.thy ===== *)
theory Client_Rules
  imports Http_Guards Tenant_Rules
begin

text \<open>
  What holds of API clients: a revoked client never gets a token again, and a granted token opens exactly
  the routes whose scope was granted, in the workspace of its client.
\<close>

section \<open>The table of clients\<close>

definition clients_ok :: "keyring \<Rightarrow> bool" where
  "clients_ok k \<longleftrightarrow> unique_on client_pk (kr_clients k) \<and> unique_on client_id_key (kr_clients k)"

lemma on_tables_snd: "on_tables m k = (r, k') \<Longrightarrow> kr_clients k' = kr_clients k"
  by (auto simp: on_tables_def split: prod.splits)

lemma keeps_on_tables [keeps_intros]:
  "(\<And>k s. I k \<Longrightarrow> I (k\<lparr>kr_db := s\<rparr>)) \<Longrightarrow> keeps I (on_tables m)"
  by (auto simp: keeps_def on_tables_def split: prod.splits)

lemma keeps_dropped [keeps_intros]: "keeps I m \<Longrightarrow> keeps I (dropped m)"
  by (auto simp: keeps_def dropped_def)

text \<open>A predicate of rows that updates keep, and inserts do not spoil.\<close>

definition client_inv :: "(oauth_client \<Rightarrow> bool) \<Rightarrow> keyring \<Rightarrow> bool" where
  "client_inv P k \<longleftrightarrow> clients_ok k \<and> list_ex P (kr_clients k)"

lemma client_inv_insert:
  assumes "client_inv P k" "client_violation k c = None"
  shows "client_inv P (k\<lparr>kr_clients := kr_clients k @ [c]\<rparr>)"
  using assms by (auto simp: client_inv_def clients_ok_def client_violation_def taken_def unique_on_append_one
      client_pk_def client_id_key_def list_all_iff list_ex_iff split: if_splits)

lemma client_inv_update:
  assumes "client_inv P k"
    and f: "\<And>c. oc_id (f c) = oc_id c" "\<And>c. oc_client_id (f c) = oc_client_id c"
    and P: "\<And>c u. P c \<Longrightarrow> P ((f c)\<lparr>oc_updated_at := u\<rparr>)"
  shows "client_inv P (update_clients en q f k)"
  unfolding client_inv_def clients_ok_def update_clients_def
proof (intro conjI)
  let ?t = "kr_clients k" and ?f = "\<lambda>c. (f c)\<lparr>oc_updated_at := e_now en\<rparr>"
  from assms(1) have ok: "unique_on client_pk ?t" "unique_on client_id_key ?t" "list_ex P ?t"
    by (simp_all add: client_inv_def clients_ok_def)
  show "unique_on client_pk (kr_clients (k\<lparr>kr_clients := update_where q ?f ?t\<rparr>))"
    using unique_on_update_same_key [OF ok(1)] by (simp add: client_pk_def f)
  show "unique_on client_id_key (kr_clients (k\<lparr>kr_clients := update_where q ?f ?t\<rparr>))"
    using unique_on_update_same_key [OF ok(2)] by (simp add: client_id_key_def f)
  show "list_ex P (kr_clients (k\<lparr>kr_clients := update_where q ?f ?t\<rparr>))"
  proof -
    from ok(3) obtain c where c: "c \<in> set ?t" "P c" by (auto simp: list_ex_iff)
    then have "(if q c then ?f c else c) \<in> set (update_where q ?f ?t)" by (simp add: update_where_def)
    moreover have "P (if q c then ?f c else c)" using c(2) P [of c] by simp
    ultimately show ?thesis unfolding list_ex_iff by (auto simp del: if_split)
  qed
qed

lemma keeps_update_clients:
  assumes "\<And>c. oc_id (f c) = oc_id c" "\<And>c. oc_client_id (f c) = oc_client_id c"
    and "\<And>c u. P c \<Longrightarrow> P ((f c)\<lparr>oc_updated_at := u\<rparr>)"
  shows "keeps (client_inv P) (writes (update_clients en q f))"
  by (rule keeps_writes) (rule client_inv_update; use assms in blast)

lemma client_inv_db: "client_inv P k \<Longrightarrow> client_inv P (k\<lparr>kr_db := s\<rparr>)"
  by (simp add: client_inv_def clients_ok_def)

lemma keeps_insert_client: "keeps (client_inv P) (insert_client c)"
  unfolding insert_client_def
proof (rule keepsI)
  fix k r k' assume I: "client_inv P k"
    and "and_then (reads (\<lambda>k. client_violation k c)) (\<lambda>v. and_then (exists_check v)
       (\<lambda>_. writes (\<lambda>k. k\<lparr>kr_clients := kr_clients k @ [c]\<rparr>))) k = (r, k')"
  then show "client_inv P k'"
    using client_inv_insert [OF I, of c]
    by (cases "client_violation k c") (auto simp: act_simps exists_check_def)
qed

section \<open>Histories of calls\<close>

datatype client_call =
    CreateClientCall string string member_role string "string list"
  | ListClientsCall string page_params
  | RevokeClientCall string string member_role string
  | GrantCall int string string string

definition discard :: "'a keyed \<Rightarrow> unit keyed" where
  "discard m = and_then m (\<lambda>_. ret ())"

fun run_client_call :: "auth_deps \<Rightarrow> env \<Rightarrow> (nat \<Rightarrow> string) \<Rightarrow> client_call \<Rightarrow> unit keyed" where
  "run_client_call d en tok (CreateClientCall tid actor role name scopes) =
     discard (create_client en tok d tid actor role name scopes)"
| "run_client_call d en tok (ListClientsCall tid pg) = discard (list_clients tid pg)"
| "run_client_call d en tok (RevokeClientCall tid actor role rid) = revoke_client en tid actor role rid"
| "run_client_call d en tok (GrantCall ttl cid secret requested) =
     discard (client_credentials_grant en tok d ttl cid secret requested)"

fun run_clients :: "auth_deps \<Rightarrow> (env \<times> (nat \<Rightarrow> string) \<times> client_call) list \<Rightarrow> keyring \<Rightarrow> keyring" where
  "run_clients d [] k = k"
| "run_clients d ((en, tok, c) # cs) k = run_clients d cs (snd (run_client_call d en tok c k))"

text \<open>No call brings a revoked client back.\<close>

definition revoked_client :: "string \<Rightarrow> oauth_client \<Rightarrow> bool" where
  "revoked_client cid c \<longleftrightarrow> oc_client_id c = cid \<and> oc_status c = ClientRevoked"

lemma keeps_discard [keeps_intros]: "keeps I m \<Longrightarrow> keeps I (discard m)"
  unfolding discard_def by (intro keeps_intros)

lemmas keeps_client_rows = keeps_update_clients client_inv_db keeps_insert_client

lemma keeps_revoke_client: "keeps (client_inv (revoked_client cid)) (revoke_client en tid actor role rid)"
  unfolding revoke_client_def revoke_client_row_def Let_def
  by (intro keeps_intros keeps_client_rows) (simp_all add: revoked_client_def)

lemma keeps_run_client_call: "keeps (client_inv (revoked_client cid)) (run_client_call d en tok c)"
proof (cases c)
  case (CreateClientCall tid actor role name scopes)
  show ?thesis unfolding CreateClientCall run_client_call.simps create_client_def Let_def
    by (intro keeps_intros keeps_client_rows)
next
  case (ListClientsCall tid pg)
  show ?thesis unfolding ListClientsCall run_client_call.simps list_clients_def list_clients_rows_def Let_def
    by (intro keeps_intros)
next
  case (RevokeClientCall tid actor role rid)
  show ?thesis unfolding RevokeClientCall run_client_call.simps by (rule keeps_revoke_client)
next
  case (GrantCall ttl cid' secret requested)
  show ?thesis
    unfolding GrantCall run_client_call.simps client_credentials_grant_def get_client_def touch_last_used_def
      issue_m2m_access_token_def prod.case
    by (intro keeps_intros keeps_client_rows) (simp_all add: revoked_client_def)
qed

lemma client_inv_run_clients: "client_inv (revoked_client cid) k \<Longrightarrow> client_inv (revoked_client cid) (run_clients d cs k)"
proof (induction cs arbitrary: k)
  case (Cons x cs)
  obtain en tok c where x: "x = (en, tok, c)" by (cases x)
  have "client_inv (revoked_client cid) (snd (run_client_call d en tok c k))"
    by (rule keepsD [OF keeps_run_client_call Cons.prems]) (rule prod.collapse [symmetric])
  from Cons.IH [OF this] show ?case by (simp add: x)
qed simp

lemma revoked_grant:
  assumes "client_inv (revoked_client cid) k"
  shows "client_credentials_grant en tok d ttl cid secret requested k = (Inl (Sentinel ErrInvalidCredentials), k)"
proof -
  from assms obtain c where c: "c \<in> set (kr_clients k)" "oc_client_id c = cid" "oc_status c = ClientRevoked"
    by (auto simp: client_inv_def list_ex_iff revoked_client_def)
  obtain c' where some: "select_one (\<lambda>c. oc_client_id c = cid) (kr_clients k) = Some c'"
    using c(1,2) by (cases "select_one (\<lambda>c. oc_client_id c = cid) (kr_clients k)") (auto simp: select_one_None_iff)
  have "c' = c"
    using unique_on_sel [of client_id_key "kr_clients k" c' c cid] select_one_SomeD [OF some] c(1,2) assms
    by (simp add: client_inv_def clients_ok_def client_id_key_def)
  with some c(3) show ?thesis
    by (simp add: client_credentials_grant_def get_client_def and_then_def not_found_as_def reads_def found_def
        of_option_def ret_def guard_def fail_def)
qed

lemma revoke_client_InrE:
  assumes "revoke_client en tid actor role rid k = (Inr u, k')"
  obtains c where "c \<in> set (kr_clients k)" "oc_id c = rid" "oc_tenant_id c = tid" "role = RoleAdmin \<or> role = RoleOwner"
    "kr_clients k' = kr_clients (update_clients en (\<lambda>c. oc_id c = rid \<and> oc_tenant_id c = tid)
       (\<lambda>c. c\<lparr>oc_status := ClientRevoked\<rparr>) k)"
proof -
  let ?q = "\<lambda>c. oc_id c = rid \<and> oc_tenant_id c = tid"
  from assms have role: "is_at_least role RoleAdmin" and n: "length (select ?q (kr_clients k)) \<noteq> 0"
    and k': "kr_clients k' = kr_clients (update_clients en ?q (\<lambda>c. c\<lparr>oc_status := ClientRevoked\<rparr>) k)"
    unfolding revoke_client_def revoke_client_row_def Let_def
    by (elim act_elims; simp add: on_tables_snd)+
  from n obtain c where "c \<in> set (kr_clients k)" "?q c" by (auto simp: select_def filter_empty_conv)
  with that role k' show thesis by simp
qed

text \<open>C22: revoking an API client is final: only an owner or admin of its workspace can do it, and afterwards,
whatever clients are created, listed, revoked or granted tokens, the token endpoint answers its
identifier with \<open>ErrInvalidCredentials\<close>, with the right secret too, and leaves everything as it is.\<close>

theorem revoked_client_locked_out:
  assumes "clients_ok k" and "c \<in> set (kr_clients k)" "oc_id c = rid"
    and "revoke_client en tid actor role rid k = (Inr u, k')"
  shows "(role = RoleAdmin \<or> role = RoleOwner) \<and> oc_tenant_id c = tid \<and>
    (let k'' = run_clients d cs k' in
     client_credentials_grant en' tok d ttl (oc_client_id c) secret requested k'' =
       (Inl (Sentinel ErrInvalidCredentials), k''))"
proof -
  from assms(4) obtain c' where c': "c' \<in> set (kr_clients k)" "oc_id c' = rid" "oc_tenant_id c' = tid"
    and role: "role = RoleAdmin \<or> role = RoleOwner"
    and k': "kr_clients k' = kr_clients (update_clients en (\<lambda>c. oc_id c = rid \<and> oc_tenant_id c = tid)
       (\<lambda>c. c\<lparr>oc_status := ClientRevoked\<rparr>) k)"
    by (rule revoke_client_InrE)
  have "c' = c"
    using unique_on_sel [of client_pk "kr_clients k" c' c rid] assms(1-3) c' by (simp add: clients_ok_def client_pk_def)
  with c'(3) have tid: "oc_tenant_id c = tid" by simp
  let ?q = "\<lambda>c. oc_id c = rid \<and> oc_tenant_id c = tid"
  have "client_inv (\<lambda>c. True) k" using assms(1,2) by (auto simp: client_inv_def list_ex_iff)
  then have "client_inv (\<lambda>c. True) (update_clients en ?q (\<lambda>c. c\<lparr>oc_status := ClientRevoked\<rparr>) k)"
    by (rule client_inv_update) simp_all
  then have "clients_ok k'" by (simp add: client_inv_def clients_ok_def k')
  moreover have "list_ex (revoked_client (oc_client_id c)) (kr_clients k')"
    unfolding k' list_ex_iff update_clients_def using assms(2,3) tid
    by (intro bexI [of _ "c\<lparr>oc_status := ClientRevoked, oc_updated_at := e_now en\<rparr>"])
      (auto simp: revoked_client_def set_update_where)
  ultimately have "client_inv (revoked_client (oc_client_id c)) k'" by (simp add: client_inv_def)
  from revoked_grant [OF client_inv_run_clients [OF this]] role tid show ?thesis by (simp add: Let_def)
qed

text \<open>A client with two scopes, the claims of its token, and a library that knows this token.\<close>

definition demo_api_client :: oauth_client where
  "demo_api_client = \<lparr>oc_id = ''k'', oc_tenant_id = ''t'', oc_client_id = ''rtf_client_a'', oc_secret_hash = ''#s'',
     oc_name = ''Timing'', oc_scopes = [''events:read'', ''timing:write''], oc_status = ClientActive,
     oc_created_by = ''u'', oc_last_used_at = None, oc_created_at = 1, oc_updated_at = 1\<rparr>"

definition demo_keyring :: keyring where
  "demo_keyring = \<lparr>kr_db = demo_people\<lparr>db_tenants := [demo_tenant]\<rparr>, kr_clients = [demo_api_client]\<rparr>"

definition demo_m2m_claims :: "string \<Rightarrow> claims option" where
  "demo_m2m_claims x = Some
     \<lparr>cl_issuer = ''r'', cl_subject = ''rtf_client_a'', cl_id = ''j'', cl_issued_at = 0, cl_not_before = 0,
      cl_expires_at = 5000000000, cl_type = TokenTypeM2MAccess, cl_user_id = '''', cl_super = False,
      cl_client_id = ''rtf_client_a'', cl_scopes = [''events:read''], cl_tenant_id = ''t''\<rparr>"

definition demo_m2m_deps :: auth_deps where
  "demo_m2m_deps = \<lparr>ad_hash = demo_hash, ad_derive = demo_hash, ad_verify = (\<lambda>p h. h = demo_hash p),
     ad_sign = (\<lambda>c. ''jwt''), ad_decode = demo_m2m_claims, ad_issuer = ''r'',
     ad_access_ttl = 10, ad_email_ttl = 50, ad_refresh_ttl = 60, ad_absolute_ttl = 100, ad_grace = 5,
     ad_otp_ttl = 3000000, ad_cooldown = 1000000, ad_signup_token_ttl = 9000000\<rparr>"

theorem revoked_client_locked_out_witness:
  "let k' = snd (revoke_client (demo_env_at ''x'' 8) ''t'' ''u'' RoleAdmin ''k'' demo_keyring);
       k'' = run_clients demo_m2m_deps
         [(demo_env_at ''y'' 9, (\<lambda>_. ''z''), CreateClientCall ''t'' ''u'' RoleOwner ''Other'' [''face:read''])] k'
   in length (kr_clients k'') = 2 \<and>
      client_credentials_grant (demo_env_at ''w'' 10) (\<lambda>_. ''j'') demo_m2m_deps 60 ''rtf_client_a'' ''s'' '''' k'' =
        (Inl (Sentinel ErrInvalidCredentials), k'')"
proof -
  let ?r = "revoke_client (demo_env_at ''x'' 8) ''t'' ''u'' RoleAdmin ''k'' demo_keyring"
  let ?cs = "[(demo_env_at ''y'' 9, (\<lambda>_. ''z''), CreateClientCall ''t'' ''u'' RoleOwner ''Other'' [''face:read''])]"
  have run: "?r = (Inr (projr (fst ?r)), snd ?r)" by (rule run_succeeded) code_simp
  have ok: "clients_ok demo_keyring" "demo_api_client \<in> set (kr_clients demo_keyring)"
    "oc_id demo_api_client = ''k''" "oc_client_id demo_api_client = ''rtf_client_a''"
    by (simp_all add: clients_ok_def demo_keyring_def demo_api_client_def)
  have two: "length (kr_clients (run_clients demo_m2m_deps ?cs (snd ?r))) = 2" by code_simp
  from revoked_client_locked_out [OF ok(1-3) run, where d = demo_m2m_deps and cs = ?cs and en' = "demo_env_at ''w'' 10"
      and tok = "\<lambda>_. ''j''" and ttl = 60 and secret = "''s''" and requested = "''''"] two
  show ?thesis unfolding Let_def ok(4) by blast
qed

section \<open>What a token opens\<close>

text \<open>The claims of a token as the library hands them back: its times are whole seconds.\<close>

definition in_seconds :: "claims \<Rightarrow> claims" where
  "in_seconds c = c\<lparr>cl_issued_at := (cl_issued_at c div 1000000000) * 1000000000,
     cl_not_before := (cl_not_before c div 1000000000) * 1000000000,
     cl_expires_at := (cl_expires_at c div 1000000000) * 1000000000\<rparr>"

definition m2m_route :: "int \<Rightarrow> auth_deps \<Rightarrow> string \<Rightarrow> 'a handler \<Rightarrow> 'a handler" where
  "m2m_route now d scope h = chain h [require_scope scope, require_tenant_for_m2m, require_m2m_auth now d]"

definition granted_scopes :: "oauth_client \<Rightarrow> string \<Rightarrow> string list" where
  "granted_scopes c requested = (if requested = '''' then oc_scopes c else str_fields requested)"

lemma narrowed_scopes_Inr:
  "narrowed_scopes c requested = Inr scopes \<Longrightarrow> scopes = granted_scopes c requested \<and> set scopes \<subseteq> set (oc_scopes c)"
  by (auto simp: narrowed_scopes_def granted_scopes_def find_None_iff client_has_scope_def list_ex_iff
      split: if_splits option.splits)

lemma grant_InrE:
  assumes "client_credentials_grant en tok d ttl cid secret requested k = (Inr g, k')"
    and "select_one (\<lambda>c. oc_client_id c = cid) (kr_clients k) = Some c"
  obtains "oc_status c = ClientActive" "ad_hash d secret = oc_secret_hash c"
    "set (granted_scopes c requested) \<subseteq> set (oc_scopes c)"
    "gr_access_token g = ad_sign d (m2m_claims d ttl (e_now en) (tok 0) cid (oc_tenant_id c) (granted_scopes c requested))"
proof -
  have cid: "oc_client_id c = cid" using select_one_SomeD [OF assms(2)] by simp
  have row: "not_found_as (Sentinel ErrInvalidCredentials) (get_client cid) k = (Inr c, k)"
    by (simp add: not_found_as_def get_client_def act_simps assms(2) found_def)
  show thesis
    using assms(1) that narrowed_scopes_Inr [of c requested]
    unfolding client_credentials_grant_def and_then_def [of "not_found_as _ _"] row
    by (auto simp: guard_def fail_def ret_def and_then_def of_sum_def issue_m2m_access_token_def touch_last_used_def
        dropped_def writes_def cid split: sum.splits if_splits)
qed

lemma m2m_route_run:
  assumes "bearer_token r = Some raw" and "parse_token d now raw = Some c" "cl_type c = TokenTypeM2MAccess"
  shows "if scope \<in> set (cl_scopes c) then m2m_route now d scope h r empty_ctx w = h r (m2m_ctx c empty_ctx) w
    else \<exists>e. he_status e = 403 \<and> m2m_route now d scope h r empty_ctx w = (Inl e, w)"
  using assms by (simp add: m2m_route_def chain_def require_m2m_auth_def require_tenant_for_m2m_def require_scope_def
      m2m_ctx_def with_m2m_scopes_def with_tenant_id_def with_m2m_client_id_def guard_def fail_def list_ex_iff reply_def)

text \<open>A token of the client credentials grant opens what was granted and nothing else. The grant needs an
active client with this secret and only scopes the client was given; with the token, a route that asks
for a scope is reached until the token expires (to whole seconds) exactly if that scope was granted, and
the handler sees the workspace of the client. The only hypothesis on the JWT library is that it decodes
the token it signed.\<close>

theorem granted_token_opens:
  assumes "client_credentials_grant en tok d ttl cid secret requested k = (Inr g, k')"
    and "select_one (\<lambda>c. oc_client_id c = cid) (kr_clients k) = Some c"
    and "ad_decode d (gr_access_token g) =
      Some (in_seconds (m2m_claims d ttl (e_now en) (tok 0) cid (oc_tenant_id c) (granted_scopes c requested)))"
    and "bearer_token r = Some (gr_access_token g)" "e_now en \<le> now"
  shows "oc_status c = ClientActive \<and> ad_hash d secret = oc_secret_hash c \<and>
    set (granted_scopes c requested) \<subseteq> set (oc_scopes c) \<and>
    (if now < (e_now en + ttl) div 1000000000 * 1000000000 \<and> scope \<in> set (granted_scopes c requested)
     then \<exists>cx. cx_tenant_id cx = Some (oc_tenant_id c) \<and> cx_client_id cx = Some cid \<and> cx_user_id cx = None \<and>
       m2m_route now d scope h r empty_ctx w = h r cx w
     else \<exists>e. he_status e \<in> {401, 403} \<and> m2m_route now d scope h r empty_ctx w = (Inl e, w))"
proof -
  let ?c = "in_seconds (m2m_claims d ttl (e_now en) (tok 0) cid (oc_tenant_id c) (granted_scopes c requested))"
  let ?exp = "(e_now en + ttl) div 1000000000 * 1000000000"
  have sel: "cl_issuer ?c = ad_issuer d" "cl_expires_at ?c = ?exp" "cl_type ?c = TokenTypeM2MAccess"
    "cl_scopes ?c = granted_scopes c requested" "cl_tenant_id ?c = oc_tenant_id c" "cl_client_id ?c = cid"
    "cl_not_before ?c = e_now en div 1000000000 * 1000000000"
    by (simp_all add: in_seconds_def m2m_claims_def)
  have "e_now en div 1000000000 * 1000000000 \<le> e_now en" by presburger
  then have parse: "parse_token d now (gr_access_token g) = (if now < ?exp then Some ?c else None)"
    using assms(5) by (simp add: parse_token_def assms(3) sel)
  have route: "if now < ?exp \<and> scope \<in> set (granted_scopes c requested)
     then m2m_route now d scope h r empty_ctx w = h r (m2m_ctx ?c empty_ctx) w
     else \<exists>e. he_status e \<in> {401, 403} \<and> m2m_route now d scope h r empty_ctx w = (Inl e, w)"
  proof (cases "now < ?exp")
    case True
    with parse have "parse_token d now (gr_access_token g) = Some ?c" by simp
    from m2m_route_run [OF assms(4) this sel(3), of scope h w] True show ?thesis
      unfolding sel(4) by (auto split: if_splits)
  next
    case False
    with parse show ?thesis
      by (simp add: m2m_route_def chain_def require_m2m_auth_def assms(4) fail_def invalid_token_def reply_def)
  qed
  have "cx_tenant_id (m2m_ctx ?c empty_ctx) = Some (oc_tenant_id c)" "cx_client_id (m2m_ctx ?c empty_ctx) = Some cid"
    "cx_user_id (m2m_ctx ?c empty_ctx) = None"
    by (simp_all add: m2m_ctx_def with_m2m_scopes_def with_tenant_id_def with_m2m_client_id_def empty_ctx_def sel)
  with route grant_InrE [OF assms(1,2)] show ?thesis by (auto split: if_splits)
qed

definition demo_api_request :: http_request where
  "demo_api_request = \<lparr>hr_method = ''GET'', hr_path = ''/api/v1/m2m/events'',
     hr_headers = [(''Authorization'', ''Bearer jwt'')], hr_cookies = [], hr_remote_addr = ''10.0.0.1:80''\<rparr>"

theorem granted_token_opens_witness:
  "let out = client_credentials_grant (demo_env_at ''w'' 0) (\<lambda>_. ''j'') demo_m2m_deps 5000000000 ''rtf_client_a'' ''s''
       ''events:read'' demo_keyring;
     route = (\<lambda>sc. fst (m2m_route 7 demo_m2m_deps sc (\<lambda>r cx. ret (cx_tenant_id cx)) demo_api_request empty_ctx (demo_people, Map.empty)))
   in map_sum id gr_access_token (fst out) = Inr ''jwt'' \<and> route ''events:read'' = Inr (Some ''t'') \<and> isl (route ''timing:write'')"
proof -
  let ?out = "client_credentials_grant (demo_env_at ''w'' 0) (\<lambda>_. ''j'') demo_m2m_deps 5000000000 ''rtf_client_a'' ''s''
       ''events:read'' demo_keyring"
  let ?w = "(demo_people, Map.empty :: kv)"
  have jwt: "map_sum id gr_access_token (fst ?out) = Inr ''jwt''" by code_simp
  then have tok: "gr_access_token (projr (fst ?out)) = ''jwt''" by (cases "fst ?out") simp_all
  have run: "?out = (Inr (projr (fst ?out)), snd ?out)" by (rule run_succeeded) (use jwt in \<open>cases "fst ?out"; simp\<close>)
  have row: "select_one (\<lambda>c. oc_client_id c = ''rtf_client_a'') (kr_clients demo_keyring) = Some demo_api_client"
    "oc_tenant_id demo_api_client = ''t''" by code_simp+
  have bearer: "bearer_token demo_api_request = Some ''jwt''" by code_simp
  have scopes: "granted_scopes demo_api_client ''events:read'' = [''events:read'']" by code_simp
  have dec: "ad_decode demo_m2m_deps ''jwt'' = Some (in_seconds (m2m_claims demo_m2m_deps 5000000000 0 ''j'' ''rtf_client_a''
      ''t'' [''events:read'']))"
    by (simp add: demo_m2m_deps_def demo_m2m_claims_def in_seconds_def m2m_claims_def)
  have time: "e_now (demo_env_at ''w'' 0) = 0" by (simp add: demo_env_at_def)
  note opens = granted_token_opens [OF run row(1), unfolded tok scopes time row(2), OF dec bearer, of 7]
  from opens [where scope = "''events:read''" and h = "\<lambda>r cx. ret (cx_tenant_id cx)" and w = ?w]
    opens [where scope = "''timing:write''" and h = "\<lambda>r cx. ret (cx_tenant_id cx)" and w = ?w] jwt
  show ?thesis by (auto simp: ret_def)
qed

end
