(* ===== verification/Object_Drivers.thy ===== *)
theory Object_Drivers
  imports Store "HOL-Library.AList"
begin

text \<open>
  \<open>internal/platform/objectstorage\<close>: the keys of objects, the signed links of the local driver, its files
  under the storage root, and the driver for an S3 bucket. The cipher, the digest and the MAC are
  arguments; the bucket is the table of its objects, with the effect S3 documents for put, head, get and
  delete. A link is kept in its parts: its text is composed from them by \<open>net/url\<close> (or signed by the SDK).
\<close>

section \<open>Errors, buckets and keys\<close>

datatype store_error =
    ErrInvalidBucket | ErrInvalidKey string | ErrSignatureInvalid | ErrURLExpired | ErrObjectNotFound
  | StoreFailure string

fun store_text :: "store_error \<Rightarrow> string" where
  "store_text ErrInvalidBucket = ''objectstorage: invalid bucket''"
| "store_text (ErrInvalidKey m) = ''objectstorage: invalid object key: '' @ m"
| "store_text ErrSignatureInvalid = ''objectstorage: signature invalid''"
| "store_text ErrURLExpired = ''objectstorage: presigned URL expired''"
| "store_text ErrObjectNotFound = ''objectstorage: object not found''"
| "store_text (StoreFailure m) = m"

abbreviation BucketPublic :: string where "BucketPublic \<equiv> ''public''"
abbreviation BucketPrivate :: string where "BucketPrivate \<equiv> ''private''"

definition bucket_valid :: "string \<Rightarrow> bool" where
  "bucket_valid b \<longleftrightarrow> b = BucketPublic \<or> b = BucketPrivate"

definition validate_key :: "string \<Rightarrow> store_error option" where
  "validate_key key =
     (if key = '''' \<or> length key > 512 then Some (ErrInvalidKey ''must be 1-512 characters'')
      else if has_prefix key ''/'' \<or> sublist ''..'' key \<or> CHR 0x5C \<in> set key
        then Some (ErrInvalidKey (''must not start with / or contain .. or '' @ [CHR 0x5C]))
      else if list_ex (\<lambda>c. byte c < 32 \<or> byte c = 127) key
        then Some (ErrInvalidKey ''contains a control character'')
      else None)"

definition check_place :: "string \<Rightarrow> string \<Rightarrow> store_error option" where
  "check_place bucket key = (if \<not> bucket_valid bucket then Some ErrInvalidBucket else validate_key key)"

section \<open>Links\<close>

datatype link =
    SignedLink string string string string int string
  | PlainLink string string string
  | CloudLink string string string int
  | BaseLink string string

record ticket =
  tk_link :: link
  tk_expires_at :: "int option"

text \<open>What \<open>sign\<close> hands to the MAC.\<close>

definition newline :: string where "newline = [CHR 0x0A]"

definition signed_text :: "string \<Rightarrow> string \<Rightarrow> string \<Rightarrow> string \<Rightarrow> int \<Rightarrow> string" where
  "signed_text method bucket tid key expires =
     method @ newline @ bucket @ newline @ tid @ newline @ key @ newline @ itoa expires"

definition verify_signature ::
  "(string \<Rightarrow> string) \<Rightarrow> int \<Rightarrow> string \<Rightarrow> string \<Rightarrow> string \<Rightarrow> string \<Rightarrow> int \<Rightarrow> string \<Rightarrow> store_error option" where
  "verify_signature mac now method bucket tid key expires sig =
     (if now div 1000000000 > expires then Some ErrURLExpired
      else if sig \<noteq> mac (signed_text method bucket tid key expires) then Some ErrSignatureInvalid
      else None)"

definition presign ::
  "(string \<Rightarrow> string) \<Rightarrow> int \<Rightarrow> string \<Rightarrow> string \<Rightarrow> string \<Rightarrow> string \<Rightarrow> int \<Rightarrow> store_error + ticket" where
  "presign mac now method bucket tid key ttl =
     (case check_place bucket key of
        Some e \<Rightarrow> Inl e
      | None \<Rightarrow>
          let expires = (now + ttl) div 1000000000 in
          Inr \<lparr>tk_link = SignedLink method bucket tid key expires (mac (signed_text method bucket tid key expires)),
               tk_expires_at = Some (now + ttl)\<rparr>)"

section \<open>Files\<close>

datatype node = Folder | File string

type_synonym path = "string list"
type_synonym disk = "(path \<times> node) list"

fun split_char :: "char \<Rightarrow> string \<Rightarrow> string list" where
  "split_char c [] = [[]]"
| "split_char c (x # xs) =
     (if x = c then [] # split_char c xs
      else (x # hd (split_char c xs)) # tl (split_char c xs))"

text \<open>\<open>filepath.Join\<close> onto an absolute root, then \<open>filepath.Abs\<close>.\<close>

definition clean_step :: "string \<Rightarrow> path \<Rightarrow> path" where
  "clean_step c p = (if c = '''' \<or> c = ''.'' then p else if c = ''..'' then butlast p else p @ [c])"

definition join_path :: "path \<Rightarrow> string list \<Rightarrow> path" where
  "join_path base parts = fold clean_step (concat (map (split_char (CHR ''/'')) parts)) base"

definition object_path :: "path \<Rightarrow> string \<Rightarrow> string \<Rightarrow> string \<Rightarrow> store_error + path" where
  "object_path base bucket tid key =
     (case check_place bucket key of
        Some e \<Rightarrow> Inl e
      | None \<Rightarrow>
          let full = join_path base [bucket, tid, key] in
          if full \<noteq> base \<and> \<not> (base \<noteq> [] \<and> prefix base full)
          then Inl (ErrInvalidKey ''resolves outside storage root'') else Inr full)"

definition is_file :: "disk \<Rightarrow> path \<Rightarrow> bool" where
  "is_file d p \<longleftrightarrow> (case map_of d p of Some (File x) \<Rightarrow> True | _ \<Rightarrow> False)"

definition through_file :: "disk \<Rightarrow> path \<Rightarrow> bool" where
  "through_file d p \<longleftrightarrow> list_ex (is_file d) (prefixes (butlast p))"

text \<open>\<open>os.MkdirAll\<close>: it fails when a part of the path is a file.\<close>

definition mkdir_all :: "path \<Rightarrow> disk \<Rightarrow> disk option" where
  "mkdir_all p d =
     (if list_ex (is_file d) (prefixes p) then None
      else Some (fold (\<lambda>q d. if map_of d q = None then AList.update q Folder d else d) (prefixes p) d))"

definition hex_encode :: "string \<Rightarrow> string" where
  "hex_encode s = concat (map (\<lambda>c. [hex_char (byte c div 16), hex_char (byte c mod 16)]) s)"

definition temp_path :: "path \<Rightarrow> string \<Rightarrow> path" where
  "temp_path p sealed = butlast p @ [last p @ ''.tmp-'' @ hex_encode (take 4 sealed)]"

text \<open>The two calls that write the file and move it into place.\<close>

definition replace_file :: "path \<Rightarrow> string \<Rightarrow> disk \<Rightarrow> (store_error + unit) \<times> disk" where
  "replace_file p sealed d =
     (let tmp = temp_path p sealed in
      if map_of d tmp = Some Folder then (Inl (StoreFailure ''objectstorage: write object''), d)
      else let d' = AList.update tmp (File sealed) d in
        if map_of d' p = Some Folder
        then (Inl (StoreFailure ''objectstorage: finalize object''), AList.delete tmp d')
        else (Inr (), AList.update p (File sealed) (AList.delete tmp d')))"

section \<open>Drivers\<close>

text \<open>The bucket service: object by bucket name and key.\<close>

type_synonym cloud = "((string \<times> string) \<times> string) list"

record vault =
  vt_disk :: disk
  vt_cloud :: cloud

type_synonym 'a stored = "(vault, store_error, 'a) act"

record local_store =
  ls_root :: path
  ls_mac :: "string \<Rightarrow> string"
  ls_seal :: "string \<Rightarrow> string"
  ls_open :: "string \<Rightarrow> string option"
  ls_sha :: "string \<Rightarrow> string"
  ls_base :: string

record r2_store =
  r2_up :: bool
  r2_private :: string
  r2_public :: string
  r2_base :: string
  r2_sha :: "string \<Rightarrow> string"

datatype driver = Local local_store | R2 r2_store

definition of_result :: "store_error + 'a \<Rightarrow> 'a stored" where
  "of_result x = (case x of Inl e \<Rightarrow> fail e | Inr a \<Rightarrow> ret a)"

definition on_disk :: "(disk \<Rightarrow> (store_error + 'a) \<times> disk) \<Rightarrow> 'a stored" where
  "on_disk f v = (case f (vt_disk v) of (r, d) \<Rightarrow> (r, v\<lparr>vt_disk := d\<rparr>))"

text \<open>\<open>ls_seal\<close> is the encryption with the nonce this call draws.\<close>

definition local_put :: "local_store \<Rightarrow> string \<Rightarrow> string \<Rightarrow> string \<Rightarrow> string \<Rightarrow> (string \<times> int) stored" where
  "local_put s bucket tid key data =
     and_then (of_result (object_path (ls_root s) bucket tid key)) (\<lambda>p.
     and_then (on_disk (\<lambda>d. case mkdir_all (butlast p) d of
         None \<Rightarrow> (Inl (StoreFailure ''objectstorage: create object dir''), d)
       | Some d' \<Rightarrow> (Inr (), d'))) (\<lambda>_.
     and_then (on_disk (replace_file p (ls_seal s data))) (\<lambda>_.
     ret (ls_sha s data, int (length data)))))"

definition local_get :: "local_store \<Rightarrow> string \<Rightarrow> string \<Rightarrow> string \<Rightarrow> string stored" where
  "local_get s bucket tid key =
     and_then (of_result (object_path (ls_root s) bucket tid key)) (\<lambda>p.
     and_then (reads vt_disk) (\<lambda>d.
     guard (\<not> through_file d p) (StoreFailure ''objectstorage: read object'')
     (case map_of d p of
        None \<Rightarrow> fail ErrObjectNotFound
      | Some Folder \<Rightarrow> fail (StoreFailure ''objectstorage: read object'')
      | Some (File sealed) \<Rightarrow> of_option (StoreFailure ''objectstorage: decrypt object'') (ls_open s sealed))))"

text \<open>\<open>os.Remove\<close> also removes an empty directory.\<close>

definition local_delete :: "local_store \<Rightarrow> string \<Rightarrow> string \<Rightarrow> string \<Rightarrow> unit stored" where
  "local_delete s bucket tid key =
     and_then (of_result (object_path (ls_root s) bucket tid key)) (\<lambda>p.
     and_then (reads vt_disk) (\<lambda>d.
     guard (\<not> through_file d p \<and> \<not> (map_of d p = Some Folder \<and> list_ex (\<lambda>e. strict_prefix p (fst e)) d))
       (StoreFailure ''objectstorage: delete object'')
     (writes (\<lambda>v. v\<lparr>vt_disk := AList.delete p (vt_disk v)\<rparr>))))"

section \<open>The bucket driver\<close>

definition bucket_name :: "r2_store \<Rightarrow> string \<Rightarrow> string" where
  "bucket_name s b = (if b = BucketPublic \<and> r2_public s \<noteq> '''' then r2_public s else r2_private s)"

definition r2_key :: "string \<Rightarrow> string \<Rightarrow> string \<Rightarrow> store_error + string" where
  "r2_key bucket tid key =
     (case check_place bucket key of
        Some e \<Rightarrow> Inl e
      | None \<Rightarrow> Inr (bucket @ ''/'' @ tid @ ''/'' @ key))"

definition r2_presign :: "r2_store \<Rightarrow> int \<Rightarrow> string \<Rightarrow> string \<Rightarrow> string \<Rightarrow> string \<Rightarrow> int \<Rightarrow> store_error + ticket" where
  "r2_presign s now method bucket tid key ttl =
     (case r2_key bucket tid key of
        Inl e \<Rightarrow> Inl e
      | Inr k \<Rightarrow> Inr \<lparr>tk_link = CloudLink method (bucket_name s bucket) k ttl, tk_expires_at = Some (now + ttl)\<rparr>)"

definition fallback_ttl :: int where "fallback_ttl = 604800000000000"

definition r2_public_url :: "r2_store \<Rightarrow> string \<Rightarrow> string \<Rightarrow> link option" where
  "r2_public_url s tid key =
     (case r2_key BucketPublic tid key of
        Inl e \<Rightarrow> None
      | Inr k \<Rightarrow> Some (if r2_base s \<noteq> '''' then BaseLink (r2_base s) k
                      else CloudLink ''GET'' (bucket_name s BucketPublic) k fallback_ttl))"

text \<open>A call to the service, with the object it is about.\<close>

definition r2_call :: "r2_store \<Rightarrow> string \<Rightarrow> string \<Rightarrow> string \<Rightarrow> ((string \<times> string) \<Rightarrow> 'a stored) \<Rightarrow> 'a stored" where
  "r2_call s bucket tid key f =
     and_then (of_result (r2_key bucket tid key)) (\<lambda>k.
     guard (r2_up s) (StoreFailure ''objectstorage: r2'') (f (bucket_name s bucket, k)))"

definition confirm_upload :: "r2_store \<Rightarrow> string \<Rightarrow> string \<Rightarrow> string \<Rightarrow> int stored" where
  "confirm_upload s bucket tid key =
     r2_call s bucket tid key (\<lambda>k.
       and_then (reads (\<lambda>v. map_of (vt_cloud v) k)) (\<lambda>x.
       and_then (of_option ErrObjectNotFound x) (\<lambda>data. ret (int (length data)))))"

definition r2_put_direct :: "r2_store \<Rightarrow> string \<Rightarrow> string \<Rightarrow> string \<Rightarrow> string \<Rightarrow> unit stored" where
  "r2_put_direct s bucket tid key data =
     r2_call s bucket tid key (\<lambda>k. writes (\<lambda>v. v\<lparr>vt_cloud := AList.update k data (vt_cloud v)\<rparr>))"

definition r2_delete_direct :: "r2_store \<Rightarrow> string \<Rightarrow> string \<Rightarrow> string \<Rightarrow> unit stored" where
  "r2_delete_direct s bucket tid key =
     r2_call s bucket tid key (\<lambda>k. writes (\<lambda>v. v\<lparr>vt_cloud := AList.delete k (vt_cloud v)\<rparr>))"

definition r2_put :: "r2_store \<Rightarrow> string \<Rightarrow> string \<Rightarrow> string \<Rightarrow> string \<Rightarrow> (string \<times> int) stored" where
  "r2_put s bucket tid key data =
     and_then (r2_put_direct s bucket tid key data) (\<lambda>_. ret (r2_sha s data, int (length data)))"

definition r2_get :: "r2_store \<Rightarrow> string \<Rightarrow> string \<Rightarrow> string \<Rightarrow> string stored" where
  "r2_get s bucket tid key =
     and_then (confirm_upload s bucket tid key) (\<lambda>_.
     r2_call s bucket tid key (\<lambda>k.
       and_then (reads (\<lambda>v. map_of (vt_cloud v) k)) (of_option (StoreFailure ''objectstorage: GET''))))"

section \<open>The interfaces\<close>

text \<open>\<open>VerifySignature\<close>: the bucket driver accepts everything.\<close>

fun driver_verify ::
  "driver \<Rightarrow> int \<Rightarrow> string \<Rightarrow> string \<Rightarrow> string \<Rightarrow> string \<Rightarrow> int \<Rightarrow> string \<Rightarrow> store_error option" where
  "driver_verify (Local s) now method bucket tid key expires sig =
     verify_signature (ls_mac s) now method bucket tid key expires sig"
| "driver_verify (R2 s) now method bucket tid key expires sig = None"

fun driver_put :: "driver \<Rightarrow> string \<Rightarrow> string \<Rightarrow> string \<Rightarrow> string \<Rightarrow> (string \<times> int) stored" where
  "driver_put (Local s) bucket tid key data = local_put s bucket tid key data"
| "driver_put (R2 s) bucket tid key data = r2_put s bucket tid key data"

fun driver_get :: "driver \<Rightarrow> string \<Rightarrow> string \<Rightarrow> string \<Rightarrow> string stored" where
  "driver_get (Local s) bucket tid key = local_get s bucket tid key"
| "driver_get (R2 s) bucket tid key = r2_get s bucket tid key"

fun driver_put_direct :: "driver \<Rightarrow> string \<Rightarrow> string \<Rightarrow> string \<Rightarrow> string \<Rightarrow> unit stored" where
  "driver_put_direct (Local s) bucket tid key data = and_then (local_put s bucket tid key data) (\<lambda>_. ret ())"
| "driver_put_direct (R2 s) bucket tid key data = r2_put_direct s bucket tid key data"

fun driver_delete :: "driver \<Rightarrow> string \<Rightarrow> string \<Rightarrow> string \<Rightarrow> unit stored" where
  "driver_delete (Local s) bucket tid key = local_delete s bucket tid key"
| "driver_delete (R2 s) bucket tid key = r2_delete_direct s bucket tid key"

fun driver_presign :: "driver \<Rightarrow> int \<Rightarrow> string \<Rightarrow> string \<Rightarrow> string \<Rightarrow> string \<Rightarrow> int \<Rightarrow> store_error + ticket" where
  "driver_presign (Local s) now method bucket tid key ttl = presign (ls_mac s) now method bucket tid key ttl"
| "driver_presign (R2 s) now method bucket tid key ttl = r2_presign s now method bucket tid key ttl"

fun driver_public_url :: "driver \<Rightarrow> string \<Rightarrow> string \<Rightarrow> link option" where
  "driver_public_url (Local s) tid key = Some (PlainLink (ls_base s) tid key)"
| "driver_public_url (R2 s) tid key = r2_public_url s tid key"

text \<open>\<open>DirectDriver\<close> is the bucket driver alone; both are \<open>ProxyDriver\<close> and \<open>DirectWriter\<close>.\<close>

fun direct_driver :: "driver \<Rightarrow> r2_store option" where
  "direct_driver (Local s) = None"
| "direct_driver (R2 s) = Some s"

text \<open>\<open>GetURL\<close>; a public link that cannot be made is the empty text.\<close>

definition get_url :: "driver \<Rightarrow> int \<Rightarrow> string \<Rightarrow> string \<Rightarrow> string \<Rightarrow> int \<Rightarrow> store_error + ticket option" where
  "get_url d now bucket tid key ttl =
     (if bucket = BucketPublic
      then Inr (map_option (\<lambda>l. \<lparr>tk_link = l, tk_expires_at = None\<rparr>) (driver_public_url d tid key))
      else map_sum id Some (driver_presign d now ''GET'' bucket tid key ttl))"

end
