(* ===== verification/Storage_Service.thy ===== *)
theory Storage_Service
  imports Object_Drivers Auth_Service
begin

text \<open>
  \<open>internal/storage\<close>: the table of objects, the tickets for uploads and downloads, the objects the server
  writes itself, and the endpoints that carry the bytes. The files are those of \<open>Object_Drivers\<close>; a
  transaction puts back the tables it changed (its body never touches the files).
\<close>

section \<open>Objects\<close>

abbreviation ObjectPending :: string where "ObjectPending \<equiv> ''pending''"
abbreviation ObjectStored :: string where "ObjectStored \<equiv> ''stored''"

record object_row =
  ob_id :: string
  ob_tenant_id :: "string option"
  ob_bucket :: string
  ob_key :: string
  ob_content_type :: string
  ob_size :: int
  ob_sha :: "string option"
  ob_status :: string
  ob_created_by :: "string option"
  ob_created_at :: int
  ob_updated_at :: int
  ob_provider :: string

text \<open>The other tables, the objects and the files; services add their tables to it.\<close>

record depot =
  dp_db :: db
  dp_objects :: "object_row list"
  dp_vault :: vault

type_synonym ('z, 'a) depot_act = "('z depot_scheme, go_error, 'a) act"

definition in_db :: "'a query \<Rightarrow> ('z, 'a) depot_act" where
  "in_db m s = (case m (dp_db s) of (r, b) \<Rightarrow> (r, s\<lparr>dp_db := b\<rparr>))"

definition in_vault :: "'a stored \<Rightarrow> ('z depot_scheme, store_error, 'a) act" where
  "in_vault m s = (case m (dp_vault s) of (r, v) \<Rightarrow> (r, s\<lparr>dp_vault := v\<rparr>))"

definition store_failed :: "store_error \<Rightarrow> go_error" where
  "store_failed e = Other (store_text e)"

definition vault_call :: "'a stored \<Rightarrow> ('z, 'a) depot_act" where
  "vault_call m = map_error store_failed (in_vault m)"

section \<open>The repository\<close>

definition tenant_object :: "string \<Rightarrow> string \<Rightarrow> string \<Rightarrow> object_row \<Rightarrow> bool" where
  "tenant_object tid bucket key o' \<longleftrightarrow> ob_tenant_id o' = Some tid \<and> ob_bucket o' = bucket \<and> ob_key o' = key"

definition personal_object :: "string \<Rightarrow> string \<Rightarrow> string \<Rightarrow> object_row \<Rightarrow> bool" where
  "personal_object uid bucket key o' \<longleftrightarrow>
     ob_tenant_id o' = None \<and> ob_created_by o' = Some uid \<and> ob_bucket o' = bucket \<and> ob_key o' = key"

text \<open>The unique indexes: \<open>objects_tenant_bucket_key_uk\<close> never matches a row without a tenant.\<close>

definition object_pk :: "object_row \<Rightarrow> string option" where
  "object_pk o' = Some (ob_id o')"

definition object_tenant_key :: "object_row \<Rightarrow> (string \<times> string \<times> string) option" where
  "object_tenant_key o' = map_option (\<lambda>t. (t, ob_bucket o', ob_key o')) (ob_tenant_id o')"

definition object_personal_key :: "object_row \<Rightarrow> (string \<times> string \<times> string) option" where
  "object_personal_key o' =
     (if ob_tenant_id o' = None then map_option (\<lambda>u. (u, ob_bucket o', ob_key o')) (ob_created_by o') else None)"

definition object_violation :: "'z depot_scheme \<Rightarrow> object_row \<Rightarrow> sql_error option" where
  "object_violation s o' =
     (if taken object_pk (dp_objects s) o' then Some (UniqueViolation ''objects_pkey'')
      else if taken object_personal_key (dp_objects s) o'
        then Some (UniqueViolation ''objects_personal_bucket_key_uk'')
      else if \<not> (case ob_tenant_id o' of None \<Rightarrow> True | Some t \<Rightarrow> list_ex (\<lambda>x. tn_id x = t) (db_tenants (dp_db s)))
        then Some (ForeignKeyViolation ''objects_tenant_id_fkey'')
      else if \<not> (case ob_created_by o' of None \<Rightarrow> True | Some u \<Rightarrow> has_user (dp_db s) u)
        then Some (ForeignKeyViolation ''objects_created_by_fkey'')
      else None)"

definition sql_error_text :: "sql_error \<Rightarrow> go_error" where
  "sql_error_text e = Other (case e of UniqueViolation c \<Rightarrow> c | ForeignKeyViolation c \<Rightarrow> c)"

text \<open>The row an upsert writes. \<open>created_by\<close> is a text parameter of a UUID column.\<close>

definition pending_object :: "string \<Rightarrow> string option \<Rightarrow> string \<Rightarrow> string \<Rightarrow> string \<Rightarrow> string \<Rightarrow> int \<Rightarrow> string \<Rightarrow> object_row" where
  "pending_object oid tid bucket key ctype actor now provider =
     \<lparr>ob_id = oid, ob_tenant_id = tid, ob_bucket = bucket, ob_key = key, ob_content_type = ctype, ob_size = 0,
      ob_sha = None, ob_status = ObjectPending, ob_created_by = Some actor, ob_created_at = now,
      ob_updated_at = now, ob_provider = provider\<rparr>"

definition uuid_param :: "string \<Rightarrow> ('z, unit) depot_act" where
  "uuid_param x = guard (x \<noteq> '''') (Other ''pq: invalid input syntax for type uuid'') (ret ())"

definition insert_object :: "object_row \<Rightarrow> ('z, string) depot_act" where
  "insert_object o' =
     and_then (reads (\<lambda>s. object_violation s o')) (\<lambda>v.
     on_error (map_option sql_error_text v)
       (and_then (writes (\<lambda>s. s\<lparr>dp_objects := dp_objects s @ [o']\<rparr>)) (\<lambda>_. ret (ob_id o'))))"

text \<open>What \<open>DO UPDATE\<close> sets: the provider stays.\<close>

definition reset_object :: "env \<Rightarrow> object_row \<Rightarrow> object_row \<Rightarrow> object_row" where
  "reset_object en new o' =
     o'\<lparr>ob_content_type := ob_content_type new, ob_size := 0, ob_sha := None, ob_status := ObjectPending,
        ob_updated_at := e_now en\<rparr>"

text \<open>\<open>ON CONFLICT (tenant_id, bucket, object_key)\<close> is decided by the index of tenants.\<close>

definition upsert_on_tenant_key :: "env \<Rightarrow> object_row \<Rightarrow> ('z, string) depot_act" where
  "upsert_on_tenant_key en new =
     and_then (uuid_param (case ob_created_by new of None \<Rightarrow> '''' | Some u \<Rightarrow> u)) (\<lambda>_.
     and_then (reads (\<lambda>s. case object_tenant_key new of
        None \<Rightarrow> None | k \<Rightarrow> select_one (\<lambda>o'. object_tenant_key o' = k) (dp_objects s))) (\<lambda>old.
     case old of
       None \<Rightarrow> insert_object new
     | Some o' \<Rightarrow>
         and_then (writes (\<lambda>s. s\<lparr>dp_objects :=
           update_where (\<lambda>x. object_tenant_key x = object_tenant_key new) (reset_object en new) (dp_objects s)\<rparr>)) (\<lambda>_.
         ret (ob_id o'))))"

definition upsert_object ::
  "env \<Rightarrow> string \<Rightarrow> string \<Rightarrow> string \<Rightarrow> string \<Rightarrow> string \<Rightarrow> string \<Rightarrow> string \<Rightarrow> ('z, string) depot_act" where
  "upsert_object en oid tid bucket key ctype actor provider =
     upsert_on_tenant_key en (pending_object oid (Some tid) bucket key ctype actor (e_now en) provider)"

definition upsert_personal ::
  "env \<Rightarrow> string \<Rightarrow> string \<Rightarrow> string \<Rightarrow> string \<Rightarrow> string \<Rightarrow> string \<Rightarrow> ('z, string) depot_act" where
  "upsert_personal en oid bucket key ctype uid provider =
     upsert_on_tenant_key en (pending_object oid None bucket key ctype uid (e_now en) provider)"

definition mark_stored_where ::
  "env \<Rightarrow> (object_row \<Rightarrow> bool) \<Rightarrow> string option \<Rightarrow> int \<Rightarrow> ('z, unit) depot_act" where
  "mark_stored_where en q sha sz =
     and_then (reads (\<lambda>s. length (select q (dp_objects s)))) (\<lambda>n.
     and_then (writes (\<lambda>s. s\<lparr>dp_objects := update_where q
        (\<lambda>o'. o'\<lparr>ob_status := ObjectStored, ob_sha := sha, ob_size := sz, ob_updated_at := e_now en\<rparr>)
        (dp_objects s)\<rparr>)) (\<lambda>_.
     check_rows n))"

definition mark_stored :: "env \<Rightarrow> string \<Rightarrow> string \<Rightarrow> string \<Rightarrow> string option \<Rightarrow> int \<Rightarrow> ('z, unit) depot_act" where
  "mark_stored en tid bucket key = mark_stored_where en (tenant_object tid bucket key)"

definition mark_stored_personal :: "env \<Rightarrow> string \<Rightarrow> string \<Rightarrow> string \<Rightarrow> string option \<Rightarrow> int \<Rightarrow> ('z, unit) depot_act" where
  "mark_stored_personal en uid bucket key = mark_stored_where en (personal_object uid bucket key)"

definition get_object_where :: "(object_row \<Rightarrow> bool) \<Rightarrow> ('z, object_row) depot_act" where
  "get_object_where q = and_then (reads (\<lambda>s. select_one q (dp_objects s))) found"

definition get_object_by_key :: "string \<Rightarrow> string \<Rightarrow> string \<Rightarrow> ('z, object_row) depot_act" where
  "get_object_by_key tid bucket key = get_object_where (tenant_object tid bucket key)"

definition get_object_by_id :: "string \<Rightarrow> string \<Rightarrow> ('z, object_row) depot_act" where
  "get_object_by_id tid oid = get_object_where (\<lambda>o'. ob_tenant_id o' = Some tid \<and> ob_id o' = oid)"

definition get_object_personal :: "string \<Rightarrow> string \<Rightarrow> string \<Rightarrow> ('z, object_row) depot_act" where
  "get_object_personal uid bucket key = get_object_where (personal_object uid bucket key)"

text \<open>On the connection that bypasses row-level security; \<open>as_uuid\<close> is how Postgres reads the text of a UUID.\<close>

definition get_object_unscoped :: "(string \<Rightarrow> string option) \<Rightarrow> string \<Rightarrow> string \<Rightarrow> string \<Rightarrow> ('z, object_row) depot_act" where
  "get_object_unscoped as_uuid subject bucket key =
     (case as_uuid subject of
        None \<Rightarrow> fail (Other ''pq: invalid input syntax for type uuid'')
      | Some x \<Rightarrow> get_object_where (\<lambda>o'. tenant_object x bucket key o' \<or> personal_object x bucket key o'))"

text \<open>\<open>List\<close>. The rows a statement sees are those of the tenant its transaction names (migration 0004): outside
a transaction none.\<close>

definition object_position :: "object_row \<Rightarrow> int \<times> string" where
  "object_position o' = (ob_created_at o', ob_id o')"

definition list_object_rows :: "string option \<Rightarrow> string \<Rightarrow> page_params \<Rightarrow> ('z, object_row page) depot_act" where
  "list_object_rows ctx tid pg =
     (let limit = normalize_limit pg in
      and_then (reads (\<lambda>s. take (limit + 1)
          (newest object_position (\<lambda>o'. ob_tenant_id o' = Some tid \<and> ob_tenant_id o' = ctx) (pg_cursor pg) (dp_objects s))))
        (\<lambda>out. ret (cut_page limit (\<lambda>o'. cursor_of (object_position o')) out)))"

definition delete_tenant_object :: "string \<Rightarrow> string \<Rightarrow> string \<Rightarrow> ('z, unit) depot_act" where
  "delete_tenant_object tid bucket key =
     writes (\<lambda>s. s\<lparr>dp_objects := delete_where (tenant_object tid bucket key) (dp_objects s)\<rparr>)"

definition delete_personal_object :: "string \<Rightarrow> string \<Rightarrow> string \<Rightarrow> ('z, unit) depot_act" where
  "delete_personal_object uid bucket key =
     writes (\<lambda>s. s\<lparr>dp_objects := delete_where (personal_object uid bucket key) (dp_objects s)\<rparr>)"

section \<open>Tickets\<close>

record storage_deps =
  sd_store :: driver
  sd_name :: string
  sd_registry :: "(string \<times> driver) list"
  sd_upload_ttl :: int
  sd_download_ttl :: int

text \<open>\<open>WithUserTx\<close>\<close>

definition with_user_tx :: "string \<Rightarrow> ('s, go_error, 'a) act \<Rightarrow> ('s, go_error, 'a) act" where
  "with_user_tx uid m =
     (if uid = '''' then fail (Other ''database: WithUserTx called with empty userID'') else with_tx m)"

definition object_audit ::
  "env \<Rightarrow> nat \<Rightarrow> string \<Rightarrow> string option \<Rightarrow> string \<Rightarrow> (string \<times> meta) list \<Rightarrow> ('z, unit) depot_act" where
  "object_audit en k tid actor action md = in_db (record_audit en k (Some tid) actor action md)"

text \<open>An entry written outside a transaction, whose error nobody looks at: the policy of the table refuses it.\<close>

definition audit_outside ::
  "env \<Rightarrow> nat \<Rightarrow> string \<Rightarrow> string option \<Rightarrow> string \<Rightarrow> (string \<times> meta) list \<Rightarrow> ('z, unit) depot_act" where
  "audit_outside en k tid actor action md s =
     (Inr (), snd (guard (audit_policy None (Some tid)) (Other ''pq: new row violates row-level security policy'')
        (object_audit en k tid actor action md) s))"

definition check_request :: "string \<Rightarrow> string \<Rightarrow> go_error option" where
  "check_request bucket key =
     (if \<not> bucket_valid bucket
      then Some (service_error ErrInvalidState ''bucket must be \"public\" or \"private\"'')
      else map_option (\<lambda>e. service_error ErrInvalidState (store_text e)) (validate_key key))"

record upload_ticket =
  ut_object_id :: string
  ut_ticket :: ticket
  ut_bucket :: string
  ut_key :: string

definition of_store :: "store_error + 'a \<Rightarrow> ('z, 'a) depot_act" where
  "of_store x = (case x of Inl e \<Rightarrow> fail (store_failed e) | Inr a \<Rightarrow> ret a)"

definition provision_upload ::
  "env \<Rightarrow> storage_deps \<Rightarrow> string \<Rightarrow> string \<Rightarrow> string \<Rightarrow> string \<Rightarrow> string \<Rightarrow> ('z, upload_ticket) depot_act" where
  "provision_upload en sd tid actor bucket key ctype =
     on_error (check_request bucket key)
     (and_then (with_tenant_tx tid
        (and_then (upsert_object en (e_uuid en 0) tid bucket key
             (if ctype = '''' then ''application/octet-stream'' else ctype) actor (sd_name sd)) (\<lambda>oid.
         and_then (object_audit en 1 tid (Some actor) ''object.upload_requested''
             [(''bucket'', MetaText bucket), (''key'', MetaText key)]) (\<lambda>_.
         ret oid)))) (\<lambda>oid.
      and_then (of_store (driver_presign (sd_store sd) (e_now en) ''PUT'' bucket tid key (sd_upload_ttl sd))) (\<lambda>t.
      ret \<lparr>ut_object_id = oid, ut_ticket = t, ut_bucket = bucket, ut_key = key\<rparr>)))"

definition request_upload ::
  "env \<Rightarrow> storage_deps \<Rightarrow> string \<Rightarrow> string \<Rightarrow> member_role \<Rightarrow> string \<Rightarrow> string \<Rightarrow> string \<Rightarrow>
     ('z, upload_ticket) depot_act" where
  "request_upload en sd tid actor role bucket key ctype =
     guard (is_at_least role RoleAdmin) (Sentinel ErrForbidden) (provision_upload en sd tid actor bucket key ctype)"

text \<open>\<open>ConfirmStored\<close>: an object still pending is looked for in the bucket.\<close>

definition found_size :: "r2_store \<Rightarrow> string \<Rightarrow> string \<Rightarrow> string \<Rightarrow> ('z, int option) depot_act" where
  "found_size r bucket tid key s =
     (case in_vault (confirm_upload r bucket tid key) s of
        (Inl e, s') \<Rightarrow> if e = ErrObjectNotFound then (Inr None, s') else (Inl (store_failed e), s')
      | (Inr n, s') \<Rightarrow> (Inr (Some n), s'))"

definition confirm_stored :: "env \<Rightarrow> storage_deps \<Rightarrow> string \<Rightarrow> string \<Rightarrow> string \<Rightarrow> ('z, object_row) depot_act" where
  "confirm_stored en sd tid actor oid =
     and_then (with_tenant_tx tid (get_object_by_id tid oid)) (\<lambda>o'.
     if ob_status o' = ObjectStored then ret o'
     else case direct_driver (sd_store sd) of
       None \<Rightarrow> ret o'
     | Some r \<Rightarrow>
         and_then (found_size r (ob_bucket o') tid (ob_key o')) (\<lambda>n.
         case n of
           None \<Rightarrow> ret o'
         | Some sz \<Rightarrow>
             and_then (with_tenant_tx tid
               (and_then (mark_stored en tid (ob_bucket o') (ob_key o') None sz) (\<lambda>_.
                object_audit en 0 tid (Some actor) ''object.stored''
                  [(''bucket'', MetaText (ob_bucket o')), (''key'', MetaText (ob_key o')), (''size_bytes'', MetaInt sz)]))) (\<lambda>_.
             ret (o'\<lparr>ob_status := ObjectStored, ob_size := sz\<rparr>))))"

definition read_object :: "storage_deps \<Rightarrow> string \<Rightarrow> string \<Rightarrow> ('z, string) depot_act" where
  "read_object sd tid oid =
     and_then (with_tenant_tx tid (get_object_by_id tid oid)) (\<lambda>o'.
     and_then (of_option (Other (''unknown storage provider '' @ go_quote (ob_provider o')))
       (map_of (sd_registry sd) (ob_provider o'))) (\<lambda>d.
     vault_call (driver_get d (ob_bucket o') tid (ob_key o'))))"

definition download_ticket :: "env \<Rightarrow> storage_deps \<Rightarrow> string \<Rightarrow> string \<Rightarrow> string \<Rightarrow> object_row \<Rightarrow> ('z, ticket option) depot_act" where
  "download_ticket en sd subject bucket key o' =
     guard (ob_status o' = ObjectStored) (service_error ErrInvalidState ''object upload has not completed yet'')
       (of_store (get_url (sd_store sd) (e_now en) bucket subject key (sd_download_ttl sd)))"

definition request_download :: "env \<Rightarrow> storage_deps \<Rightarrow> string \<Rightarrow> string \<Rightarrow> string \<Rightarrow> ('z, ticket option) depot_act" where
  "request_download en sd tid key bucket =
     on_error (check_request bucket key)
     (and_then (with_tenant_tx tid (get_object_by_key tid bucket key)) (download_ticket en sd tid bucket key))"

definition request_download_personal ::
  "env \<Rightarrow> storage_deps \<Rightarrow> string \<Rightarrow> string \<Rightarrow> string \<Rightarrow> ('z, ticket option) depot_act" where
  "request_download_personal en sd uid key bucket =
     on_error (check_request bucket key)
     (and_then (with_user_tx uid (get_object_personal uid bucket key)) (download_ticket en sd uid bucket key))"

text \<open>\<open>CompleteUpload\<close>: \<open>ErrNotFound\<close> of the driver is not the domain's.\<close>

definition complete_upload :: "env \<Rightarrow> storage_deps \<Rightarrow> string \<Rightarrow> string \<Rightarrow> string \<Rightarrow> string \<Rightarrow> ('z, int) depot_act" where
  "complete_upload en sd tid actor bucket key =
     (if sd_name sd \<noteq> ''r2'' then ret 0
      else guard (bucket_valid bucket) (service_error ErrInvalidState ''bucket must be \"public\" or \"private\"'')
      (case direct_driver (sd_store sd) of
         None \<Rightarrow> fail (service_error ErrInvalidState ''storage driver does not support confirm upload'')
       | Some r \<Rightarrow>
           and_then (vault_call (confirm_upload r bucket tid key)) (\<lambda>sz.
           and_then (with_tenant_tx tid (mark_stored en tid bucket key None sz)) (\<lambda>_.
           and_then (audit_outside en 0 tid (Some actor) ''object.stored''
             [(''bucket'', MetaText bucket), (''key'', MetaText key)]) (\<lambda>_. ret sz)))))"

definition complete_put :: "env \<Rightarrow> storage_deps \<Rightarrow> string \<Rightarrow> string \<Rightarrow> string \<Rightarrow> string \<Rightarrow> int \<Rightarrow> ('z, unit) depot_act" where
  "complete_put en sd tid bucket key sha sz =
     guard (sd_name sd \<noteq> ''r2'') (service_error ErrInvalidState ''complete put not supported for r2 driver'')
     (and_then (with_tenant_tx tid (mark_stored en tid bucket key (Some sha) sz)) (\<lambda>_.
      audit_outside en 0 tid None ''object.stored'' [(''bucket'', MetaText bucket), (''key'', MetaText key)]))"

definition list_objects :: "string \<Rightarrow> page_params \<Rightarrow> ('z, object_row page) depot_act" where
  "list_objects tid pg = list_object_rows None tid pg"

section \<open>What the server writes itself\<close>

definition generated_row ::
  "env \<Rightarrow> storage_deps \<Rightarrow> string option \<Rightarrow> string \<Rightarrow> string \<Rightarrow> string \<Rightarrow> string \<Rightarrow> string \<Rightarrow> string \<times> int \<Rightarrow> object_row" where
  "generated_row en sd tid bucket key ctype actor oid written =
     (pending_object oid tid bucket key ctype actor (e_now en) (sd_name sd))
       \<lparr>ob_sha := Some (fst written), ob_size := snd written, ob_status := ObjectStored\<rparr>"

definition register_generated ::
  "env \<Rightarrow> storage_deps \<Rightarrow> string \<Rightarrow> string \<Rightarrow> string \<Rightarrow> string \<Rightarrow> string \<Rightarrow> string \<times> int \<Rightarrow> ('z, object_row) depot_act" where
  "register_generated en sd tid actor bucket key ctype written =
     and_then (with_tenant_tx tid
       (and_then (upsert_object en (e_uuid en 0) tid bucket key ctype actor (sd_name sd)) (\<lambda>oid.
        and_then (mark_stored en tid bucket key (Some (fst written)) (snd written)) (\<lambda>_. ret oid)))) (\<lambda>oid.
     ret (generated_row en sd (Some tid) bucket key ctype actor oid written))"

definition store_generated ::
  "env \<Rightarrow> storage_deps \<Rightarrow> string \<Rightarrow> string \<Rightarrow> string \<Rightarrow> string \<Rightarrow> string \<Rightarrow> string \<Rightarrow> ('z, object_row) depot_act" where
  "store_generated en sd tid actor bucket key ctype data =
     on_error (check_request bucket key)
     (and_then (vault_call (driver_put (sd_store sd) bucket tid key data))
       (register_generated en sd tid actor bucket key ctype))"

text \<open>\<open>directPut\<close>; \<open>sha\<close> is SHA-256 of the data.\<close>

definition direct_put ::
  "storage_deps \<Rightarrow> (string \<Rightarrow> string) \<Rightarrow> string \<Rightarrow> string \<Rightarrow> string \<Rightarrow> string \<Rightarrow> ('z, string \<times> int) depot_act" where
  "direct_put sd sha bucket subject key data =
     on_error (check_request bucket key)
     (and_then (vault_call (driver_put_direct (sd_store sd) bucket subject key data)) (\<lambda>_.
      ret (sha data, int (length data))))"

definition store_generated_direct ::
  "env \<Rightarrow> storage_deps \<Rightarrow> (string \<Rightarrow> string) \<Rightarrow> string \<Rightarrow> string \<Rightarrow> string \<Rightarrow> string \<Rightarrow> string \<Rightarrow> string \<Rightarrow>
     ('z, object_row) depot_act" where
  "store_generated_direct en sd sha tid actor bucket key ctype data =
     and_then (direct_put sd sha bucket tid key data) (register_generated en sd tid actor bucket key ctype)"

definition store_generated_personal ::
  "env \<Rightarrow> storage_deps \<Rightarrow> (string \<Rightarrow> string) \<Rightarrow> string \<Rightarrow> string \<Rightarrow> string \<Rightarrow> string \<Rightarrow> string \<Rightarrow>
     ('z, object_row) depot_act" where
  "store_generated_personal en sd sha uid bucket key ctype data =
     and_then (direct_put sd sha bucket uid key data) (\<lambda>written.
     and_then (with_user_tx uid
       (and_then (upsert_personal en (e_uuid en 0) bucket key ctype uid (sd_name sd)) (\<lambda>oid.
        and_then (mark_stored_personal en uid bucket key (Some (fst written)) (snd written)) (\<lambda>_. ret oid)))) (\<lambda>oid.
     ret (generated_row en sd None bucket key ctype uid oid written)))"

definition delete_generated :: "storage_deps \<Rightarrow> string \<Rightarrow> string \<Rightarrow> string \<Rightarrow> ('z, unit) depot_act" where
  "delete_generated sd tid bucket key =
     and_then (vault_call (driver_delete (sd_store sd) bucket tid key)) (\<lambda>_.
     with_tenant_tx tid (delete_tenant_object tid bucket key))"

definition delete_personal :: "storage_deps \<Rightarrow> string \<Rightarrow> string \<Rightarrow> string \<Rightarrow> ('z, unit) depot_act" where
  "delete_personal sd uid bucket key =
     and_then (vault_call (driver_delete (sd_store sd) bucket uid key)) (\<lambda>_.
     with_user_tx uid (delete_personal_object uid bucket key))"

section \<open>The endpoints that carry the bytes\<close>

record data_request =
  dr_bucket :: string
  dr_tenant :: string
  dr_key :: string
  dr_expires :: string
  dr_sig :: string

type_synonym ('z, 'a) data_act = "('z depot_scheme, http_error, 'a) act"

definition max_upload_bytes :: int where "max_upload_bytes = 26214400"

definition verify_presigned :: "driver \<Rightarrow> int \<Rightarrow> string \<Rightarrow> data_request \<Rightarrow> http_error option" where
  "verify_presigned d now method r =
     (if \<not> bucket_valid (dr_bucket r) \<or> dr_tenant r = '''' \<or> dr_key r = ''''
        then Some (reply 400 ''invalid_request'' ''bucket, tenant id, and key are required.'')
      else if method = ''GET'' \<and> dr_bucket r = BucketPublic then None
      else case parse_int (dr_expires r) of
        None \<Rightarrow> Some (reply 403 ''forbidden'' ''A valid presigned URL is required.'')
      | Some expires \<Rightarrow>
          if dr_sig r = '''' then Some (reply 403 ''forbidden'' ''A valid presigned URL is required.'')
          else case driver_verify d now method (dr_bucket r) (dr_tenant r) (dr_key r) expires (dr_sig r) of
            None \<Rightarrow> None
          | Some e \<Rightarrow> Some (reply (if e = ErrURLExpired then 410 else 403) ''forbidden''
              ''This presigned URL is invalid or has expired.''))"

definition put_object :: "env \<Rightarrow> storage_deps \<Rightarrow> data_request \<Rightarrow> string \<Rightarrow> ('z, string \<times> int) data_act" where
  "put_object en sd r body =
     on_error (verify_presigned (sd_store sd) (e_now en) ''PUT'' r)
     (guard (int (length body) \<le> max_upload_bytes)
        (reply 413 ''payload_too_large'' ''Upload exceeds the maximum allowed size.'')
     (and_then (map_error (\<lambda>e. reply 400 ''invalid_request'' (store_text e))
        (in_vault (driver_put (sd_store sd) (dr_bucket r) (dr_tenant r) (dr_key r) body))) (\<lambda>(sha, sz).
      and_then (map_error from_service_error
        (complete_put en sd (dr_tenant r) (dr_bucket r) (dr_key r) sha sz)) (\<lambda>_.
      ret (sha, sz)))))"

definition get_object :: "env \<Rightarrow> storage_deps \<Rightarrow> (string \<Rightarrow> string option) \<Rightarrow> data_request \<Rightarrow> ('z, string \<times> string) data_act" where
  "get_object en sd as_uuid r =
     on_error (verify_presigned (sd_store sd) (e_now en) ''GET'' r)
     (and_then (map_error from_service_error
        (get_object_unscoped as_uuid (dr_tenant r) (dr_bucket r) (dr_key r))) (\<lambda>o'.
      and_then (map_error (\<lambda>_. reply 404 ''not_found'' ''The requested object was not found.'')
        (in_vault (driver_get (sd_store sd) (dr_bucket r) (dr_tenant r) (dr_key r)))) (\<lambda>data.
      ret (ob_content_type o', data))))"

end
