(* ===== verification/Storage_Rules.thy ===== *)
theory Storage_Rules
  imports Storage_Service Tenant_Rules
begin

text \<open>
  What holds of stored objects: whose bytes a signed link opens, which files a workspace can reach, and what
  is read back; and the places where the code does not do what its comments say.
\<close>

section \<open>Splitting texts\<close>

lemma split_char_nonempty: "split_char c s \<noteq> []"
  by (cases s) simp_all

lemma split_char_append: "split_char c (x @ c # y) = split_char c x @ split_char c y"
proof (induction x)
  case (Cons a x)
  then show ?case using split_char_nonempty [of c x] by (cases "split_char c x") auto
qed simp

lemma split_char_single: "c \<notin> set s \<Longrightarrow> split_char c s = [s]"
  by (induction s) auto

lemma split_char_parts: "x \<in> set (split_char c s) \<Longrightarrow> c \<notin> set x"
proof (induction s arbitrary: x)
  case (Cons a s)
  then show ?case using split_char_nonempty [of c s] by (cases "split_char c s") (auto split: if_splits)
qed simp

lemma split_char_infix: "x \<in> set (split_char c s) \<Longrightarrow> sublist x s"
proof -
  have "\<exists>u v. s = hd (split_char c s) @ v \<and> (\<forall>x \<in> set (tl (split_char c s)). sublist x s)" for s
  proof (induction s)
    case (Cons a s)
    then obtain v where v: "s = hd (split_char c s) @ v" "\<forall>x \<in> set (tl (split_char c s)). sublist x s" by blast
    have all: "\<forall>x \<in> set (split_char c s). sublist x s"
    proof
      fix x assume "x \<in> set (split_char c s)"
      then have "x = hd (split_char c s) \<or> x \<in> set (tl (split_char c s))"
        using split_char_nonempty [of c s] by (cases "split_char c s") auto
      then show "sublist x s"
      proof
        assume "x = hd (split_char c s)"
        then show ?thesis using v(1) by (metis sublist_append_rightI)
      qed (use v(2) in blast)
    qed
    show ?case
      using v all by (auto intro: sublist_Cons_right simp: sublist_Cons_right)
  qed simp
  then show "x \<in> set (split_char c s) \<Longrightarrow> sublist x s"
    using split_char_nonempty [of c s] by (metis list.sel(1,3) list.set_cases sublist_append_rightI)
qed

section \<open>Signatures\<close>

text \<open>What a signed link grants: an operation on one object until a time.\<close>

record link_grant =
  lg_method :: string
  lg_bucket :: string
  lg_tenant :: string
  lg_key :: string
  lg_expires :: int

definition grant_text :: "link_grant \<Rightarrow> string" where
  "grant_text g = signed_text (lg_method g) (lg_bucket g) (lg_tenant g) (lg_key g) (lg_expires g)"

definition plain_line :: "string \<Rightarrow> bool" where
  "plain_line s \<longleftrightarrow> CHR 0x0A \<notin> set s"

definition grant_plain :: "link_grant \<Rightarrow> bool" where
  "grant_plain g \<longleftrightarrow> plain_line (lg_method g) \<and> plain_line (lg_bucket g) \<and> plain_line (lg_tenant g) \<and>
     plain_line (lg_key g) \<and> in_int64 (lg_expires g)"

lemma itoa_plain: "plain_line (itoa i)"
  using itoa_chars [of "CHR 0x0A" i] by (auto simp: plain_line_def is_digit_def byte_def)

lemma grant_lines:
  "split_char (CHR 0x0A) (grant_text g) =
     split_char (CHR 0x0A) (lg_method g) @ split_char (CHR 0x0A) (lg_bucket g) @
     split_char (CHR 0x0A) (lg_tenant g) @ split_char (CHR 0x0A) (lg_key g) @ [itoa (lg_expires g)]"
proof -
  let ?n = "CHR 0x0A"
  have "grant_text g = lg_method g @ ?n # lg_bucket g @ ?n # lg_tenant g @ ?n # lg_key g @ ?n # itoa (lg_expires g)"
    by (simp add: grant_text_def signed_text_def newline_def)
  then show ?thesis
    using itoa_plain [of "lg_expires g"]
    by (simp add: split_char_append split_char_single plain_line_def)
qed

lemma one_part:
  assumes "split_char c s = [x]" shows "x = s"
proof (cases "c \<in> set s")
  case True
  then obtain u v where "s = u @ c # v" by (meson split_list)
  with assms have "split_char c u @ split_char c v = [x]" by (simp add: split_char_append)
  then show ?thesis using split_char_nonempty [of c u] split_char_nonempty [of c v]
    by (simp add: append_eq_Cons_conv)
next
  case False
  with assms show ?thesis by (simp add: split_char_single)
qed

lemma signed_text_binds:
  assumes "grant_text g = grant_text h" and g: "grant_plain g"
    and h: "plain_line (lg_method h)" "plain_line (lg_bucket h)" "in_int64 (lg_expires h)"
  shows "g = h"
proof -
  let ?s = "split_char (CHR 0x0A)"
  have single: "?s x = [x]" if "plain_line x" for x using that by (simp add: split_char_single plain_line_def)
  have "[lg_method g, lg_bucket g, lg_tenant g, lg_key g, itoa (lg_expires g)] =
      [lg_method h, lg_bucket h] @ ?s (lg_tenant h) @ ?s (lg_key h) @ [itoa (lg_expires h)]"
    using grant_lines [of g] grant_lines [of h] assms(1) g h by (simp add: single grant_plain_def)
  moreover obtain a as where a: "?s (lg_tenant h) = a # as"
    using split_char_nonempty by (cases "?s (lg_tenant h)") auto
  moreover obtain b bs where b: "?s (lg_key h) = b # bs"
    using split_char_nonempty by (cases "?s (lg_key h)") auto
  ultimately have "as = []" "bs = []" and eq: "lg_method g = lg_method h" "lg_bucket g = lg_bucket h"
    "lg_tenant g = a" "lg_key g = b" "itoa (lg_expires g) = itoa (lg_expires h)"
    by (auto simp: append_eq_Cons_conv Cons_eq_append_conv)
  with a b have "lg_tenant g = lg_tenant h" "lg_key g = lg_key h" by (auto dest: one_part)
  moreover have "lg_expires g = lg_expires h"
    using itoa_inj [OF _ h(3) eq(5)] g by (simp add: grant_plain_def)
  ultimately show ?thesis using eq(1,2) by (cases g; cases h) simp
qed

text \<open>The grant of a ticket is plain: keys have no control characters.\<close>

lemma validated_key_plain: "validate_key key = None \<Longrightarrow> plain_line key"
  by (auto simp: validate_key_def plain_line_def list_ex_iff byte_def split: if_splits)

lemma bucket_plain: "bucket_valid b \<Longrightarrow> plain_line b"
  by (auto simp: bucket_valid_def plain_line_def)

lemma presign_grants:
  assumes "presign mac now method bucket tid key ttl = Inr t" and "plain_line method" "plain_line tid"
    and "in_int64 ((now + ttl) div 1000000000)"
  obtains g where "tk_link t = SignedLink (lg_method g) (lg_bucket g) (lg_tenant g) (lg_key g) (lg_expires g) (mac (grant_text g))"
    "grant_plain g"
proof -
  let ?g = "\<lparr>lg_method = method, lg_bucket = bucket, lg_tenant = tid, lg_key = key, lg_expires = (now + ttl) div 1000000000\<rparr>"
  from assms(1) have ok: "bucket_valid bucket" "validate_key key = None"
    and t: "tk_link t = SignedLink method bucket tid key ((now + ttl) div 1000000000)
      (mac (signed_text method bucket tid key ((now + ttl) div 1000000000)))"
    by (auto simp: presign_def check_place_def Let_def split: if_splits option.splits)
  show thesis
  proof (rule that [of ?g])
    show "grant_plain ?g" using assms(2-4) bucket_plain [OF ok(1)] validated_key_plain [OF ok(2)]
      by (simp add: grant_plain_def)
  qed (simp add: t grant_text_def)
qed

lemma verified_grant:
  assumes "verify_presigned (Local ls) now method r = None" "method = ''PUT'' \<or> dr_bucket r = BucketPrivate"
  obtains h where "lg_method h = method" "lg_bucket h = dr_bucket r" "lg_tenant h = dr_tenant r" "lg_key h = dr_key r"
    "now div 1000000000 \<le> lg_expires h" "dr_sig r = ls_mac ls (grant_text h)" "in_int64 (lg_expires h)"
    "bucket_valid (dr_bucket r)"
proof -
  have b: "bucket_valid (dr_bucket r)" and signed: "\<not> (method = ''GET'' \<and> dr_bucket r = BucketPublic)"
    using assms by (auto simp: verify_presigned_def split: if_splits)
  then obtain e where e: "parse_int (dr_expires r) = Some e"
    and v: "verify_signature (ls_mac ls) now method (dr_bucket r) (dr_tenant r) (dr_key r) e (dr_sig r) = None"
    using assms(1) by (auto simp: verify_presigned_def split: if_splits option.splits)
  have "in_int64 e" using e by (auto simp: parse_int_def Let_def split: if_splits option.splits)
  with v b show thesis
    by (intro that [of "\<lparr>lg_method = method, lg_bucket = dr_bucket r, lg_tenant = dr_tenant r, lg_key = dr_key r,
        lg_expires = e\<rparr>"]) (auto simp: verify_signature_def grant_text_def split: if_splits)
qed

text \<open>No text has the MAC of a text that was signed.\<close>

definition unforgeable :: "(string \<Rightarrow> string) \<Rightarrow> link_grant set \<Rightarrow> bool" where
  "unforgeable mac G \<longleftrightarrow> (\<forall>g \<in> G. \<forall>x. mac x = mac (grant_text g) \<longrightarrow> x = grant_text g)"

lemma verified_is_granted:
  assumes "verify_presigned (Local ls) now method r = None" "method = ''PUT'' \<or> dr_bucket r = BucketPrivate"
    and "\<forall>g \<in> G. grant_plain g" "unforgeable (ls_mac ls) G" "dr_sig r \<in> (\<lambda>g. ls_mac ls (grant_text g)) ` G"
    and "plain_line method"
  shows "\<exists>g \<in> G. lg_method g = method \<and> lg_bucket g = dr_bucket r \<and> lg_tenant g = dr_tenant r \<and> lg_key g = dr_key r \<and>
    now div 1000000000 \<le> lg_expires g"
proof -
  from assms(1,2) obtain h where h: "lg_method h = method" "lg_bucket h = dr_bucket r" "lg_tenant h = dr_tenant r"
    "lg_key h = dr_key r" "now div 1000000000 \<le> lg_expires h" and sig: "dr_sig r = ls_mac ls (grant_text h)"
    and e: "in_int64 (lg_expires h)" and b: "bucket_valid (dr_bucket r)"
    by (rule verified_grant)
  from assms(5) obtain g where g: "g \<in> G" "ls_mac ls (grant_text h) = ls_mac ls (grant_text g)" by (auto simp: sig)
  have "grant_text g = grant_text h" using assms(4) g unfolding unforgeable_def by metis
  then have "g = h" by (rule signed_text_binds) (use assms(3,6) g(1) h(1,2) e bucket_plain [OF b] in auto)
  with g(1) h show ?thesis by blast
qed

text \<open>C23: with the local driver the endpoints that carry the bytes honour exactly the links handed out. Whoever
reads a private object, or changes any file, presents the signature of a link for this operation, bucket,
workspace and key that has not expired, given that signatures cannot be forged: the signed text leaves no
way to read one link as another. A refused request changes nothing.\<close>

theorem data_needs_grant:
  assumes "sd_store sd = Local ls" and "\<forall>g \<in> G. grant_plain g" "unforgeable (ls_mac ls) G"
    and "dr_sig r \<in> (\<lambda>g. ls_mac ls (grant_text g)) ` G"
  shows "(get_object en sd as_uuid r s = (Inr out, s') \<and> dr_bucket r = BucketPrivate \<longrightarrow>
      (\<exists>g \<in> G. lg_method g = ''GET'' \<and> lg_bucket g = BucketPrivate \<and> lg_tenant g = dr_tenant r \<and>
         lg_key g = dr_key r \<and> e_now en div 1000000000 \<le> lg_expires g)) \<and>
    (dp_vault (snd (put_object en sd r body s)) \<noteq> dp_vault s \<longrightarrow>
      (\<exists>g \<in> G. lg_method g = ''PUT'' \<and> lg_bucket g = dr_bucket r \<and> lg_tenant g = dr_tenant r \<and>
         lg_key g = dr_key r \<and> e_now en div 1000000000 \<le> lg_expires g))"
proof -
  have get: "verify_presigned (Local ls) (e_now en) ''GET'' r = None" if "get_object en sd as_uuid r s = (Inr out, s')"
    using that by (auto simp: get_object_def assms(1) on_error_def fail_def split: option.splits)
  have put: "verify_presigned (Local ls) (e_now en) ''PUT'' r = None"
    if "dp_vault (snd (put_object en sd r body s)) \<noteq> dp_vault s"
    using that by (auto simp: put_object_def assms(1) on_error_def fail_def split: option.splits)
  note granted = verified_is_granted [OF _ _ assms(2-4)]
  have "plain_line ''GET''" "plain_line ''PUT''" by (simp_all add: plain_line_def)
  with granted [OF get] granted [OF put] show ?thesis by auto
qed

text \<open>An uploaded file: functions that are plainly injective in place of the cipher and the MAC.\<close>

definition demo_open :: "string \<Rightarrow> string option" where
  "demo_open x = (case x of [] \<Rightarrow> None | c # cs \<Rightarrow> Some cs)"

definition demo_local :: local_store where
  "demo_local = \<lparr>ls_root = [''srv''], ls_mac = (\<lambda>x. x), ls_seal = (\<lambda>x. CHR ''~'' # x), ls_open = demo_open,
     ls_sha = (\<lambda>x. x), ls_base = ''''\<rparr>"

definition demo_storage :: storage_deps where
  "demo_storage = \<lparr>sd_store = Local demo_local, sd_name = ''local'', sd_registry = [(''local'', Local demo_local)],
     sd_upload_ttl = 5000000000, sd_download_ttl = 5000000000\<rparr>"

definition demo_object :: object_row where
  "demo_object = \<lparr>ob_id = ''o'', ob_tenant_id = Some ''t'', ob_bucket = BucketPrivate, ob_key = ''bib.pdf'',
     ob_content_type = ''application/pdf'', ob_size = 2, ob_sha = Some ''hi'', ob_status = ObjectStored,
     ob_created_by = Some ''u'', ob_created_at = 1, ob_updated_at = 1, ob_provider = ''local''\<rparr>"

definition demo_depot :: depot where
  "demo_depot = \<lparr>dp_db = demo_people\<lparr>db_tenants := [demo_tenant]\<rparr>, dp_objects = [demo_object],
     dp_vault = \<lparr>vt_disk = [([''srv'', ''private'', ''t'', ''bib.pdf''], File ''~hi''), ([''srv'', ''private'', ''t''], Folder)],
       vt_cloud = []\<rparr>\<rparr>"

definition demo_grant :: link_grant where
  "demo_grant = \<lparr>lg_method = ''GET'', lg_bucket = BucketPrivate, lg_tenant = ''t'', lg_key = ''bib.pdf'', lg_expires = 5\<rparr>"

definition demo_fetch :: data_request where
  "demo_fetch = \<lparr>dr_bucket = BucketPrivate, dr_tenant = ''t'', dr_key = ''bib.pdf'', dr_expires = ''5'',
     dr_sig = grant_text demo_grant\<rparr>"

theorem data_needs_grant_witness:
  "fst (get_object (demo_env_at ''n'' 9) demo_storage Some demo_fetch demo_depot) = Inr (''application/pdf'', ''hi'') \<and>
   (\<exists>g \<in> {demo_grant}. lg_method g = ''GET'' \<and> lg_tenant g = dr_tenant demo_fetch \<and> lg_key g = dr_key demo_fetch)"
proof -
  let ?out = "get_object (demo_env_at ''n'' 9) demo_storage Some demo_fetch demo_depot"
  have out: "fst ?out = Inr (''application/pdf'', ''hi'')" by code_simp
  then have run: "?out = (Inr (''application/pdf'', ''hi''), snd ?out)" by (metis prod.collapse)
  have h: "sd_store demo_storage = Local demo_local" "\<forall>g \<in> {demo_grant}. grant_plain g"
    "unforgeable (ls_mac demo_local) {demo_grant}"
    "dr_sig demo_fetch \<in> (\<lambda>g. ls_mac demo_local (grant_text g)) ` {demo_grant}" "dr_bucket demo_fetch = BucketPrivate"
    by (simp_all add: demo_storage_def demo_local_def demo_grant_def grant_plain_def plain_line_def in_int64_def
        max_int64_def min_int64_def unforgeable_def demo_fetch_def)
  from data_needs_grant [OF h(1-4), where en = "demo_env_at ''n'' 9" and as_uuid = Some and s = demo_depot
      and out = "(''application/pdf'', ''hi'')" and s' = "snd ?out"] run h(5) out
  show ?thesis by blast
qed

section \<open>Files\<close>

text \<open>An identifier as a part of a path.\<close>

definition plain_part :: "string \<Rightarrow> bool" where
  "plain_part x \<longleftrightarrow> x \<noteq> '''' \<and> x \<noteq> ''.'' \<and> x \<noteq> ''..'' \<and> CHR ''/'' \<notin> set x"

lemma fold_clean_step:
  "''..'' \<notin> set cs \<Longrightarrow> fold clean_step cs p = p @ filter (\<lambda>c. c \<noteq> '''' \<and> c \<noteq> ''.'') cs"
  by (induction cs arbitrary: p) (auto simp: clean_step_def)

lemma key_parts: "validate_key key = None \<Longrightarrow> ''..'' \<notin> set (split_char (CHR ''/'') key)"
  by (auto simp: validate_key_def dest: split_char_infix split: if_splits)

definition key_path :: "string \<Rightarrow> path" where
  "key_path key = filter (\<lambda>c. c \<noteq> '''' \<and> c \<noteq> ''.'') (split_char (CHR ''/'') key)"

lemma join_object:
  assumes "bucket_valid bucket" "plain_part tid" "validate_key key = None"
  shows "join_path p [bucket, tid, key] = p @ [bucket, tid] @ key_path key"
proof -
  have b: "split_char (CHR ''/'') bucket = [bucket]" "bucket \<noteq> ''''" "bucket \<noteq> ''.''" "bucket \<noteq> ''..''"
    using assms(1) by (auto simp: bucket_valid_def)
  have t: "split_char (CHR ''/'') tid = [tid]" using assms(2) by (simp add: plain_part_def split_char_single)
  have "''..'' \<notin> set ([bucket, tid] @ split_char (CHR ''/'') key)"
    using key_parts [OF assms(3)] b(4) assms(2) by (auto simp: plain_part_def)
  from fold_clean_step [OF this, of p] show ?thesis
    using assms(2) b by (simp add: join_path_def t key_path_def plain_part_def)
qed

lemma object_path_plain:
  assumes "plain_part tid" "base \<noteq> []"
  shows "object_path base bucket tid key =
    (case check_place bucket key of Some e \<Rightarrow> Inl e | None \<Rightarrow> Inr (base @ [bucket, tid] @ key_path key))"
proof (cases "check_place bucket key")
  case None
  then have "bucket_valid bucket" "validate_key key = None" by (auto simp: check_place_def split: if_splits)
  from join_object [OF this(1) assms(1) this(2), of base] None assms(2) show ?thesis
    by (simp add: object_path_def Let_def)
qed (simp add: object_path_def)

text \<open>C24: the files of a workspace stay in its directory: the local driver maps every valid key of a workspace
to a path under the storage root, the bucket and the workspace, without any \<open>..\<close>, so objects of two
workspaces, or of the two buckets, never share a file, whatever their keys are.\<close>

theorem object_files_contained:
  assumes "plain_part tid" "plain_part tid'" "base \<noteq> []"
    and "object_path base bucket tid key = Inr p" "object_path base bucket' tid' key' = Inr p'"
  shows "(\<exists>rest. p = base @ [bucket, tid] @ rest \<and> ''..'' \<notin> set rest) \<and> (p = p' \<longrightarrow> bucket = bucket' \<and> tid = tid')"
proof -
  from assms(4) have key: "validate_key key = None" and p: "p = base @ [bucket, tid] @ key_path key"
    unfolding object_path_plain [OF assms(1,3)] by (auto simp: check_place_def split: option.splits if_splits)
  have p': "p' = base @ [bucket', tid'] @ key_path key'"
    using assms(5) unfolding object_path_plain [OF assms(2,3)] by (auto split: option.splits)
  have "''..'' \<notin> set (key_path key)" using key_parts [OF key] by (simp add: key_path_def)
  with p p' show ?thesis by auto
qed

theorem object_files_contained_witness:
  "object_path [''srv''] BucketPrivate ''t'' ''a/../b'' = Inl (ErrInvalidKey (''must not start with / or contain .. or '' @ [CHR 0x5C])) \<and>
   object_path [''srv''] BucketPrivate ''t'' ''a/b'' \<noteq> object_path [''srv''] BucketPrivate ''t2'' ''a/b''"
proof -
  have p: "object_path [''srv''] BucketPrivate ''t'' ''a/b'' = Inr [''srv'', ''private'', ''t'', ''a'', ''b'']"
    "object_path [''srv''] BucketPrivate ''t2'' ''a/b'' = Inr [''srv'', ''private'', ''t2'', ''a'', ''b'']"
    "object_path [''srv''] BucketPrivate ''t'' ''a/../b'' =
       Inl (ErrInvalidKey (''must not start with / or contain .. or '' @ [CHR 0x5C]))"
    by code_simp+
  have "plain_part ''t''" "plain_part ''t2''" "[''srv''] \<noteq> []" by (simp_all add: plain_part_def)
  from object_files_contained [OF this p(1,2)] p show ?thesis by simp
qed

text \<open>Two keys of one workspace may still share a file, while the table has a row for each.\<close>

lemma two_keys_one_file:
  "object_path [''srv''] b ''t'' ''a//b'' = object_path [''srv''] b ''t'' ''a/b'' \<and>
   object_tenant_key (demo_object\<lparr>ob_key := ''a//b''\<rparr>) \<noteq> object_tenant_key (demo_object\<lparr>ob_key := ''a/b''\<rparr>)"
proof
  have "validate_key ''a//b'' = None" "validate_key ''a/b'' = None" "key_path ''a//b'' = key_path ''a/b''" by code_simp+
  moreover have "plain_part ''t''" "[''srv''] \<noteq> []" by (simp_all add: plain_part_def)
  ultimately show "object_path [''srv''] b ''t'' ''a//b'' = object_path [''srv''] b ''t'' ''a/b''"
    by (simp add: object_path_plain check_place_def)
qed (simp add: object_tenant_key_def demo_object_def)

section \<open>Written bytes are read back\<close>

lemma map_of_mkdir:
  "map_of (fold (\<lambda>q d. if map_of d q = None then AList.update q Folder d else d) qs d) x =
     (if x \<in> set qs \<and> map_of d x = None then Some Folder else map_of d x)"
  by (induction qs arbitrary: d) (auto simp: update_conv')

lemma mkdir_all_Some:
  assumes "mkdir_all p d = Some d'"
  shows "map_of d' x = (if prefix x p \<and> map_of d x = None then Some Folder else map_of d x)" "\<not> list_ex (is_file d) (prefixes p)"
  using assms by (auto simp: mkdir_all_def map_of_mkdir split: if_splits)

lemma replace_file_ok:
  assumes "replace_file p sealed d = (Inr u, d')" and "p \<noteq> []"
  shows "map_of d' x = (if x = p then Some (File sealed) else if x = temp_path p sealed then None else map_of d x)"
  using assms by (auto simp: replace_file_def Let_def update_conv' delete_conv' split: if_splits)

lemma local_put_InrE:
  assumes "local_put s bucket tid key data v = (Inr res, v')" and "plain_part tid" "ls_root s \<noteq> []"
  obtains p d1 where "object_path (ls_root s) bucket tid key = Inr p" "p \<noteq> []"
    "mkdir_all (butlast p) (vt_disk v) = Some d1" "replace_file p (ls_seal s data) d1 = (Inr (), vt_disk v')"
    "vt_cloud v' = vt_cloud v"
proof (cases "object_path (ls_root s) bucket tid key")
  case (Inl e)
  with assms(1) show thesis by (simp add: local_put_def of_result_def act_simps)
next
  case (Inr p)
  then have "p \<noteq> []" using assms(3) unfolding object_path_plain [OF assms(2,3)] by (auto split: option.splits)
  with Inr assms(1) that show thesis
    by (auto simp: local_put_def of_result_def and_then_def ret_def on_disk_def split: option.splits prod.splits sum.splits)
qed

text \<open>C40: What the local driver wrote it reads back: after a successful write the object reads as the data
written (given that the cipher opens what it sealed), and no other file is touched, except one that has
the name of the temporary file.\<close>

theorem written_bytes_read_back:
  assumes "local_put s bucket tid key data v = (Inr res, v')" and "plain_part tid" "ls_root s \<noteq> []"
    and "ls_open s (ls_seal s data) = Some data"
  shows "\<exists>p. object_path (ls_root s) bucket tid key = Inr p \<and> local_get s bucket tid key v' = (Inr data, v') \<and>
    (\<forall>q x. q \<noteq> p \<and> q \<noteq> temp_path p (ls_seal s data) \<and> map_of (vt_disk v) q = Some (File x) \<longrightarrow>
       map_of (vt_disk v') q = Some (File x))"
proof -
  from assms(1-3) obtain p d1 where p: "object_path (ls_root s) bucket tid key = Inr p" "p \<noteq> []"
    and d1: "mkdir_all (butlast p) (vt_disk v) = Some d1" "replace_file p (ls_seal s data) d1 = (Inr (), vt_disk v')"
    by (rule local_put_InrE)
  note d' = replace_file_ok [OF d1(2) p(2)]
  have "\<not> is_file (vt_disk v') q" if q: "prefix q (butlast p)" for q
  proof -
    have "length q < length p" using prefix_length_le [OF q] p(2) by (simp add: diff_less_mono2 order.strict_trans1)
    moreover have "length (temp_path p (ls_seal s data)) = length p" using p(2) by (simp add: temp_path_def)
    ultimately have "map_of (vt_disk v') q = map_of d1 q" by (auto simp: d')
    moreover have "\<not> is_file (vt_disk v) q" using mkdir_all_Some(2) [OF d1(1)] q by (simp add: list_ex_iff)
    ultimately show ?thesis by (auto simp: is_file_def mkdir_all_Some(1) [OF d1(1)] split: option.splits node.splits)
  qed
  then have "\<not> through_file (vt_disk v') p" by (simp add: through_file_def list_ex_iff)
  then have "local_get s bucket tid key v' = (Inr data, v')"
    using assms(4) by (simp add: local_get_def p of_result_def act_simps d')
  then show ?thesis using p(1) d' mkdir_all_Some(1) [OF d1(1)] by auto
qed

theorem written_bytes_read_back_witness:
  "let v' = snd (local_put demo_local BucketPrivate ''t'' ''photos/1.jpg'' ''xyz'' (dp_vault demo_depot))
   in local_get demo_local BucketPrivate ''t'' ''photos/1.jpg'' v' = (Inr ''xyz'', v') \<and>
      map_of (vt_disk v') [''srv'', ''private'', ''t'', ''bib.pdf''] = Some (File ''~hi'')"
proof -
  let ?r = "local_put demo_local BucketPrivate ''t'' ''photos/1.jpg'' ''xyz'' (dp_vault demo_depot)"
  have run: "?r = (Inr (projr (fst ?r)), snd ?r)" by (rule run_succeeded) code_simp
  have h: "plain_part ''t''" "ls_root demo_local \<noteq> []" "ls_open demo_local (ls_seal demo_local ''xyz'') = Some ''xyz''"
    by (simp_all add: plain_part_def demo_local_def demo_open_def)
  have p: "object_path (ls_root demo_local) BucketPrivate ''t'' ''photos/1.jpg'' = Inr [''srv'', ''private'', ''t'', ''photos'', ''1.jpg'']"
    by code_simp
  have "map_of (vt_disk (dp_vault demo_depot)) [''srv'', ''private'', ''t'', ''bib.pdf''] = Some (File ''~hi'')"
    by (simp add: demo_depot_def)
  with written_bytes_read_back [OF run h] p show ?thesis by (auto simp: Let_def temp_path_def)
qed

section \<open>Where the code and its comments part\<close>

text \<open>The bucket driver takes any signature: with it the endpoints hand a private object to whoever names it.\<close>

lemma bucket_driver_reads_unsigned:
  assumes "sd_store sd = R2 c" "r2_up c" "as_uuid (dr_tenant r) = Some (dr_tenant r)"
    and "dr_bucket r = BucketPrivate" "dr_tenant r \<noteq> ''''" "dr_sig r \<noteq> ''''" "parse_int (dr_expires r) = Some e"
    and "select_one (\<lambda>o'. tenant_object (dr_tenant r) BucketPrivate (dr_key r) o' \<or>
           personal_object (dr_tenant r) BucketPrivate (dr_key r) o') (dp_objects s) = Some o'"
    and "r2_key BucketPrivate (dr_tenant r) (dr_key r) = Inr k"
    and "map_of (vt_cloud (dp_vault s)) (bucket_name c BucketPrivate, k) = Some data"
  shows "fst (get_object en sd as_uuid r s) = Inr (ob_content_type o', data)"
proof -
  have "dr_key r \<noteq> ''''" using assms(9) by (auto simp: r2_key_def check_place_def validate_key_def split: if_splits)
  then have v: "verify_presigned (sd_store sd) (e_now en) ''GET'' r = None"
    using assms(1,4-7) by (simp add: verify_presigned_def bucket_valid_def)
  have row: "get_object_unscoped as_uuid (dr_tenant r) (dr_bucket r) (dr_key r) s = (Inr o', s)"
    by (simp add: get_object_unscoped_def get_object_where_def assms(3,4,8) act_simps found_def)
  have get: "driver_get (sd_store sd) (dr_bucket r) (dr_tenant r) (dr_key r) (dp_vault s) = (Inr data, dp_vault s)"
    using assms(2,9,10) by (simp add: assms(1,4) r2_get_def confirm_upload_def r2_call_def of_result_def act_simps and_then_def)
  show ?thesis
    by (simp add: get_object_def v act_simps and_then_def map_error_def row in_vault_def get)
qed

text \<open>\<open>ListObjects\<close> reads outside a transaction, where the policy of the table shows no row.\<close>

lemma list_objects_shows_nothing: "\<exists>pg'. list_objects tid pg s = (Inr pg', s) \<and> pg_items pg' = []"
proof -
  have none: "(\<lambda>o'. ob_tenant_id o' = Some tid \<and> ob_tenant_id o' = None) = (\<lambda>_. False)" by auto
  show ?thesis
    by (simp add: list_objects_def list_object_rows_def Let_def act_simps none newest_def select_def cut_page_def)
qed

text \<open>The unique index of personal objects is not the one of the \<open>ON CONFLICT\<close>: a second upload is an error.\<close>

lemma personal_reupload_refused:
  assumes "o' \<in> set (dp_objects s)" "personal_object uid bucket key o'" "uid \<noteq> ''''"
  shows "isl (fst (upsert_personal en oid bucket key ctype uid provider s))"
proof -
  let ?new = "pending_object oid None bucket key ctype uid (e_now en) provider"
  have "taken object_personal_key (dp_objects s) ?new"
    using assms(1,2) by (auto simp: taken_def object_personal_key_def personal_object_def pending_object_def list_ex_iff)
  then have "\<exists>v. object_violation s ?new = Some v" by (simp add: object_violation_def)
  then show ?thesis using assms(3)
    by (auto simp: upsert_personal_def upsert_on_tenant_key_def uuid_param_def act_simps insert_object_def
        object_tenant_key_def pending_object_def)
qed

text \<open>Bytes stored for an API client have no user: the empty text is no UUID, and the bytes stay behind.\<close>

lemma anonymous_store_refused: "isl (fst (store_generated_direct en sd sha tid '''' bucket key ctype data s))"
proof -
  have "isl (fst (register_generated en sd tid '''' bucket key ctype w s'))" for w s'
    by (simp add: register_generated_def upsert_object_def upsert_on_tenant_key_def uuid_param_def pending_object_def
        guard_def fail_def and_then_def with_tenant_tx_def with_tx_def)
  then show ?thesis
    by (auto simp: store_generated_direct_def and_then_def split: prod.splits sum.splits)
qed

text \<open>An upload over an existing object leaves the name of the driver that stored the old bytes.\<close>

lemma provider_not_updated: "ob_provider (reset_object en new o') = ob_provider o'"
  by (simp add: reset_object_def)

end
