(* ===== verification/Studio.thy ===== *)
theory Studio
  imports Storage_Service Job_Queue Event_Service
begin

text \<open>
  The tables that refer to stored objects (migrations 0008, 0009, 0015, 0016, 0017): an event's albums,
  photos and BIB tags, its generator templates, its certificates and their publication, beside the
  objects and the queue of background jobs; and the text of identifiers and file names, which these
  services check themselves.
\<close>

section \<open>Identifiers\<close>

text \<open>\<open>uuidPattern\<close> of \<open>internal/gallery\<close>.\<close>

definition is_uuid :: "string \<Rightarrow> bool" where
  "is_uuid x \<longleftrightarrow> map length (split_char (CHR ''-'') x) = [8, 4, 4, 4, 12] \<and>
     list_all (\<lambda>c. c = CHR ''-'' \<or> hex_digit c) x"

text \<open>How Postgres reads the text of a \<open>uuid\<close>: 32 hexadecimal digits, with or without braces around
them and hyphens after groups of four.\<close>

definition skip_hyphen :: "bool \<Rightarrow> string \<Rightarrow> string" where
  "skip_hyphen b s = (case s of [] \<Rightarrow> [] | c # r \<Rightarrow> if c = CHR ''-'' \<and> b then r else s)"

fun uuid_digits :: "nat \<Rightarrow> string \<Rightarrow> string option" where
  "uuid_digits 0 s = (if s = [] then Some [] else None)"
| "uuid_digits (Suc k) (a # b # s) =
     (if hex_digit a \<and> hex_digit b
      then map_option (\<lambda>ds. lower_char a # lower_char b # ds) (uuid_digits k (skip_hyphen (even k \<and> 0 < k) s))
      else None)"
| "uuid_digits (Suc k) s = None"

definition in_braces :: "string \<Rightarrow> string option" where
  "in_braces x =
     (case x of
        [] \<Rightarrow> Some x
      | c # s \<Rightarrow> if c = CHR ''{'' then (if s \<noteq> [] \<and> List.last s = CHR ''}'' then Some (butlast s) else None)
          else Some x)"

definition uuid_text :: "string \<Rightarrow> string" where
  "uuid_text ds = take 8 ds @ ''-'' @ take 4 (drop 8 ds) @ ''-'' @ take 4 (drop 12 ds) @ ''-'' @
     take 4 (drop 16 ds) @ ''-'' @ drop 20 ds"

definition pg_uuid :: "string \<Rightarrow> string option" where
  "pg_uuid x =
     (case in_braces x of
        None \<Rightarrow> None
      | Some y \<Rightarrow> map_option uuid_text (uuid_digits 16 y))"

definition bad_uuid :: go_error where
  "bad_uuid = Other ''pq: invalid input syntax for type uuid''"

text \<open>A text bound to a parameter of type \<open>uuid\<close>.\<close>

definition with_uuid :: "string \<Rightarrow> (string \<Rightarrow> ('s, go_error, 'a) act) \<Rightarrow> ('s, go_error, 'a) act" where
  "with_uuid x f = (case pg_uuid x of None \<Rightarrow> fail bad_uuid | Some u \<Rightarrow> f u)"

definition with_uuids :: "string list \<Rightarrow> (string list \<Rightarrow> ('s, go_error, 'a) act) \<Rightarrow> ('s, go_error, 'a) act" where
  "with_uuids xs f =
     (if list_all (\<lambda>x. pg_uuid x \<noteq> None) xs then f (map (\<lambda>x. the (pg_uuid x)) xs) else fail bad_uuid)"

lemma with_uuid_InrE [act_elims]:
  assumes "with_uuid x f s = (Inr a, s')"
  obtains u where "pg_uuid x = Some u" "f u s = (Inr a, s')"
  using assms by (cases "pg_uuid x") (simp_all add: with_uuid_def fail_def)

lemma with_uuids_InrE [act_elims]:
  assumes "with_uuids xs f s = (Inr a, s')"
  obtains "list_all (\<lambda>x. pg_uuid x \<noteq> None) xs" "f (map (\<lambda>x. the (pg_uuid x)) xs) s = (Inr a, s')"
  using assms by (auto simp: with_uuids_def fail_def split: if_splits)

lemma keeps_with_uuid [keeps_intros]: "(\<And>u. pg_uuid x = Some u \<Longrightarrow> keeps I (f u)) \<Longrightarrow> keeps I (with_uuid x f)"
  by (cases "pg_uuid x") (simp_all add: with_uuid_def keeps_fail)

lemma keeps_with_uuids [keeps_intros]: "(\<And>us. keeps I (f us)) \<Longrightarrow> keeps I (with_uuids xs f)"
  by (simp add: with_uuids_def keeps_fail)

section \<open>File names\<close>

definition after_last :: "char \<Rightarrow> string \<Rightarrow> string" where
  "after_last c s = rev (takeWhile (\<lambda>x. x \<noteq> c) (rev s))"

text \<open>\<open>path.Base\<close> and \<open>path.Ext\<close>\<close>

definition path_base :: "string \<Rightarrow> string" where
  "path_base s =
     (if s = '''' then ''.''
      else let t = rev (dropWhile (\<lambda>c. c = CHR ''/'') (rev s)); b = after_last (CHR ''/'') t in
        if b = '''' then ''/'' else b)"

definition path_ext :: "string \<Rightarrow> string" where
  "path_ext s =
     (let b = after_last (CHR ''/'') s in
      if CHR ''.'' \<in> set b then CHR ''.'' # after_last (CHR ''.'') b else '''')"

text \<open>\<open>strings.ToLower\<close> of an extension: of the runes beyond ASCII one, U+0130, lowers to a letter of the
accepted extensions; the others are kept, which leaves the text as far from an accepted one as they do.\<close>

fun lower_text :: "string \<Rightarrow> string" where
  "lower_text (a # b # s) =
     (if byte a = 0xC4 \<and> byte b = 0xB0 then CHR ''i'' # lower_text s else lower_char a # lower_text (b # s))"
| "lower_text s = map lower_char s"

text \<open>\<open>utf8.RuneCountInString\<close>: a byte that starts no rune counts as one.\<close>

definition rune_width :: "string \<Rightarrow> nat" where
  "rune_width s =
     (case s of [] \<Rightarrow> 0
      | c # cs \<Rightarrow> let n = rune_length (byte c); tail = map byte (take (n - 1) cs) in
          if n \<le> 1 \<or> length tail \<noteq> n - 1 \<or> \<not> second_byte_ok (byte c) (hd tail) \<or>
            \<not> list_all continuation tail then 1 else n)"

function rune_count :: "string \<Rightarrow> nat" where
  "rune_count s = (if s = [] then 0 else Suc (rune_count (drop (rune_width s) s)))"
  by auto
termination by (relation "measure length") (auto simp: rune_width_def Let_def split: list.splits)

declare rune_count.simps [simp del]

section \<open>Tables\<close>

record album =
  ab_id :: string
  ab_tenant_id :: string
  ab_event_id :: string
  ab_name :: string
  ab_description :: "string option"
  ab_is_public :: bool
  ab_created_by :: string
  ab_created_at :: int
  ab_updated_at :: int

abbreviation OCRPending :: string where "OCRPending \<equiv> ''pending''"
abbreviation OCRProcessed :: string where "OCRProcessed \<equiv> ''processed''"
abbreviation OCRFailed :: string where "OCRFailed \<equiv> ''failed''"
abbreviation TagSourceOCR :: string where "TagSourceOCR \<equiv> ''ocr''"
abbreviation TagSourceManual :: string where "TagSourceManual \<equiv> ''manual''"

record photo =
  ph_id :: string
  ph_tenant_id :: string
  ph_album_id :: string
  ph_original_id :: string
  ph_thumbnail_id :: "string option"
  ph_ocr_status :: string
  ph_ocr_error :: "string option"
  ph_created_by :: string
  ph_filename :: string
  ph_original_size :: int
  ph_size :: int
  ph_width :: int
  ph_height :: int
  ph_created_at :: int
  ph_updated_at :: int

record box =
  bx_x :: rat
  bx_y :: rat
  bx_w :: rat
  bx_h :: rat

record tag_row =
  tg_id :: string
  tg_tenant_id :: string
  tg_photo_id :: string
  tg_bib :: string
  tg_number :: "int option"
  tg_source :: string
  tg_confidence :: "rat option"
  tg_box :: "box option"
  tg_created_at :: int

record template =
  tpl_id :: string
  tpl_tenant_id :: string
  tpl_event_id :: string
  tpl_race_id :: "string option"
  tpl_storage_id :: string
  tpl_name :: string
  tpl_kind :: string
  tpl_is_active :: bool
  tpl_version :: int
  tpl_metadata :: string
  tpl_created_by :: string
  tpl_created_at :: int
  tpl_updated_at :: int

record certificate =
  ct_id :: string
  ct_tenant_id :: string
  ct_event_id :: string
  ct_participant_id :: string
  ct_no :: string
  ct_template_id :: "string option"
  ct_template_version :: "int option"
  ct_data_hash :: "string option"
  ct_status :: string
  ct_error :: "string option"
  ct_storage_id :: "string option"
  ct_format :: "string option"
  ct_dpi :: "int option"
  ct_width_px :: "int option"
  ct_height_px :: "int option"
  ct_size_bytes :: "int option"
  ct_generated_at :: "int option"
  ct_created_by :: string
  ct_created_at :: int
  ct_updated_at :: int

record publication =
  pb_event_id :: string
  pb_tenant_id :: string
  pb_published_at :: int

record studio = depot +
  st_albums :: "album list"
  st_photos :: "photo list"
  st_tags :: "tag_row list"
  st_templates :: "template list"
  st_certificates :: "certificate list"
  st_publications :: "publication list"
  st_jobs :: "job list"
  st_list :: "string list"

type_synonym 'a studio_act = "(studio, go_error, 'a) act"

definition in_queue :: "'a queued \<Rightarrow> 'a studio_act" where
  "in_queue m s =
     (case m \<lparr>bl_db = dp_db s, bl_jobs = st_jobs s, bl_list = st_list s\<rparr> of
        (r, b) \<Rightarrow> (r, s\<lparr>dp_db := bl_db b, st_jobs := bl_jobs b, st_list := bl_list b\<rparr>))"

definition has_tenant :: "studio \<Rightarrow> string \<Rightarrow> bool" where
  "has_tenant s tid \<longleftrightarrow> list_ex (\<lambda>t. tn_id t = tid) (db_tenants (dp_db s))"

definition has_event :: "studio \<Rightarrow> string \<Rightarrow> bool" where
  "has_event s eid \<longleftrightarrow> list_ex (\<lambda>e. ev_id e = eid) (db_events (dp_db s))"

definition has_object :: "studio \<Rightarrow> string \<Rightarrow> bool" where
  "has_object s oid \<longleftrightarrow> list_ex (\<lambda>o'. ob_id o' = oid) (dp_objects s)"

text \<open>The object a joined row shows, under the tenant of the transaction.\<close>

definition joined_object :: "studio \<Rightarrow> string \<Rightarrow> string \<Rightarrow> object_row option" where
  "joined_object s tid oid = select_one (\<lambda>o'. ob_tenant_id o' = Some tid \<and> ob_id o' = oid) (dp_objects s)"

text \<open>The clock of a call and the identifiers it draws from the \<open>k\<close>th on.\<close>

definition later :: "nat \<Rightarrow> env \<Rightarrow> env" where
  "later k en = en\<lparr>e_uuid := \<lambda>i. e_uuid en (k + i)\<rparr>"

definition sql_fails :: "sql_error \<Rightarrow> go_error" where
  "sql_fails e = Other (case e of UniqueViolation c \<Rightarrow> ''pq: duplicate key value violates unique constraint '' @ c
     | ForeignKeyViolation c \<Rightarrow> ''pq: violates foreign key constraint '' @ c
     | OutOfRange \<Rightarrow> ''pq: value out of range'')"

text \<open>The violation of a write, translated.\<close>

definition sql_check :: "(sql_error \<Rightarrow> go_error) \<Rightarrow> sql_error option \<Rightarrow> ('s, go_error, unit) act" where
  "sql_check tr v = on_error (map_option tr v) (ret ())"

lemma sql_check_InrE [act_elims]:
  assumes "sql_check tr v s = (Inr a, s')"
  obtains "v = None" "s' = s"
  using assms by (cases v) (simp_all add: sql_check_def act_simps)

lemma keeps_sql_check [keeps_intros]: "keeps I (sql_check tr v)"
  unfolding sql_check_def by (intro keeps_intros)

end
