(* ===== verification/Gallery_Repo.thy ===== *)
theory Gallery_Repo
  imports Studio
begin

text \<open>
  \<open>internal/gallery/repository.go\<close>, \<open>photo_repository.go\<close> and \<open>tag_repository.go\<close>: the statements on
  albums, photos and tags, with the unique indexes, the references and the cascades of migrations 0009
  and 0016. A row is seen and changed only under its own tenant.
\<close>

section \<open>Albums\<close>

record album_view =
  av_album :: album
  av_photo_count :: nat

definition photo_count :: "studio \<Rightarrow> string \<Rightarrow> album \<Rightarrow> nat" where
  "photo_count s tid a =
     length (select (\<lambda>p. ph_tenant_id p = tid \<and> ph_album_id p = ab_id a) (st_photos s))"

definition view_album :: "studio \<Rightarrow> string \<Rightarrow> album \<Rightarrow> album_view" where
  "view_album s tid a = \<lparr>av_album = a, av_photo_count = photo_count s tid a\<rparr>"

definition album_pk :: "album \<Rightarrow> string option" where
  "album_pk a = Some (ab_id a)"

text \<open>\<open>lower\<close> is the function of that name in the database's collation.\<close>

definition album_name_key :: "(string \<Rightarrow> string) \<Rightarrow> album \<Rightarrow> (string \<times> string) option" where
  "album_name_key lower a = Some (ab_event_id a, lower (ab_name a))"

definition album_violation :: "(string \<Rightarrow> string) \<Rightarrow> studio \<Rightarrow> album list \<Rightarrow> album \<Rightarrow> sql_error option" where
  "album_violation lower s others a =
     (if taken album_pk others a then Some (UniqueViolation ''albums_pkey'')
      else if taken (album_name_key lower) others a then Some (UniqueViolation ''albums_event_name_uk'')
      else if \<not> has_tenant s (ab_tenant_id a) then Some (ForeignKeyViolation ''albums_tenant_id_fkey'')
      else if \<not> has_event s (ab_event_id a) then Some (ForeignKeyViolation ''albums_event_id_fkey'')
      else if \<not> has_user (dp_db s) (ab_created_by a) then Some (ForeignKeyViolation ''albums_created_by_fkey'')
      else None)"

definition translate_album_write :: "sql_error \<Rightarrow> go_error" where
  "translate_album_write e =
     (case e of
        UniqueViolation c \<Rightarrow> FieldError (conflict ''album_name_taken'' ''name''
          ''An album with this name already exists in this event.'')
      | _ \<Rightarrow> sql_fails e)"

definition create_album_row :: "(string \<Rightarrow> string) \<Rightarrow> album \<Rightarrow> unit studio_act" where
  "create_album_row lower a =
     with_uuid (ab_event_id a) (\<lambda>eid. let a = a\<lparr>ab_event_id := eid\<rparr> in
     and_then (reads (\<lambda>s. album_violation lower s (st_albums s) a)) (\<lambda>v.
     and_then (sql_check translate_album_write v) (\<lambda>_.
     writes (\<lambda>s. s\<lparr>st_albums := st_albums s @ [a]\<rparr>))))"

definition is_album :: "string \<Rightarrow> string \<Rightarrow> string \<Rightarrow> album \<Rightarrow> bool" where
  "is_album tid eid aid a \<longleftrightarrow> ab_tenant_id a = tid \<and> ab_event_id a = eid \<and> ab_id a = aid"

definition get_album_row :: "string \<Rightarrow> string \<Rightarrow> string \<Rightarrow> album_view studio_act" where
  "get_album_row tid eid aid =
     with_uuid eid (\<lambda>e. with_uuid aid (\<lambda>a.
     and_then (reads (\<lambda>s. map_option (view_album s tid) (select_one (is_album tid e a) (st_albums s)))) found))"

definition album_position :: "album \<Rightarrow> int \<times> string" where
  "album_position a = (ab_created_at a, ab_id a)"

definition list_albums_where :: "(album \<Rightarrow> bool) \<Rightarrow> string \<Rightarrow> string \<Rightarrow> album_view list studio_act" where
  "list_albums_where q tid eid =
     with_uuid eid (\<lambda>e.
     reads (\<lambda>s. map (view_album s tid) (sort_key album_position
       (select (\<lambda>a. ab_tenant_id a = tid \<and> ab_event_id a = e \<and> q a) (st_albums s)))))"

definition list_albums_rows :: "string \<Rightarrow> string \<Rightarrow> album_view list studio_act" where
  "list_albums_rows = list_albums_where (\<lambda>a. True)"

definition list_public_albums_rows :: "string \<Rightarrow> string \<Rightarrow> album_view list studio_act" where
  "list_public_albums_rows = list_albums_where ab_is_public"

definition update_album_row :: "(string \<Rightarrow> string) \<Rightarrow> env \<Rightarrow> album \<Rightarrow> unit studio_act" where
  "update_album_row lower en a =
     (let q = is_album (ab_tenant_id a) (ab_event_id a) (ab_id a);
          f = (\<lambda>r. r\<lparr>ab_name := ab_name a, ab_description := ab_description a, ab_is_public := ab_is_public a,
                 ab_updated_at := e_now en\<rparr>) in
      and_then (reads (\<lambda>s. (length (select q (st_albums s)),
        unique_on (album_name_key lower) (update_where q f (st_albums s))))) (\<lambda>(n, ok).
      and_then (sql_check translate_album_write
        (if ok then None else Some (UniqueViolation ''albums_event_name_uk''))) (\<lambda>_.
      and_then (writes (\<lambda>s. s\<lparr>st_albums := update_where q f (st_albums s)\<rparr>)) (\<lambda>_.
      check_rows n))))"

text \<open>\<open>ON DELETE CASCADE\<close>: the photos of the albums and their tags go as well.\<close>

definition drop_photos :: "(photo \<Rightarrow> bool) \<Rightarrow> studio \<Rightarrow> studio" where
  "drop_photos q s =
     (let gone = map ph_id (select q (st_photos s)) in
      s\<lparr>st_photos := delete_where q (st_photos s),
        st_tags := delete_where (\<lambda>t. tg_photo_id t \<in> set gone) (st_tags s)\<rparr>)"

definition drop_albums :: "(album \<Rightarrow> bool) \<Rightarrow> studio \<Rightarrow> studio" where
  "drop_albums q s =
     (let gone = map ab_id (select q (st_albums s)) in
      drop_photos (\<lambda>p. ph_album_id p \<in> set gone) (s\<lparr>st_albums := delete_where q (st_albums s)\<rparr>))"

definition delete_album_row :: "string \<Rightarrow> string \<Rightarrow> string \<Rightarrow> unit studio_act" where
  "delete_album_row tid eid aid =
     with_uuid eid (\<lambda>e. with_uuid aid (\<lambda>a.
     and_then (reads (\<lambda>s. length (select (is_album tid e a) (st_albums s)))) (\<lambda>n.
     and_then (writes (drop_albums (is_album tid e a))) (\<lambda>_. check_rows n))))"

section \<open>Photos\<close>

definition duplicate_key :: "string \<Rightarrow> int \<Rightarrow> string" where
  "duplicate_key name sz = name @ ''|'' @ itoa sz"

definition duplicate_keys :: "string \<Rightarrow> string \<Rightarrow> (string \<times> int) list \<Rightarrow> string list studio_act" where
  "duplicate_keys tid aid files =
     with_uuid aid (\<lambda>a.
     reads (\<lambda>s. map (\<lambda>p. duplicate_key (ph_filename p) (ph_original_size p))
       (select (\<lambda>p. ph_tenant_id p = tid \<and> ph_album_id p = a \<and> (ph_filename p, ph_original_size p) \<in> set files)
         (st_photos s))))"

definition photo_pk :: "photo \<Rightarrow> string option" where
  "photo_pk p = Some (ph_id p)"

definition photo_original_key :: "photo \<Rightarrow> string option" where
  "photo_original_key p = Some (ph_original_id p)"

definition photo_file_key :: "photo \<Rightarrow> (string \<times> string \<times> int) option" where
  "photo_file_key p =
     (if ph_filename p = '''' then None else Some (ph_album_id p, ph_filename p, ph_original_size p))"

definition photo_violation :: "studio \<Rightarrow> photo list \<Rightarrow> photo \<Rightarrow> sql_error option" where
  "photo_violation s others p =
     (if taken photo_pk others p then Some (UniqueViolation ''photos_pkey'')
      else if taken photo_file_key others p then Some (UniqueViolation ''photos_album_original_uk'')
      else if \<not> has_tenant s (ph_tenant_id p) then Some (ForeignKeyViolation ''photos_tenant_id_fkey'')
      else if \<not> list_ex (\<lambda>a. ab_id a = ph_album_id p) (st_albums s)
        then Some (ForeignKeyViolation ''photos_album_id_fkey'')
      else if \<not> has_object s (ph_original_id p) then Some (ForeignKeyViolation ''photos_original_storage_id_fkey'')
      else if \<not> has_user (dp_db s) (ph_created_by p) then Some (ForeignKeyViolation ''photos_created_by_fkey'')
      else None)"

definition photo_in_range :: "photo \<Rightarrow> bool" where
  "photo_in_range p \<longleftrightarrow> in_int64 (ph_original_size p) \<and> in_int64 (ph_size p) \<and> in_int32 (ph_width p) \<and> in_int32 (ph_height p)"

text \<open>\<open>ON CONFLICT (original_storage_id) DO NOTHING\<close>; the other index is not covered by it.\<close>

definition insert_photo :: "photo \<Rightarrow> bool studio_act" where
  "insert_photo p =
     with_uuid (ph_album_id p) (\<lambda>aid. with_uuid (ph_original_id p) (\<lambda>oid.
     let p = p\<lparr>ph_album_id := aid, ph_original_id := oid\<rparr> in
     and_then (sql_check sql_fails (if photo_in_range p then None else Some OutOfRange)) (\<lambda>_.
     and_then (reads st_photos) (\<lambda>ps.
     if taken photo_original_key ps p then ret False
     else and_then (reads (\<lambda>s. photo_violation s (st_photos s) p)) (\<lambda>v.
       and_then (sql_check sql_fails v) (\<lambda>_.
       and_then (writes (\<lambda>s. s\<lparr>st_photos := st_photos s @ [p]\<rparr>)) (\<lambda>_. ret True)))))))"

definition photo_id_by_storage :: "string \<Rightarrow> string \<Rightarrow> string studio_act" where
  "photo_id_by_storage tid oid =
     with_uuid oid (\<lambda>o'.
     and_then (reads (\<lambda>s. select_one (\<lambda>p. ph_tenant_id p = tid \<and> ph_original_id p = o') (st_photos s))) (\<lambda>x.
     and_then (found x) (\<lambda>p. ret (ph_id p))))"

record photo_view =
  pv_row :: photo
  pv_uploader :: user_row
  pv_original :: object_row
  pv_thumb :: "object_row option"
  pv_tags :: "tag_row list"

definition uploader_name :: "photo_view \<Rightarrow> string" where
  "uploader_name v = trim_space (us_first_name (pv_uploader v) @ '' '' @ us_last_name (pv_uploader v))"

definition has_thumbnail :: "photo_view \<Rightarrow> bool" where
  "has_thumbnail v \<longleftrightarrow> pv_thumb v \<noteq> None"

definition tag_position :: "tag_row \<Rightarrow> int \<times> string" where
  "tag_position t = (tg_created_at t, tg_id t)"

definition tags_of :: "studio \<Rightarrow> string \<Rightarrow> string \<Rightarrow> tag_row list" where
  "tags_of s tid pid =
     sort_key tag_position (select (\<lambda>t. tg_tenant_id t = tid \<and> tg_photo_id t = pid) (st_tags s))"

definition album_of :: "studio \<Rightarrow> string \<Rightarrow> photo \<Rightarrow> album option" where
  "album_of s tid p = select_one (\<lambda>a. ab_tenant_id a = tid \<and> ab_id a = ph_album_id p) (st_albums s)"

definition view_photo :: "studio \<Rightarrow> string \<Rightarrow> photo \<Rightarrow> user_row \<Rightarrow> object_row \<Rightarrow> photo_view" where
  "view_photo s tid p u o' =
     \<lparr>pv_row = p, pv_uploader = u, pv_original = o',
      pv_thumb = (case ph_thumbnail_id p of None \<Rightarrow> None | Some t \<Rightarrow> joined_object s tid t),
      pv_tags = tags_of s tid (ph_id p)\<rparr>"

text \<open>\<open>photoFrom\<close>: the joins of a photo, with the album they go through.\<close>

definition join_photo :: "studio \<Rightarrow> string \<Rightarrow> photo \<Rightarrow> (album \<times> photo_view) option" where
  "join_photo s tid p =
     (if ph_tenant_id p \<noteq> tid then None
      else case (album_of s tid p, select_one (\<lambda>u. us_id u = ph_created_by p) (db_users (dp_db s)),
                 joined_object s tid (ph_original_id p)) of
        (Some a, Some u, Some o') \<Rightarrow> Some (a, view_photo s tid p u o')
      | _ \<Rightarrow> None)"

definition joined_photos :: "studio \<Rightarrow> string \<Rightarrow> (album \<times> photo_view) list" where
  "joined_photos s tid = List.map_filter (join_photo s tid) (st_photos s)"

section \<open>States\<close>

abbreviation StatePreparing :: string where "StatePreparing \<equiv> ''preparing''"
abbreviation StateDetecting :: string where "StateDetecting \<equiv> ''detecting''"
abbreviation StateReview :: string where "StateReview \<equiv> ''review''"
abbreviation StateVerified :: string where "StateVerified \<equiv> ''verified''"
abbreviation StateAuto :: string where "StateAuto \<equiv> ''auto''"
abbreviation StateFailed :: string where "StateFailed \<equiv> ''failed''"
abbreviation StateNoBIB :: string where "StateNoBIB \<equiv> ''no_bib''"

definition all_states :: "string list" where
  "all_states = [StatePreparing, StateDetecting, StateReview, StateVerified, StateAuto, StateFailed, StateNoBIB]"

definition state_valid :: "string \<Rightarrow> bool" where
  "state_valid st \<longleftrightarrow> st \<in> set all_states"

text \<open>An OCR tag under the auto threshold.\<close>

definition needs_review :: "tag_row \<Rightarrow> bool" where
  "needs_review t \<longleftrightarrow> tg_source t = TagSourceOCR \<and>
     (case tg_confidence t of None \<Rightarrow> 0 | Some c \<Rightarrow> c) < 85 / 100"

definition state_condition :: "string \<Rightarrow> photo \<Rightarrow> tag_row list \<Rightarrow> bool" where
  "state_condition st p tags =
     (let settled = ph_ocr_status p \<noteq> OCRPending; n = length tags; review = length (select needs_review tags);
          manual = length (select (\<lambda>t. tg_source t = TagSourceManual) tags) in
      if st = StatePreparing then ph_ocr_status p = OCRPending \<and> ph_thumbnail_id p = None
      else if st = StateDetecting then ph_ocr_status p = OCRPending \<and> ph_thumbnail_id p \<noteq> None
      else if st = StateReview then settled \<and> review > 0
      else if st = StateVerified then settled \<and> review = 0 \<and> n > 0 \<and> manual = n
      else if st = StateAuto then settled \<and> review = 0 \<and> n > 0 \<and> manual < n
      else if st = StateFailed then ph_ocr_status p = OCRFailed \<and> n = 0
      else if st = StateNoBIB then ph_ocr_status p = OCRProcessed \<and> n = 0
      else True)"

section \<open>Reading photos\<close>

record photo_filter =
  pf_album :: string
  pf_state :: string
  pf_bib :: string
  pf_uploader :: string
  pf_ids :: "string list"
  pf_public_only :: bool

definition no_filter :: photo_filter where
  "no_filter = \<lparr>pf_album = '''', pf_state = '''', pf_bib = '''', pf_uploader = '''', pf_ids = [], pf_public_only = False\<rparr>"

definition parse_bib_number :: "string \<Rightarrow> int option" where
  "parse_bib_number bib = parse_int (trim_space bib)"

definition bib_in_range :: "int option \<Rightarrow> bool" where
  "bib_in_range n = (case n of None \<Rightarrow> True | Some i \<Rightarrow> in_int32 i)"

definition has_bib :: "string \<Rightarrow> tag_row \<Rightarrow> bool" where
  "has_bib bib t \<longleftrightarrow> tg_bib t = bib \<or> (parse_bib_number bib \<noteq> None \<and> tg_number t = parse_bib_number bib)"

text \<open>The conditions of \<open>ListPhotos\<close>, on a joined row.\<close>

definition photo_listed :: "string \<Rightarrow> string \<Rightarrow> photo_filter \<Rightarrow> album \<times> photo_view \<Rightarrow> bool" where
  "photo_listed tid eid f av =
     (let a = fst av; v = snd av; p = pv_row v in
      ab_tenant_id a = tid \<and> ab_event_id a = eid \<and>
      (pf_album f = '''' \<or> ph_album_id p = pf_album f) \<and>
      (pf_uploader f = '''' \<or> ph_created_by p = pf_uploader f) \<and>
      (pf_bib f = '''' \<or> list_ex (has_bib (pf_bib f)) (pv_tags v)) \<and>
      (pf_ids f = [] \<or> ph_id p \<in> set (pf_ids f)) \<and>
      (pf_public_only f \<longrightarrow> ab_is_public a) \<and>
      state_condition (pf_state f) p (pv_tags v))"

definition photo_position :: "album \<times> photo_view \<Rightarrow> int \<times> string" where
  "photo_position av = (ph_created_at (pv_row (snd av)), ph_id (pv_row (snd av)))"

definition optional_uuid :: "string \<Rightarrow> (string \<Rightarrow> ('s, go_error, 'a) act) \<Rightarrow> ('s, go_error, 'a) act" where
  "optional_uuid x f = (if x = '''' then f '''' else with_uuid x f)"

definition list_photo_rows ::
  "string \<Rightarrow> string \<Rightarrow> photo_filter \<Rightarrow> page_params \<Rightarrow> (album \<times> photo_view) page studio_act" where
  "list_photo_rows tid eid f pg =
     with_uuid eid (\<lambda>e. optional_uuid (pf_album f) (\<lambda>aid. optional_uuid (pf_uploader f) (\<lambda>uid.
     with_uuids (pf_ids f) (\<lambda>ids.
     and_then (sql_check sql_fails
       (if pf_bib f = '''' \<or> bib_in_range (parse_bib_number (pf_bib f)) then None else Some OutOfRange)) (\<lambda>_.
     let limit = normalize_limit pg; g = f\<lparr>pf_album := aid, pf_uploader := uid, pf_ids := ids\<rparr> in
     and_then (reads (\<lambda>s. take (limit + 1)
         (newest photo_position (photo_listed tid e g) (pg_cursor pg) (joined_photos s tid)))) (\<lambda>out.
     ret (cut_page limit (\<lambda>av. cursor_of (photo_position av)) out)))))))"

definition get_photo_row :: "string \<Rightarrow> string \<Rightarrow> string \<Rightarrow> photo_view studio_act" where
  "get_photo_row tid eid pid =
     with_uuid eid (\<lambda>e. with_uuid pid (\<lambda>p.
     and_then (reads (\<lambda>s. select_one (\<lambda>av. ab_tenant_id (fst av) = tid \<and> ab_event_id (fst av) = e \<and>
         ph_id (pv_row (snd av)) = p) (joined_photos s tid))) (\<lambda>x.
     and_then (found x) (\<lambda>av. ret (snd av)))))"

definition get_photo_by_id_row :: "string \<Rightarrow> string \<Rightarrow> photo_view studio_act" where
  "get_photo_by_id_row tid pid =
     and_then (reads (\<lambda>s. select_one (\<lambda>av. ph_id (pv_row (snd av)) = pid) (joined_photos s tid))) (\<lambda>x.
     and_then (found x) (\<lambda>av. ret ((snd av)\<lparr>pv_tags := []\<rparr>)))"

section \<open>Changing photos\<close>

definition is_photo :: "string \<Rightarrow> string \<Rightarrow> photo \<Rightarrow> bool" where
  "is_photo tid pid p \<longleftrightarrow> ph_tenant_id p = tid \<and> ph_id p = pid"

definition update_photo :: "env \<Rightarrow> string \<Rightarrow> string \<Rightarrow> (photo \<Rightarrow> photo) \<Rightarrow> unit studio_act" where
  "update_photo en tid pid f =
     and_then (reads (\<lambda>s. length (select (is_photo tid pid) (st_photos s)))) (\<lambda>n.
     and_then (writes (\<lambda>s. s\<lparr>st_photos :=
       update_where (is_photo tid pid) (\<lambda>p. (f p)\<lparr>ph_updated_at := e_now en\<rparr>) (st_photos s)\<rparr>)) (\<lambda>_.
     check_rows n))"

definition update_photo_thumbnail :: "env \<Rightarrow> string \<Rightarrow> string \<Rightarrow> string \<Rightarrow> unit studio_act" where
  "update_photo_thumbnail en tid pid oid =
     and_then (reads (\<lambda>s. has_object s oid)) (\<lambda>ok.
     and_then (sql_check sql_fails (if ok then None else Some (ForeignKeyViolation ''photos_thumbnail_storage_id_fkey''))) (\<lambda>_.
     update_photo en tid pid (\<lambda>p. p\<lparr>ph_thumbnail_id := Some oid\<rparr>)))"

text \<open>The photos of a list that are in albums of the event.\<close>

definition chosen_photo :: "studio \<Rightarrow> string \<Rightarrow> string \<Rightarrow> string list \<Rightarrow> photo \<Rightarrow> bool" where
  "chosen_photo s tid eid ids p \<longleftrightarrow> ph_tenant_id p = tid \<and> ph_id p \<in> set ids \<and>
     (case album_of s tid p of None \<Rightarrow> False | Some a \<Rightarrow> ab_event_id a = eid)"

definition move_photos :: "env \<Rightarrow> string \<Rightarrow> string \<Rightarrow> string list \<Rightarrow> string \<Rightarrow> nat studio_act" where
  "move_photos en tid eid ids target =
     with_uuid eid (\<lambda>e. with_uuids ids (\<lambda>xs. with_uuid target (\<lambda>t.
     and_then (reads (\<lambda>s.
       let ps = update_where (chosen_photo s tid e xs) (\<lambda>p. p\<lparr>ph_album_id := t, ph_updated_at := e_now en\<rparr>) (st_photos s) in
       (length (select (chosen_photo s tid e xs) (st_photos s)), ps, unique_on photo_file_key ps))) (\<lambda>(n, ps, ok).
     and_then (sql_check sql_fails (if ok then None else Some (UniqueViolation ''photos_album_original_uk''))) (\<lambda>_.
     and_then (writes (\<lambda>s. s\<lparr>st_photos := ps\<rparr>)) (\<lambda>_. ret n))))))"

definition delete_photos :: "string \<Rightarrow> string \<Rightarrow> string list \<Rightarrow> nat studio_act" where
  "delete_photos tid eid ids =
     with_uuid eid (\<lambda>e. with_uuids ids (\<lambda>xs.
     and_then (reads (\<lambda>s. length (select (chosen_photo s tid e xs) (st_photos s)))) (\<lambda>n.
     and_then (writes (\<lambda>s. drop_photos (chosen_photo s tid e xs) s)) (\<lambda>_. ret n))))"

definition set_ocr_status :: "env \<Rightarrow> string \<Rightarrow> string \<Rightarrow> string \<Rightarrow> unit studio_act" where
  "set_ocr_status en tid pid st =
     guard (st \<in> {OCRPending, OCRProcessed, OCRFailed})
       (Other ''pq: new row for relation photos violates check constraint photos_ocr_status_ck'')
       (update_photo en tid pid (\<lambda>p. p\<lparr>ph_ocr_status := st\<rparr>))"

definition set_ocr_failed :: "env \<Rightarrow> string \<Rightarrow> string \<Rightarrow> string \<Rightarrow> unit studio_act" where
  "set_ocr_failed en tid pid msg =
     update_photo en tid pid (\<lambda>p. p\<lparr>ph_ocr_status := OCRFailed, ph_ocr_error := Some msg\<rparr>)"

section \<open>Tags\<close>

definition tag_pk :: "tag_row \<Rightarrow> string option" where
  "tag_pk t = Some (tg_id t)"

definition tag_bib_key :: "tag_row \<Rightarrow> (string \<times> string) option" where
  "tag_bib_key t = Some (tg_photo_id t, tg_bib t)"

text \<open>\<open>NUMERIC(5,4)\<close>: rounded to four digits, less than ten.\<close>

definition numeric_5_4 :: "rat \<Rightarrow> rat option" where
  "numeric_5_4 q =
     (let n = round_half_away (q * 10000) in if \<bar>n\<bar> < 100000 then Some (of_int n / 10000) else None)"

definition tag_violation :: "studio \<Rightarrow> tag_row list \<Rightarrow> tag_row \<Rightarrow> sql_error option" where
  "tag_violation s others t =
     (if \<not> bib_in_range (tg_number t) then Some OutOfRange
      else if taken tag_pk others t then Some (UniqueViolation ''photo_tags_pkey'')
      else if taken tag_bib_key others t then Some (UniqueViolation ''photo_tags_photo_bib_uk'')
      else if \<not> has_tenant s (tg_tenant_id t) then Some (ForeignKeyViolation ''photo_tags_tenant_id_fkey'')
      else if \<not> list_ex (\<lambda>p. ph_id p = tg_photo_id t) (st_photos s)
        then Some (ForeignKeyViolation ''photo_tags_photo_id_fkey'')
      else None)"

definition translate_tag_write :: "sql_error \<Rightarrow> go_error" where
  "translate_tag_write e =
     (case e of
        UniqueViolation c \<Rightarrow> FieldError (conflict ''tag_bib_exists'' ''bib'' ''This photo already has a tag with this BIB.'')
      | _ \<Rightarrow> sql_fails e)"

definition new_tag :: "env \<Rightarrow> nat \<Rightarrow> string \<Rightarrow> string \<Rightarrow> string \<Rightarrow> tag_row" where
  "new_tag en k tid pid bib =
     \<lparr>tg_id = e_uuid en k, tg_tenant_id = tid, tg_photo_id = pid, tg_bib = bib, tg_number = parse_bib_number bib,
      tg_source = TagSourceManual, tg_confidence = None, tg_box = None, tg_created_at = e_now en\<rparr>"

definition insert_tag_row :: "(sql_error \<Rightarrow> go_error) \<Rightarrow> tag_row \<Rightarrow> unit studio_act" where
  "insert_tag_row tr t =
     and_then (reads (\<lambda>s. tag_violation s (st_tags s) t)) (\<lambda>v.
     and_then (sql_check tr v) (\<lambda>_.
     writes (\<lambda>s. s\<lparr>st_tags := st_tags s @ [t]\<rparr>)))"

definition insert_tag :: "tag_row \<Rightarrow> unit studio_act" where
  "insert_tag = insert_tag_row translate_tag_write"

text \<open>What the columns of an OCR tag store.\<close>

definition ocr_columns :: "tag_row \<Rightarrow> tag_row option" where
  "ocr_columns t =
     (case (column numeric_5_4 (tg_confidence t),
            column (\<lambda>b. case (numeric_5_4 (bx_x b), numeric_5_4 (bx_y b), numeric_5_4 (bx_w b), numeric_5_4 (bx_h b)) of
                (Some x, Some y, Some w, Some h) \<Rightarrow> Some \<lparr>bx_x = x, bx_y = y, bx_w = w, bx_h = h\<rparr>
              | _ \<Rightarrow> None) (tg_box t)) of
        (Some c, Some b) \<Rightarrow> Some (t\<lparr>tg_confidence := c, tg_box := b\<rparr>)
      | _ \<Rightarrow> None)"

text \<open>\<open>InsertOCRTag\<close>: the error stays that of the database, which the caller looks at.\<close>

definition insert_ocr_tag :: "tag_row \<Rightarrow> (studio, sql_error, unit) act" where
  "insert_ocr_tag t =
     (case ocr_columns t of
        None \<Rightarrow> fail OutOfRange
      | Some t' \<Rightarrow>
          and_then (reads (\<lambda>s. tag_violation s (st_tags s) t')) (\<lambda>v.
          on_error v (writes (\<lambda>s. s\<lparr>st_tags := st_tags s @ [t']\<rparr>))))"

definition is_tag :: "string \<Rightarrow> string \<Rightarrow> string \<Rightarrow> tag_row \<Rightarrow> bool" where
  "is_tag tid pid gid t \<longleftrightarrow> tg_tenant_id t = tid \<and> tg_photo_id t = pid \<and> tg_id t = gid"

definition update_tag_bib :: "string \<Rightarrow> string \<Rightarrow> string \<Rightarrow> string \<Rightarrow> unit studio_act" where
  "update_tag_bib tid pid gid bib =
     with_uuid pid (\<lambda>p. with_uuid gid (\<lambda>g.
     let q = is_tag tid p g;
         f = (\<lambda>t. t\<lparr>tg_bib := bib, tg_number := parse_bib_number bib, tg_source := TagSourceManual,
                tg_confidence := None\<rparr>) in
     and_then (reads (\<lambda>s. (length (select q (st_tags s)), unique_on tag_bib_key (update_where q f (st_tags s))))) (\<lambda>(n, ok).
     and_then (sql_check translate_tag_write
       (if \<not> bib_in_range (parse_bib_number bib) then Some OutOfRange
        else if ok then None else Some (UniqueViolation ''photo_tags_photo_bib_uk''))) (\<lambda>_.
     and_then (writes (\<lambda>s. s\<lparr>st_tags := update_where q f (st_tags s)\<rparr>)) (\<lambda>_.
     check_rows n)))))"

definition delete_tag_row :: "string \<Rightarrow> string \<Rightarrow> string \<Rightarrow> unit studio_act" where
  "delete_tag_row tid pid gid =
     with_uuid pid (\<lambda>p. with_uuid gid (\<lambda>g.
     and_then (reads (\<lambda>s. length (select (is_tag tid p g) (st_tags s)))) (\<lambda>n.
     and_then (writes (\<lambda>s. s\<lparr>st_tags := delete_where (is_tag tid p g) (st_tags s)\<rparr>)) (\<lambda>_.
     check_rows n))))"

end
