(* ===== verification/Gallery_Service.thy ===== *)
theory Gallery_Service
  imports Gallery_Repo Assignment_Service
begin

text \<open>
  \<open>internal/gallery/service.go\<close>, \<open>photo_service.go\<close>, \<open>tag_service.go\<close> and the rules of \<open>handler.go\<close>: albums,
  uploads, photos, tags, and what a crew member sees. Metadata of audit entries lists the keys in the
  order of the code.
\<close>

record gallery_deps =
  gd_storage :: storage_deps
  gd_sha :: "string \<Rightarrow> string"
  gd_lower :: "string \<Rightarrow> string"
  gd_queue :: "bool option"

text \<open>The result of a call whose error the caller looks at.\<close>

definition attempt :: "('s, 'e, 'a) act \<Rightarrow> ('s, 'e2, 'e + 'a) act" where
  "attempt m s = (case m s of (r, s') \<Rightarrow> (Inr r, s'))"

definition album_audit ::
  "env \<Rightarrow> nat \<Rightarrow> string \<Rightarrow> string \<Rightarrow> string \<Rightarrow> (string \<times> meta) list \<Rightarrow> unit studio_act" where
  "album_audit en k tid actor action md = object_audit en k tid (Some actor) action md"

section \<open>Albums\<close>

definition max_album_name_len :: nat where "max_album_name_len = 100"
definition max_bib_len :: nat where "max_bib_len = 20"

definition validate_album_name :: "string \<Rightarrow> go_error + string" where
  "validate_album_name name =
     (let n = trim_space name in
      if n = '''' then Inl (FieldError (invalid ''name'' ''name is required.''))
      else if rune_count n > max_album_name_len then Inl (FieldError (invalid ''name'' ''name is too long.''))
      else Inr n)"

definition checked :: "go_error + 'b \<Rightarrow> ('b \<Rightarrow> ('s, go_error, 'a) act) \<Rightarrow> ('s, go_error, 'a) act" where
  "checked x f = (case x of Inl e \<Rightarrow> fail e | Inr b \<Rightarrow> f b)"

lemma checked_InrE [act_elims]:
  assumes "checked x f s = (Inr a, s')"
  obtains b where "x = Inr b" "f b s = (Inr a, s')"
  using assms by (cases x) (simp_all add: checked_def fail_def)

lemma keeps_checked [keeps_intros]: "(\<And>b. x = Inr b \<Longrightarrow> keeps I (f b)) \<Longrightarrow> keeps I (checked x f)"
  by (cases x) (simp_all add: checked_def keeps_fail)

definition new_album :: "env \<Rightarrow> string \<Rightarrow> string \<Rightarrow> string \<Rightarrow> string \<Rightarrow> string option \<Rightarrow> album" where
  "new_album en tid eid actor name desc =
     \<lparr>ab_id = e_uuid en 0, ab_tenant_id = tid, ab_event_id = eid, ab_name = name, ab_description = desc,
      ab_is_public = False, ab_created_by = actor, ab_created_at = e_now en, ab_updated_at = e_now en\<rparr>"

definition create_album ::
  "env \<Rightarrow> gallery_deps \<Rightarrow> string \<Rightarrow> string \<Rightarrow> string \<Rightarrow> member_role \<Rightarrow> string \<Rightarrow> string option \<Rightarrow> album studio_act" where
  "create_album en gd tid eid actor role name desc =
     on_error (require_role role RoleStaff)
     (checked (validate_album_name name) (\<lambda>n.
      let a = new_album en tid eid actor n desc in
      and_then (with_tenant_tx tid
        (and_then (create_album_row (gd_lower gd) a) (\<lambda>_.
         album_audit en 1 tid actor ''album.created''
           [(''album_id'', MetaText (ab_id a)), (''event_id'', MetaText eid), (''name'', MetaText n)]))) (\<lambda>_.
      ret a)))"

definition list_albums :: "string \<Rightarrow> string \<Rightarrow> album_view list studio_act" where
  "list_albums tid eid = with_tenant_tx tid (list_albums_rows tid eid)"

definition list_public_albums :: "string \<Rightarrow> string \<Rightarrow> album_view list studio_act" where
  "list_public_albums tid eid = with_tenant_tx tid (list_public_albums_rows tid eid)"

definition get_album :: "string \<Rightarrow> string \<Rightarrow> string \<Rightarrow> album_view studio_act" where
  "get_album tid eid aid =
     guard (is_uuid aid) (Sentinel ErrNotFound) (with_tenant_tx tid (get_album_row tid eid aid))"

record album_patch =
  ap_name :: "string option"
  ap_description :: "string option"
  ap_is_public :: "bool option"

definition patched_description :: "string option \<Rightarrow> string option \<Rightarrow> string option" where
  "patched_description patch old =
     (case patch of None \<Rightarrow> old | Some d \<Rightarrow> if trim_space d = '''' then None else Some (trim_space d))"

definition update_album ::
  "env \<Rightarrow> gallery_deps \<Rightarrow> string \<Rightarrow> string \<Rightarrow> string \<Rightarrow> string \<Rightarrow> member_role \<Rightarrow> album_patch \<Rightarrow> album_view studio_act" where
  "update_album en gd tid eid aid actor role p =
     on_error (require_role role RoleStaff)
     (guard (is_uuid aid) (Sentinel ErrNotFound)
     (with_tenant_tx tid
        (and_then (get_album_row tid eid aid) (\<lambda>v.
         checked (case ap_name p of None \<Rightarrow> Inr (ab_name (av_album v)) | Some n \<Rightarrow> validate_album_name n) (\<lambda>name.
         let old = av_album v;
             pub = (case ap_is_public p of None \<Rightarrow> ab_is_public old | Some b \<Rightarrow> b);
             a = old\<lparr>ab_name := name, ab_description := patched_description (ap_description p) (ab_description old),
                   ab_is_public := pub\<rparr> in
         and_then (update_album_row (gd_lower gd) en a) (\<lambda>_.
         and_then (album_audit en 0 tid actor ''album.updated''
           ([(''album_id'', MetaText (ab_id a)), (''event_id'', MetaText eid)] @
            (if ap_name p = None then [] else [(''name'', MetaText name)]) @
            (if pub = ab_is_public old then [] else [(''is_public'', MetaBool pub)]))) (\<lambda>_.
         ret (v\<lparr>av_album := a\<rparr>))))))))"

definition delete_album ::
  "env \<Rightarrow> string \<Rightarrow> string \<Rightarrow> string \<Rightarrow> string \<Rightarrow> member_role \<Rightarrow> unit studio_act" where
  "delete_album en tid eid aid actor role =
     on_error (require_role role RoleAdmin)
     (guard (is_uuid aid) (Sentinel ErrNotFound)
     (with_tenant_tx tid
        (and_then (get_album_row tid eid aid) (\<lambda>v.
         and_then (delete_album_row tid eid aid) (\<lambda>_.
         album_audit en 0 tid actor ''album.deleted''
           [(''album_id'', MetaText aid), (''event_id'', MetaText eid), (''name'', MetaText (ab_name (av_album v))),
            (''photos'', MetaInt (int (av_photo_count v)))])))))"

section \<open>Upload links\<close>

definition max_batch :: nat where "max_batch = 50"
definition max_input_bytes :: int where "max_input_bytes = 52428800"
definition max_stored_bytes :: int where "max_stored_bytes = 20971520"

definition accepted_type :: "string \<Rightarrow> string option" where
  "accepted_type e =
     map_of [(''.jpg'', ''image/jpeg''), (''.jpeg'', ''image/jpeg''), (''.png'', ''image/png''),
       (''.heic'', ''image/heic''), (''.heif'', ''image/heif'')] e"

definition photo_key :: "gallery_deps \<Rightarrow> string \<Rightarrow> string \<Rightarrow> int \<Rightarrow> string" where
  "photo_key gd aid name sz =
     ''photos/'' @ aid @ ''/'' @ hex_encode (take 12 (gd_sha gd (duplicate_key name sz))) @ lower_text (path_ext name)"

definition album_prefix :: "string \<Rightarrow> string" where
  "album_prefix aid = ''photos/'' @ aid @ ''/''"

record upload_entry =
  ue_filename :: string
  ue_size :: int

record upload_result =
  ur_storage_id :: string
  ur_ticket :: "ticket option"
  ur_skipped :: string

definition picked_name :: "string \<Rightarrow> string" where
  "picked_name x = path_base (map (\<lambda>c. if c = CHR 0x5C then CHR ''/'' else c) x)"

fun check_entries :: "upload_entry list \<Rightarrow> go_error + (string \<times> int) list" where
  "check_entries [] = Inr []"
| "check_entries (e # es) =
     (let name = picked_name (ue_filename e) in
      if accepted_type (lower_text (path_ext name)) = None
        then Inl (FieldError (invalid ''files'' (name @ '': format not supported.'')))
      else if ue_size e \<le> 0 \<or> ue_size e > max_input_bytes
        then Inl (FieldError (invalid ''files'' (name @ '': size must be between 1 byte and 50 MB.'')))
      else map_sum id (\<lambda>fs. (name, ue_size e) # fs) (check_entries es))"

text \<open>The loop that provisions: \<open>seen\<close> are the keys known to be taken. The \<open>i\<close>th file draws two
identifiers.\<close>

fun provision_files ::
  "env \<Rightarrow> gallery_deps \<Rightarrow> string \<Rightarrow> string \<Rightarrow> string \<Rightarrow> string list \<Rightarrow> (string \<times> int) list \<Rightarrow> upload_result list studio_act" where
  "provision_files en gd tid aid actor seen [] = ret []"
| "provision_files en gd tid aid actor seen ((name, sz) # fs) =
     (let key = duplicate_key name sz in
      if key \<in> set seen
      then and_then (provision_files en gd tid aid actor seen fs) (\<lambda>rs.
        ret (\<lparr>ur_storage_id = '''', ur_ticket = None, ur_skipped = ''duplicate''\<rparr> # rs))
      else and_then (provision_upload en (gd_storage gd) tid actor BucketPrivate (photo_key gd aid name sz)
          (the (accepted_type (lower_text (path_ext name))))) (\<lambda>t.
        and_then (provision_files (later 2 en) gd tid aid actor (key # seen) fs) (\<lambda>rs.
        ret (\<lparr>ur_storage_id = ut_object_id t, ur_ticket = Some (ut_ticket t), ur_skipped = ''''\<rparr> # rs))))"

definition request_upload_urls ::
  "env \<Rightarrow> gallery_deps \<Rightarrow> string \<Rightarrow> string \<Rightarrow> string \<Rightarrow> string \<Rightarrow> upload_entry list \<Rightarrow> upload_result list studio_act" where
  "request_upload_urls en gd tid eid aid actor entries =
     guard (entries \<noteq> []) (FieldError (invalid ''files'' ''files is required.''))
     (guard (length entries \<le> max_batch)
        (FieldError (invalid ''files'' (''at most '' @ itoa (int max_batch) @ '' files per request.'')))
     (checked (check_entries entries) (\<lambda>files.
      and_then (with_tenant_tx tid
        (and_then (get_album_row tid eid aid) (\<lambda>_. duplicate_keys tid aid files))) (\<lambda>existing.
      provision_files en gd tid aid actor existing files))))"

section \<open>Completing uploads\<close>

record complete_item =
  ci_storage_id :: string
  ci_filename :: string
  ci_size :: int
  ci_width :: int
  ci_height :: int

abbreviation CompleteCreated :: string where "CompleteCreated \<equiv> ''created''"
abbreviation CompleteExists :: string where "CompleteExists \<equiv> ''exists''"
abbreviation CompleteRejected :: string where "CompleteRejected \<equiv> ''rejected''"

record complete_result =
  cr_storage_id :: string
  cr_photo_id :: string
  cr_status :: string
  cr_reason :: string

text \<open>The switch on a confirmed object: the reason it is rejected for, if any.\<close>

definition rejection :: "string \<Rightarrow> complete_item \<Rightarrow> object_row \<Rightarrow> string option" where
  "rejection aid it o' =
     (if ob_bucket o' \<noteq> BucketPrivate \<or> \<not> has_prefix (ob_key o') (album_prefix aid)
        then Some ''not an upload of this album''
      else if ob_status o' \<noteq> ObjectStored then Some ''the file was not uploaded''
      else if ob_size o' > max_stored_bytes then Some ''the file exceeds 20 MB''
      else if trim_space (ci_filename it) = '''' \<or> ci_size it \<le> 0
        then Some ''original_filename and original_size are required''
      else None)"

definition confirm_item ::
  "env \<Rightarrow> gallery_deps \<Rightarrow> string \<Rightarrow> string \<Rightarrow> string \<Rightarrow> complete_item \<Rightarrow> (string + object_row) studio_act" where
  "confirm_item en gd tid aid actor it =
     and_then (attempt (with_uuid (ci_storage_id it) (confirm_stored en (gd_storage gd) tid actor))) (\<lambda>r.
     case r of
       Inl e \<Rightarrow> if errors_is e ErrNotFound then ret (Inl ''not an uploaded file of this workspace'') else fail e
     | Inr o' \<Rightarrow> ret (case rejection aid it o' of None \<Rightarrow> Inr o' | Some why \<Rightarrow> Inl why))"

fun confirm_items ::
  "env \<Rightarrow> gallery_deps \<Rightarrow> string \<Rightarrow> string \<Rightarrow> string \<Rightarrow> complete_item list \<Rightarrow>
     (complete_item \<times> (string + object_row)) list studio_act" where
  "confirm_items en gd tid aid actor [] = ret []"
| "confirm_items en gd tid aid actor (it # its) =
     and_then (confirm_item en gd tid aid actor it) (\<lambda>v.
     and_then (confirm_items (later 1 en) gd tid aid actor its) (\<lambda>vs. ret ((it, v) # vs)))"

definition new_photo :: "env \<Rightarrow> nat \<Rightarrow> string \<Rightarrow> string \<Rightarrow> string \<Rightarrow> complete_item \<Rightarrow> object_row \<Rightarrow> photo" where
  "new_photo en k tid aid actor it o' =
     \<lparr>ph_id = e_uuid en k, ph_tenant_id = tid, ph_album_id = aid, ph_original_id = ci_storage_id it,
      ph_thumbnail_id = None, ph_ocr_status = OCRPending, ph_ocr_error = None, ph_created_by = actor,
      ph_filename = path_base (ci_filename it), ph_original_size = ci_size it, ph_size = ob_size o',
      ph_width = ci_width it, ph_height = ci_height it, ph_created_at = e_now en, ph_updated_at = e_now en\<rparr>"

definition complete_item ::
  "env \<Rightarrow> nat \<Rightarrow> string \<Rightarrow> string \<Rightarrow> string \<Rightarrow> complete_item \<Rightarrow> object_row \<Rightarrow> complete_result studio_act" where
  "complete_item en k tid aid actor it o' =
     and_then (insert_photo (new_photo en k tid aid actor it o')) (\<lambda>inserted.
     if inserted
     then ret \<lparr>cr_storage_id = ci_storage_id it, cr_photo_id = e_uuid en k, cr_status = CompleteCreated, cr_reason = ''''\<rparr>
     else and_then (attempt (photo_id_by_storage tid (ci_storage_id it))) (\<lambda>r.
       ret \<lparr>cr_storage_id = ci_storage_id it, cr_photo_id = (case r of Inl e \<Rightarrow> '''' | Inr x \<Rightarrow> x),
            cr_status = CompleteExists, cr_reason = ''''\<rparr>))"

fun complete_items ::
  "env \<Rightarrow> nat \<Rightarrow> string \<Rightarrow> string \<Rightarrow> string \<Rightarrow> (complete_item \<times> (string + object_row)) list \<Rightarrow>
     complete_result list studio_act" where
  "complete_items en k tid aid actor [] = ret []"
| "complete_items en k tid aid actor ((it, v) # vs) =
     and_then (case v of
         Inl why \<Rightarrow> ret \<lparr>cr_storage_id = ci_storage_id it, cr_photo_id = '''', cr_status = CompleteRejected, cr_reason = why\<rparr>
       | Inr o' \<Rightarrow> complete_item en k tid aid actor it o') (\<lambda>r.
     and_then (complete_items en (Suc k) tid aid actor vs) (\<lambda>rs. ret (r # rs)))"

definition created_ids :: "complete_result list \<Rightarrow> string list" where
  "created_ids rs = map cr_photo_id (select (\<lambda>r. cr_status r = CompleteCreated) rs)"

abbreviation JobTypeMediaPhotoProcess :: string where "JobTypeMediaPhotoProcess \<equiv> ''media.photo_process''"
abbreviation JobTypeMediaFaceDetect :: string where "JobTypeMediaFaceDetect \<equiv> ''media.face_detect''"
abbreviation JobTypeMediaBibDetect :: string where "JobTypeMediaBibDetect \<equiv> ''media.bib_detect''"

definition photo_job :: "string \<Rightarrow> string \<Rightarrow> string list \<Rightarrow> details" where
  "photo_job eid aid ids =
     [(''event_id'', MetaText eid), (''album_id'', MetaText aid), (''photo_ids'', MetaTexts ids)]"

text \<open>Queuing the work of a batch; a job that cannot be queued is nobody's error.\<close>

definition queue_photo_jobs ::
  "env \<Rightarrow> bool \<Rightarrow> string \<Rightarrow> string \<Rightarrow> string \<Rightarrow> string \<Rightarrow> string list \<Rightarrow> string studio_act" where
  "queue_photo_jobs en up tid eid aid actor ids =
     and_then (attempt (in_queue (enqueue up en tid actor JobTypeMediaPhotoProcess (photo_job eid aid ids)))) (\<lambda>r.
     and_then (attempt (in_queue (enqueue up (later 1 en) tid actor JobTypeMediaFaceDetect (photo_job eid aid ids)))) (\<lambda>_.
     and_then (attempt (in_queue (enqueue up (later 2 en) tid actor JobTypeMediaBibDetect (photo_job eid aid ids)))) (\<lambda>_.
     ret (case r of Inl e \<Rightarrow> '''' | Inr x \<Rightarrow> x))))"

definition complete_uploads ::
  "env \<Rightarrow> gallery_deps \<Rightarrow> string \<Rightarrow> string \<Rightarrow> string \<Rightarrow> string \<Rightarrow> complete_item list \<Rightarrow>
     (complete_result list \<times> string) studio_act" where
  "complete_uploads en gd tid eid aid actor items =
     guard (items \<noteq> []) (FieldError (invalid ''items'' ''items is required.''))
     (guard (length items \<le> max_batch)
        (FieldError (invalid ''items'' (''at most '' @ itoa (int max_batch) @ '' items per request.'')))
     (guard (is_uuid aid) (Sentinel ErrNotFound)
     (guard (list_all (\<lambda>it. is_uuid (ci_storage_id it)) items)
        (FieldError (invalid ''items'' ''storage_id is not valid.''))
     (and_then (with_tenant_tx tid (get_album_row tid eid aid)) (\<lambda>_.
      and_then (confirm_items en gd tid aid actor items) (\<lambda>vs.
      let n = length items in
      and_then (with_tenant_tx tid
        (and_then (complete_items en n tid aid actor vs) (\<lambda>rs.
         if created_ids rs = [] then ret rs
         else and_then (album_audit en (2 * n) tid actor ''photo.uploaded''
             [(''album_id'', MetaText aid), (''event_id'', MetaText eid),
              (''photos'', MetaInt (int (length (created_ids rs))))]) (\<lambda>_. ret rs)))) (\<lambda>rs.
      and_then (case gd_queue gd of
          Some up \<Rightarrow> if created_ids rs = [] then ret ''''
            else queue_photo_jobs (later (2 * n + 1) en) up tid eid aid actor (created_ids rs)
        | None \<Rightarrow> ret '''') (\<lambda>job.
      ret (rs, job)))))))))"

section \<open>Photos\<close>

definition list_photos ::
  "string \<Rightarrow> string \<Rightarrow> photo_filter \<Rightarrow> page_params \<Rightarrow> (album \<times> photo_view) page studio_act" where
  "list_photos tid eid f pg =
     guard (pf_state f = '''' \<or> state_valid (pf_state f)) (FieldError (invalid ''state'' ''state is not valid.''))
     (guard (pf_album f = '''' \<or> is_uuid (pf_album f)) (FieldError (invalid ''album_id'' ''album_id is not valid.''))
     (with_tenant_tx tid (list_photo_rows tid eid f pg)))"

definition get_photo_by_id :: "string \<Rightarrow> string \<Rightarrow> photo_view studio_act" where
  "get_photo_by_id tid pid = with_tenant_tx tid (get_photo_by_id_row tid pid)"

definition validate_photo_ids :: "string list \<Rightarrow> go_error option" where
  "validate_photo_ids ids =
     (if ids = [] then Some (FieldError (invalid ''ids'' ''ids is required.''))
      else if length ids > max_batch
        then Some (FieldError (invalid ''ids'' (''at most '' @ itoa (int max_batch) @ '' photos per request.'')))
      else if \<not> list_all is_uuid ids then Some (FieldError (invalid ''ids'' ''ids must be valid.''))
      else None)"

definition bulk_move_photos ::
  "env \<Rightarrow> string \<Rightarrow> string \<Rightarrow> string \<Rightarrow> string list \<Rightarrow> string \<Rightarrow> nat studio_act" where
  "bulk_move_photos en tid eid actor ids target =
     on_error (validate_photo_ids ids)
     (guard (is_uuid target) (Sentinel ErrNotFound)
     (with_tenant_tx tid
        (and_then (get_album_row tid eid target) (\<lambda>_.
         and_then (move_photos en tid eid ids target) (\<lambda>moved.
         if moved = 0 then ret moved
         else and_then (album_audit en 0 tid actor ''photo.moved''
             [(''event_id'', MetaText eid), (''album_id'', MetaText target), (''photos'', MetaInt (int moved))]) (\<lambda>_.
           ret moved))))))"

definition bulk_delete_photos ::
  "env \<Rightarrow> string \<Rightarrow> string \<Rightarrow> string \<Rightarrow> string list \<Rightarrow> nat studio_act" where
  "bulk_delete_photos en tid eid actor ids =
     on_error (validate_photo_ids ids)
     (with_tenant_tx tid
        (and_then (delete_photos tid eid ids) (\<lambda>deleted.
         if deleted = 0 then ret deleted
         else and_then (album_audit en 0 tid actor ''photo.deleted''
             [(''event_id'', MetaText eid), (''photos'', MetaInt (int deleted))]) (\<lambda>_. ret deleted))))"

text \<open>\<open>PreviewURL\<close> and \<open>PhotoURLs\<close>: no link where the storage gives none.\<close>

definition object_url :: "env \<Rightarrow> storage_deps \<Rightarrow> string \<Rightarrow> object_row \<Rightarrow> store_error + ticket option" where
  "object_url en sd tid o' = get_url (sd_store sd) (e_now en) (ob_bucket o') tid (ob_key o') (sd_download_ttl sd)"

definition preview_url :: "env \<Rightarrow> storage_deps \<Rightarrow> photo_view \<Rightarrow> store_error + ticket option" where
  "preview_url en sd v =
     (case pv_thumb v of None \<Rightarrow> Inr None | Some t \<Rightarrow> object_url en sd (ph_tenant_id (pv_row v)) t)"

definition photo_urls :: "env \<Rightarrow> storage_deps \<Rightarrow> photo_view \<Rightarrow> store_error + (ticket option \<times> ticket option)" where
  "photo_urls en sd v =
     (case object_url en sd (ph_tenant_id (pv_row v)) (pv_original v) of
        Inl e \<Rightarrow> Inl e
      | Inr original \<Rightarrow>
          (case pv_thumb v of
             None \<Rightarrow> Inr (original, original)
           | Some t \<Rightarrow> map_sum id (\<lambda>thumb. (thumb, original)) (object_url en sd (ph_tenant_id (pv_row v)) t)))"

section \<open>Tags\<close>

definition validate_bib :: "string \<Rightarrow> go_error + string" where
  "validate_bib bib =
     (let b = trim_space bib in
      if b = '''' then Inl (FieldError (invalid ''bib'' ''bib is required.''))
      else if rune_count b > max_bib_len then Inl (FieldError (invalid ''bib'' ''bib is too long.''))
      else Inr b)"

definition settle_pending :: "env \<Rightarrow> string \<Rightarrow> photo_view \<Rightarrow> unit studio_act" where
  "settle_pending en tid v =
     (if ph_ocr_status (pv_row v) \<noteq> OCRPending then ret ()
      else set_ocr_status en tid (ph_id (pv_row v)) OCRProcessed)"

definition add_tag ::
  "env \<Rightarrow> string \<Rightarrow> string \<Rightarrow> string \<Rightarrow> string \<Rightarrow> string \<Rightarrow> photo_view studio_act" where
  "add_tag en tid eid pid actor raw =
     guard (is_uuid pid) (Sentinel ErrNotFound)
     (checked (validate_bib raw) (\<lambda>bib.
      with_tenant_tx tid
        (and_then (get_photo_row tid eid pid) (\<lambda>v.
         and_then (with_uuid pid (\<lambda>p. insert_tag (new_tag en 0 tid p bib))) (\<lambda>_.
         and_then (settle_pending en tid v) (\<lambda>_.
         and_then (album_audit en 1 tid actor ''photo_tag.added''
           [(''photo_id'', MetaText pid), (''event_id'', MetaText eid), (''bib'', MetaText bib)]) (\<lambda>_.
         get_photo_row tid eid pid)))))))"

definition update_tag ::
  "env \<Rightarrow> string \<Rightarrow> string \<Rightarrow> string \<Rightarrow> string \<Rightarrow> string \<Rightarrow> string \<Rightarrow> photo_view studio_act" where
  "update_tag en tid eid pid gid actor raw =
     guard (is_uuid pid \<and> is_uuid gid) (Sentinel ErrNotFound)
     (checked (validate_bib raw) (\<lambda>bib.
      with_tenant_tx tid
        (and_then (get_photo_row tid eid pid) (\<lambda>v.
         and_then (update_tag_bib tid pid gid bib) (\<lambda>_.
         and_then (settle_pending en tid v) (\<lambda>_.
         and_then (album_audit en 0 tid actor ''photo_tag.corrected''
           [(''photo_id'', MetaText pid), (''tag_id'', MetaText gid), (''event_id'', MetaText eid),
            (''bib'', MetaText bib)]) (\<lambda>_.
         get_photo_row tid eid pid)))))))"

definition delete_tag ::
  "env \<Rightarrow> string \<Rightarrow> string \<Rightarrow> string \<Rightarrow> string \<Rightarrow> string \<Rightarrow> photo_view studio_act" where
  "delete_tag en tid eid pid gid actor =
     guard (is_uuid pid \<and> is_uuid gid) (Sentinel ErrNotFound)
     (with_tenant_tx tid
        (and_then (get_photo_row tid eid pid) (\<lambda>_.
         and_then (delete_tag_row tid pid gid) (\<lambda>_.
         and_then (album_audit en 0 tid actor ''photo_tag.removed''
           [(''photo_id'', MetaText pid), (''tag_id'', MetaText gid), (''event_id'', MetaText eid)]) (\<lambda>_.
         get_photo_row tid eid pid)))))"

section \<open>Who sees what\<close>

abbreviation CapabilityUpload :: string where "CapabilityUpload \<equiv> ''gallery:upload''"
abbreviation CapabilityReview :: string where "CapabilityReview \<equiv> ''gallery:review''"

text \<open>\<open>hasCapability\<close>, on what the gate of the event let through.\<close>

fun access_has :: "access \<Rightarrow> string \<Rightarrow> bool" where
  "access_has (StaffAccess tid role) cap = is_at_least role RoleStaff"
| "access_has (CrewAccess tid caps) cap = (cap \<in> set caps)"

fun access_tenant :: "access \<Rightarrow> string" where
  "access_tenant (StaffAccess tid role) = tid"
| "access_tenant (CrewAccess tid caps) = tid"

definition require_any_gallery_capability :: "access \<Rightarrow> http_error option" where
  "require_any_gallery_capability acc =
     (if \<not> access_has acc CapabilityUpload \<and> \<not> access_has acc CapabilityReview
      then Some (reply 403 ''forbidden'' ''You do not have permission to perform this action.'') else None)"

text \<open>The handler of \<open>GET /events/{id}/photos\<close>: the query and what the caller may see of it.\<close>

definition own_uploads_only :: "access \<Rightarrow> string \<Rightarrow> bool \<Rightarrow> photo_filter \<Rightarrow> photo_filter" where
  "own_uploads_only acc uid mine f =
     (if mine \<or> \<not> access_has acc CapabilityReview then f\<lparr>pf_uploader := uid\<rparr> else f)"

definition serve_photos ::
  "access \<Rightarrow> string \<Rightarrow> string \<Rightarrow> bool \<Rightarrow> photo_filter \<Rightarrow> page_params \<Rightarrow> (album \<times> photo_view) page studio_act" where
  "serve_photos acc uid eid mine f pg =
     guard (pf_uploader f = '''' \<or> is_uuid (pf_uploader f))
       (FieldError (invalid ''uploader_id'' ''uploader_id is not valid.''))
     (list_photos (access_tenant acc) eid (own_uploads_only acc uid mine f) pg)"

end
