(* ===== verification/Photo_Jobs.thy ===== *)
theory Photo_Jobs
  imports Gallery_Service
begin

text \<open>
  The background work on uploaded photos: \<open>RunPhotoProcess\<close> of \<open>internal/gallery/thumbnail_job.go\<close> and
  \<open>RunBibDetect\<close> of \<open>internal/bibdetect\<close>. The drawing of a thumbnail (decoding, scaling, the event's
  watermarks, encoding) and the service that reads BIBs are arguments.
\<close>

section \<open>Thumbnails\<close>

definition thumbnail_max_edge :: int where "thumbnail_max_edge = 640"

text \<open>The size \<open>resizeToMaxEdge\<close> draws, or none where the picture stays as it is. Edges are below \<open>2\<^sup>31\<close>, so
that the quotient of the two doubles, rounded to 53 bits, has the integer part of the exact one.\<close>

definition resized :: "int \<Rightarrow> int \<Rightarrow> int \<Rightarrow> (int \<times> int) option" where
  "resized edge w h =
     (if w \<le> edge \<and> h \<le> edge then None
      else if w \<ge> h then Some (max 1 edge, max 1 (h * edge div w))
      else Some (max 1 (w * edge div h), max 1 edge))"

definition heic_extension :: "string \<Rightarrow> bool" where
  "heic_extension e \<longleftrightarrow> e \<in> {''.heic'', ''.heif''}"

definition thumbnail_key :: "string \<Rightarrow> string" where
  "thumbnail_key pid = ''thumb/'' @ pid @ ''.jpg''"

text \<open>A photo of a batch: made, skipped, failed, or the process dies of a nil pointer.\<close>

datatype thumb_outcome = ThumbMade | ThumbSkipped | ThumbFailed go_error | ThumbPanic

definition wrapped :: "string \<Rightarrow> go_error \<Rightarrow> go_error" where
  "wrapped what e = Other (what @ '': '' @ error_text e)"

text \<open>What happens once the picture is drawn: the error of the upload is overwritten, the object behind
it is not.\<close>

definition keep_thumbnail ::
  "env \<Rightarrow> storage_deps \<Rightarrow> string \<Rightarrow> string \<Rightarrow> photo_view \<Rightarrow> string \<Rightarrow> thumb_outcome studio_act" where
  "keep_thumbnail en sd tid actor v data =
     and_then (attempt (store_generated en sd tid actor BucketPublic (thumbnail_key (ph_id (pv_row v))) ''image/jpeg'' data)) (\<lambda>r.
     case r of
       Inl e \<Rightarrow> ret ThumbPanic
     | Inr o' \<Rightarrow>
         and_then (attempt (with_tenant_tx tid (update_photo_thumbnail en tid (ph_id (pv_row v)) (ob_id o')))) (\<lambda>u.
         ret (case u of Inl e \<Rightarrow> ThumbFailed (wrapped ''record thumbnail'' e) | Inr _ \<Rightarrow> ThumbMade)))"

definition make_thumbnail ::
  "env \<Rightarrow> storage_deps \<Rightarrow> (string \<Rightarrow> go_error + string) \<Rightarrow> string \<Rightarrow> string \<Rightarrow> string \<Rightarrow> thumb_outcome studio_act" where
  "make_thumbnail en sd draw tid actor pid =
     and_then (attempt (get_photo_by_id tid pid)) (\<lambda>p.
     case p of
       Inl e \<Rightarrow> ret (ThumbFailed e)
     | Inr v \<Rightarrow>
         if has_thumbnail v \<or> heic_extension (lower_text (path_ext (ph_filename (pv_row v)))) then ret ThumbSkipped
         else and_then (attempt (read_object sd tid (ph_original_id (pv_row v)))) (\<lambda>r.
           case r of
             Inl e \<Rightarrow> ret (ThumbFailed (wrapped ''read original'' e))
           | Inr data \<Rightarrow>
               (case draw data of
                  Inl e \<Rightarrow> ret (ThumbFailed e)
                | Inr jpeg \<Rightarrow> keep_thumbnail en sd tid actor v jpeg)))"

definition payload_ids :: "job \<Rightarrow> string list" where
  "payload_ids j = (case map_of (jb_payload j) ''photo_ids'' of Some (MetaTexts ids) \<Rightarrow> ids | _ \<Rightarrow> [])"

definition payload_text :: "job \<Rightarrow> string \<Rightarrow> string" where
  "payload_text j k = (case map_of (jb_payload j) k of Some (MetaText x) \<Rightarrow> x | _ \<Rightarrow> '''')"

text \<open>A progress report: its error is dropped.\<close>

definition report_progress :: "env \<Rightarrow> job \<Rightarrow> nat \<Rightarrow> nat \<Rightarrow> (studio, 'e, unit) act" where
  "report_progress en j i cnt =
     and_then (attempt (in_queue (update_progress en j (int i) (int cnt)))) (\<lambda>_. ret ())"

text \<open>The loop: the outcomes so far, none when the process died.\<close>

fun thumbnail_loop ::
  "env \<Rightarrow> storage_deps \<Rightarrow> (string \<Rightarrow> go_error + string) \<Rightarrow> job \<Rightarrow> nat \<Rightarrow> nat \<Rightarrow> string list \<Rightarrow>
     (string \<times> thumb_outcome) list option studio_act" where
  "thumbnail_loop en sd draw j i cnt [] = ret (Some [])"
| "thumbnail_loop en sd draw j i cnt (pid # pids) =
     and_then (make_thumbnail en sd draw (jb_tenant_id j) (jb_created_by j) pid) (\<lambda>t.
     if t = ThumbPanic then ret None
     else and_then (report_progress en j (Suc i) cnt) (\<lambda>_.
       and_then (thumbnail_loop (later 1 en) sd draw j (Suc i) cnt pids) (\<lambda>rest.
       ret (map_option (\<lambda>ts. (pid, t) # ts) rest))))"

definition failed_thumb :: "thumb_outcome \<Rightarrow> go_error option" where
  "failed_thumb t = (case t of ThumbFailed e \<Rightarrow> Some e | _ \<Rightarrow> None)"

definition failure_lines :: "(string \<times> thumb_outcome) list \<Rightarrow> string list" where
  "failure_lines ts =
     List.map_filter (\<lambda>(pid, t). map_option (\<lambda>e. pid @ '': '' @ error_text e) (failed_thumb t)) ts"

definition thumbnail_report :: "(string \<times> thumb_outcome) list \<Rightarrow> details option \<times> string" where
  "thumbnail_report ts =
     (let cnt = length ts; lines = failure_lines ts; failed = length lines in
      (Some [(''count'', MetaInt (int cnt)), (''made'', MetaInt (int (cnt - failed))), (''failed'', MetaInt (int failed))],
       if failed = 0 then ''''
       else itoa (int failed) @ '' of '' @ itoa (int cnt) @ '' photos could not be thumbnailed: '' @ join ''; '' lines))"

definition empty_payload :: "string \<Rightarrow> go_error" where
  "empty_payload pkg = Wrapped ErrInvalidState (pkg @ '': '' @ sentinel_text ErrInvalidState @ '': photo_ids is empty'')"

text \<open>\<open>assets\<close> loads the watermarks of the event and gives the drawing with them.\<close>

definition run_photo_process ::
  "env \<Rightarrow> storage_deps \<Rightarrow> (studio \<Rightarrow> string \<Rightarrow> string \<Rightarrow> go_error + (string \<Rightarrow> go_error + string)) \<Rightarrow> job \<Rightarrow>
     outcome option studio_act" where
  "run_photo_process en sd assets j =
     (let ids = payload_ids j; cnt = length ids in
      if ids = [] then ret (Some (Inl (empty_payload ''gallery'')))
      else and_then (report_progress en j 0 cnt) (\<lambda>_.
        and_then (reads (\<lambda>s. assets s (jb_tenant_id j) (payload_text j ''event_id''))) (\<lambda>w.
        case w of
          Inl e \<Rightarrow> ret (Some (Inl (wrapped ''gallery: load watermarks'' e)))
        | Inr draw \<Rightarrow>
            and_then (thumbnail_loop en sd draw j 0 cnt ids) (\<lambda>ts.
            ret (map_option (\<lambda>xs. Inr (thumbnail_report xs)) ts)))))"

section \<open>BIB detection\<close>

type_synonym reading = "string \<times> rat"

text \<open>The first run of digits, as \<open>Atoi\<close> reads it.\<close>

definition digits_of :: "string \<Rightarrow> int option" where
  "digits_of x =
     (let ds = takeWhile is_digit (dropWhile (\<lambda>c. \<not> is_digit c) x) in
      if ds = '''' then None else parse_int ds)"

definition ocr_tag :: "env \<Rightarrow> string \<Rightarrow> string \<Rightarrow> reading \<Rightarrow> tag_row" where
  "ocr_tag en tid pid d =
     \<lparr>tg_id = e_uuid en 0, tg_tenant_id = tid, tg_photo_id = pid, tg_bib = fst d, tg_number = digits_of (fst d),
      tg_source = TagSourceOCR, tg_confidence = Some (snd d), tg_box = None, tg_created_at = e_now en\<rparr>"

text \<open>The loop over the readings of a photo, in one transaction: the error it ends with, the count of
tags inserted, and whether Postgres has given the transaction up. After an error of the database every
further statement of the transaction fails.\<close>

fun insert_readings ::
  "env \<Rightarrow> string \<Rightarrow> string \<Rightarrow> bool \<Rightarrow> nat \<Rightarrow> reading list \<Rightarrow> studio \<Rightarrow> (go_error option \<times> nat \<times> bool) \<times> studio" where
  "insert_readings en tid pid aborted n [] s = ((None, n, aborted), s)"
| "insert_readings en tid pid aborted n (d # ds) s =
     (if aborted
      then ((Some (Other ''insert OCR tag: pq: current transaction is aborted''), n, True), s)
      else case insert_ocr_tag (ocr_tag en tid pid d) s of
        (Inr _, s') \<Rightarrow> insert_readings (later 1 en) tid pid False (Suc n) ds s'
      | (Inl (UniqueViolation c), s') \<Rightarrow> insert_readings (later 1 en) tid pid True n ds s'
      | (Inl e, s') \<Rightarrow> ((Some (wrapped ''insert OCR tag'' (sql_fails e)), n, True), s'))"

text \<open>\<open>WithTenantTx\<close> around the loop: an error rolls back, and so does the commit of a transaction that
was given up. The count survives either.\<close>

definition store_readings ::
  "env \<Rightarrow> string \<Rightarrow> string \<Rightarrow> reading list \<Rightarrow> studio \<Rightarrow> (nat \<times> go_error option) \<times> studio" where
  "store_readings en tid pid ds s =
     (case insert_readings en tid pid False 0 ds s of
        ((Some e, n, b), s') \<Rightarrow> ((n, Some e), s)
      | ((None, n, True), s') \<Rightarrow>
          ((n, Some (Other ''database: commit: pq: Could not complete operation in a failed transaction'')), s)
      | ((None, n, False), s') \<Rightarrow> ((n, None), s'))"

text \<open>\<open>detectBib\<close>: the photo, a link to its original, and what the service reads there.\<close>

definition detect_bib ::
  "env \<Rightarrow> storage_deps \<Rightarrow> (ticket option \<Rightarrow> go_error + reading list) \<Rightarrow> string \<Rightarrow> string \<Rightarrow>
     (nat \<times> go_error option) studio_act" where
  "detect_bib en sd ocr tid pid =
     and_then (attempt (get_photo_by_id tid pid)) (\<lambda>p.
     case p of
       Inl e \<Rightarrow> ret (0, Some e)
     | Inr v \<Rightarrow>
         and_then (attempt (request_download en sd tid (ob_key (pv_original v)) (ob_bucket (pv_original v)))) (\<lambda>t.
         case t of
           Inl e \<Rightarrow> ret (0, Some (wrapped ''sign original url'' e))
         | Inr link \<Rightarrow>
             (case ocr link of
                Inl e \<Rightarrow> ret (0, Some (wrapped ''detect/single'' e))
              | Inr ds \<Rightarrow> (\<lambda>s. case store_readings en tid pid ds s of (r, s') \<Rightarrow> (Inr r, s')))))"

definition detect_one ::
  "env \<Rightarrow> storage_deps \<Rightarrow> (ticket option \<Rightarrow> go_error + reading list) \<Rightarrow> string \<Rightarrow> string \<Rightarrow> string option studio_act" where
  "detect_one en sd ocr tid pid =
     and_then (detect_bib en sd ocr tid pid) (\<lambda>(n, err).
     and_then (attempt (if n > 0 then set_ocr_status en tid pid OCRProcessed
         else set_ocr_failed en tid pid ''no bib detected'')) (\<lambda>_.
     ret (map_option (\<lambda>e. pid @ '': '' @ error_text e) err)))"

text \<open>The identifiers of the \<open>i\<close>th of \<open>n\<close> photos.\<close>

definition strand :: "nat \<Rightarrow> nat \<Rightarrow> env \<Rightarrow> env" where
  "strand i n en = en\<lparr>e_uuid := \<lambda>m. e_uuid en (m * n + i)\<rparr>"

fun detect_loop ::
  "env \<Rightarrow> storage_deps \<Rightarrow> (ticket option \<Rightarrow> go_error + reading list) \<Rightarrow> job \<Rightarrow> nat \<Rightarrow> nat \<Rightarrow> string list \<Rightarrow>
     string list studio_act" where
  "detect_loop en sd ocr j i cnt [] = ret []"
| "detect_loop en sd ocr j i cnt (pid # pids) =
     and_then (detect_one (strand i cnt en) sd ocr (jb_tenant_id j) pid) (\<lambda>x.
     and_then (report_progress en j (Suc i) cnt) (\<lambda>_.
     and_then (detect_loop en sd ocr j (Suc i) cnt pids) (\<lambda>xs.
     ret (case x of None \<Rightarrow> xs | Some l \<Rightarrow> l # xs))))"

text \<open>The transaction around the loop never rolls back: its body returns no error, and the identifiers in a
payload are those of photo rows, so no statement of the loop is one that Postgres refuses to read.\<close>

definition run_bib_detect ::
  "env \<Rightarrow> storage_deps \<Rightarrow> (ticket option \<Rightarrow> go_error + reading list) \<Rightarrow> job \<Rightarrow> outcome studio_act" where
  "run_bib_detect en sd ocr j =
     (let ids = payload_ids j; cnt = length ids in
      if ids = [] then ret (Inl (empty_payload ''bibdetect''))
      else and_then (attempt (with_tenant_tx (jb_tenant_id j)
          (and_then (report_progress en j 0 cnt) (\<lambda>_. detect_loop en sd ocr j 0 cnt ids)))) (\<lambda>r.
        ret (case r of
          Inl e \<Rightarrow> Inl e
        | Inr lines \<Rightarrow> Inr (Some [(''count'', MetaInt (int cnt))],
            if lines = [] then ''''
            else itoa (int (length lines)) @ '' of '' @ itoa (int cnt) @ '' photos could not be BIB-detected: '' @
              join ''; '' lines))))"

end
