(* ===== verification/Gallery_Props.thy ===== *)
theory Gallery_Props
  imports Photo_Jobs
begin

text \<open>
  What the gallery keeps through any history of its calls and of the jobs it queues: the unique indexes,
  photos in albums of their own workspace, tags on photos of their own workspace, and statuses.
\<close>

section \<open>The invariant\<close>

definition photo_in_album :: "album list \<Rightarrow> photo \<Rightarrow> bool" where
  "photo_in_album as p \<longleftrightarrow> list_ex (\<lambda>a. ab_id a = ph_album_id p \<and> ab_tenant_id a = ph_tenant_id p) as"

definition tag_on_photo :: "photo list \<Rightarrow> tag_row \<Rightarrow> bool" where
  "tag_on_photo ps t \<longleftrightarrow> list_ex (\<lambda>p. ph_id p = tg_photo_id t \<and> ph_tenant_id p = tg_tenant_id t) ps"

definition status_ok :: "photo \<Rightarrow> bool" where
  "status_ok p \<longleftrightarrow> ph_ocr_status p \<in> {OCRPending, OCRProcessed, OCRFailed}"

definition albums_ok :: "(string \<Rightarrow> string) \<Rightarrow> album list \<Rightarrow> bool" where
  "albums_ok lower as \<longleftrightarrow> unique_on album_pk as \<and> unique_on (album_name_key lower) as"

definition photos_ok :: "album list \<Rightarrow> photo list \<Rightarrow> bool" where
  "photos_ok as ps \<longleftrightarrow> unique_on photo_pk ps \<and> unique_on photo_original_key ps \<and> unique_on photo_file_key ps \<and>
     list_all (\<lambda>p. photo_in_album as p \<and> status_ok p) ps"

definition tags_ok :: "photo list \<Rightarrow> tag_row list \<Rightarrow> bool" where
  "tags_ok ps ts \<longleftrightarrow> unique_on tag_pk ts \<and> unique_on tag_bib_key ts \<and> list_all (tag_on_photo ps) ts"

definition gallery_ok :: "(string \<Rightarrow> string) \<Rightarrow> studio \<Rightarrow> bool" where
  "gallery_ok lower s \<longleftrightarrow> albums_ok lower (st_albums s) \<and> photos_ok (st_albums s) (st_photos s) \<and>
     tags_ok (st_photos s) (st_tags s)"

section \<open>Calls that leave the gallery's tables alone\<close>

definition shelf :: "studio \<Rightarrow> album list \<times> photo list \<times> tag_row list" where
  "shelf s = (st_albums s, st_photos s, st_tags s)"

text \<open>Such a call changes nothing an invariant of these tables speaks of.\<close>

definition off_shelf :: "(studio, 'e, 'a) act \<Rightarrow> bool" where
  "off_shelf m \<longleftrightarrow> (\<forall>s. shelf (snd (m s)) = shelf s)"

lemma off_shelfI: "(\<And>x. keeps (\<lambda>s. shelf s = x) m) \<Longrightarrow> off_shelf m"
  unfolding off_shelf_def keeps_def by blast

lemma keeps_off_shelf: "off_shelf m \<Longrightarrow> (\<And>s s'. shelf s = shelf s' \<Longrightarrow> I s \<Longrightarrow> I s') \<Longrightarrow> keeps I m"
  unfolding off_shelf_def keeps_def by metis

lemma keeps_attempt [keeps_intros]: "keeps I m \<Longrightarrow> keeps I (attempt m)"
  unfolding keeps_def attempt_def by (auto split: prod.splits)

lemma keeps_shelf_in_db [keeps_intros]: "keeps (\<lambda>s. shelf s = x) (in_db m)"
  by (rule keepsI) (auto simp: in_db_def shelf_def split: prod.splits)

lemma keeps_shelf_in_vault [keeps_intros]: "keeps (\<lambda>s. shelf s = x) (in_vault m)"
  by (rule keepsI) (auto simp: in_vault_def shelf_def split: prod.splits)

lemma keeps_shelf_in_queue [keeps_intros]: "keeps (\<lambda>s. shelf s = x) (in_queue m)"
  by (rule keepsI) (auto simp: in_queue_def shelf_def split: prod.splits)

lemma keeps_map_error' [keeps_intros]: "keeps I m \<Longrightarrow> keeps I (map_error f m)"
  unfolding keeps_def map_error_def by (auto split: prod.splits sum.splits)

lemma keeps_shelf_vault_call [keeps_intros]: "keeps (\<lambda>s. shelf s = x) (vault_call m)"
  unfolding vault_call_def by (intro keeps_intros)

lemma keeps_object_audit [keeps_intros]: "keeps (\<lambda>s. shelf s = x) (object_audit en k tid actor a md)"
  unfolding object_audit_def by (intro keeps_intros)

lemma keeps_of_store [keeps_intros]: "keeps I (of_store x)"
  by (cases x) (simp_all add: of_store_def keeps_intros)

lemma keeps_shelf_objects: "keeps (\<lambda>s. shelf s = x) (writes (\<lambda>s. s\<lparr>dp_objects := f s\<rparr>))"
  by (rule keeps_writes) (simp add: shelf_def)

lemma keeps_shelf_statements [keeps_intros]:
  "keeps (\<lambda>s. shelf s = x) (insert_object o')"
  "keeps (\<lambda>s. shelf s = x) (upsert_object en oid tid bucket key ctype actor provider)"
  "keeps (\<lambda>s. shelf s = x) (mark_stored en tid bucket key sha sz)"
  "keeps (\<lambda>s. shelf s = x) (get_object_by_id tid oid)"
  "keeps (\<lambda>s. shelf s = x) (get_object_by_key tid bucket key)"
  unfolding insert_object_def upsert_object_def upsert_on_tenant_key_def uuid_param_def mark_stored_def
    mark_stored_where_def get_object_by_id_def get_object_by_key_def get_object_where_def
  by (intro keeps_intros keeps_shelf_objects)+

lemma keeps_shelf_found_size [keeps_intros]: "keeps (\<lambda>s. shelf s = x) (found_size r bucket tid key)"
  by (rule keepsI) (auto simp: found_size_def in_vault_def shelf_def split: prod.splits sum.splits if_splits)

lemma off_shelf_storage:
  "off_shelf (provision_upload en sd tid actor bucket key ctype)"
  "off_shelf (confirm_stored en sd tid actor oid)"
  "off_shelf (read_object sd tid oid)"
  "off_shelf (request_download en sd tid key bucket)"
  "off_shelf (store_generated en sd tid actor bucket key ctype data)"
  unfolding provision_upload_def confirm_stored_def read_object_def request_download_def download_ticket_def
    store_generated_def register_generated_def
  by (rule off_shelfI; intro keeps_intros)+


lemma gallery_ok_shelf: "shelf s = shelf s' \<Longrightarrow> gallery_ok lower s \<Longrightarrow> gallery_ok lower s'"
  by (simp add: shelf_def gallery_ok_def)

section \<open>Statements\<close>

lemma taken_fresh: "\<not> taken key ps r \<Longrightarrow> key r = None \<or> list_all (\<lambda>q. key q \<noteq> key r) ps"
  by (auto simp: taken_def list_all_iff list_ex_iff)

lemma unique_on_insert: "unique_on key ps \<Longrightarrow> \<not> taken key ps r \<Longrightarrow> unique_on key (ps @ [r])"
  using taken_fresh [of key ps r] by (auto simp: unique_on_append_one)

lemma keeps_albums:
  "(\<And>s. gallery_ok lower s \<Longrightarrow> gallery_ok lower (f s)) \<Longrightarrow> keeps (gallery_ok lower) (writes f)"
  by (rule keeps_writes)

lemma keeps_create_album_row: "keeps (gallery_ok lower) (create_album_row lower a)"
proof (rule keepsI)
  fix s r s' assume ok: "gallery_ok lower s" and run: "create_album_row lower a s = (r, s')"
  show "gallery_ok lower s'"
  proof (cases "pg_uuid (ab_event_id a)")
    case None
    with run ok show ?thesis by (simp add: create_album_row_def with_uuid_def act_simps)
  next
    case (Some eid)
    let ?a = "a\<lparr>ab_event_id := eid\<rparr>"
    show ?thesis
    proof (cases "album_violation lower s (st_albums s) ?a")
      case (Some v)
      with run ok \<open>pg_uuid _ = _\<close> show ?thesis
        by (simp add: create_album_row_def with_uuid_def Let_def sql_check_def act_simps)
    next
      case None
      then have s': "s' = s\<lparr>st_albums := st_albums s @ [?a]\<rparr>"
        using run \<open>pg_uuid _ = _\<close> by (simp add: create_album_row_def with_uuid_def Let_def sql_check_def act_simps)
      from None have "\<not> taken album_pk (st_albums s) ?a" "\<not> taken (album_name_key lower) (st_albums s) ?a"
        by (auto simp: album_violation_def split: if_splits)
      with ok show ?thesis
        by (auto simp: s' gallery_ok_def albums_ok_def photos_ok_def photo_in_album_def list_all_iff
            intro: unique_on_insert)
    qed
  qed
qed

lemma photo_in_album_update:
  assumes "\<And>a. ab_id (f a) = ab_id a" "\<And>a. ab_tenant_id (f a) = ab_tenant_id a"
  shows "photo_in_album (update_where q f as) p = photo_in_album as p"
  by (induction as) (auto simp: photo_in_album_def update_where_def assms)

lemma keeps_update_album_row: "keeps (gallery_ok lower) (update_album_row lower en a)"
proof (rule keepsI)
  fix s r s' assume ok: "gallery_ok lower s" and run: "update_album_row lower en a s = (r, s')"
  let ?q = "is_album (ab_tenant_id a) (ab_event_id a) (ab_id a)"
  let ?f = "\<lambda>r. r\<lparr>ab_name := ab_name a, ab_description := ab_description a, ab_is_public := ab_is_public a,
                 ab_updated_at := e_now en\<rparr>"
  show "gallery_ok lower s'"
  proof (cases "unique_on (album_name_key lower) (update_where ?q ?f (st_albums s))")
    case False
    with run ok show ?thesis by (simp add: update_album_row_def Let_def sql_check_def act_simps)
  next
    case True
    with run have s': "s' = s\<lparr>st_albums := update_where ?q ?f (st_albums s)\<rparr>"
      by (auto simp: update_album_row_def Let_def sql_check_def act_simps check_rows_def split: if_splits)
    have "unique_on album_pk (update_where ?q ?f (st_albums s))"
      using ok by (intro unique_on_update_same_key) (simp_all add: gallery_ok_def albums_ok_def album_pk_def)
    with True ok show ?thesis
      by (simp add: s' gallery_ok_def albums_ok_def photos_ok_def photo_in_album_update)
  qed
qed

lemma gallery_ok_drop_photos:
  assumes "albums_ok lower as" "photos_ok as (delete_where q ps)" "tags_ok ps ts" "unique_on photo_pk ps"
  shows "tags_ok (delete_where q ps) (delete_where (\<lambda>t. tg_photo_id t \<in> ph_id ` {p \<in> set ps. q p}) ts)"
proof -
  have "tag_on_photo (delete_where q ps) t" if t: "t \<in> set ts" "tg_photo_id t \<notin> ph_id ` {p \<in> set ps. q p}" for t
  proof -
    from assms(3) t(1) obtain p where p: "p \<in> set ps" "ph_id p = tg_photo_id t" "ph_tenant_id p = tg_tenant_id t"
      by (auto simp: tags_ok_def list_all_iff tag_on_photo_def list_ex_iff)
    with t(2) have "\<not> q p" by force
    with p show ?thesis by (auto simp: tag_on_photo_def list_ex_iff set_delete_where)
  qed
  with assms(3) show ?thesis
    by (auto simp: tags_ok_def list_all_iff set_delete_where intro: unique_on_delete)
qed

lemma photos_ok_delete: "photos_ok as ps \<Longrightarrow> photos_ok as (delete_where q ps)"
  by (auto simp: photos_ok_def list_all_iff set_delete_where intro: unique_on_delete)

lemma gallery_ok_dropped:
  assumes "gallery_ok lower s"
  shows "gallery_ok lower (drop_photos q s)"
proof -
  have g: "set (map ph_id (select q (st_photos s))) = ph_id ` {p \<in> set (st_photos s). q p}"
    by (simp add: set_select)
  from assms have "tags_ok (delete_where q (st_photos s))
      (delete_where (\<lambda>t. tg_photo_id t \<in> ph_id ` {p \<in> set (st_photos s). q p}) (st_tags s))"
    by (intro gallery_ok_drop_photos [where as = "st_albums s" and lower = lower])
      (simp_all add: gallery_ok_def photos_ok_delete photos_ok_def list_all_iff set_delete_where unique_on_delete)
  with assms show ?thesis
    unfolding drop_photos_def Let_def g by (simp add: gallery_ok_def photos_ok_delete)
qed

lemma gallery_ok_without_albums:
  assumes "gallery_ok lower s"
  shows "gallery_ok lower (drop_albums q s)"
proof -
  let ?gone = "ab_id ` {a \<in> set (st_albums s). q a}"
  let ?q = "\<lambda>p. ph_album_id p \<in> ?gone"
  have g: "set (map ab_id (select q (st_albums s))) = ?gone" by (simp add: set_select)
  from gallery_ok_dropped [OF assms, of ?q]
  have d: "gallery_ok lower (drop_photos ?q s)" .
  have "photo_in_album (delete_where q (st_albums s)) p" if p: "p \<in> set (st_photos s)" "\<not> ?q p" for p
  proof -
    from assms p(1) obtain a where a: "a \<in> set (st_albums s)" "ab_id a = ph_album_id p" "ab_tenant_id a = ph_tenant_id p"
      by (auto simp: gallery_ok_def photos_ok_def list_all_iff photo_in_album_def list_ex_iff)
    with p(2) have "\<not> q a" by force
    with a show ?thesis by (auto simp: photo_in_album_def list_ex_iff set_delete_where)
  qed
  then have "list_all (photo_in_album (delete_where q (st_albums s))) (delete_where ?q (st_photos s))"
    by (auto simp: list_all_iff set_delete_where)
  with d show ?thesis
    unfolding drop_albums_def Let_def g
    by (auto simp: gallery_ok_def drop_photos_def Let_def photos_ok_def albums_ok_def list_all_iff
        intro: unique_on_delete)
qed


text \<open>An album, a photo of the workspace.\<close>

definition album_present :: "string \<Rightarrow> string \<Rightarrow> studio \<Rightarrow> bool" where
  "album_present tid aid s \<longleftrightarrow> list_ex (\<lambda>a. ab_tenant_id a = tid \<and> ab_id a = aid) (st_albums s)"

definition photo_present :: "string \<Rightarrow> string \<Rightarrow> studio \<Rightarrow> bool" where
  "photo_present tid pid s \<longleftrightarrow> list_ex (\<lambda>p. ph_tenant_id p = tid \<and> ph_id p = pid) (st_photos s)"

definition with_album :: "(string \<Rightarrow> string) \<Rightarrow> string \<Rightarrow> string \<Rightarrow> studio \<Rightarrow> bool" where
  "with_album lower tid aid s \<longleftrightarrow> gallery_ok lower s \<and> (\<exists>u. pg_uuid aid = Some u \<and> album_present tid u s)"

definition with_photo :: "(string \<Rightarrow> string) \<Rightarrow> string \<Rightarrow> string \<Rightarrow> studio \<Rightarrow> bool" where
  "with_photo lower tid pid s \<longleftrightarrow> gallery_ok lower s \<and> photo_present tid pid s"

lemma with_album_shelf: "shelf s = shelf s' \<Longrightarrow> with_album lower tid aid s \<Longrightarrow> with_album lower tid aid s'"
  by (simp add: with_album_def album_present_def shelf_def gallery_ok_def)

lemma with_photo_shelf: "shelf s = shelf s' \<Longrightarrow> with_photo lower tid pid s \<Longrightarrow> with_photo lower tid pid s'"
  by (simp add: with_photo_def photo_present_def shelf_def gallery_ok_def)

lemma gallery_ok_insert_photo:
  assumes ok: "gallery_ok lower s" and a: "album_present tid (ph_album_id p) s" "ph_tenant_id p = tid" "status_ok p"
    and new: "\<not> taken photo_original_key (st_photos s) p" "photo_violation s (st_photos s) p = None"
  shows "gallery_ok lower (s\<lparr>st_photos := st_photos s @ [p]\<rparr>)"
proof -
  from new(2) have "\<not> taken photo_pk (st_photos s) p" "\<not> taken photo_file_key (st_photos s) p"
    by (auto simp: photo_violation_def split: if_splits)
  with new(1) ok have "unique_on photo_pk (st_photos s @ [p])" "unique_on photo_original_key (st_photos s @ [p])"
    "unique_on photo_file_key (st_photos s @ [p])"
    by (simp_all add: unique_on_insert gallery_ok_def photos_ok_def)
  moreover have "photo_in_album (st_albums s) p"
    using a(1,2) by (auto simp: photo_in_album_def album_present_def list_ex_iff)
  ultimately show ?thesis
    using ok a(3) by (auto simp: gallery_ok_def photos_ok_def tags_ok_def tag_on_photo_def list_all_iff)
qed

lemma keeps_insert_photo:
  assumes "ph_tenant_id p = tid" "ph_album_id p = aid" "status_ok p"
  shows "keeps (with_album lower tid aid) (insert_photo p)"
proof (rule keepsI)
  fix s r s' assume I: "with_album lower tid aid s" and run: "insert_photo p s = (r, s')"
  show "with_album lower tid aid s'"
  proof (cases "s' = s")
    case False
    obtain u where u: "pg_uuid aid = Some u" "album_present tid u s" using I by (auto simp: with_album_def)
    let ?p = "\<lambda>oid. p\<lparr>ph_album_id := u, ph_original_id := oid\<rparr>"
    from False run u(1) assms(2) obtain oid where o': "pg_uuid (ph_original_id p) = Some oid"
      "\<not> taken photo_original_key (st_photos s) (?p oid)" "photo_violation s (st_photos s) (?p oid) = None"
      "s' = s\<lparr>st_photos := st_photos s @ [?p oid]\<rparr>"
      by (auto simp: insert_photo_def with_uuid_def Let_def sql_check_def act_simps on_error_def
          split: option.splits if_splits)
    have "gallery_ok lower s'"
      unfolding o'(4) by (rule gallery_ok_insert_photo [OF _ _ _ _ o'(2,3)])
        (use I u assms in \<open>simp_all add: with_album_def status_ok_def\<close>)
    with u show ?thesis by (simp add: with_album_def o'(4) album_present_def)
  qed (use I in simp)
qed

lemma update_photo_run:
  "update_photo en tid pid f s = (r, s') \<Longrightarrow>
     s' = s\<lparr>st_photos := update_where (is_photo tid pid) (\<lambda>p. (f p)\<lparr>ph_updated_at := e_now en\<rparr>) (st_photos s)\<rparr>"
  by (auto simp: update_photo_def act_simps check_rows_def split: if_splits)

lemma tag_on_photo_update:
  assumes "\<And>p. ph_id (f p) = ph_id p" "\<And>p. ph_tenant_id (f p) = ph_tenant_id p"
  shows "tag_on_photo (update_where q f ps) t = tag_on_photo ps t"
  by (induction ps) (auto simp: tag_on_photo_def update_where_def assms)

lemma gallery_ok_update_photos:
  assumes ok: "gallery_ok lower s"
    and f: "\<And>p. ph_id (f p) = ph_id p" "\<And>p. ph_tenant_id (f p) = ph_tenant_id p"
      "\<And>p. ph_original_id (f p) = ph_original_id p" "\<And>p. status_ok p \<Longrightarrow> q p \<Longrightarrow> status_ok (f p)"
    and files: "unique_on photo_file_key (update_where q f (st_photos s))"
    and albums: "\<And>p. p \<in> set (st_photos s) \<Longrightarrow> q p \<Longrightarrow> photo_in_album (st_albums s) (f p)"
  shows "gallery_ok lower (s\<lparr>st_photos := update_where q f (st_photos s)\<rparr>)"
proof -
  have "unique_on photo_pk (update_where q f (st_photos s))" "unique_on photo_original_key (update_where q f (st_photos s))"
    using ok by (intro unique_on_update_same_key; simp add: gallery_ok_def photos_ok_def photo_pk_def photo_original_key_def f)+
  moreover have "list_all (\<lambda>p. photo_in_album (st_albums s) p \<and> status_ok p) (update_where q f (st_photos s))"
    using ok f(4) albums by (auto simp: list_all_iff set_update_where gallery_ok_def photos_ok_def)
  ultimately show ?thesis
    using ok files by (simp add: gallery_ok_def photos_ok_def tags_ok_def list_all_iff tag_on_photo_update f)
qed

text \<open>Changing a photo's thumbnail or status.\<close>

lemma gallery_ok_update_photo:
  assumes ok: "gallery_ok lower s" and run: "update_photo en tid pid f s = (r, s')"
    and f: "\<And>p. ph_id (f p) = ph_id p" "\<And>p. ph_tenant_id (f p) = ph_tenant_id p"
      "\<And>p. ph_original_id (f p) = ph_original_id p" "\<And>p. ph_album_id (f p) = ph_album_id p"
      "\<And>p. photo_file_key (f p) = photo_file_key p" "\<And>p. status_ok p \<Longrightarrow> status_ok (f p)"
  shows "gallery_ok lower s'"
proof -
  let ?g = "\<lambda>p. (f p)\<lparr>ph_updated_at := e_now en\<rparr>"
  have k: "photo_file_key (?g p) = photo_file_key p" for p
    using f(5) [of p] by (simp add: photo_file_key_def split: if_splits)
  have st: "status_ok (?g p) = status_ok (f p)" for p by (simp add: status_ok_def)
  show ?thesis
    unfolding update_photo_run [OF run]
  proof (rule gallery_ok_update_photos [OF ok])
    show "unique_on photo_file_key (update_where (is_photo tid pid) ?g (st_photos s))"
      using ok by (intro unique_on_update_same_key) (simp_all only: k gallery_ok_def photos_ok_def)
    show "photo_in_album (st_albums s) (?g p)" if "p \<in> set (st_photos s)" for p
      using ok that by (simp add: gallery_ok_def photos_ok_def list_all_iff photo_in_album_def f(2,4))
  qed (simp_all add: f st)
qed

lemma keeps_photo_updates:
  "keeps (gallery_ok lower) (set_ocr_status en tid pid st)"
  "keeps (gallery_ok lower) (set_ocr_failed en tid pid msg)"
  "keeps (gallery_ok lower) (update_photo_thumbnail en tid pid oid)"
proof -
  show "keeps (gallery_ok lower) (set_ocr_status en tid pid st)"
    unfolding set_ocr_status_def
    by (rule keeps_guard, rule keepsI, erule gallery_ok_update_photo, assumption)
      (auto simp: photo_file_key_def status_ok_def)
  show "keeps (gallery_ok lower) (set_ocr_failed en tid pid msg)"
    unfolding set_ocr_failed_def
    by (rule keepsI, erule gallery_ok_update_photo, assumption) (auto simp: photo_file_key_def status_ok_def)
  show "keeps (gallery_ok lower) (update_photo_thumbnail en tid pid oid)"
    unfolding update_photo_thumbnail_def
    by (intro keeps_intros, rule keepsI, erule gallery_ok_update_photo, assumption)
      (auto simp: photo_file_key_def status_ok_def)
qed

lemma keeps_move_photos: "keeps (with_album lower tid target) (move_photos en tid eid ids target)"
proof (rule keepsI)
  fix s r s' assume I: "with_album lower tid target s" and run: "move_photos en tid eid ids target s = (r, s')"
  show "with_album lower tid target s'"
  proof (cases "s' = s")
    case False
    obtain u where u: "pg_uuid target = Some u" "album_present tid u s" using I by (auto simp: with_album_def)
    from False run u(1) obtain e xs where s': "s' = s\<lparr>st_photos := update_where (chosen_photo s tid e xs)
         (\<lambda>p. p\<lparr>ph_album_id := u, ph_updated_at := e_now en\<rparr>) (st_photos s)\<rparr>"
      and files: "unique_on photo_file_key (update_where (chosen_photo s tid e xs)
         (\<lambda>p. p\<lparr>ph_album_id := u, ph_updated_at := e_now en\<rparr>) (st_photos s))"
      by (auto simp: move_photos_def with_uuid_def with_uuids_def Let_def sql_check_def act_simps
          split: option.splits if_splits)
    have "gallery_ok lower s'"
      unfolding s' by (rule gallery_ok_update_photos [OF _ _ _ _ _ files])
        (use I u in \<open>auto simp: with_album_def status_ok_def chosen_photo_def photo_in_album_def album_present_def list_ex_iff\<close>)
    with u show ?thesis by (simp add: with_album_def s' album_present_def)
  qed (use I in simp)
qed

lemma keeps_delete_photos: "keeps (gallery_ok lower) (delete_photos tid eid ids)"
  unfolding delete_photos_def
  by (intro keeps_intros, rule keeps_writes, erule gallery_ok_dropped)

lemma keeps_delete_album_row: "keeps (gallery_ok lower) (delete_album_row tid eid aid)"
  unfolding delete_album_row_def
  by (intro keeps_intros, rule keeps_writes, erule gallery_ok_without_albums)


text \<open>Tags.\<close>

lemma gallery_ok_insert_tag:
  assumes ok: "gallery_ok lower s" and p: "photo_present (tg_tenant_id t) (tg_photo_id t) s"
    and new: "tag_violation s (st_tags s) t = None"
  shows "gallery_ok lower (s\<lparr>st_tags := st_tags s @ [t]\<rparr>)"
proof -
  from new have "\<not> taken tag_pk (st_tags s) t" "\<not> taken tag_bib_key (st_tags s) t"
    by (auto simp: tag_violation_def split: if_splits)
  moreover have "tag_on_photo (st_photos s) t"
    using p by (auto simp: photo_present_def tag_on_photo_def list_ex_iff)
  ultimately show ?thesis
    using ok by (simp add: gallery_ok_def tags_ok_def unique_on_insert)
qed

lemma keeps_insert_tag:
  assumes "tg_tenant_id t = tid" "tg_photo_id t = pid"
  shows "keeps (with_photo lower tid pid) (insert_tag t)"
proof (rule keepsI)
  fix s r s' assume I: "with_photo lower tid pid s" and run: "insert_tag t s = (r, s')"
  show "with_photo lower tid pid s'"
  proof (cases "tag_violation s (st_tags s) t")
    case None
    with run have s': "s' = s\<lparr>st_tags := st_tags s @ [t]\<rparr>"
      by (simp add: insert_tag_def insert_tag_row_def sql_check_def act_simps)
    have "gallery_ok lower s'"
      unfolding s' by (rule gallery_ok_insert_tag [OF _ _ None]) (use I assms in \<open>simp_all add: with_photo_def\<close>)
    with I show ?thesis by (simp add: with_photo_def s' photo_present_def)
  next
    case (Some v)
    with run I show ?thesis by (simp add: insert_tag_def insert_tag_row_def sql_check_def act_simps)
  qed
qed

lemma keeps_update_tag_bib: "keeps (gallery_ok lower) (update_tag_bib tid pid gid bib)"
proof (rule keepsI)
  fix s r s' assume ok: "gallery_ok lower s" and run: "update_tag_bib tid pid gid bib s = (r, s')"
  show "gallery_ok lower s'"
  proof (cases "s' = s")
    case False
    let ?f = "\<lambda>t. t\<lparr>tg_bib := bib, tg_number := parse_bib_number bib, tg_source := TagSourceManual, tg_confidence := None\<rparr>"
    from False run obtain q where s': "s' = s\<lparr>st_tags := update_where q ?f (st_tags s)\<rparr>"
      and u: "unique_on tag_bib_key (update_where q ?f (st_tags s))"
      by (auto simp: update_tag_bib_def with_uuid_def Let_def sql_check_def act_simps check_rows_def
          split: option.splits if_splits)
    have "unique_on tag_pk (update_where q ?f (st_tags s))"
      using ok by (intro unique_on_update_same_key) (simp_all add: gallery_ok_def tags_ok_def tag_pk_def)
    moreover have "list_all (tag_on_photo (st_photos s)) (update_where q ?f (st_tags s))"
      using ok by (auto simp: list_all_iff set_update_where gallery_ok_def tags_ok_def tag_on_photo_def)
    ultimately show ?thesis
      using ok u by (simp add: s' gallery_ok_def tags_ok_def)
  qed (use ok in simp)
qed

lemma keeps_delete_tag_row: "keeps (gallery_ok lower) (delete_tag_row tid pid gid)"
  unfolding delete_tag_row_def
  by (intro keeps_intros, rule keeps_writes)
    (auto simp: gallery_ok_def tags_ok_def list_all_iff set_delete_where intro: unique_on_delete)

section \<open>Use cases\<close>

text \<open>A check before a step that relies on it.\<close>

lemma keeps_and_then_after:
  assumes m: "\<And>s a s'. I s \<Longrightarrow> m s = (Inr a, s') \<Longrightarrow> J s'" "\<And>s e s'. I s \<Longrightarrow> m s = (Inl e, s') \<Longrightarrow> I s'"
    and f: "\<And>a. keeps J (f a)" and J: "\<And>s. J s \<Longrightarrow> I s"
  shows "keeps I (and_then m f)"
proof (rule keepsI)
  fix s r s' assume s: "I s" and run: "and_then m f s = (r, s')"
  show "I s'"
  proof (cases "m s")
    case (Pair x t)
    then show ?thesis
    proof (cases x)
      case (Inl e)
      with run Pair m(2) [OF s] show ?thesis by (simp add: and_then_def)
    next
      case (Inr a)
      with run Pair m(1) [OF s] f J show ?thesis by (auto simp: and_then_def dest: keepsD)
    qed
  qed
qed

lemma get_album_row_found:
  assumes "get_album_row tid eid aid s = (Inr v, s')"
  shows "s' = s \<and> (\<exists>u. pg_uuid aid = Some u \<and> album_present tid u s \<and> ab_id (av_album v) = u \<and>
    av_album v \<in> set (st_albums s) \<and> ab_tenant_id (av_album v) = tid \<and> pg_uuid eid = Some (ab_event_id (av_album v)))"
  using assms unfolding get_album_row_def
  by (elim act_elims) (auto simp: album_present_def list_ex_iff is_album_def view_album_def dest!: select_one_SomeD)

lemma get_album_row_error: "get_album_row tid eid aid s = (Inl e, s') \<Longrightarrow> s' = s"
  by (auto simp: get_album_row_def with_uuid_def act_simps found_def of_option_def split: option.splits)

lemma keeps_reading: "(\<And>s. snd (m s) = s) \<Longrightarrow> keeps I m"
  by (simp add: keeps_def)

lemma keeps_get_album_row [keeps_intros]: "keeps I (get_album_row tid eid aid)"
  unfolding get_album_row_def by (intro keeps_intros)

lemma keeps_get_photo_row [keeps_intros]: "keeps I (get_photo_row tid eid pid)" "keeps I (get_photo_by_id_row tid pid)"
  unfolding get_photo_row_def get_photo_by_id_row_def by (intro keeps_intros)+

lemma keeps_gallery_off: "off_shelf m \<Longrightarrow> keeps (gallery_ok lower) m"
  by (erule keeps_off_shelf) (rule gallery_ok_shelf)

lemma off_shelf_audit: "off_shelf (album_audit en k tid actor a md)"
  unfolding album_audit_def by (rule off_shelfI) (intro keeps_intros)

lemma keeps_album_audit [keeps_intros]:
  "keeps (gallery_ok lower) (album_audit en k tid actor a md)"
  "keeps (with_album lower tid' aid) (album_audit en k tid actor a md)"
  "keeps (with_photo lower tid' pid) (album_audit en k tid actor a md)"
  by (rule keeps_off_shelf [OF off_shelf_audit]; (rule gallery_ok_shelf | rule with_album_shelf | rule with_photo_shelf); assumption)+

lemma keeps_after_album:
  assumes "\<And>v. keeps (with_album lower tid aid) (f v)"
  shows "keeps (gallery_ok lower) (and_then (get_album_row tid eid aid) f)"
proof (rule keeps_and_then_after [where J = "with_album lower tid aid"])
  show "with_album lower tid aid s'" if "gallery_ok lower s" "get_album_row tid eid aid s = (Inr a, s')" for s a s'
    using get_album_row_found [OF that(2)] that(1) by (auto simp: with_album_def)
  show "gallery_ok lower s'" if "gallery_ok lower s" "get_album_row tid eid aid s = (Inl e, s')" for s e s'
    using get_album_row_error [OF that(2)] that(1) by simp
qed (use assms in \<open>simp_all add: with_album_def\<close>)

lemma keeps_after_album_tx:
  assumes "\<And>v. keeps (with_album lower tid aid) (f v)"
  shows "keeps (gallery_ok lower) (and_then (with_tenant_tx tid (get_album_row tid eid aid)) f)"
proof (rule keeps_and_then_after [where J = "with_album lower tid aid"])
  show "with_album lower tid aid s'"
    if "gallery_ok lower s" "with_tenant_tx tid (get_album_row tid eid aid) s = (Inr a, s')" for s a s'
    using that(2,1) by (elim with_tenant_tx_InrE) (auto simp: with_album_def dest: get_album_row_found)
  show "gallery_ok lower s'" if "gallery_ok lower s" "with_tenant_tx tid (get_album_row tid eid aid) s = (Inl e, s')" for s e s'
    using with_tenant_tx_error [OF that(2)] that(1) by simp
qed (use assms in \<open>simp_all add: with_album_def\<close>)


lemma joined_photoD:
  assumes "av \<in> set (joined_photos s tid)"
  obtains p u o' where "p \<in> set (st_photos s)" "ph_tenant_id p = tid" "snd av = view_photo s tid p u o'"
    "album_of s tid p = Some (fst av)" "u \<in> set (db_users (dp_db s))" "us_id u = ph_created_by p"
    "joined_object s tid (ph_original_id p) = Some o'"
proof -
  from assms obtain p where p: "p \<in> set (st_photos s)" "join_photo s tid p = Some av"
    by (auto simp: joined_photos_def List.map_filter_def)
  from p(2) obtain a u o' where "ph_tenant_id p = tid" "album_of s tid p = Some a"
    "select_one (\<lambda>u. us_id u = ph_created_by p) (db_users (dp_db s)) = Some u"
    "joined_object s tid (ph_original_id p) = Some o'" "av = (a, view_photo s tid p u o')"
    by (auto simp: join_photo_def split: if_splits option.splits)
  with p(1) that show ?thesis by (auto dest: select_one_SomeD)
qed

lemma get_photo_row_found:
  assumes "get_photo_row tid eid pid s = (Inr v, s')"
  shows "s' = s \<and> (\<exists>u e a. pg_uuid pid = Some u \<and> pg_uuid eid = Some e \<and> photo_present tid u s \<and> ph_id (pv_row v) = u \<and>
    (a, v) \<in> set (joined_photos s tid) \<and> ab_event_id a = e)"
proof -
  from assms obtain u e av where u: "pg_uuid pid = Some u" "pg_uuid eid = Some e"
    and sel: "select_one (\<lambda>av. ab_tenant_id (fst av) = tid \<and> ab_event_id (fst av) = e \<and>
         ph_id (pv_row (snd av)) = u) (joined_photos s tid) = Some av" and v: "v = snd av" and s: "s' = s"
    unfolding get_photo_row_def by (elim act_elims) blast
  from select_one_SomeD [OF sel] have av: "av \<in> set (joined_photos s tid)" "ab_event_id (fst av) = e"
    "ph_id (pv_row (snd av)) = u" by simp_all
  from joined_photoD [OF av(1)] obtain p where "p \<in> set (st_photos s)" "ph_tenant_id p = tid" "pv_row (snd av) = p"
    by (metis photo_view.select_convs(1) view_photo_def)
  with u av v s show ?thesis
    by (cases av) (auto simp: photo_present_def list_ex_iff)
qed

lemma get_photo_row_error: "get_photo_row tid eid pid s = (Inl e, s') \<Longrightarrow> s' = s"
  by (auto simp: get_photo_row_def with_uuid_def act_simps found_def of_option_def and_then_def reads_def fail_def ret_def
      split: option.splits prod.splits sum.splits)

lemma keeps_after_photo:
  assumes "\<And>u v. pg_uuid pid = Some u \<Longrightarrow> ph_id (pv_row v) = u \<Longrightarrow> keeps (with_photo lower tid u) (f v)"
  shows "keeps (gallery_ok lower) (and_then (get_photo_row tid eid pid) f)"
proof (rule keepsI)
  fix s r s' assume ok: "gallery_ok lower s" and run: "and_then (get_photo_row tid eid pid) f s = (r, s')"
  show "gallery_ok lower s'"
  proof (cases "get_photo_row tid eid pid s")
    case (Pair x t)
    then show ?thesis
    proof (cases x)
      case (Inl e)
      with Pair get_photo_row_error [of tid eid pid s e t] run ok show ?thesis by (simp add: and_then_def)
    next
      case (Inr v)
      with Pair have "get_photo_row tid eid pid s = (Inr v, t)" by simp
      from get_photo_row_found [OF this] obtain u where u: "pg_uuid pid = Some u" "ph_id (pv_row v) = u"
        "with_photo lower tid u t" using ok by (auto simp: with_photo_def)
      from run Pair Inr have "f v t = (r, s')" by (simp add: and_then_def)
      with assms [OF u(1,2)] u(3) have "with_photo lower tid u s'" by (blast dest: keepsD)
      then show ?thesis by (simp add: with_photo_def)
    qed
  qed
qed

lemma photo_present_updated:
  "(\<And>p. ph_id (f p) = ph_id p) \<Longrightarrow> (\<And>p. ph_tenant_id (f p) = ph_tenant_id p) \<Longrightarrow>
     photo_present tid pid (s\<lparr>st_photos := update_where q f (st_photos s)\<rparr>) = photo_present tid pid s"
proof -
  assume f: "\<And>p. ph_id (f p) = ph_id p" "\<And>p. ph_tenant_id (f p) = ph_tenant_id p"
  have "list_ex (\<lambda>p. ph_tenant_id p = tid \<and> ph_id p = pid) (update_where q f ps) =
      list_ex (\<lambda>p. ph_tenant_id p = tid \<and> ph_id p = pid) ps" for ps
    by (induction ps) (auto simp: update_where_def f)
  then show ?thesis by (simp add: photo_present_def)
qed

lemma keeps_settle_pending: "keeps (with_photo lower tid' pid) (settle_pending en tid v)"
proof (rule keepsI)
  fix s r s' assume I: "with_photo lower tid' pid s" and run: "settle_pending en tid v s = (r, s')"
  have "keeps (gallery_ok lower) (settle_pending en tid v)"
    unfolding settle_pending_def by (intro keeps_intros keeps_photo_updates)
  with I run have "gallery_ok lower s'" by (auto simp: with_photo_def dest: keepsD)
  moreover have "photo_present tid' pid s'"
  proof (cases "s' = s")
    case False
    with run have "update_photo en tid (ph_id (pv_row v)) (\<lambda>p. p\<lparr>ph_ocr_status := OCRProcessed\<rparr>) s = (r, s')"
      by (auto simp: settle_pending_def set_ocr_status_def act_simps split: if_splits)
    from update_photo_run [OF this] show ?thesis
      using I by (simp add: photo_present_updated with_photo_def)
  qed (use I in \<open>simp add: with_photo_def\<close>)
  ultimately show "with_photo lower tid' pid s'" by (simp add: with_photo_def)
qed

lemma keeps_add_tag: "keeps (gallery_ok lower) (add_tag en tid eid pid actor raw)"
  unfolding add_tag_def
  by (intro keeps_guard keeps_checked keeps_with_tenant_tx keeps_after_photo keeps_and_then keeps_settle_pending
      keeps_album_audit keeps_get_photo_row)
    (auto simp: with_uuid_def new_tag_def intro: keeps_insert_tag)

lemma keeps_tag_calls:
  "keeps (gallery_ok lower) (update_tag en tid eid pid gid actor raw)"
  "keeps (gallery_ok lower) (delete_tag en tid eid pid gid actor)"
  unfolding update_tag_def delete_tag_def settle_pending_def
  by (intro keeps_intros keeps_update_tag_bib keeps_delete_tag_row keeps_photo_updates)+

lemma keeps_album_calls:
  "keeps (gallery_ok (gd_lower gd)) (create_album en gd tid eid actor role name desc)"
  "keeps (gallery_ok (gd_lower gd)) (update_album en gd tid eid aid actor role pa)"
  "keeps (gallery_ok (gd_lower gd)) (delete_album en tid eid aid actor role)"
  unfolding create_album_def update_album_def delete_album_def Let_def
  by (intro keeps_intros keeps_create_album_row keeps_update_album_row keeps_delete_album_row)+

lemma keeps_bulk_calls:
  "keeps (gallery_ok lower) (bulk_move_photos en tid eid actor ids target)"
  "keeps (gallery_ok lower) (bulk_delete_photos en tid eid actor ids)"
proof -
  show "keeps (gallery_ok lower) (bulk_move_photos en tid eid actor ids target)"
    unfolding bulk_move_photos_def
    by (intro keeps_on_error keeps_guard keeps_with_tenant_tx keeps_after_album keeps_and_then keeps_if keeps_ret
        keeps_move_photos keeps_album_audit)
  show "keeps (gallery_ok lower) (bulk_delete_photos en tid eid actor ids)"
    unfolding bulk_delete_photos_def by (intro keeps_intros keeps_delete_photos)
qed

lemma off_shelf_provision_files: "off_shelf (provision_files en gd tid aid actor seen fs)"
proof (rule off_shelfI)
  fix x
  have p: "keeps (\<lambda>s. shelf s = x) (provision_upload en' sd tid actor b k c)" for en' sd b k c
    using off_shelf_storage(1) by (auto simp: off_shelf_def keeps_def)
  show "keeps (\<lambda>s. shelf s = x) (provision_files en gd tid aid actor seen fs)"
  proof (induction fs arbitrary: en seen)
    case (Cons f fs)
    then show ?case by (cases f) (simp add: Let_def, intro conjI impI keeps_intros p)
  qed (simp add: keeps_intros)
qed

lemma keeps_request_upload_urls: "keeps (gallery_ok lower) (request_upload_urls en gd tid eid aid actor entries)"
  unfolding request_upload_urls_def duplicate_keys_def
  by (intro keeps_intros keeps_gallery_off [OF off_shelf_provision_files])

lemma off_shelf_confirm_items: "off_shelf (confirm_items en gd tid aid actor its)"
proof (rule off_shelfI)
  fix x
  have c: "keeps (\<lambda>s. shelf s = x) (confirm_stored en' sd tid actor oid)" for en' sd oid
    using off_shelf_storage(2) by (auto simp: off_shelf_def keeps_def)
  show "keeps (\<lambda>s. shelf s = x) (confirm_items en gd tid aid actor its)"
  proof (induction its arbitrary: en)
    case (Cons it its)
    then show ?case unfolding confirm_items.simps confirm_item_def by (intro keeps_intros c)
  qed (simp add: keeps_intros)
qed

lemma keeps_complete_items: "keeps (with_album lower tid aid) (complete_items en k tid aid actor vs)"
proof (induction vs arbitrary: k)
  case (Cons iv vs)
  have one: "keeps (with_album lower tid aid) (complete_item en k tid aid actor it o')" for it o'
    unfolding complete_item_def photo_id_by_storage_def
    by (intro keeps_intros keeps_insert_photo) (simp_all add: new_photo_def status_ok_def)
  obtain it v where "iv = (it, v)" by fastforce
  with Cons one show ?case by (simp, intro keeps_intros)
qed (simp add: keeps_intros)

lemma off_shelf_queue_jobs: "off_shelf (queue_photo_jobs en up tid eid aid actor ids)"
  unfolding queue_photo_jobs_def by (rule off_shelfI) (intro keeps_intros)

lemma keeps_complete_uploads: "keeps (gallery_ok lower) (complete_uploads en gd tid eid aid actor items)"
proof -
  note off = keeps_off_shelf [where I = "with_album lower tid aid", OF _ with_album_shelf]
  show ?thesis
    unfolding complete_uploads_def Let_def
    by (intro keeps_guard keeps_after_album_tx keeps_and_then keeps_with_tenant_tx keeps_if keeps_ret
        keeps_case_option keeps_complete_items keeps_album_audit off [OF off_shelf_confirm_items]
        off [OF off_shelf_queue_jobs])
qed


section \<open>Jobs\<close>

lemma keeps_gallery_report [keeps_intros]: "keeps (gallery_ok lower) (report_progress en j i n)"
proof (rule keeps_off_shelf [OF _ gallery_ok_shelf])
  show "off_shelf (report_progress en j i n)"
    unfolding report_progress_def by (rule off_shelfI) (intro keeps_intros)
qed

lemma keeps_get_photo_by_id [keeps_intros]: "keeps I (get_photo_by_id tid pid)"
  unfolding get_photo_by_id_def by (intro keeps_intros)

lemma keeps_make_thumbnail: "keeps (gallery_ok lower) (make_thumbnail en sd draw tid actor pid)"
  unfolding make_thumbnail_def keep_thumbnail_def
  by (intro keeps_intros off_shelf_storage [THEN keeps_gallery_off] keeps_photo_updates)

lemma keeps_thumbnail_loop: "keeps (gallery_ok lower) (thumbnail_loop en sd draw j i n pids)"
proof (induction pids arbitrary: en i)
  case (Cons pid pids)
  then show ?case
    by (simp only: thumbnail_loop.simps) (intro keeps_intros keeps_make_thumbnail)
qed (simp add: keeps_intros)

lemma keeps_run_photo_process: "keeps (gallery_ok lower) (run_photo_process en sd assets j)"
  unfolding run_photo_process_def Let_def by (intro keeps_intros keeps_thumbnail_loop)

lemma insert_ocr_tag_ok:
  assumes "with_photo lower (tg_tenant_id t) (tg_photo_id t) s" "insert_ocr_tag t s = (r, s')"
  shows "with_photo lower (tg_tenant_id t) (tg_photo_id t) s'"
proof (cases "s' = s")
  case False
  with assms(2) obtain t' where t': "ocr_columns t = Some t'" "tag_violation s (st_tags s) t' = None"
    "s' = s\<lparr>st_tags := st_tags s @ [t']\<rparr>"
    by (auto simp: insert_ocr_tag_def act_simps on_error_def split: option.splits)
  have k: "tg_tenant_id t' = tg_tenant_id t" "tg_photo_id t' = tg_photo_id t"
    using t'(1) by (auto simp: ocr_columns_def split: option.splits)
  have "gallery_ok lower s'"
    unfolding t'(3) by (rule gallery_ok_insert_tag [OF _ _ t'(2)]) (use assms(1) k in \<open>simp_all add: with_photo_def\<close>)
  with assms(1) show ?thesis by (simp add: with_photo_def t'(3) photo_present_def)
qed (use assms(1) in simp)

lemma insert_readings_ok:
  assumes "with_photo lower tid pid s" "insert_readings en tid pid b n ds s = (r, s')"
  shows "with_photo lower tid pid s'"
  using assms
proof (induction ds arbitrary: en b n s)
  case (Cons d ds)
  obtain x t where x: "insert_ocr_tag (ocr_tag en tid pid d) s = (x, t)" by fastforce
  have "with_photo lower (tg_tenant_id (ocr_tag en tid pid d)) (tg_photo_id (ocr_tag en tid pid d)) t"
    by (rule insert_ocr_tag_ok [OF _ x]) (use Cons.prems(1) in \<open>simp add: ocr_tag_def\<close>)
  then have t: "with_photo lower tid pid t" by (simp add: ocr_tag_def)
  show ?case
    using Cons.IH [OF t] Cons.prems t by (auto simp: x split: if_splits sum.splits sql_error.splits)
qed simp

lemma store_readings_ok:
  "with_photo lower tid pid s \<Longrightarrow> store_readings en tid pid ds s = (r, s') \<Longrightarrow> gallery_ok lower s'"
  using insert_readings_ok [of lower tid pid s en False 0 ds]
  by (auto simp: store_readings_def with_photo_def split: prod.splits option.splits bool.splits)

lemma get_photo_by_id_found:
  assumes "get_photo_by_id tid pid s = (Inr v, s')"
  shows "s' = s \<and> photo_present tid pid s \<and> ph_id (pv_row v) = pid \<and> tid \<noteq> '''' \<and>
    (\<exists>a w. (a, w) \<in> set (joined_photos s tid) \<and> v = w\<lparr>pv_tags := []\<rparr>)"
proof -
  from assms obtain av where sel: "select_one (\<lambda>av. ph_id (pv_row (snd av)) = pid) (joined_photos s tid) = Some av"
    and v: "v = (snd av)\<lparr>pv_tags := []\<rparr>" "s' = s" "tid \<noteq> ''''"
    unfolding get_photo_by_id_def get_photo_by_id_row_def by (elim act_elims) blast
  from select_one_SomeD [OF sel] have av: "av \<in> set (joined_photos s tid)" "ph_id (pv_row (snd av)) = pid" by simp_all
  from joined_photoD [OF av(1)] obtain p where "p \<in> set (st_photos s)" "ph_tenant_id p = tid" "pv_row (snd av) = p"
    by (metis photo_view.select_convs(1) view_photo_def)
  then have "photo_present tid pid s" using av(2) by (auto simp: photo_present_def list_ex_iff)
  moreover have "\<exists>a w. (a, w) \<in> set (joined_photos s tid) \<and> v = w\<lparr>pv_tags := []\<rparr>"
    using av(1) v(1) by (intro exI [of _ "fst av"] exI [of _ "snd av"]) simp
  ultimately show ?thesis using av(2) v by simp
qed

lemma get_photo_by_id_same: "snd (get_photo_by_id tid pid s) = s"
  by (auto simp: get_photo_by_id_def get_photo_by_id_row_def with_tenant_tx_def with_tx_def act_simps found_def
      of_option_def and_then_def reads_def fail_def ret_def split: option.splits prod.splits sum.splits)

lemma keeps_detect_bib: "keeps (gallery_ok lower) (detect_bib en sd ocr tid pid)"
proof (rule keepsI)
  fix s r s' assume ok: "gallery_ok lower s" and run: "detect_bib en sd ocr tid pid s = (r, s')"
  show "gallery_ok lower s'"
  proof (cases "fst (get_photo_by_id tid pid s)")
    case (Inl e)
    with run get_photo_by_id_same [of tid pid s] ok show ?thesis
      by (cases "get_photo_by_id tid pid s") (simp add: detect_bib_def attempt_def and_then_def ret_def)
  next
    case (Inr v)
    then have g: "get_photo_by_id tid pid s = (Inr v, s)"
      using get_photo_by_id_same [of tid pid s] by (cases "get_photo_by_id tid pid s") simp
    obtain x t where x: "request_download en sd tid (ob_key (pv_original v)) (ob_bucket (pv_original v)) s = (x, t)"
      by fastforce
    have "shelf t = shelf s" using off_shelf_storage(4) x by (metis off_shelf_def snd_conv)
    with ok get_photo_by_id_found [OF g] have t: "with_photo lower tid pid t" "gallery_ok lower t"
      by (auto simp: with_photo_def photo_present_def shelf_def gallery_ok_def)
    from run show ?thesis
      using t by (auto simp: detect_bib_def attempt_def and_then_def g x ret_def split: sum.splits prod.splits
          dest: store_readings_ok)
  qed
qed

lemma keeps_detect_loop: "keeps (gallery_ok lower) (detect_loop en sd ocr j i n pids)"
proof (induction pids arbitrary: i)
  case (Cons pid pids)
  have one: "keeps (gallery_ok lower) (detect_one en' sd ocr (jb_tenant_id j) pid)" for en'
    unfolding detect_one_def by (intro keeps_intros keeps_detect_bib keeps_photo_updates)
  show ?case
    by (simp only: detect_loop.simps) (intro keeps_intros one Cons.IH)
qed (simp add: keeps_intros)

lemma keeps_run_bib_detect: "keeps (gallery_ok lower) (run_bib_detect en sd ocr j)"
  unfolding run_bib_detect_def Let_def by (intro keeps_intros keeps_detect_loop)

section \<open>Histories\<close>

datatype gallery_call =
    AlbumCreate string string string member_role string "string option"
  | AlbumUpdate string string string string member_role album_patch
  | AlbumDelete string string string string member_role
  | UploadLinks string string string string "upload_entry list"
  | UploadsDone string string string string "complete_item list"
  | PhotosMove string string string "string list" string
  | PhotosDelete string string string "string list"
  | TagAdd string string string string string
  | TagUpdate string string string string string string
  | TagDelete string string string string string
  | ThumbnailJob "studio \<Rightarrow> string \<Rightarrow> string \<Rightarrow> go_error + (string \<Rightarrow> go_error + string)" job
  | DetectJob "ticket option \<Rightarrow> go_error + reading list" job

definition performed :: "(studio, 'e, 'a) act \<Rightarrow> studio \<Rightarrow> studio" where
  "performed m s = snd (m s)"

fun run_gallery_call :: "gallery_deps \<Rightarrow> env \<times> gallery_call \<Rightarrow> studio \<Rightarrow> studio" where
  "run_gallery_call gd (en, AlbumCreate tid eid actor role name desc) = performed (create_album en gd tid eid actor role name desc)"
| "run_gallery_call gd (en, AlbumUpdate tid eid aid actor role p) = performed (update_album en gd tid eid aid actor role p)"
| "run_gallery_call gd (en, AlbumDelete tid eid aid actor role) = performed (delete_album en tid eid aid actor role)"
| "run_gallery_call gd (en, UploadLinks tid eid aid actor es) = performed (request_upload_urls en gd tid eid aid actor es)"
| "run_gallery_call gd (en, UploadsDone tid eid aid actor items) = performed (complete_uploads en gd tid eid aid actor items)"
| "run_gallery_call gd (en, PhotosMove tid eid actor ids target) = performed (bulk_move_photos en tid eid actor ids target)"
| "run_gallery_call gd (en, PhotosDelete tid eid actor ids) = performed (bulk_delete_photos en tid eid actor ids)"
| "run_gallery_call gd (en, TagAdd tid eid pid actor bib) = performed (add_tag en tid eid pid actor bib)"
| "run_gallery_call gd (en, TagUpdate tid eid pid gid actor bib) = performed (update_tag en tid eid pid gid actor bib)"
| "run_gallery_call gd (en, TagDelete tid eid pid gid actor) = performed (delete_tag en tid eid pid gid actor)"
| "run_gallery_call gd (en, ThumbnailJob assets j) = performed (run_photo_process en (gd_storage gd) assets j)"
| "run_gallery_call gd (en, DetectJob ocr j) = performed (run_bib_detect en (gd_storage gd) ocr j)"

lemma performed_keeps: "keeps I m \<Longrightarrow> I s \<Longrightarrow> I (performed m s)"
  by (simp add: keeps_def performed_def)

lemma run_gallery_call_ok:
  "gallery_ok (gd_lower gd) s \<Longrightarrow> gallery_ok (gd_lower gd) (run_gallery_call gd (en, c) s)"
  by (cases c) (simp_all only: run_gallery_call.simps, (rule performed_keeps; simp only: keeps_album_calls
      keeps_request_upload_urls keeps_complete_uploads keeps_bulk_calls keeps_add_tag keeps_tag_calls
      keeps_run_photo_process keeps_run_bib_detect)+)

end
