(* ===== verification/Uuid_Rules.thy ===== *)
theory Uuid_Rules
  imports Studio
begin

text \<open>
  The text of identifiers: what Postgres reads as a \<open>uuid\<close> it writes in one form, which it reads as itself.
\<close>

text \<open>Characters evaluate by their bits.\<close>

lemma lower_char_code [code]:
  "lower_char (Char b0 b1 b2 b3 b4 b5 b6 b7) =
     (if b6 \<and> \<not> b7 \<and> \<not> b5 \<and> (b0 \<or> b1 \<or> b2 \<or> b3 \<or> b4) \<and> \<not> (b4 \<and> b3 \<and> (b2 \<or> b1 \<and> b0))
      then Char b0 b1 b2 b3 b4 True b6 b7 else Char b0 b1 b2 b3 b4 b5 b6 b7)"
  by (cases b0; cases b1; cases b2; cases b3; cases b4; cases b5; cases b6; cases b7;
      simp add: lower_char_def byte_def; code_simp)

lemma hex_digit_code [code]:
  "hex_digit (Char b0 b1 b2 b3 b4 b5 b6 b7) =
     (\<not> b7 \<and> (if b6 then \<not> b4 \<and> \<not> b3 \<and> (b0 \<or> b1 \<or> b2) \<and> \<not> (b0 \<and> b1 \<and> b2)
              else b5 \<and> b4 \<and> (b3 \<longrightarrow> \<not> b2 \<and> \<not> b1)))"
  by (cases b0; cases b1; cases b2; cases b3; cases b4; cases b5; cases b6; cases b7; simp add: hex_digit_def byte_def)

lemma hex_lower: "hex_digit c \<Longrightarrow> hex_digit (lower_char c)"
  by (cases c) (simp only: lower_char_code hex_digit_code if_distrib [of hex_digit], simp split: if_splits)

lemma hex_not_hyphen: "hex_digit c \<Longrightarrow> c \<noteq> CHR ''-'' \<and> c \<noteq> CHR ''{''"
  by (cases c) (auto simp: hex_digit_code)

definition uuid_char :: "char \<Rightarrow> bool" where
  "uuid_char c \<longleftrightarrow> hex_digit c \<and> lower_char c = c"

lemma uuid_digits_chars: "uuid_digits k s = Some ds \<Longrightarrow> length ds = 2 * k \<and> list_all uuid_char ds"
  by (induction k s arbitrary: ds rule: uuid_digits.induct)
    (auto simp: uuid_char_def hex_lower split: if_splits)

lemma uuid_digits_pair:
  "uuid_char a \<Longrightarrow> uuid_char b \<Longrightarrow>
     uuid_digits (Suc k) (a # b # s) = map_option (\<lambda>ds. a # b # ds) (uuid_digits k (skip_hyphen (even k \<and> 0 < k) s))"
  by (simp add: uuid_char_def)

lemma skip_hyphen_simps: "skip_hyphen True (CHR ''-'' # s) = s" "uuid_char c \<Longrightarrow> skip_hyphen b (c # s) = c # s" "skip_hyphen b [] = []"
  by (auto simp: skip_hyphen_def uuid_char_def dest: hex_not_hyphen)

lemma sixteen: "16 = Suc (Suc (Suc (Suc (Suc (Suc (Suc (Suc (Suc (Suc (Suc (Suc (Suc (Suc (Suc (Suc 0)))))))))))))))"
  by simp

lemma uuid_digits_listed:
  "list_all uuid_char [a0, a1, a2, a3, a4, a5, a6, a7, b0, b1, b2, b3, b4, b5, b6, b7, c0, c1, c2, c3, c4, c5, c6, c7, d0, d1, d2, d3, d4, d5, d6, d7] \<Longrightarrow>
   uuid_digits 16 (uuid_text [a0, a1, a2, a3, a4, a5, a6, a7, b0, b1, b2, b3, b4, b5, b6, b7, c0, c1, c2, c3, c4, c5, c6, c7, d0, d1, d2, d3, d4, d5, d6, d7]) =
     Some [a0, a1, a2, a3, a4, a5, a6, a7, b0, b1, b2, b3, b4, b5, b6, b7, c0, c1, c2, c3, c4, c5, c6, c7, d0, d1, d2, d3, d4, d5, d6, d7]"
  unfolding sixteen
  by (simp add: uuid_text_def uuid_digits_pair skip_hyphen_simps del: uuid_digits.simps(2))

lemma uuid_digits_text:
  assumes "length ds = 32" "list_all uuid_char ds"
  shows "uuid_digits 16 (uuid_text ds) = Some ds"
proof -
  have ds: "[ds ! 0, ds ! 1, ds ! 2, ds ! 3, ds ! 4, ds ! 5, ds ! 6, ds ! 7, ds ! 8, ds ! 9, ds ! 10, ds ! 11, ds ! 12, ds ! 13, ds ! 14, ds ! 15, ds ! 16, ds ! 17, ds ! 18, ds ! 19, ds ! 20, ds ! 21, ds ! 22, ds ! 23, ds ! 24, ds ! 25, ds ! 26, ds ! 27, ds ! 28, ds ! 29, ds ! 30, ds ! 31] = ds"
    by (rule nth_equalityI) (use assms(1) in \<open>simp_all add: less_Suc_eq numeral_eq_Suc, auto\<close>)
  from uuid_digits_listed [of "ds ! 0" "ds ! 1" "ds ! 2" "ds ! 3" "ds ! 4" "ds ! 5" "ds ! 6" "ds ! 7" "ds ! 8" "ds ! 9" "ds ! 10" "ds ! 11" "ds ! 12" "ds ! 13" "ds ! 14" "ds ! 15" "ds ! 16" "ds ! 17" "ds ! 18" "ds ! 19" "ds ! 20" "ds ! 21" "ds ! 22" "ds ! 23" "ds ! 24" "ds ! 25" "ds ! 26" "ds ! 27" "ds ! 28" "ds ! 29" "ds ! 30" "ds ! 31", unfolded ds, OF assms(2)]
  show ?thesis .
qed

lemma pg_uuid_idem: "pg_uuid x = Some u \<Longrightarrow> pg_uuid u = Some u"
proof -
  assume "pg_uuid x = Some u"
  then obtain y ds where y: "uuid_digits 16 y = Some ds" "u = uuid_text ds"
    by (auto simp: pg_uuid_def split: option.splits)
  from uuid_digits_chars [OF y(1)] have ds: "length ds = 32" "list_all uuid_char ds" by simp_all
  then obtain c r where c: "ds = c # r" "uuid_char c" by (cases ds) auto
  then have "in_braces u = Some u" by (auto simp: y(2) in_braces_def uuid_text_def uuid_char_def dest: hex_not_hyphen)
  with uuid_digits_text [OF ds] y(2) show ?thesis by (simp add: pg_uuid_def)
qed

end
