(* ===== verification/Gallery_Rules.thy ===== *)
theory Gallery_Rules
  imports Gallery_Props Storage_Rules Uuid_Rules
begin

text \<open>
  What holds of the gallery: its tables stay consistent through any history, every photo is in exactly one
  state, a completed upload is a stored file of its album and becomes one photo, a crew member without the
  review capability sees only their own uploads, listings are complete; and what the detection job does with
  a BIB the photo already has.
\<close>

section \<open>Consistency\<close>

text \<open>C25: Through any history of the gallery's calls and of its jobs, album names stay unique in their event, no
two photos share a stored object, no two photos of an album have both the same file name and the same original
size, a BIB is on a photo once, and every photo stays in an album, every tag on a photo, of its own workspace.\<close>

theorem gallery_consistent:
  assumes "gallery_ok (gd_lower gd) s"
  shows "gallery_ok (gd_lower gd) (fold (run_gallery_call gd) calls s)"
  using assms
proof (induction calls arbitrary: s)
  case (Cons c calls)
  obtain en g where c: "c = (en, g)" by fastforce
  show ?case
    unfolding fold.simps comp_apply c by (rule Cons.IH, rule run_gallery_call_ok, rule Cons.prems)
qed simp

section \<open>States\<close>

text \<open>The status of a photo as the first rule that matches.\<close>

definition derived_state :: "photo \<Rightarrow> tag_row list \<Rightarrow> string" where
  "derived_state p tags =
     (if ph_ocr_status p = OCRPending then (if ph_thumbnail_id p = None then StatePreparing else StateDetecting)
      else if list_ex needs_review tags then StateReview
      else if tags \<noteq> [] \<and> list_all (\<lambda>t. tg_source t = TagSourceManual) tags then StateVerified
      else if tags \<noteq> [] then StateAuto
      else if ph_ocr_status p = OCRFailed then StateFailed
      else StateNoBIB)"

lemma select_none: "length (select q xs) = 0 \<longleftrightarrow> \<not> list_ex q xs"
  by (auto simp: select_def filter_empty_conv list_ex_iff)

lemma select_all: "length (select q xs) = length xs \<longleftrightarrow> list_all q xs"
  using length_filter_less [of _ xs q] by (auto simp: select_def list_all_iff) (metis nat_less_le)

lemma select_some: "length (select q xs) < length xs \<longleftrightarrow> \<not> list_all q xs"
  using select_all [of q xs] length_filter_le [of q xs] unfolding select_def by (simp add: less_le)

text \<open>C26: The filter by state shows each photo under exactly one state, the one of the first rule that
matches: the conditions of the query and the order of the rules agree.\<close>

theorem photo_state_rule:
  assumes "status_ok p" and "state_valid st"
  shows "state_condition st p tags \<longleftrightarrow> st = derived_state p tags"
proof -
  have m: "list_all (\<lambda>t. tg_source t = TagSourceManual) tags \<Longrightarrow> \<not> list_ex needs_review tags"
    by (auto simp: list_all_iff list_ex_iff needs_review_def)
  consider "ph_ocr_status p = OCRPending" | "ph_ocr_status p = OCRProcessed" | "ph_ocr_status p = OCRFailed"
    using assms(1) by (auto simp: status_ok_def)
  then show ?thesis
  proof cases
    case 1
    with assms(2) show ?thesis
      by (auto simp: state_valid_def all_states_def state_condition_def derived_state_def Let_def)
  next
    case 2
    then show ?thesis
      using assms(2) m
      unfolding state_condition_def derived_state_def Let_def neq0_conv [symmetric] select_none select_all select_some
      by (auto simp: state_valid_def all_states_def)
  next
    case 3
    then show ?thesis
      using assms(2) m
      unfolding state_condition_def derived_state_def Let_def neq0_conv [symmetric] select_none select_all select_some
      by (auto simp: state_valid_def all_states_def)
  qed
qed


section \<open>Uploads\<close>

text \<open>A file of the album that has been stored.\<close>

definition stored_upload :: "string \<Rightarrow> string \<Rightarrow> string \<Rightarrow> studio \<Rightarrow> bool" where
  "stored_upload tid aid oid s \<longleftrightarrow>
     (\<exists>o' \<in> set (dp_objects s). ob_id o' = oid \<and> ob_tenant_id o' = Some tid \<and> ob_bucket o' = BucketPrivate \<and>
        prefix (album_prefix aid) (ob_key o') \<and> ob_status o' = ObjectStored)"

lemma stored_upload_marked:
  assumes "stored_upload tid aid oid s"
  shows "stored_upload tid aid oid (s\<lparr>dp_objects := update_where q
     (\<lambda>o'. o'\<lparr>ob_status := ObjectStored, ob_sha := sha, ob_size := sz, ob_updated_at := now\<rparr>) (dp_objects s)\<rparr>)"
proof -
  let ?f = "\<lambda>o'. o'\<lparr>ob_status := ObjectStored, ob_sha := sha, ob_size := sz, ob_updated_at := now\<rparr>"
  from assms obtain o' where o': "o' \<in> set (dp_objects s)" "ob_id o' = oid" "ob_tenant_id o' = Some tid"
    "ob_bucket o' = BucketPrivate" "prefix (album_prefix aid) (ob_key o')" "ob_status o' = ObjectStored"
    by (auto simp: stored_upload_def)
  have "(if q o' then ?f o' else o') \<in> set (update_where q ?f (dp_objects s))"
    using o'(1) by (auto simp: update_where_def)
  then show ?thesis
    unfolding stored_upload_def by (intro bexI [of _ "if q o' then ?f o' else o'"]) (use o' in auto)
qed

lemma keeps_stored_elsewhere [keeps_intros]:
  "keeps (stored_upload tid aid oid) (in_db m)"
  "keeps (stored_upload tid aid oid) (in_vault v)"
  by (rule keepsI; auto simp: in_db_def in_vault_def stored_upload_def split: prod.splits)+

lemma keeps_stored_found_size [keeps_intros]: "keeps (stored_upload tid aid oid) (found_size r bucket t key)"
  by (rule keepsI) (auto simp: found_size_def in_vault_def stored_upload_def split: prod.splits sum.splits if_splits)

lemma keeps_stored_mark [keeps_intros]: "keeps (stored_upload tid aid oid) (mark_stored en t bucket key sha sz)"
  unfolding mark_stored_def mark_stored_where_def
  by (intro keeps_intros keeps_writes) (rule stored_upload_marked)

lemma keeps_stored_confirm [keeps_intros]: "keeps (stored_upload tid aid oid) (confirm_stored en sd t actor x)"
  unfolding confirm_stored_def get_object_by_id_def get_object_where_def object_audit_def by (intro keeps_intros)

lemma keeps_stored_confirm_items: "keeps (stored_upload tid aid oid) (confirm_items en gd t a actor its)"
proof (induction its arbitrary: en)
  case (Cons it its)
  then show ?case unfolding confirm_items.simps confirm_item_def by (intro keeps_intros)
qed (simp add: keeps_intros)

text \<open>What a confirmed object is.\<close>

lemma found_size_objects: "dp_objects (snd (found_size r bucket tid key s)) = dp_objects s"
  by (auto simp: found_size_def in_vault_def split: prod.splits sum.splits)

lemma get_object_by_id_InrE:
  assumes "with_tenant_tx tid (get_object_by_id tid oid) s = (Inr o', s')"
  shows "s' = s \<and> o' \<in> set (dp_objects s) \<and> ob_id o' = oid \<and> ob_tenant_id o' = Some tid"
  using assms unfolding get_object_by_id_def get_object_where_def
  by (elim act_elims) (auto dest: select_one_SomeD)

lemma confirm_stored_object:
  assumes run: "confirm_stored en sd tid actor oid s = (Inr o', s')" and st: "ob_status o' = ObjectStored"
  shows "\<exists>x \<in> set (dp_objects s'). ob_id x = oid \<and> ob_tenant_id x = Some tid \<and> ob_bucket x = ob_bucket o' \<and>
    ob_key x = ob_key o' \<and> ob_status x = ObjectStored"
proof -
  let ?rest = "\<lambda>o'. if ob_status o' = ObjectStored then ret o'
     else case direct_driver (sd_store sd) of
       None \<Rightarrow> ret o'
     | Some r \<Rightarrow>
         and_then (found_size r (ob_bucket o') tid (ob_key o')) (\<lambda>n.
         case n of
           None \<Rightarrow> ret o'
         | Some sz \<Rightarrow>
             and_then (with_tenant_tx tid
               (and_then (mark_stored en tid (ob_bucket o') (ob_key o') None sz) (\<lambda>_.
                object_audit en 0 tid (Some actor) ''object.stored''
                  [(''bucket'', MetaText (ob_bucket o')), (''key'', MetaText (ob_key o')), (''size_bytes'', MetaInt sz)]))) (\<lambda>_.
             ret (o'\<lparr>ob_status := ObjectStored, ob_size := sz\<rparr>)))"
  obtain x t where x: "with_tenant_tx tid (get_object_by_id tid oid) s = (Inr x, t)" and rest: "?rest x t = (Inr o', s')"
    using run unfolding confirm_stored_def by (rule and_then_InrE)
  note x' = get_object_by_id_InrE [OF x]
  show ?thesis
  proof (cases "ob_status x = ObjectStored")
    case True
    with rest x' show ?thesis by (auto simp: ret_def)
  next
    case False
    with st rest obtain r where "direct_driver (sd_store sd) = Some r"
      by (auto simp: ret_def split: option.splits)
    with False rest obtain n u where n: "found_size r (ob_bucket x) tid (ob_key x) t = (Inr n, u)"
      and after: "(case n of
           None \<Rightarrow> ret x
         | Some sz \<Rightarrow>
             and_then (with_tenant_tx tid
               (and_then (mark_stored en tid (ob_bucket x) (ob_key x) None sz) (\<lambda>_.
                object_audit en 0 tid (Some actor) ''object.stored''
                  [(''bucket'', MetaText (ob_bucket x)), (''key'', MetaText (ob_key x)), (''size_bytes'', MetaInt sz)]))) (\<lambda>_.
             ret (x\<lparr>ob_status := ObjectStored, ob_size := sz\<rparr>))) u = (Inr o', s')"
      by (auto elim: and_then_InrE)
    from after False st obtain sz where sz: "n = Some sz" by (cases n) (auto simp: ret_def)
    from found_size_objects [of r "ob_bucket x" tid "ob_key x" t] n x' have u: "x \<in> set (dp_objects u)" by simp
    let ?f = "\<lambda>o'. o'\<lparr>ob_status := ObjectStored, ob_sha := None, ob_size := sz, ob_updated_at := e_now en\<rparr>"
    from after have o': "o' = x\<lparr>ob_status := ObjectStored, ob_size := sz\<rparr>"
      and s': "dp_objects s' = update_where (tenant_object tid (ob_bucket x) (ob_key x)) ?f (dp_objects u)"
      unfolding sz option.case mark_stored_def mark_stored_where_def object_audit_def
      by (elim act_elims; auto simp: in_db_def split: prod.splits)+
    have "?f x \<in> set (dp_objects s')"
      using u x' by (auto simp: s' set_update_where tenant_object_def)
    with x' o' show ?thesis by (intro bexI [of _ "?f x"]) simp_all
  qed
qed

lemma confirm_item_accepted:
  assumes "confirm_item en gd tid aid actor it s = (Inr (Inr o'), s')"
  shows "(\<exists>u. pg_uuid (ci_storage_id it) = Some u \<and> stored_upload tid aid u s') \<and> ob_size o' \<le> max_stored_bytes"
proof -
  obtain x t where x: "attempt (with_uuid (ci_storage_id it) (confirm_stored en (gd_storage gd) tid actor)) s =
       ((Inr x, t) :: (go_error + (go_error + object_row)) \<times> studio)"
    and rest: "(case x of
       Inl e \<Rightarrow> if errors_is e ErrNotFound then ret (Inl ''not an uploaded file of this workspace'') else fail e
     | Inr o' \<Rightarrow> ret (case rejection aid it o' of None \<Rightarrow> Inr o' | Some why \<Rightarrow> Inl why)) t = (Inr (Inr o'), s')"
    using assms unfolding confirm_item_def by (rule and_then_InrE)
  from rest have xo: "x = Inr o'" "rejection aid it o' = None" "s' = t"
    by (auto simp: ret_def fail_def split: sum.splits if_splits option.splits)
  from x xo have "with_uuid (ci_storage_id it) (confirm_stored en (gd_storage gd) tid actor) s = (Inr o', s')"
    by (simp add: attempt_def split: prod.splits)
  then obtain u where u: "pg_uuid (ci_storage_id it) = Some u" "confirm_stored en (gd_storage gd) tid actor u s = (Inr o', s')"
    by (rule with_uuid_InrE)
  from xo(2) have o': "ob_bucket o' = BucketPrivate" "prefix (album_prefix aid) (ob_key o')" "ob_status o' = ObjectStored"
    "ob_size o' \<le> max_stored_bytes"
    by (auto simp: rejection_def has_prefix_def split: if_splits)
  from confirm_stored_object [OF u(2) o'(3)] o' u(1) show ?thesis
    by (auto simp: stored_upload_def)
qed

lemma confirm_items_accepted:
  assumes "confirm_items en gd tid aid actor its s = (Inr vs, s')" "(it, Inr o') \<in> set vs"
  shows "it \<in> set its \<and> (\<exists>u. pg_uuid (ci_storage_id it) = Some u \<and> stored_upload tid aid u s') \<and>
    ob_size o' \<le> max_stored_bytes"
  using assms
proof (induction its arbitrary: en s vs)
  case (Cons i its)
  from Cons.prems(1) obtain v t ws where v: "confirm_item en gd tid aid actor i s = (Inr v, t)"
    and ws: "confirm_items (later 1 en) gd tid aid actor its t = (Inr ws, s')" and vs: "vs = (i, v) # ws"
    unfolding confirm_items.simps by (elim act_elims) blast
  from Cons.prems(2) vs consider "it = i" "v = Inr o'" | "(it, Inr o') \<in> set ws" by auto
  then show ?case
  proof cases
    case 1
    with confirm_item_accepted [of en gd tid aid actor i s o' t] v
      keepsD [OF keeps_stored_confirm_items _ ws] show ?thesis by auto
  next
    case 2
    from Cons.IH [OF ws 2] show ?thesis by simp
  qed
qed (simp add: ret_def)

text \<open>The photo an item becomes.\<close>

definition made_from :: "string \<Rightarrow> string \<Rightarrow> string \<Rightarrow> complete_item \<Rightarrow> object_row \<Rightarrow> photo \<Rightarrow> bool" where
  "made_from tid aid actor it o' p \<longleftrightarrow> ph_tenant_id p = tid \<and> pg_uuid aid = Some (ph_album_id p) \<and>
     pg_uuid (ci_storage_id it) = Some (ph_original_id p) \<and> ph_created_by p = actor \<and>
     ph_filename p = path_base (ci_filename it) \<and> ph_original_size p = ci_size it \<and> ph_size p = ob_size o' \<and>
     ph_ocr_status p = OCRPending"

lemma insert_photo_InrE:
  assumes "insert_photo (new_photo en k tid aid actor it o') s = (Inr b, s')"
  obtains "\<not> b" "s' = s"
  | p where "b" "s' = s\<lparr>st_photos := st_photos s @ [p]\<rparr>" "made_from tid aid actor it o' p"
      "ph_original_id p \<notin> ph_original_id ` set (st_photos s)" "ph_id p = e_uuid en k"
proof -
  let ?n = "new_photo en k tid aid actor it o'"
  from assms obtain a x where u: "pg_uuid aid = Some a" "pg_uuid (ci_storage_id it) = Some x"
    and rest: "(if taken photo_original_key (st_photos s) (?n\<lparr>ph_album_id := a, ph_original_id := x\<rparr>) then ret False
     else and_then (reads (\<lambda>s. photo_violation s (st_photos s) (?n\<lparr>ph_album_id := a, ph_original_id := x\<rparr>))) (\<lambda>v.
       and_then (sql_check sql_fails v) (\<lambda>_.
       and_then (writes (\<lambda>s. s\<lparr>st_photos := st_photos s @ [?n\<lparr>ph_album_id := a, ph_original_id := x\<rparr>]\<rparr>)) (\<lambda>_. ret True)))) s
       = (Inr b, s')"
    unfolding insert_photo_def Let_def by (elim act_elims) (auto simp: new_photo_def)
  let ?p = "?n\<lparr>ph_album_id := a, ph_original_id := x\<rparr>"
  show thesis
  proof (cases "taken photo_original_key (st_photos s) ?p")
    case True
    with rest that(1) show thesis by (simp add: ret_def)
  next
    case False
    from rest have s': "b" "s' = s\<lparr>st_photos := st_photos s @ [?p]\<rparr>"
      unfolding if_not_P [OF False] by (elim act_elims; simp)+
    have "x \<notin> ph_original_id ` set (st_photos s)"
      using False by (auto simp: taken_def photo_original_key_def list_ex_iff)
    with that(2) [of ?p] s' u show thesis by (simp add: made_from_def new_photo_def)
  qed
qed

lemma complete_item_InrE:
  assumes "complete_item en k tid aid actor it o' s = (Inr r, s')"
  obtains "cr_status r = CompleteExists" "s' = s"
  | p where "cr_status r = CompleteCreated" "cr_photo_id r = ph_id p" "s' = s\<lparr>st_photos := st_photos s @ [p]\<rparr>"
      "made_from tid aid actor it o' p" "ph_original_id p \<notin> ph_original_id ` set (st_photos s)"
proof -
  have same: "snd (photo_id_by_storage tid x s) = s" for x s
    by (auto simp: photo_id_by_storage_def with_uuid_def and_then_def reads_def found_def of_option_def fail_def ret_def
        split: option.splits)
  from assms obtain b t where b: "insert_photo (new_photo en k tid aid actor it o') s = (Inr b, t)"
    and rest: "(if b then ret \<lparr>cr_storage_id = ci_storage_id it, cr_photo_id = e_uuid en k, cr_status = CompleteCreated, cr_reason = ''''\<rparr>
      else and_then (attempt (photo_id_by_storage tid (ci_storage_id it))) (\<lambda>r.
       ret \<lparr>cr_storage_id = ci_storage_id it, cr_photo_id = (case r of Inl e \<Rightarrow> '''' | Inr x \<Rightarrow> x),
            cr_status = CompleteExists, cr_reason = ''''\<rparr>)) t = ((Inr r, s') :: (go_error + complete_result) \<times> studio)"
    unfolding complete_item_def by (rule and_then_InrE)
  from b show thesis
  proof (cases rule: insert_photo_InrE)
    case 1
    with rest same [of "ci_storage_id it" s] show thesis
      by (intro that(1)) (auto simp: and_then_def attempt_def ret_def split: prod.splits)
  next
    case (2 p)
    with rest show thesis by (intro that(2) [of p]) (auto simp: ret_def)
  qed
qed

lemma complete_items_photos:
  assumes "complete_items en k tid aid actor vs s = (Inr rs, s')"
  shows "\<exists>ps. s' = s\<lparr>st_photos := st_photos s @ ps\<rparr> \<and> map ph_id ps = created_ids rs \<and>
    (\<forall>p \<in> set ps. (\<exists>it o'. (it, Inr o') \<in> set vs \<and> made_from tid aid actor it o' p) \<and>
      ph_original_id p \<notin> ph_original_id ` set (st_photos s))"
  using assms
proof (induction vs arbitrary: k s rs)
  case Nil
  then show ?case by (auto simp: ret_def created_ids_def select_def)
next
  case (Cons iv vs)
  obtain it v where iv: "iv = (it, v)" by fastforce
  from Cons.prems obtain r t qs where r: "(case v of
         Inl why \<Rightarrow> ret \<lparr>cr_storage_id = ci_storage_id it, cr_photo_id = '''', cr_status = CompleteRejected, cr_reason = why\<rparr>
       | Inr o' \<Rightarrow> complete_item en k tid aid actor it o') s = (Inr r, t)"
    and qs: "complete_items en (Suc k) tid aid actor vs t = (Inr qs, s')" and rs: "rs = r # qs"
    unfolding iv complete_items.simps by (elim act_elims) blast
  from Cons.IH [OF qs] obtain ps where ps: "s' = t\<lparr>st_photos := st_photos t @ ps\<rparr>" "map ph_id ps = created_ids qs"
    "\<forall>p \<in> set ps. (\<exists>it o'. (it, Inr o') \<in> set vs \<and> made_from tid aid actor it o' p) \<and>
      ph_original_id p \<notin> ph_original_id ` set (st_photos t)" by blast
  consider "cr_status r \<noteq> CompleteCreated" "t = s"
    | o' p where "v = Inr o'" "cr_status r = CompleteCreated" "cr_photo_id r = ph_id p" "t = s\<lparr>st_photos := st_photos s @ [p]\<rparr>"
      "made_from tid aid actor it o' p" "ph_original_id p \<notin> ph_original_id ` set (st_photos s)"
  proof (cases v)
    case (Inl why)
    with r that(1) show thesis by (auto simp: ret_def)
  next
    case (Inr o')
    with r have "complete_item en k tid aid actor it o' s = (Inr r, t)" by simp
    then show thesis by (cases rule: complete_item_InrE) (use that Inr in auto)
  qed
  then show ?case
  proof cases
    case 1
    have "\<forall>p \<in> set ps. (\<exists>it o'. (it, Inr o') \<in> set (iv # vs) \<and> made_from tid aid actor it o' p) \<and>
        ph_original_id p \<notin> ph_original_id ` set (st_photos s)"
      using ps(3) unfolding 1(2) by (meson list.set_intros(2))
    moreover have "created_ids rs = created_ids qs" using 1(1) by (simp add: rs created_ids_def select_def)
    ultimately show ?thesis using ps(1,2) 1(2) by (intro exI [of _ ps]) simp
  next
    case (2 o' p)
    have "\<forall>q \<in> set ps. (\<exists>it o'. (it, Inr o') \<in> set (iv # vs) \<and> made_from tid aid actor it o' q) \<and>
        ph_original_id q \<notin> ph_original_id ` set (st_photos s)"
      using ps(3) 2(4) by (simp add: image_Un) (meson list.set_intros(2))
    moreover have "(it, Inr o') \<in> set (iv # vs)" by (simp add: iv 2(1))
    ultimately have "\<forall>q \<in> set (p # ps). (\<exists>it o'. (it, Inr o') \<in> set (iv # vs) \<and> made_from tid aid actor it o' q) \<and>
        ph_original_id q \<notin> ph_original_id ` set (st_photos s)"
      using 2(5,6) unfolding list.set(2) ball_simps(7) by blast
    moreover have "created_ids rs = ph_id p # created_ids qs" using 2(2,3) by (simp add: rs created_ids_def select_def)
    ultimately show ?thesis using ps(1,2) 2(4) by (intro exI [of _ "p # ps"]) simp
  qed
qed


lemma keeps_stored_queue_jobs: "keeps (stored_upload tid aid oid) (queue_photo_jobs en up t e a actor ids)"
proof -
  have q: "keeps (stored_upload tid aid oid) (in_queue m)" for m :: "'b queued"
    by (rule keepsI) (auto simp: in_queue_def stored_upload_def split: prod.splits)
  show ?thesis unfolding queue_photo_jobs_def by (intro keeps_intros q)
qed

lemma keeps_stored_audit: "keeps (stored_upload tid aid oid) (album_audit en k t actor a md)"
  unfolding album_audit_def object_audit_def by (intro keeps_intros)

text \<open>The run of a successful completion, seen from its photos.\<close>

lemma complete_uploads_photos:
  assumes "complete_uploads en gd tid eid aid actor items s = (Inr (rs, job), s')"
  shows "\<exists>ps. st_photos s' = st_photos s @ ps \<and> map ph_id ps = created_ids rs \<and> (created_ids rs = [] \<longrightarrow> job = '''') \<and>
    (\<forall>p \<in> set ps. ph_original_id p \<notin> ph_original_id ` set (st_photos s) \<and>
      stored_upload tid aid (ph_original_id p) s' \<and> ph_size p \<le> max_stored_bytes \<and>
      (\<exists>it \<in> set items. \<exists>o'. made_from tid aid actor it o' p))"
proof -
  let ?n = "length items"
  let ?tx = "\<lambda>vs. and_then (complete_items en ?n tid aid actor vs) (\<lambda>rs.
         if created_ids rs = [] then ret rs
         else and_then (album_audit en (2 * ?n) tid actor ''photo.uploaded''
             [(''album_id'', MetaText aid), (''event_id'', MetaText eid),
              (''photos'', MetaInt (int (length (created_ids rs))))]) (\<lambda>_. ret rs))"
  let ?queue = "\<lambda>rs. case gd_queue gd of
          Some up \<Rightarrow> if created_ids rs = [] then ret ''''
            else queue_photo_jobs (later (2 * ?n + 1) en) up tid eid aid actor (created_ids rs)
        | None \<Rightarrow> ret ''''"
  from assms obtain v s0 vs s1 s2 where a: "with_tenant_tx tid (get_album_row tid eid aid) s = (Inr v, s0)"
    and vs: "confirm_items en gd tid aid actor items s0 = (Inr vs, s1)"
    and tx: "with_tenant_tx tid (?tx vs) s1 = (Inr rs, s2)" and q: "?queue rs s2 = (Inr job, s')"
    unfolding complete_uploads_def Let_def by (elim guard_InrE and_then_InrE ret_InrE) (unfold prod.inject, elim conjE, hypsubst, blast)
  from a have s0: "s0 = s" by (elim with_tenant_tx_InrE) (auto dest: get_album_row_found)
  have s1: "st_photos s1 = st_photos s"
    using off_shelf_confirm_items [of en gd tid aid actor items] vs
    by (simp add: off_shelf_def shelf_def s0) (metis snd_conv)
  let ?rest = "\<lambda>rs. if created_ids rs = [] then ret rs
         else and_then (album_audit en (2 * ?n) tid actor ''photo.uploaded''
             [(''album_id'', MetaText aid), (''event_id'', MetaText eid),
              (''photos'', MetaInt (int (length (created_ids rs))))]) (\<lambda>_. ret rs)"
  from tx obtain rs0 t where t0: "complete_items en ?n tid aid actor vs s1 = (Inr rs0, t)" "?rest rs0 t = (Inr rs, s2)"
    by (elim with_tenant_tx_InrE and_then_InrE) blast
  from t0(2) have eq: "rs0 = rs"
    by (cases "created_ids rs0 = []") (auto simp: ret_def elim!: and_then_InrE)
  note t = t0(1) [unfolded eq] and rest = t0(2) [unfolded eq]
  have u2: "keeps (stored_upload tid aid oid) (?rest rs)" for oid
    by (intro keeps_intros keeps_stored_audit)
  have p2: "keeps (\<lambda>s. shelf s = x) (?rest rs)" for x
    unfolding album_audit_def by (intro keeps_intros)
  have u3: "keeps (stored_upload tid aid oid) (?queue rs)" for oid
    by (intro keeps_intros keeps_stored_queue_jobs)
  have p3: "keeps (\<lambda>s. shelf s = x) (?queue rs)" for x
    using off_shelf_queue_jobs by (intro keeps_intros) (auto simp: off_shelf_def keeps_def)
  have sh: "shelf s' = shelf t"
    using keepsD [OF p3 _ q] keepsD [OF p2 _ rest] by metis
  from complete_items_photos [OF t] obtain ps where ps: "t = s1\<lparr>st_photos := st_photos s1 @ ps\<rparr>" "map ph_id ps = created_ids rs"
    "\<forall>p \<in> set ps. (\<exists>it o'. (it, Inr o') \<in> set vs \<and> made_from tid aid actor it o' p) \<and>
      ph_original_id p \<notin> ph_original_id ` set (st_photos s1)" by blast
  have one: "ph_original_id p \<notin> ph_original_id ` set (st_photos s) \<and>
      stored_upload tid aid (ph_original_id p) s' \<and> ph_size p \<le> max_stored_bytes \<and>
      (\<exists>it \<in> set items. \<exists>o'. made_from tid aid actor it o' p)" if p: "p \<in> set ps" for p
  proof -
    from ps(3) p obtain it o' where it: "(it, Inr o') \<in> set vs" "made_from tid aid actor it o' p"
      "ph_original_id p \<notin> ph_original_id ` set (st_photos s1)" by blast
    from confirm_items_accepted [OF vs it(1)] it(2) have c: "it \<in> set items" "stored_upload tid aid (ph_original_id p) s1"
      "ph_size p \<le> max_stored_bytes" by (auto simp: made_from_def)
    from c(2) have "stored_upload tid aid (ph_original_id p) t" by (simp add: ps(1) stored_upload_def)
    from keepsD [OF u3 keepsD [OF u2 this rest] q] c it s1 show ?thesis by auto
  qed
  have "st_photos s' = st_photos s @ ps" using sh by (simp add: shelf_def ps(1) s1)
  moreover have "created_ids rs = [] \<longrightarrow> job = ''''" using q by (auto simp: ret_def split: option.splits)
  ultimately show ?thesis using ps(2) one by blast
qed

text \<open>C27: What completing uploads creates: each new photo stands for an object of this workspace that is
stored in the private bucket under the prefix of this album, within the size limit; it is the uploader's, in
this album, waiting for detection, and its object had no photo before. No photo is lost or changed.\<close>

theorem completed_uploads_rule:
  assumes "complete_uploads en gd tid eid aid actor items s = (Inr (rs, job), s')"
  shows "\<exists>ps. st_photos s' = st_photos s @ ps \<and> map ph_id ps = created_ids rs \<and>
    (\<forall>p \<in> set ps.
      (\<exists>o' \<in> set (dp_objects s'). ob_id o' = ph_original_id p \<and> ob_tenant_id o' = Some tid \<and>
         ob_bucket o' = BucketPrivate \<and> prefix (''photos/'' @ aid @ ''/'') (ob_key o') \<and> ob_status o' = ObjectStored) \<and>
      ph_size p \<le> 20971520 \<and> ph_tenant_id p = tid \<and> pg_uuid aid = Some (ph_album_id p) \<and> ph_created_by p = actor \<and>
      ph_ocr_status p = OCRPending \<and> ph_original_id p \<notin> ph_original_id ` set (st_photos s))"
proof -
  from complete_uploads_photos [OF assms] obtain ps where ps: "st_photos s' = st_photos s @ ps" "map ph_id ps = created_ids rs"
    "\<forall>p \<in> set ps. ph_original_id p \<notin> ph_original_id ` set (st_photos s) \<and>
      stored_upload tid aid (ph_original_id p) s' \<and> ph_size p \<le> max_stored_bytes \<and>
      (\<exists>it \<in> set items. \<exists>o'. made_from tid aid actor it o' p)" by blast
  then show ?thesis
    by (intro exI [of _ ps] conjI ballI)
      (auto simp: stored_upload_def album_prefix_def made_from_def max_stored_bytes_def)
qed

text \<open>Completing again what is complete makes nothing: no photo, no job.\<close>

lemma completing_again_is_harmless:
  assumes "complete_uploads en gd tid eid aid actor items s = (Inr (rs, job), s')"
    and "\<And>it. it \<in> set items \<Longrightarrow> \<exists>p \<in> set (st_photos s). pg_uuid (ci_storage_id it) = Some (ph_original_id p)"
  shows "st_photos s' = st_photos s \<and> created_ids rs = [] \<and> job = ''''"
proof -
  from complete_uploads_photos [OF assms(1)] obtain ps where ps: "st_photos s' = st_photos s @ ps" "map ph_id ps = created_ids rs"
    "created_ids rs = [] \<longrightarrow> job = ''''"
    "\<forall>p \<in> set ps. ph_original_id p \<notin> ph_original_id ` set (st_photos s) \<and>
      (\<exists>it \<in> set items. \<exists>o'. made_from tid aid actor it o' p)" by blast
  have "ps = []"
  proof (rule ccontr)
    assume "ps \<noteq> []"
    then obtain p where "p \<in> set ps" by (cases ps) auto
    with ps(4) obtain it o' where "it \<in> set items" "made_from tid aid actor it o' p"
      "ph_original_id p \<notin> ph_original_id ` set (st_photos s)" by blast
    with assms(2) [of it] show False by (auto simp: made_from_def)
  qed
  with ps show ?thesis by simp
qed


section \<open>Listings\<close>

lemma cut_page_items:
  "av \<in> set (pg_items (cut_page limit enc (take n (newest pos q c rows)))) \<Longrightarrow> av \<in> set rows \<and> q av"
  by (auto simp: cut_page_def newest_def set_select dest!: in_set_takeD split: if_splits)

lemma optional_uuid_InrE [act_elims]:
  assumes "optional_uuid x f s = (Inr a, s')"
  obtains u where "u = '''' \<and> x = '''' \<or> x \<noteq> '''' \<and> pg_uuid x = Some u" "f u s = (Inr a, s')"
  using assms by (cases "x = ''''") (auto simp: optional_uuid_def elim: with_uuid_InrE)

text \<open>What a page of photos shows.\<close>

lemma list_photos_shows:
  assumes "list_photos tid eid f pg s = (Inr out, s')" and "av \<in> set (pg_items out)"
  shows "s' = s \<and> av \<in> set (joined_photos s tid) \<and> pg_uuid eid = Some (ab_event_id (fst av)) \<and>
    (pf_album f \<noteq> '''' \<longrightarrow> pg_uuid (pf_album f) = Some (ph_album_id (pv_row (snd av)))) \<and>
    (pf_uploader f \<noteq> '''' \<longrightarrow> pg_uuid (pf_uploader f) = Some (ph_created_by (pv_row (snd av)))) \<and>
    (pf_public_only f \<longrightarrow> ab_is_public (fst av)) \<and>
    (pf_bib f \<noteq> '''' \<longrightarrow> list_ex (has_bib (pf_bib f)) (pv_tags (snd av))) \<and>
    state_condition (pf_state f) (pv_row (snd av)) (pv_tags (snd av))"
proof -
  from assms(1) obtain e a u ids where e: "pg_uuid eid = Some e"
    and a: "a = '''' \<and> pf_album f = '''' \<or> pf_album f \<noteq> '''' \<and> pg_uuid (pf_album f) = Some a"
    and u: "u = '''' \<and> pf_uploader f = '''' \<or> pf_uploader f \<noteq> '''' \<and> pg_uuid (pf_uploader f) = Some u"
    and out: "out = cut_page (normalize_limit pg) (\<lambda>av. cursor_of (photo_position av)) (take (normalize_limit pg + 1)
         (newest photo_position (photo_listed tid e (f\<lparr>pf_album := a, pf_uploader := u, pf_ids := ids\<rparr>)) (pg_cursor pg)
           (joined_photos s tid)))" and s: "s' = s"
    unfolding list_photos_def list_photo_rows_def Let_def by (elim act_elims) (hypsubst, blast)
  from cut_page_items [OF assms(2) [unfolded out]] have l: "av \<in> set (joined_photos s tid)"
    "photo_listed tid e (f\<lparr>pf_album := a, pf_uploader := u, pf_ids := ids\<rparr>) av" by simp_all
  have nonempty: "x \<noteq> ''''" if "pg_uuid y = Some x" for x y
    using that by (auto simp: pg_uuid_def uuid_text_def split: option.splits)
  from l e a u s nonempty show ?thesis
    by (auto simp: photo_listed_def Let_def)
qed

text \<open>C28: On the photos route a caller without the review capability sees only photos they uploaded,
whatever the query asks for, and nobody sees a photo of another event or workspace.\<close>

theorem crew_sees_own_uploads:
  assumes "serve_photos acc uid eid mine f pg s = (Inr out, s')" and "uid \<noteq> ''''"
    and "av \<in> set (pg_items out)"
  shows "s' = s \<and> ph_tenant_id (pv_row (snd av)) = access_tenant acc \<and> pg_uuid eid = Some (ab_event_id (fst av)) \<and>
    ((\<not> access_has acc ''gallery:review'' \<or> mine) \<longrightarrow> pg_uuid uid = Some (ph_created_by (pv_row (snd av))))"
proof -
  from assms(1) have run: "list_photos (access_tenant acc) eid (own_uploads_only acc uid mine f) pg s = (Inr out, s')"
    unfolding serve_photos_def by (rule guard_InrE)
  note shown = list_photos_shows [OF run assms(3)]
  from shown obtain p u o' where "ph_tenant_id p = access_tenant acc" "snd av = view_photo s (access_tenant acc) p u o'"
    by (metis joined_photoD)
  then have "ph_tenant_id (pv_row (snd av)) = access_tenant acc" by (simp add: view_photo_def)
  moreover have "\<not> access_has acc ''gallery:review'' \<or> mine \<Longrightarrow> pf_uploader (own_uploads_only acc uid mine f) = uid"
    by (auto simp: own_uploads_only_def)
  ultimately show ?thesis using shown assms(2) by auto
qed

definition photos_listed :: "studio \<times> string \<times> string \<times> photo_filter \<Rightarrow> bool" where
  "photos_listed q \<longleftrightarrow> unique_on photo_pk (st_photos (fst q)) \<and>
     list_all (\<lambda>p. in_int64 (ph_created_at p)) (st_photos (fst q))"

lemma joined_positions_distinct:
  "unique_on photo_pk ps \<Longrightarrow> distinct (map photo_position (List.map_filter (join_photo s tid) ps))"
proof (induction ps)
  case (Cons p ps)
  have ids: "\<exists>r \<in> set qs. ph_id r = snd (photo_position w)" if "w \<in> set (List.map_filter (join_photo s tid) qs)" for w qs
    using that by (auto simp: List.map_filter_def join_photo_def view_photo_def photo_position_def split: if_splits option.splits)
  from Cons have IH: "distinct (map photo_position (List.map_filter (join_photo s tid) ps))" by simp
  show ?case
  proof (cases "join_photo s tid p")
    case None
    with IH show ?thesis by (simp add: List.map_filter_simps)
  next
    case (Some v)
    then have v: "snd (photo_position v) = ph_id p"
      by (auto simp: join_photo_def view_photo_def photo_position_def split: if_splits option.splits)
    have "photo_position v \<noteq> photo_position w" if "w \<in> set (List.map_filter (join_photo s tid) ps)" for w
      using ids [OF that] Cons.prems v by (auto simp: photo_pk_def list_all_iff)
    with Some IH show ?thesis by (auto simp: List.map_filter_simps)
  qed
qed (simp add: List.map_filter_simps)

interpretation event_photos: newest_listing "\<lambda>q. joined_photos (fst q) (fst (snd q))"
    "\<lambda>q. photo_listed (fst (snd q)) (fst (snd (snd q))) (snd (snd (snd q)))" photo_position photos_listed
proof
  show "distinct (map photo_position (joined_photos (fst q) (fst (snd q))))" if "photos_listed q" for q
    unfolding joined_photos_def by (rule joined_positions_distinct) (use that in \<open>simp add: photos_listed_def\<close>)
  show "in_int64 (fst (photo_position w))" if "photos_listed q" "w \<in> set (joined_photos (fst q) (fst (snd q)))" for q w
    using joined_photoD [OF that(2)] that(1)
    by (metis fst_conv list_all_iff photo_position_def photo_view.select_convs(1) photos_listed_def view_photo_def)
qed

text \<open>A filter as its texts are read.\<close>

definition settled_filter :: "photo_filter \<Rightarrow> bool" where
  "settled_filter f \<longleftrightarrow> (pf_state f = '''' \<or> state_valid (pf_state f)) \<and>
     (pf_album f = '''' \<or> is_uuid (pf_album f) \<and> pg_uuid (pf_album f) = Some (pf_album f)) \<and>
     (pf_uploader f = '''' \<or> pg_uuid (pf_uploader f) = Some (pf_uploader f)) \<and>
     list_all (\<lambda>x. pg_uuid x = Some x) (pf_ids f) \<and> (pf_bib f = '''' \<or> bib_in_range (parse_bib_number (pf_bib f)))"

lemma list_photos_fetch:
  assumes "tid \<noteq> ''''" "settled_filter f" "pg_uuid eid = Some eid"
  shows "list_photos tid eid f pg s =
     (Inr (event_photos.fetch (s, tid, eid, f) (normalize_limit pg) (pg_cursor pg)), s)"
proof -
  have ids: "list_all (\<lambda>x. pg_uuid x \<noteq> None) (pf_ids f)" "map (\<lambda>x. the (pg_uuid x)) (pf_ids f) = pf_ids f"
    using assms(2) by (auto simp: settled_filter_def list_all_iff intro: map_idI)
  have album: "optional_uuid (pf_album f) g = g (pf_album f)" and up: "optional_uuid (pf_uploader f) h = h (pf_uploader f)"
    for g :: "string \<Rightarrow> 'a studio_act" and h :: "string \<Rightarrow> 'a studio_act"
    using assms(2) by (auto simp: settled_filter_def optional_uuid_def with_uuid_def)
  have gs: "pf_state f = '''' \<or> state_valid (pf_state f)" "pf_album f = '''' \<or> is_uuid (pf_album f)"
    "pf_bib f = '''' \<or> bib_in_range (parse_bib_number (pf_bib f))"
    using assms(2) by (auto simp: settled_filter_def)
  show ?thesis
    using assms(1) gs
    by (simp add: list_photos_def with_tenant_tx_def with_tx_def list_photo_rows_def with_uuid_def assms(3) album up
        with_uuids_def ids(2) ids(1) [unfolded not_None_eq] sql_check_def act_simps Let_def event_photos.fetch_def event_photos.after_def)
qed

text \<open>A client that follows the cursors of a listing of photos.\<close>

fun read_photos :: "nat \<Rightarrow> string \<Rightarrow> string \<Rightarrow> photo_filter \<Rightarrow> int \<Rightarrow> string \<Rightarrow> studio \<Rightarrow> (album \<times> photo_view) list option" where
  "read_photos 0 tid eid f limit cursor s = None"
| "read_photos (Suc n) tid eid f limit cursor s =
     (case list_photos tid eid f \<lparr>pg_limit = limit, pg_cursor = cursor\<rparr> s of
        (Inl e, s') \<Rightarrow> None
      | (Inr pg, s') \<Rightarrow>
          if pg_next_cursor pg = '''' then Some (pg_items pg)
          else map_option ((@) (pg_items pg)) (read_photos n tid eid f limit (pg_next_cursor pg) s))"

lemma photo_pages_complete:
  assumes "photos_listed (s, tid, eid, f)" "tid \<noteq> ''''" "settled_filter f" "pg_uuid eid = Some eid"
    and "n = length (select (photo_listed tid eid f) (joined_photos s tid))"
  shows "read_photos (Suc n) tid eid f limit '''' s =
     Some (rev (sort_key photo_position (select (photo_listed tid eid f) (joined_photos s tid))))"
proof -
  have walk: "read_photos m tid eid f limit c s =
      event_photos.walk m (s, tid, eid, f) (normalize_limit \<lparr>pg_limit = limit, pg_cursor = ''''\<rparr>) c" for m c
    by (induction m arbitrary: c)
      (simp_all add: list_photos_fetch [OF assms(2-4)] normalize_limit_def Let_def)
  show ?thesis
    unfolding walk
    using event_photos.pages_newest [OF assms(1), of "normalize_limit \<lparr>pg_limit = limit, pg_cursor = ''''\<rparr>" n] assms(5)
    by (simp add: normalize_limit_bounds)
qed

section \<open>Readings\<close>

lemma aborted_stays:
  "insert_readings en tid pid True n ds s = ((err, m, b), s') \<Longrightarrow> err \<noteq> None \<or> b"
  by (cases ds) auto

lemma duplicate_fails:
  assumes "t \<in> set (st_tags s)" "tg_photo_id t = pid" "tg_bib t = fst d"
  shows "\<exists>e. insert_ocr_tag (ocr_tag en tid pid d) s = (Inl e, s)"
proof (cases "ocr_columns (ocr_tag en tid pid d)")
  case (Some t')
  then have "tg_photo_id t' = pid" "tg_bib t' = fst d"
    by (auto simp: ocr_columns_def ocr_tag_def split: option.splits)
  with assms have "taken tag_bib_key (st_tags s) t'"
    by (auto simp: taken_def tag_bib_key_def list_ex_iff)
  then have "tag_violation s (st_tags s) t' \<noteq> None" by (simp add: tag_violation_def)
  then show ?thesis by (auto simp: insert_ocr_tag_def Some act_simps)
qed (simp add: insert_ocr_tag_def act_simps)

lemma tags_only_grow:
  assumes "insert_ocr_tag x s = (r, s')" "t \<in> set (st_tags s)"
  shows "t \<in> set (st_tags s')"
  using assms by (auto simp: insert_ocr_tag_def act_simps on_error_def split: option.splits)

lemma duplicate_ends_badly:
  assumes "t \<in> set (st_tags s)" "tg_photo_id t = pid" "tg_bib t = fst d" "d \<in> set ds"
    and "insert_readings en tid pid b n ds s = ((err, m, c), s')"
  shows "err \<noteq> None \<or> c"
  using assms
proof (induction ds arbitrary: en b n s)
  case (Cons x ds)
  obtain r u where r: "insert_ocr_tag (ocr_tag en tid pid x) s = (r, u)" by fastforce
  show ?case
  proof (cases "b \<or> isl r")
    case True
    with Cons.prems(5) aborted_stays [of "later 1 en" tid pid n ds u err m c s'] show ?thesis
      by (auto simp: r isl_def split: if_splits sql_error.splits)
  next
    case False
    then have "x \<noteq> d" using duplicate_fails [OF Cons.prems(1-3), of en tid] r by auto
    with False Cons.prems r show ?thesis
      using Cons.IH [of u "later 1 en" False "Suc n"] tags_only_grow [OF r Cons.prems(1)]
      by (auto simp: isl_def split: sum.splits)
  qed
qed simp

text \<open>When the detection service reads, among others, a BIB that the photo already carries, none of its
readings is stored: the violation gives the whole transaction of the photo up, although the loop means to skip
the duplicate and go on.\<close>

theorem duplicate_reading_loses_all:
  assumes "t \<in> set (st_tags s)" "tg_photo_id t = pid" "tg_bib t = fst d" "d \<in> set ds"
  shows "\<exists>n e. store_readings en tid pid ds s = ((n, Some e), s)"
proof -
  obtain x s' where x: "insert_readings en tid pid False 0 ds s = (x, s')" by fastforce
  obtain err n b where "x = (err, n, b)" by (cases x)
  with x have r: "insert_readings en tid pid False 0 ds s = ((err, n, b), s')" by simp
  from duplicate_ends_badly [OF assms r] r show ?thesis
    by (cases err; cases b) (simp_all add: store_readings_def)
qed


section \<open>Runs\<close>

definition demo_uuid :: "char \<Rightarrow> string" where
  "demo_uuid c = ''00000000-0000-4000-8000-00000000000'' @ [c]"

definition demo_gallery_deps :: gallery_deps where
  "demo_gallery_deps = \<lparr>gd_storage = demo_storage, gd_sha = (\<lambda>x. x), gd_lower = to_lower, gd_queue = None\<rparr>"

definition demo_album :: album where
  "demo_album = \<lparr>ab_id = demo_uuid (CHR ''a''), ab_tenant_id = ''t'', ab_event_id = demo_uuid (CHR ''e''), ab_name = ''Finish'',
     ab_description = None, ab_is_public = False, ab_created_by = ''u'', ab_created_at = 1, ab_updated_at = 1\<rparr>"

definition demo_upload :: object_row where
  "demo_upload = \<lparr>ob_id = demo_uuid (CHR ''0''), ob_tenant_id = Some ''t'', ob_bucket = BucketPrivate,
     ob_key = ''photos/'' @ demo_uuid (CHR ''a'') @ ''/1.jpg'', ob_content_type = ''image/jpeg'', ob_size = 9, ob_sha = None,
     ob_status = ObjectStored, ob_created_by = Some ''u'', ob_created_at = 1, ob_updated_at = 1, ob_provider = ''local''\<rparr>"

definition demo_photo :: photo where
  "demo_photo = \<lparr>ph_id = demo_uuid (CHR ''1''), ph_tenant_id = ''t'', ph_album_id = demo_uuid (CHR ''a''),
     ph_original_id = demo_uuid (CHR ''9''), ph_thumbnail_id = None, ph_ocr_status = OCRProcessed, ph_ocr_error = None,
     ph_created_by = ''u'', ph_filename = ''0.jpg'', ph_original_size = 7, ph_size = 5, ph_width = 3, ph_height = 2,
     ph_created_at = 1, ph_updated_at = 1\<rparr>"

definition demo_tag :: tag_row where
  "demo_tag = \<lparr>tg_id = demo_uuid (CHR ''7''), tg_tenant_id = ''t'', tg_photo_id = demo_uuid (CHR ''1''), tg_bib = ''1024'',
     tg_number = Some 1024, tg_source = TagSourceManual, tg_confidence = None, tg_box = None, tg_created_at = 2\<rparr>"

definition demo_studio :: studio where
  "demo_studio = \<lparr>dp_db = demo_people\<lparr>db_tenants := [demo_tenant], db_events := [demo_event\<lparr>ev_id := demo_uuid (CHR ''e'')\<rparr>]\<rparr>,
     dp_objects = [demo_upload, demo_upload\<lparr>ob_id := demo_uuid (CHR ''9''), ob_key := ''photos/0.jpg''\<rparr>],
     dp_vault = \<lparr>vt_disk = [], vt_cloud = []\<rparr>,
     st_albums = [demo_album], st_photos = [demo_photo], st_tags = [demo_tag], st_templates = [], st_certificates = [],
     st_publications = [], st_jobs = [], st_list = []\<rparr>"

definition demo_item :: complete_item where
  "demo_item = \<lparr>ci_storage_id = demo_uuid (CHR ''0''), ci_filename = ''img/1.jpg'', ci_size = 20, ci_width = 4, ci_height = 3\<rparr>"

lemma split_char_code [code]:
  "split_char c [] = [[]]"
  "split_char c (x # xs) =
     (case split_char c xs of [] \<Rightarrow> [] | p # ps \<Rightarrow> if x = c then [] # p # ps else (x # p) # ps)"
  using split_char_nonempty [of c xs] by (simp_all split: list.split)

lemma demo_studio_ok: "gallery_ok to_lower demo_studio"
  by code_simp

theorem gallery_consistent_witness:
  "gallery_ok to_lower (fold (run_gallery_call demo_gallery_deps)
     [(demo_env_at ''n'' 9, UploadsDone ''t'' (demo_uuid (CHR ''e'')) (demo_uuid (CHR ''a'')) ''u'' [demo_item]),
      (demo_env_at ''m'' 9, TagAdd ''t'' (demo_uuid (CHR ''e'')) (demo_uuid (CHR ''1'')) ''u'' ''77'')] demo_studio)"
proof -
  have l: "gd_lower demo_gallery_deps = to_lower" by (simp add: demo_gallery_deps_def)
  show ?thesis
    using gallery_consistent [where gd = demo_gallery_deps, unfolded l, OF demo_studio_ok] by blast
qed

theorem photo_state_rule_witness:
  "state_condition StateVerified demo_photo [demo_tag] \<and> \<not> state_condition StateNoBIB demo_photo [demo_tag] \<and>
   derived_state demo_photo [demo_tag] = StateVerified"
proof -
  have h: "status_ok demo_photo" "state_valid StateVerified" "state_valid StateNoBIB"
    "derived_state demo_photo [demo_tag] = StateVerified" by code_simp+
  with photo_state_rule [OF h(1,2)] photo_state_rule [OF h(1,3)] show ?thesis by simp
qed

theorem completed_uploads_rule_witness:
  "\<exists>rs job s'. complete_uploads (demo_env_at ''n'' 9) demo_gallery_deps ''t'' (demo_uuid (CHR ''e'')) (demo_uuid (CHR ''a'')) ''u''
      [demo_item] demo_studio = (Inr (rs, job), s') \<and> length (created_ids rs) = 1 \<and>
    (\<exists>p. st_photos s' = [demo_photo, p] \<and> ph_created_by p = ''u'' \<and> ph_size p \<le> 20971520)"
proof -
  let ?r = "complete_uploads (demo_env_at ''n'' 9) demo_gallery_deps ''t'' (demo_uuid (CHR ''e'')) (demo_uuid (CHR ''a'')) ''u''
      [demo_item] demo_studio"
  have run: "?r = (Inr (projr (fst ?r)), snd ?r)" by (rule run_succeeded) code_simp
  have one: "map cr_status (fst (projr (fst ?r))) = [CompleteCreated]" by code_simp
  obtain rs job where rj: "projr (fst ?r) = (rs, job)" by fastforce
  from run have ok: "?r = (Inr (rs, job), snd ?r)" by (simp only: rj)
  from completed_uploads_rule [OF ok] obtain ps where ps: "st_photos (snd ?r) = st_photos demo_studio @ ps" "map ph_id ps = created_ids rs"
    "\<forall>p \<in> set ps. ph_size p \<le> 20971520 \<and> ph_created_by p = ''u''" by blast
  have c: "length (created_ids rs) = 1" using one by (auto simp: rj created_ids_def select_def)
  with ps(2) obtain p where "ps = [p]" by (metis length_map length_0_conv length_Suc_conv One_nat_def)
  with ps ok c show ?thesis by (intro exI [of _ rs] exI [of _ job] exI [of _ "snd ?r"]) (simp add: demo_studio_def)
qed

theorem crew_sees_own_uploads_witness:
  "\<exists>out. serve_photos (CrewAccess ''t'' [''gallery:upload'']) ''x'' (demo_uuid (CHR ''e'')) False no_filter
      \<lparr>pg_limit = 20, pg_cursor = ''''\<rparr> demo_studio = out \<and> isl (fst out) \<and>
   (\<exists>page. serve_photos (StaffAccess ''t'' RoleStaff) ''u'' (demo_uuid (CHR ''e'')) False no_filter
      \<lparr>pg_limit = 20, pg_cursor = ''''\<rparr> demo_studio = (Inr page, demo_studio) \<and> length (pg_items page) = 1 \<and>
      (\<forall>av \<in> set (pg_items page). ph_tenant_id (pv_row (snd av)) = ''t''))"
proof -
  let ?acc = "StaffAccess ''t'' RoleStaff"
  let ?r = "serve_photos ?acc ''u'' (demo_uuid (CHR ''e'')) False no_filter \<lparr>pg_limit = 20, pg_cursor = ''''\<rparr> demo_studio"
  have run: "?r = (Inr (projr (fst ?r)), snd ?r)" by (rule run_succeeded) code_simp
  have one: "length (pg_items (projr (fst ?r))) = 1" by code_simp
  have bad: "isl (fst (serve_photos (CrewAccess ''t'' [''gallery:upload'']) ''x'' (demo_uuid (CHR ''e'')) False no_filter
      \<lparr>pg_limit = 20, pg_cursor = ''''\<rparr> demo_studio))" by code_simp
  have u: "''u'' \<noteq> ''''" by simp
  from one obtain av where "av \<in> set (pg_items (projr (fst ?r)))" by (cases "pg_items (projr (fst ?r))") auto
  from crew_sees_own_uploads [OF run u this] have s: "snd ?r = demo_studio" by blast
  have all: "\<forall>av \<in> set (pg_items (projr (fst ?r))). ph_tenant_id (pv_row (snd av)) = ''t''"
    using crew_sees_own_uploads [OF run u] by simp
  show ?thesis using run one bad s all by metis
qed

theorem duplicate_reading_loses_all_witness:
  "\<exists>n e. store_readings (demo_env_at ''n'' 9) ''t'' (demo_uuid (CHR ''1'')) [(''55'', 9/10), (''1024'', 8/10)] demo_studio = ((n, Some e), demo_studio)"
  by (rule duplicate_reading_loses_all [where t = demo_tag and d = "(''1024'', 8/10)"])
    (simp_all add: demo_studio_def demo_tag_def)

end
