(* ===== verification/Json_Text.thy ===== *)
theory Json_Text
  imports Event_Model
begin

text \<open>
  Which texts \<open>encoding/json\<close> reads as an object: its scanner goes over the bytes with a step and a stack of
  the values that are still open, at most 10000 of them.
\<close>

datatype json_step =
    BeginValue | BeginValueOrEmpty | BeginString | BeginStringOrEmpty | EndValue | EndTop
  | InString | InEscape | InHex nat | Minus | Zero | Digits | Point | Fraction | Exponent | ExponentSign | ExponentDigits
  | Letters string | Malformed

datatype json_open = ObjectKey | ObjectValue | ArrayValue

type_synonym json_scan = "json_step \<times> json_open list"

definition json_blank :: "char \<Rightarrow> bool" where
  "json_blank c \<longleftrightarrow> byte c \<in> {0x20, 0x09, 0x0A, 0x0D}"

definition max_nesting_depth :: int where "max_nesting_depth = 10000"

definition json_push :: "json_open \<Rightarrow> json_step \<Rightarrow> json_open list \<Rightarrow> json_scan" where
  "json_push p k stack = (if int (length stack) + 1 \<le> max_nesting_depth then (k, p # stack) else (Malformed, stack))"

definition json_pop :: "json_open list \<Rightarrow> json_scan" where
  "json_pop stack = (if tl stack = [] then EndTop else EndValue, tl stack)"

definition json_end_value :: "json_open list \<Rightarrow> char \<Rightarrow> json_scan" where
  "json_end_value stack c =
     (if json_blank c then (if stack = [] then EndTop else EndValue, stack)
      else case stack of
        [] \<Rightarrow> (Malformed, [])
      | ObjectKey # r \<Rightarrow> if c = CHR '':'' then (BeginValue, ObjectValue # r) else (Malformed, stack)
      | ObjectValue # r \<Rightarrow>
          if c = CHR '','' then (BeginString, ObjectKey # r) else if c = CHR ''}'' then json_pop stack else (Malformed, stack)
      | ArrayValue # r \<Rightarrow>
          if c = CHR '','' then (BeginValue, stack) else if c = CHR '']'' then json_pop stack else (Malformed, stack))"

definition json_begin_value :: "json_open list \<Rightarrow> char \<Rightarrow> json_scan" where
  "json_begin_value stack c =
     (if c = CHR ''{'' then json_push ObjectKey BeginStringOrEmpty stack
      else if c = CHR ''['' then json_push ArrayValue BeginValueOrEmpty stack
      else if c = CHR 0x22 then (InString, stack)
      else if c = CHR ''-'' then (Minus, stack)
      else if c = CHR ''0'' then (Zero, stack)
      else if is_digit c then (Digits, stack)
      else if c = CHR ''t'' then (Letters ''rue'', stack)
      else if c = CHR ''f'' then (Letters ''alse'', stack)
      else if c = CHR ''n'' then (Letters ''ull'', stack)
      else (Malformed, stack))"

text \<open>What may follow a number whose digits so far are complete.\<close>

definition json_after_digits :: "json_open list \<Rightarrow> char \<Rightarrow> json_scan" where
  "json_after_digits stack c =
     (if c = CHR ''.'' then (Point, stack)
      else if c = CHR ''e'' \<or> c = CHR ''E'' then (Exponent, stack)
      else json_end_value stack c)"

fun json_next :: "char \<Rightarrow> json_scan \<Rightarrow> json_scan" where
  "json_next c (BeginValue, st) = (if json_blank c then (BeginValue, st) else json_begin_value st c)"
| "json_next c (BeginValueOrEmpty, st) =
     (if json_blank c then (BeginValueOrEmpty, st) else if c = CHR '']'' then json_end_value st c else json_begin_value st c)"
| "json_next c (BeginString, st) =
     (if json_blank c then (BeginString, st) else if c = CHR 0x22 then (InString, st) else (Malformed, st))"
| "json_next c (BeginStringOrEmpty, st) =
     (if json_blank c then (BeginStringOrEmpty, st)
      else if c = CHR ''}'' then json_end_value (ObjectValue # tl st) c
      else if c = CHR 0x22 then (InString, st) else (Malformed, st))"
| "json_next c (EndValue, st) = json_end_value st c"
| "json_next c (EndTop, st) = (if json_blank c then EndTop else Malformed, st)"
| "json_next c (InString, st) =
     (if c = CHR 0x22 then (if st = [] then EndTop else EndValue, st)
      else if c = CHR 0x5C then (InEscape, st)
      else if byte c < 0x20 then (Malformed, st) else (InString, st))"
| "json_next c (InEscape, st) =
     (if c \<in> set ''bfnrt/'' \<or> c = CHR 0x5C \<or> c = CHR 0x22 then (InString, st)
      else if c = CHR ''u'' then (InHex 0, st) else (Malformed, st))"
| "json_next c (InHex k, st) =
     (if hex_digit c then (if k < 3 then InHex (Suc k) else InString, st) else (Malformed, st))"
| "json_next c (Minus, st) =
     (if c = CHR ''0'' then (Zero, st) else if is_digit c then (Digits, st) else (Malformed, st))"
| "json_next c (Zero, st) = json_after_digits st c"
| "json_next c (Digits, st) = (if is_digit c then (Digits, st) else json_after_digits st c)"
| "json_next c (Point, st) = (if is_digit c then Fraction else Malformed, st)"
| "json_next c (Fraction, st) =
     (if is_digit c then (Fraction, st) else if c = CHR ''e'' \<or> c = CHR ''E'' then (Exponent, st) else json_end_value st c)"
| "json_next c (Exponent, st) =
     (if c = CHR ''+'' \<or> c = CHR ''-'' then (ExponentSign, st) else if is_digit c then (ExponentDigits, st) else (Malformed, st))"
| "json_next c (ExponentSign, st) = (if is_digit c then ExponentDigits else Malformed, st)"
| "json_next c (ExponentDigits, st) = (if is_digit c then (ExponentDigits, st) else json_end_value st c)"
| "json_next c (Letters w, st) =
     (case w of [] \<Rightarrow> (Malformed, st)
      | l # r \<Rightarrow> if c = l then (if r \<noteq> [] then Letters r else if st = [] then EndTop else EndValue, st) else (Malformed, st))"
| "json_next c (Malformed, st) = (Malformed, st)"

text \<open>An object from the first byte on.\<close>

definition json_object :: "string \<Rightarrow> bool" where
  "json_object x \<longleftrightarrow> x \<noteq> [] \<and> hd x = CHR ''{'' \<and> fst (fold json_next x (BeginValue, [])) = EndTop"

end
