(* ===== verification/Template_Service.thy ===== *)
theory Template_Service
  imports Gallery_Service Json_Text
begin

text \<open>
  \<open>internal/generator\<close>, the templates of BIBs and certificates: \<open>repository.go\<close>, \<open>rules.go\<close> and \<open>service.go\<close>.
  What a file looks like (SVG reading, drawing) is not part of it. \<open>td_jsonb\<close> is the cast of a text to
  Postgres' \<open>jsonb\<close> and back.
\<close>

record template_deps =
  td_storage :: storage_deps
  td_jsonb :: "string \<Rightarrow> string option"

section \<open>Rows\<close>

abbreviation KindBIB :: string where "KindBIB \<equiv> ''bib''"
abbreviation KindCertificate :: string where "KindCertificate \<equiv> ''certificate''"

definition kind_valid :: "string \<Rightarrow> bool" where
  "kind_valid k \<longleftrightarrow> k = KindBIB \<or> k = KindCertificate"

record template_view =
  tv_row :: template
  tv_object :: object_row

definition template_pk :: "template \<Rightarrow> string option" where
  "template_pk t = Some (tpl_id t)"

text \<open>\<open>generator_templates_scope_uk\<close>: one active template for an event, service and race.\<close>

definition nil_uuid :: string where
  "nil_uuid = ''00000000-0000-0000-0000-000000000000''"

definition scope_key :: "template \<Rightarrow> (string \<times> string \<times> string) option" where
  "scope_key t =
     (if tpl_is_active t
      then Some (tpl_event_id t, tpl_kind t, case tpl_race_id t of None \<Rightarrow> nil_uuid | Some r \<Rightarrow> r) else None)"

definition has_race :: "studio \<Rightarrow> string \<Rightarrow> bool" where
  "has_race s rid \<longleftrightarrow> list_ex (\<lambda>r. ra_id r = rid) (db_races (dp_db s))"

text \<open>What a row must refer to.\<close>

definition target_missing :: "studio \<Rightarrow> template \<Rightarrow> sql_error option" where
  "target_missing s t =
     (if (case tpl_race_id t of None \<Rightarrow> False | Some r \<Rightarrow> \<not> has_race s r)
        then Some (ForeignKeyViolation ''generator_templates_race_id_fkey'')
      else if \<not> has_object s (tpl_storage_id t) then Some (ForeignKeyViolation ''generator_templates_storage_id_fkey'')
      else None)"

definition template_missing :: "studio \<Rightarrow> template \<Rightarrow> sql_error option" where
  "template_missing s t =
     (if \<not> has_tenant s (tpl_tenant_id t) then Some (ForeignKeyViolation ''generator_templates_tenant_id_fkey'')
      else if \<not> has_event s (tpl_event_id t) then Some (ForeignKeyViolation ''generator_templates_event_id_fkey'')
      else if \<not> has_user (dp_db s) (tpl_created_by t) then Some (ForeignKeyViolation ''generator_templates_created_by_fkey'')
      else target_missing s t)"

definition template_violation :: "studio \<Rightarrow> template list \<Rightarrow> template \<Rightarrow> sql_error option" where
  "template_violation s others t =
     (if taken template_pk others t then Some (UniqueViolation ''generator_templates_pkey'')
      else if taken scope_key others t then Some (UniqueViolation ''generator_templates_scope_uk'')
      else template_missing s t)"

text \<open>\<open>scopeTaken\<close>\<close>

definition translate_template_write :: "sql_error \<Rightarrow> go_error" where
  "translate_template_write e =
     (if e = UniqueViolation ''generator_templates_scope_uk''
      then FieldError (conflict ''scope_taken'' ''race_id'' ''Another template already holds this scope.'')
      else sql_fails e)"

definition with_optional_uuid :: "string option \<Rightarrow> (string option \<Rightarrow> ('s, go_error, 'a) act) \<Rightarrow> ('s, go_error, 'a) act" where
  "with_optional_uuid r f = (case r of None \<Rightarrow> f None | Some x \<Rightarrow> with_uuid x (\<lambda>u. f (Some u)))"

definition event_exists :: "string \<Rightarrow> string \<Rightarrow> unit studio_act" where
  "event_exists tid eid =
     with_uuid eid (\<lambda>e.
     and_then (reads (\<lambda>s. select_one (\<lambda>v. ev_id v = e \<and> ev_tenant_id v = tid) (db_events (dp_db s)))) (\<lambda>x.
     and_then (found x) (\<lambda>_. ret ())))"

definition race_in_event :: "string \<Rightarrow> string \<Rightarrow> string \<Rightarrow> bool studio_act" where
  "race_in_event tid eid rid =
     with_uuid rid (\<lambda>r. with_uuid eid (\<lambda>e.
     reads (\<lambda>s. list_ex (\<lambda>x. ra_id x = r \<and> ra_tenant_id x = tid \<and> ra_event_id x = e) (db_races (dp_db s)))))"

text \<open>\<open>GetObject\<close> of the generator and of the certificates.\<close>

definition object_ref :: "string \<Rightarrow> string \<Rightarrow> object_row studio_act" where
  "object_ref tid oid =
     with_uuid oid (\<lambda>o'. and_then (reads (\<lambda>s. joined_object s tid o')) found)"

definition is_template :: "string \<Rightarrow> string \<Rightarrow> string \<Rightarrow> template \<Rightarrow> bool" where
  "is_template tid eid mid t \<longleftrightarrow> tpl_tenant_id t = tid \<and> tpl_event_id t = eid \<and> tpl_id t = mid"

definition view_template :: "studio \<Rightarrow> string \<Rightarrow> template \<Rightarrow> template_view option" where
  "view_template s tid t =
     map_option (\<lambda>o'. \<lparr>tv_row = t, tv_object = o'\<rparr>) (joined_object s tid (tpl_storage_id t))"

definition template_position :: "template_view \<Rightarrow> int \<times> string" where
  "template_position v = (- tpl_updated_at (tv_row v), tpl_id (tv_row v))"

definition list_template_rows :: "string \<Rightarrow> string \<Rightarrow> string \<Rightarrow> template_view list studio_act" where
  "list_template_rows tid eid kind =
     with_uuid eid (\<lambda>e.
     reads (\<lambda>s. sort_key template_position (List.map_filter (view_template s tid)
       (select (\<lambda>t. tpl_tenant_id t = tid \<and> tpl_event_id t = e \<and> (kind = '''' \<or> tpl_kind t = kind)) (st_templates s)))))"

definition get_template_row :: "string \<Rightarrow> string \<Rightarrow> string \<Rightarrow> template_view studio_act" where
  "get_template_row tid eid mid =
     with_uuid eid (\<lambda>e. with_uuid mid (\<lambda>m.
     and_then (reads (\<lambda>s. select_one (\<lambda>v. is_template tid e m (tv_row v))
        (List.map_filter (view_template s tid) (st_templates s)))) found))"

text \<open>A parameter cast to \<open>jsonb\<close>.\<close>

definition with_jsonb :: "template_deps \<Rightarrow> string \<Rightarrow> (string \<Rightarrow> ('s, go_error, 'a) act) \<Rightarrow> ('s, go_error, 'a) act" where
  "with_jsonb td x f = (case td_jsonb td x of None \<Rightarrow> fail (Other ''pq: invalid input for type json'') | Some y \<Rightarrow> f y)"

definition insert_template :: "template \<Rightarrow> unit studio_act" where
  "insert_template t =
     guard (kind_valid (tpl_kind t)) (Other ''pq: violates check constraint generator_templates_service_ck'')
     (and_then (reads (\<lambda>s. template_violation s (st_templates s) t)) (\<lambda>v.
      and_then (sql_check translate_template_write v) (\<lambda>_.
      writes (\<lambda>s. s\<lparr>st_templates := st_templates s @ [t]\<rparr>))))"

definition create_template_row :: "template_deps \<Rightarrow> template \<Rightarrow> unit studio_act" where
  "create_template_row td t =
     with_uuid (tpl_event_id t) (\<lambda>eid. with_optional_uuid (tpl_race_id t) (\<lambda>rid. with_uuid (tpl_storage_id t) (\<lambda>oid.
     with_jsonb td (tpl_metadata t) (\<lambda>md.
     insert_template (t\<lparr>tpl_event_id := eid, tpl_race_id := rid, tpl_storage_id := oid, tpl_metadata := md\<rparr>)))))"

text \<open>The editable columns, with the trigger on \<open>updated_at\<close>.\<close>

definition edited :: "env \<Rightarrow> template \<Rightarrow> template \<Rightarrow> template" where
  "edited en t r =
     r\<lparr>tpl_race_id := tpl_race_id t, tpl_storage_id := tpl_storage_id t, tpl_name := tpl_name t, tpl_is_active := tpl_is_active t,
       tpl_version := tpl_version t, tpl_metadata := tpl_metadata t, tpl_updated_at := e_now en\<rparr>"

definition same_template :: "template \<Rightarrow> template \<Rightarrow> bool" where
  "same_template t = is_template (tpl_tenant_id t) (tpl_event_id t) (tpl_id t)"

definition write_template :: "env \<Rightarrow> template \<Rightarrow> unit studio_act" where
  "write_template en t =
     and_then (reads (\<lambda>s. update_where (same_template t) (edited en t) (st_templates s))) (\<lambda>rows.
     and_then (reads (\<lambda>s. length (select (same_template t) (st_templates s)))) (\<lambda>n.
     and_then (sql_check translate_template_write
       (if unique_on scope_key rows then None else Some (UniqueViolation ''generator_templates_scope_uk''))) (\<lambda>_.
     and_then (reads (\<lambda>s. if n = 0 then None else target_missing s t)) (\<lambda>v.
     and_then (sql_check sql_fails v) (\<lambda>_.
     and_then (writes (\<lambda>s. s\<lparr>st_templates := rows\<rparr>)) (\<lambda>_.
     check_rows n))))))"

definition update_template_row :: "template_deps \<Rightarrow> env \<Rightarrow> template \<Rightarrow> unit studio_act" where
  "update_template_row td en t =
     with_optional_uuid (tpl_race_id t) (\<lambda>rid. with_uuid (tpl_storage_id t) (\<lambda>oid. with_jsonb td (tpl_metadata t) (\<lambda>md.
     and_then (sql_check sql_fails (if in_int32 (tpl_version t) then None else Some OutOfRange)) (\<lambda>_.
     write_template en (t\<lparr>tpl_race_id := rid, tpl_storage_id := oid, tpl_metadata := md\<rparr>)))))"

definition holds_scope :: "string \<Rightarrow> string \<Rightarrow> string \<Rightarrow> string option \<Rightarrow> string \<Rightarrow> template \<Rightarrow> bool" where
  "holds_scope tid eid kind rid except t \<longleftrightarrow>
     tpl_tenant_id t = tid \<and> tpl_event_id t = eid \<and> tpl_kind t = kind \<and> tpl_is_active t \<and> tpl_race_id t = rid \<and> tpl_id t \<noteq> except"

definition deactivate :: "env \<Rightarrow> string \<Rightarrow> string \<Rightarrow> string \<Rightarrow> string option \<Rightarrow> string \<Rightarrow> nat studio_act" where
  "deactivate en tid eid kind rid except =
     with_uuid eid (\<lambda>e. with_optional_uuid rid (\<lambda>r.
     let q = holds_scope tid e kind r except in
     and_then (reads (\<lambda>s. length (select q (st_templates s)))) (\<lambda>n.
     and_then (writes (\<lambda>s. s\<lparr>st_templates :=
        update_where q (\<lambda>t. t\<lparr>tpl_is_active := False, tpl_updated_at := e_now en\<rparr>) (st_templates s)\<rparr>)) (\<lambda>_.
     ret n))))"

text \<open>Deleting a template leaves the certificates made from it without one (\<open>ON DELETE SET NULL\<close>).\<close>

definition drop_template :: "env \<Rightarrow> (template \<Rightarrow> bool) \<Rightarrow> studio \<Rightarrow> studio" where
  "drop_template en q s =
     (let gone = map tpl_id (select q (st_templates s)) in
      s\<lparr>st_templates := delete_where q (st_templates s),
        st_certificates := update_where (\<lambda>c. case ct_template_id c of None \<Rightarrow> False | Some m \<Rightarrow> m \<in> set gone)
          (\<lambda>c. c\<lparr>ct_template_id := None, ct_updated_at := e_now en\<rparr>) (st_certificates s)\<rparr>)"

definition delete_template_row :: "env \<Rightarrow> string \<Rightarrow> string \<Rightarrow> string \<Rightarrow> unit studio_act" where
  "delete_template_row en tid eid mid =
     with_uuid eid (\<lambda>e. with_uuid mid (\<lambda>m.
     and_then (reads (\<lambda>s. length (select (is_template tid e m) (st_templates s)))) (\<lambda>n.
     and_then (writes (drop_template en (is_template tid e m))) (\<lambda>_.
     check_rows n))))"

section \<open>Rules\<close>

definition max_name_len :: nat where "max_name_len = 120"
definition max_metadata_len :: int where "max_metadata_len = 65536"

definition normalize_template_name :: "string \<Rightarrow> go_error + string" where
  "normalize_template_name name =
     (let n = trim_space name in
      if n = '''' then Inl (FieldError (invalid ''name'' ''name is required.''))
      else if rune_count n > max_name_len then Inl (FieldError (invalid ''name'' ''name is too long.''))
      else Inr n)"

definition normalize_metadata :: "string \<Rightarrow> go_error + string" where
  "normalize_metadata raw0 =
     (let raw = trim_space raw0 in
      if raw = '''' \<or> raw = ''null'' then Inr ''{}''
      else if int (length raw) > max_metadata_len then Inl (FieldError (invalid ''metadata'' ''metadata is too large.''))
      else if \<not> json_object raw then Inl (FieldError (invalid ''metadata'' ''metadata must be a JSON object.''))
      else Inr raw)"

text \<open>\<open>strings.ToLower\<close> against text of ASCII letters without a k: a rune beyond ASCII that lowers to one of
them is U+0130 only.\<close>

definition check_object :: "object_row \<Rightarrow> go_error option" where
  "check_object o' =
     (if ob_status o' \<noteq> ObjectStored then Some (FieldError (invalid ''storage_id'' ''the upload has not been completed yet.''))
      else if ob_bucket o' \<noteq> BucketPrivate
        then Some (FieldError (invalid ''storage_id'' ''a template must be stored in the private bucket.''))
      else if \<not> has_prefix (lower_text (ob_content_type o')) ''image/svg''
        then Some (FieldError (invalid ''storage_id'' ''a template must be an SVG file.''))
      else None)"

section \<open>Use cases\<close>

definition svg_url :: "env \<Rightarrow> template_deps \<Rightarrow> template_view \<Rightarrow> store_error + ticket option" where
  "svg_url en td v = object_url en (td_storage td) (tpl_tenant_id (tv_row v)) (tv_object v)"

definition check_scope :: "string \<Rightarrow> string \<Rightarrow> string option \<Rightarrow> unit studio_act" where
  "check_scope tid eid rid =
     (case rid of
        None \<Rightarrow> ret ()
      | Some r \<Rightarrow> and_then (race_in_event tid eid r) (\<lambda>ok.
          guard ok (FieldError (invalid ''race_id'' ''race_id is not a race of this event.'')) (ret ())))"

text \<open>An object that is looked up for the client: not there is an error of the field.\<close>

definition referred_object :: "string \<Rightarrow> string \<Rightarrow> object_row studio_act" where
  "referred_object tid oid =
     and_then (attempt (object_ref tid oid)) (\<lambda>r.
     case r of
       Inl e \<Rightarrow> if errors_is e ErrNotFound
         then fail (FieldError (invalid ''storage_id'' ''storage_id is not an uploaded file of this workspace.'')) else fail e
     | Inr o' \<Rightarrow> ret o')"

definition check_template_storage :: "string \<Rightarrow> string \<Rightarrow> unit studio_act" where
  "check_template_storage tid oid =
     guard (oid \<noteq> '''') (FieldError (invalid ''storage_id'' ''storage_id is required.''))
     (and_then (referred_object tid oid) (\<lambda>o'. on_error (check_object o') (ret ())))"

record template_input =
  ti_kind :: string
  ti_name :: string
  ti_race_id :: "string option"
  ti_storage_id :: string
  ti_active :: bool
  ti_metadata :: string

definition new_template :: "env \<Rightarrow> string \<Rightarrow> string \<Rightarrow> string \<Rightarrow> string \<Rightarrow> string \<Rightarrow> template_input \<Rightarrow> template" where
  "new_template en tid eid actor name md i =
     \<lparr>tpl_id = e_uuid en 0, tpl_tenant_id = tid, tpl_event_id = eid, tpl_race_id = ti_race_id i,
      tpl_storage_id = ti_storage_id i, tpl_name = name, tpl_kind = ti_kind i, tpl_is_active = ti_active i, tpl_version = 1,
      tpl_metadata = md, tpl_created_by = actor, tpl_created_at = e_now en, tpl_updated_at = e_now en\<rparr>"

text \<open>A template that is to be active pushes the holder of its scope out.\<close>

definition take_scope :: "env \<Rightarrow> string \<Rightarrow> string \<Rightarrow> template \<Rightarrow> unit studio_act" where
  "take_scope en tid eid t =
     (if tpl_is_active t
      then and_then (deactivate en tid eid (tpl_kind t) (tpl_race_id t) (tpl_id t)) (\<lambda>_. ret ()) else ret ())"

definition create_template ::
  "env \<Rightarrow> template_deps \<Rightarrow> string \<Rightarrow> string \<Rightarrow> string \<Rightarrow> member_role \<Rightarrow> template_input \<Rightarrow> template_view studio_act" where
  "create_template en td tid eid actor role i =
     on_error (require_role role RoleAdmin)
     (guard (kind_valid (ti_kind i)) (FieldError (invalid ''service'' ''service must be bib or certificate.''))
     (checked (normalize_template_name (ti_name i)) (\<lambda>name.
      checked (normalize_metadata (ti_metadata i)) (\<lambda>md.
      with_tenant_tx tid
        (and_then (event_exists tid eid) (\<lambda>_.
         and_then (check_scope tid eid (ti_race_id i)) (\<lambda>_.
         and_then (check_template_storage tid (ti_storage_id i)) (\<lambda>_.
         let t = new_template en tid eid actor name md i in
         and_then (take_scope en tid eid t) (\<lambda>_.
         and_then (create_template_row td t) (\<lambda>_.
         and_then (album_audit en 1 tid actor ''template.uploaded''
           [(''template_id'', MetaText (tpl_id t)), (''event_id'', MetaText eid), (''service'', MetaText (tpl_kind t))]) (\<lambda>_.
         get_template_row tid eid (tpl_id t))))))))))))"

definition list_templates :: "string \<Rightarrow> string \<Rightarrow> string \<Rightarrow> template_view list studio_act" where
  "list_templates tid eid kind =
     guard (kind = '''' \<or> kind_valid kind) (FieldError (invalid ''service'' ''service must be bib or certificate.''))
     (with_tenant_tx tid (and_then (event_exists tid eid) (\<lambda>_. list_template_rows tid eid kind)))"

definition get_template :: "string \<Rightarrow> string \<Rightarrow> string \<Rightarrow> template_view studio_act" where
  "get_template tid eid mid = with_tenant_tx tid (get_template_row tid eid mid)"

text \<open>\<open>PatchInput\<close>: None is a field that is not given; an empty race moves the template to the whole event.\<close>

record template_patch =
  tp_name :: "string option"
  tp_storage_id :: "string option"
  tp_race_id :: "string option"
  tp_active :: "bool option"
  tp_metadata :: string

definition design_changed :: "template_patch \<Rightarrow> template \<Rightarrow> bool" where
  "design_changed p t \<longleftrightarrow> (case tp_storage_id p of None \<Rightarrow> False | Some x \<Rightarrow> x \<noteq> tpl_storage_id t)"

definition patched_race :: "template_patch \<Rightarrow> string option \<Rightarrow> string option" where
  "patched_race p old = (case tp_race_id p of None \<Rightarrow> old | Some x \<Rightarrow> if x = '''' then None else Some x)"

text \<open>The fields of the patch up to the design.\<close>

definition patched_template :: "template_patch \<Rightarrow> string \<Rightarrow> string \<Rightarrow> template \<Rightarrow> template" where
  "patched_template p name md t =
     t\<lparr>tpl_name := name, tpl_metadata := md, tpl_race_id := patched_race p (tpl_race_id t),
       tpl_is_active := (case tp_active p of None \<Rightarrow> tpl_is_active t | Some b \<Rightarrow> b)\<rparr>"

definition redesigned :: "template_patch \<Rightarrow> template \<Rightarrow> template" where
  "redesigned p t =
     (if design_changed p t
      then t\<lparr>tpl_storage_id := the (tp_storage_id p), tpl_version := tpl_version t + 1\<rparr> else t)"

definition update_template ::
  "env \<Rightarrow> template_deps \<Rightarrow> string \<Rightarrow> string \<Rightarrow> string \<Rightarrow> string \<Rightarrow> member_role \<Rightarrow> template_patch \<Rightarrow> template_view studio_act" where
  "update_template en td tid eid mid actor role p =
     on_error (require_role role RoleAdmin)
     (with_tenant_tx tid
        (and_then (get_template_row tid eid mid) (\<lambda>v.
         let old = tv_row v in
         checked (case tp_name p of None \<Rightarrow> Inr (tpl_name old) | Some n \<Rightarrow> normalize_template_name n) (\<lambda>name.
         checked (if tp_metadata p = '''' then Inr (tpl_metadata old) else normalize_metadata (tp_metadata p)) (\<lambda>md.
         and_then (if tp_race_id p = None then ret () else check_scope tid eid (patched_race p (tpl_race_id old))) (\<lambda>_.
         let changed = design_changed p old; t = redesigned p (patched_template p name md old) in
         and_then (if changed then check_template_storage tid (the (tp_storage_id p)) else ret ()) (\<lambda>_.
         and_then (take_scope en tid eid t) (\<lambda>_.
         and_then (update_template_row td en t) (\<lambda>_.
         and_then (album_audit en 0 tid actor (if changed then ''template.uploaded'' else ''template.updated'')
           [(''template_id'', MetaText (tpl_id t)), (''event_id'', MetaText eid), (''version'', MetaInt (tpl_version t))]) (\<lambda>_.
         get_template_row tid eid (tpl_id t)))))))))))"

definition delete_template ::
  "env \<Rightarrow> string \<Rightarrow> string \<Rightarrow> string \<Rightarrow> string \<Rightarrow> member_role \<Rightarrow> unit studio_act" where
  "delete_template en tid eid mid actor role =
     on_error (require_role role RoleAdmin)
     (with_tenant_tx tid
        (and_then (delete_template_row en tid eid mid) (\<lambda>_.
         album_audit en 0 tid actor ''template.deleted'' [(''template_id'', MetaText mid), (''event_id'', MetaText eid)])))"

end
