(* ===== verification/Certificate_Service.thy ===== *)
theory Certificate_Service
  imports Template_Service Photo_Jobs Origin_Policy
begin

text \<open>
  \<open>internal/certificate\<close>: the certificates of participants and their publication (\<open>repository.go\<close>,
  \<open>service.go\<close>) and the job that makes them (\<open>batch.go\<close>, with \<open>internal/templateassets\<close>). Reading and
  drawing a design are arguments.
\<close>

section \<open>Rows\<close>

abbreviation StatusReady :: string where "StatusReady \<equiv> ''ready''"
abbreviation StatusFailed :: string where "StatusFailed \<equiv> ''failed''"

record certificate_view =
  cv_row :: certificate
  cv_object :: "object_row option"

definition certificate_pk :: "certificate \<Rightarrow> string option" where
  "certificate_pk c = Some (ct_id c)"

definition certificate_participant_key :: "certificate \<Rightarrow> string option" where
  "certificate_participant_key c = Some (ct_participant_id c)"

definition certificate_no_key :: "certificate \<Rightarrow> (string \<times> string) option" where
  "certificate_no_key c = Some (ct_tenant_id c, ct_no c)"

definition has_participant :: "studio \<Rightarrow> string \<Rightarrow> bool" where
  "has_participant s pid \<longleftrightarrow> list_ex (\<lambda>p. p_id p = pid) (db_participants (dp_db s))"

definition has_template :: "studio \<Rightarrow> string \<Rightarrow> bool" where
  "has_template s mid \<longleftrightarrow> list_ex (\<lambda>t. tpl_id t = mid) (st_templates s)"

definition file_missing :: "studio \<Rightarrow> certificate \<Rightarrow> sql_error option" where
  "file_missing s c =
     (if (case ct_template_id c of None \<Rightarrow> False | Some m \<Rightarrow> \<not> has_template s m)
        then Some (ForeignKeyViolation ''certificates_template_id_fkey'')
      else if (case ct_storage_id c of None \<Rightarrow> False | Some x \<Rightarrow> \<not> has_object s x)
        then Some (ForeignKeyViolation ''certificates_storage_id_fkey'')
      else None)"

definition certificate_violation :: "studio \<Rightarrow> certificate \<Rightarrow> sql_error option" where
  "certificate_violation s c =
     (if taken certificate_pk (st_certificates s) c then Some (UniqueViolation ''certificates_pkey'')
      else if taken certificate_no_key (st_certificates s) c then Some (UniqueViolation ''certificates_no_uk'')
      else if \<not> has_tenant s (ct_tenant_id c) then Some (ForeignKeyViolation ''certificates_tenant_id_fkey'')
      else if \<not> has_event s (ct_event_id c) then Some (ForeignKeyViolation ''certificates_event_id_fkey'')
      else if \<not> has_participant s (ct_participant_id c) then Some (ForeignKeyViolation ''certificates_participant_id_fkey'')
      else if \<not> has_user (dp_db s) (ct_created_by c) then Some (ForeignKeyViolation ''certificates_created_by_fkey'')
      else file_missing s c)"

text \<open>\<open>numberTaken\<close>\<close>

definition translate_certificate_write :: "sql_error \<Rightarrow> go_error" where
  "translate_certificate_write e =
     (if e = UniqueViolation ''certificates_no_uk''
      then FieldError (conflict ''certificate_no_taken'' ''certificate_no'' ''This certificate number is already used.'')
      else sql_fails e)"

definition participant_in_event :: "string \<Rightarrow> string \<Rightarrow> string \<Rightarrow> unit studio_act" where
  "participant_in_event tid eid pid =
     with_uuid pid (\<lambda>p. with_uuid eid (\<lambda>e.
     and_then (reads (\<lambda>s. select_one (\<lambda>x. p_id x = p \<and> p_tenant_id x = tid \<and> p_event_id x = e)
        (db_participants (dp_db s)))) (\<lambda>x.
     and_then (found x) (\<lambda>_. ret ()))))"

definition template_in_event :: "string \<Rightarrow> string \<Rightarrow> string \<Rightarrow> bool studio_act" where
  "template_in_event tid eid mid =
     with_uuid mid (\<lambda>m. with_uuid eid (\<lambda>e.
     reads (\<lambda>s. list_ex (\<lambda>t. is_template tid e m t \<and> tpl_kind t = KindCertificate) (st_templates s))))"

definition view_certificate :: "studio \<Rightarrow> string \<Rightarrow> certificate \<Rightarrow> certificate_view" where
  "view_certificate s tid c =
     \<lparr>cv_row = c, cv_object = (case ct_storage_id c of None \<Rightarrow> None | Some x \<Rightarrow> joined_object s tid x)\<rparr>"

definition list_certificate_rows :: "string \<Rightarrow> string \<Rightarrow> certificate_view list studio_act" where
  "list_certificate_rows tid eid =
     with_uuid eid (\<lambda>e. reads (\<lambda>s. map (view_certificate s tid)
       (sort_key ct_participant_id (select (\<lambda>c. ct_tenant_id c = tid \<and> ct_event_id c = e) (st_certificates s)))))"

definition is_certificate :: "string \<Rightarrow> string \<Rightarrow> string \<Rightarrow> certificate \<Rightarrow> bool" where
  "is_certificate tid eid pid c \<longleftrightarrow> ct_tenant_id c = tid \<and> ct_event_id c = eid \<and> ct_participant_id c = pid"

definition get_by_participant :: "string \<Rightarrow> string \<Rightarrow> string \<Rightarrow> certificate_view studio_act" where
  "get_by_participant tid eid pid =
     with_uuid eid (\<lambda>e. with_uuid pid (\<lambda>p.
     and_then (reads (\<lambda>s. map_option (view_certificate s tid) (select_one (is_certificate tid e p) (st_certificates s)))) found))"

definition coalesce :: "'a option \<Rightarrow> 'a option \<Rightarrow> 'a option" where
  "coalesce x y = (if x = None then y else x)"

text \<open>\<open>DO UPDATE SET\<close>: the number, the creator and the identifier stay.\<close>

definition renewed :: "env \<Rightarrow> certificate \<Rightarrow> certificate \<Rightarrow> certificate" where
  "renewed en c r =
     r\<lparr>ct_template_id := ct_template_id c, ct_template_version := ct_template_version c, ct_data_hash := ct_data_hash c,
       ct_status := ct_status c, ct_error := ct_error c,
       ct_storage_id := coalesce (ct_storage_id c) (ct_storage_id r), ct_format := coalesce (ct_format c) (ct_format r),
       ct_dpi := coalesce (ct_dpi c) (ct_dpi r), ct_width_px := coalesce (ct_width_px c) (ct_width_px r),
       ct_height_px := coalesce (ct_height_px c) (ct_height_px r), ct_size_bytes := coalesce (ct_size_bytes c) (ct_size_bytes r),
       ct_generated_at := coalesce (ct_generated_at c) (ct_generated_at r), ct_updated_at := e_now en\<rparr>"

definition fits :: "(int \<Rightarrow> bool) \<Rightarrow> int option \<Rightarrow> bool" where
  "fits p x = (case x of None \<Rightarrow> True | Some v \<Rightarrow> p v)"

definition certificate_in_range :: "certificate \<Rightarrow> bool" where
  "certificate_in_range c \<longleftrightarrow> fits in_int32 (ct_template_version c) \<and> fits in_int32 (ct_dpi c) \<and>
     fits in_int32 (ct_width_px c) \<and> fits in_int32 (ct_height_px c) \<and> fits in_int64 (ct_size_bytes c)"

text \<open>What Postgres accepts as text: runes of UTF-8 and no zero byte. A message that was cut inside a rune is
none.\<close>

function text_ok :: "string \<Rightarrow> bool" where
  "text_ok s =
     (if s = [] then True
      else byte (hd s) \<noteq> 0 \<and> (byte (hd s) < 128 \<or> 1 < rune_width s) \<and> text_ok (drop (rune_width s) s))"
  by auto
termination by (relation "measure length") (auto simp: rune_width_def Let_def split: list.splits)

declare text_ok.simps [simp del]

definition certificate_texts_ok :: "certificate \<Rightarrow> bool" where
  "certificate_texts_ok c \<longleftrightarrow>
     (case ct_error c of None \<Rightarrow> True | Some m \<Rightarrow> text_ok m) \<and> (case ct_data_hash c of None \<Rightarrow> True | Some h \<Rightarrow> text_ok h)"

text \<open>The insert, on a row of the same participant an update; a row of another workspace is hidden from
the update by the policy of the table.\<close>

definition write_certificate :: "env \<Rightarrow> certificate \<Rightarrow> unit studio_act" where
  "write_certificate en c =
     and_then (reads (\<lambda>s. select_one (\<lambda>r. ct_participant_id r = ct_participant_id c) (st_certificates s))) (\<lambda>old.
     case old of
       None \<Rightarrow>
         and_then (reads (\<lambda>s. certificate_violation s c)) (\<lambda>v.
         and_then (sql_check translate_certificate_write v) (\<lambda>_.
         writes (\<lambda>s. s\<lparr>st_certificates := st_certificates s @ [c]\<rparr>)))
     | Some r \<Rightarrow>
         guard (ct_tenant_id r = ct_tenant_id c) (Other ''pq: new row violates row-level security policy'')
         (and_then (reads (\<lambda>s. file_missing s c)) (\<lambda>v.
          and_then (sql_check sql_fails v) (\<lambda>_.
          writes (\<lambda>s. s\<lparr>st_certificates :=
            update_where (\<lambda>x. ct_participant_id x = ct_participant_id c) (renewed en c) (st_certificates s)\<rparr>)))))"

definition upsert_certificate_row :: "env \<Rightarrow> certificate \<Rightarrow> unit studio_act" where
  "upsert_certificate_row en c =
     with_uuid (ct_event_id c) (\<lambda>e. with_uuid (ct_participant_id c) (\<lambda>p.
     with_optional_uuid (ct_template_id c) (\<lambda>m. with_optional_uuid (ct_storage_id c) (\<lambda>x.
     and_then (sql_check sql_fails (if certificate_in_range c then None else Some OutOfRange)) (\<lambda>_.
     guard (certificate_texts_ok c) (Other ''pq: invalid byte sequence for encoding UTF8'')
     (write_certificate en (c\<lparr>ct_event_id := e, ct_participant_id := p, ct_template_id := m, ct_storage_id := x\<rparr>)))))))"

definition delete_certificate_row :: "string \<Rightarrow> string \<Rightarrow> string \<Rightarrow> unit studio_act" where
  "delete_certificate_row tid eid pid =
     with_uuid eid (\<lambda>e. with_uuid pid (\<lambda>p.
     and_then (reads (\<lambda>s. length (select (is_certificate tid e p) (st_certificates s)))) (\<lambda>n.
     and_then (writes (\<lambda>s. s\<lparr>st_certificates := delete_where (is_certificate tid e p) (st_certificates s)\<rparr>)) (\<lambda>_.
     check_rows n))))"

definition is_publication :: "string \<Rightarrow> string \<Rightarrow> publication \<Rightarrow> bool" where
  "is_publication tid eid b \<longleftrightarrow> pb_tenant_id b = tid \<and> pb_event_id b = eid"

definition published_at :: "string \<Rightarrow> string \<Rightarrow> int option studio_act" where
  "published_at tid eid =
     with_uuid eid (\<lambda>e. reads (\<lambda>s. map_option pb_published_at (select_one (is_publication tid e) (st_publications s))))"

definition publication_missing :: "studio \<Rightarrow> string \<Rightarrow> string \<Rightarrow> sql_error option" where
  "publication_missing s tid e =
     (if \<not> has_event s e then Some (ForeignKeyViolation ''certificate_publications_event_id_fkey'')
      else if \<not> has_tenant s tid then Some (ForeignKeyViolation ''certificate_publications_tenant_id_fkey'') else None)"

definition set_published_row :: "string \<Rightarrow> string \<Rightarrow> int option \<Rightarrow> unit studio_act" where
  "set_published_row tid eid pub =
     with_uuid eid (\<lambda>e.
     case pub of
       None \<Rightarrow> writes (\<lambda>s. s\<lparr>st_publications := delete_where (is_publication tid e) (st_publications s)\<rparr>)
     | Some n \<Rightarrow>
         and_then (reads (\<lambda>s. select_one (\<lambda>b. pb_event_id b = e) (st_publications s))) (\<lambda>old.
         case old of
           None \<Rightarrow>
             and_then (reads (\<lambda>s. publication_missing s tid e)) (\<lambda>v.
             and_then (sql_check sql_fails v) (\<lambda>_.
             writes (\<lambda>s. s\<lparr>st_publications := st_publications s @ [\<lparr>pb_event_id = e, pb_tenant_id = tid, pb_published_at = n\<rparr>]\<rparr>)))
         | Some b \<Rightarrow>
             guard (pb_tenant_id b = tid) (Other ''pq: new row violates row-level security policy'')
             (writes (\<lambda>s. s\<lparr>st_publications :=
                update_where (\<lambda>b. pb_event_id b = e) (\<lambda>b. b\<lparr>pb_published_at := n\<rparr>) (st_publications s)\<rparr>))))"

section \<open>Use cases\<close>

text \<open>Files, the queue, and the order in which Go walks the three numbers of a request.\<close>

record certificate_deps =
  cd_storage :: storage_deps
  cd_queue :: bool
  cd_walk :: "string list"

text \<open>\<open>FileURL\<close>: no file, no link.\<close>

definition file_url :: "env \<Rightarrow> certificate_deps \<Rightarrow> certificate_view \<Rightarrow> store_error + ticket option" where
  "file_url en cd v =
     (case cv_object v of
        None \<Rightarrow> Inr None
      | Some o' \<Rightarrow> if ob_key o' = '''' then Inr None else object_url en (cd_storage cd) (ct_tenant_id (cv_row v)) o')"

definition list_certificates :: "string \<Rightarrow> string \<Rightarrow> (certificate_view list \<times> int option) studio_act" where
  "list_certificates tid eid =
     with_tenant_tx tid
       (and_then (event_exists tid eid) (\<lambda>_.
        and_then (list_certificate_rows tid eid) (\<lambda>items.
        and_then (published_at tid eid) (\<lambda>pub. ret (items, pub)))))"

record certificate_input =
  cu_no :: string
  cu_template_id :: "string option"
  cu_template_version :: "int option"
  cu_data_hash :: "string option"
  cu_status :: string
  cu_error :: "string option"
  cu_storage_id :: "string option"
  cu_format :: "string option"
  cu_dpi :: "int option"
  cu_width_px :: "int option"
  cu_height_px :: "int option"
  cu_size_bytes :: "int option"

text \<open>\<open>numberPattern\<close>\<close>

definition number_ok :: "string \<Rightarrow> bool" where
  "number_ok x \<longleftrightarrow> 4 \<le> length x \<and> length x \<le> 40 \<and> (is_letter (hd x) \<or> is_digit (hd x)) \<and>
     list_all (\<lambda>c. is_letter c \<or> is_digit c \<or> c = CHR ''-'') (tl x)"

definition pixel_field :: "certificate_input \<Rightarrow> string \<Rightarrow> int option" where
  "pixel_field i f =
     (if f = ''dpi'' then cu_dpi i else if f = ''width_px'' then cu_width_px i
      else if f = ''height_px'' then cu_height_px i else None)"

definition bad_pixels :: "certificate_input \<Rightarrow> string \<Rightarrow> bool" where
  "bad_pixels i f \<longleftrightarrow> (case pixel_field i f of None \<Rightarrow> False | Some v \<Rightarrow> v \<le> 0 \<or> v > 100000)"

definition cut_error :: "string option \<Rightarrow> string option" where
  "cut_error e = map_option (\<lambda>m. take 500 (trim_space m)) e"

definition validate_certificate :: "certificate_deps \<Rightarrow> certificate_input \<Rightarrow> go_error + certificate_input" where
  "validate_certificate cd i =
     (if \<not> number_ok (cu_no i)
        then Inl (FieldError (invalid ''certificate_no'' ''certificate_no must be 4-40 letters, digits or dashes.''))
      else if cu_status i \<noteq> StatusReady \<and> cu_status i \<noteq> StatusFailed
        then Inl (FieldError (invalid ''status'' ''status must be ready or failed.''))
      else if cu_format i \<notin> {None, Some ''jpg'', Some ''png''}
        then Inl (FieldError (invalid ''format'' ''format must be jpg or png.''))
      else case find (bad_pixels i) (cd_walk cd) of
        Some f \<Rightarrow> Inl (FieldError (invalid f (f @ '' is out of range.'')))
      | None \<Rightarrow>
          if \<not> fits (\<lambda>n. 0 \<le> n) (cu_size_bytes i) then Inl (FieldError (invalid ''size_bytes'' ''size_bytes is out of range.''))
          else if cu_status i = StatusReady \<and> (cu_storage_id i = None \<or> cu_format i = None)
            then Inl (FieldError (invalid ''storage_id'' ''a ready certificate needs its file (storage_id and format).''))
          else Inr (i\<lparr>cu_error := cut_error (cu_error i)\<rparr>))"

definition check_image :: "object_row \<Rightarrow> go_error option" where
  "check_image o' =
     (if ob_status o' \<noteq> ObjectStored then Some (FieldError (invalid ''storage_id'' ''the upload has not been completed yet.''))
      else if ob_bucket o' \<noteq> BucketPrivate
        then Some (FieldError (invalid ''storage_id'' ''a certificate must be stored in the private bucket.''))
      else if lower_text (ob_content_type o') \<notin> {''image/jpeg'', ''image/png''}
        then Some (FieldError (invalid ''storage_id'' ''a certificate must be a JPEG or PNG image.''))
      else None)"

definition check_certificate_storage :: "string \<Rightarrow> string \<Rightarrow> unit studio_act" where
  "check_certificate_storage tid oid = and_then (referred_object tid oid) (\<lambda>o'. on_error (check_image o') (ret ()))"

definition new_certificate :: "env \<Rightarrow> string \<Rightarrow> string \<Rightarrow> string \<Rightarrow> string \<Rightarrow> certificate_input \<Rightarrow> certificate" where
  "new_certificate en tid eid pid actor i =
     \<lparr>ct_id = e_uuid en 0, ct_tenant_id = tid, ct_event_id = eid, ct_participant_id = pid, ct_no = cu_no i,
      ct_template_id = cu_template_id i, ct_template_version = cu_template_version i, ct_data_hash = cu_data_hash i,
      ct_status = cu_status i, ct_error = cu_error i, ct_storage_id = cu_storage_id i, ct_format = cu_format i,
      ct_dpi = cu_dpi i, ct_width_px = cu_width_px i, ct_height_px = cu_height_px i, ct_size_bytes = cu_size_bytes i,
      ct_generated_at = (if cu_status i = StatusReady then Some (e_now en) else None), ct_created_by = actor,
      ct_created_at = e_now en, ct_updated_at = e_now en\<rparr>"

definition upsert_certificate ::
  "env \<Rightarrow> certificate_deps \<Rightarrow> string \<Rightarrow> string \<Rightarrow> string \<Rightarrow> string \<Rightarrow> member_role \<Rightarrow> certificate_input \<Rightarrow>
     certificate_view studio_act" where
  "upsert_certificate en cd tid eid pid actor role i0 =
     on_error (require_role role RoleAdmin)
     (checked (validate_certificate cd i0) (\<lambda>i.
      with_tenant_tx tid
        (and_then (participant_in_event tid eid pid) (\<lambda>_.
         and_then (case cu_template_id i of
             None \<Rightarrow> ret ()
           | Some m \<Rightarrow> and_then (template_in_event tid eid m) (\<lambda>ok.
               guard ok (FieldError (invalid ''template_id'' ''template_id is not a certificate template of this event.''))
                 (ret ()))) (\<lambda>_.
         and_then (case cu_storage_id i of None \<Rightarrow> ret () | Some x \<Rightarrow> check_certificate_storage tid x) (\<lambda>_.
         and_then (upsert_certificate_row en (new_certificate en tid eid pid actor i)) (\<lambda>_.
         and_then (if cu_status i = StatusReady
             then album_audit en 1 tid actor ''certificate.generated''
               [(''event_id'', MetaText eid), (''participant_id'', MetaText pid)]
             else ret ()) (\<lambda>_.
         get_by_participant tid eid pid))))))))"

definition delete_certificate ::
  "env \<Rightarrow> string \<Rightarrow> string \<Rightarrow> string \<Rightarrow> string \<Rightarrow> member_role \<Rightarrow> unit studio_act" where
  "delete_certificate en tid eid pid actor role =
     on_error (require_role role RoleAdmin)
     (with_tenant_tx tid
        (and_then (delete_certificate_row tid eid pid) (\<lambda>_.
         album_audit en 0 tid actor ''certificate.deleted''
           [(''event_id'', MetaText eid), (''participant_id'', MetaText pid)])))"

definition set_published ::
  "env \<Rightarrow> string \<Rightarrow> string \<Rightarrow> string \<Rightarrow> member_role \<Rightarrow> bool \<Rightarrow> int option studio_act" where
  "set_published en tid eid actor role pub =
     on_error (require_role role RoleAdmin)
     (let stamp = (if pub then Some (e_now en) else None) in
      and_then (with_tenant_tx tid
        (and_then (event_exists tid eid) (\<lambda>_.
         and_then (set_published_row tid eid stamp) (\<lambda>_.
         album_audit en 0 tid actor ''certificate.published''
           [(''event_id'', MetaText eid), (''published'', MetaBool pub)])))) (\<lambda>_.
      ret stamp))"

section \<open>Making certificates in the background\<close>

definition max_certificates :: nat where "max_certificates = 5000"
definition max_tags_per_item :: nat where "max_tags_per_item = 64"
definition max_value_len :: nat where "max_value_len = 500"

record batch_item =
  bi_participant_id :: string
  bi_no :: string
  bi_data_hash :: string
  bi_values :: "(string \<times> string) list"

record batch_input =
  bt_template_id :: string
  bt_format :: string
  bt_dpi :: int
  bt_items :: "batch_item list"
  bt_label :: string

definition bad_items :: "string \<Rightarrow> go_error" where
  "bad_items msg = FieldError (invalid ''items'' msg)"

fun check_batch_items :: "string list \<Rightarrow> batch_item list \<Rightarrow> go_error option" where
  "check_batch_items seen [] = None"
| "check_batch_items seen (it # its) =
     (if \<not> number_ok (bi_no it) then Some (bad_items ''a certificate_no must be 4-40 letters, digits or dashes.'')
      else if bi_participant_id it = '''' \<or> bi_participant_id it \<in> set seen
        then Some (bad_items ''each participant_id must be given once.'')
      else if length (bi_data_hash it) > 64 then Some (bad_items ''a data_hash is too long.'')
      else if length (bi_values it) > max_tags_per_item then Some (bad_items ''too many tag values for one certificate.'')
      else case find (\<lambda>(k, v). length v > max_value_len) (bi_values it) of
        Some (k, v) \<Rightarrow> Some (bad_items (''the value of '' @ k @ '' is too long.''))
      | None \<Rightarrow> check_batch_items (bi_participant_id it # seen) its)"

definition validate_batch :: "batch_input \<Rightarrow> go_error option" where
  "validate_batch b =
     (if bt_format b \<noteq> ''jpg'' \<and> bt_format b \<noteq> ''png'' then Some (FieldError (invalid ''format'' ''format must be jpg or png.''))
      else if bt_dpi b < 72 \<or> bt_dpi b > 600 then Some (FieldError (invalid ''dpi'' ''dpi must be between 72 and 600.''))
      else if bt_items b = [] \<or> length (bt_items b) > max_certificates
        then Some (bad_items (''choose between 1 and '' @ itoa (int max_certificates) @ '' participants.''))
      else check_batch_items [] (bt_items b))"

text \<open>\<open>templateassets.Load\<close>. \<open>aa_layers\<close> reads a design with its metadata and gives the objects of its print
layers, or what is wrong with it; \<open>aa_renderer\<close> draws with the design and the layers.\<close>

record image =
  im_data :: string
  im_width :: int
  im_height :: int

type_synonym drawing = "int \<Rightarrow> string \<Rightarrow> (string \<Rightarrow> string option) \<Rightarrow> go_error + image"

record artwork =
  aa_layers :: "string \<Rightarrow> string \<Rightarrow> string + string list"
  aa_renderer :: "string \<Rightarrow> string list \<Rightarrow> go_error + drawing"

definition template_problem :: "string \<Rightarrow> go_error" where
  "template_problem msg = FieldError (invalid ''template_id'' msg)"

fun read_layers :: "storage_deps \<Rightarrow> string \<Rightarrow> string list \<Rightarrow> string list studio_act" where
  "read_layers sd tid [] = ret []"
| "read_layers sd tid (x # xs) =
     and_then (attempt (read_object sd tid x)) (\<lambda>r.
     case r of
       Inl e \<Rightarrow> fail (template_problem ''a print layer of the template is missing: open it in the editor and save it again.'')
     | Inr png \<Rightarrow> and_then (read_layers sd tid xs) (\<lambda>ps. ret (png # ps)))"

definition load_assets ::
  "storage_deps \<Rightarrow> artwork \<Rightarrow> string \<Rightarrow> string \<Rightarrow> string \<Rightarrow> string \<Rightarrow> (template \<times> string \<times> string list) studio_act" where
  "load_assets sd aa tid eid mid kind =
     and_then (attempt (get_template tid eid mid)) (\<lambda>r.
     case r of
       Inl e \<Rightarrow> fail (if errors_is e ErrNotFound then template_problem ''template_id is not a template of this event.'' else e)
     | Inr v \<Rightarrow>
         guard (tpl_kind (tv_row v) = kind) (template_problem (''template_id is not a '' @ kind @ '' template.''))
         (and_then (attempt (read_object sd tid (tpl_storage_id (tv_row v)))) (\<lambda>d.
          case d of
            Inl e \<Rightarrow> fail (wrapped ''templateassets: read template design'' e)
          | Inr svg \<Rightarrow>
              (case aa_layers aa svg (tpl_metadata (tv_row v)) of
                 Inl msg \<Rightarrow> fail (template_problem msg)
               | Inr ids \<Rightarrow> and_then (read_layers sd tid ids) (\<lambda>pngs. ret (tv_row v, svg, pngs))))))"

abbreviation JobTypeCertificatesBatch :: string where "JobTypeCertificatesBatch \<equiv> ''certificates.batch''"

definition item_payload :: "batch_item \<Rightarrow> meta" where
  "item_payload it = MetaObject
     [(''participant_id'', MetaText (bi_participant_id it)), (''certificate_no'', MetaText (bi_no it)),
      (''data_hash'', MetaText (bi_data_hash it)), (''values'', MetaObject (map (\<lambda>(k, v). (k, MetaText v)) (bi_values it)))]"

definition batch_payload :: "string \<Rightarrow> batch_input \<Rightarrow> string \<Rightarrow> details" where
  "batch_payload eid b name =
     [(''event_id'', MetaText eid), (''template_id'', MetaText (bt_template_id b)), (''format'', MetaText (bt_format b)),
      (''dpi'', MetaInt (bt_dpi b)), (''items'', MetaList (map item_payload (bt_items b))),
      (''meta'', MetaObject [(''event_id'', MetaText eid), (''template_id'', MetaText (bt_template_id b)),
         (''template_name'', MetaText name), (''scope_label'', MetaText (take 200 (trim_space (bt_label b)))),
         (''format'', MetaText (bt_format b)), (''dpi'', MetaInt (bt_dpi b)), (''count'', MetaInt (int (length (bt_items b))))])]"

definition start_certificates ::
  "env \<Rightarrow> certificate_deps \<Rightarrow> artwork \<Rightarrow> string \<Rightarrow> string \<Rightarrow> string \<Rightarrow> member_role \<Rightarrow> batch_input \<Rightarrow> string studio_act" where
  "start_certificates en cd aa tid eid actor role b =
     on_error (require_role role RoleAdmin)
     (on_error (validate_batch b)
     (and_then (load_assets (cd_storage cd) aa tid eid (bt_template_id b) KindCertificate) (\<lambda>(t, svg, pngs).
      case aa_renderer aa svg pngs of
        Inl e \<Rightarrow> fail (template_problem (error_text e))
      | Inr draw \<Rightarrow>
          in_queue (enqueue (cd_queue cd) en tid actor JobTypeCertificatesBatch (batch_payload eid b (tpl_name t))))))"

text \<open>What the worker reads from the payload.\<close>

definition text_of :: "details \<Rightarrow> string \<Rightarrow> string" where
  "text_of d k = (case map_of d k of Some (MetaText x) \<Rightarrow> x | _ \<Rightarrow> '''')"

definition int_of :: "details \<Rightarrow> string \<Rightarrow> int" where
  "int_of d k = (case map_of d k of Some (MetaInt n) \<Rightarrow> n | _ \<Rightarrow> 0)"

definition object_of :: "meta \<Rightarrow> details" where
  "object_of m = (case m of MetaObject d \<Rightarrow> d | _ \<Rightarrow> [])"

definition read_item :: "meta \<Rightarrow> batch_item" where
  "read_item m =
     (let d = object_of m in
      \<lparr>bi_participant_id = text_of d ''participant_id'', bi_no = text_of d ''certificate_no'', bi_data_hash = text_of d ''data_hash'',
       bi_values = (case map_of d ''values'' of
         Some (MetaObject vs) \<Rightarrow> map (\<lambda>(k, v). (k, case v of MetaText x \<Rightarrow> x | _ \<Rightarrow> '''')) vs | _ \<Rightarrow> [])\<rparr>)"

definition read_items :: "details \<Rightarrow> batch_item list" where
  "read_items d = (case map_of d ''items'' of Some (MetaList ms) \<Rightarrow> map read_item ms | _ \<Rightarrow> [])"

definition content_type_of :: "string \<Rightarrow> string" where
  "content_type_of format = (if format = ''png'' then ''image/png'' else ''image/jpeg'')"

definition certificate_key :: "string \<Rightarrow> string \<Rightarrow> string \<Rightarrow> string \<Rightarrow> string" where
  "certificate_key eid pid uid format = ''certificates/'' @ eid @ ''/'' @ pid @ ''/'' @ uid @ ''.'' @ format"

text \<open>\<open>makeOne\<close>: the stored object and the picture.\<close>

definition make_one ::
  "env \<Rightarrow> certificate_deps \<Rightarrow> job \<Rightarrow> drawing \<Rightarrow> batch_item \<Rightarrow> (go_error + object_row \<times> image) studio_act" where
  "make_one en cd j draw it =
     (let format = payload_text j ''format'' in
      case draw (int_of (jb_payload j) ''dpi'') format (map_of (bi_values it)) of
        Inl e \<Rightarrow> ret (Inl e)
      | Inr im \<Rightarrow>
          and_then (attempt (store_generated (strand 1 3 en) (cd_storage cd) (jb_tenant_id j) (jb_created_by j) BucketPrivate
            (certificate_key (payload_text j ''event_id'') (bi_participant_id it) (e_uuid (strand 0 3 en) 0) format)
            (content_type_of format) (im_data im))) (\<lambda>r.
          ret (map_sum id (\<lambda>o'. (o', im)) r)))"

definition made_input :: "job \<Rightarrow> template \<Rightarrow> batch_item \<Rightarrow> go_error + object_row \<times> image \<Rightarrow> certificate_input" where
  "made_input j t it r =
     (let base = \<lparr>cu_no = bi_no it, cu_template_id = Some (tpl_id t), cu_template_version = Some (tpl_version t),
          cu_data_hash = (if bi_data_hash it = '''' then None else Some (bi_data_hash it)), cu_status = StatusReady, cu_error = None,
          cu_storage_id = None, cu_format = None, cu_dpi = None, cu_width_px = None, cu_height_px = None, cu_size_bytes = None\<rparr> in
      case r of
        Inl e \<Rightarrow> base\<lparr>cu_status := StatusFailed, cu_error := Some (error_text e)\<rparr>
      | Inr (o', im) \<Rightarrow> base\<lparr>cu_storage_id := Some (ob_id o'), cu_format := Some (payload_text j ''format''),
          cu_dpi := Some (int_of (jb_payload j) ''dpi''), cu_width_px := Some (im_width im), cu_height_px := Some (im_height im),
          cu_size_bytes := Some (ob_size o')\<rparr>)"

text \<open>One certificate: whether it counts as failed.\<close>

definition make_certificate ::
  "env \<Rightarrow> certificate_deps \<Rightarrow> job \<Rightarrow> template \<Rightarrow> drawing \<Rightarrow> batch_item \<Rightarrow> bool studio_act" where
  "make_certificate en cd j t draw it =
     and_then (make_one en cd j draw it) (\<lambda>r.
     and_then (attempt (upsert_certificate (strand 2 3 en) cd (jb_tenant_id j) (payload_text j ''event_id'')
        (bi_participant_id it) (jb_created_by j) RoleAdmin (made_input j t it r))) (\<lambda>u.
     ret (isl r \<or> isl u)))"

text \<open>The loop counts the failures; \<open>tick\<close> tells before which report a second has passed.\<close>

fun certificate_loop ::
  "env \<Rightarrow> certificate_deps \<Rightarrow> (nat \<Rightarrow> bool) \<Rightarrow> job \<Rightarrow> template \<Rightarrow> drawing \<Rightarrow> nat \<Rightarrow> nat \<Rightarrow> batch_item list \<Rightarrow> nat studio_act" where
  "certificate_loop en cd tick j t draw i cnt [] = ret 0"
| "certificate_loop en cd tick j t draw i cnt (it # its) =
     and_then (make_certificate (strand i cnt en) cd j t draw it) (\<lambda>failed.
     and_then (if tick i \<or> Suc i = cnt then report_progress en j (Suc i) cnt else ret ()) (\<lambda>_.
     and_then (certificate_loop en cd tick j t draw (Suc i) cnt its) (\<lambda>n.
     ret (if failed then Suc n else n))))"

definition certificate_report :: "job \<Rightarrow> template \<Rightarrow> nat \<Rightarrow> nat \<Rightarrow> details option \<times> string" where
  "certificate_report j t cnt failed =
     (Some [(''count'', MetaInt (int cnt)), (''failed'', MetaInt (int failed)), (''format'', MetaText (payload_text j ''format'')),
        (''dpi'', MetaInt (int_of (jb_payload j) ''dpi'')), (''template_version'', MetaInt (tpl_version t))],
      if failed = 0 then '''' else itoa (int failed) @ '' of '' @ itoa (int cnt) @ '' certificates could not be made'')"

definition run_certificates ::
  "env \<Rightarrow> certificate_deps \<Rightarrow> artwork \<Rightarrow> (nat \<Rightarrow> bool) \<Rightarrow> job \<Rightarrow> outcome studio_act" where
  "run_certificates en cd aa tick j =
     and_then (attempt (load_assets (cd_storage cd) aa (jb_tenant_id j) (payload_text j ''event_id'')
       (payload_text j ''template_id'') KindCertificate)) (\<lambda>a.
     case a of
       Inl e \<Rightarrow> ret (Inl e)
     | Inr (t, svg, pngs) \<Rightarrow>
         (case aa_renderer aa svg pngs of
            Inl e \<Rightarrow> ret (Inl e)
          | Inr draw \<Rightarrow>
              let items = read_items (jb_payload j); cnt = length items in
              and_then (report_progress en j 0 cnt) (\<lambda>_.
              and_then (certificate_loop en cd tick j t draw 0 cnt items) (\<lambda>failed.
              ret (Inr (certificate_report j t cnt failed))))))"

end
