(* ===== verification/Portal_Service.thy ===== *)
theory Portal_Service
  imports Certificate_Service
begin

text \<open>
  \<open>internal/portal\<close>, what a runner reaches without a session: the event behind a slug, the search for
  certificates and their download, and the public albums with their photos.
\<close>

section \<open>Errors\<close>

text \<open>\<open>portal.Error\<close> has no field.\<close>

definition portal_not_found :: "string \<Rightarrow> go_error" where
  "portal_not_found msg = FieldError \<lparr>fe_status = 404, fe_code = ''not_found'', fe_field = '''', fe_message = msg\<rparr>"

definition portal_invalid :: "string \<Rightarrow> go_error" where
  "portal_invalid msg = FieldError (invalid '''' msg)"

text \<open>\<open>domain.ErrNotFound\<close> as the portal says it.\<close>

definition hidden_as :: "string \<Rightarrow> 'a studio_act \<Rightarrow> 'a studio_act" where
  "hidden_as msg m =
     and_then (attempt m) (\<lambda>r.
     case r of
       Inl e \<Rightarrow> fail (if errors_is e ErrNotFound then portal_not_found msg else e)
     | Inr a \<Rightarrow> ret a)"

definition resolve_event :: "string \<Rightarrow> event_row studio_act" where
  "resolve_event slug = hidden_as ''Event not found.'' (in_db (published_event_by_slug slug))"

section \<open>Events\<close>

text \<open>\<open>EventDTO\<close>, with the days themselves in place of their text.\<close>

record event_header =
  eh_slug :: string
  eh_name :: string
  eh_venue :: "string option"
  eh_start_date :: "int option"
  eh_end_date :: "int option"
  eh_primary_color :: "string option"

definition event_response :: "event_row \<Rightarrow> event_header" where
  "event_response e =
     \<lparr>eh_slug = ev_slug e, eh_name = ev_name e, eh_venue = ev_venue e, eh_start_date = ev_start_date e,
      eh_end_date = ev_end_date e, eh_primary_color = ev_primary_color e\<rparr>"

definition portal_event :: "string \<Rightarrow> event_header studio_act" where
  "portal_event slug = and_then (resolve_event slug) (\<lambda>ev. ret (event_response ev))"

section \<open>Certificates\<close>

text \<open>A text as its runes, and \<open>ILIKE\<close> on them: both sides are lowered by the database's collation.\<close>

function runes :: "string \<Rightarrow> string list" where
  "runes s = (if s = [] then [] else take (rune_width s) s # runes (drop (rune_width s) s))"
  by auto
termination by (relation "measure length") (auto simp: rune_width_def Let_def split: list.splits)

declare runes.simps [simp del]

fun like_runes :: "string list \<Rightarrow> string list \<Rightarrow> bool" where
  "like_runes [] s = (s = [])"
| "like_runes (p # ps) s =
     (if p = ''%'' then like_runes ps s \<or> (case s of [] \<Rightarrow> False | c # t \<Rightarrow> like_runes (p # ps) t)
      else if p = ''_'' then (case s of [] \<Rightarrow> False | c # t \<Rightarrow> like_runes ps t)
      else if p = [backslash] then
        (case ps of [] \<Rightarrow> False | q # qs \<Rightarrow> (case s of [] \<Rightarrow> False | c # t \<Rightarrow> c = q \<and> like_runes qs t))
      else (case s of [] \<Rightarrow> False | c # t \<Rightarrow> c = p \<and> like_runes ps t))"

definition ilike :: "(string \<Rightarrow> string) \<Rightarrow> string \<Rightarrow> string \<Rightarrow> bool" where
  "ilike lower s p = like_runes (runes (lower p)) (runes (lower s))"

text \<open>A condition on a column that may be null is not true on null.\<close>

definition given_and :: "string option \<Rightarrow> (string \<Rightarrow> bool) \<Rightarrow> bool" where
  "given_and x q = (case x of None \<Rightarrow> False | Some v \<Rightarrow> q v)"

definition named :: "(string \<Rightarrow> string) \<Rightarrow> string \<Rightarrow> participant \<Rightarrow> bool" where
  "named lower q p \<longleftrightarrow>
     (let starts = (\<lambda>x. ilike lower x (q @ ''%'')) in
      itoa (p_bib_number p) = q \<or> starts (p_first_name p) \<or> given_and (p_last_name p) starts \<or> given_and (p_bib_name p) starts)"

definition join_match :: "studio \<Rightarrow> string \<Rightarrow> certificate \<Rightarrow> (participant \<times> race_row \<times> certificate) option" where
  "join_match s tid c =
     (case select_one (\<lambda>p. p_id p = ct_participant_id c \<and> p_tenant_id p = tid) (db_participants (dp_db s)) of
        None \<Rightarrow> None
      | Some p \<Rightarrow>
          map_option (\<lambda>ra. (p, ra, c)) (select_one (\<lambda>ra. ra_id ra = p_race_id p \<and> ra_tenant_id ra = tid) (db_races (dp_db s))))"

definition searchable :: "studio \<Rightarrow> string \<Rightarrow> string \<Rightarrow> certificate \<Rightarrow> bool" where
  "searchable s tid eid c \<longleftrightarrow> ct_tenant_id c = tid \<and> ct_event_id c = eid \<and> ct_status c = StatusReady \<and>
     list_ex (is_publication tid eid) (st_publications s)"

record certificate_match =
  cm_participant_id :: string
  cm_bib_number :: int
  cm_full_name :: string
  cm_race_name :: string
  cm_status :: string

text \<open>\<open>rows.Scan\<close> into a Go string: a null is an error.\<close>

fun scan_matches :: "(participant \<times> race_row \<times> certificate) list \<Rightarrow> go_error + certificate_match list" where
  "scan_matches [] = Inr []"
| "scan_matches ((p, ra, c) # ms) =
     (case p_last_name p of
        None \<Rightarrow> Inl (Other ''sql: Scan error on column index 3: converting NULL to string is unsupported'')
      | Some l \<Rightarrow>
          map_sum id (\<lambda>xs. \<lparr>cm_participant_id = p_id p, cm_bib_number = p_bib_number p, cm_full_name = p_first_name p @ '' '' @ l,
             cm_race_name = ra_name ra, cm_status = ct_status c\<rparr> # xs) (scan_matches ms))"

definition match_position :: "participant \<times> race_row \<times> certificate \<Rightarrow> int" where
  "match_position m = p_bib_number (fst m)"

definition matching_rows ::
  "(string \<Rightarrow> string) \<Rightarrow> studio \<Rightarrow> string \<Rightarrow> string \<Rightarrow> string \<Rightarrow> (participant \<times> race_row \<times> certificate) list" where
  "matching_rows lower s tid eid q =
     take 20 (sort_key match_position (select (\<lambda>m. named lower q (fst m))
       (List.map_filter (join_match s tid) (select (searchable s tid eid) (st_certificates s)))))"

definition search_certificate_rows ::
  "(string \<Rightarrow> string) \<Rightarrow> string \<Rightarrow> string \<Rightarrow> string \<Rightarrow> certificate_match list studio_act" where
  "search_certificate_rows lower tid eid q =
     with_uuid eid (\<lambda>e.
     and_then (reads (\<lambda>s. matching_rows lower s tid e q)) (\<lambda>ms.
     checked (scan_matches ms) ret))"

definition search_certificates :: "(string \<Rightarrow> string) \<Rightarrow> string \<Rightarrow> string \<Rightarrow> certificate_match list studio_act" where
  "search_certificates lower slug query =
     (let q = trim_space query in
      guard (q \<noteq> '''') (portal_invalid ''q is required.'')
      (and_then (resolve_event slug) (\<lambda>ev.
       with_tenant_tx (ev_tenant_id ev) (search_certificate_rows lower (ev_tenant_id ev) (ev_id ev) q))))"

definition certificate_not_found :: go_error where
  "certificate_not_found = portal_not_found ''Certificate not found.''"

definition get_certificate_download ::
  "env \<Rightarrow> certificate_deps \<Rightarrow> string \<Rightarrow> string \<Rightarrow> ticket studio_act" where
  "get_certificate_download en cd slug pid =
     and_then (resolve_event slug) (\<lambda>ev. let tid = ev_tenant_id ev; eid = ev_id ev in
     and_then (hidden_as ''Certificate not found.'' (with_tenant_tx tid
        (and_then (published_at tid eid) (\<lambda>pub.
         guard (pub \<noteq> None) certificate_not_found (get_by_participant tid eid pid))))) (\<lambda>v.
     guard (ct_status (cv_row v) = StatusReady) certificate_not_found
     (and_then (of_store (file_url en cd v)) (\<lambda>url.
      case url of None \<Rightarrow> fail certificate_not_found | Some t \<Rightarrow> ret t))))"

section \<open>Albums and photos\<close>

record public_album =
  pa_id :: string
  pa_name :: string
  pa_photo_count :: nat

definition album_response :: "album_view \<Rightarrow> public_album" where
  "album_response v = \<lparr>pa_id = ab_id (av_album v), pa_name = ab_name (av_album v), pa_photo_count = av_photo_count v\<rparr>"

definition portal_albums :: "string \<Rightarrow> public_album list studio_act" where
  "portal_albums slug =
     and_then (resolve_event slug) (\<lambda>ev.
     and_then (list_public_albums (ev_tenant_id ev) (ev_id ev)) (\<lambda>vs. ret (map album_response vs)))"

record public_photo =
  pp_id :: string
  pp_album_id :: string
  pp_album_name :: string
  pp_preview :: ticket

text \<open>The names of the albums by their identifiers; a missing key reads as empty.\<close>

definition name_in :: "(string \<times> string) list \<Rightarrow> string \<Rightarrow> string" where
  "name_in names aid = (case map_of names aid of None \<Rightarrow> '''' | Some x \<Rightarrow> x)"

text \<open>The loop of \<open>photoPage\<close>: a photo without a preview is left out, a failing link ends it.\<close>

fun public_photos ::
  "env \<Rightarrow> storage_deps \<Rightarrow> (string \<Rightarrow> string) \<Rightarrow> photo_view list \<Rightarrow> store_error + public_photo list" where
  "public_photos en sd name [] = Inr []"
| "public_photos en sd name (v # vs) =
     (case preview_url en sd v of
        Inl e \<Rightarrow> Inl e
      | Inr None \<Rightarrow> public_photos en sd name vs
      | Inr (Some t) \<Rightarrow>
          map_sum id (\<lambda>xs. \<lparr>pp_id = ph_id (pv_row v), pp_album_id = ph_album_id (pv_row v),
            pp_album_name = name (ph_album_id (pv_row v)), pp_preview = t\<rparr> # xs) (public_photos en sd name vs))"

definition photo_page ::
  "env \<Rightarrow> storage_deps \<Rightarrow> string \<Rightarrow> string \<Rightarrow> photo_filter \<Rightarrow> page_params \<Rightarrow> string \<Rightarrow> public_photo page studio_act" where
  "photo_page en sd tid eid f pg known =
     and_then (list_photos tid eid (f\<lparr>pf_public_only := True\<rparr>) pg) (\<lambda>photos.
     and_then (if known = '''' \<and> pg_items photos \<noteq> []
        then and_then (list_public_albums tid eid) (\<lambda>vs. ret (rev (map (\<lambda>v. (ab_id (av_album v), ab_name (av_album v))) vs)))
        else ret []) (\<lambda>names.
     and_then (of_store (public_photos en sd (\<lambda>aid. if known = '''' then name_in names aid else known)
        (map snd (pg_items photos)))) (\<lambda>out.
     ret \<lparr>pg_items = out, pg_next_cursor = pg_next_cursor photos\<rparr>)))"

definition search_photos ::
  "env \<Rightarrow> storage_deps \<Rightarrow> string \<Rightarrow> string \<Rightarrow> page_params \<Rightarrow> public_photo page studio_act" where
  "search_photos en sd slug bib pg =
     guard (trim_space bib \<noteq> '''') (portal_invalid ''bib is required.'')
     (and_then (resolve_event slug) (\<lambda>ev.
      photo_page en sd (ev_tenant_id ev) (ev_id ev) (no_filter\<lparr>pf_bib := bib\<rparr>) pg ''''))"

definition list_album_photos ::
  "env \<Rightarrow> storage_deps \<Rightarrow> string \<Rightarrow> string \<Rightarrow> page_params \<Rightarrow> public_photo page studio_act" where
  "list_album_photos en sd slug aid pg =
     and_then (resolve_event slug) (\<lambda>ev.
     and_then (hidden_as ''Album not found.'' (get_album (ev_tenant_id ev) (ev_id ev) aid)) (\<lambda>v.
     guard (ab_is_public (av_album v)) (portal_not_found ''Album not found.'')
     (photo_page en sd (ev_tenant_id ev) (ev_id ev) (no_filter\<lparr>pf_album := aid\<rparr>) pg (ab_name (av_album v)))))"

text \<open>The handler's reply to an error.\<close>

definition portal_reply :: "go_error \<Rightarrow> http_error" where
  "portal_reply e = (case e of FieldError f \<Rightarrow> reply (fe_status f) (fe_code f) (fe_message f) | _ \<Rightarrow> from_service_error e)"

end
