(* ===== verification/Template_Rules.thy ===== *)
theory Template_Rules
  imports Template_Service Gallery_Rules Uuid_Rules
begin

text \<open>
  What holds of templates: at most one is active in a scope, taking a scope pushes exactly its holder out, and
  a version of a template names one design through any history.
\<close>

section \<open>Statements\<close>

text \<open>A call that only reads.\<close>

lemma same_state: "(\<And>x. keeps (\<lambda>s. s = x) m) \<Longrightarrow> m s = (r, s') \<Longrightarrow> s' = s"
  by (simp add: keeps_def) (metis snd_conv)

definition canon_uuid :: "string option \<Rightarrow> string option option" where
  "canon_uuid r = (case r of None \<Rightarrow> Some None | Some x \<Rightarrow> map_option Some (pg_uuid x))"

lemma with_optional_uuid_InrE [act_elims]:
  assumes "with_optional_uuid r f s = (Inr a, s')"
  obtains u where "canon_uuid r = Some u" "f u s = (Inr a, s')"
  using assms by (cases r) (auto simp: with_optional_uuid_def canon_uuid_def elim: with_uuid_InrE)

lemma keeps_with_optional_uuid [keeps_intros]: "(\<And>u. keeps I (f u)) \<Longrightarrow> keeps I (with_optional_uuid r f)"
  by (cases r) (auto simp: with_optional_uuid_def intro: keeps_with_uuid)

lemma with_jsonb_InrE [act_elims]:
  assumes "with_jsonb td x f s = (Inr a, s')"
  obtains y where "td_jsonb td x = Some y" "f y s = (Inr a, s')"
  using assms by (cases "td_jsonb td x") (simp_all add: with_jsonb_def fail_def)

lemma keeps_template_reads [keeps_intros]:
  "keeps I (event_exists tid eid)" "keeps I (race_in_event tid eid rid)" "keeps I (referred_object tid oid)"
  "keeps I (get_template_row tid eid mid)"
  unfolding event_exists_def race_in_event_def referred_object_def object_ref_def get_template_row_def
  by (intro keeps_intros)+

lemma keeps_template_checks [keeps_intros]: "keeps I (check_scope tid eid rid)" "keeps I (check_template_storage tid oid)"
  unfolding check_scope_def check_template_storage_def by (intro keeps_intros)+

lemma event_exists_InrE [act_elims]:
  assumes "event_exists tid eid s = (Inr u, s')" obtains "s' = s"
  using same_state [OF keeps_template_reads(1) assms] that by blast

lemma check_scope_InrE [act_elims]:
  assumes "check_scope tid eid rid s = (Inr u, s')" obtains "s' = s"
  using same_state [OF keeps_template_checks(1) assms] that by blast

lemma referred_object_InrE [act_elims]:
  assumes "referred_object tid oid s = (Inr o', s')"
  obtains u where "pg_uuid oid = Some u" "joined_object s tid u = Some o'" "s' = s"
proof -
  have s: "s' = s" by (rule same_state [OF keeps_template_reads(3) assms])
  have "object_ref tid oid s = (Inr o', s)"
    using assms by (auto simp: referred_object_def attempt_def and_then_def ret_def fail_def s
        split: sum.splits prod.splits if_splits)
  then obtain u where "pg_uuid oid = Some u" "joined_object s tid u = Some o'"
    unfolding object_ref_def by (elim act_elims) blast
  with s that show ?thesis by blast
qed

lemma check_template_storage_InrE [act_elims]:
  assumes "check_template_storage tid oid s = (Inr v, s')"
  obtains u o' where "pg_uuid oid = Some u" "joined_object s tid u = Some o'" "check_object o' = None" "s' = s"
  using assms unfolding check_template_storage_def by (elim act_elims) (hypsubst, blast)

lemma get_template_row_InrE [act_elims]:
  assumes "get_template_row tid eid mid s = (Inr v, s')"
  obtains e m where "pg_uuid eid = Some e" "pg_uuid mid = Some m" "tv_row v \<in> set (st_templates s)"
    "is_template tid e m (tv_row v)" "s' = s"
proof -
  from assms obtain e m where em: "pg_uuid eid = Some e" "pg_uuid mid = Some m" "s' = s"
    and sel: "select_one (\<lambda>v. is_template tid e m (tv_row v)) (List.map_filter (view_template s tid) (st_templates s)) = Some v"
    unfolding get_template_row_def by (elim act_elims) (hypsubst, blast)
  from select_one_SomeD [OF sel] have v: "is_template tid e m (tv_row v)" by simp
  from select_one_SomeD [OF sel] obtain t where "t \<in> set (st_templates s)" "view_template s tid t = Some v"
    by (auto simp: List.map_filter_def)
  then have "tv_row v \<in> set (st_templates s)" by (auto simp: view_template_def)
  with em v that show ?thesis by blast
qed

definition switched_off :: "env \<Rightarrow> template \<Rightarrow> template" where
  "switched_off en t = t\<lparr>tpl_is_active := False, tpl_updated_at := e_now en\<rparr>"

text \<open>The templates after a scope was taken.\<close>

definition scope_freed :: "env \<Rightarrow> string \<Rightarrow> string \<Rightarrow> string option \<Rightarrow> template \<Rightarrow> template list \<Rightarrow> template list" where
  "scope_freed en tid e r t ts =
     (if tpl_is_active t then update_where (holds_scope tid e (tpl_kind t) r (tpl_id t)) (switched_off en) ts else ts)"

lemma take_scope_InrE [act_elims]:
  assumes "take_scope en tid eid t s = (Inr u, s')"
  obtains e r where "tpl_is_active t \<longrightarrow> pg_uuid eid = Some e \<and> canon_uuid (tpl_race_id t) = Some r"
    "s' = s\<lparr>st_templates := scope_freed en tid e r t (st_templates s)\<rparr>"
proof (cases "tpl_is_active t")
  case True
  with assms have "and_then (deactivate en tid eid (tpl_kind t) (tpl_race_id t) (tpl_id t)) (\<lambda>_. ret ()) s = (Inr u, s')"
    by (simp add: take_scope_def)
  then obtain e r where "pg_uuid eid = Some e" "canon_uuid (tpl_race_id t) = Some r"
    "s' = s\<lparr>st_templates := scope_freed en tid e r t (st_templates s)\<rparr>"
    unfolding deactivate_def Let_def scope_freed_def switched_off_def if_P [OF True]
    by (elim act_elims) (hypsubst, blast)
  with that show ?thesis by blast
next
  case False
  with assms that [of "[]" None] show ?thesis by (simp add: take_scope_def ret_def scope_freed_def)
qed

lemma insert_template_InrE [act_elims]:
  assumes "insert_template t s = (Inr u, s')"
  obtains "kind_valid (tpl_kind t)" "template_violation s (st_templates s) t = None"
    "s' = s\<lparr>st_templates := st_templates s @ [t]\<rparr>"
  using assms unfolding insert_template_def by (elim act_elims) (hypsubst, blast)

lemma create_template_row_InrE [act_elims]:
  assumes "create_template_row td t s = (Inr u, s')"
  obtains e r d md where "pg_uuid (tpl_event_id t) = Some e" "canon_uuid (tpl_race_id t) = Some r"
    "pg_uuid (tpl_storage_id t) = Some d" "kind_valid (tpl_kind t)"
    "template_violation s (st_templates s) (t\<lparr>tpl_event_id := e, tpl_race_id := r, tpl_storage_id := d, tpl_metadata := md\<rparr>) = None"
    "s' = s\<lparr>st_templates := st_templates s @ [t\<lparr>tpl_event_id := e, tpl_race_id := r, tpl_storage_id := d, tpl_metadata := md\<rparr>]\<rparr>"
proof -
  from assms obtain e r d md where c: "pg_uuid (tpl_event_id t) = Some e" "canon_uuid (tpl_race_id t) = Some r"
      "pg_uuid (tpl_storage_id t) = Some d"
    and i: "insert_template (t\<lparr>tpl_event_id := e, tpl_race_id := r, tpl_storage_id := d, tpl_metadata := md\<rparr>) s = (Inr u, s')"
    unfolding create_template_row_def by (elim with_uuid_InrE with_optional_uuid_InrE with_jsonb_InrE) blast
  from i show ?thesis by (rule insert_template_InrE) (rule that [OF c], simp_all)
qed

lemma write_template_InrE [act_elims]:
  assumes "write_template en t s = (Inr u, s')"
  obtains "unique_on scope_key (update_where (same_template t) (edited en t) (st_templates s))"
    "s' = s\<lparr>st_templates := update_where (same_template t) (edited en t) (st_templates s)\<rparr>"
  using assms unfolding write_template_def
  by (elim act_elims) (use that in \<open>simp split: if_splits\<close>)

lemma update_template_row_InrE [act_elims]:
  assumes "update_template_row td en t s = (Inr u, s')"
  obtains r d md where "canon_uuid (tpl_race_id t) = Some r" "pg_uuid (tpl_storage_id t) = Some d"
    "write_template en (t\<lparr>tpl_race_id := r, tpl_storage_id := d, tpl_metadata := md\<rparr>) s = (Inr u, s')"
  using assms unfolding update_template_row_def
  by (elim with_optional_uuid_InrE with_uuid_InrE with_jsonb_InrE and_then_InrE sql_check_InrE) (hypsubst, blast)

lemma delete_template_row_InrE [act_elims]:
  assumes "delete_template_row en tid eid mid s = (Inr u, s')"
  obtains e m where "pg_uuid eid = Some e" "pg_uuid mid = Some m" "s' = drop_template en (is_template tid e m) s"
  using assms unfolding delete_template_row_def by (elim act_elims) (hypsubst, blast)

lemma album_audit_InrE [act_elims]:
  assumes "album_audit en k tid actor a md s = (Inr u, s')"
  obtains b where "s' = s\<lparr>dp_db := b\<rparr>"
  using assms by (auto simp: album_audit_def object_audit_def in_db_def split: prod.splits)

section \<open>Effects of the use cases\<close>

lemma create_template_effect:
  assumes "create_template en td tid eid actor role i s = (Inr v, s')"
  obtains e r t b where "pg_uuid eid = Some e" "kind_valid (tpl_kind t)" "tpl_version t = 1" "tpl_id t = e_uuid en 0"
    "tpl_tenant_id t = tid" "tpl_event_id t = e" "tpl_race_id t = r" "tpl_kind t = ti_kind i" "tpl_is_active t = ti_active i"
    "pg_uuid (ti_storage_id i) = Some (tpl_storage_id t)"
    "template_violation (s\<lparr>st_templates := scope_freed en tid e r t (st_templates s)\<rparr>)
       (scope_freed en tid e r t (st_templates s)) t = None"
    "s' = s\<lparr>st_templates := scope_freed en tid e r t (st_templates s) @ [t], dp_db := b\<rparr>"
proof -
  from assms obtain name md s1 s2 u u2 u3 xs where
    t1: "take_scope en tid eid (new_template en tid eid actor name md i) s = (Inr u, s1)" and
    t2: "create_template_row td (new_template en tid eid actor name md i) s1 = (Inr u2, s2)" and
    t3: "album_audit en 1 tid actor ''template.uploaded'' xs s2 = (Inr u3, s')"
    unfolding create_template_def Let_def
    by (elim on_error_InrE guard_InrE checked_InrE with_tenant_tx_InrE and_then_InrE event_exists_InrE check_scope_InrE
        check_template_storage_InrE get_template_row_InrE, hypsubst) blast
  let ?n = "new_template en tid eid actor name md i"
  from t1 obtain e r where f: "tpl_is_active ?n \<longrightarrow> pg_uuid eid = Some e \<and> canon_uuid (tpl_race_id ?n) = Some r"
    and s1: "s1 = s\<lparr>st_templates := scope_freed en tid e r ?n (st_templates s)\<rparr>" by (rule take_scope_InrE)
  from t3 obtain b where s': "s' = s2\<lparr>dp_db := b\<rparr>" by (rule album_audit_InrE)
  from t2 show ?thesis
  proof (rule create_template_row_InrE)
    fix e' r' d md'
    let ?t = "?n\<lparr>tpl_event_id := e', tpl_race_id := r', tpl_storage_id := d, tpl_metadata := md'\<rparr>"
    assume c: "pg_uuid (tpl_event_id ?n) = Some e'" "canon_uuid (tpl_race_id ?n) = Some r'"
      "pg_uuid (tpl_storage_id ?n) = Some d" "kind_valid (tpl_kind ?n)"
      and v: "template_violation s1 (st_templates s1) ?t = None"
      and s2: "s2 = s1\<lparr>st_templates := st_templates s1 @ [?t]\<rparr>"
    have fr: "scope_freed en tid e r ?n ts = scope_freed en tid e' r' ?t ts" for ts
      using f c(1,2) by (auto simp: scope_freed_def new_template_def)
    show ?thesis
      by (rule that [of e' ?t r' b])
        (use c v [unfolded s1] in \<open>simp_all add: fr s1 s2 s', simp_all add: new_template_def\<close>)
  qed
qed

lemma update_template_effect:
  assumes "update_template en td tid eid mid actor role p s = (Inr v, s')"
  obtains old e m n t r d md b where "old \<in> set (st_templates s)" "is_template tid e m old" "pg_uuid eid = Some e"
    "pg_uuid mid = Some m" "pg_uuid (tpl_storage_id (redesigned p old)) = Some d" "tpl_version t = tpl_version (redesigned p old)"
    "tpl_storage_id t = d" "tpl_id t = tpl_id old" "tpl_tenant_id t = tpl_tenant_id old" "tpl_event_id t = tpl_event_id old"
    "unique_on scope_key (update_where (same_template t) (edited en t) (scope_freed en tid e r t (st_templates s)))"
    "s' = s\<lparr>st_templates := update_where (same_template t) (edited en t) (scope_freed en tid e r t (st_templates s)), dp_db := b\<rparr>"
proof -
  from assms obtain old e m name md0 s1 s2 s3 s4 u1 u2 u3 u4 u5 a xs where
    old: "old \<in> set (st_templates s)" "is_template tid e m old" and em: "pg_uuid eid = Some e" "pg_uuid mid = Some m" and
    c1: "(if tp_race_id p = None then ret () else check_scope tid eid (patched_race p (tpl_race_id old))) s = (Inr u1, s1)" and
    c2: "(if design_changed p old then check_template_storage tid (the (tp_storage_id p)) else ret ()) s1 = (Inr u2, s2)" and
    t1: "take_scope en tid eid (redesigned p (patched_template p name md0 old)) s2 = (Inr u3, s3)" and
    t2: "update_template_row td en (redesigned p (patched_template p name md0 old)) s3 = (Inr u4, s4)" and
    t3: "album_audit en 0 tid actor a xs s4 = (Inr u5, s')"
    unfolding update_template_def Let_def
    by (elim on_error_InrE with_tenant_tx_InrE and_then_InrE checked_InrE get_template_row_InrE, hypsubst) blast
  let ?n = "redesigned p (patched_template p name md0 old)"
  have "s1 = s" using c1 by (auto simp: ret_def elim: check_scope_InrE split: if_splits)
  moreover have "s2 = s1" using c2 by (auto simp: ret_def elim: check_template_storage_InrE split: if_splits)
  ultimately have t1': "take_scope en tid eid ?n s = (Inr u3, s3)" using t1 by simp
  from t1' obtain e' r where f: "tpl_is_active ?n \<longrightarrow> pg_uuid eid = Some e' \<and> canon_uuid (tpl_race_id ?n) = Some r"
    and s3: "s3 = s\<lparr>st_templates := scope_freed en tid e' r ?n (st_templates s)\<rparr>" by (rule take_scope_InrE)
  from t3 obtain b where s': "s' = s4\<lparr>dp_db := b\<rparr>" by (rule album_audit_InrE)
  from t2 show ?thesis
  proof (rule update_template_row_InrE)
    fix r' d md
    let ?t = "?n\<lparr>tpl_race_id := r', tpl_storage_id := d, tpl_metadata := md\<rparr>"
    assume c: "canon_uuid (tpl_race_id ?n) = Some r'" "pg_uuid (tpl_storage_id ?n) = Some d"
      and w: "write_template en ?t s3 = (Inr u4, s4)"
    have k: "tpl_id ?n = tpl_id old" "tpl_tenant_id ?n = tpl_tenant_id old" "tpl_event_id ?n = tpl_event_id old"
      "tpl_storage_id ?n = tpl_storage_id (redesigned p old)" "tpl_version ?n = tpl_version (redesigned p old)"
      by (cases "tp_storage_id p"; simp add: redesigned_def patched_template_def design_changed_def)+
    have fr: "scope_freed en tid e' r ?n ts = scope_freed en tid e r' ?t ts" for ts
      using f c(1) em(1) by (auto simp: scope_freed_def)
    from w show ?thesis
      by (rule write_template_InrE) (rule that [OF old em, of d ?t r' b]; use c k in \<open>simp add: s3 s' fr\<close>)
  qed
qed

lemma delete_template_effect:
  assumes "delete_template en tid eid mid actor role s = (Inr u, s')"
  obtains e m b where "pg_uuid eid = Some e" "pg_uuid mid = Some m" "s' = (drop_template en (is_template tid e m) s)\<lparr>dp_db := b\<rparr>"
  using assms unfolding delete_template_def
  by (elim on_error_InrE with_tenant_tx_InrE and_then_InrE delete_template_row_InrE album_audit_InrE) (hypsubst, blast)

lemma template_call_fails:
  "create_template en td tid eid actor role i s = (Inl x, s') \<Longrightarrow> s' = s"
  "update_template en td tid eid mid actor role p s = (Inl x, s') \<Longrightarrow> s' = s"
  "delete_template en tid eid mid actor role s = (Inl x, s') \<Longrightarrow> s' = s"
  unfolding create_template_def update_template_def delete_template_def
  by (auto simp: on_error_def guard_def checked_def fail_def dest: with_tenant_tx_error split: option.splits sum.splits if_splits)

section \<open>Consistency\<close>

definition template_legal :: "template \<Rightarrow> bool" where
  "template_legal t \<longleftrightarrow> kind_valid (tpl_kind t) \<and> 1 \<le> tpl_version t \<and> pg_uuid (tpl_storage_id t) = Some (tpl_storage_id t)"

definition templates_ok :: "template list \<Rightarrow> bool" where
  "templates_ok ts \<longleftrightarrow> unique_on template_pk ts \<and> unique_on scope_key ts \<and> list_all template_legal ts"

lemma templates_ok_freed: "templates_ok ts \<Longrightarrow> templates_ok (scope_freed en tid e r t ts)"
  by (auto simp: templates_ok_def scope_freed_def switched_off_def template_pk_def template_legal_def scope_key_def
      list_all_iff set_update_where intro!: unique_on_update_same_key unique_on_update_clear)

lemma templates_ok_insert:
  "templates_ok ts \<Longrightarrow> template_violation s ts t = None \<Longrightarrow> template_legal t \<Longrightarrow> templates_ok (ts @ [t])"
  by (auto simp: templates_ok_def template_violation_def intro: unique_on_insert split: if_splits)

lemma templates_ok_write:
  assumes "templates_ok ts" "unique_on scope_key (update_where (same_template t) (edited en t) ts)"
    and "1 \<le> tpl_version t" "pg_uuid (tpl_storage_id t) = Some (tpl_storage_id t)"
  shows "templates_ok (update_where (same_template t) (edited en t) ts)"
  using assms by (auto simp: templates_ok_def edited_def template_pk_def template_legal_def list_all_iff set_update_where
      intro: unique_on_update_same_key)

datatype template_call =
    TemplateCreate string string string member_role template_input
  | TemplateUpdate string string string string member_role template_patch
  | TemplateDelete string string string string member_role

fun run_template_call :: "template_deps \<Rightarrow> env \<times> template_call \<Rightarrow> studio \<Rightarrow> studio" where
  "run_template_call td (en, TemplateCreate tid eid actor role i) = performed (create_template en td tid eid actor role i)"
| "run_template_call td (en, TemplateUpdate tid eid mid actor role p) = performed (update_template en td tid eid mid actor role p)"
| "run_template_call td (en, TemplateDelete tid eid mid actor role) = performed (delete_template en tid eid mid actor role)"

lemma create_template_keeps:
  assumes "templates_ok (st_templates s)" "create_template en td tid eid actor role i s = (x, s')"
  shows "templates_ok (st_templates s')"
proof (cases x)
  case (Inl e)
  with assms template_call_fails(1) show ?thesis by blast
next
  case (Inr v)
  with assms(2) have "create_template en td tid eid actor role i s = (Inr v, s')" by simp
  then show ?thesis
  proof (rule create_template_effect)
    fix e r t b
    assume t: "kind_valid (tpl_kind t)" "tpl_version t = 1" "pg_uuid (ti_storage_id i) = Some (tpl_storage_id t)"
      and v: "template_violation (s\<lparr>st_templates := scope_freed en tid e r t (st_templates s)\<rparr>)
         (scope_freed en tid e r t (st_templates s)) t = None"
      and s': "s' = s\<lparr>st_templates := scope_freed en tid e r t (st_templates s) @ [t], dp_db := b\<rparr>"
    from templates_ok_insert [OF templates_ok_freed [OF assms(1)] v] t pg_uuid_idem [OF t(3)]
    show ?thesis by (simp add: s' template_legal_def)
  qed
qed

lemma update_template_keeps:
  assumes "templates_ok (st_templates s)" "update_template en td tid eid mid actor role p s = (x, s')"
  shows "templates_ok (st_templates s')"
proof (cases x)
  case (Inl e)
  with assms template_call_fails(2) show ?thesis by blast
next
  case (Inr v)
  with assms(2) have "update_template en td tid eid mid actor role p s = (Inr v, s')" by simp
  then show ?thesis
  proof (rule update_template_effect)
    fix old e m n t r d md b
    assume old: "old \<in> set (st_templates s)" and d: "pg_uuid (tpl_storage_id (redesigned p old)) = Some d"
      and t: "tpl_version t = tpl_version (redesigned p old)" "tpl_storage_id t = d"
      and u: "unique_on scope_key (update_where (same_template t) (edited en t) (scope_freed en tid e r t (st_templates s)))"
      and s': "s' = s\<lparr>st_templates := update_where (same_template t) (edited en t) (scope_freed en tid e r t (st_templates s)), dp_db := b\<rparr>"
    have "1 \<le> tpl_version t"
      using assms(1) old t(1) by (auto simp: templates_ok_def list_all_iff template_legal_def redesigned_def)
    with templates_ok_write [OF templates_ok_freed [OF assms(1)] u] pg_uuid_idem [OF d] t(2) show ?thesis
      by (simp add: s')
  qed
qed

lemma delete_template_keeps:
  assumes "templates_ok (st_templates s)" "delete_template en tid eid mid actor role s = (x, s')"
  shows "templates_ok (st_templates s')"
proof (cases x)
  case (Inl e)
  with assms template_call_fails(3) show ?thesis by blast
next
  case (Inr v)
  with assms(2) have "delete_template en tid eid mid actor role s = (Inr v, s')" by simp
  then obtain q b where s': "s' = (drop_template en q s)\<lparr>dp_db := b\<rparr>" by (rule delete_template_effect) blast
  show ?thesis
    using assms(1) by (auto simp: s' drop_template_def Let_def templates_ok_def list_all_iff set_delete_where intro: unique_on_delete)
qed

lemma run_template_call_ok:
  "templates_ok (st_templates s) \<Longrightarrow> templates_ok (st_templates (run_template_call td (en, c) s))"
  by (cases c) (auto simp: performed_def intro: create_template_keeps [OF _ prod.collapse [symmetric]]
      update_template_keeps [OF _ prod.collapse [symmetric]] delete_template_keeps [OF _ prod.collapse [symmetric]])

section \<open>Properties\<close>

text \<open>C29: Through any history of template calls an event has, for each service and each race (or the whole event),
at most one active template, identifiers stay unique and versions count from one.\<close>

theorem templates_consistent:
  assumes "templates_ok (st_templates s)"
  shows "templates_ok (st_templates (fold (run_template_call td) calls s))"
  using assms
proof (induction calls arbitrary: s)
  case (Cons c calls)
  then show ?case by (cases c) (simp add: run_template_call_ok)
qed simp

text \<open>A later state of the same template.\<close>

definition succeeds :: "template \<Rightarrow> template \<Rightarrow> bool" where
  "succeeds t' t \<longleftrightarrow> tpl_id t' = tpl_id t \<and> tpl_tenant_id t' = tpl_tenant_id t \<and> tpl_event_id t' = tpl_event_id t \<and>
     tpl_kind t' = tpl_kind t \<and> tpl_version t \<le> tpl_version t' \<and>
     (tpl_version t' = tpl_version t \<longrightarrow> tpl_storage_id t' = tpl_storage_id t)"

lemma succeeds_refl: "succeeds t t"
  by (simp add: succeeds_def)

lemma succeeds_trans: "succeeds a b \<Longrightarrow> succeeds b c \<Longrightarrow> succeeds a c"
  unfolding succeeds_def by auto

lemma succeeds_switched_off: "succeeds (switched_off en t) t"
  by (simp add: succeeds_def switched_off_def)

lemma scope_freed_succeeds: "t \<in> set ts \<Longrightarrow> \<exists>t' \<in> set (scope_freed en tid e r n ts). succeeds t' t"
proof (intro bexI)
  let ?t = "if tpl_is_active n \<and> holds_scope tid e (tpl_kind n) r (tpl_id n) t then switched_off en t else t"
  show "succeeds ?t t" by (simp add: succeeds_refl succeeds_switched_off)
  show "t \<in> set ts \<Longrightarrow> ?t \<in> set (scope_freed en tid e r n ts)"
    by (auto simp: scope_freed_def update_where_def)
qed

fun deletes_template :: "string \<Rightarrow> template_call \<Rightarrow> bool" where
  "deletes_template m (TemplateDelete tid eid mid actor role) \<longleftrightarrow> pg_uuid mid = Some m"
| "deletes_template m c \<longleftrightarrow> False"

lemma create_template_succeeds:
  assumes "t \<in> set (st_templates s)" "create_template en td tid eid actor role i s = (x, s')"
  shows "\<exists>t' \<in> set (st_templates s'). succeeds t' t"
proof (cases x)
  case (Inl e)
  with assms template_call_fails(1) succeeds_refl show ?thesis by blast
next
  case (Inr v)
  with assms(2) have "create_template en td tid eid actor role i s = (Inr v, s')" by simp
  then obtain e r n b where "s' = s\<lparr>st_templates := scope_freed en tid e r n (st_templates s) @ [n], dp_db := b\<rparr>"
    by (rule create_template_effect)
  with scope_freed_succeeds [OF assms(1)] show ?thesis by force
qed

lemma update_template_succeeds:
  assumes "templates_ok (st_templates s)" "t \<in> set (st_templates s)" "update_template en td tid eid mid actor role p s = (x, s')"
  shows "\<exists>t' \<in> set (st_templates s'). succeeds t' t"
proof (cases x)
  case (Inl e)
  with assms template_call_fails(2) succeeds_refl show ?thesis by blast
next
  case (Inr v)
  with assms(3) have "update_template en td tid eid mid actor role p s = (Inr v, s')" by simp
  then show ?thesis
  proof (rule update_template_effect)
    fix old e m n r d md b
    assume old: "old \<in> set (st_templates s)" and d: "pg_uuid (tpl_storage_id (redesigned p old)) = Some d"
      and n: "tpl_version n = tpl_version (redesigned p old)" "tpl_storage_id n = d" "tpl_id n = tpl_id old"
      and s': "s' = s\<lparr>st_templates := update_where (same_template n) (edited en n) (scope_freed en tid e r n (st_templates s)), dp_db := b\<rparr>"
    from scope_freed_succeeds [OF assms(2)] obtain t1 where
      t1: "t1 \<in> set (scope_freed en tid e r n (st_templates s))" "succeeds t1 t" by blast
    show ?thesis
    proof (cases "same_template n t1")
      case False
      with t1 show ?thesis by (auto simp: s' set_update_where)
    next
      case True
      with t1(2) n(3) have "tpl_id t = tpl_id old" by (simp add: same_template_def is_template_def succeeds_def)
      then have o': "t = old"
        using assms(1,2) old by (intro unique_on_sel [where key = template_pk and t = "st_templates s"])
          (auto simp: templates_ok_def template_pk_def)
      have "pg_uuid (tpl_storage_id t) = Some (tpl_storage_id t)"
        using assms(1,2) by (auto simp: templates_ok_def list_all_iff template_legal_def)
      then have "succeeds (edited en n t1) t"
        using t1(2) n d by (auto simp: succeeds_def edited_def redesigned_def o' split: if_splits)
      moreover from t1(1) True have "edited en n t1 \<in> set (st_templates s')" by (auto simp: s' set_update_where)
      ultimately show ?thesis by blast
    qed
  qed
qed

lemma delete_template_succeeds:
  assumes "t \<in> set (st_templates s)" "delete_template en tid eid mid actor role s = (x, s')" "pg_uuid mid \<noteq> Some (tpl_id t)"
  shows "\<exists>t' \<in> set (st_templates s'). succeeds t' t"
proof (cases x)
  case (Inl e)
  with assms template_call_fails(3) succeeds_refl show ?thesis by blast
next
  case (Inr v)
  with assms(2) have "delete_template en tid eid mid actor role s = (Inr v, s')" by simp
  then obtain e m b where "pg_uuid mid = Some m" "s' = (drop_template en (is_template tid e m) s)\<lparr>dp_db := b\<rparr>"
    by (rule delete_template_effect)
  with assms(1,3) have "t \<in> set (st_templates s')"
    by (auto simp: drop_template_def Let_def set_delete_where is_template_def)
  with succeeds_refl show ?thesis by blast
qed

lemma run_template_call_succeeds:
  assumes "templates_ok (st_templates s)" "t \<in> set (st_templates s)" "\<not> deletes_template (tpl_id t) c"
  shows "\<exists>t' \<in> set (st_templates (run_template_call td (en, c) s)). succeeds t' t"
proof (cases c)
  case (TemplateCreate tid eid actor role i)
  show ?thesis unfolding TemplateCreate run_template_call.simps performed_def
    by (rule create_template_succeeds [OF assms(2) prod.collapse [symmetric]])
next
  case (TemplateUpdate tid eid mid actor role p)
  show ?thesis unfolding TemplateUpdate run_template_call.simps performed_def
    by (rule update_template_succeeds [OF assms(1,2) prod.collapse [symmetric]])
next
  case (TemplateDelete tid eid mid actor role)
  show ?thesis unfolding TemplateDelete run_template_call.simps performed_def
    by (rule delete_template_succeeds [OF assms(2) prod.collapse [symmetric]])
      (use assms(3) TemplateDelete in simp)
qed

text \<open>C30: A version of a template names one design: as long as a template is not deleted, no history of calls moves
its version back, and while the version is the same so is the stored design; event and service never change.\<close>

theorem version_names_design:
  assumes "templates_ok (st_templates s)" and "t \<in> set (st_templates s)"
    and "\<forall>(en, c) \<in> set calls. \<not> deletes_template (tpl_id t) c"
  shows "\<exists>t' \<in> set (st_templates (fold (run_template_call td) calls s)).
    tpl_id t' = tpl_id t \<and> tpl_event_id t' = tpl_event_id t \<and> tpl_kind t' = tpl_kind t \<and> tpl_version t \<le> tpl_version t' \<and>
    (tpl_version t' = tpl_version t \<longrightarrow> tpl_storage_id t' = tpl_storage_id t)"
proof -
  have "\<exists>t' \<in> set (st_templates (fold (run_template_call td) calls s)). succeeds t' t"
    using assms
  proof (induction calls arbitrary: s t)
    case Nil
    with succeeds_refl show ?case by auto
  next
    case (Cons ec calls)
    obtain en c where c: "ec = (en, c)" by fastforce
    from Cons.prems(3) have "\<not> deletes_template (tpl_id t) c" by (simp add: c)
    from run_template_call_succeeds [OF Cons.prems(1,2) this] obtain t1 where
      t1: "t1 \<in> set (st_templates (run_template_call td ec s))" "succeeds t1 t" unfolding c by blast
    from Cons.IH [OF run_template_call_ok [OF Cons.prems(1)] t1(1) [unfolded c]] Cons.prems(3) t1(2)
    obtain t2 where "t2 \<in> set (st_templates (fold (run_template_call td) calls (run_template_call td (en, c) s)))" "succeeds t2 t1"
      by (auto simp: c succeeds_def)
    with succeeds_trans t1(2) show ?case by (auto simp: c)
  qed
  then show ?thesis by (auto simp: succeeds_def)
qed

section \<open>Runs\<close>

definition demo_fresh :: "int \<Rightarrow> env" where
  "demo_fresh n = \<lparr>e_now = n, e_uuid = (\<lambda>k. demo_uuid (if k = 0 then CHR ''b'' else CHR ''c''))\<rparr>"

definition demo_template_deps :: template_deps where
  "demo_template_deps = \<lparr>td_storage = demo_storage, td_jsonb = Some\<rparr>"

definition demo_svg :: "char \<Rightarrow> object_row" where
  "demo_svg c = demo_upload\<lparr>ob_id := demo_uuid c, ob_key := ''templates/'' @ [c], ob_content_type := ''image/svg+xml''\<rparr>"

definition demo_template :: template where
  "demo_template = \<lparr>tpl_id = demo_uuid (CHR ''2''), tpl_tenant_id = ''t'', tpl_event_id = demo_uuid (CHR ''e''), tpl_race_id = None,
     tpl_storage_id = demo_uuid (CHR ''3''), tpl_name = ''Gold'', tpl_kind = KindCertificate, tpl_is_active = True, tpl_version = 1,
     tpl_metadata = ''{}'', tpl_created_by = ''u'', tpl_created_at = 1, tpl_updated_at = 1\<rparr>"

definition demo_designs :: studio where
  "demo_designs = demo_studio\<lparr>dp_objects := [demo_svg (CHR ''3''), demo_svg (CHR ''4'')], st_templates := [demo_template]\<rparr>"

definition demo_redesign :: template_call where
  "demo_redesign = TemplateUpdate ''t'' (demo_uuid (CHR ''e'')) (demo_uuid (CHR ''2'')) ''u'' RoleAdmin
     \<lparr>tp_name = None, tp_storage_id = Some (demo_uuid (CHR ''4'')), tp_race_id = None, tp_active = None, tp_metadata = ''''\<rparr>"

definition demo_rival :: template_call where
  "demo_rival = TemplateCreate ''t'' (demo_uuid (CHR ''e'')) ''u'' RoleAdmin
     \<lparr>ti_kind = KindCertificate, ti_name = ''Silver'', ti_race_id = None, ti_storage_id = demo_uuid (CHR ''4''), ti_active = True,
      ti_metadata = ''{}''\<rparr>"

lemma demo_designs_ok: "templates_ok (st_templates demo_designs)"
  by code_simp

theorem templates_consistent_witness:
  "templates_ok (st_templates (fold (run_template_call demo_template_deps) [(demo_fresh 5, demo_rival)] demo_designs)) \<and>
   map tpl_is_active (st_templates (fold (run_template_call demo_template_deps) [(demo_fresh 5, demo_rival)] demo_designs)) =
     [False, True]"
proof
  show "map tpl_is_active (st_templates (fold (run_template_call demo_template_deps) [(demo_fresh 5, demo_rival)] demo_designs)) =
     [False, True]" by code_simp
qed (rule templates_consistent [OF demo_designs_ok])

theorem version_names_design_witness:
  "let s' = fold (run_template_call demo_template_deps) [(demo_fresh 5, demo_redesign)] demo_designs in
   (\<exists>t \<in> set (st_templates s'). tpl_id t = tpl_id demo_template \<and> tpl_kind t = KindCertificate \<and> 1 \<le> tpl_version t) \<and>
   map (\<lambda>t. (tpl_version t, tpl_storage_id t)) (st_templates s') = [(2, demo_uuid (CHR ''4''))]"
proof -
  let ?s = "fold (run_template_call demo_template_deps) [(demo_fresh 5, demo_redesign)] demo_designs"
  have "demo_template \<in> set (st_templates demo_designs)" by (simp add: demo_designs_def)
  moreover have "\<forall>(en, c) \<in> set [(demo_fresh 5, demo_redesign)]. \<not> deletes_template (tpl_id demo_template) c"
    by (simp add: demo_redesign_def)
  ultimately have "\<exists>t \<in> set (st_templates ?s). tpl_id t = tpl_id demo_template \<and> tpl_event_id t = tpl_event_id demo_template \<and>
      tpl_kind t = tpl_kind demo_template \<and> tpl_version demo_template \<le> tpl_version t \<and>
      (tpl_version t = tpl_version demo_template \<longrightarrow> tpl_storage_id t = tpl_storage_id demo_template)"
    by (rule version_names_design [OF demo_designs_ok])
  moreover have "map (\<lambda>t. (tpl_version t, tpl_storage_id t)) (st_templates ?s) = [(2, demo_uuid (CHR ''4''))]" by code_simp
  ultimately show ?thesis by (auto simp: Let_def demo_template_def)
qed

end
