(* ===== verification/Certificate_Rules.thy ===== *)
theory Certificate_Rules
  imports Certificate_Service Template_Rules
begin

text \<open>
  What holds of certificates: one for a participant, with a number that is its own for life, through requests
  and the background job alike; a ready one has a file, and a failed attempt loses none.
\<close>

section \<open>Calls that leave the tables beside the objects alone\<close>

definition off_tables :: "(studio, 'e, 'a) act \<Rightarrow> bool" where
  "off_tables m \<longleftrightarrow> (\<forall>s. depot.more (snd (m s)) = depot.more s)"

lemma off_tablesI: "(\<And>x. keeps (\<lambda>s. depot.more s = x) m) \<Longrightarrow> off_tables m"
  unfolding off_tables_def keeps_def by blast

lemma keeps_more_in_db [keeps_intros]: "keeps (\<lambda>s. depot.more s = x) (in_db m)"
  by (rule keepsI) (auto simp: in_db_def split: prod.splits)

lemma keeps_more_in_vault [keeps_intros]: "keeps (\<lambda>s. depot.more s = x) (in_vault m)"
  by (rule keepsI) (auto simp: in_vault_def split: prod.splits)

lemma keeps_more_vault_call [keeps_intros]: "keeps (\<lambda>s. depot.more s = x) (vault_call m)"
  unfolding vault_call_def by (intro keeps_intros)

lemma keeps_more_audit [keeps_intros]: "keeps (\<lambda>s. depot.more s = x) (object_audit en k tid actor a md)"
  unfolding object_audit_def by (intro keeps_intros)

lemma keeps_more_objects: "keeps (\<lambda>s. depot.more s = x) (writes (\<lambda>s. s\<lparr>dp_objects := f s\<rparr>))"
  by (rule keeps_writes) simp

lemma keeps_more_statements [keeps_intros]:
  "keeps (\<lambda>s. depot.more s = x) (upsert_object en oid tid bucket key ctype actor provider)"
  "keeps (\<lambda>s. depot.more s = x) (mark_stored en tid bucket key sha sz)"
  "keeps (\<lambda>s. depot.more s = x) (get_object_by_id tid oid)"
  unfolding insert_object_def upsert_object_def upsert_on_tenant_key_def uuid_param_def mark_stored_def
    mark_stored_where_def get_object_by_id_def get_object_where_def
  by (intro keeps_intros keeps_more_objects)+

lemma off_tables_storage:
  "off_tables (read_object sd tid oid)"
  "off_tables (store_generated en sd tid actor bucket key ctype data)"
  "off_tables (album_audit en k tid actor a md)"
  unfolding read_object_def store_generated_def register_generated_def album_audit_def
  by (rule off_tablesI; intro keeps_intros)+

text \<open>What such a call keeps: whatever is said of the certificates.\<close>

lemma certificates_more: "depot.more s = depot.more s' \<Longrightarrow> st_certificates s = st_certificates s'"
  by (cases s; cases s') simp

lemma keeps_off_tables: "off_tables m \<Longrightarrow> keeps (\<lambda>s. P (st_certificates s)) m"
  unfolding off_tables_def keeps_def using certificates_more by metis

lemma keeps_certificates_queue [keeps_intros]: "keeps (\<lambda>s. P (st_certificates s)) (in_queue m)"
  by (rule keepsI) (auto simp: in_queue_def split: prod.splits)

lemma keeps_certificates_report [keeps_intros]: "keeps (\<lambda>s. P (st_certificates s)) (report_progress en j i n)"
  unfolding report_progress_def by (intro keeps_intros)

lemma keeps_certificates_off [keeps_intros]:
  "keeps (\<lambda>s :: studio. P (st_certificates s)) (read_object sd tid oid)"
  "keeps (\<lambda>s :: studio. P (st_certificates s)) (store_generated en sd tid actor bucket key ctype data)"
  "keeps (\<lambda>s :: studio. P (st_certificates s)) (album_audit en k tid actor a md)"
  by (rule keeps_off_tables, rule off_tables_storage)+

lemma keeps_get_template [keeps_intros]: "keeps I (get_template tid eid mid)"
  unfolding get_template_def by (intro keeps_intros)

lemma keeps_read_layers: "keeps (\<lambda>s. P (st_certificates s)) (read_layers sd tid ids)"
  by (induction ids) (simp_all, (intro keeps_intros)+)

lemma keeps_load_assets [keeps_intros]: "keeps (\<lambda>s. P (st_certificates s)) (load_assets sd aa tid eid mid kind)"
  unfolding load_assets_def by (intro keeps_intros keeps_read_layers)

section \<open>Writing a certificate\<close>

lemma keeps_write_certificate:
  assumes "\<And>s. P (st_certificates s) \<Longrightarrow> \<forall>r \<in> set (st_certificates s). ct_participant_id r \<noteq> ct_participant_id c \<Longrightarrow>
       certificate_violation s c = None \<Longrightarrow> P (st_certificates s @ [c])"
    and "\<And>cs. P cs \<Longrightarrow> P (update_where (\<lambda>x. ct_participant_id x = ct_participant_id c) (renewed en c) cs)"
  shows "keeps (\<lambda>s. P (st_certificates s)) (write_certificate en c)"
proof (rule keepsI)
  fix s x s' assume I: "P (st_certificates s)" and run: "write_certificate en c s = (x, s')"
  show "P (st_certificates s')"
  proof (cases "s' = s")
    case False
    show ?thesis
    proof (cases "select_one (\<lambda>r. ct_participant_id r = ct_participant_id c) (st_certificates s)")
      case None
      with run False have "certificate_violation s c = None" "s' = s\<lparr>st_certificates := st_certificates s @ [c]\<rparr>"
        by (cases "certificate_violation s c"; simp add: write_certificate_def sql_check_def act_simps)+
      with assms(1) [OF I] None show ?thesis by (simp add: select_one_None_iff)
    next
      case (Some r)
      with run False have "s' = s\<lparr>st_certificates :=
          update_where (\<lambda>x. ct_participant_id x = ct_participant_id c) (renewed en c) (st_certificates s)\<rparr>"
        by (cases "file_missing s c"; cases "ct_tenant_id r = ct_tenant_id c";
            simp add: write_certificate_def sql_check_def act_simps)+
      with assms(2) [OF I] show ?thesis by simp
    qed
  qed (use I in simp)
qed

text \<open>What a validated request brings.\<close>

definition certificate_legal :: "certificate \<Rightarrow> bool" where
  "certificate_legal c \<longleftrightarrow> number_ok (ct_no c) \<and> (ct_status c = StatusReady \<or> ct_status c = StatusFailed) \<and>
     (ct_status c = StatusReady \<longrightarrow> ct_storage_id c \<noteq> None \<and> ct_format c \<noteq> None)"

lemma validated:
  assumes "validate_certificate cd i0 = Inr i"
  shows "number_ok (cu_no i)" "cu_status i = StatusReady \<or> cu_status i = StatusFailed"
    "cu_status i = StatusReady \<Longrightarrow> cu_storage_id i \<noteq> None \<and> cu_format i \<noteq> None"
  using assms by (auto simp: validate_certificate_def split: if_splits option.splits)

lemma keeps_upsert_certificate:
  assumes "\<And>s c. certificate_legal c \<Longrightarrow> P (st_certificates s) \<Longrightarrow>
       \<forall>r \<in> set (st_certificates s). ct_participant_id r \<noteq> ct_participant_id c \<Longrightarrow>
       certificate_violation s c = None \<Longrightarrow> P (st_certificates s @ [c])"
    and "\<And>cs c q. certificate_legal c \<Longrightarrow> P cs \<Longrightarrow> P (update_where q (renewed en c) cs)"
  shows "keeps (\<lambda>s. P (st_certificates s)) (upsert_certificate en cd tid eid pid actor role i)"
proof -
  have row: "keeps (\<lambda>s. P (st_certificates s)) (upsert_certificate_row en (new_certificate en tid eid pid actor i))"
    if v: "validate_certificate cd i0 = Inr i" for i0 i
  proof -
    have w: "keeps (\<lambda>s. P (st_certificates s)) (write_certificate en
        ((new_certificate en tid eid pid actor i)\<lparr>ct_event_id := e, ct_participant_id := p, ct_template_id := m, ct_storage_id := x\<rparr>))"
      if "canon_uuid (cu_storage_id i) = Some x" for e p m x
      by (rule keeps_write_certificate; rule assms)
        (use validated [OF v] that in \<open>auto simp: certificate_legal_def new_certificate_def canon_uuid_def split: option.splits\<close>)
    have x: "keeps I (with_optional_uuid r f)" if "\<And>u. canon_uuid r = Some u \<Longrightarrow> keeps I (f u)" for I r and f :: "string option \<Rightarrow> unit studio_act"
      using that by (cases r) (auto simp: with_optional_uuid_def canon_uuid_def intro: keeps_with_uuid)
    show ?thesis
      unfolding upsert_certificate_row_def
      by (intro keeps_intros x w) (simp_all add: new_certificate_def)
  qed
  show ?thesis
    unfolding upsert_certificate_def participant_in_event_def template_in_event_def check_certificate_storage_def get_by_participant_def
    by (intro keeps_intros row)
qed

section \<open>Histories\<close>

datatype certificate_call =
    CertificateSave string string string string member_role certificate_input
  | CertificateDelete string string string string member_role
  | CertificatesPublish string string string member_role bool
  | CertificatesStart string string string member_role batch_input
  | CertificatesJob "nat \<Rightarrow> bool" job

fun run_certificate_call :: "certificate_deps \<Rightarrow> artwork \<Rightarrow> env \<times> certificate_call \<Rightarrow> studio \<Rightarrow> studio" where
  "run_certificate_call cd aa (en, CertificateSave tid eid pid actor role i) = performed (upsert_certificate en cd tid eid pid actor role i)"
| "run_certificate_call cd aa (en, CertificateDelete tid eid pid actor role) = performed (delete_certificate en tid eid pid actor role)"
| "run_certificate_call cd aa (en, CertificatesPublish tid eid actor role pub) = performed (set_published en tid eid actor role pub)"
| "run_certificate_call cd aa (en, CertificatesStart tid eid actor role b) = performed (start_certificates en cd aa tid eid actor role b)"
| "run_certificate_call cd aa (en, CertificatesJob tick j) = performed (run_certificates en cd aa tick j)"

fun deletes_certificate :: "string \<Rightarrow> certificate_call \<Rightarrow> bool" where
  "deletes_certificate pid (CertificateDelete tid eid x actor role) \<longleftrightarrow> pg_uuid x = Some pid"
| "deletes_certificate pid c \<longleftrightarrow> False"

text \<open>A statement on certificates that new ones and renewed ones do not break holds through every call.\<close>

locale certificate_law =
  fixes P :: "certificate list \<Rightarrow> bool"
  assumes new: "certificate_legal c \<Longrightarrow> P (st_certificates s) \<Longrightarrow>
      \<forall>r \<in> set (st_certificates s). ct_participant_id r \<noteq> ct_participant_id c \<Longrightarrow>
      certificate_violation s c = None \<Longrightarrow> P (st_certificates s @ [c])"
    and renew: "certificate_legal c \<Longrightarrow> P cs \<Longrightarrow> P (update_where q (renewed en c) cs)"
begin

lemma upsert: "keeps (\<lambda>s. P (st_certificates s)) (upsert_certificate en cd tid eid pid actor role i)"
  by (rule keeps_upsert_certificate) (rule new renew; assumption)+

lemma publish: "keeps (\<lambda>s. P (st_certificates s)) (set_published en tid eid actor role pub)"
  unfolding set_published_def set_published_row_def Let_def
  by (intro keeps_intros; rule keeps_writes; simp)

lemma start: "keeps (\<lambda>s. P (st_certificates s)) (start_certificates en cd aa tid eid actor role b)"
  unfolding start_certificates_def by (intro keeps_intros)

lemma make: "keeps (\<lambda>s. P (st_certificates s)) (make_certificate en cd j t draw it)"
  unfolding make_certificate_def make_one_def Let_def by (intro keeps_intros upsert)

lemma loop: "keeps (\<lambda>s. P (st_certificates s)) (certificate_loop en cd tick j t draw i n its)"
proof (induction its arbitrary: i)
  case (Cons it its)
  show ?case by (simp only: certificate_loop.simps) (intro keeps_intros make Cons.IH)
qed (simp add: keeps_ret)

lemma run: "keeps (\<lambda>s. P (st_certificates s)) (run_certificates en cd aa tick j)"
  unfolding run_certificates_def Let_def by (intro keeps_intros loop)

lemma call:
  assumes "P (st_certificates s)" "\<And>tid eid pid actor role. c \<noteq> CertificateDelete tid eid pid actor role"
  shows "P (st_certificates (run_certificate_call cd aa (en, c) s))"
proof -
  have k: "P (st_certificates (performed m s))" if "keeps (\<lambda>s. P (st_certificates s)) m" for m :: "(studio, 'e, 'a) act"
    using performed_keeps [OF that assms(1)] .
  show ?thesis
  proof (cases c)
    case (CertificateDelete tid eid pid actor role)
    with assms(2) show ?thesis by blast
  qed (simp_all add: k [OF upsert] k [OF publish] k [OF start] k [OF run])
qed

end

text \<open>The certificates: one per participant, one per number, and what a row must have.\<close>

definition certificates_ok :: "certificate list \<Rightarrow> bool" where
  "certificates_ok cs \<longleftrightarrow> unique_on certificate_pk cs \<and> unique_on certificate_participant_key cs \<and>
     unique_on certificate_no_key cs \<and> list_all certificate_legal cs"

interpretation ledger: certificate_law certificates_ok
proof
  show "certificates_ok (st_certificates s @ [c])"
    if "certificate_legal c" "certificates_ok (st_certificates s)"
      "\<forall>r \<in> set (st_certificates s). ct_participant_id r \<noteq> ct_participant_id c" "certificate_violation s c = None" for s c
  proof -
    have "\<not> taken certificate_participant_key (st_certificates s) c"
      using that(3) by (auto simp: taken_def certificate_participant_key_def list_ex_iff)
    moreover from that(4) have "\<not> taken certificate_pk (st_certificates s) c" "\<not> taken certificate_no_key (st_certificates s) c"
      by (auto simp: certificate_violation_def split: if_splits)
    ultimately show ?thesis
      using that(1,2) by (simp add: certificates_ok_def unique_on_insert)
  qed
  show "certificates_ok (update_where q (renewed en c) cs)" if "certificate_legal c" "certificates_ok cs" for en c q cs
    using that by (auto simp: certificates_ok_def certificate_legal_def renewed_def coalesce_def list_all_iff set_update_where
        certificate_pk_def certificate_participant_key_def certificate_no_key_def intro!: unique_on_update_same_key)
qed

text \<open>A participant's certificate with its number.\<close>

definition numbered :: "certificate \<Rightarrow> certificate list \<Rightarrow> bool" where
  "numbered k cs \<longleftrightarrow> (\<exists>c \<in> set cs. ct_id c = ct_id k \<and> ct_tenant_id c = ct_tenant_id k \<and> ct_event_id c = ct_event_id k \<and>
     ct_participant_id c = ct_participant_id k \<and> ct_no c = ct_no k)"

interpretation number: certificate_law "numbered k" for k
proof
  show "numbered k (st_certificates s @ [c])" if "numbered k (st_certificates s)" for s c
    using that by (auto simp: numbered_def)
  show "numbered k (update_where q (renewed en c) cs)" if "numbered k cs" for en c q cs
  proof -
    from that obtain r where r: "r \<in> set cs" "ct_id r = ct_id k" "ct_tenant_id r = ct_tenant_id k" "ct_event_id r = ct_event_id k"
      "ct_participant_id r = ct_participant_id k" "ct_no r = ct_no k" by (auto simp: numbered_def)
    then have "(if q r then renewed en c r else r) \<in> set (update_where q (renewed en c) cs)"
      by (simp add: update_where_def)
    with r show ?thesis
      unfolding numbered_def by (intro bexI [of _ "if q r then renewed en c r else r"]) (simp_all add: renewed_def)
  qed
qed

lemma delete_certificate_effect:
  assumes "delete_certificate en tid eid pid actor role s = (x, s')"
  shows "st_certificates s' = st_certificates s \<or>
    (\<exists>e p. pg_uuid pid = Some p \<and> st_certificates s' = delete_where (is_certificate tid e p) (st_certificates s))"
proof (cases x)
  case (Inl e)
  with assms have "s' = s"
    unfolding delete_certificate_def
    by (auto simp: on_error_def fail_def dest: with_tenant_tx_error split: option.splits)
  then show ?thesis by simp
next
  case (Inr u)
  with assms have "delete_certificate en tid eid pid actor role s = (Inr u, s')" by simp
  then show ?thesis
    unfolding delete_certificate_def delete_certificate_row_def
    by (elim act_elims) auto
qed

lemma run_certificate_call_ok:
  assumes "certificates_ok (st_certificates s)"
  shows "certificates_ok (st_certificates (run_certificate_call cd aa (en, c) s))"
proof (cases c)
  case (CertificateDelete tid eid pid actor role)
  obtain x s' where r: "delete_certificate en tid eid pid actor role s = (x, s')" by fastforce
  from delete_certificate_effect [OF r] assms show ?thesis
    by (auto simp: CertificateDelete performed_def r certificates_ok_def list_all_iff set_delete_where intro: unique_on_delete)
qed (rule ledger.call [OF assms]; simp)+

lemma run_certificate_call_numbered:
  assumes "numbered k (st_certificates s)" "\<not> deletes_certificate (ct_participant_id k) c"
  shows "numbered k (st_certificates (run_certificate_call cd aa (en, c) s))"
proof (cases c)
  case (CertificateDelete tid eid pid actor role)
  obtain x s' where r: "delete_certificate en tid eid pid actor role s = (x, s')" by fastforce
  from delete_certificate_effect [OF r] assms show ?thesis
    by (auto simp: CertificateDelete performed_def r numbered_def set_delete_where is_certificate_def)
qed (rule number.call [OF assms(1)]; simp)+

section \<open>Properties\<close>

text \<open>C31: Through any history of certificate calls and of the job that makes certificates, a participant has at
most one certificate, a number names at most one certificate of its workspace, and a ready certificate has a
file and a format.\<close>

theorem certificates_consistent:
  assumes "certificates_ok (st_certificates s)"
  shows "certificates_ok (st_certificates (fold (run_certificate_call cd aa) calls s))"
  using assms
proof (induction calls arbitrary: s)
  case (Cons c calls)
  then show ?case by (cases c) (simp add: run_certificate_call_ok)
qed simp

text \<open>C32: The number of a certificate is for life: until somebody deletes the certificate no history of saves,
failed and successful batches changes its number, its participant or its identifier.\<close>

theorem certificate_number_for_life:
  assumes "k \<in> set (st_certificates s)" and "\<forall>(en, c) \<in> set calls. \<not> deletes_certificate (ct_participant_id k) c"
  shows "\<exists>k' \<in> set (st_certificates (fold (run_certificate_call cd aa) calls s)).
    ct_id k' = ct_id k \<and> ct_participant_id k' = ct_participant_id k \<and> ct_no k' = ct_no k"
proof -
  have "numbered k (st_certificates s)" using assms(1) by (auto simp: numbered_def)
  then have "numbered k (st_certificates (fold (run_certificate_call cd aa) calls s))"
    using assms(2)
  proof (induction calls arbitrary: s)
    case (Cons c calls)
    then show ?case by (cases c) (simp add: run_certificate_call_numbered)
  qed simp
  then show ?thesis by (auto simp: numbered_def)
qed

lemma write_certificate_InrE:
  assumes "write_certificate en c s = (Inr u, s')"
  obtains "\<forall>r \<in> set (st_certificates s). ct_participant_id r \<noteq> ct_participant_id c" "certificate_violation s c = None"
      "s' = s\<lparr>st_certificates := st_certificates s @ [c]\<rparr>"
  | r where "r \<in> set (st_certificates s)" "ct_participant_id r = ct_participant_id c" "ct_tenant_id r = ct_tenant_id c"
      "file_missing s c = None"
      "s' = s\<lparr>st_certificates := update_where (\<lambda>x. ct_participant_id x = ct_participant_id c) (renewed en c) (st_certificates s)\<rparr>"
proof (cases "select_one (\<lambda>r. ct_participant_id r = ct_participant_id c) (st_certificates s)")
  case None
  with assms have "certificate_violation s c = None" "s' = s\<lparr>st_certificates := st_certificates s @ [c]\<rparr>"
    by (cases "certificate_violation s c"; simp add: write_certificate_def sql_check_def act_simps)+
  with that(1) None show ?thesis by (simp add: select_one_None_iff)
next
  case (Some r)
  from select_one_SomeD [OF Some] have r: "r \<in> set (st_certificates s)" "ct_participant_id r = ct_participant_id c" by simp_all
  from assms have "ct_tenant_id r = ct_tenant_id c" "file_missing s c = None" "s' = s\<lparr>st_certificates :=
        update_where (\<lambda>x. ct_participant_id x = ct_participant_id c) (renewed en c) (st_certificates s)\<rparr>"
    by (cases "file_missing s c"; cases "ct_tenant_id r = ct_tenant_id c"; simp add: write_certificate_def Some sql_check_def act_simps)+
  then show ?thesis by (rule that(2) [OF r])
qed

text \<open>The certificate a request writes.\<close>

definition requested :: "env \<Rightarrow> string \<Rightarrow> string \<Rightarrow> string \<Rightarrow> string \<Rightarrow> string option \<Rightarrow> string option \<Rightarrow> certificate_input \<Rightarrow> certificate" where
  "requested en tid e p actor m x i =
     (new_certificate en tid e p actor i)\<lparr>ct_template_id := m, ct_storage_id := x\<rparr>"

lemma upsert_certificate_row_InrE:
  assumes "upsert_certificate_row en (new_certificate en tid eid pid actor i) s = (Inr u, s')"
  obtains e p m x where "pg_uuid eid = Some e" "pg_uuid pid = Some p" "canon_uuid (cu_template_id i) = Some m"
    "canon_uuid (cu_storage_id i) = Some x" "write_certificate en (requested en tid e p actor m x i) s = (Inr u, s')"
proof -
  from assms obtain e p m x where "pg_uuid (ct_event_id (new_certificate en tid eid pid actor i)) = Some e"
    "pg_uuid (ct_participant_id (new_certificate en tid eid pid actor i)) = Some p"
    "canon_uuid (ct_template_id (new_certificate en tid eid pid actor i)) = Some m"
    "canon_uuid (ct_storage_id (new_certificate en tid eid pid actor i)) = Some x"
    and w: "write_certificate en ((new_certificate en tid eid pid actor i)\<lparr>ct_event_id := e, ct_participant_id := p,
       ct_template_id := m, ct_storage_id := x\<rparr>) s = (Inr u, s')"
    unfolding upsert_certificate_row_def
    by (elim with_uuid_InrE with_optional_uuid_InrE and_then_InrE sql_check_InrE guard_InrE) (hypsubst, blast)
  then have c: "pg_uuid eid = Some e" "pg_uuid pid = Some p" "canon_uuid (cu_template_id i) = Some m"
    "canon_uuid (cu_storage_id i) = Some x" by (simp_all add: new_certificate_def)
  from w have "write_certificate en (requested en tid e p actor m x i) s = (Inr u, s')"
    by (simp add: requested_def new_certificate_def)
  with c that show ?thesis by blast
qed

lemma get_by_participant_InrE:
  assumes "get_by_participant tid eid pid s = (Inr v, s')"
  obtains e p where "pg_uuid eid = Some e" "pg_uuid pid = Some p" "cv_row v \<in> set (st_certificates s)"
    "is_certificate tid e p (cv_row v)" "v = view_certificate s tid (cv_row v)" "s' = s"
proof -
  from assms obtain e p where ep: "pg_uuid eid = Some e" "pg_uuid pid = Some p" "s' = s"
    and sel: "map_option (view_certificate s tid) (select_one (is_certificate tid e p) (st_certificates s)) = Some v"
    unfolding get_by_participant_def by (elim act_elims) (hypsubst, blast)
  then obtain c where c: "select_one (is_certificate tid e p) (st_certificates s) = Some c" "v = view_certificate s tid c" by auto
  have "cv_row v = c" by (simp add: c(2) view_certificate_def)
  with select_one_SomeD [OF c(1)] ep c that show ?thesis by simp
qed

lemma keeps_certificate_reads: "keeps I (participant_in_event tid eid pid)" "keeps I (template_in_event tid eid mid)"
  unfolding participant_in_event_def template_in_event_def by (intro keeps_intros)+

lemma check_certificate_storage_InrE:
  assumes "check_certificate_storage tid oid s = (Inr u, s')"
  obtains x o' where "pg_uuid oid = Some x" "joined_object s tid x = Some o'" "check_image o' = None" "s' = s"
  using assms unfolding check_certificate_storage_def by (elim act_elims) (hypsubst, blast)

lemma upsert_certificate_effect:
  assumes "upsert_certificate en cd tid eid pid actor role i0 s = (Inr v, s')"
  obtains i e p m x s1 where "validate_certificate cd i0 = Inr i" "pg_uuid eid = Some e" "pg_uuid pid = Some p"
    "canon_uuid (cu_storage_id i) = Some x" "write_certificate en (requested en tid e p actor m x i) s = (Inr (), s1)"
    "\<And>u. x = Some u \<Longrightarrow> \<exists>o'. joined_object s tid u = Some o' \<and> check_image o' = None"
    "st_certificates s' = st_certificates s1" "dp_objects s' = dp_objects s1"
    "cv_row v \<in> set (st_certificates s')" "is_certificate tid e p (cv_row v)" "v = view_certificate s' tid (cv_row v)"
proof -
  from assms obtain i s0 s2 s3 s4 u1 u2 u3 u4 u5 where v: "validate_certificate cd i0 = Inr i" and
    c1: "participant_in_event tid eid pid s = (Inr u1, s0)" and
    c2: "(case cu_template_id i of None \<Rightarrow> ret ()
          | Some m \<Rightarrow> and_then (template_in_event tid eid m) (\<lambda>ok.
               guard ok (FieldError (invalid ''template_id'' ''template_id is not a certificate template of this event.''))
                 (ret ()))) s0 = (Inr u2, s2)" and
    c3: "(case cu_storage_id i of None \<Rightarrow> ret () | Some x \<Rightarrow> check_certificate_storage tid x) s2 = (Inr u3, s3)" and
    w: "upsert_certificate_row en (new_certificate en tid eid pid actor i) s3 = (Inr u4, s4)" and
    a: "(if cu_status i = StatusReady then album_audit en 1 tid actor ''certificate.generated''
               [(''event_id'', MetaText eid), (''participant_id'', MetaText pid)] else ret ()) s4 = (Inr u5, s')" and
    g: "get_by_participant tid eid pid s' = (Inr v, s')"
    unfolding upsert_certificate_def
    by (elim on_error_InrE checked_InrE with_tenant_tx_InrE and_then_InrE)
      (metis get_by_participant_InrE)
  have s0: "s0 = s" by (rule same_state [where m = "participant_in_event tid eid pid", OF keeps_certificate_reads(1) c1])
  have s2: "s2 = s0"
  proof (cases "cu_template_id i")
    case (Some m)
    with c2 show ?thesis
      by (simp, elim act_elims) (use same_state [where m = "template_in_event tid eid m", OF keeps_certificate_reads(2)] in blast)
  qed (use c2 in \<open>simp add: ret_def\<close>)
  have s3: "s3 = s2"
    using c3 by (cases "cu_storage_id i") (auto simp: ret_def elim: check_certificate_storage_InrE)
  from w obtain e p m x where k: "pg_uuid eid = Some e" "pg_uuid pid = Some p" "canon_uuid (cu_storage_id i) = Some x"
    and wr: "write_certificate en (requested en tid e p actor m x i) s = (Inr u4, s4)"
    unfolding s3 s2 s0 by (rule upsert_certificate_row_InrE)
  have img: "\<exists>o'. joined_object s tid u = Some o' \<and> check_image o' = None" if "x = Some u" for u
    using c3 k(3) that by (auto simp: canon_uuid_def s2 s0 split: option.splits elim: check_certificate_storage_InrE)
  have s': "st_certificates s' = st_certificates s4" "dp_objects s' = dp_objects s4"
    using a by (auto simp: ret_def elim: album_audit_InrE split: if_splits)
  from g show ?thesis
  proof (rule get_by_participant_InrE)
    fix e' p'
    assume "pg_uuid eid = Some e'" "pg_uuid pid = Some p'" "cv_row v \<in> set (st_certificates s')"
      "is_certificate tid e' p' (cv_row v)" "v = view_certificate s' tid (cv_row v)"
    with k show ?thesis using that [OF v k, of m s4] wr img s' by simp
  qed
qed

text \<open>A failed attempt to make a certificate again leaves what the participant had: the certificate keeps its
number, its file and the columns that describe the file, and only its status says that the attempt failed.\<close>

theorem failed_attempt_keeps_file:
  assumes "upsert_certificate en cd tid eid pid actor role i s = (Inr v, s')" and "cu_status i = StatusFailed"
    and "cu_storage_id i = None" "cu_format i = None" and "certificates_ok (st_certificates s)"
    and "old \<in> set (st_certificates s)" "pg_uuid pid = Some (ct_participant_id old)"
  shows "ct_status (cv_row v) = StatusFailed \<and> ct_id (cv_row v) = ct_id old \<and> ct_no (cv_row v) = ct_no old \<and>
    ct_storage_id (cv_row v) = ct_storage_id old \<and> ct_format (cv_row v) = ct_format old \<and>
    ct_generated_at (cv_row v) = ct_generated_at old"
  using assms(1)
proof (rule upsert_certificate_effect)
  fix i' e p m x s1
  let ?c = "requested en tid e p actor m x i'"
  assume v: "validate_certificate cd i = Inr i'" and p: "pg_uuid pid = Some p" and x: "canon_uuid (cu_storage_id i') = Some x"
    and w: "write_certificate en ?c s = (Inr (), s1)" and s': "st_certificates s' = st_certificates s1"
    and row: "cv_row v \<in> set (st_certificates s')" "is_certificate tid e p (cv_row v)"
  have i': "cu_status i' = StatusFailed" "cu_storage_id i' = None" "cu_format i' = None"
    using v assms(2-4) by (auto simp: validate_certificate_def split: if_splits option.splits)
  with x have c: "ct_participant_id ?c = p" "ct_status ?c = StatusFailed" "ct_storage_id ?c = None" "ct_format ?c = None"
    "ct_generated_at ?c = None"
    by (simp_all add: requested_def new_certificate_def canon_uuid_def)
  from p assms(7) have op: "ct_participant_id old = p" by simp
  from w have "st_certificates s1 = update_where (\<lambda>r. ct_participant_id r = p) (renewed en ?c) (st_certificates s)"
    by (rule write_certificate_InrE) (use op assms(6) c(1) in auto)
  with row s' obtain r where r: "r \<in> set (st_certificates s)" "ct_participant_id r = p" "cv_row v = renewed en ?c r"
    by (auto simp: set_update_where is_certificate_def renewed_def)
  have "r = old"
    using assms(5) r(1,2) assms(6) op
    by (intro unique_on_sel [where key = certificate_participant_key and t = "st_certificates s"])
      (auto simp: certificates_ok_def certificate_participant_key_def)
  with r(3) c show ?thesis by (simp add: renewed_def coalesce_def)
qed

text \<open>A message that is cut inside a rune.\<close>

lemma upsert_certificate_row_texts:
  assumes "upsert_certificate_row en c s = (Inr u, s')"
  shows "certificate_texts_ok c"
  using assms unfolding upsert_certificate_row_def
  by (elim with_uuid_InrE with_optional_uuid_InrE and_then_InrE sql_check_InrE guard_InrE)

text \<open>The message of a failed attempt is cut to 500 bytes, and where the cut falls inside a rune Postgres takes
no row at all: the attempt leaves nothing behind, not even that it failed.\<close>

theorem cut_message_unsaved:
  assumes "cu_error i = Some m" and "\<not> text_ok (take 500 (trim_space m))"
  shows "\<exists>e. upsert_certificate en cd tid eid pid actor role i s = (Inl e, s)"
proof -
  obtain x s' where r: "upsert_certificate en cd tid eid pid actor role i s = (x, s')" by fastforce
  show ?thesis
  proof (cases x)
    case (Inl e)
    with r have "s' = s"
      unfolding upsert_certificate_def
      by (auto simp: on_error_def checked_def fail_def dest: with_tenant_tx_error split: option.splits sum.splits)
    with r Inl show ?thesis by simp
  next
    case (Inr v)
    with r have "upsert_certificate en cd tid eid pid actor role i s = (Inr v, s')" by simp
    then obtain i' s3 s4 u4 where v: "validate_certificate cd i = Inr i'" and
      w: "upsert_certificate_row en (new_certificate en tid eid pid actor i') s3 = (Inr u4, s4)"
      unfolding upsert_certificate_def
      by (elim on_error_InrE checked_InrE with_tenant_tx_InrE and_then_InrE) blast
    from v have "cu_error i' = Some (take 500 (trim_space m))"
      by (auto simp: validate_certificate_def cut_error_def assms(1) split: if_splits option.splits)
    with upsert_certificate_row_texts [OF w] assms(2) have False
      by (simp add: certificate_texts_ok_def new_certificate_def)
    then show ?thesis ..
  qed
qed

section \<open>Runs\<close>

definition demo_runner :: participant where
  "demo_runner = \<lparr>p_id = demo_uuid (CHR ''5''), p_tenant_id = ''t'', p_event_id = demo_uuid (CHR ''e''), p_race_id = ''r1'',
     p_team_id = None, p_leg_order = None, p_team_name = None, p_first_name = ''Ann'', p_last_name = None, p_bib_name = None,
     p_bib_number = 7, p_gender = GenderFemale, p_ref_id = None, p_email = None, p_club = None, p_ec_name = None,
     p_ec_phone = None, p_blood_type = None, p_status = '''', p_gun_time_ms = None, p_net_time_ms = None, p_total_laps = None,
     p_overall_rank = None, p_category_rank = None, p_created_at = 1, p_updated_at = 1\<rparr>"

definition demo_certificate :: certificate where
  "demo_certificate = \<lparr>ct_id = demo_uuid (CHR ''6''), ct_tenant_id = ''t'', ct_event_id = demo_uuid (CHR ''e''),
     ct_participant_id = demo_uuid (CHR ''5''), ct_no = ''RUN-0007'', ct_template_id = Some (demo_uuid (CHR ''2'')),
     ct_template_version = Some 1, ct_data_hash = None, ct_status = StatusReady, ct_error = None,
     ct_storage_id = Some (demo_uuid (CHR ''8'')), ct_format = Some ''jpg'', ct_dpi = Some 300, ct_width_px = Some 9,
     ct_height_px = Some 6, ct_size_bytes = Some 5, ct_generated_at = Some 3, ct_created_by = ''u'', ct_created_at = 3, ct_updated_at = 3\<rparr>"

definition demo_prints :: studio where
  "demo_prints = demo_designs\<lparr>dp_db := (dp_db demo_designs)\<lparr>db_participants := [demo_runner]\<rparr>,
     dp_objects := [demo_svg (CHR ''3''), (demo_svg (CHR ''8''))\<lparr>ob_content_type := ''image/jpeg''\<rparr>],
     st_certificates := [demo_certificate]\<rparr>"

definition demo_certificate_deps :: certificate_deps where
  "demo_certificate_deps = \<lparr>cd_storage = demo_storage, cd_queue = True, cd_walk = [''dpi'', ''width_px'', ''height_px'']\<rparr>"

definition demo_artwork :: artwork where
  "demo_artwork = \<lparr>aa_layers = (\<lambda>svg md. Inr []), aa_renderer = (\<lambda>svg pngs. Inl (Other ''no''))\<rparr>"

definition demo_failure :: "string \<Rightarrow> certificate_input" where
  "demo_failure m = \<lparr>cu_no = ''RUN-0099'', cu_template_id = Some (demo_uuid (CHR ''2'')), cu_template_version = Some 1,
     cu_data_hash = None, cu_status = StatusFailed, cu_error = Some m, cu_storage_id = None, cu_format = None, cu_dpi = None,
     cu_width_px = None, cu_height_px = None, cu_size_bytes = None\<rparr>"

definition demo_retry :: certificate_call where
  "demo_retry = CertificateSave ''t'' (demo_uuid (CHR ''e'')) (demo_uuid (CHR ''5'')) ''u'' RoleAdmin (demo_failure ''no font'')"

lemma demo_prints_ok: "certificates_ok (st_certificates demo_prints)"
  by code_simp

theorem certificates_consistent_witness:
  "certificates_ok (st_certificates (fold (run_certificate_call demo_certificate_deps demo_artwork) [(demo_fresh 5, demo_retry)] demo_prints)) \<and>
   map ct_status (st_certificates (fold (run_certificate_call demo_certificate_deps demo_artwork) [(demo_fresh 5, demo_retry)] demo_prints))
     = [StatusFailed]"
proof
  show "map ct_status (st_certificates (fold (run_certificate_call demo_certificate_deps demo_artwork) [(demo_fresh 5, demo_retry)] demo_prints))
     = [StatusFailed]" by code_simp
qed (rule certificates_consistent [OF demo_prints_ok])

theorem certificate_number_for_life_witness:
  "\<exists>k \<in> set (st_certificates (fold (run_certificate_call demo_certificate_deps demo_artwork) [(demo_fresh 5, demo_retry)] demo_prints)).
     ct_participant_id k = demo_uuid (CHR ''5'') \<and> ct_no k = ''RUN-0007''"
proof -
  have k: "demo_certificate \<in> set (st_certificates demo_prints)" by (simp add: demo_prints_def)
  have "\<forall>(en, c) \<in> set [(demo_fresh 5, demo_retry)]. \<not> deletes_certificate (ct_participant_id demo_certificate) c"
    by (simp add: demo_retry_def)
  from certificate_number_for_life [OF k this, of demo_certificate_deps demo_artwork] show ?thesis
    by (auto simp: demo_certificate_def)
qed

theorem failed_attempt_keeps_file_witness:
  "\<exists>v s'. upsert_certificate (demo_fresh 5) demo_certificate_deps ''t'' (demo_uuid (CHR ''e'')) (demo_uuid (CHR ''5'')) ''u'' RoleAdmin
      (demo_failure ''no font'') demo_prints = (Inr v, s') \<and> ct_status (cv_row v) = StatusFailed \<and>
     ct_storage_id (cv_row v) = Some (demo_uuid (CHR ''8''))"
proof -
  let ?r = "upsert_certificate (demo_fresh 5) demo_certificate_deps ''t'' (demo_uuid (CHR ''e'')) (demo_uuid (CHR ''5'')) ''u'' RoleAdmin
      (demo_failure ''no font'') demo_prints"
  have run: "?r = (Inr (projr (fst ?r)), snd ?r)" by (rule run_succeeded) code_simp
  have k: "demo_certificate \<in> set (st_certificates demo_prints)" by (simp add: demo_prints_def)
  have p: "pg_uuid (demo_uuid (CHR ''5'')) = Some (ct_participant_id demo_certificate)" by code_simp
  have i: "cu_status (demo_failure ''no font'') = StatusFailed" "cu_storage_id (demo_failure ''no font'') = None"
    "cu_format (demo_failure ''no font'') = None" by (simp_all add: demo_failure_def)
  from failed_attempt_keeps_file [OF run i demo_prints_ok k p] run show ?thesis
    by (auto simp: demo_certificate_def)
qed

theorem cut_message_unsaved_witness:
  "\<exists>e. upsert_certificate (demo_fresh 5) demo_certificate_deps ''t'' (demo_uuid (CHR ''e'')) (demo_uuid (CHR ''5'')) ''u'' RoleAdmin
      (demo_failure (replicate 499 (CHR ''a'') @ [CHR 0xC3, CHR 0xA9])) demo_prints = (Inl e, demo_prints)"
proof (rule cut_message_unsaved)
  show "cu_error (demo_failure (replicate 499 (CHR ''a'') @ [CHR 0xC3, CHR 0xA9])) =
      Some (replicate 499 (CHR ''a'') @ [CHR 0xC3, CHR 0xA9])" by (simp add: demo_failure_def)
  show "\<not> text_ok (take 500 (trim_space (replicate 499 (CHR ''a'') @ [CHR 0xC3, CHR 0xA9])))" by code_simp
qed

end
