(* ===== verification/Portal_Rules.thy ===== *)
theory Portal_Rules
  imports Portal_Service Certificate_Rules
begin

text \<open>
  What the portal shows: only what belongs to a published event, in albums that are public, as previews; a
  certificate only while the certificates of the event are published and it is ready.
\<close>

section \<open>Steps\<close>

lemma in_db_InrE [act_elims]:
  assumes "in_db m s = (Inr a, s')"
  obtains b where "m (dp_db s) = (Inr a, b)" "s' = s\<lparr>dp_db := b\<rparr>"
  using assms by (auto simp: in_db_def split: prod.splits)

lemma of_store_InrE [act_elims]:
  assumes "of_store x s = (Inr a, s')" obtains "x = Inr a" "s' = s"
  using assms by (cases x) (simp_all add: of_store_def act_simps)

lemma hidden_as_InrE [act_elims]:
  assumes "hidden_as msg m s = (Inr a, s')" obtains "m s = (Inr a, s')"
  using assms by (auto simp: hidden_as_def attempt_def and_then_def fail_def ret_def split: sum.splits prod.splits if_splits)

lemma keeps_hidden_as [keeps_intros]: "keeps I m \<Longrightarrow> keeps I (hidden_as msg m)"
  unfolding hidden_as_def by (intro keeps_intros)

text \<open>The event behind a slug.\<close>

definition published_as :: "string \<Rightarrow> studio \<Rightarrow> event_row \<Rightarrow> bool" where
  "published_as slug s ev \<longleftrightarrow> ev \<in> set (db_events (dp_db s)) \<and> ev_slug ev = slug \<and> ev_status ev = EventStatusPublished"

lemma resolve_event_run:
  "resolve_event slug s =
     (case select_one (\<lambda>e. ev_slug e = slug \<and> ev_status e = EventStatusPublished) (db_events (dp_db s)) of
        None \<Rightarrow> (Inl (portal_not_found ''Event not found.''), s) | Some ev \<Rightarrow> (Inr ev, s))"
  by (cases "select_one (\<lambda>e. ev_slug e = slug \<and> ev_status e = EventStatusPublished) (db_events (dp_db s))")
    (simp_all add: resolve_event_def hidden_as_def attempt_def in_db_def published_event_by_slug_def
      get_published_event_by_slug_def found_def of_option_def and_then_def reads_def fail_def ret_def)

lemma resolve_event_InrE [act_elims]:
  assumes "resolve_event slug s = (Inr ev, s')"
  obtains "published_as slug s ev" "s' = s"
proof (cases "select_one (\<lambda>e. ev_slug e = slug \<and> ev_status e = EventStatusPublished) (db_events (dp_db s))")
  case (Some e)
  from assms have r: "e = ev" "s' = s" unfolding resolve_event_run Some option.case by simp_all
  from select_one_SomeD [OF Some] r show ?thesis by (intro that) (simp_all only: published_as_def)
next
  case None
  from assms show ?thesis unfolding resolve_event_run None option.case by simp
qed

lemma keeps_resolve_event [keeps_intros]: "keeps I (resolve_event slug)"
  unfolding resolve_event_def
  by (rule keeps_hidden_as, rule keepsI)
    (simp add: in_db_def published_event_by_slug_def get_published_event_by_slug_def found_def and_then_def reads_def
      of_option_def fail_def ret_def split: option.splits)

lemma keeps_gallery_reads [keeps_intros]:
  "keeps I (list_photos tid eid f pg)" "keeps I (list_public_albums tid eid)" "keeps I (get_album tid eid aid)"
  unfolding list_photos_def list_photo_rows_def list_public_albums_def list_public_albums_rows_def list_albums_where_def
    get_album_def get_album_row_def optional_uuid_def Let_def
  by (intro keeps_intros impI allI conjI | simp)+

section \<open>Photos\<close>

lemma public_photos_shown:
  assumes "public_photos en sd name vs = Inr xs" and "x \<in> set xs"
  shows "\<exists>v \<in> set vs. preview_url en sd v = Inr (Some (pp_preview x)) \<and> pp_id x = ph_id (pv_row v) \<and>
    pp_album_id x = ph_album_id (pv_row v) \<and> pp_album_name x = name (ph_album_id (pv_row v))"
  using assms
proof (induction vs arbitrary: xs)
  case (Cons v vs)
  show ?case
  proof (cases "preview_url en sd v")
    case (Inr o')
    with Cons show ?thesis
      by (cases o'; cases "public_photos en sd name vs") auto
  qed (use Cons.prems in simp)
qed simp

lemma photo_page_InrE [act_elims]:
  assumes "photo_page en sd tid eid f pg known s = (Inr page, s')"
  obtains photos name where "list_photos tid eid (f\<lparr>pf_public_only := True\<rparr>) pg s = (Inr photos, s)"
    "public_photos en sd name (map snd (pg_items photos)) = Inr (pg_items page)" "s' = s"
proof -
  from assms obtain photos s1 names s2 out where
    l: "list_photos tid eid (f\<lparr>pf_public_only := True\<rparr>) pg s = (Inr photos, s1)" and
    n: "(if known = '''' \<and> pg_items photos \<noteq> []
        then and_then (list_public_albums tid eid) (\<lambda>vs. ret (rev (map (\<lambda>v. (ab_id (av_album v), ab_name (av_album v))) vs)))
        else ret []) s1 = (Inr names, s2)" and
    p: "public_photos en sd (\<lambda>aid. if known = '''' then name_in names aid else known) (map snd (pg_items photos)) = Inr out" and
    page: "page = \<lparr>pg_items = out, pg_next_cursor = pg_next_cursor photos\<rparr>" "s' = s2"
    unfolding photo_page_def by (elim and_then_InrE of_store_InrE ret_InrE, hypsubst) blast
  have s1: "s1 = s" by (rule same_state [where m = "list_photos tid eid (f\<lparr>pf_public_only := True\<rparr>) pg", OF keeps_gallery_reads(1) l])
  have s2: "s2 = s1"
  proof (cases "known = '''' \<and> pg_items photos \<noteq> []")
    case True
    with n obtain vs where "list_public_albums tid eid s1 = (Inr vs, s2)"
      by (auto simp: ret_def elim!: and_then_InrE)
    then show ?thesis by (rule same_state [where m = "list_public_albums tid eid", OF keeps_gallery_reads(2)])
  qed (use n in \<open>simp add: ret_def split: if_splits\<close>)
  show ?thesis using that l [unfolded s1] p by (simp add: page s1 s2)
qed

text \<open>A photo the portal shows: in a public album of the event, its watermarked thumbnail linked.\<close>

definition shown_photo :: "env \<Rightarrow> storage_deps \<Rightarrow> studio \<Rightarrow> event_row \<Rightarrow> public_photo \<Rightarrow> bool" where
  "shown_photo en sd s ev x \<longleftrightarrow>
     (\<exists>p \<in> set (st_photos s). \<exists>a \<in> set (st_albums s). \<exists>o' \<in> set (dp_objects s).
        ph_id p = pp_id x \<and> ab_id a = ph_album_id p \<and> pp_album_id x = ab_id a \<and> ab_is_public a \<and>
        ab_tenant_id a = ev_tenant_id ev \<and> pg_uuid (ev_id ev) = Some (ab_event_id a) \<and>
        ph_thumbnail_id p = Some (ob_id o') \<and> object_url en sd (ev_tenant_id ev) o' = Inr (Some (pp_preview x)))"

lemma photo_page_shows:
  assumes "photo_page en sd (ev_tenant_id ev) (ev_id ev) f pg known s = (Inr page, s')" and "x \<in> set (pg_items page)"
  shows "shown_photo en sd s ev x"
  using assms(1)
proof (rule photo_page_InrE)
  fix photos name
  assume l: "list_photos (ev_tenant_id ev) (ev_id ev) (f\<lparr>pf_public_only := True\<rparr>) pg s = (Inr photos, s)"
    and p: "public_photos en sd name (map snd (pg_items photos)) = Inr (pg_items page)"
  from public_photos_shown [OF p assms(2)] obtain av where av: "av \<in> set (pg_items photos)"
    "preview_url en sd (snd av) = Inr (Some (pp_preview x))" "pp_id x = ph_id (pv_row (snd av))"
    "pp_album_id x = ph_album_id (pv_row (snd av))" by auto
  from list_photos_shows [OF l av(1)] have j: "av \<in> set (joined_photos s (ev_tenant_id ev))"
    "pg_uuid (ev_id ev) = Some (ab_event_id (fst av))" "ab_is_public (fst av)" by simp_all
  from joined_photoD [OF j(1)] obtain q u o' where q: "q \<in> set (st_photos s)" "ph_tenant_id q = ev_tenant_id ev"
    "album_of s (ev_tenant_id ev) q = Some (fst av)" "snd av = view_photo s (ev_tenant_id ev) q u o'" by metis
  from select_one_SomeD [OF q(3) [unfolded album_of_def]] have a: "fst av \<in> set (st_albums s)"
    "ab_tenant_id (fst av) = ev_tenant_id ev" "ab_id (fst av) = ph_album_id q" by simp_all
  from av(2) q(2,4) obtain t o2 where t: "ph_thumbnail_id q = Some t" "joined_object s (ev_tenant_id ev) t = Some o2"
    "object_url en sd (ev_tenant_id ev) o2 = Inr (Some (pp_preview x))"
    by (auto simp: preview_url_def view_photo_def split: option.splits)
  from select_one_SomeD [OF t(2) [unfolded joined_object_def]] have o2: "o2 \<in> set (dp_objects s)" "ob_id o2 = t" by simp_all
  show ?thesis
    unfolding shown_photo_def
    by (rule bexI [OF _ q(1)], rule bexI [OF _ a(1)], rule bexI [OF _ o2(1)])
      (use av(3,4) a t(1,3) j o2(2) q(4) in \<open>simp add: view_photo_def\<close>)
qed

text \<open>C33: Whoever searches photos by BIB or opens an album sees only photos of public albums of a published event,
and of a photo only the link to its watermarked thumbnail.\<close>

theorem portal_photos_public:
  assumes "search_photos en sd slug bib pg s = (Inr page, s') \<or> list_album_photos en sd slug aid pg s = (Inr page, s')"
  shows "s' = s \<and> (\<exists>ev. published_as slug s ev \<and> (\<forall>x \<in> set (pg_items page). shown_photo en sd s ev x))"
  using assms
proof
  assume "search_photos en sd slug bib pg s = (Inr page, s')"
  then obtain ev where ev: "published_as slug s ev"
    and r: "photo_page en sd (ev_tenant_id ev) (ev_id ev) (no_filter\<lparr>pf_bib := bib\<rparr>) pg '''' s = (Inr page, s')"
    unfolding search_photos_def by (elim guard_InrE and_then_InrE resolve_event_InrE) (hypsubst, blast)
  from r have "s' = s" by (rule photo_page_InrE)
  with ev photo_page_shows [OF r] show ?thesis by blast
next
  assume "list_album_photos en sd slug aid pg s = (Inr page, s')"
  then obtain ev v s1 where ev: "published_as slug s ev"
    and g: "get_album (ev_tenant_id ev) (ev_id ev) aid s = (Inr v, s1)"
    and r: "photo_page en sd (ev_tenant_id ev) (ev_id ev) (no_filter\<lparr>pf_album := aid\<rparr>) pg (ab_name (av_album v)) s1 = (Inr page, s')"
    unfolding list_album_photos_def by (elim guard_InrE and_then_InrE resolve_event_InrE hidden_as_InrE) (hypsubst, blast)
  have s1: "s1 = s" by (rule same_state [where m = "get_album (ev_tenant_id ev) (ev_id ev) aid", OF keeps_gallery_reads(3) g])
  from r have "s' = s1" by (rule photo_page_InrE)
  with ev s1 photo_page_shows [OF r] show ?thesis by blast
qed

section \<open>Certificates\<close>

lemma published_at_run:
  "published_at tid eid s =
     (case pg_uuid eid of None \<Rightarrow> (Inl bad_uuid, s)
      | Some e \<Rightarrow> (Inr (map_option pb_published_at (select_one (is_publication tid e) (st_publications s))), s))"
  by (simp add: published_at_def with_uuid_def act_simps split: option.splits)

lemma keeps_get_by_participant [keeps_intros]: "keeps I (get_by_participant tid eid pid)"
  unfolding get_by_participant_def by (intro keeps_intros)

text \<open>A certificate is handed out only while its event is published, its certificates are published, and the
certificate of this participant is ready; the link is that of its file.\<close>

theorem certificate_download_rule:
  assumes "get_certificate_download en cd slug pid s = (Inr t, s')"
  shows "s' = s \<and> (\<exists>ev. published_as slug s ev \<and>
    (\<exists>b \<in> set (st_publications s). pb_tenant_id b = ev_tenant_id ev \<and> pg_uuid (ev_id ev) = Some (pb_event_id b)) \<and>
    (\<exists>c \<in> set (st_certificates s). \<exists>o' \<in> set (dp_objects s). pg_uuid pid = Some (ct_participant_id c) \<and>
       ct_tenant_id c = ev_tenant_id ev \<and> pg_uuid (ev_id ev) = Some (ct_event_id c) \<and> ct_status c = StatusReady \<and>
       ct_storage_id c = Some (ob_id o') \<and> object_url en (cd_storage cd) (ev_tenant_id ev) o' = Inr (Some t)))"
proof -
  from assms obtain ev pub s1 v s2 url s3 where ev: "published_as slug s ev"
    and p: "published_at (ev_tenant_id ev) (ev_id ev) s = (Inr pub, s1)" and pub: "pub \<noteq> None"
    and g: "get_by_participant (ev_tenant_id ev) (ev_id ev) pid s1 = (Inr v, s2)"
    and ready: "ct_status (cv_row v) = StatusReady"
    and fu: "of_store (file_url en cd v) s2 = (Inr url, s3)"
    and rest: "(case url of None \<Rightarrow> fail certificate_not_found | Some t \<Rightarrow> ret t) s3 = (Inr t, s')"
    unfolding get_certificate_download_def Let_def
    by (elim guard_InrE and_then_InrE resolve_event_InrE hidden_as_InrE with_tenant_tx_InrE) (hypsubst, blast)
  from p obtain e b where e: "pg_uuid (ev_id ev) = Some e" and s1: "s1 = s"
    and b: "select_one (is_publication (ev_tenant_id ev) e) (st_publications s) = Some b"
    using pub by (auto simp: published_at_run split: option.splits)
  from g obtain e' q where q: "pg_uuid (ev_id ev) = Some e'" "pg_uuid pid = Some q" "cv_row v \<in> set (st_certificates s)"
    "is_certificate (ev_tenant_id ev) e' q (cv_row v)" "v = view_certificate s (ev_tenant_id ev) (cv_row v)" "s2 = s"
    unfolding s1 by (rule get_by_participant_InrE) (rule that; assumption)
  from rest have "url = Some t" "s' = s3" by (cases url; simp add: act_simps)+
  with fu have url: "file_url en cd v = Inr (Some t)" "s' = s2" by (auto elim: of_store_InrE)
  then obtain o' where o': "cv_object v = Some o'" "object_url en (cd_storage cd) (ct_tenant_id (cv_row v)) o' = Inr (Some t)"
    by (auto simp: file_url_def split: option.splits if_splits)
  from o'(1) q(5) obtain x where x: "ct_storage_id (cv_row v) = Some x" "joined_object s (ev_tenant_id ev) x = Some o'"
    by (metis certificate_view.select_convs(2) option.exhaust option.simps(4,5) option.distinct(1) view_certificate_def)
  from select_one_SomeD [OF x(2) [unfolded joined_object_def]] have "o' \<in> set (dp_objects s)" "ob_id o' = x" by simp_all
  moreover from select_one_SomeD [OF b] have "b \<in> set (st_publications s)" "pb_tenant_id b = ev_tenant_id ev" "pb_event_id b = e"
    by (simp_all add: is_publication_def)
  moreover have "ct_tenant_id (cv_row v) = ev_tenant_id ev" "ct_event_id (cv_row v) = e" "ct_participant_id (cv_row v) = q"
    using q(1,4) e by (simp_all add: is_certificate_def)
  ultimately show ?thesis
    using ev e q(2,3,6) ready url(2) o'(2) x(1)
    by (intro conjI exI [of _ ev] bexI [of _ b] bexI [of _ "cv_row v"] bexI [of _ o']) simp_all
qed

lemma set_published_effect:
  assumes "set_published en tid eid actor role False s = (Inr r, s')"
  obtains e b where "pg_uuid eid = Some e"
    "s' = s\<lparr>st_publications := delete_where (is_publication tid e) (st_publications s), dp_db := b\<rparr>"
  using assms unfolding set_published_def set_published_row_def Let_def
  by (elim on_error_InrE with_tenant_tx_InrE and_then_InrE event_exists_InrE with_uuid_InrE album_audit_InrE)
    (auto simp: act_simps)

text \<open>C34: Taking the certificates of an event back works at once: no search finds one and no download is answered,
until they are published again.\<close>

theorem unpublish_withdraws:
  assumes "set_published en tid eid actor role False s = (Inr r, s')"
    and "resolve_event slug s' = (Inr ev, s')" "ev_tenant_id ev = tid" "pg_uuid eid = Some (ev_id ev)"
    and "tid \<noteq> ''''" "trim_space q \<noteq> ''''"
  shows "get_certificate_download en' cd slug pid s' = (Inl certificate_not_found, s') \<and>
    search_certificates lower slug q s' = (Inr [], s')"
  using assms(1)
proof (rule set_published_effect)
  fix e b
  assume e: "pg_uuid eid = Some e"
    and s': "s' = s\<lparr>st_publications := delete_where (is_publication tid e) (st_publications s), dp_db := b\<rparr>"
  have ev: "pg_uuid (ev_id ev) = Some (ev_id ev)" "ev_id ev = e" using pg_uuid_idem [OF assms(4)] assms(4) e by simp_all
  have none: "\<not> list_ex (is_publication tid (ev_id ev)) (st_publications s')"
    by (auto simp: s' list_ex_iff set_delete_where ev(2))
  then have at: "published_at tid (ev_id ev) s' = (Inr None, s')"
    by (simp add: published_at_run ev(1) list_ex_iff select_one_None_iff [THEN iffD2])
  have "searchable s' tid (ev_id ev) c \<longleftrightarrow> False" for c using none by (simp add: searchable_def)
  then have "matching_rows lower s' tid (ev_id ev) (trim_space q) = []"
    by (simp add: matching_rows_def select_def map_filter_simps)
  then have "search_certificates lower slug q s' = (Inr [], s')"
    using assms(2,3,5,6) ev(1)
    by (simp add: search_certificates_def Let_def and_then_def guard_def with_tenant_tx_def with_tx_def search_certificate_rows_def
        with_uuid_def reads_def checked_def ret_def)
  moreover have "get_certificate_download en' cd slug pid s' = (Inl certificate_not_found, s')"
    using assms(2,3,5) at
    by (simp add: get_certificate_download_def Let_def and_then_def hidden_as_def attempt_def with_tenant_tx_def with_tx_def
        guard_def fail_def certificate_not_found_def portal_not_found_def)
  ultimately show ?thesis by blast
qed

lemma scan_fails:
  assumes "m \<in> set ms" "p_last_name (fst m) = None"
  shows "\<exists>e. scan_matches ms = Inl (Other e)"
  using assms
proof (induction ms)
  case (Cons x ms)
  obtain p ra c where "x = (p, ra, c)" by (cases x)
  with Cons show ?case by (cases "p_last_name p"; cases "scan_matches ms") auto
qed simp

text \<open>One runner without a last name among the matches fails the whole search: the column may be null, and the
row cannot be read into a string.\<close>

theorem search_fails_on_missing_name:
  assumes "resolve_event slug s = (Inr ev, s)" and "pg_uuid (ev_id ev) = Some e" and "ev_tenant_id ev \<noteq> ''''"
    and "m \<in> set (matching_rows lower s (ev_tenant_id ev) e (trim_space q))" and "p_last_name (fst m) = None"
    and "trim_space q \<noteq> ''''"
  shows "\<exists>x. search_certificates lower slug q s = (Inl x, s) \<and> portal_reply x = reply 500 ''internal_error'' ''Something went wrong. Please try again.''"
proof -
  from scan_fails [OF assms(4,5)] obtain x where
    "scan_matches (matching_rows lower s (ev_tenant_id ev) e (trim_space q)) = Inl (Other x)" by blast
  with assms show ?thesis
    by (intro exI [of _ "Other x"]) (simp add: search_certificates_def Let_def and_then_def guard_def with_tenant_tx_def with_tx_def
      search_certificate_rows_def with_uuid_def reads_def checked_def fail_def portal_reply_def from_service_error_def)
qed

section \<open>Runs\<close>

definition demo_portal :: studio where
  "demo_portal = demo_prints\<lparr>
     dp_db := (dp_db demo_prints)\<lparr>db_events := [demo_event\<lparr>ev_id := demo_uuid (CHR ''e''), ev_status := EventStatusPublished\<rparr>],
       db_races := [demo_race]\<rparr>,
     dp_objects := dp_objects demo_prints @ [demo_upload\<lparr>ob_id := demo_uuid (CHR ''9'')\<rparr>, demo_upload],
     st_albums := [demo_album\<lparr>ab_is_public := True\<rparr>],
     st_photos := [demo_photo\<lparr>ph_thumbnail_id := Some (demo_uuid (CHR ''0''))\<rparr>],
     st_publications := [\<lparr>pb_event_id = demo_uuid (CHR ''e''), pb_tenant_id = ''t'', pb_published_at = 4\<rparr>]\<rparr>"

theorem portal_photos_public_witness:
  "\<exists>page s'. search_photos (demo_fresh 5) demo_storage ''run'' ''1024'' \<lparr>pg_limit = 20, pg_cursor = ''''\<rparr> demo_portal = (Inr page, s') \<and>
     length (pg_items page) = 1 \<and> (\<exists>ev. published_as ''run'' demo_portal ev \<and>
     (\<forall>x \<in> set (pg_items page). shown_photo (demo_fresh 5) demo_storage demo_portal ev x))"
proof -
  let ?r = "search_photos (demo_fresh 5) demo_storage ''run'' ''1024'' \<lparr>pg_limit = 20, pg_cursor = ''''\<rparr> demo_portal"
  have run: "?r = (Inr (projr (fst ?r)), snd ?r)" by (rule run_succeeded) code_simp
  have one: "length (pg_items (projr (fst ?r))) = 1" by code_simp
  from portal_photos_public [OF disjI1 [OF run]] run one show ?thesis by blast
qed

theorem certificate_download_rule_witness:
  "\<exists>t s'. get_certificate_download (demo_fresh 5) demo_certificate_deps ''run'' (demo_uuid (CHR ''5'')) demo_portal = (Inr t, s') \<and>
     (\<exists>c \<in> set (st_certificates demo_portal). ct_status c = StatusReady \<and> pg_uuid (demo_uuid (CHR ''5'')) = Some (ct_participant_id c))"
proof -
  let ?r = "get_certificate_download (demo_fresh 5) demo_certificate_deps ''run'' (demo_uuid (CHR ''5'')) demo_portal"
  have run: "?r = (Inr (projr (fst ?r)), snd ?r)" by (rule run_succeeded) code_simp
  from certificate_download_rule [OF run] run show ?thesis by blast
qed

theorem unpublish_withdraws_witness:
  "\<exists>r s'. set_published (demo_fresh 5) ''t'' (demo_uuid (CHR ''e'')) ''u'' RoleAdmin False demo_portal = (Inr r, s') \<and>
     search_certificates to_lower ''run'' ''7'' s' = (Inr [], s') \<and>
     get_certificate_download (demo_fresh 5) demo_certificate_deps ''run'' (demo_uuid (CHR ''5'')) s' = (Inl certificate_not_found, s')"
proof -
  let ?p = "set_published (demo_fresh 5) ''t'' (demo_uuid (CHR ''e'')) ''u'' RoleAdmin False demo_portal"
  have run: "?p = (Inr (projr (fst ?p)), snd ?p)" by (rule run_succeeded) code_simp
  let ?e = "resolve_event ''run'' (snd ?p)"
  have ev: "\<not> isl (fst ?e)" "map_sum id (\<lambda>e. (ev_tenant_id e, Some (ev_id e))) (fst ?e) =
      Inr (''t'', pg_uuid (demo_uuid (CHR ''e'')))" by code_simp+
  from run_succeeded [OF ev(1)] have r1: "?e = (Inr (projr (fst ?e)), snd ?e)" .
  then have "snd ?e = snd ?p" by (rule resolve_event_InrE)
  with r1 have r2: "?e = (Inr (projr (fst ?e)), snd ?p)" by simp
  have k: "ev_tenant_id (projr (fst ?e)) = ''t''" "pg_uuid (demo_uuid (CHR ''e'')) = Some (ev_id (projr (fst ?e)))"
    using ev by (cases "fst ?e"; simp)+
  have q: "''t'' \<noteq> ''''" "trim_space ''7'' \<noteq> ''''" by code_simp+
  from unpublish_withdraws [OF run r2 k q] run show ?thesis by blast
qed

theorem search_fails_on_missing_name_witness:
  "\<exists>x. search_certificates to_lower ''run'' ''7'' demo_portal = (Inl x, demo_portal) \<and> he_status (portal_reply x) = 500"
proof -
  let ?e = "resolve_event ''run'' demo_portal"
  let ?ev = "projr (fst ?e)"
  have ok: "\<not> isl (fst ?e)" by code_simp
  from run_succeeded [OF this] have r1: "?e = (Inr ?ev, snd ?e)" .
  then have "snd ?e = demo_portal" by (rule resolve_event_InrE)
  with r1 have ev: "?e = (Inr ?ev, demo_portal)" by simp
  have k: "pg_uuid (ev_id ?ev) = Some (demo_uuid (CHR ''e''))" "ev_tenant_id ?ev \<noteq> ''''" "trim_space ''7'' \<noteq> ''''" by code_simp+
  let ?m = "matching_rows to_lower demo_portal (ev_tenant_id ?ev) (demo_uuid (CHR ''e'')) (trim_space ''7'')"
  have m: "?m \<noteq> []" "p_last_name (fst (hd ?m)) = None" by code_simp+
  from search_fails_on_missing_name [OF ev k(1,2) hd_in_set [OF m(1)] m(2) k(3)] show ?thesis by (auto simp: reply_def)
qed

end
