(* ===== verification/Face_Service.thy ===== *)
theory Face_Service
  imports Portal_Service
begin

text \<open>
  \<open>internal/face\<close>, the search of photos by a face that somebody enrolled: \<open>repository.go\<close>, \<open>service.go\<close> and the
  job of \<open>detection_job.go\<close>, with the points of \<open>internal/platform/qdrantstore\<close>, and the portal's search by
  face. The service that finds faces in a picture, the neighbours of a vector and the calls to Qdrant that fail
  are arguments.
\<close>

section \<open>Rows and points\<close>

record face =
  fc_id :: string
  fc_tenant_id :: "string option"
  fc_user_id :: "string option"
  fc_ref_id :: "string option"
  fc_count :: int
  fc_consented_at :: int
  fc_created_at :: int
  fc_updated_at :: int

record embedding =
  em_id :: string
  em_tenant_id :: "string option"
  em_user_id :: "string option"
  em_ref_id :: "string option"
  em_face_id :: string
  em_point_id :: string
  em_confidence :: "rat option"
  em_created_at :: int

record detection =
  dt_id :: string
  dt_tenant_id :: string
  dt_photo_id :: string
  dt_box :: box
  dt_confidence :: "rat option"
  dt_point_id :: string
  dt_detected_at :: int

type_synonym vector = "rat list"

text \<open>The payloads: tenant, event and photo of a detected face; tenant, user, reference and face of an enrolled
one. An empty field is left out of what is sent.\<close>

datatype payload = DetectionPayload string string string | EnrollmentPayload string string string string

record point =
  pt_id :: string
  pt_vector :: vector
  pt_payload :: payload

text \<open>The two collections of Qdrant beside the tables.\<close>

record lab = studio +
  lb_faces :: "face list"
  lb_embeddings :: "embedding list"
  lb_detections :: "detection list"
  lb_enrolled :: "point list"
  lb_detected :: "point list"

type_synonym 'a lab_act = "(lab, go_error, 'a) act"

definition in_studio :: "'a studio_act \<Rightarrow> 'a lab_act" where
  "in_studio m s = (case m (studio.truncate s) of (r, t) \<Rightarrow> (r, studio.extend t (studio.more s)))"

text \<open>A transaction of Postgres takes no point back.\<close>

definition keep_points :: "lab \<Rightarrow> lab \<Rightarrow> lab" where
  "keep_points s s' = s\<lparr>lb_enrolled := lb_enrolled s', lb_detected := lb_detected s'\<rparr>"

definition with_db_tx :: "'a lab_act \<Rightarrow> 'a lab_act" where
  "with_db_tx m s = (case m s of (Inl e, s') \<Rightarrow> (Inl e, keep_points s s') | (Inr a, s') \<Rightarrow> (Inr a, s'))"

definition with_db_tenant_tx :: "string \<Rightarrow> 'a lab_act \<Rightarrow> 'a lab_act" where
  "with_db_tenant_tx tid m =
     (if tid = '''' then fail (Other ''database: WithTenantTx called with empty tenantID'') else with_db_tx m)"

section \<open>Qdrant\<close>

datatype collection = Enrolled | Detected

datatype point_call = UpsertPoint collection string | DeletePoints collection "string list" | GetPoint collection string
  | SearchPoints collection

record detected =
  de_bbox :: "rat \<times> rat \<times> rat \<times> rat"
  de_vector :: vector
  de_confidence :: rat

text \<open>\<open>fd_embed\<close> is the service behind its address, if there is one, by attempt; \<open>fd_sniff\<close> is
\<open>http.DetectContentType\<close>; \<open>fd_down\<close> tells which call to Qdrant fails and how, one that changes nothing then;
\<open>fd_near\<close> gives the neighbours of a vector, the nearest first.\<close>

record face_deps =
  fd_storage :: storage_deps
  fd_sha :: "string \<Rightarrow> string"
  fd_sniff :: "string \<Rightarrow> string"
  fd_embed :: "(nat \<Rightarrow> string \<Rightarrow> ticket option \<Rightarrow> go_error + detected list) option"
  fd_down :: "point_call \<Rightarrow> string option"
  fd_near :: "vector \<Rightarrow> point list \<Rightarrow> point list"

definition qdrant_failed :: "face_deps \<Rightarrow> point_call \<Rightarrow> go_error option" where
  "qdrant_failed fd c = map_option (\<lambda>m. Other (''qdrantstore: '' @ m)) (fd_down fd c)"

fun points :: "collection \<Rightarrow> lab \<Rightarrow> point list" where
  "points Enrolled s = lb_enrolled s"
| "points Detected s = lb_detected s"

fun put_points :: "collection \<Rightarrow> (point list \<Rightarrow> point list) \<Rightarrow> lab \<Rightarrow> lab" where
  "put_points Enrolled f s = s\<lparr>lb_enrolled := f (lb_enrolled s)\<rparr>"
| "put_points Detected f s = s\<lparr>lb_detected := f (lb_detected s)\<rparr>"

definition upsert_point :: "face_deps \<Rightarrow> collection \<Rightarrow> point \<Rightarrow> unit lab_act" where
  "upsert_point fd c p =
     on_error (qdrant_failed fd (UpsertPoint c (pt_id p)))
       (writes (put_points c (\<lambda>ps. delete_where (\<lambda>q. pt_id q = pt_id p) ps @ [p])))"

definition delete_points :: "face_deps \<Rightarrow> collection \<Rightarrow> string list \<Rightarrow> unit lab_act" where
  "delete_points fd c ids =
     (if ids = [] then ret ()
      else on_error (qdrant_failed fd (DeletePoints c ids)) (writes (put_points c (delete_where (\<lambda>q. pt_id q \<in> set ids)))))"

definition get_vector :: "face_deps \<Rightarrow> collection \<Rightarrow> string \<Rightarrow> vector lab_act" where
  "get_vector fd c pid =
     on_error (qdrant_failed fd (GetPoint c pid))
       (and_then (reads (\<lambda>s. map_option pt_vector (select_one (\<lambda>q. pt_id q = pid) (points c s))))
         (of_option (Other (''qdrantstore: get point '' @ pid @ '': qdrant returned status 404''))))"

fun in_filter :: "string \<Rightarrow> string \<Rightarrow> payload \<Rightarrow> bool" where
  "in_filter tid eid (DetectionPayload t e p) \<longleftrightarrow> (tid = '''' \<or> t = tid) \<and> (eid = '''' \<or> e = eid)"
| "in_filter tid eid (EnrollmentPayload t u r f) \<longleftrightarrow> (tid = '''' \<or> t = tid) \<and> eid = ''''"

definition search_points ::
  "face_deps \<Rightarrow> collection \<Rightarrow> vector \<Rightarrow> string \<Rightarrow> string \<Rightarrow> nat \<Rightarrow> point list lab_act" where
  "search_points fd c v tid eid limit =
     on_error (qdrant_failed fd (SearchPoints c))
       (reads (\<lambda>s. take limit (fd_near fd v (select (\<lambda>q. in_filter tid eid (pt_payload q)) (points c s)))))"

fun photo_in :: "payload \<Rightarrow> string" where
  "photo_in (DetectionPayload t e p) = p"
| "photo_in (EnrollmentPayload t u r f) = ''''"

section \<open>The service that finds faces\<close>

text \<open>\<open>DetectAndEmbed\<close>, with one retry.\<close>

definition detect_and_embed :: "face_deps \<Rightarrow> string \<Rightarrow> ticket option \<Rightarrow> go_error + detected list" where
  "detect_and_embed fd label t =
     (case fd_embed fd of
        None \<Rightarrow> Inl (Other ''face: FACE_EMBED_SERVICE_URL is not configured'')
      | Some f \<Rightarrow>
          (case f 0 label t of
             Inr ds \<Rightarrow> Inr ds
           | Inl _ \<Rightarrow> map_sum (wrapped ''face: detect/single request'') id (f 1 label t)))"

text \<open>The first of the most confident.\<close>

definition best_of :: "detected \<Rightarrow> detected list \<Rightarrow> detected" where
  "best_of d ds = fold (\<lambda>f b. if de_confidence f > de_confidence b then f else b) ds d"

definition detect_best_face :: "face_deps \<Rightarrow> string \<Rightarrow> ticket option \<Rightarrow> go_error + detected" where
  "detect_best_face fd u t =
     (if fd_embed fd = None
        then Inl (Other (''face: face'' @ [CHR 0xE2, CHR 0x80, CHR 0x91] @ ''embed service URL is not configured''))
      else case detect_and_embed fd (''enroll-'' @ u) t of
        Inl e \<Rightarrow> Inl e
      | Inr [] \<Rightarrow> Inl (FieldError (invalid ''image'' ''No face was detected in this image.''))
      | Inr (d # ds) \<Rightarrow> Inr (best_of d ds))"

definition box_fraction :: "rat \<times> rat \<times> rat \<times> rat \<Rightarrow> int \<Rightarrow> int \<Rightarrow> box" where
  "box_fraction b width height =
     (case b of (x1, y1, x2, y2) \<Rightarrow>
        if width \<le> 0 \<or> height \<le> 0 then \<lparr>bx_x = 0, bx_y = 0, bx_w = 0, bx_h = 0\<rparr>
        else let w = of_int width; h = of_int height in
          \<lparr>bx_x = x1 / w, bx_y = y1 / h, bx_w = (x2 - x1) / w, bx_h = (y2 - y1) / h\<rparr>)"

section \<open>The repository\<close>

text \<open>The policy of migration 0022: in the transaction of a tenant, its rows and those without one; without a
tenant only the latter.\<close>

definition shows_to :: "string option \<Rightarrow> string option \<Rightarrow> bool" where
  "shows_to ctx owner \<longleftrightarrow> owner = None \<or> owner = ctx"

definition visible_face :: "string option \<Rightarrow> string \<Rightarrow> face \<Rightarrow> bool" where
  "visible_face ctx fid f \<longleftrightarrow> fc_id f = fid \<and> shows_to ctx (fc_tenant_id f)"

definition visible_embedding :: "string option \<Rightarrow> string \<Rightarrow> embedding \<Rightarrow> bool" where
  "visible_embedding ctx fid m \<longleftrightarrow> em_face_id m = fid \<and> shows_to ctx (em_tenant_id m)"

definition own_face :: "string \<Rightarrow> face \<Rightarrow> bool" where
  "own_face uid f \<longleftrightarrow> fc_tenant_id f = None \<and> fc_user_id f = Some uid"

definition ref_face :: "string \<Rightarrow> string \<Rightarrow> face \<Rightarrow> bool" where
  "ref_face tid r f \<longleftrightarrow> fc_tenant_id f = Some tid \<and> fc_ref_id f = Some r"

definition get_face_by_user :: "string \<Rightarrow> face lab_act" where
  "get_face_by_user uid = and_then (reads (\<lambda>s. select_one (own_face uid) (lb_faces s))) found"

definition get_face_by_ref :: "string \<Rightarrow> string \<Rightarrow> face lab_act" where
  "get_face_by_ref tid r = and_then (reads (\<lambda>s. select_one (ref_face tid r) (lb_faces s))) found"

definition get_face :: "string option \<Rightarrow> string \<Rightarrow> face lab_act" where
  "get_face ctx fid = with_uuid fid (\<lambda>x. and_then (reads (\<lambda>s. select_one (visible_face ctx x) (lb_faces s))) found)"

definition face_pk :: "face \<Rightarrow> string option" where
  "face_pk f = Some (fc_id f)"

definition face_user_key :: "face \<Rightarrow> string option" where
  "face_user_key f = fc_user_id f"

definition face_ref_key :: "face \<Rightarrow> (string \<times> string) option" where
  "face_ref_key f = (case (fc_tenant_id f, fc_ref_id f) of (Some t, Some r) \<Rightarrow> Some (t, r) | _ \<Rightarrow> None)"

text \<open>\<open>refIDPattern\<close>, also the check of the table.\<close>

definition is_valid_ref_id :: "string \<Rightarrow> bool" where
  "is_valid_ref_id r \<longleftrightarrow> 1 \<le> length r \<and> length r \<le> 200 \<and>
     list_all (\<lambda>c. is_letter c \<or> is_digit c \<or> c \<in> {CHR ''_'', CHR ''.'', CHR '':'', CHR ''-''}) r"

definition subject_ok :: "string option \<Rightarrow> string option \<Rightarrow> string option \<Rightarrow> bool" where
  "subject_ok tid uid r \<longleftrightarrow>
     (uid \<noteq> None \<and> r = None \<and> tid = None \<or> r \<noteq> None \<and> uid = None \<and> tid \<noteq> None) \<and>
     (case r of None \<Rightarrow> True | Some x \<Rightarrow> is_valid_ref_id x)"

definition subject_missing :: "lab \<Rightarrow> string option \<Rightarrow> string option \<Rightarrow> bool" where
  "subject_missing s tid uid \<longleftrightarrow>
     (case tid of None \<Rightarrow> False | Some t \<Rightarrow> \<not> list_ex (\<lambda>r. tn_id r = t) (db_tenants (dp_db s))) \<or>
     (case uid of None \<Rightarrow> False | Some u \<Rightarrow> \<not> has_user (dp_db s) u)"

definition face_violation :: "lab \<Rightarrow> face \<Rightarrow> sql_error option" where
  "face_violation s f =
     (if taken face_pk (lb_faces s) f then Some (UniqueViolation ''faces_pkey'')
      else if taken face_user_key (lb_faces s) f then Some (UniqueViolation ''faces_user_uk'')
      else if taken face_ref_key (lb_faces s) f then Some (UniqueViolation ''faces_tenant_ref_uk'')
      else if subject_missing s (fc_tenant_id f) (fc_user_id f) then Some (ForeignKeyViolation ''faces_fkey'')
      else None)"

definition insert_face :: "face \<Rightarrow> unit lab_act" where
  "insert_face f =
     guard (subject_ok (fc_tenant_id f) (fc_user_id f) (fc_ref_id f)) (Other ''pq: violates check constraint faces_subject_xor'')
     (and_then (reads (\<lambda>s. face_violation s f)) (\<lambda>v.
      and_then (sql_check sql_fails v) (\<lambda>_.
      writes (\<lambda>s. s\<lparr>lb_faces := lb_faces s @ [f]\<rparr>))))"

definition increment_embedding_count :: "env \<Rightarrow> string option \<Rightarrow> string \<Rightarrow> unit lab_act" where
  "increment_embedding_count en ctx fid =
     and_then (reads (\<lambda>s. length (select (visible_face ctx fid) (lb_faces s)))) (\<lambda>n.
     and_then (reads (\<lambda>s. list_all (\<lambda>f. in_int32 (fc_count f + 1)) (select (visible_face ctx fid) (lb_faces s)))) (\<lambda>ok.
     guard ok (sql_fails OutOfRange)
     (and_then (writes (\<lambda>s. s\<lparr>lb_faces := update_where (visible_face ctx fid)
        (\<lambda>f. f\<lparr>fc_count := fc_count f + 1, fc_updated_at := e_now en\<rparr>) (lb_faces s)\<rparr>)) (\<lambda>_.
      check_rows n))))"

definition embedding_pk :: "embedding \<Rightarrow> string option" where
  "embedding_pk m = Some (em_id m)"

definition embedding_point_key :: "embedding \<Rightarrow> string option" where
  "embedding_point_key m = Some (em_point_id m)"

definition embedding_violation :: "lab \<Rightarrow> embedding \<Rightarrow> sql_error option" where
  "embedding_violation s m =
     (if taken embedding_pk (lb_embeddings s) m then Some (UniqueViolation ''face_embeddings_pkey'')
      else if taken embedding_point_key (lb_embeddings s) m then Some (UniqueViolation ''face_embeddings_qdrant_point_uk'')
      else if \<not> list_ex (\<lambda>f. fc_id f = em_face_id m) (lb_faces s) then Some (ForeignKeyViolation ''face_embeddings_face_id_fkey'')
      else if subject_missing s (em_tenant_id m) (em_user_id m) then Some (ForeignKeyViolation ''face_embeddings_fkey'')
      else None)"

definition insert_embedding :: "embedding \<Rightarrow> unit lab_act" where
  "insert_embedding m0 =
     guard (subject_ok (em_tenant_id m0) (em_user_id m0) (em_ref_id m0))
       (Other ''pq: violates check constraint face_embeddings_subject_xor'')
     (case column numeric_5_4 (em_confidence m0) of
        None \<Rightarrow> fail (sql_fails OutOfRange)
      | Some c \<Rightarrow> let m = m0\<lparr>em_confidence := c\<rparr> in
          and_then (reads (\<lambda>s. embedding_violation s m)) (\<lambda>v.
          and_then (sql_check sql_fails v) (\<lambda>_.
          writes (\<lambda>s. s\<lparr>lb_embeddings := lb_embeddings s @ [m]\<rparr>))))"

definition list_embeddings_by_face :: "string option \<Rightarrow> string \<Rightarrow> embedding list lab_act" where
  "list_embeddings_by_face ctx fid =
     with_uuid fid (\<lambda>x. reads (\<lambda>s. sort_key em_created_at (select (visible_embedding ctx x) (lb_embeddings s))))"

text \<open>\<open>DropFace\<close>: the embeddings with their points first, then the face and, by the cascade, what is left of it.\<close>

definition drop_face_rows :: "string option \<Rightarrow> string \<Rightarrow> string list lab_act" where
  "drop_face_rows ctx fid =
     with_uuid fid (\<lambda>x.
     and_then (reads (\<lambda>s. map em_point_id (select (visible_embedding ctx x) (lb_embeddings s)))) (\<lambda>ids.
     and_then (reads (\<lambda>s. length (select (visible_face ctx x) (lb_faces s)))) (\<lambda>n.
     and_then (writes (\<lambda>s. s\<lparr>lb_embeddings := delete_where (visible_embedding ctx x) (lb_embeddings s)\<rparr>)) (\<lambda>_.
     and_then (writes (\<lambda>s.
        let gone = map fc_id (select (visible_face ctx x) (lb_faces s)) in
        s\<lparr>lb_faces := delete_where (visible_face ctx x) (lb_faces s),
          lb_embeddings := delete_where (\<lambda>m. em_face_id m \<in> set gone) (lb_embeddings s)\<rparr>)) (\<lambda>_.
     and_then (check_rows n) (\<lambda>_. ret ids))))))"

definition detection_pk :: "detection \<Rightarrow> string option" where
  "detection_pk d = Some (dt_id d)"

definition detection_point_key :: "detection \<Rightarrow> string option" where
  "detection_point_key d = Some (dt_point_id d)"

definition detection_columns :: "detection \<Rightarrow> detection option" where
  "detection_columns d =
     (let b = dt_box d in
      case (numeric_5_4 (bx_x b), numeric_5_4 (bx_y b), numeric_5_4 (bx_w b), numeric_5_4 (bx_h b),
            column numeric_5_4 (dt_confidence d)) of
        (Some x, Some y, Some w, Some h, Some c) \<Rightarrow>
          Some (d\<lparr>dt_box := \<lparr>bx_x = x, bx_y = y, bx_w = w, bx_h = h\<rparr>, dt_confidence := c\<rparr>)
      | _ \<Rightarrow> None)"

definition detection_violation :: "lab \<Rightarrow> detection \<Rightarrow> sql_error option" where
  "detection_violation s d =
     (if taken detection_pk (lb_detections s) d then Some (UniqueViolation ''photo_face_detections_pkey'')
      else if taken detection_point_key (lb_detections s) d
        then Some (UniqueViolation ''photo_face_detections_qdrant_point_uk'')
      else if subject_missing s (Some (dt_tenant_id d)) None
        then Some (ForeignKeyViolation ''photo_face_detections_tenant_id_fkey'')
      else if \<not> list_ex (\<lambda>p. ph_id p = dt_photo_id d) (st_photos s)
        then Some (ForeignKeyViolation ''photo_face_detections_photo_id_fkey'')
      else None)"

definition insert_detection :: "detection \<Rightarrow> unit lab_act" where
  "insert_detection d0 =
     (case detection_columns d0 of
        None \<Rightarrow> fail (sql_fails OutOfRange)
      | Some d \<Rightarrow>
          and_then (reads (\<lambda>s. detection_violation s d)) (\<lambda>v.
          and_then (sql_check sql_fails v) (\<lambda>_.
          writes (\<lambda>s. s\<lparr>lb_detections := lb_detections s @ [d]\<rparr>))))"

section \<open>Enrolling\<close>

definition consent_required :: go_error where
  "consent_required = FieldError \<lparr>fe_status = 422, fe_code = ''consent_required'', fe_field = '''',
     fe_message = ''Consent is required to enroll a face.''\<rparr>"

definition face_audit ::
  "env \<Rightarrow> string option \<Rightarrow> string option \<Rightarrow> string option \<Rightarrow> string \<Rightarrow> (string \<times> meta) list \<Rightarrow> unit lab_act" where
  "face_audit en tid uid cid action md =
     in_db (writes (\<lambda>s. s\<lparr>db_audit := db_audit s @
       [\<lparr>al_id = e_uuid en 0, al_tenant_id = tid, al_actor_user_id = uid, al_actor_client_id = cid,
         al_action = action, al_metadata = md, al_created_at = e_now en\<rparr>]\<rparr>))"

definition temp_image_key :: "string \<Rightarrow> string" where
  "temp_image_key u = ''face-enroll-tmp/'' @ u"

text \<open>A picture that is there for the time of a call: put, linked, used, and deleted whatever came of it.\<close>

definition with_temp_image ::
  "'o lab_act \<Rightarrow> unit lab_act \<Rightarrow> ticket option lab_act \<Rightarrow> (ticket option \<Rightarrow> 'a lab_act) \<Rightarrow> 'a lab_act" where
  "with_temp_image put_it clean sign use =
     and_then put_it (\<lambda>_.
     and_then (attempt (and_then sign use)) (\<lambda>r.
     and_then (attempt clean) (\<lambda>_ :: go_error + unit. checked r ret)))"

definition temp_upload_own ::
  "env \<Rightarrow> face_deps \<Rightarrow> string \<Rightarrow> string \<Rightarrow> (ticket option \<Rightarrow> 'a lab_act) \<Rightarrow> 'a lab_act" where
  "temp_upload_own en fd uid img =
     (let key = temp_image_key (e_uuid en 0); sd = fd_storage fd in
      with_temp_image (store_generated_personal (later 1 en) sd (fd_sha fd) uid BucketPrivate key (fd_sniff fd img) img)
        (delete_personal sd uid BucketPrivate key) (request_download_personal en sd uid key BucketPrivate))"

definition temp_upload_by_ref ::
  "env \<Rightarrow> face_deps \<Rightarrow> string \<Rightarrow> string \<Rightarrow> (ticket option \<Rightarrow> 'a lab_act) \<Rightarrow> 'a lab_act" where
  "temp_upload_by_ref en fd tid img =
     (let key = temp_image_key (e_uuid en 0); sd = fd_storage fd in
      with_temp_image (store_generated_direct (later 1 en) sd (fd_sha fd) tid '''' BucketPrivate key (fd_sniff fd img) img)
        (delete_generated sd tid BucketPrivate key) (request_download en sd tid key BucketPrivate))"

definition new_face :: "env \<Rightarrow> string option \<Rightarrow> string option \<Rightarrow> string option \<Rightarrow> face" where
  "new_face en tid uid r =
     \<lparr>fc_id = e_uuid en 0, fc_tenant_id = tid, fc_user_id = uid, fc_ref_id = r, fc_count = 0, fc_consented_at = e_now en,
      fc_created_at = e_now en, fc_updated_at = e_now en\<rparr>"

text \<open>The face of a subject, made when there is none; with it the identifiers that are left.\<close>

definition find_or_create_face :: "env \<Rightarrow> face lab_act \<Rightarrow> face \<Rightarrow> (face \<times> env) lab_act" where
  "find_or_create_face en get new =
     and_then (attempt get) (\<lambda>r.
     case r of
       Inr f \<Rightarrow> ret (f, en)
     | Inl e \<Rightarrow> if errors_is e ErrNotFound then and_then (insert_face new) (\<lambda>_. ret (new, later 1 en)) else fail e)"

definition new_embedding :: "env \<Rightarrow> face \<Rightarrow> string \<Rightarrow> detected \<Rightarrow> embedding" where
  "new_embedding en subject fid best =
     \<lparr>em_id = e_uuid en 1, em_tenant_id = fc_tenant_id subject, em_user_id = fc_user_id subject, em_ref_id = fc_ref_id subject,
      em_face_id = fid, em_point_id = e_uuid en 0, em_confidence = Some (de_confidence best), em_created_at = e_now en\<rparr>"

text \<open>The body both enrolments share: \<open>new\<close> carries the subject, \<open>pay\<close> the payload, \<open>aud\<close> the entry of the log.\<close>

definition add_embedding ::
  "env \<Rightarrow> face_deps \<Rightarrow> face lab_act \<Rightarrow> face \<Rightarrow> (face \<Rightarrow> payload) \<Rightarrow> (env \<Rightarrow> face \<Rightarrow> unit lab_act) \<Rightarrow> detected \<Rightarrow> face lab_act" where
  "add_embedding en fd get new pay aud best =
     and_then (find_or_create_face en get new) (\<lambda>(f, en).
     and_then (insert_embedding (new_embedding en new (fc_id f) best)) (\<lambda>_.
     and_then (increment_embedding_count en (fc_tenant_id new) (fc_id f)) (\<lambda>_.
     let g = f\<lparr>fc_count := fc_count f + 1\<rparr> in
     and_then (upsert_point fd Enrolled \<lparr>pt_id = e_uuid en 0, pt_vector = de_vector best, pt_payload = pay g\<rparr>) (\<lambda>_.
     and_then (aud (later 2 en) g) (\<lambda>_. ret g)))))"

definition enroll :: "env \<Rightarrow> face_deps \<Rightarrow> string \<Rightarrow> string \<Rightarrow> string \<Rightarrow> bool \<Rightarrow> face lab_act" where
  "enroll en fd uid actor img consent =
     guard consent consent_required
     (guard (img \<noteq> '''') (FieldError (invalid ''image'' ''image is required.''))
     (temp_upload_own en fd uid img (\<lambda>t.
      checked (detect_best_face fd (e_uuid en 2) t) (\<lambda>best.
      with_db_tx (add_embedding (later 3 en) fd (get_face_by_user uid) (new_face (later 3 en) None (Some uid) None)
        (\<lambda>f. EnrollmentPayload '''' uid '''' (fc_id f))
        (\<lambda>en f. face_audit en None (Some actor) None ''face.enrolled''
           [(''face_id'', MetaText (fc_id f)), (''user_id'', MetaText uid)]) best)))))"

definition enroll_by_ref ::
  "env \<Rightarrow> face_deps \<Rightarrow> string \<Rightarrow> string \<Rightarrow> string \<Rightarrow> string \<Rightarrow> bool \<Rightarrow> string \<Rightarrow> face lab_act" where
  "enroll_by_ref en fd tid r client img consent reference =
     guard consent consent_required
     (guard (is_valid_ref_id r)
       (FieldError (invalid ''ref_id'' (''ref_id must be 1-200 characters of letters, digits, '' @ [CHR 0x27] @ ''_'' @ [CHR 0x27] @
          '', '' @ [CHR 0x27] @ ''.'' @ [CHR 0x27] @ '', '' @ [CHR 0x27] @ '':'' @ [CHR 0x27] @ '' or '' @ [CHR 0x27] @ ''-'' @
          [CHR 0x27] @ ''.'')))
     (guard (img \<noteq> '''') (FieldError (invalid ''image'' ''image is required.''))
     (temp_upload_by_ref en fd tid img (\<lambda>t.
      checked (detect_best_face fd (e_uuid en 2) t) (\<lambda>best.
      with_db_tenant_tx tid (add_embedding (later 3 en) fd (get_face_by_ref tid r)
        (new_face (later 3 en) (Some tid) None (Some r))
        (\<lambda>f. EnrollmentPayload tid '''' r (fc_id f))
        (\<lambda>en f. face_audit en (Some tid) None (Some client) ''face.enrolled''
           ([(''face_id'', MetaText (fc_id f)), (''ref_id'', MetaText r)] @
            (if reference = '''' then [] else [(''consent_reference'', MetaText reference)]))) best))))))"

section \<open>Listing and dropping\<close>

definition embeddings_of :: "string option \<Rightarrow> face lab_act \<Rightarrow> (face \<times> embedding list) option lab_act" where
  "embeddings_of ctx get =
     and_then (attempt get) (\<lambda>r.
     case r of
       Inl e \<Rightarrow> if errors_is e ErrNotFound then ret None else fail e
     | Inr f \<Rightarrow> and_then (list_embeddings_by_face ctx (fc_id f)) (\<lambda>ms. ret (Some (f, ms))))"

definition list_embeddings :: "string \<Rightarrow> (face \<times> embedding list) option lab_act" where
  "list_embeddings uid = with_db_tx (embeddings_of None (get_face_by_user uid))"

definition list_embeddings_by_ref :: "string \<Rightarrow> string \<Rightarrow> (face \<times> embedding list) option lab_act" where
  "list_embeddings_by_ref tid r = with_db_tenant_tx tid (embeddings_of (Some tid) (get_face_by_ref tid r))"

definition drop_face ::
  "env \<Rightarrow> face_deps \<Rightarrow> string option \<Rightarrow> string \<Rightarrow> (face \<Rightarrow> bool) \<Rightarrow> string option \<Rightarrow> string option \<Rightarrow> unit lab_act" where
  "drop_face en fd ctx fid owner uid cid =
     and_then (get_face ctx fid) (\<lambda>f.
     guard (owner f) (Sentinel ErrNotFound)
     (and_then (drop_face_rows ctx fid) (\<lambda>ids.
      and_then (face_audit en (fc_tenant_id f) uid cid ''face.dropped'' [(''face_id'', MetaText fid)]) (\<lambda>_.
      delete_points fd Enrolled ids))))"

definition drop_own_face :: "env \<Rightarrow> face_deps \<Rightarrow> string \<Rightarrow> string \<Rightarrow> unit lab_act" where
  "drop_own_face en fd actor fid = with_db_tx (drop_face en fd None fid (own_face actor) (Some actor) None)"

definition drop_face_by_ref :: "env \<Rightarrow> face_deps \<Rightarrow> string \<Rightarrow> string \<Rightarrow> string \<Rightarrow> unit lab_act" where
  "drop_face_by_ref en fd tid client fid =
     with_db_tenant_tx tid (drop_face en fd (Some tid) fid (\<lambda>f. fc_ref_id f \<noteq> None) None (Some client))"

section \<open>Searching\<close>

definition search_result_limit :: nat where "search_result_limit = 200"

text \<open>\<open>pointVector\<close>\<close>

definition point_vector :: "face_deps \<Rightarrow> string \<Rightarrow> vector lab_act" where
  "point_vector fd pid = get_vector fd Detected pid"

text \<open>The photos the embeddings are near to; only whether a photo was found matters of its score.\<close>

fun photos_near :: "face_deps \<Rightarrow> string \<Rightarrow> string \<Rightarrow> string list \<Rightarrow> embedding list \<Rightarrow> string list lab_act" where
  "photos_near fd tid eid seen [] = ret seen"
| "photos_near fd tid eid seen (m # ms) =
     and_then (attempt (point_vector fd (em_point_id m))) (\<lambda>r.
     case r of
       Inl e \<Rightarrow> photos_near fd tid eid seen ms
     | Inr v \<Rightarrow>
         and_then (search_points fd Detected v tid eid search_result_limit) (\<lambda>ps.
         photos_near fd tid eid
           (remdups (seen @ filter (\<lambda>p. p \<noteq> '''') (map (\<lambda>q. photo_in (pt_payload q)) ps))) ms))"

definition search_face ::
  "face_deps \<Rightarrow> string \<Rightarrow> string \<Rightarrow> string \<Rightarrow> page_params \<Rightarrow> (album \<times> photo_view) page lab_act" where
  "search_face fd tid eid fid pg =
     and_then (with_db_tenant_tx tid
        (and_then (get_face (Some tid) fid) (\<lambda>_. list_embeddings_by_face (Some tid) fid))) (\<lambda>ms.
     guard (ms \<noteq> []) (FieldError (invalid ''face_id'' ''This face has no enrolled embeddings.''))
     (and_then (photos_near fd tid eid [] ms) (\<lambda>ids.
      if ids = [] then ret \<lparr>pg_items = [], pg_next_cursor = ''''\<rparr>
      else in_studio (list_photos tid eid (no_filter\<lparr>pf_ids := ids\<rparr>) pg))))"

text \<open>The handler: the face is named by a UUID.\<close>

definition serve_face_search ::
  "face_deps \<Rightarrow> string \<Rightarrow> string \<Rightarrow> string \<Rightarrow> page_params \<Rightarrow> (album \<times> photo_view) page lab_act" where
  "serve_face_search fd tid eid fid pg =
     guard (is_uuid fid) (FieldError (invalid ''face_id'' ''face_id is not valid.'')) (search_face fd tid eid fid pg)"

text \<open>\<open>SearchFaces\<close> and \<open>SearchUserFace\<close> of the portal: the albums are not asked whether they are public.\<close>

definition portal_search_faces ::
  "env \<Rightarrow> face_deps \<Rightarrow> string \<Rightarrow> string \<Rightarrow> page_params \<Rightarrow> public_photo page lab_act" where
  "portal_search_faces en fd slug fid pg =
     and_then (in_studio (resolve_event slug)) (\<lambda>ev.
     and_then (search_face fd (ev_tenant_id ev) (ev_id ev) fid pg) (\<lambda>photos.
     and_then (of_store (public_photos en (fd_storage fd) (\<lambda>_. '''') (map snd (pg_items photos)))) (\<lambda>out.
     ret \<lparr>pg_items = out, pg_next_cursor = pg_next_cursor photos\<rparr>)))"

definition search_user_face ::
  "env \<Rightarrow> face_deps \<Rightarrow> string \<Rightarrow> string option \<Rightarrow> page_params \<Rightarrow> public_photo page lab_act" where
  "search_user_face en fd slug user pg =
     (case user of
        None \<Rightarrow> fail (Other ''unauthorized'')
      | Some uid \<Rightarrow> and_then (get_face_by_user uid) (\<lambda>f. portal_search_faces en fd slug (fc_id f) pg))"

section \<open>Finding the faces of photos in the background\<close>

definition new_detection :: "env \<Rightarrow> string \<Rightarrow> photo \<Rightarrow> detected \<Rightarrow> detection" where
  "new_detection en tid p d =
     \<lparr>dt_id = e_uuid en 1, dt_tenant_id = tid, dt_photo_id = ph_id p, dt_box = box_fraction (de_bbox d) (ph_width p) (ph_height p),
      dt_confidence = Some (de_confidence d), dt_point_id = e_uuid en 0, dt_detected_at = e_now en\<rparr>"

fun insert_detections ::
  "env \<Rightarrow> face_deps \<Rightarrow> string \<Rightarrow> string \<Rightarrow> string \<Rightarrow> photo \<Rightarrow> detected list \<Rightarrow> unit lab_act" where
  "insert_detections en fd tid eid pid p [] = ret ()"
| "insert_detections en fd tid eid pid p (d # ds) =
     and_then (insert_detection (new_detection en tid p d)) (\<lambda>_.
     and_then (upsert_point fd Detected
        \<lparr>pt_id = e_uuid en 0, pt_vector = de_vector d, pt_payload = DetectionPayload tid eid pid\<rparr>) (\<lambda>_.
     insert_detections (later 2 en) fd tid eid pid p ds))"

definition detect_photo :: "env \<Rightarrow> face_deps \<Rightarrow> string \<Rightarrow> string \<Rightarrow> string \<Rightarrow> nat lab_act" where
  "detect_photo en fd tid eid pid =
     and_then (in_studio (get_photo_by_id tid pid)) (\<lambda>v.
     and_then (map_error (wrapped ''sign original url'')
        (request_download en (fd_storage fd) tid (ob_key (pv_original v)) (ob_bucket (pv_original v)))) (\<lambda>t.
     checked (map_sum (wrapped ''detect/single'') id (detect_and_embed fd pid t)) (\<lambda>ds.
     if ds = [] then ret 0
     else and_then (with_db_tenant_tx tid (insert_detections en fd tid eid pid (pv_row v) ds)) (\<lambda>_. ret (length ds)))))"

text \<open>What came of each photo: how many faces, or the error.\<close>

fun face_loop :: "env \<Rightarrow> face_deps \<Rightarrow> job \<Rightarrow> nat \<Rightarrow> nat \<Rightarrow> string list \<Rightarrow> (string \<times> (go_error + nat)) list lab_act" where
  "face_loop en fd j i cnt [] = ret []"
| "face_loop en fd j i cnt (pid # pids) =
     and_then (attempt (detect_photo (strand i cnt en) fd (jb_tenant_id j) (payload_text j ''event_id'') pid)) (\<lambda>r.
     and_then (in_studio (report_progress en j (Suc i) cnt)) (\<lambda>_.
     and_then (face_loop en fd j (Suc i) cnt pids) (\<lambda>rs. ret ((pid, r) # rs))))"

definition face_report :: "(string \<times> (go_error + nat)) list \<Rightarrow> details option \<times> string" where
  "face_report rs =
     (let cnt = length rs; lines = List.map_filter (\<lambda>(pid, r). case r of Inl e \<Rightarrow> Some (pid @ '': '' @ error_text e) | _ \<Rightarrow> None) rs;
          failed = length lines; skipped = length (select (\<lambda>(pid, r). r = Inr 0) rs) in
      (Some [(''count'', MetaInt (int cnt)), (''made'', MetaInt (int (cnt - skipped - failed))),
         (''skipped'', MetaInt (int skipped)), (''failed'', MetaInt (int failed))],
       if failed = 0 then ''''
       else itoa (int failed) @ '' of '' @ itoa (int cnt) @ '' photos could not be face-detected: '' @ join ''; '' lines))"

definition run_face_detect :: "env \<Rightarrow> face_deps \<Rightarrow> job \<Rightarrow> outcome lab_act" where
  "run_face_detect en fd j =
     (let ids = payload_ids j; cnt = length ids in
      if ids = [] then ret (Inl (empty_payload ''face''))
      else if fd_embed fd = None then ret (Inl (Other ''face: FACE_EMBED_SERVICE_URL is not configured''))
      else and_then (in_studio (report_progress en j 0 cnt)) (\<lambda>_.
        and_then (face_loop en fd j 0 cnt ids) (\<lambda>rs. ret (Inr (face_report rs)))))"

end
