(* ===== verification/Face_Rules.thy ===== *)
theory Face_Rules
  imports Face_Service Portal_Rules
begin

text \<open>
  What holds of enrolled faces: one for each subject with the count of its embeddings, kept apart between
  workspaces and accounts, and forgotten when it is dropped; and where enrolling and searching do not do what
  their comments say.
\<close>

section \<open>The tables of faces\<close>

definition roster :: "lab \<Rightarrow> face list \<times> embedding list" where
  "roster s = (lb_faces s, lb_embeddings s)"

lemma roster_more: "depot.more s = depot.more s' \<Longrightarrow> roster s = roster s'"
  by (cases s; cases s') (simp add: roster_def)

lemma keeps_roster_off: "(\<And>x. keeps (\<lambda>s. depot.more s = x) m) \<Longrightarrow> keeps (\<lambda>s. Q (roster s)) m"
  unfolding keeps_def using roster_more by metis

lemma keeps_with_user_tx [keeps_intros]: "keeps I m \<Longrightarrow> keeps I (with_user_tx uid m)"
  by (simp add: with_user_tx_def keeps_fail keeps_with_tx)

lemma keeps_more_temp:
  "keeps (\<lambda>s. depot.more s = x) (store_generated_personal en sd sha uid bucket key ctype img)"
  "keeps (\<lambda>s. depot.more s = x) (store_generated_direct en sd sha tid actor bucket key ctype img)"
  "keeps (\<lambda>s. depot.more s = x) (delete_personal sd uid bucket key)"
  "keeps (\<lambda>s. depot.more s = x) (delete_generated sd tid bucket key)"
  "keeps (\<lambda>s. depot.more s = x) (request_download_personal en sd uid key bucket)"
  "keeps (\<lambda>s. depot.more s = x) (request_download en sd tid key bucket)"
  unfolding store_generated_personal_def store_generated_direct_def direct_put_def register_generated_def upsert_personal_def
    upsert_on_tenant_key_def insert_object_def uuid_param_def mark_stored_personal_def mark_stored_where_def delete_personal_def
    delete_generated_def delete_personal_object_def delete_tenant_object_def request_download_personal_def request_download_def
    download_ticket_def get_object_personal_def get_object_by_key_def get_object_where_def
  by (intro keeps_intros keeps_more_objects)+

lemma keeps_roster_temp [keeps_intros]:
  "keeps (\<lambda>s. Q (roster s)) (store_generated_personal en sd sha uid bucket key ctype img)"
  "keeps (\<lambda>s. Q (roster s)) (store_generated_direct en sd sha tid actor bucket key ctype img)"
  "keeps (\<lambda>s. Q (roster s)) (delete_personal sd uid bucket key)"
  "keeps (\<lambda>s. Q (roster s)) (delete_generated sd tid bucket key)"
  "keeps (\<lambda>s. Q (roster s)) (request_download_personal en sd uid key bucket)"
  "keeps (\<lambda>s. Q (roster s)) (request_download en sd tid key bucket)"
  by (rule keeps_roster_off, rule keeps_more_temp)+

lemma roster_in_studio: "in_studio m s = (r, s') \<Longrightarrow> roster s' = roster s"
  by (cases s) (auto simp: in_studio_def roster_def studio.defs split: prod.splits)

lemma keeps_roster_in_studio [keeps_intros]: "keeps (\<lambda>s. Q (roster s)) (in_studio m)"
  by (rule keepsI) (simp add: roster_in_studio)

lemma keeps_roster_points [keeps_intros]:
  "keeps (\<lambda>s. Q (roster s)) (upsert_point fd c p)" "keeps (\<lambda>s. Q (roster s)) (delete_points fd c ids)"
  unfolding upsert_point_def delete_points_def
  by (cases c; intro keeps_intros keeps_writes; simp add: roster_def)+

lemma keeps_roster_audit [keeps_intros]: "keeps (\<lambda>s. Q (roster s)) (face_audit en tid uid cid a md)"
  unfolding face_audit_def by (rule keeps_roster_off) (intro keeps_intros)

lemma roster_keep_points: "roster (keep_points s s') = roster s"
  by (simp add: roster_def keep_points_def)

lemma keeps_with_db_tx:
  assumes "\<And>s a s'. Q (roster s) \<Longrightarrow> m s = (Inr a, s') \<Longrightarrow> Q (roster s')"
  shows "keeps (\<lambda>s. Q (roster s)) (with_db_tx m)"
  by (rule keepsI) (auto simp: with_db_tx_def roster_keep_points split: prod.splits sum.splits dest: assms)

lemma keeps_with_db_tenant_tx:
  assumes "\<And>s a s'. Q (roster s) \<Longrightarrow> m s = (Inr a, s') \<Longrightarrow> Q (roster s')"
  shows "keeps (\<lambda>s. Q (roster s)) (with_db_tenant_tx tid m)"
  using keeps_with_db_tx [of Q m, OF assms] by (simp add: with_db_tenant_tx_def keeps_fail)

section \<open>Consistency\<close>

definition same_subject :: "face \<Rightarrow> embedding \<Rightarrow> bool" where
  "same_subject f m \<longleftrightarrow> em_tenant_id m = fc_tenant_id f \<and> em_user_id m = fc_user_id f \<and> em_ref_id m = fc_ref_id f"

definition face_legal :: "embedding list \<Rightarrow> face \<Rightarrow> bool" where
  "face_legal ms f \<longleftrightarrow> subject_ok (fc_tenant_id f) (fc_user_id f) (fc_ref_id f) \<and>
     fc_count f = int (length (select (\<lambda>m. em_face_id m = fc_id f) ms))"

definition embedding_legal :: "face list \<Rightarrow> embedding \<Rightarrow> bool" where
  "embedding_legal fs m \<longleftrightarrow> list_ex (\<lambda>f. fc_id f = em_face_id m \<and> same_subject f m) fs"

definition faces_ok :: "face list \<times> embedding list \<Rightarrow> bool" where
  "faces_ok r \<longleftrightarrow> unique_on face_pk (fst r) \<and> unique_on face_user_key (fst r) \<and> unique_on face_ref_key (fst r) \<and>
     unique_on embedding_pk (snd r) \<and> unique_on embedding_point_key (snd r) \<and>
     list_all (face_legal (snd r)) (fst r) \<and> list_all (embedding_legal (fst r)) (snd r)"

lemma face_by_id:
  assumes "faces_ok (fs, ms)" "f \<in> set fs" "g \<in> set fs" "fc_id f = fc_id g"
  shows "f = g"
  using assms by (intro unique_on_sel [where key = face_pk and t = fs]) (simp_all add: faces_ok_def face_pk_def)

lemma select_Nil_iff: "select p t = [] \<longleftrightarrow> (\<forall>r \<in> set t. \<not> p r)"
  by (simp add: select_def filter_empty_conv)

lemma faces_ok_new:
  assumes "faces_ok (fs, ms)" "\<not> taken face_pk fs f" "\<not> taken face_user_key fs f" "\<not> taken face_ref_key fs f"
    and "subject_ok (fc_tenant_id f) (fc_user_id f) (fc_ref_id f)" "fc_count f = 0"
  shows "faces_ok (fs @ [f], ms)"
proof -
  have "\<forall>m \<in> set ms. em_face_id m \<noteq> fc_id f"
    using assms(1,2) by (auto simp: faces_ok_def embedding_legal_def list_all_iff list_ex_iff taken_def face_pk_def)
  then have "select (\<lambda>m. em_face_id m = fc_id f) ms = []" by (simp add: select_Nil_iff)
  with assms show ?thesis
    by (auto simp: faces_ok_def face_legal_def embedding_legal_def list_all_iff list_ex_iff intro: unique_on_insert)
qed

definition bumped :: "env \<Rightarrow> face \<Rightarrow> face" where
  "bumped en f = f\<lparr>fc_count := fc_count f + 1, fc_updated_at := e_now en\<rparr>"

lemma bumped_fields [simp]:
  "fc_id (bumped en f) = fc_id f" "fc_tenant_id (bumped en f) = fc_tenant_id f" "fc_user_id (bumped en f) = fc_user_id f"
  "fc_ref_id (bumped en f) = fc_ref_id f" "fc_count (bumped en f) = fc_count f + 1"
  by (simp_all add: bumped_def)

lemma faces_ok_embed:
  assumes ok: "faces_ok (fs, ms)" and f: "f \<in> set fs" "shows_to ctx (fc_tenant_id f)"
    and m: "same_subject f m" "em_face_id m = fc_id f" "\<not> taken embedding_pk ms m" "\<not> taken embedding_point_key ms m"
  shows "faces_ok (update_where (visible_face ctx (fc_id f)) (bumped en) fs, ms @ [m])"
proof -
  let ?v = "visible_face ctx (fc_id f)"
  have v: "?v g \<longleftrightarrow> g = f" if "g \<in> set fs" for g
    using face_by_id [OF ok that f(1)] f(2) by (auto simp: visible_face_def)
  have legal: "face_legal (ms @ [m]) (if ?v g then bumped en g else g)" if g: "g \<in> set fs" for g
  proof -
    from ok g have l: "face_legal ms g" by (simp add: faces_ok_def list_all_iff)
    show ?thesis
    proof (cases "g = f")
      case True
      with l m(2) v [OF g] show ?thesis by (simp add: face_legal_def select_def)
    next
      case False
      with face_by_id [OF ok g f(1)] have "fc_id g \<noteq> fc_id f" by blast
      with l m(2) v [OF g] False show ?thesis by (simp add: face_legal_def select_def)
    qed
  qed
  have emb: "embedding_legal (update_where ?v (bumped en) fs) k" if k: "embedding_legal fs k" for k
  proof -
    from k obtain g where g: "g \<in> set fs" "fc_id g = em_face_id k" "same_subject g k"
      by (auto simp: embedding_legal_def list_ex_iff)
    then have "(if ?v g then bumped en g else g) \<in> set (update_where ?v (bumped en) fs)"
      by (simp add: update_where_def)
    with g show ?thesis
      unfolding embedding_legal_def list_ex_iff
      by (intro bexI [of _ "if ?v g then bumped en g else g"]) (simp_all add: same_subject_def)
  qed
  have "embedding_legal fs m" using f(1) m(1,2) by (auto simp: embedding_legal_def list_ex_iff)
  with emb have me: "embedding_legal (update_where ?v (bumped en) fs) m" .
  show ?thesis
    unfolding faces_ok_def fst_conv snd_conv
  proof (intro conjI)
    show "unique_on face_pk (update_where ?v (bumped en) fs)" "unique_on face_user_key (update_where ?v (bumped en) fs)"
      "unique_on face_ref_key (update_where ?v (bumped en) fs)"
      using ok by (auto simp: faces_ok_def face_pk_def face_user_key_def face_ref_key_def intro!: unique_on_update_same_key)
    show "unique_on embedding_pk (ms @ [m])" "unique_on embedding_point_key (ms @ [m])"
      using ok m(3,4) by (auto simp: faces_ok_def intro: unique_on_insert)
    show "list_all (face_legal (ms @ [m])) (update_where ?v (bumped en) fs)"
      by (simp only: list_all_iff update_where_def set_map ball_simps) (use legal in blast)
    show "list_all (embedding_legal (update_where ?v (bumped en) fs)) (ms @ [m])"
      using ok emb me by (auto simp: faces_ok_def list_all_iff)
  qed
qed

lemma faces_ok_drop:
  assumes ok: "faces_ok (fs, ms)" and f: "f \<in> set fs" "visible_face ctx x f"
  shows "faces_ok (delete_where (visible_face ctx x) fs, delete_where (\<lambda>m. em_face_id m = x) ms)"
proof -
  have x: "fc_id f = x" using f(2) by (simp add: visible_face_def)
  have v: "visible_face ctx x g \<longleftrightarrow> fc_id g = x" if "g \<in> set fs" for g
    using face_by_id [OF ok that f(1)] f(2) x by (auto simp: visible_face_def)
  have same: "select (\<lambda>m. em_face_id m = fc_id g) (delete_where (\<lambda>m. em_face_id m = x) ms) =
      select (\<lambda>m. em_face_id m = fc_id g) ms" if "fc_id g \<noteq> x" for g
    using that by (auto simp: select_def delete_where_def intro: filter_cong)
  show ?thesis
    unfolding faces_ok_def fst_conv snd_conv
  proof (intro conjI)
    show "list_all (face_legal (delete_where (\<lambda>m. em_face_id m = x) ms)) (delete_where (visible_face ctx x) fs)"
      using ok v by (auto simp: faces_ok_def list_all_iff set_delete_where face_legal_def same)
    show "list_all (embedding_legal (delete_where (visible_face ctx x) fs)) (delete_where (\<lambda>m. em_face_id m = x) ms)"
      using ok v by (fastforce simp: faces_ok_def list_all_iff list_ex_iff set_delete_where embedding_legal_def)
  qed (use ok in \<open>auto simp: faces_ok_def intro: unique_on_delete\<close>)
qed

section \<open>Effects\<close>

lemma keeps_face_reads [keeps_intros]:
  "keeps I (get_face_by_user uid)" "keeps I (get_face_by_ref tid r)" "keeps I (get_face ctx fid)"
  "keeps I (list_embeddings_by_face ctx fid)"
  unfolding get_face_by_user_def get_face_by_ref_def get_face_def list_embeddings_by_face_def by (intro keeps_intros)+

lemma insert_face_InrE:
  assumes "insert_face f s = (Inr u, s')"
  obtains "subject_ok (fc_tenant_id f) (fc_user_id f) (fc_ref_id f)" "face_violation s f = None"
    "s' = s\<lparr>lb_faces := lb_faces s @ [f]\<rparr>"
  using assms unfolding insert_face_def by (elim act_elims) (hypsubst, blast)

lemma find_or_create_InrE:
  assumes "find_or_create_face en get new s = (Inr (f, en'), s')" and "\<And>x. keeps (\<lambda>s. s = x) get"
  obtains "get s = (Inr f, s)" "s' = s"
  | "f = new" "subject_ok (fc_tenant_id new) (fc_user_id new) (fc_ref_id new)" "face_violation s new = None"
    "s' = s\<lparr>lb_faces := lb_faces s @ [new]\<rparr>"
proof -
  obtain r s1 where g: "get s = (r, s1)" by fastforce
  have s1: "s1 = s" by (rule same_state [OF assms(2) g])
  show ?thesis
  proof (cases r)
    case (Inr f')
    then have "find_or_create_face en get new s = (Inr (f', en), s)"
      by (simp add: find_or_create_face_def attempt_def and_then_def ret_def g s1)
    with assms(1) have e: "f' = f" "s' = s" by simp_all
    have "get s = (Inr f, s)" using g unfolding s1 Inr e .
    then show ?thesis by (rule that(1)) (rule e)
  next
    case (Inl e)
    with assms(1) g s1 have "and_then (insert_face new) (\<lambda>_. ret (new, later 1 en)) s = (Inr (f, en'), s')"
      by (simp add: find_or_create_face_def attempt_def and_then_def fail_def split: if_splits)
    then obtain u where "insert_face new s = (Inr u, s')" "f = new"
      by (elim and_then_InrE ret_InrE) simp
    with that(2) show ?thesis by (auto elim: insert_face_InrE)
  qed
qed

lemma insert_embedding_InrE:
  assumes "insert_embedding m0 s = (Inr u, s')"
  obtains c where "embedding_violation s (m0\<lparr>em_confidence := c\<rparr>) = None"
    "s' = s\<lparr>lb_embeddings := lb_embeddings s @ [m0\<lparr>em_confidence := c\<rparr>]\<rparr>"
proof -
  from assms have "(case column numeric_5_4 (em_confidence m0) of
        None \<Rightarrow> fail (sql_fails OutOfRange)
      | Some c \<Rightarrow> let m = m0\<lparr>em_confidence := c\<rparr> in
          and_then (reads (\<lambda>s. embedding_violation s m)) (\<lambda>v.
          and_then (sql_check sql_fails v) (\<lambda>_.
          writes (\<lambda>s. s\<lparr>lb_embeddings := lb_embeddings s @ [m]\<rparr>)))) s = (Inr u, s')"
    unfolding insert_embedding_def by (rule guard_InrE)
  then obtain c where "and_then (reads (\<lambda>s. embedding_violation s (m0\<lparr>em_confidence := c\<rparr>))) (\<lambda>v.
          and_then (sql_check sql_fails v) (\<lambda>_.
          writes (\<lambda>s. s\<lparr>lb_embeddings := lb_embeddings s @ [m0\<lparr>em_confidence := c\<rparr>]\<rparr>))) s = (Inr u, s')"
    by (cases "column numeric_5_4 (em_confidence m0)") (simp_all add: fail_def Let_def)
  then show ?thesis by (elim and_then_InrE reads_InrE sql_check_InrE writes_InrE) (hypsubst, rule that [of c], simp_all)
qed

lemma increment_InrE:
  assumes "increment_embedding_count en ctx fid s = (Inr u, s')"
  obtains "s' = s\<lparr>lb_faces := update_where (visible_face ctx fid) (bumped en) (lb_faces s)\<rparr>"
proof -
  have b: "(\<lambda>f. f\<lparr>fc_count := fc_count f + 1, fc_updated_at := e_now en\<rparr>) = bumped en" by (simp add: bumped_def fun_eq_iff)
  from assms that show ?thesis unfolding increment_embedding_count_def b by (elim act_elims) (hypsubst, blast)
qed

lemma add_embedding_keeps:
  assumes "add_embedding en fd get new pay aud best s = (Inr g, s')" and ok: "faces_ok (roster s)"
    and get: "\<And>x. keeps (\<lambda>s. s = x) get"
    and own: "\<And>f. get s = (Inr f, s) \<Longrightarrow> f \<in> set (lb_faces s) \<and> fc_tenant_id f = fc_tenant_id new \<and>
        fc_user_id f = fc_user_id new \<and> fc_ref_id f = fc_ref_id new"
    and new: "fc_count new = 0" and aud: "\<And>en f Q. keeps (\<lambda>s. Q (roster s)) (aud en f)"
  shows "faces_ok (roster s')"
proof -
  from assms(1) obtain f en' s1 s2 s3 s4 u1 u2 u3 u4 where
    f: "find_or_create_face en get new s = (Inr (f, en'), s1)" and
    m: "insert_embedding (new_embedding en' new (fc_id f) best) s1 = (Inr u1, s2)" and
    i: "increment_embedding_count en' (fc_tenant_id new) (fc_id f) s2 = (Inr u2, s3)" and
    q: "upsert_point fd Enrolled \<lparr>pt_id = e_uuid en' 0, pt_vector = de_vector best, pt_payload = pay (f\<lparr>fc_count := fc_count f + 1\<rparr>)\<rparr> s3
        = (Inr u3, s4)" and
    a: "aud (later 2 en') (f\<lparr>fc_count := fc_count f + 1\<rparr>) s4 = (Inr u4, s')"
    unfolding add_embedding_def Let_def
    by (elim and_then_InrE) (auto simp: ret_def elim!: and_then_InrE split: prod.splits)
  have f1: "faces_ok (roster s1) \<and> f \<in> set (lb_faces s1) \<and> fc_tenant_id f = fc_tenant_id new \<and>
      fc_user_id f = fc_user_id new \<and> fc_ref_id f = fc_ref_id new"
    using f
  proof (rule find_or_create_InrE)
    show "keeps (\<lambda>s. s = x) get" for x by (rule get)
    assume "get s = (Inr f, s)" "s1 = s"
    with own ok show ?thesis by simp
  next
    assume n: "f = new" "subject_ok (fc_tenant_id new) (fc_user_id new) (fc_ref_id new)" "face_violation s new = None"
      "s1 = s\<lparr>lb_faces := lb_faces s @ [new]\<rparr>"
    from n(3) have "\<not> taken face_pk (lb_faces s) new" "\<not> taken face_user_key (lb_faces s) new" "\<not> taken face_ref_key (lb_faces s) new"
      by (auto simp: face_violation_def split: if_splits)
    with faces_ok_new [OF ok [unfolded roster_def] _ _ _ n(2) new] n show ?thesis by (simp add: roster_def)
  qed
  from m show ?thesis
  proof (rule insert_embedding_InrE)
    fix c
    let ?m = "(new_embedding en' new (fc_id f) best)\<lparr>em_confidence := c\<rparr>"
    assume v: "embedding_violation s1 ?m = None" and s2: "s2 = s1\<lparr>lb_embeddings := lb_embeddings s1 @ [?m]\<rparr>"
    from v have t: "\<not> taken embedding_pk (lb_embeddings s1) ?m" "\<not> taken embedding_point_key (lb_embeddings s1) ?m"
      by (auto simp: embedding_violation_def split: if_splits)
    have "same_subject f ?m" "em_face_id ?m = fc_id f" "shows_to (fc_tenant_id new) (fc_tenant_id f)"
      using f1 by (simp_all add: same_subject_def new_embedding_def shows_to_def)
    with faces_ok_embed [OF _ _ _ _ _ t] f1 have
      "faces_ok (update_where (visible_face (fc_tenant_id new) (fc_id f)) (bumped en') (lb_faces s1), lb_embeddings s1 @ [?m])"
      by (simp add: roster_def)
    with i s2 have "faces_ok (roster s3)" by (auto simp: roster_def elim: increment_InrE)
    with q have "faces_ok (roster s4)" by (rule keepsD [OF keeps_roster_points(1), rotated -1])
    with a show ?thesis by (rule keepsD [OF aud, rotated -1])
  qed
qed

lemma drop_face_rows_InrE:
  assumes "drop_face_rows ctx fid s = (Inr ids, s')"
  obtains x f where "pg_uuid fid = Some x" "f \<in> set (lb_faces s)" "visible_face ctx x f"
    "ids = map em_point_id (select (visible_embedding ctx x) (lb_embeddings s))"
    "s' = s\<lparr>lb_faces := delete_where (visible_face ctx x) (lb_faces s),
            lb_embeddings := delete_where (\<lambda>m. em_face_id m = x) (lb_embeddings s)\<rparr>"
proof -
  from assms obtain x where x: "pg_uuid fid = Some x"
    and n: "length (select (visible_face ctx x) (lb_faces s)) \<noteq> 0"
    and ids: "ids = map em_point_id (select (visible_embedding ctx x) (lb_embeddings s))"
    and s': "s' = s\<lparr>lb_faces := delete_where (visible_face ctx x) (lb_faces s),
       lb_embeddings := delete_where (\<lambda>m. em_face_id m \<in> set (map fc_id (select (visible_face ctx x) (lb_faces s))))
         (delete_where (visible_embedding ctx x) (lb_embeddings s))\<rparr>"
    unfolding drop_face_rows_def Let_def by (elim act_elims) auto
  from n obtain f where f: "f \<in> set (lb_faces s)" "visible_face ctx x f" by (auto simp: select_def filter_empty_conv)
  have "set (map fc_id (select (visible_face ctx x) (lb_faces s))) = {x}"
    using f by (auto simp: set_select visible_face_def)
  moreover have "delete_where (\<lambda>m. em_face_id m \<in> {x}) (delete_where (visible_embedding ctx x) ms) =
      delete_where (\<lambda>m. em_face_id m = x) ms" for ms
    by (induction ms) (auto simp: delete_where_def visible_embedding_def)
  ultimately have "s' = s\<lparr>lb_faces := delete_where (visible_face ctx x) (lb_faces s),
      lb_embeddings := delete_where (\<lambda>m. em_face_id m = x) (lb_embeddings s)\<rparr>"
    unfolding s' by (simp only:)
  with that x f ids show ?thesis by blast
qed

lemma get_face_InrE:
  assumes "get_face ctx fid s = (Inr f, s')"
  obtains x where "pg_uuid fid = Some x" "f \<in> set (lb_faces s)" "visible_face ctx x f" "s' = s"
proof -
  from assms obtain x where "pg_uuid fid = Some x" "select_one (visible_face ctx x) (lb_faces s) = Some f" "s' = s"
    unfolding get_face_def by (elim act_elims) (hypsubst, blast)
  with that select_one_SomeD show ?thesis by metis
qed

lemma drop_face_InrE:
  assumes "drop_face en fd ctx fid owner uid cid s = (Inr u, s')"
  obtains x f where "pg_uuid fid = Some x" "f \<in> set (lb_faces s)" "visible_face ctx x f" "owner f"
    "roster s' = (delete_where (visible_face ctx x) (lb_faces s), delete_where (\<lambda>m. em_face_id m = x) (lb_embeddings s))"
    "lb_enrolled s' = delete_where (\<lambda>p. pt_id p \<in> em_point_id ` {m \<in> set (lb_embeddings s). visible_embedding ctx x m}) (lb_enrolled s)"
proof -
  from assms obtain f s1 ids s2 s3 u1 where g: "get_face ctx fid s = (Inr f, s1)" and o: "owner f"
    and d: "drop_face_rows ctx fid s1 = (Inr ids, s2)"
    and a: "face_audit en (fc_tenant_id f) uid cid ''face.dropped'' [(''face_id'', MetaText fid)] s2 = (Inr u1, s3)"
    and q: "delete_points fd Enrolled ids s3 = (Inr u, s')"
    unfolding drop_face_def by (elim and_then_InrE guard_InrE) blast
  from g obtain x where x: "pg_uuid fid = Some x" "f \<in> set (lb_faces s)" "visible_face ctx x f" "s1 = s" by (rule get_face_InrE)
  have s3: "roster s3 = roster s2" "lb_enrolled s3 = lb_enrolled s2"
    using a by (auto simp: face_audit_def in_db_def writes_def roster_def)
  have s': "roster s' = roster s3" "lb_enrolled s' = delete_where (\<lambda>p. pt_id p \<in> set ids) (lb_enrolled s3)"
    using q by (cases "ids = []"; cases "qdrant_failed fd (DeletePoints Enrolled ids)";
        simp add: delete_points_def act_simps roster_def delete_where_def; auto)+
  from d show ?thesis
  proof (rule drop_face_rows_InrE)
    fix y h
    assume y: "pg_uuid fid = Some y" and ids: "ids = map em_point_id (select (visible_embedding ctx y) (lb_embeddings s1))"
      and s2: "s2 = s1\<lparr>lb_faces := delete_where (visible_face ctx y) (lb_faces s1),
            lb_embeddings := delete_where (\<lambda>m. em_face_id m = y) (lb_embeddings s1)\<rparr>"
    from y x(1) have yx: "y = x" by simp
    have i: "set ids = em_point_id ` {m \<in> set (lb_embeddings s). visible_embedding ctx x m}"
      by (simp add: ids yx x(4) set_select)
    show ?thesis
    proof (rule that [OF x(1-3) o])
      show "roster s' = (delete_where (visible_face ctx x) (lb_faces s), delete_where (\<lambda>m. em_face_id m = x) (lb_embeddings s))"
        unfolding s'(1) s3(1) by (simp add: s2 yx x(4) roster_def)
      show "lb_enrolled s' = delete_where (\<lambda>p. pt_id p \<in> em_point_id ` {m \<in> set (lb_embeddings s). visible_embedding ctx x m}) (lb_enrolled s)"
        unfolding s'(2) s3(2) i by (simp add: s2 x(4))
    qed
  qed
qed


section \<open>Histories\<close>

datatype face_call =
    FaceEnroll string string string bool
  | FaceEnrollRef string string string string bool string
  | FaceDrop string string
  | FaceDropRef string string string
  | FaceJob job

fun run_face_call :: "face_deps \<Rightarrow> env \<times> face_call \<Rightarrow> lab \<Rightarrow> lab" where
  "run_face_call fd (en, FaceEnroll uid actor img consent) s = snd (enroll en fd uid actor img consent s)"
| "run_face_call fd (en, FaceEnrollRef tid r client img consent reference) s =
     snd (enroll_by_ref en fd tid r client img consent reference s)"
| "run_face_call fd (en, FaceDrop actor fid) s = snd (drop_own_face en fd actor fid s)"
| "run_face_call fd (en, FaceDropRef tid client fid) s = snd (drop_face_by_ref en fd tid client fid s)"
| "run_face_call fd (en, FaceJob j) s = snd (run_face_detect en fd j s)"

lemma keeps_with_temp_image [keeps_intros]:
  "keeps I p \<Longrightarrow> keeps I c \<Longrightarrow> keeps I sg \<Longrightarrow> (\<And>t. keeps I (use t)) \<Longrightarrow> keeps I (with_temp_image p c sg use)"
  unfolding with_temp_image_def by (intro keeps_intros)

lemma subject_of:
  assumes "faces_ok (roster s)" "f \<in> set (lb_faces s)"
  shows "subject_ok (fc_tenant_id f) (fc_user_id f) (fc_ref_id f)"
proof -
  from assms have "face_legal (lb_embeddings s) f" by (simp add: faces_ok_def roster_def list_all_iff)
  then show ?thesis by (simp add: face_legal_def)
qed

lemma own_subject:
  assumes "get_face_by_user uid s = (Inr f, s)" "faces_ok (roster s)"
  shows "f \<in> set (lb_faces s) \<and> fc_tenant_id f = None \<and> fc_user_id f = Some uid \<and> fc_ref_id f = None"
proof -
  from assms(1) have "select_one (own_face uid) (lb_faces s) = Some f"
    unfolding get_face_by_user_def and_then_def reads_def found_def of_option_def
    by (cases "select_one (own_face uid) (lb_faces s)") (simp_all add: fail_def ret_def)
  from select_one_SomeD [OF this] have f: "f \<in> set (lb_faces s)" "fc_tenant_id f = None" "fc_user_id f = Some uid"
    by (simp_all add: own_face_def)
  with subject_of [OF assms(2) f(1)] show ?thesis by (simp add: subject_ok_def)
qed

lemma ref_subject:
  assumes "get_face_by_ref tid r s = (Inr f, s)" "faces_ok (roster s)"
  shows "f \<in> set (lb_faces s) \<and> fc_tenant_id f = Some tid \<and> fc_user_id f = None \<and> fc_ref_id f = Some r"
proof -
  from assms(1) have "select_one (ref_face tid r) (lb_faces s) = Some f"
    unfolding get_face_by_ref_def and_then_def reads_def found_def of_option_def
    by (cases "select_one (ref_face tid r) (lb_faces s)") (simp_all add: fail_def ret_def)
  from select_one_SomeD [OF this] have f: "f \<in> set (lb_faces s)" "fc_tenant_id f = Some tid" "fc_ref_id f = Some r"
    by (simp_all add: ref_face_def)
  with subject_of [OF assms(2) f(1)] show ?thesis by (simp add: subject_ok_def)
qed

lemma keeps_enroll: "keeps (\<lambda>s. faces_ok (roster s)) (enroll en fd uid actor img consent)"
proof -
  have "keeps (\<lambda>s. faces_ok (roster s))
      (with_db_tx (add_embedding en' fd (get_face_by_user uid) (new_face en' None (Some uid) None) pay
        (\<lambda>en f. face_audit en None (Some actor) None a (md f)) best))" for en' pay a md best
    by (rule keeps_with_db_tx, rule add_embedding_keeps, assumption+;
        (rule keeps_face_reads keeps_roster_audit | simp add: new_face_def own_subject))
  then show ?thesis unfolding enroll_def temp_upload_own_def Let_def by (intro keeps_intros)
qed

lemma keeps_enroll_by_ref: "keeps (\<lambda>s. faces_ok (roster s)) (enroll_by_ref en fd tid r client img consent reference)"
proof -
  have "keeps (\<lambda>s. faces_ok (roster s))
      (with_db_tenant_tx tid (add_embedding en' fd (get_face_by_ref tid r) (new_face en' (Some tid) None (Some r)) pay
        (\<lambda>en f. face_audit en (Some tid) None (Some client) a (md f)) best))" for en' pay a md best
    by (rule keeps_with_db_tenant_tx, rule add_embedding_keeps, assumption+;
        (rule keeps_face_reads keeps_roster_audit | simp add: new_face_def ref_subject))
  then show ?thesis unfolding enroll_by_ref_def temp_upload_by_ref_def Let_def by (intro keeps_intros)
qed

lemma drop_face_keeps: "faces_ok (roster s) \<Longrightarrow> drop_face en fd ctx fid owner uid cid s = (Inr u, s') \<Longrightarrow> faces_ok (roster s')"
  by (erule drop_face_InrE) (simp only:, rule faces_ok_drop, simp_all only: roster_def)

lemma keeps_drop:
  "keeps (\<lambda>s. faces_ok (roster s)) (drop_own_face en fd actor fid)"
  "keeps (\<lambda>s. faces_ok (roster s)) (drop_face_by_ref en fd tid client fid)"
  unfolding drop_own_face_def drop_face_by_ref_def
  by (rule keeps_with_db_tx, erule drop_face_keeps, assumption) (rule keeps_with_db_tenant_tx, erule drop_face_keeps, assumption)

lemma keeps_insert_detections: "keeps (\<lambda>s. Q (roster s)) (insert_detections en fd tid eid pid p ds)"
proof (induction ds arbitrary: en)
  case (Cons d ds)
  have "keeps (\<lambda>s. Q (roster s)) (insert_detection d)" for d
    unfolding insert_detection_def
    by (cases "detection_columns d"; simp only: option.case; intro keeps_intros keeps_writes; simp add: roster_def)
  then show ?case by (simp only: insert_detections.simps) (intro keeps_intros Cons.IH)
qed (simp add: keeps_ret)

lemma keeps_detect_photo: "keeps (\<lambda>s. Q (roster s)) (detect_photo en fd tid eid pid)"
  unfolding detect_photo_def
  by (intro keeps_intros keeps_with_db_tenant_tx) (rule keepsD [OF keeps_insert_detections, rotated -1])

lemma keeps_run_face_detect: "keeps (\<lambda>s. Q (roster s)) (run_face_detect en fd j)"
proof -
  have "keeps (\<lambda>s. Q (roster s)) (face_loop en fd j i n pids)" for i n pids
  proof (induction pids arbitrary: i)
    case (Cons p pids)
    show ?case by (simp only: face_loop.simps) (intro keeps_intros keeps_detect_photo Cons.IH)
  qed (simp add: keeps_ret)
  then show ?thesis unfolding run_face_detect_def Let_def by (intro keeps_intros)
qed

lemma run_face_call_ok:
  assumes "faces_ok (roster s)"
  shows "faces_ok (roster (run_face_call fd (en, c) s))"
proof -
  have k: "faces_ok (roster (snd (m s)))" if "keeps (\<lambda>s. faces_ok (roster s)) m" for m :: "(lab, 'e, 'a) act"
    using that assms by (simp add: keeps_def)
  show ?thesis
    by (cases c; simp only: run_face_call.simps)
       (rule k keeps_enroll keeps_enroll_by_ref keeps_drop keeps_run_face_detect)+
qed


section \<open>Properties\<close>

text \<open>C37: Through any history of enrolments by accounts and by workspaces, of drops and of detection jobs, an
account has at most one face and a workspace at most one for each of its references, every face has exactly one
kind of subject, counts exactly its embeddings, and every embedding belongs to a face of the same subject.\<close>

theorem faces_consistent:
  assumes "faces_ok (roster s)"
  shows "faces_ok (roster (fold (run_face_call fd) calls s))"
  using assms
proof (induction calls arbitrary: s)
  case (Cons c calls)
  then show ?case by (cases c) (simp add: run_face_call_ok)
qed simp

lemma with_db_tx_InrE:
  assumes "with_db_tx m s = (Inr a, s')" obtains "m s = (Inr a, s')"
  using assms by (auto simp: with_db_tx_def split: prod.splits sum.splits)

lemma embedding_subject:
  assumes "faces_ok (roster s)" "m \<in> set (lb_embeddings s)"
  obtains f where "f \<in> set (lb_faces s)" "fc_id f = em_face_id m" "same_subject f m"
proof -
  from assms have "embedding_legal (lb_faces s) m" by (simp add: faces_ok_def roster_def list_all_iff)
  with that show ?thesis by (auto simp: embedding_legal_def list_ex_iff)
qed

lemma user_face_unique:
  assumes "faces_ok (roster s)" "f \<in> set (lb_faces s)" "g \<in> set (lb_faces s)" "fc_user_id f = Some u" "fc_user_id g = Some u"
  shows "f = g"
  using assms by (intro unique_on_sel [where key = face_user_key and t = "lb_faces s"])
    (simp_all add: faces_ok_def roster_def face_user_key_def)

text \<open>C35: Withdrawing consent leaves nothing behind: after an account has dropped its face the face is gone and no
other, no embedding of the account is left, no point of the face is left in the collection of enrolled faces,
and the account is free to enrol again.\<close>

theorem dropped_face_forgotten:
  assumes "faces_ok (roster s)" and "drop_own_face en fd actor fid s = (Inr u, s')"
  shows "\<exists>f \<in> set (lb_faces s). pg_uuid fid = Some (fc_id f) \<and> own_face actor f \<and> set (lb_faces s') = set (lb_faces s) - {f} \<and>
    (\<forall>m \<in> set (lb_embeddings s'). em_user_id m \<noteq> Some actor) \<and>
    (\<forall>m \<in> set (lb_embeddings s). em_face_id m = fc_id f \<longrightarrow> (\<forall>p \<in> set (lb_enrolled s'). pt_id p \<noteq> em_point_id m)) \<and>
    get_face_by_user actor s' = (Inl (Sentinel ErrNotFound), s')"
proof -
  from assms(2) have "drop_face en fd None fid (own_face actor) (Some actor) None s = (Inr u, s')"
    unfolding drop_own_face_def by (rule with_db_tx_InrE)
  then obtain x f where f: "pg_uuid fid = Some x" "f \<in> set (lb_faces s)" "visible_face None x f" "own_face actor f"
    and r: "roster s' = (delete_where (visible_face None x) (lb_faces s), delete_where (\<lambda>m. em_face_id m = x) (lb_embeddings s))"
    and q: "lb_enrolled s' = delete_where (\<lambda>p. pt_id p \<in> em_point_id ` {m \<in> set (lb_embeddings s). visible_embedding None x m}) (lb_enrolled s)"
    by (rule drop_face_InrE)
  from f(3) have x: "x = fc_id f" by (simp add: visible_face_def)
  from f(4) have own: "fc_tenant_id f = None" "fc_user_id f = Some actor" by (simp_all add: own_face_def)
  have one: "g = f" if "g \<in> set (lb_faces s)" "fc_id g = fc_id f" for g
    using face_by_id [OF _ that(1) f(2) that(2)] assms(1) by (simp add: roster_def)
  have faces: "set (lb_faces s') = set (lb_faces s) - {f}"
    using r one f(2,3) x by (auto simp: roster_def set_delete_where visible_face_def shows_to_def own)
  have embeddings: "em_user_id m \<noteq> Some actor" if "m \<in> set (lb_embeddings s')" for m
  proof
    assume u: "em_user_id m = Some actor"
    from that r have m: "m \<in> set (lb_embeddings s)" "em_face_id m \<noteq> x" by (auto simp: roster_def set_delete_where)
    from assms(1) m(1) obtain g where g: "g \<in> set (lb_faces s)" "fc_id g = em_face_id m" "same_subject g m"
      by (rule embedding_subject)
    with u have "fc_user_id g = Some actor" by (simp add: same_subject_def)
    with user_face_unique [OF assms(1) g(1) f(2)] own g(2) m(2) x show False by simp
  qed
  have points: "pt_id p \<noteq> em_point_id m"
    if m: "m \<in> set (lb_embeddings s)" "em_face_id m = fc_id f" and p: "p \<in> set (lb_enrolled s')" for m p
  proof -
    from assms(1) m(1) obtain g where g: "g \<in> set (lb_faces s)" "fc_id g = em_face_id m" "same_subject g m"
      by (rule embedding_subject)
    with one m(2) have "g = f" by simp
    with g(3) own m(2) x have "visible_embedding None x m" by (simp add: same_subject_def visible_embedding_def shows_to_def)
    with m(1) p q show ?thesis by (auto simp: set_delete_where)
  qed
  have "select_one (own_face actor) (lb_faces s') = None"
    unfolding select_one_None_iff
  proof
    fix g assume g: "g \<in> set (lb_faces s')"
    show "\<not> own_face actor g"
    proof
      assume "own_face actor g"
      with user_face_unique [OF assms(1) _ f(2), of g actor] g faces own show False by (auto simp: own_face_def)
    qed
  qed
  then have "get_face_by_user actor s' = (Inl (Sentinel ErrNotFound), s')"
    by (simp add: get_face_by_user_def and_then_def reads_def found_def of_option_def fail_def)
  with f(1,2,4) x faces embeddings points show ?thesis by blast
qed


lemma get_face_at:
  assumes "faces_ok (roster s)" "f \<in> set (lb_faces s)" "pg_uuid fid = Some (fc_id f)"
  shows "get_face ctx fid s = (if shows_to ctx (fc_tenant_id f) then Inr f else Inl (Sentinel ErrNotFound), s)"
proof -
  have one: "g = f" if "g \<in> set (lb_faces s)" "fc_id g = fc_id f" for g
    using face_by_id [OF _ that(1) assms(2) that(2)] assms(1) by (simp add: roster_def)
  have "select_one (visible_face ctx (fc_id f)) (lb_faces s) = (if shows_to ctx (fc_tenant_id f) then Some f else None)"
  proof (cases "select_one (visible_face ctx (fc_id f)) (lb_faces s)")
    case None
    then have "\<not> visible_face ctx (fc_id f) f" using assms(2) by (simp add: select_one_None_iff)
    with None show ?thesis by (simp add: visible_face_def)
  next
    case (Some g)
    from select_one_SomeD [OF Some] one have "g = f" "shows_to ctx (fc_tenant_id g)" by (simp_all add: visible_face_def)
    with Some show ?thesis by simp
  qed
  then show ?thesis
    by (simp add: get_face_def with_uuid_def assms(3) and_then_def reads_def found_def of_option_def fail_def ret_def)
qed

lemma keep_points_same [simp]: "keep_points s s = s"
  by (simp add: keep_points_def)

lemma drop_face_refused:
  assumes "faces_ok (roster s)" "f \<in> set (lb_faces s)" "pg_uuid fid = Some (fc_id f)"
    and "\<not> (shows_to ctx (fc_tenant_id f) \<and> owner f)"
  shows "drop_face en fd ctx fid owner uid cid s = (Inl (Sentinel ErrNotFound), s)"
  using assms(4) by (auto simp: drop_face_def and_then_def get_face_at [OF assms(1-3)] guard_def fail_def)

text \<open>C36: Faces are kept apart: only the account that enrolled a face can drop it as its own, a workspace can drop
none but those of its own references, and it cannot search with the face of another workspace; to everybody else
the face does not exist, and nothing changes.\<close>

theorem faces_kept_apart:
  assumes "faces_ok (roster s)" and "f \<in> set (lb_faces s)" and "pg_uuid fid = Some (fc_id f)" and "tid \<noteq> ''''"
  shows "(fc_user_id f \<noteq> Some actor \<longrightarrow> drop_own_face en fd actor fid s = (Inl (Sentinel ErrNotFound), s)) \<and>
    (fc_tenant_id f \<noteq> Some tid \<longrightarrow> drop_face_by_ref en fd tid client fid s = (Inl (Sentinel ErrNotFound), s)) \<and>
    (fc_tenant_id f \<notin> {None, Some tid} \<longrightarrow> search_face fd tid eid fid pg s = (Inl (Sentinel ErrNotFound), s))"
proof (intro conjI impI)
  show "drop_own_face en fd actor fid s = (Inl (Sentinel ErrNotFound), s)" if "fc_user_id f \<noteq> Some actor"
  proof -
    have "\<not> (shows_to None (fc_tenant_id f) \<and> own_face actor f)" using that by (simp add: own_face_def)
    from drop_face_refused [where owner = "own_face actor", OF assms(1-3) this] show ?thesis
      by (simp add: drop_own_face_def with_db_tx_def)
  qed
  show "drop_face_by_ref en fd tid client fid s = (Inl (Sentinel ErrNotFound), s)" if "fc_tenant_id f \<noteq> Some tid"
  proof -
    have "\<not> (shows_to (Some tid) (fc_tenant_id f) \<and> fc_ref_id f \<noteq> None)"
      using that subject_of [OF assms(1,2)] by (auto simp: shows_to_def subject_ok_def)
    from drop_face_refused [where owner = "\<lambda>f. fc_ref_id f \<noteq> None", OF assms(1-3) this] assms(4) show ?thesis
      by (simp add: drop_face_by_ref_def with_db_tenant_tx_def with_db_tx_def)
  qed
  show "search_face fd tid eid fid pg s = (Inl (Sentinel ErrNotFound), s)" if "fc_tenant_id f \<notin> {None, Some tid}"
    using that assms(4)
    by (auto simp: search_face_def with_db_tenant_tx_def with_db_tx_def and_then_def get_face_at [OF assms(1-3)] shows_to_def)
qed

lemma photos_near_none:
  assumes "\<forall>m \<in> set ms. \<forall>p \<in> set (lb_detected s). pt_id p \<noteq> em_point_id m"
  shows "photos_near fd tid eid seen ms s = (Inr seen, s)"
  using assms
proof (induction ms)
  case (Cons m ms)
  have "select_one (\<lambda>q. pt_id q = em_point_id m) (lb_detected s) = None"
    using Cons.prems by (simp add: select_one_None_iff)
  then obtain e where e: "attempt (point_vector fd (em_point_id m)) s = (Inr (Inl e) :: go_error + (go_error + vector), s)"
    by (cases "qdrant_failed fd (GetPoint Detected (em_point_id m))")
      (simp_all add: attempt_def point_vector_def get_vector_def on_error_def and_then_def reads_def of_option_def fail_def)
  with Cons show ?case by (simp add: and_then_def)
qed (simp add: ret_def)

text \<open>The vector of an enrolled face is looked up in the collection of the faces found in photos, where it never
was: as long as no found face has the point of an embedding of the face, whatever the pictures show, a search by
an enrolled face answers with an empty page.\<close>

theorem face_search_finds_nothing:
  assumes "\<forall>m \<in> set (lb_embeddings s). \<forall>p \<in> set (lb_detected s). pt_id p \<noteq> em_point_id m"
    and "search_face fd tid eid fid pg s = (Inr page, s')"
  shows "pg_items page = [] \<and> pg_next_cursor page = '''' \<and> s' = s"
proof -
  have k: "keeps (\<lambda>t. t = s) (and_then (get_face (Some tid) fid) (\<lambda>_. list_embeddings_by_face (Some tid) fid))"
    by (intro keeps_intros)
  from assms(2) obtain ms s1 ids s2 where
    r: "with_db_tenant_tx tid (and_then (get_face (Some tid) fid) (\<lambda>_. list_embeddings_by_face (Some tid) fid)) s = (Inr ms, s1)"
    and p: "photos_near fd tid eid [] ms s1 = (Inr ids, s2)"
    and n: "(if ids = [] then ret \<lparr>pg_items = [], pg_next_cursor = ''''\<rparr>
      else in_studio (list_photos tid eid (no_filter\<lparr>pf_ids := ids\<rparr>) pg)) s2 = (Inr page, s')"
    unfolding search_face_def by (elim and_then_InrE guard_InrE)
  from r have t: "and_then (get_face (Some tid) fid) (\<lambda>_. list_embeddings_by_face (Some tid) fid) s = (Inr ms, s1)"
    by (cases "tid = ''''") (auto simp: with_db_tenant_tx_def fail_def elim: with_db_tx_InrE)
  with k have s1: "s1 = s" by (auto simp: keeps_def dest: spec [of _ s])
  from t obtain s3 x where "list_embeddings_by_face (Some tid) fid s3 = (Inr ms, s1)" "s3 = s"
    by (elim and_then_InrE) (auto elim: get_face_InrE)
  then have "set ms \<subseteq> set (lb_embeddings s)"
    by (auto simp: list_embeddings_by_face_def with_uuid_def reads_def fail_def set_select split: option.splits)
  with assms(1) have "photos_near fd tid eid [] ms s = (Inr [], s)" by (intro photos_near_none) blast
  with p have "ids = []" "s2 = s" by (simp_all add: s1)
  with n show ?thesis by (auto simp: ret_def)
qed

text \<open>No enrolment by a workspace ever succeeds: the picture is stored in the name of no user at all, which the
insert of its object refuses whatever the state.\<close>

theorem ref_enrolment_never_succeeds: "isl (fst (enroll_by_ref en fd tid r client img consent reference s))"
proof (cases "fst (enroll_by_ref en fd tid r client img consent reference s)")
  case (Inr f)
  then have "enroll_by_ref en fd tid r client img consent reference s =
      (Inr f, snd (enroll_by_ref en fd tid r client img consent reference s))" by (metis prod.collapse)
  then obtain ob s1 where "store_generated_direct (later 1 en) (fd_storage fd) (fd_sha fd) tid '''' BucketPrivate
      (temp_image_key (e_uuid en 0)) (fd_sniff fd img) img s = (Inr ob, s1)"
    unfolding enroll_by_ref_def temp_upload_by_ref_def with_temp_image_def Let_def by (elim and_then_InrE guard_InrE)
  with anonymous_store_refused [of "later 1 en" "fd_storage fd" "fd_sha fd" tid BucketPrivate
      "temp_image_key (e_uuid en 0)" "fd_sniff fd img" img s] show ?thesis by simp
qed simp


text \<open>A failure of Qdrant is not best effort: while it cannot delete the points of a face that has embeddings, the
account cannot withdraw the consent, and every row stays.\<close>

theorem drop_blocked_by_qdrant:
  assumes "faces_ok (roster s)" and "f \<in> set (lb_faces s)" and "own_face actor f" and "pg_uuid fid = Some (fc_id f)"
    and "m \<in> set (lb_embeddings s)" and "em_face_id m = fc_id f" and "\<forall>ids. ids \<noteq> [] \<longrightarrow> fd_down fd (DeletePoints Enrolled ids) = Some why"
  shows "drop_own_face en fd actor fid s = (Inl (Other (''qdrantstore: '' @ why)), s)"
proof -
  let ?x = "fc_id f"
  have own: "fc_tenant_id f = None" "shows_to None (fc_tenant_id f)" using assms(3) by (simp_all add: own_face_def shows_to_def)
  have one: "g = f" if "g \<in> set (lb_faces s)" "fc_id g = fc_id f" for g
    using face_by_id [OF _ that(1) assms(2) that(2)] assms(1) by (simp add: roster_def)
  obtain g where g: "g \<in> set (lb_faces s)" "fc_id g = em_face_id m" "same_subject g m"
    using assms(1,5) by (rule embedding_subject)
  with one assms(6) own have v: "visible_embedding None ?x m"
    by (auto simp: visible_embedding_def same_subject_def shows_to_def)
  define ids where "ids = map em_point_id (select (visible_embedding None ?x) (lb_embeddings s))"
  have n: "ids \<noteq> []" using v assms(5) by (auto simp: ids_def select_Nil_iff)
  have rows: "length (select (visible_face None ?x) (lb_faces s)) \<noteq> 0"
    using assms(2) own(2) by (auto simp: select_Nil_iff visible_face_def)
  obtain s1 where d: "drop_face_rows None fid s = (Inr ids, s1)"
    using rows by (simp add: drop_face_rows_def with_uuid_def assms(4) and_then_def reads_def writes_def check_rows_def ret_def ids_def Let_def)
  obtain s2 where a: "face_audit en (fc_tenant_id f) (Some actor) None ''face.dropped'' [(''face_id'', MetaText fid)] s1 = (Inr (), s2)"
    by (simp add: face_audit_def in_db_def writes_def)
  have "lb_enrolled s1 = lb_enrolled s \<and> lb_detected s1 = lb_detected s"
    using d by (rule drop_face_rows_InrE) simp
  then have "lb_enrolled s2 = lb_enrolled s" "lb_detected s2 = lb_detected s"
    using a by (auto simp: face_audit_def in_db_def writes_def)
  then have k: "keep_points s s2 = s" by (simp add: keep_points_def)
  have q: "delete_points fd Enrolled ids s2 = (Inl (Other (''qdrantstore: '' @ why)), s2)"
    using n assms(7) by (simp add: delete_points_def qdrant_failed_def on_error_def fail_def)
  show ?thesis
    using own(2) assms(3)
    by (simp add: drop_own_face_def with_db_tx_def drop_face_def get_face_at [OF assms(1,2,4)] and_then_def guard_def d a q k)
qed

section \<open>Runs\<close>

definition demo_face :: face where
  "demo_face = \<lparr>fc_id = demo_uuid (CHR ''2''), fc_tenant_id = None, fc_user_id = Some ''u'', fc_ref_id = None, fc_count = 1,
     fc_consented_at = 1, fc_created_at = 1, fc_updated_at = 1\<rparr>"

definition demo_ref_face :: face where
  "demo_ref_face = \<lparr>fc_id = demo_uuid (CHR ''3''), fc_tenant_id = Some ''t2'', fc_user_id = None, fc_ref_id = Some ''kid:7'', fc_count = 0,
     fc_consented_at = 1, fc_created_at = 1, fc_updated_at = 1\<rparr>"

definition demo_embedding :: embedding where
  "demo_embedding = \<lparr>em_id = demo_uuid (CHR ''4''), em_tenant_id = None, em_user_id = Some ''u'', em_ref_id = None,
     em_face_id = demo_uuid (CHR ''2''), em_point_id = demo_uuid (CHR ''5''), em_confidence = None, em_created_at = 1\<rparr>"

definition demo_lab :: lab where
  "demo_lab = studio.extend demo_portal
     \<lparr>lb_faces = [demo_face, demo_ref_face], lb_embeddings = [demo_embedding], lb_detections = [],
      lb_enrolled = [\<lparr>pt_id = demo_uuid (CHR ''5''), pt_vector = [1], pt_payload = EnrollmentPayload '''' ''u'' '''' (demo_uuid (CHR ''2''))\<rparr>],
      lb_detected = [\<lparr>pt_id = demo_uuid (CHR ''6''), pt_vector = [1], pt_payload = DetectionPayload ''t'' (demo_uuid (CHR ''e'')) (demo_uuid (CHR ''1''))\<rparr>]\<rparr>"

definition demo_face_deps :: face_deps where
  "demo_face_deps = \<lparr>fd_storage = demo_storage, fd_sha = (\<lambda>x. x), fd_sniff = (\<lambda>x. ''image/jpeg''),
     fd_embed = Some (\<lambda>n l t. Inr [\<lparr>de_bbox = (1, 1, 2, 2), de_vector = [1], de_confidence = 1\<rparr>]),
     fd_down = (\<lambda>c. None), fd_near = (\<lambda>v ps. ps)\<rparr>"

lemma demo_lab_ok: "faces_ok (roster demo_lab)"
  by code_simp

lemma demo_face_in: "demo_face \<in> set (lb_faces demo_lab)" "demo_ref_face \<in> set (lb_faces demo_lab)"
    "demo_embedding \<in> set (lb_embeddings demo_lab)" and demo_face_id: "pg_uuid (demo_uuid (CHR ''2'')) = Some (fc_id demo_face)"
    "pg_uuid (demo_uuid (CHR ''3'')) = Some (fc_id demo_ref_face)"
  by (simp add: demo_lab_def studio.extend_def, simp add: demo_lab_def studio.extend_def, simp add: demo_lab_def studio.extend_def)
    (code_simp, code_simp)

theorem faces_consistent_witness:
  "faces_ok (roster (fold (run_face_call demo_face_deps) [(demo_fresh 5, FaceEnroll ''u'' ''u'' ''img'' True)] demo_lab)) \<and>
   map fc_count (lb_faces (fold (run_face_call demo_face_deps) [(demo_fresh 5, FaceEnroll ''u'' ''u'' ''img'' True)] demo_lab)) = [2, 0]"
proof
  show "map fc_count (lb_faces (fold (run_face_call demo_face_deps) [(demo_fresh 5, FaceEnroll ''u'' ''u'' ''img'' True)] demo_lab)) = [2, 0]"
    by code_simp
qed (rule faces_consistent [OF demo_lab_ok])

theorem dropped_face_forgotten_witness:
  "\<exists>s'. drop_own_face (demo_fresh 5) demo_face_deps ''u'' (demo_uuid (CHR ''2'')) demo_lab = (Inr (), s') \<and>
     get_face_by_user ''u'' s' = (Inl (Sentinel ErrNotFound), s')"
proof -
  let ?r = "drop_own_face (demo_fresh 5) demo_face_deps ''u'' (demo_uuid (CHR ''2'')) demo_lab"
  have "\<not> isl (fst ?r)" by code_simp
  then have run: "?r = (Inr (projr (fst ?r)), snd ?r)" by (rule run_succeeded)
  from dropped_face_forgotten [OF demo_lab_ok run] run show ?thesis by auto
qed

theorem faces_kept_apart_witness:
  "drop_own_face (demo_fresh 5) demo_face_deps ''v'' (demo_uuid (CHR ''2'')) demo_lab = (Inl (Sentinel ErrNotFound), demo_lab) \<and>
   drop_face_by_ref (demo_fresh 5) demo_face_deps ''t'' ''c'' (demo_uuid (CHR ''2'')) demo_lab = (Inl (Sentinel ErrNotFound), demo_lab) \<and>
   search_face demo_face_deps ''t'' (demo_uuid (CHR ''e'')) (demo_uuid (CHR ''3'')) \<lparr>pg_limit = 20, pg_cursor = ''''\<rparr> demo_lab =
     (Inl (Sentinel ErrNotFound), demo_lab)"
proof -
  have t: "''t'' \<noteq> ''''" "''t'' \<noteq> ''t2''" "''u'' \<noteq> ''v''" by simp_all
  from faces_kept_apart [OF demo_lab_ok demo_face_in(1) demo_face_id(1) t(1), of "''v''" "demo_fresh 5" demo_face_deps "''c''"]
    faces_kept_apart [OF demo_lab_ok demo_face_in(2) demo_face_id(2) t(1), of "''v''" "demo_fresh 5" demo_face_deps "''c''"
      "demo_uuid (CHR ''e'')" "\<lparr>pg_limit = 20, pg_cursor = ''''\<rparr>"]
  show ?thesis by (simp add: demo_face_def demo_ref_face_def)
qed

theorem face_search_finds_nothing_witness:
  "\<exists>page. search_face demo_face_deps ''t'' (demo_uuid (CHR ''e'')) (demo_uuid (CHR ''2'')) \<lparr>pg_limit = 20, pg_cursor = ''''\<rparr> demo_lab =
     (Inr page, demo_lab) \<and> pg_items page = []"
proof -
  let ?r = "search_face demo_face_deps ''t'' (demo_uuid (CHR ''e'')) (demo_uuid (CHR ''2'')) \<lparr>pg_limit = 20, pg_cursor = ''''\<rparr> demo_lab"
  have "\<not> isl (fst ?r)" by code_simp
  then have run: "?r = (Inr (projr (fst ?r)), snd ?r)" by (rule run_succeeded)
  have "\<forall>m \<in> set (lb_embeddings demo_lab). \<forall>p \<in> set (lb_detected demo_lab). pt_id p \<noteq> em_point_id m" by code_simp
  from face_search_finds_nothing [OF this run] run show ?thesis by (metis prod.collapse)
qed

theorem drop_blocked_by_qdrant_witness:
  "drop_own_face (demo_fresh 5) (demo_face_deps\<lparr>fd_down := (\<lambda>c. Some ''down'')\<rparr>) ''u'' (demo_uuid (CHR ''2'')) demo_lab =
     (Inl (Other ''qdrantstore: down''), demo_lab)"
proof -
  have o: "own_face ''u'' demo_face" "em_face_id demo_embedding = fc_id demo_face"
    by (simp_all add: own_face_def demo_face_def demo_embedding_def)
  have "\<forall>ids. ids \<noteq> [] \<longrightarrow> fd_down (demo_face_deps\<lparr>fd_down := (\<lambda>c. Some ''down'')\<rparr>) (DeletePoints Enrolled ids) = Some ''down''"
    by simp
  from drop_blocked_by_qdrant [OF demo_lab_ok demo_face_in(1) o(1) demo_face_id(1) demo_face_in(3) o(2) this] show ?thesis by simp
qed

end
