(* ===== verification/Spec2Isabelle.thy ===== *)
theory Spec2Isabelle
  imports Import_Team_Props Team_Roster Participant_Listing Tenant_Listing Event_Rules Signup_Rules Job_Lifecycle Guard_Rules Client_Rules Storage_Rules Gallery_Rules Portal_Rules Face_Rules
begin

text \<open>
  A verification of the Racetify API (Go, \<open>src/internal\<close>), the server with which organizers run races:
  accounts, sign-up and sessions (\<open>auth\<close>), workspaces with their members and invitations (\<open>tenant\<close>), API
  clients (\<open>oauthclient\<close>), events, races, crew assignments and the gate of event routes (\<open>event\<close>),
  participants, teams and the bulk import (\<open>participant\<close>), background jobs (\<open>jobqueue\<close>), stored objects
  (\<open>storage\<close>), photo albums (\<open>gallery\<close>), templates (\<open>generator\<close>), certificates (\<open>certificate\<close>), the
  public pages (\<open>portal\<close>) and the search by face (\<open>face\<close>), over Postgres, Redis, Qdrant and a store of files.

  \<^bold>\<open>How the program is modelled.\<close> The state is the record \<open>db\<close> of \<open>Store\<close>, one list of rows per table in
  insertion order, with the columns of the migrations. A repository function is an action
  \<open>db \<Rightarrow> (go_error + 'a) \<times> db\<close> that reads or changes these lists; a unique index or foreign key that
  would be violated is its error. A service function is composed of repository actions in the order of
  the code: \<open>and_then\<close> for a call whose error is returned, \<open>guard\<close> for an early return, \<open>with_tx\<close> and
  \<open>with_tenant_tx\<close> for a transaction, which puts the state back when its body fails; \<open>not_found_as\<close>,
  \<open>map_error\<close> and \<open>dropping\<close> for the places where the code looks at an error or ignores it. The errors
  are those of \<open>internal/domain/errors.go\<close> and of the bounded contexts, and \<open>Domain\<close> maps them onto HTTP
  replies as \<open>respond.go\<close> does. Calls that also use Redis work on a \<open>world\<close>, the database beside the
  keys (\<open>Redis_Store\<close>), and are told which commands Redis answers, in sign-up each command by itself; calls on objects work on a \<open>depot\<close>, the database beside the objects and their
  files (\<open>Storage_Service\<close>), which the \<open>studio\<close> extends by the tables that refer to objects and by the
  job queue (\<open>Studio\<close>), and the \<open>lab\<close> further by the tables of faces and the two collections of Qdrant, which no
  transaction of Postgres puts back (\<open>Face_Service\<close>). A history of a component is a list of its calls, run one after another.

  \<^bold>\<open>Conventions.\<close> A Go string is the list of its bytes (\<open>Go_Strings\<close>: trimming, splitting,
  number formatting and parsing as the standard library does them, with the bounds of 64-bit integers
  where the code parses; letters change case in ASCII only, where Go and Postgres know all of Unicode). Times and durations are nanoseconds. A call reads the clock once (\<open>e_now\<close>) and
  draws identifiers numbered in the order the code draws them (\<open>e_uuid\<close>); opaque tokens are numbered
  the same way. Calls are atomic: two requests do not interleave, so a property about a history speaks of
  one serial order of requests. Row-level security is the tenant condition of each statement, except
  for the one entry that is written outside its tenant's transaction (\<open>audit_under\<close> in \<open>Auth_Service\<close>).
  The identifiers of photos, templates and certificates come from requests and are read as Postgres reads a
  text bound to a \<open>uuid\<close> (\<open>pg_uuid\<close>). Text of requests is UTF-8 without zero bytes; where the server itself
  may cut a text inside a rune, the statement checks it (\<open>text_ok\<close>). The foreign keys of the audit log,
  failures of the connection to Postgres, and the cancellation of a call or job are not modelled.

  \<^bold>\<open>Parameters.\<close> What the program takes from elsewhere is an argument: the hash of tokens, the derivation
  and check of passwords and the signature of claims (\<open>auth_deps\<close>), the storage objects that exist
  (\<open>objects\<close> in \<open>Event_Service\<close>), the count of API clients of a workspace (\<open>Tenant_Service\<close>), and the
  membership checker that \<open>auth\<close> and \<open>event\<close> are given as an interface (\<open>membership_check\<close>), which the
  locale \<open>membership_checker\<close> specifies and the interpretation \<open>tenant_members\<close> discharges on the tenant
  repository. No theorem assumes anything of the hash or of the signature. Further arguments are the MAC, the
  cipher and the digest of the object store and the files of a bucket (\<open>Object_Drivers\<close>, \<open>storage_deps\<close>),
  the \<open>lower\<close> of the database's collation, the drawing of a thumbnail and the service that reads BIBs
  (\<open>Gallery_Service\<close>, \<open>Photo_Jobs\<close>), the cast of a text to \<open>jsonb\<close> (\<open>template_deps\<close>), the reading and
  drawing of a design (\<open>artwork\<close>), and for faces the service that finds them in a picture, the neighbours of a
  vector and the calls to Qdrant that fail (\<open>face_deps\<close>).

  \<^bold>\<open>Theories, in the order of the code.\<close>

  \<^item> \<open>Prelude\<close>, \<open>Go_Strings\<close>, \<open>Domain\<close>, \<open>Store\<close>: actions and their laws (\<open>keeps\<close>: a call keeps an
  invariant; \<open>atomic\<close>: a call that fails changes nothing; elimination rules in \<open>act_elims\<close>), strings,
  errors and roles, tables and transactions.
  \<^item> \<open>Participant_Model\<close>, \<open>Participant_Filter\<close>, \<open>Pagination\<close>, \<open>Participant_Repo\<close>, \<open>Participant_Service\<close>,
  \<open>Import_Plan\<close>, \<open>Import_Service\<close>: \<open>internal/participant\<close> (types and field rules, filters with the SQL they
  render to, cursors with their base64 and JSON, statements, use cases, and both passes of the import
  with its application). \<open>Participant_Props\<close>, \<open>Team_Roster\<close>, \<open>Participant_Listing\<close>, \<open>Import_Plan_Props\<close>
  and \<open>Import_Team_Props\<close> show: unique indexes and references kept by every use case, failing calls
  that change nothing, teams never overfull nor against their category, listings that end and are
  complete, plans whose accepted rows collide with nothing and fit their teams.
  \<^item> \<open>Event_Model\<close>, \<open>Event_Repo\<close>, \<open>Event_Service\<close>, with \<open>Event_Props\<close> and \<open>Event_Rules\<close>:
  \<open>internal/event\<close> without assignments. Formats refine a simple description and freeze at the first
  registration; slugs have a normal form; deleting a race takes exactly its teams and participants.
  \<^item> \<open>Account_Model\<close>, \<open>User_Repo\<close>, \<open>Newest_First\<close>, \<open>Tenant_Repo\<close>, \<open>Invite_Preview\<close>, \<open>Tenant_Service\<close>,
  with \<open>Tenant_Props\<close>, \<open>Tenant_Rules\<close> and \<open>Tenant_Listing\<close>: \<open>internal/tenant\<close>,
  \<open>internal/invitepreview\<close> and the repository of \<open>internal/auth\<close>. One owner per workspace for ever,
  invitations redeemed once, removals that take effect at once, calls that stay in their tenant.
  \<^item> \<open>Assignment_Repo\<close>, \<open>Assignment_Service\<close>, with \<open>Assignment_Props\<close> and \<open>Event_Access\<close>: the crew of an
  event, \<open>RequireEventAccess\<close> and \<open>LookupEvent\<close>. Who gets through the gate, that a revocation is final,
  and that a lookup reveals only the caller's events.
  \<^item> \<open>Redis_Store\<close>, \<open>Auth_Service\<close>, with \<open>Auth_Props\<close> and \<open>Auth_Rules\<close>: \<open>internal/auth/service.go\<close> and the
  claims of \<open>internal/security/jwt.go\<close>. Sessions never outlive their cap, the reuse of a dead token ends
  its session, logout ends the session but for the grace window, and a token carries a tenant only
  with a current membership.
  \<^item> \<open>Signup\<close>, with \<open>Signup_Rules\<close>: \<open>internal/auth/signup.go\<close>. Five guesses per code, replies that do not tell
  whether an address has an account, accounts only for addresses that gave the mailed code back; and what an outage gives away.
  \<^item> \<open>Job_Queue\<close>, with \<open>Job_Lifecycle\<close>: \<open>internal/jobqueue\<close>, also as a step relation of servers and workers that
  may crash between any two statements. A job is started at most once, its outcome is final, and a
  worker that is not disturbed refines the sequential call.
  \<^item> \<open>Origin_Policy\<close>, \<open>Api_Clients\<close>, \<open>Http_Guards\<close>, with \<open>Guard_Rules\<close> and \<open>Client_Rules\<close>:
  \<open>internal/platform/originpolicy\<close>, \<open>internal/oauthclient\<close>, \<open>internal/httpapi/middleware\<close> and
  \<open>internal/platform/ratelimit\<close>. Which requests reach a route and as whom, cross-site requests, exact
  rate limits, and clients that stay locked out once revoked.
  \<^item> \<open>Object_Drivers\<close>, \<open>Storage_Service\<close>, with \<open>Storage_Rules\<close>: \<open>internal/platform/objectstorage\<close> and
  \<open>internal/storage\<close>. Private bytes move only with the signature of an unexpired link, files of two
  workspaces never meet, what is written is read back.
  \<^item> \<open>Studio\<close>, \<open>Uuid_Rules\<close>, \<open>Gallery_Repo\<close>, \<open>Gallery_Service\<close>, \<open>Photo_Jobs\<close>, with \<open>Gallery_Props\<close> and
  \<open>Gallery_Rules\<close>: \<open>internal/gallery\<close> and \<open>internal/bibdetect\<close>. Tables consistent through requests and
  jobs, states of photos that partition them, uploads that become photos, crew who see their own, and a
  duplicate reading that undoes its siblings.
  \<^item> \<open>Json_Text\<close>, \<open>Template_Service\<close>, with \<open>Template_Rules\<close>: \<open>internal/generator\<close> without drawing. One
  active template per scope, versions that name one design.
  \<^item> \<open>Certificate_Service\<close>, with \<open>Certificate_Rules\<close>: \<open>internal/certificate\<close> and the loading of
  \<open>internal/templateassets\<close>. One certificate per participant, a number for life, failed attempts that
  lose no file.
  \<^item> \<open>Portal_Service\<close>, with \<open>Portal_Rules\<close>: \<open>internal/portal\<close>. Only public albums and published certificates
  of published events show, photos as previews only, and a withdrawal works at once.
  \<^item> \<open>Face_Service\<close>, with \<open>Face_Rules\<close>: \<open>internal/face\<close>, the points of \<open>internal/platform/qdrantstore\<close> and the
  portal's search by face. Faces with exactly one kind of subject and the count of their embeddings, kept apart
  between workspaces and accounts and forgotten when dropped; a search looks in the wrong collection and an
  enrolment by a workspace is never stored. Left out are the score of a photo (nothing reads it) and the wire
  formats of both services.

  \<^bold>\<open>Interfaces.\<close> \<open>keyset_listing\<close> (\<open>Pagination\<close>) is the contract of a listing with cursors: rows, a
  selection and a position that tells rows apart; inside it, reading page after page ends and gives
  every row once. \<open>newest_listing\<close> (\<open>Newest_First\<close>) is its instance for \<open>(created_at, id)\<close> descending, by
  \<open>sublocale\<close>. They are interpreted on the participants, the teams, the events, the invitations, the
  members and the photos. \<open>membership_checker\<close> (\<open>Event_Access\<close>) is the contract of
  \<open>middleware.MembershipChecker\<close>; the gate of events, the refresh of sessions and the chain of workspace
  routes rest on it. \<open>certificate_law\<close> (\<open>Certificate_Rules\<close>) is the contract of a statement on
  certificates that new and renewed rows keep; its interpretations \<open>ledger\<close> and \<open>number\<close> give the two
  invariants.

  \<^bold>\<open>Bounds and fuel.\<close> Every definition of the program terminates by structural recursion or a measure.
  Only the clients that follow cursors carry fuel (\<open>read_participants\<close> and its like): running out of it, like a
  failing request, is the result \<open>None\<close>, and their theorems state that one request more than there are
  matching rows is enough for \<open>Some\<close> result.

  \<^bold>\<open>Not modelled.\<close> The JSON decoding of HTTP handlers and their routes; the wiring of the process and its
  configuration; the drawing of certificates and BIBs, fonts and watermarks (SVG, images and typefaces
  through external codecs); e-mail
  delivery (the mails handed over are values of \<open>mail\<close>). The connection pool and the wire format of the Redis
  client are left out: commands have their documented effect.
\<close>

end
